(* ===== verification/Prelude.thy ===== *)
theory Prelude imports Main begin

text \<open>
  Shared vocabulary of the development: the result type of operations that may throw, its
  sequencing operator and its versions of \<open>map\<close> and \<open>filter\<close>, and generic lemmas on association lists and on lists
  read from the left (\<open>takeWhile\<close>, \<open>dropWhile\<close>).
\<close>


section \<open>Computations that may throw\<close>

text \<open>An expression either throws (\<open>Inl\<close>) or yields a value (\<open>Inr\<close>).\<close>

type_synonym ('e, 'a) result = "'e + 'a"

definition andThen :: "('e, 'a) result \<Rightarrow> ('a \<Rightarrow> ('e, 'b) result) \<Rightarrow> ('e, 'b) result" where
  "andThen m f = (case m of Inl e \<Rightarrow> Inl e | Inr a \<Rightarrow> f a)"

lemma andThen_simps [simp]:
  "andThen (Inl e) f = Inl e"
  "andThen (Inr a) f = f a"
  by (simp_all add: andThen_def)

lemma andThen_Inr_iff: "andThen m f = Inr b \<longleftrightarrow> (\<exists>a. m = Inr a \<and> f a = Inr b)"
  by (cases m) auto

text \<open>A \<open>map\<close> whose callback may throw stops at the first exception.\<close>

fun mapM :: "('a \<Rightarrow> ('e, 'b) result) \<Rightarrow> 'a list \<Rightarrow> ('e, 'b list) result" where
  "mapM f [] = Inr []"
| "mapM f (x # xs) = andThen (f x) (\<lambda>y. andThen (mapM f xs) (\<lambda>ys. Inr (y # ys)))"

text \<open>A \<open>filter\<close> whose callback may throw.\<close>

fun filter_js :: "('a \<Rightarrow> ('e, bool) result) \<Rightarrow> 'a list \<Rightarrow> ('e, 'a list) result" where
  "filter_js f [] = Inr []"
| "filter_js f (x # xs) = andThen (f x) (\<lambda>b. andThen (filter_js f xs) (\<lambda>ys. Inr (if b then x # ys else ys)))"

lemma filter_js_total: "(\<And>x. x \<in> set xs \<Longrightarrow> f x = Inr (g x)) \<Longrightarrow> filter_js f xs = Inr (filter g xs)"
  by (induction xs) auto

lemma mapM_total: "(\<And>x. x \<in> set xs \<Longrightarrow> f x = Inr (g x)) \<Longrightarrow> mapM f xs = Inr (map g xs)"
  by (induction xs) auto

section \<open>Association lists\<close>

text \<open>
  Assignment to a property: an existing property keeps its place, a new one is appended.
\<close>

fun put :: "('k \<times> 'v) list \<Rightarrow> 'k \<Rightarrow> 'v \<Rightarrow> ('k \<times> 'v) list" where
  "put [] k v = [(k, v)]"
| "put ((k', v') # ps) k v = (if k' = k then (k, v) # ps else (k', v') # put ps k v)"

text \<open>Copying the entries of a second object over a first one (object spread).\<close>

definition put_all :: "('k \<times> 'v) list \<Rightarrow> ('k \<times> 'v) list \<Rightarrow> ('k \<times> 'v) list" where
  "put_all ps qs = foldl (\<lambda>acc (k, v). put acc k v) ps qs"

lemma map_of_put [simp]: "map_of (put ps k v) = (map_of ps)(k \<mapsto> v)"
  by (induction ps k v rule: put.induct) (auto simp: fun_eq_iff)

lemma keys_put: "fst ` set (put ps k v) = insert k (fst ` set ps)"
  by (induction ps k v rule: put.induct) auto

lemma distinct_put: "distinct (map fst ps) \<Longrightarrow> distinct (map fst (put ps k v))"
proof (induction ps k v rule: put.induct)
  case (2 k' v' ps k v)
  then show ?case using keys_put [of ps k v] by auto
qed simp

lemma put_all_simps [simp]:
  "put_all ps [] = ps"
  "put_all ps ((k, v) # qs) = put_all (put ps k v) qs"
  by (simp_all add: put_all_def)

lemma map_of_put_all: "map_of (put_all ps qs) k =
    (case map_of (rev qs) k of Some v \<Rightarrow> Some v | None \<Rightarrow> map_of ps k)"
  by (induction qs arbitrary: ps) (auto simp: map_add_def split: option.splits)

lemma distinct_put_all: "distinct (map fst ps) \<Longrightarrow> distinct (map fst (put_all ps qs))"
  by (induction qs arbitrary: ps) (auto simp: distinct_put)

lemma put_all_defines: "k \<in> set (map fst qs) \<Longrightarrow> \<exists>v. map_of (put_all ps qs) k = Some v"
  using map_of_eq_None_iff [of "rev qs" k] by (auto simp: map_of_put_all split: option.split)

lemma put_fresh: "k \<notin> set (map fst ps) \<Longrightarrow> put ps k v = ps @ [(k, v)]"
  by (induction ps k v rule: put.induct) auto

lemma put_all_fresh:
  "distinct (map fst (ps @ qs)) \<Longrightarrow> put_all ps qs = ps @ qs"
proof (induction qs arbitrary: ps)
  case (Cons q qs)
  then show ?case by (cases q) (auto simp: put_fresh)
qed simp

lemma put_put_same [simp]: "put (put ps k a) k b = put ps k b"
  by (induction ps k a rule: put.induct) auto

lemma put_put_swap:
  "k \<noteq> l \<Longrightarrow> k \<in> set (map fst ps) \<Longrightarrow> l \<in> set (map fst ps) \<Longrightarrow>
   put (put ps k a) l b = put (put ps l b) k a"
proof (induction ps)
  case (Cons p ps)
  obtain k' v' where p: "p = (k', v')" by (cases p)
  show ?case
  proof (cases "k' = k \<or> k' = l")
    case True
    then show ?thesis using Cons.prems(1) p by auto
  next
    case False
    then show ?thesis using Cons p by auto
  qed
qed simp

lemma put_present: "map_of ps k = Some v \<Longrightarrow> put ps k v = ps"
  by (induction ps k v rule: put.induct) (auto split: if_splits)

text \<open>A copied entry that is overwritten later leaves no trace.\<close>

lemma put_all_overwrites:
  "distinct (map fst qs) \<Longrightarrow> set (map fst qs) \<subseteq> set (map fst ps) \<Longrightarrow> k \<in> set (map fst qs) \<Longrightarrow>
   put_all (put ps k a) qs = put_all ps qs"
proof (induction qs arbitrary: ps)
  case (Cons q qs)
  obtain l b where q: "q = (l, b)" by (cases q)
  show ?case
  proof (cases "l = k")
    case True
    then show ?thesis by (simp add: q)
  next
    case False
    have "put_all (put (put ps k a) l b) qs = put_all (put (put ps l b) k a) qs"
      using Cons.prems False q by (subst put_put_swap) auto
    also have "\<dots> = put_all (put ps l b) qs"
      using Cons.prems False q by (intro Cons.IH) (auto simp: keys_put)
    finally show ?thesis by (simp add: q)
  qed
qed simp

lemma put_all_twice:
  "distinct (map fst qs) \<Longrightarrow> set (map fst qs) \<subseteq> set (map fst ps) \<Longrightarrow>
   set (map fst ds) \<subseteq> set (map fst qs) \<Longrightarrow> put_all (put_all ps ds) qs = put_all ps qs"
proof (induction ds arbitrary: ps)
  case (Cons d ds)
  obtain l b where d: "d = (l, b)" by (cases d)
  have "put_all (put_all (put ps l b) ds) qs = put_all (put ps l b) qs"
    using Cons.prems d by (intro Cons.IH) (auto simp: keys_put)
  also have "\<dots> = put_all ps qs"
    using Cons.prems d by (intro put_all_overwrites) auto
  finally show ?case by (simp add: d)
qed simp

lemma put_all_present:
  "(\<And>k v. (k, v) \<in> set qs \<Longrightarrow> map_of ps k = Some v) \<Longrightarrow> put_all ps qs = ps"
  by (induction qs) (auto simp: put_present)

lemma map_of_filter_distinct:
  "distinct (map fst ps) \<Longrightarrow>
   map_of (filter P ps) k = (case map_of ps k of
       None \<Rightarrow> None | Some v \<Rightarrow> if P (k, v) then Some v else None)"
proof (induction ps)
  case (Cons p ps)
  then show ?case
    by (cases p) (auto simp: map_of_eq_None_iff [symmetric] split: option.splits)
qed simp

section \<open>Scanning lists from the left\<close>

lemma dropWhile_Cons_fails: "dropWhile P s = c # r \<Longrightarrow> \<not> P c"
  by (metis dropWhile_eq_Cons_conv)

lemma length_dropWhile_less_Suc [simp]: "length (dropWhile P s) < Suc (length s)"
  by (simp add: length_dropWhile_le le_imp_less_Suc)

end
