(* ===== verification/JsStrings.thy ===== *)
theory JsStrings imports Prelude "HOL-Library.Code_Target_Nat" begin

text \<open>
  JavaScript strings: sequences of UTF-16 code units, and the methods of
  \<open>String.prototype\<close> that the console uses (\<open>trim\<close>, \<open>split\<close>, \<open>join\<close>, \<open>replaceAll\<close>,
  \<open>startsWith\<close>, \<open>includes\<close>, \<open>toLowerCase\<close>) with the laws their callers rest on.
\<close>

section \<open>Code units and literals\<close>

text \<open>A string is the list of its code units (numbers below 65536).\<close>

type_synonym jstr = "nat list"

text \<open>An ASCII literal of the source; literals in Chinese are written as unit lists.\<close>

definition js :: "string \<Rightarrow> jstr" where
  "js s = map of_char s"

lemma map_char_of_js: "map char_of (js s) = s"
  by (induction s) (simp_all add: js_def)

lemma js_inj [simp]: "js s = js t \<longleftrightarrow> s = t"
  by (metis map_char_of_js)

lemma js_Nil [simp]: "js [] = []"
  by (simp add: js_def)

lemma js_Nil_iff [simp]: "js s = [] \<longleftrightarrow> s = []"
  by (simp add: js_def)

lemma Nil_js_iff [simp]: "[] = js s \<longleftrightarrow> s = []"
  by (metis js_Nil_iff)

lemma length_js [simp]: "length (js s) = length s"
  by (simp add: js_def)

section \<open>White space and trimming\<close>

text \<open>White space and line terminators: what \<open>trim\<close> removes and \<open>\s\<close> matches.\<close>

definition is_space :: "nat \<Rightarrow> bool" where
  "is_space c \<longleftrightarrow>
     c \<in> {9, 10, 11, 12, 13, 32, 160, 0x1680, 0x2028, 0x2029, 0x202f, 0x205f, 0x3000, 0xfeff}
     \<or> (0x2000 \<le> c \<and> c \<le> 0x200a)"

definition trim :: "jstr \<Rightarrow> jstr" where
  "trim s = rev (dropWhile is_space (rev (dropWhile is_space s)))"

lemma trim_Nil [simp]: "trim [] = []"
  by (simp add: trim_def)

lemma trim_eq_Nil_iff: "trim s = [] \<longleftrightarrow> (\<forall>c \<in> set s. is_space c)"
proof -
  have "trim s = [] \<longleftrightarrow> (\<forall>c \<in> set (dropWhile is_space s). is_space c)"
    by (simp add: trim_def)
  also have "\<dots> \<longleftrightarrow> dropWhile is_space s = []"
    using dropWhile_Cons_fails [of is_space s]
    by (cases "dropWhile is_space s") (auto simp del: dropWhile_eq_Nil_conv)
  finally show ?thesis by simp
qed

lemma set_trim: "set (trim s) \<subseteq> set s"
  by (auto simp: trim_def dest!: set_dropWhileD)

lemma hd_dropWhile_not: "dropWhile P s \<noteq> [] \<Longrightarrow> \<not> P (hd (dropWhile P s))"
  by (rule hd_dropWhile)

lemma trim_id:
  assumes "s = [] \<or> \<not> is_space (hd s) \<and> \<not> is_space (last s)"
  shows "trim s = s"
proof -
  have "dropWhile is_space s = s" "dropWhile is_space (rev s) = rev s"
    using assms by (auto simp: dropWhile_eq_self_iff hd_rev)
  then show ?thesis by (simp add: trim_def)
qed

lemma hd_last_trim:
  assumes "trim s \<noteq> []"
  shows "\<not> is_space (hd (trim s)) \<and> \<not> is_space (last (trim s))"
proof -
  let ?l = "dropWhile is_space s"
  let ?r = "dropWhile is_space (rev ?l)"
  have ne: "?r \<noteq> []" using assms by (simp add: trim_def)
  then have l: "\<not> is_space (last (trim s))"
    using hd_dropWhile [of is_space "rev ?l"] by (simp add: trim_def last_rev)
  obtain pre where pre: "rev ?l = pre @ ?r"
    by (metis takeWhile_dropWhile_id)
  then have eq: "?l = trim s @ rev pre"
    by (metis rev_append rev_rev_ident trim_def)
  then have "hd ?l = hd (trim s)" using assms by simp
  moreover have "\<not> is_space (hd ?l)"
    using eq assms hd_dropWhile [of is_space s] by auto
  ultimately show ?thesis using l by simp
qed

lemma trim_trim [simp]: "trim (trim s) = trim s"
  by (rule trim_id) (use hd_last_trim in blast)

section \<open>Searching, splitting and replacing\<close>

definition starts_with :: "jstr \<Rightarrow> jstr \<Rightarrow> bool" where
  "starts_with s p \<longleftrightarrow> take (length p) s = p"

definition ends_with :: "jstr \<Rightarrow> jstr \<Rightarrow> bool" where
  "ends_with s p \<longleftrightarrow> starts_with (rev s) (rev p)"

fun includes_str :: "jstr \<Rightarrow> jstr \<Rightarrow> bool" where
  "includes_str [] p \<longleftrightarrow> p = []"
| "includes_str (c # s) p \<longleftrightarrow> starts_with (c # s) p \<or> includes_str s p"

lemma starts_with_append [simp]: "starts_with (p @ r) p"
  by (simp add: starts_with_def)

lemma starts_withE: "starts_with s p \<Longrightarrow> \<exists>r. s = p @ r"
  by (metis append_take_drop_id starts_with_def)

lemma starts_with_iff: "starts_with s p \<longleftrightarrow> (\<exists>r. s = p @ r)"
  using starts_withE by auto

text \<open>\<open>s.split(c)\<close> with a one-unit separator, and \<open>parts.join(sep)\<close>.\<close>

fun split_on :: "nat \<Rightarrow> jstr \<Rightarrow> jstr list" where
  "split_on c [] = [[]]"
| "split_on c (x # xs) =
     (if x = c then [] # split_on c xs
      else (case split_on c xs of [] \<Rightarrow> [[x]] | p # ps \<Rightarrow> (x # p) # ps))"

fun join :: "jstr \<Rightarrow> jstr list \<Rightarrow> jstr" where
  "join sep [] = []"
| "join sep [p] = p"
| "join sep (p # q # ps) = p @ sep @ join sep (q # ps)"

lemma split_on_nonempty [simp]: "split_on c s \<noteq> []"
  by (induction s) (auto split: list.splits)

lemma join_Cons: "ps \<noteq> [] \<Longrightarrow> join sep (p # ps) = p @ sep @ join sep ps"
  by (cases ps) auto

lemma join_split_on: "join [c] (split_on c s) = s"
proof (induction s)
  case (Cons x xs)
  show ?case
  proof (cases "x = c")
    case True
    then show ?thesis using Cons by (simp add: join_Cons)
  next
    case False
    obtain p ps where sp: "split_on c xs = p # ps"
      by (metis list.exhaust split_on_nonempty)
    have "join [c] ((x # p) # ps) = x # join [c] (p # ps)"
      by (cases ps) auto
    then show ?thesis using False Cons sp by simp
  qed
qed simp

lemma split_on_no_sep: "\<forall>p \<in> set (split_on c s). c \<notin> set p"
  by (induction s) (auto split: list.splits)

text \<open>\<open>s.replaceAll(pat, rep)\<close> for a non-empty pattern, left to right, not overlapping.\<close>

function replace_all :: "jstr \<Rightarrow> jstr \<Rightarrow> jstr \<Rightarrow> jstr" where
  "replace_all pat rep s =
     (case s of [] \<Rightarrow> []
      | c # r \<Rightarrow> if pat \<noteq> [] \<and> starts_with s pat
                then rep @ replace_all pat rep (drop (length pat) s)
                else c # replace_all pat rep r)"
  by pat_completeness auto
termination
  by (relation "measure (\<lambda>(pat, rep, s). length s)") auto

declare replace_all.simps [simp del]

lemma replace_all_Nil [simp]: "replace_all pat rep [] = []"
  by (simp add: replace_all.simps)

lemma replace_all_Cons:
  "pat \<noteq> [] \<Longrightarrow> replace_all pat rep (c # r) =
     (if starts_with (c # r) pat then rep @ replace_all pat rep (drop (length pat) (c # r))
      else c # replace_all pat rep r)"
  by (simp add: replace_all.simps [of _ _ "c # r"])

text \<open>A one-unit pattern is replaced unit by unit.\<close>

lemma replace_all_unit:
  "replace_all [p] rep s = concat (map (\<lambda>c. if c = p then rep else [c]) s)"
  by (induction s) (auto simp: replace_all_Cons starts_with_def)

section \<open>Case folding\<close>

text \<open>
  \<open>toLowerCase\<close> by code unit: exact for ASCII, Latin-1, basic Greek and Cyrillic, for the
  two letters outside ASCII whose lower case is (or starts with) an ASCII letter (U+0130,
  U+212A) and for U+212B.  Units of scripts without case, among them all Chinese text of the
  program, are mapped to themselves; the remaining cased scripts are outside the model.
\<close>

definition upper32 :: "nat \<Rightarrow> bool" where
  "upper32 c \<longleftrightarrow> (65 \<le> c \<and> c \<le> 90) \<or> (0xc0 \<le> c \<and> c \<le> 0xde \<and> c \<noteq> 0xd7)
     \<or> (0x391 \<le> c \<and> c \<le> 0x3a9 \<and> c \<noteq> 0x3a2) \<or> (0x410 \<le> c \<and> c \<le> 0x42f)"

definition upper80 :: "nat \<Rightarrow> bool" where
  "upper80 c \<longleftrightarrow> 0x400 \<le> c \<and> c \<le> 0x40f"

definition lower_special :: "nat \<Rightarrow> nat list option" where
  "lower_special c =
     (if c = 0x130 then Some [105, 0x307] else if c = 0x212a then Some [107]
      else if c = 0x212b then Some [0xe5] else None)"

definition lower_unit :: "nat \<Rightarrow> nat list" where
  "lower_unit c =
     (if upper32 c then [c + 32] else if upper80 c then [c + 80]
      else (case lower_special c of Some s \<Rightarrow> s | None \<Rightarrow> [c]))"

lemma upper32_shift: "upper32 c \<Longrightarrow> \<not> upper32 (c + 32) \<and> \<not> upper80 (c + 32) \<and> lower_special (c + 32) = None"
  unfolding upper32_def upper80_def lower_special_def by (elim disjE) auto

lemma upper80_shift: "upper80 c \<Longrightarrow> \<not> upper32 (c + 80) \<and> \<not> upper80 (c + 80) \<and> lower_special (c + 80) = None"
  unfolding upper32_def upper80_def lower_special_def by auto

lemma lower_special_fixed:
  "lower_special c = Some s \<Longrightarrow> x \<in> set s \<Longrightarrow> \<not> upper32 x \<and> \<not> upper80 x \<and> lower_special x = None"
  unfolding lower_special_def by (auto simp: upper32_def upper80_def split: if_splits)

definition to_lower :: "jstr \<Rightarrow> jstr" where
  "to_lower s = concat (map lower_unit s)"

lemma to_lower_append [simp]: "to_lower (s @ t) = to_lower s @ to_lower t"
  by (simp add: to_lower_def)

lemma lower_unit_fixed: "x \<in> set (lower_unit c) \<Longrightarrow> lower_unit x = [x]"
  using upper32_shift [of c] upper80_shift [of c] lower_special_fixed [of c]
  by (auto simp: lower_unit_def split: if_splits option.splits)

lemma lower_unit_idem: "concat (map lower_unit (lower_unit c)) = lower_unit c"
proof -
  have "map lower_unit (lower_unit c) = map (\<lambda>x. [x]) (lower_unit c)"
    by (rule map_cong) (auto intro: lower_unit_fixed)
  then show ?thesis by (simp only: concat_map_singleton map_ident)
qed

lemma to_lower_idem [simp]: "to_lower (to_lower s) = to_lower s"
proof (induction s)
  case (Cons c s)
  then show ?case
    using lower_unit_idem [of c] by (simp add: to_lower_def)
qed (simp add: to_lower_def)

lemma to_lower_no_upper: "c \<in> set (to_lower s) \<Longrightarrow> \<not> (65 \<le> c \<and> c \<le> 90)"
  by (auto simp: to_lower_def dest!: lower_unit_fixed) (simp add: lower_unit_def upper32_def)

end
