(* ===== verification/JsNumbers.thy ===== *)
theory JsNumbers imports Complex_Main JsStrings begin

text \<open>
  JavaScript numbers: IEEE doubles as exact rationals with NaN and the infinities, rounding to
  the nearest double, the relational operators, \<open>Number(string)\<close> and \<open>String(number)\<close>.
  The sign of zero is not represented: no operation of the console observes it.
\<close>

section \<open>Values and rounding\<close>

datatype jnum = NaN | PInf | NInf | Fin rat

definition pow2 :: "int \<Rightarrow> rat" where
  "pow2 k = (if 0 \<le> k then 2 ^ nat k else 1 / 2 ^ nat (- k))"

fun int_log2 :: "int \<Rightarrow> int" where
  "int_log2 n = (if n < 2 then 0 else 1 + int_log2 (n div 2))"

declare int_log2.simps [simp del]

text \<open>The exponent of the leading bit of a positive rational.\<close>

definition rat_log2 :: "rat \<Rightarrow> int" where
  "rat_log2 q = (let (p, r) = quotient_of q; k = int_log2 p - int_log2 r
                 in if pow2 k \<le> q then k else k - 1)"

definition round_half_even :: "rat \<Rightarrow> int" where
  "round_half_even q = (let f = \<lfloor>q\<rfloor>; d = q - of_int f
     in if d < 1/2 then f else if d > 1/2 then f + 1 else if even f then f else f + 1)"

text \<open>
  The double nearest to a rational: 53 significant bits, subnormals below \<open>2 ^ -1022\<close>, and
  an infinity from \<open>2 ^ 1024\<close> on, which is a significand of \<open>2 ^ 53\<close> at exponent 971.
\<close>

definition to_double :: "rat \<Rightarrow> jnum" where
  "to_double q =
     (if q = 0 then Fin 0
      else let a = \<bar>q\<bar>; e = max (rat_log2 a - 52) (- 1074);
               m = round_half_even (a / pow2 e); v = of_int m * pow2 e
           in if 971 < e \<or> (e = 971 \<and> m = 2 ^ 53) then (if q < 0 then NInf else PInf)
              else Fin (if q < 0 then - v else v))"

text \<open>Relational operators: every comparison with NaN is false.\<close>

instantiation jnum :: ord
begin

definition less_eq_jnum :: "jnum \<Rightarrow> jnum \<Rightarrow> bool" where
  "less_eq_jnum x y = (case (x, y) of
      (NaN, _) \<Rightarrow> False | (_, NaN) \<Rightarrow> False
    | (NInf, _) \<Rightarrow> True | (_, PInf) \<Rightarrow> True
    | (Fin p, Fin q) \<Rightarrow> p \<le> q | _ \<Rightarrow> False)"

definition less_jnum :: "jnum \<Rightarrow> jnum \<Rightarrow> bool" where
  "less_jnum x y = (case (x, y) of
      (NaN, _) \<Rightarrow> False | (_, NaN) \<Rightarrow> False
    | (NInf, NInf) \<Rightarrow> False | (NInf, _) \<Rightarrow> True
    | (PInf, _) \<Rightarrow> False | (_, PInf) \<Rightarrow> True
    | (Fin p, Fin q) \<Rightarrow> p < q | (_, NInf) \<Rightarrow> False)"

instance ..

end

lemma jnum_less_eq_simps [simp]:
  "Fin p \<le> Fin q \<longleftrightarrow> p \<le> q" "\<not> NaN \<le> y" "\<not> x \<le> NaN"
  "\<not> PInf \<le> Fin q" "NInf \<le> Fin q" "Fin p \<le> PInf" "\<not> Fin p \<le> NInf"
  by (cases x; cases y; simp add: less_eq_jnum_def)+

lemma jnum_less_simps [simp]:
  "Fin p < Fin q \<longleftrightarrow> p < q" "\<not> NaN < y" "\<not> x < NaN"
  "\<not> PInf < Fin q" "NInf < Fin q" "Fin p < PInf" "\<not> Fin p < NInf"
  by (cases x; cases y; simp add: less_jnum_def)+

definition is_finite :: "jnum \<Rightarrow> bool" where
  "is_finite n \<longleftrightarrow> (case n of Fin q \<Rightarrow> True | _ \<Rightarrow> False)"

lemma is_finite_simps [simp]:
  "is_finite (Fin q)" "\<not> is_finite NaN" "\<not> is_finite PInf" "\<not> is_finite NInf"
  by (simp_all add: is_finite_def)

definition num_of_int :: "int \<Rightarrow> jnum" where
  "num_of_int n = to_double (of_int n)"

section \<open>Number to string\<close>

function dec_digits :: "int \<Rightarrow> jstr" where
  "dec_digits n = (if n < 10 then [nat (48 + n)] else dec_digits (n div 10) @ [nat (48 + n mod 10)])"
  by pat_completeness auto
termination
  by (relation "measure nat") auto

declare dec_digits.simps [simp del]

text \<open>
  The decimal exponent \<open>n\<close> with \<open>10 ^ (n - 1) \<le> x < 10 ^ n\<close> of a positive double.  A double
  is at least \<open>2 ^ -1074\<close>, so 330 multiplications by ten bring every one of them above 1.
\<close>

fun dec_exponent :: "nat \<Rightarrow> rat \<Rightarrow> int" where
  "dec_exponent 0 x = 0"
| "dec_exponent (Suc fuel) x =
     (if 1 \<le> x then int (length (dec_digits \<lfloor>x\<rfloor>)) else dec_exponent fuel (10 * x) - 1)"

definition pow10 :: "int \<Rightarrow> rat" where
  "pow10 k = (if 0 \<le> k then 10 ^ nat k else 1 / 10 ^ nat (- k))"

text \<open>
  The digits of \<open>Number::toString\<close>: the fewest digits \<open>s\<close> such that \<open>s * 10 ^ (n - k)\<close> rounds
  to \<open>x\<close>; of two candidates of the same length the nearer.  Seventeen digits always suffice.
\<close>

fun shortest_digits :: "nat \<Rightarrow> nat \<Rightarrow> int \<Rightarrow> rat \<Rightarrow> int \<times> nat" where
  "shortest_digits 0 k n x = (\<lfloor>x * pow10 (int k - n)\<rfloor>, k)"
| "shortest_digits (Suc fuel) k n x =
     (let y = x * pow10 (int k - n); lo = \<lfloor>y\<rfloor>; hi = lo + 1;
          ok = (\<lambda>s. 0 < s \<and> to_double (of_int s * pow10 (n - int k)) = Fin x)
      in if ok lo \<and> (\<not> ok hi \<or> y - of_int lo \<le> of_int hi - y) then (lo, k)
         else if ok hi then (hi, k)
         else shortest_digits fuel (Suc k) n x)"

definition zeros :: "int \<Rightarrow> jstr" where
  "zeros n = replicate (nat n) 48"

definition pos_rat_to_string :: "rat \<Rightarrow> jstr" where
  "pos_rat_to_string x =
     (let n0 = dec_exponent 330 x; (s0, k0) = shortest_digits 16 1 n0 x;
          ds0 = dec_digits s0; n = n0 + int (length ds0) - int k0;
          ds = rev (dropWhile (\<lambda>c. c = 48) (rev ds0)); k = int (length ds)
      in if k \<le> n \<and> n \<le> 21 then ds @ zeros (n - k)
         else if 0 < n \<and> n \<le> 21 then take (nat n) ds @ [46] @ drop (nat n) ds
         else if - 6 < n \<and> n \<le> 0 then [48, 46] @ zeros (- n) @ ds
         else let e = n - 1;
                  tail = [101, if 0 \<le> e then 43 else 45] @ dec_digits \<bar>e\<bar>
              in (if k = 1 then ds else take 1 ds @ [46] @ drop 1 ds) @ tail)"

definition num_to_string :: "jnum \<Rightarrow> jstr" where
  "num_to_string n = (case n of
      NaN \<Rightarrow> js ''NaN'' | PInf \<Rightarrow> js ''Infinity'' | NInf \<Rightarrow> js ''-Infinity''
    | Fin q \<Rightarrow>
        if q = 0 then js ''0''
        else if q = of_int \<lfloor>q\<rfloor> \<and> \<bar>q\<bar> \<le> 2 ^ 53 then
          (if q < 0 then [45] @ dec_digits (- \<lfloor>q\<rfloor>) else dec_digits \<lfloor>q\<rfloor>)
        else if q < 0 then [45] @ pos_rat_to_string (- q) else pos_rat_to_string q)"

section \<open>String to number\<close>

definition is_digit :: "nat \<Rightarrow> bool" where
  "is_digit c \<longleftrightarrow> 48 \<le> c \<and> c \<le> 57"

definition digits_value :: "int \<Rightarrow> jstr \<Rightarrow> int" where
  "digits_value b s = foldl (\<lambda>acc c. b * acc +
     (if c \<le> 57 then int c - 48 else if c \<le> 90 then int c - 55 else int c - 87)) 0 s"

definition is_base_digit :: "nat \<Rightarrow> nat \<Rightarrow> bool" where
  "is_base_digit b c \<longleftrightarrow> (if b = 16 then is_digit c \<or> (65 \<le> c \<and> c \<le> 70) \<or> (97 \<le> c \<and> c \<le> 102)
                          else 48 \<le> c \<and> c < 48 + b)"

text \<open>An exponent part: \<open>None\<close> when malformed.\<close>

definition parse_exponent :: "jstr \<Rightarrow> int option" where
  "parse_exponent s = (case s of
      [] \<Rightarrow> Some 0
    | c # r \<Rightarrow>
        if c = 101 \<or> c = 69 then
          (let (sg, ds) = (case r of [] \<Rightarrow> (1, []) | d # t \<Rightarrow>
                 if d = 43 then (1, t) else if d = 45 then (- 1, t) else (1, d # t))
           in if ds \<noteq> [] \<and> list_all is_digit ds then Some (sg * digits_value 10 ds) else None)
        else None)"

text \<open>An unsigned decimal literal: digits, an optional fraction, an optional exponent.\<close>

definition parse_unsigned :: "jstr \<Rightarrow> jnum" where
  "parse_unsigned s =
     (let ip = takeWhile is_digit s; r = dropWhile is_digit s;
          (fp, r', dot) = (case r of [] \<Rightarrow> ([], [], False)
            | c # t \<Rightarrow> if c = 46 then (takeWhile is_digit t, dropWhile is_digit t, True) else ([], r, False))
      in if s = js ''Infinity'' then PInf
         else if ip = [] \<and> fp = [] then NaN
         else (case parse_exponent r' of None \<Rightarrow> NaN
               | Some e \<Rightarrow> to_double (of_int (digits_value 10 (ip @ fp)) * pow10 (e - int (length fp)))))"

definition num_neg :: "jnum \<Rightarrow> jnum" where
  "num_neg n = (case n of NaN \<Rightarrow> NaN | PInf \<Rightarrow> NInf | NInf \<Rightarrow> PInf | Fin q \<Rightarrow> Fin (- q))"

definition radix_literal :: "jstr \<Rightarrow> jnum option" where
  "radix_literal s = (case s of
      a # b # ds \<Rightarrow>
        if a \<noteq> 48 then None
        else (let base = (if b = 120 \<or> b = 88 then 16 else if b = 111 \<or> b = 79 then 8
                          else if b = 98 \<or> b = 66 then 2 else 0 :: nat)
              in if base = 0 then None
                 else if ds \<noteq> [] \<and> list_all (is_base_digit base) ds
                      then Some (to_double (of_int (digits_value (int base) ds))) else Some NaN)
    | _ \<Rightarrow> None)"

definition string_to_num :: "jstr \<Rightarrow> jnum" where
  "string_to_num s0 =
     (let s = trim s0
      in case s of [] \<Rightarrow> Fin 0
         | c # r \<Rightarrow> (case radix_literal s of Some n \<Rightarrow> n
             | None \<Rightarrow> if c = 43 then parse_unsigned r
                       else if c = 45 then num_neg (parse_unsigned r)
                       else parse_unsigned s))"

section \<open>Arithmetic\<close>

definition num_mul :: "jnum \<Rightarrow> jnum \<Rightarrow> jnum" where
  "num_mul x y = (case (x, y) of
      (Fin p, Fin q) \<Rightarrow> to_double (p * q)
    | (NaN, _) \<Rightarrow> NaN | (_, NaN) \<Rightarrow> NaN
    | (Fin p, i) \<Rightarrow> if p = 0 then NaN else if p < 0 then num_neg i else i
    | (i, Fin p) \<Rightarrow> if p = 0 then NaN else if p < 0 then num_neg i else i
    | (i, j) \<Rightarrow> if i = j then PInf else NInf)"

text \<open>\<open>Math.round\<close>: halves go up.\<close>

definition math_round :: "jnum \<Rightarrow> jnum" where
  "math_round n = (case n of Fin q \<Rightarrow> Fin (of_int \<lfloor>q + 1/2\<rfloor>) | _ \<Rightarrow> n)"

definition math_max :: "jnum \<Rightarrow> jnum \<Rightarrow> jnum" where
  "math_max x y = (if x = NaN \<or> y = NaN then NaN else if x \<le> y then y else x)"

definition math_min :: "jnum \<Rightarrow> jnum \<Rightarrow> jnum" where
  "math_min x y = (if x = NaN \<or> y = NaN then NaN else if x \<le> y then x else y)"

end
