(* ===== verification/JsValues.thy ===== *)
theory JsValues imports JsNumbers begin

text \<open>
  JavaScript values as the console handles them: the tree-shaped data that \<open>JSON.parse\<close>
  yields, \<open>undefined\<close>, and the functions an object literal inherits from
  \<open>Object.prototype\<close>.  Property access, the logical operators \<open>||\<close>, \<open>&&\<close>, \<open>??\<close> and \<open>?.\<close>,
  strict equality and the conversions \<open>Boolean\<close>, \<open>String\<close> and \<open>Number\<close>.

  Conventions.  An object lists its own enumerable properties in the order of
  \<open>Object.entries\<close>.  Values are trees, so two compound values are never the same object and
  \<open>===\<close> between them is false; the one module that compares identities
  (\<open>utils/format.js\<close>) works on an explicit heap.  Objects do not redefine \<open>toString\<close> or
  \<open>valueOf\<close>; named properties other than \<open>length\<close> are not attached to arrays.
\<close>

datatype jsval =
    JUndef
  | JNull
  | JBool bool
  | JNum jnum
  | JStr jstr
  | JArr "jsval list"
  | JObj "(jstr \<times> jsval) list"
  | JFun jstr

type_synonym props = "(jstr \<times> jsval) list"

abbreviation S :: "string \<Rightarrow> jsval" where "S s \<equiv> JStr (js s)"
abbreviation N :: "int \<Rightarrow> jsval" where "N i \<equiv> JNum (Fin (of_int i))"

text \<open>
  Exceptions.  An \<open>AdminApiError\<close> has the fields of the class; an error of the host (what a
  rejected \<open>fetch\<close> yields, for instance) is given by its properties.
\<close>

record api_error =
  ae_message :: jstr
  ae_status :: jsval
  ae_code :: jsval
  ae_meta :: jsval
  ae_requestId :: jsval
  ae_payload :: jsval
  ae_cause :: jsval

datatype jserror =
    TypeError
  | URIError
  | ReferenceError
  | PlainError jstr
  | HostError jsval
  | AdminApiError api_error

type_synonym 'a js = "(jserror, 'a) result"

section \<open>Truthiness and the logical operators\<close>

definition truthy :: "jsval \<Rightarrow> bool" where
  "truthy v = (case v of
      JUndef \<Rightarrow> False | JNull \<Rightarrow> False | JBool b \<Rightarrow> b
    | JNum n \<Rightarrow> n \<noteq> NaN \<and> n \<noteq> Fin 0 | JStr s \<Rightarrow> s \<noteq> [] | _ \<Rightarrow> True)"

definition is_nullish :: "jsval \<Rightarrow> bool" where
  "is_nullish v \<longleftrightarrow> v = JUndef \<or> v = JNull"

text \<open>\<open>a || b\<close>, \<open>a && b\<close> and \<open>a ?? b\<close> on evaluated operands.\<close>

definition js_or :: "jsval \<Rightarrow> jsval \<Rightarrow> jsval" where
  "js_or a b = (if truthy a then a else b)"

definition js_and :: "jsval \<Rightarrow> jsval \<Rightarrow> jsval" where
  "js_and a b = (if truthy a then b else a)"

definition js_coalesce :: "jsval \<Rightarrow> jsval \<Rightarrow> jsval" where
  "js_coalesce a b = (if is_nullish a then b else a)"

lemma truthy_simps [simp]:
  "\<not> truthy JUndef" "\<not> truthy JNull" "truthy (JBool b) = b"
  "truthy (JStr s) \<longleftrightarrow> s \<noteq> []" "truthy (JArr xs)" "truthy (JObj ps)" "truthy (JFun f)"
  "truthy (JNum (Fin q)) \<longleftrightarrow> q \<noteq> 0" "\<not> truthy (JNum NaN)"
  by (simp_all add: truthy_def)

lemma is_nullish_simps [simp]:
  "is_nullish JUndef" "is_nullish JNull" "\<not> is_nullish (JBool b)" "\<not> is_nullish (JNum n)"
  "\<not> is_nullish (JStr s)" "\<not> is_nullish (JArr xs)" "\<not> is_nullish (JObj ps)" "\<not> is_nullish (JFun f)"
  by (simp_all add: is_nullish_def)

lemma truthy_js_or [simp]: "truthy (js_or a b) \<longleftrightarrow> truthy a \<or> truthy b"
  by (simp add: js_or_def)

lemma js_or_truthy [simp]: "truthy a \<Longrightarrow> js_or a b = a"
  by (simp add: js_or_def)

lemma js_or_falsy [simp]: "\<not> truthy a \<Longrightarrow> js_or a b = b"
  by (simp add: js_or_def)

lemma js_coalesce_simps [simp]:
  "is_nullish a \<Longrightarrow> js_coalesce a b = b" "\<not> is_nullish a \<Longrightarrow> js_coalesce a b = a"
  by (simp_all add: js_coalesce_def)

lemma truthy_not_nullish: "truthy v \<Longrightarrow> \<not> is_nullish v"
  by (cases v) auto

text \<open>A parameter with a default: the default replaces \<open>undefined\<close> only.\<close>

definition with_default :: "jsval \<Rightarrow> jsval \<Rightarrow> jsval" where
  "with_default v d = (if v = JUndef then d else v)"

section \<open>Types and equality\<close>

text \<open>\<open>value && typeof value === 'object'\<close>, \<open>Array.isArray\<close>.\<close>

definition is_object :: "jsval \<Rightarrow> bool" where
  "is_object v = (case v of JArr _ \<Rightarrow> True | JObj _ \<Rightarrow> True | _ \<Rightarrow> False)"

definition is_array :: "jsval \<Rightarrow> bool" where
  "is_array v = (case v of JArr _ \<Rightarrow> True | _ \<Rightarrow> False)"

definition elems :: "jsval \<Rightarrow> jsval list" where
  "elems v = (case v of JArr xs \<Rightarrow> xs | _ \<Rightarrow> [])"

definition is_string :: "jsval \<Rightarrow> bool" where
  "is_string v = (case v of JStr _ \<Rightarrow> True | _ \<Rightarrow> False)"

definition is_boolean :: "jsval \<Rightarrow> bool" where
  "is_boolean v = (case v of JBool _ \<Rightarrow> True | _ \<Rightarrow> False)"

lemma kind_simps [simp]:
  "is_object (JArr xs)" "is_object (JObj ps)" "\<not> is_object JUndef" "\<not> is_object JNull"
  "\<not> is_object (JBool b)" "\<not> is_object (JNum n)" "\<not> is_object (JStr s)" "\<not> is_object (JFun f)"
  "is_array (JArr xs)" "\<not> is_array JUndef" "\<not> is_array JNull" "\<not> is_array (JBool b)"
  "\<not> is_array (JNum n)" "\<not> is_array (JStr s)" "\<not> is_array (JObj ps)" "\<not> is_array (JFun f)"
  "elems (JArr xs) = xs"
  "is_string (JStr s)" "\<not> is_string JUndef" "\<not> is_string JNull" "\<not> is_string (JBool b)"
  "\<not> is_string (JNum n)" "\<not> is_string (JArr xs)" "\<not> is_string (JObj ps)" "\<not> is_string (JFun f)"
  "is_boolean (JBool b)" "\<not> is_boolean JUndef" "\<not> is_boolean JNull" "\<not> is_boolean (JStr s)"
  "\<not> is_boolean (JNum n)" "\<not> is_boolean (JArr xs)" "\<not> is_boolean (JObj ps)" "\<not> is_boolean (JFun f)"
  by (simp_all add: is_object_def is_array_def elems_def is_string_def is_boolean_def)

lemma is_arrayE: "is_array v \<Longrightarrow> (\<And>xs. v = JArr xs \<Longrightarrow> P) \<Longrightarrow> P"
  by (cases v) auto

text \<open>\<open>a === b\<close>.\<close>

definition strict_eq :: "jsval \<Rightarrow> jsval \<Rightarrow> bool" where
  "strict_eq a b = (case a of
      JArr _ \<Rightarrow> False | JObj _ \<Rightarrow> False | JNum NaN \<Rightarrow> False | _ \<Rightarrow> a = b)"

lemma strict_eq_simps [simp]:
  "strict_eq (JBool x) v \<longleftrightarrow> v = JBool x" "strict_eq (JStr s) v \<longleftrightarrow> v = JStr s"
  "strict_eq JUndef v \<longleftrightarrow> v = JUndef" "strict_eq JNull v \<longleftrightarrow> v = JNull"
  "strict_eq (JNum (Fin q)) v \<longleftrightarrow> v = JNum (Fin q)"
  by (auto simp: strict_eq_def)

lemma strict_eq_const [simp]:
  "strict_eq v (JBool x) \<longleftrightarrow> v = JBool x" "strict_eq v (JStr s) \<longleftrightarrow> v = JStr s"
  "strict_eq v JUndef \<longleftrightarrow> v = JUndef" "strict_eq v JNull \<longleftrightarrow> v = JNull"
  by (cases v; auto simp: strict_eq_def split: jnum.splits)+

section \<open>Properties\<close>

text \<open>
  What a plain object inherits: the methods of \<open>Object.prototype\<close>, its \<open>constructor\<close>, and
  the accessor \<open>__proto__\<close> that yields \<open>Object.prototype\<close> itself, an object without
  enumerable properties.
\<close>

definition proto_methods :: "string list" where
  "proto_methods = [''hasOwnProperty'', ''isPrototypeOf'', ''propertyIsEnumerable'',
     ''toLocaleString'', ''toString'', ''valueOf'', ''__defineGetter__'', ''__defineSetter__'',
     ''__lookupGetter__'', ''__lookupSetter__'']"

definition inherited :: "jstr \<Rightarrow> jsval" where
  "inherited k =
     (if k = js ''constructor'' then JFun (js ''Object'')
      else if k = js ''__proto__'' then JObj []
      else if k \<in> set (map js proto_methods) then JFun k
      else JUndef)"

definition lookup_prop :: "props \<Rightarrow> jstr \<Rightarrow> jsval" where
  "lookup_prop ps k = (case map_of ps k of Some v \<Rightarrow> v | None \<Rightarrow> inherited k)"

definition own_prop :: "props \<Rightarrow> jstr \<Rightarrow> bool" where
  "own_prop ps k \<longleftrightarrow> k \<in> set (map fst ps)"

text \<open>\<open>v.k\<close> on a value that is not nullish: primitives and functions have none of the
  properties the console names.\<close>

definition get_prop :: "jsval \<Rightarrow> jstr \<Rightarrow> jsval" where
  "get_prop v k = (case v of
      JObj ps \<Rightarrow> lookup_prop ps k
    | JArr xs \<Rightarrow> if k = js ''length'' then N (int (length xs)) else JUndef
    | JStr s \<Rightarrow> if k = js ''length'' then N (int (length s)) else JUndef
    | _ \<Rightarrow> JUndef)"

text \<open>\<open>v?.k\<close> yields \<open>undefined\<close> on a nullish value, \<open>v.k\<close> throws there.\<close>

definition get_opt :: "jsval \<Rightarrow> jstr \<Rightarrow> jsval" where
  "get_opt v k = (if is_nullish v then JUndef else get_prop v k)"

definition get_or_throw :: "jsval \<Rightarrow> jstr \<Rightarrow> jsval js" where
  "get_or_throw v k = (if is_nullish v then Inl TypeError else Inr (get_prop v k))"

lemma get_opt_simps [simp]:
  "get_opt JUndef k = JUndef" "get_opt JNull k = JUndef"
  "get_opt (JObj ps) k = lookup_prop ps k" "get_opt (JBool b) k = JUndef"
  "get_opt (JNum n) k = JUndef" "get_opt (JFun f) k = JUndef"
  by (simp_all add: get_opt_def get_prop_def)

lemma get_prop_simps [simp]:
  "get_prop (JObj ps) k = lookup_prop ps k" "get_prop JUndef k = JUndef"
  "get_prop JNull k = JUndef" "get_prop (JBool b) k = JUndef" "get_prop (JNum n) k = JUndef"
  "get_prop (JFun f) k = JUndef"
  by (simp_all add: get_prop_def)

lemma get_prop_arr_str:
  "k \<noteq> js ''length'' \<Longrightarrow> get_prop (JArr xs) k = JUndef"
  "k \<noteq> js ''length'' \<Longrightarrow> get_prop (JStr s) k = JUndef"
  by (simp_all add: get_prop_def)

lemma get_opt_eq_get_prop: "get_opt v k = get_prop v k"
  by (auto simp: get_opt_def is_nullish_def)

lemma get_or_throw_simps [simp]:
  "get_or_throw JUndef k = Inl TypeError" "get_or_throw JNull k = Inl TypeError"
  "\<not> is_nullish v \<Longrightarrow> get_or_throw v k = Inr (get_prop v k)"
  by (simp_all add: get_or_throw_def)

text \<open>A name that nothing inherits: all names the console reads by a literal are such.\<close>

definition plain_key :: "jstr \<Rightarrow> bool" where
  "plain_key k \<longleftrightarrow> inherited k = JUndef"

lemma lookup_prop_simps [simp]:
  "lookup_prop ((k', v) # ps) k = (if k' = k then v else lookup_prop ps k)"
  "lookup_prop (put ps k v) k' = (if k' = k then v else lookup_prop ps k')"
  "plain_key k \<Longrightarrow> lookup_prop [] k = JUndef"
  by (auto simp: lookup_prop_def plain_key_def)

lemma plain_key_js [simp]:
  "plain_key (js s) \<longleftrightarrow> s \<notin> {''constructor'', ''__proto__'', ''hasOwnProperty'', ''isPrototypeOf'',
     ''propertyIsEnumerable'', ''toLocaleString'', ''toString'', ''valueOf'', ''__defineGetter__'',
     ''__defineSetter__'', ''__lookupGetter__'', ''__lookupSetter__''}"
  by (auto simp: plain_key_def inherited_def proto_methods_def)

lemma lookup_prop_some: "map_of ps k = Some v \<Longrightarrow> lookup_prop ps k = v"
  by (simp add: lookup_prop_def)

lemma lookup_prop_none: "map_of ps k = None \<Longrightarrow> plain_key k \<Longrightarrow> lookup_prop ps k = JUndef"
  by (simp add: lookup_prop_def plain_key_def)

text \<open>\<open>{ ...v }\<close>: own entries of an object, of an array by index, of a string by unit; nothing
  of any other value.\<close>

definition index_key :: "nat \<Rightarrow> jstr" where
  "index_key i = dec_digits (int i)"

definition entries :: "jsval \<Rightarrow> props" where
  "entries v = (case v of
      JObj ps \<Rightarrow> ps
    | JArr xs \<Rightarrow> zip (map index_key [0..<length xs]) xs
    | JStr s \<Rightarrow> zip (map index_key [0..<length s]) (map (\<lambda>c. JStr [c]) s)
    | _ \<Rightarrow> [])"

lemma entries_simps [simp]:
  "entries (JObj ps) = ps" "entries JUndef = []" "entries JNull = []" "entries (JBool b) = []"
  "entries (JNum n) = []" "entries (JArr []) = []"
  by (simp_all add: entries_def)

text \<open>\<open>Object.fromEntries\<close>.\<close>

definition from_entries :: "props \<Rightarrow> props" where
  "from_entries es = put_all [] es"

lemma from_entries_distinct: "distinct (map fst es) \<Longrightarrow> from_entries es = es"
  using put_all_fresh [of "[]" es] by (simp add: from_entries_def)

section \<open>Conversions\<close>

text \<open>\<open>String(v)\<close>.  A function prints as the engine prints a native function.\<close>

fun to_string :: "jsval \<Rightarrow> jstr" where
  "to_string JUndef = js ''undefined''"
| "to_string JNull = js ''null''"
| "to_string (JBool b) = (if b then js ''true'' else js ''false'')"
| "to_string (JNum n) = num_to_string n"
| "to_string (JStr s) = s"
| "to_string (JArr xs) = join [44] (map (\<lambda>x. if is_nullish x then [] else to_string x) xs)"
| "to_string (JObj ps) = js ''[object Object]''"
| "to_string (JFun f) = js ''function '' @ f @ js ''() { [native code] }''"

text \<open>\<open>Number(v)\<close>.\<close>

definition to_number :: "jsval \<Rightarrow> jnum" where
  "to_number v = (case v of
      JUndef \<Rightarrow> NaN | JNull \<Rightarrow> Fin 0 | JBool b \<Rightarrow> (if b then Fin 1 else Fin 0)
    | JNum n \<Rightarrow> n | JStr s \<Rightarrow> string_to_num s | _ \<Rightarrow> string_to_num (to_string v))"

lemma to_number_simps [simp]:
  "to_number JUndef = NaN" "to_number JNull = Fin 0" "to_number (JNum n) = n"
  "to_number (JStr s) = string_to_num s"
  by (simp_all add: to_number_def)

lemma to_number_bool [simp]: "to_number (JBool b) = (if b then Fin 1 else Fin 0)"
  by (simp add: to_number_def)

text \<open>\<open>String(a || '')\<close>, the console's way of reading an optional text.\<close>

definition text_or_empty :: "jsval \<Rightarrow> jstr" where
  "text_or_empty v = to_string (js_or v (JStr []))"

lemma text_or_empty_simps [simp]:
  "\<not> truthy v \<Longrightarrow> text_or_empty v = []" "text_or_empty (JStr s) = s"
  by (cases s; simp add: text_or_empty_def js_or_def)+

end
