(* ===== verification/DecisionPolicy.thy ===== *)
theory DecisionPolicy imports JsValues begin

text \<open>
  \<open>decisionPolicy.js\<close>: the decision policy and the feature switches of a project, as the
  console reads them from the API, keeps them consistent while they are edited, validates them
  and builds the bodies it sends back; and the resolution of the current project key.
\<close>

section \<open>Constants\<close>

definition DECISION_POLICY_DEFAULTS :: props where
  "DECISION_POLICY_DEFAULTS =
     [(js ''enabled'', JBool False), (js ''auto_publish_enabled'', JBool False),
      (js ''strategy'', S ''manual_review''), (js ''allowed_level'', S ''L1''),
      (js ''allowed_scope'', S ''project''), (js ''min_confidence'', JNum (to_double (4/5)))]"

definition DECISION_POLICY_FIELD_DEFINITIONS :: "(jstr \<times> jstr \<times> jstr) list" where
  \<comment> \<open>key, label, kind\<close>
  "DECISION_POLICY_FIELD_DEFINITIONS =
     [(js ''enabled'', [0x7b56, 0x7565, 0x542f, 0x7528], js ''switch''),
      (js ''auto_publish_enabled'', [0x81ea, 0x52a8, 0x53d1, 0x5e03, 0x542f, 0x7528], js ''switch''),
      (js ''strategy'', [0x6267, 0x884c, 0x6a21, 0x5f0f], js ''strategy''),
      (js ''min_confidence'', [0x6700, 0x5c0f, 0x53ef, 0x4fe1, 0x5ea6, 0x9608, 0x503c], js ''threshold'')]"

definition SAFE_FEATURE_FLAG_DEFINITIONS :: "(jstr \<times> jstr) list" where
  \<comment> \<open>key, label\<close>
  "SAFE_FEATURE_FLAG_DEFINITIONS =
     [(js ''memory_v11_enabled'', js ''V1.1 '' @ [0x8bb0, 0x5fc6, 0x7ba1, 0x7ebf]),
      (js ''lexical_retrieval_enabled'', [0x8bcd, 0x6cd5, 0x68c0, 0x7d22]),
      (js ''dense_retrieval_enabled'', [0x7a20, 0x5bc6, 0x68c0, 0x7d22]),
      (js ''embedding_profile_v2_enabled'', [0x5d4c, 0x5165, 0x914d, 0x7f6e] @ js '' V2''),
      (js ''candidate_publish_enabled'', [0x5019, 0x9009, 0x53d1, 0x5e03, 0x95e8]),
      (js ''decision_engine_enabled'', [0x51b3, 0x7b56, 0x5f15, 0x64ce])]"

definition safe_flag_keys :: "jstr list" where
  "safe_flag_keys = map fst SAFE_FEATURE_FLAG_DEFINITIONS"

lemma safe_flag_keys_eq: "safe_flag_keys = map js
    [''memory_v11_enabled'', ''lexical_retrieval_enabled'', ''dense_retrieval_enabled'',
     ''embedding_profile_v2_enabled'', ''candidate_publish_enabled'', ''decision_engine_enabled'']"
  by (simp add: safe_flag_keys_def SAFE_FEATURE_FLAG_DEFINITIONS_def)

lemma safe_flag_keys_distinct: "distinct safe_flag_keys"
  by (simp add: safe_flag_keys_eq)

lemma safe_flag_keys_plain: "k \<in> set safe_flag_keys \<Longrightarrow> plain_key k"
  by (auto simp: safe_flag_keys_eq)

text \<open>The messages of the validator.\<close>

definition msg_not_loaded :: jstr where "msg_not_loaded = [0x9879, 0x76ee, 0x51b3, 0x7b56, 0x7b56, 0x7565, 0x5c1a, 0x672a, 0x52a0, 0x8f7d,
     0x3002]"
definition msg_enabled_type :: jstr where "msg_enabled_type = [0x7b56, 0x7565, 0x542f, 0x7528, 0x5fc5, 0x987b, 0x662f, 0x5e03, 0x5c14, 0x503c,
     0x3002]"
definition msg_auto_type :: jstr where "msg_auto_type = [0x81ea, 0x52a8, 0x53d1, 0x5e03, 0x542f, 0x7528, 0x5fc5, 0x987b, 0x662f, 0x5e03,
     0x5c14, 0x503c, 0x3002]"
definition msg_strategy :: jstr where "msg_strategy = [0x6267, 0x884c, 0x6a21, 0x5f0f, 0x4e0d, 0x53d7, 0x652f, 0x6301, 0x3002]"
definition msg_threshold :: jstr where "msg_threshold = [0x6700, 0x5c0f, 0x53ef, 0x4fe1, 0x5ea6, 0x9608, 0x503c, 0x5fc5, 0x987b, 0x662f, 32,
     48, 32, 0x5230, 32, 49, 32, 0x4e4b, 0x95f4, 0x7684, 0x6570, 0x5b57, 0x3002]"
definition msg_auto_without_enabled :: jstr where
  "msg_auto_without_enabled = [0x672a, 0x542f, 0x7528, 0x7b56, 0x7565, 0x65f6, 0x4e0d, 0x80fd, 0x542f, 0x7528,
     0x81ea, 0x52a8, 0x53d1, 0x5e03, 0x3002]"
definition msg_strategy_without_auto :: jstr where
  "msg_strategy_without_auto = [0x672a, 0x542f, 0x7528, 0x81ea, 0x52a8, 0x53d1, 0x5e03, 0x65f6, 0x4e0d, 0x80fd,
     0x9009, 0x62e9, 0x81ea, 0x52a8, 0x53d1, 0x5e03, 0x6a21, 0x5f0f, 0x3002]"
definition msg_flags_not_loaded :: jstr where "msg_flags_not_loaded = [0x9879, 0x76ee, 0x529f, 0x80fd, 0x5f00, 0x5173, 0x5c1a, 0x672a, 0x52a0, 0x8f7d,
     0x3002]"

lemmas policy_messages =
  msg_not_loaded_def msg_enabled_type_def msg_auto_type_def msg_strategy_def msg_threshold_def
  msg_auto_without_enabled_def msg_strategy_without_auto_def

section \<open>Operations\<close>

definition readThreshold :: "jsval \<Rightarrow> jnum option" where
  "readThreshold value =
     (if value = JNull \<or> value = JUndef \<or> (case value of JStr s \<Rightarrow> trim s = [] | _ \<Rightarrow> False) then None
      else let number = to_number value
           in if is_finite number \<and> Fin 0 \<le> number \<and> number \<le> Fin 1 then Some number else None)"

definition object_or_empty :: "jsval \<Rightarrow> jsval" where
  "object_or_empty value = (if truthy value \<and> is_object value then value else JObj [])"

definition normalizeDecisionPolicy :: "jsval \<Rightarrow> jsval" where
  "normalizeDecisionPolicy value =
     (let source = object_or_empty value;
          enabled = strict_eq (get_prop source (js ''enabled'')) (JBool True);
          autoPublishEnabled = (enabled \<and>
            strict_eq (get_prop source (js ''auto_publish_enabled'')) (JBool True));
          strategy = (if autoPublishEnabled \<and>
              strict_eq (get_prop source (js ''strategy'')) (S ''auto_publish'')
            then S ''auto_publish'' else S ''manual_review'');
          threshold = (case readThreshold (get_prop source (js ''min_confidence'')) of
              Some n \<Rightarrow> JNum n
            | None \<Rightarrow> lookup_prop DECISION_POLICY_DEFAULTS (js ''min_confidence''))
      in JObj (put_all (put_all (entries source) DECISION_POLICY_DEFAULTS)
           [(js ''enabled'', JBool enabled),
            (js ''auto_publish_enabled'', JBool autoPublishEnabled),
            (js ''strategy'', strategy), (js ''allowed_level'', S ''L1''),
            (js ''allowed_scope'', S ''project''), (js ''min_confidence'', threshold)]))"

definition normalizeFeatureFlags :: "jsval \<Rightarrow> jsval" where
  "normalizeFeatureFlags value =
     (let source = object_or_empty value;
          sourceFlags = object_or_empty (get_prop source (js ''flags''));
          flags = foldl (\<lambda>acc key. put acc key (JBool (strict_eq (get_prop sourceFlags key) (JBool True))))
                    (entries sourceFlags) safe_flag_keys
      in JObj (put (entries source) (js ''flags'') (JObj flags)))"

definition resolveProjectKey :: "jsval \<Rightarrow> jsval \<Rightarrow> jsval \<Rightarrow> jstr" where
  "resolveProjectKey queryProjectKey contextProjectKey principalProjectKey =
     (let q = with_default queryProjectKey (JStr []);
          c = with_default contextProjectKey (JStr []);
          p = with_default principalProjectKey (JStr []);
          principal = (if strict_eq p (S ''*'') then JStr [] else p)
      in trim (to_string (js_or (js_or (js_or q c) principal) (JStr []))))"

text \<open>
  \<open>synchronizeDecisionPolicy\<close> mutates its argument; the model returns the updated object.
  Assigning a property of a primitive throws in a module, and assigning one of an array leaves
  its elements (or of a function) leaves the value the model represents alone.
\<close>

definition sync_props :: "props \<Rightarrow> props" where
  "sync_props p =
     (if \<not> strict_eq (lookup_prop p (js ''enabled'')) (JBool True) then
        put (put (put p (js ''enabled'') (JBool False)) (js ''auto_publish_enabled'') (JBool False))
          (js ''strategy'') (S ''manual_review'')
      else if \<not> strict_eq (lookup_prop p (js ''auto_publish_enabled'')) (JBool True) then
        (let p' = put p (js ''auto_publish_enabled'') (JBool False)
         in if strict_eq (lookup_prop p' (js ''strategy'')) (S ''auto_publish'')
            then put p' (js ''strategy'') (S ''manual_review'') else p')
      else p)"

definition synchronizeDecisionPolicy :: "jsval \<Rightarrow> jsval js" where
  "synchronizeDecisionPolicy policy =
     (if \<not> truthy policy then Inr policy
      else case policy of
          JObj p \<Rightarrow> Inr (JObj (sync_props p))
        | JArr xs \<Rightarrow> Inr policy
        | JFun f \<Rightarrow> Inr policy
        | _ \<Rightarrow> Inl TypeError)"

definition validateDecisionPolicy :: "jsval \<Rightarrow> jstr" where
  "validateDecisionPolicy policy =
     (let enabled = get_prop policy (js ''enabled'');
          auto = get_prop policy (js ''auto_publish_enabled'');
          strategy = get_prop policy (js ''strategy'');
          threshold = readThreshold (get_prop policy (js ''min_confidence''))
      in if \<not> truthy policy \<or> \<not> is_object policy then msg_not_loaded
         else if \<not> is_boolean enabled then msg_enabled_type
         else if \<not> is_boolean auto then msg_auto_type
         else if strategy \<notin> {S ''manual_review'', S ''auto_publish''} then msg_strategy
         else if threshold = None then msg_threshold
         else if truthy auto \<and> \<not> truthy enabled then msg_auto_without_enabled
         else if strategy = S ''auto_publish'' \<and> \<not> truthy auto then msg_strategy_without_auto
         else [])"

definition buildDecisionPolicyPayload :: "jsval \<Rightarrow> props js" where
  "buildDecisionPolicyPayload policy =
     (let error = validateDecisionPolicy policy
      in if error \<noteq> [] then Inl (PlainError error)
         else Inr [(js ''min_confidence'', JNum (to_number (get_prop policy (js ''min_confidence'')))),
                   (js ''enabled'', get_prop policy (js ''enabled'')),
                   (js ''auto_publish_enabled'', get_prop policy (js ''auto_publish_enabled'')),
                   (js ''strategy'', get_prop policy (js ''strategy''))])"

definition buildFeatureFlagsPayload :: "jsval \<Rightarrow> props js" where
  "buildFeatureFlagsPayload value =
     (let f = get_opt value (js ''flags'');
          source = (if truthy f \<and> is_object f then f else value)
      in if \<not> truthy source \<or> \<not> is_object source then Inl (PlainError msg_flags_not_loaded)
         else Inr (from_entries (map (\<lambda>key. (key, JBool (strict_eq (get_prop source key) (JBool True))))
                                  safe_flag_keys)))"

section \<open>The contract of a policy\<close>

text \<open>
  What the API accepts: both switches are booleans, automatic publication needs the policy
  enabled, the automatic strategy needs automatic publication, and the threshold is a number
  between 0 and 1.
\<close>

definition policy_ok :: "jsval \<Rightarrow> bool" where
  "policy_ok p \<longleftrightarrow> is_object p
     \<and> is_boolean (get_prop p (js ''enabled''))
     \<and> is_boolean (get_prop p (js ''auto_publish_enabled''))
     \<and> get_prop p (js ''strategy'') \<in> {S ''manual_review'', S ''auto_publish''}
     \<and> readThreshold (get_prop p (js ''min_confidence'')) \<noteq> None
     \<and> (get_prop p (js ''auto_publish_enabled'') = JBool True \<longrightarrow>
          get_prop p (js ''enabled'') = JBool True)
     \<and> (get_prop p (js ''strategy'') = S ''auto_publish'' \<longrightarrow>
          get_prop p (js ''auto_publish_enabled'') = JBool True)"

lemma is_boolean_iff: "is_boolean v \<longleftrightarrow> v = JBool True \<or> v = JBool False"
  by (cases v) auto

lemma is_object_truthy: "is_object p \<Longrightarrow> truthy p"
  by (cases p) auto

lemma policy_messages_nonempty [simp]:
  "msg_not_loaded \<noteq> []" "msg_enabled_type \<noteq> []" "msg_auto_type \<noteq> []" "msg_strategy \<noteq> []"
  "msg_threshold \<noteq> []" "msg_auto_without_enabled \<noteq> []" "msg_strategy_without_auto \<noteq> []"
  by (simp_all add: policy_messages)

lemma policy_messages_distinct:
  "{msg_auto_without_enabled, msg_strategy_without_auto} \<inter>
   {[], msg_not_loaded, msg_enabled_type, msg_auto_type, msg_strategy, msg_threshold} = {}"
  by (simp add: policy_messages)

lemma validate_gates:
  "validateDecisionPolicy p \<in> {msg_auto_without_enabled, msg_strategy_without_auto} \<Longrightarrow>
   (get_prop p (js ''auto_publish_enabled'') = JBool True \<and> get_prop p (js ''enabled'') \<noteq> JBool True)
   \<or> (get_prop p (js ''strategy'') = S ''auto_publish'' \<and> get_prop p (js ''auto_publish_enabled'') \<noteq> JBool True)"
  using policy_messages_distinct unfolding validateDecisionPolicy_def Let_def
  by (auto simp: is_boolean_iff split: if_splits)

lemma validate_iff: "validateDecisionPolicy p = [] \<longleftrightarrow> policy_ok p"
  unfolding validateDecisionPolicy_def policy_ok_def Let_def
  by (auto simp: is_boolean_iff is_object_truthy)

lemma readThreshold_range:
  "readThreshold v = Some n \<Longrightarrow> \<exists>q. n = Fin q \<and> 0 \<le> q \<and> q \<le> 1 \<and> to_number v = n"
  by (cases "to_number v"; cases n) (auto simp: readThreshold_def Let_def split: if_splits)

lemma readThreshold_num: "0 \<le> q \<Longrightarrow> q \<le> 1 \<Longrightarrow> readThreshold (JNum (Fin q)) = Some (Fin q)"
  by (simp add: readThreshold_def)

lemma readThreshold_idem: "readThreshold v = Some n \<Longrightarrow> readThreshold (JNum n) = Some n"
  using readThreshold_range [of v n] readThreshold_num by auto

lemma default_threshold: "to_double (4/5) = Fin (3602879701896397 / 4503599627370496)"
  by code_simp

lemma default_confidence:
  "lookup_prop DECISION_POLICY_DEFAULTS (js ''min_confidence'')
     = JNum (Fin (3602879701896397 / 4503599627370496))"
  by (simp add: DECISION_POLICY_DEFAULTS_def default_threshold)

section \<open>Normalisation\<close>

lemma threshold_range:
  "readThreshold (case readThreshold v of Some n \<Rightarrow> JNum n
     | None \<Rightarrow> JNum (Fin (3602879701896397 / 4503599627370496))) \<noteq> None"
  by (cases "readThreshold v") (auto simp: readThreshold_num dest: readThreshold_idem)

text \<open>What normalisation writes, property by property.\<close>

lemma normalize_lookup:
  fixes v :: jsval
  defines "src \<equiv> object_or_empty v"
  defines "e \<equiv> get_prop src (js ''enabled'') = JBool True"
  defines "a \<equiv> e \<and> get_prop src (js ''auto_publish_enabled'') = JBool True"
  shows "get_prop (normalizeDecisionPolicy v) (js ''enabled'') = JBool e"
    and "get_prop (normalizeDecisionPolicy v) (js ''auto_publish_enabled'') = JBool a"
    and "get_prop (normalizeDecisionPolicy v) (js ''strategy'') =
      (if a \<and> get_prop src (js ''strategy'') = S ''auto_publish'' then S ''auto_publish''
       else S ''manual_review'')"
    and "get_prop (normalizeDecisionPolicy v) (js ''allowed_level'') = S ''L1''"
    and "get_prop (normalizeDecisionPolicy v) (js ''allowed_scope'') = S ''project''"
    and "get_prop (normalizeDecisionPolicy v) (js ''min_confidence'') =
      (case readThreshold (get_prop src (js ''min_confidence'')) of Some n \<Rightarrow> JNum n
       | None \<Rightarrow> JNum (Fin (3602879701896397 / 4503599627370496)))"
  unfolding normalizeDecisionPolicy_def Let_def assms
  by (simp_all add: default_confidence split: option.split)

lemma normalize_is_object: "is_object (normalizeDecisionPolicy v)"
  by (simp add: normalizeDecisionPolicy_def Let_def)

lemma normalize_policy_ok: "policy_ok (normalizeDecisionPolicy v)"
  unfolding policy_ok_def normalize_lookup
  using threshold_range by (auto simp: normalize_is_object)

text \<open>Whatever the API returns (an object with missing, mistyped or contradictory fields,
  an array, a primitive or nothing), the normalised policy passes the console's own validator:
  no loaded policy starts out with a validation error.\<close>

theorem normalize_validates: "validateDecisionPolicy (normalizeDecisionPolicy v) = []"
  by (simp add: validate_iff normalize_policy_ok)

text \<open>Normalisation pins the safety boundary: the level is \<open>L1\<close> and the scope
  \<open>project\<close> whatever the response claims, and automatic publication survives only when the
  response enables both switches with the boolean \<open>true\<close>.\<close>

theorem normalize_pins_boundary:
  "get_prop (normalizeDecisionPolicy v) (js ''allowed_level'') = S ''L1''
   \<and> get_prop (normalizeDecisionPolicy v) (js ''allowed_scope'') = S ''project''
   \<and> (get_prop (normalizeDecisionPolicy v) (js ''strategy'') = S ''auto_publish'' \<longleftrightarrow>
        get_opt v (js ''enabled'') = JBool True
        \<and> get_opt v (js ''auto_publish_enabled'') = JBool True
        \<and> get_opt v (js ''strategy'') = S ''auto_publish'')"
  unfolding normalize_lookup
  by (cases v) (auto simp: object_or_empty_def get_opt_eq_get_prop get_prop_def)

definition pinned :: "jsval \<Rightarrow> props" where
  "pinned p = map (\<lambda>k. (js k, get_prop (normalizeDecisionPolicy p) (js k)))
     [''enabled'', ''auto_publish_enabled'', ''strategy'', ''allowed_level'', ''allowed_scope'',
      ''min_confidence'']"

lemma normalize_eq:
  "normalizeDecisionPolicy v =
     JObj (put_all (put_all (entries (object_or_empty v)) DECISION_POLICY_DEFAULTS) (pinned v))"
  unfolding pinned_def list.map normalize_lookup
  unfolding normalizeDecisionPolicy_def Let_def strict_eq_const default_confidence by (rule refl)

lemma pinned_keys: "map fst (pinned v) = map fst (pinned w)"
  by (simp add: pinned_def)

lemma defaults_pinned:
  "set (map fst DECISION_POLICY_DEFAULTS) \<subseteq> set (map fst (pinned v))"
  by (simp add: DECISION_POLICY_DEFAULTS_def pinned_def)

lemma pinned_normalize: "pinned (normalizeDecisionPolicy v) = pinned v"
  unfolding pinned_def list.map normalize_lookup [of "normalizeDecisionPolicy v"]
  by (simp add: object_or_empty_def normalize_is_object is_object_truthy normalize_lookup
      readThreshold_num split: option.split) (auto dest: readThreshold_idem)

lemma map_of_put_all_last: "distinct (map fst qs) \<Longrightarrow> (k, x) \<in> set qs \<Longrightarrow> map_of (put_all ps qs) k = Some x"
  by (simp add: map_of_put_all distinct_map rev_map [symmetric])

text \<open>Normalisation is idempotent: normalising a policy a second time, as the page does
  when a save returns no body, changes neither a value nor the order of the properties.\<close>

theorem normalize_idempotent:
  "normalizeDecisionPolicy (normalizeDecisionPolicy v) = normalizeDecisionPolicy v"
proof -
  let ?w = "normalizeDecisionPolicy v"
  let ?ps = "put_all (put_all (entries (object_or_empty v)) DECISION_POLICY_DEFAULTS) (pinned v)"
  have w: "?w = JObj ?ps" by (rule normalize_eq)
  have d: "distinct (map fst (pinned v))" by (simp add: pinned_def)
  have look: "map_of ?ps k = Some x" if "(k, x) \<in> set (pinned v)" for k x
    using d that by (rule map_of_put_all_last)
  have keys: "set (map fst (pinned v)) \<subseteq> set (map fst ?ps)"
    using look by (force dest: map_of_SomeD)
  have "normalizeDecisionPolicy ?w = JObj (put_all (put_all ?ps DECISION_POLICY_DEFAULTS) (pinned v))"
    using normalize_eq [of ?w] pinned_normalize [of v] w by (simp add: object_or_empty_def)
  also have "\<dots> = JObj (put_all ?ps (pinned v))"
    by (simp only: put_all_twice [OF d keys defaults_pinned])
  also have "\<dots> = JObj ?ps"
    by (simp only: put_all_present [OF look])
  finally show ?thesis using w by simp
qed

section \<open>Editing: the switches stay consistent\<close>

lemma sync_lookup:
  fixes p :: props
  defines "e \<equiv> lookup_prop p (js ''enabled'') = JBool True"
  defines "a \<equiv> e \<and> lookup_prop p (js ''auto_publish_enabled'') = JBool True"
  shows "lookup_prop (sync_props p) (js ''enabled'') = JBool e"
    and "lookup_prop (sync_props p) (js ''auto_publish_enabled'') = JBool a"
    and "lookup_prop (sync_props p) (js ''strategy'') =
      (if \<not> e \<or> (\<not> a \<and> lookup_prop p (js ''strategy'') = S ''auto_publish'')
       then S ''manual_review'' else lookup_prop p (js ''strategy''))"
  by (auto simp: sync_props_def Let_def e_def a_def)

lemma sync_frame:
  "js k \<notin> {js ''enabled'', js ''auto_publish_enabled'', js ''strategy''} \<Longrightarrow>
   lookup_prop (sync_props p) (js k) = lookup_prop p (js k)"
  by (auto simp: sync_props_def Let_def)

text \<open>Toggling a switch or the mode keeps the form savable: after every change event the
  validator complains neither about automatic publication without an enabled policy nor about
  the automatic mode without automatic publication, whatever state the form was in; the
  threshold and every other field are left alone.\<close>

theorem sync_consistent:
  "validateDecisionPolicy (JObj (sync_props p)) \<notin> {msg_auto_without_enabled, msg_strategy_without_auto}
   \<and> lookup_prop (sync_props p) (js ''min_confidence'') = lookup_prop p (js ''min_confidence'')"
proof
  show "validateDecisionPolicy (JObj (sync_props p)) \<notin> {msg_auto_without_enabled, msg_strategy_without_auto}"
    using validate_gates [of "JObj (sync_props p)"] by (auto simp: sync_lookup split: if_splits)
  show "lookup_prop (sync_props p) (js ''min_confidence'') = lookup_prop p (js ''min_confidence'')"
    by (rule sync_frame) simp
qed

text \<open>Synchronising leaves a policy that meets the contract exactly as it is.\<close>

theorem sync_fixpoint:
  "policy_ok (JObj p) \<Longrightarrow> synchronizeDecisionPolicy (JObj p) = Inr (JObj p)"
proof -
  assume ok: "policy_ok (JObj p)"
  have own: "map_of p k = Some (lookup_prop p k)" if "lookup_prop p k \<noteq> JUndef" "plain_key k" for k
    using that by (cases "map_of p k") (auto simp: lookup_prop_def plain_key_def)
  have "sync_props p = p"
    using ok own unfolding sync_props_def policy_ok_def Let_def
    by (auto simp: is_boolean_iff put_present)
  then show ?thesis by (simp add: synchronizeDecisionPolicy_def)
qed

theorem sync_fixpoint_witness:
  "synchronizeDecisionPolicy (JObj [(js ''enabled'', JBool True), (js ''auto_publish_enabled'', JBool False),
      (js ''strategy'', S ''manual_review''), (js ''min_confidence'', N 1)])
   = Inr (JObj [(js ''enabled'', JBool True), (js ''auto_publish_enabled'', JBool False),
      (js ''strategy'', S ''manual_review''), (js ''min_confidence'', N 1)])"
  by (rule sync_fixpoint) (simp add: policy_ok_def readThreshold_def)

section \<open>The bodies sent to the API\<close>

text \<open>The policy body exists exactly for a valid policy, holds exactly the four writable
  fields, and its values respect the publication gates; the threshold that is sent is a finite
  number between 0 and 1.\<close>

theorem policy_payload_exact:
  "buildDecisionPolicyPayload p = Inr body \<longleftrightarrow>
     policy_ok p \<and> (\<exists>e a s q.
       body = [(js ''min_confidence'', JNum (Fin q)), (js ''enabled'', JBool e),
               (js ''auto_publish_enabled'', JBool a), (js ''strategy'', s)]
       \<and> 0 \<le> q \<and> q \<le> 1 \<and> (a \<longrightarrow> e) \<and> (s = S ''auto_publish'' \<longrightarrow> a)
       \<and> s \<in> {S ''manual_review'', S ''auto_publish''}
       \<and> to_number (get_prop p (js ''min_confidence'')) = Fin q
       \<and> get_prop p (js ''enabled'') = JBool e \<and> get_prop p (js ''auto_publish_enabled'') = JBool a
       \<and> get_prop p (js ''strategy'') = s)" (is "_ \<longleftrightarrow> _ \<and> ?body")
proof
  assume "buildDecisionPolicyPayload p = Inr body"
  then have v: "policy_ok p"
    and b: "body = [(js ''min_confidence'', JNum (to_number (get_prop p (js ''min_confidence'')))),
        (js ''enabled'', get_prop p (js ''enabled'')),
        (js ''auto_publish_enabled'', get_prop p (js ''auto_publish_enabled'')),
        (js ''strategy'', get_prop p (js ''strategy''))]"
    by (auto simp: buildDecisionPolicyPayload_def Let_def validate_iff split: if_splits)
  from v obtain n where "readThreshold (get_prop p (js ''min_confidence'')) = Some n"
    by (auto simp: policy_ok_def)
  with v b show "policy_ok p \<and> ?body"
    by (auto simp: policy_ok_def is_boolean_iff dest!: readThreshold_range)
next
  assume "policy_ok p \<and> ?body"
  then show "buildDecisionPolicyPayload p = Inr body"
    by (auto simp: buildDecisionPolicyPayload_def Let_def validate_iff)
qed

theorem policy_payload_exact_witness:
  "buildDecisionPolicyPayload (JObj [(js ''enabled'', JBool True), (js ''auto_publish_enabled'', JBool True),
      (js ''strategy'', S ''auto_publish''), (js ''min_confidence'', N 1), (js ''allowed_level'', S ''L1'')])
   = Inr [(js ''min_confidence'', N 1), (js ''enabled'', JBool True),
      (js ''auto_publish_enabled'', JBool True), (js ''strategy'', S ''auto_publish'')]"
  unfolding policy_payload_exact by (auto simp: policy_ok_def readThreshold_def)

lemma flags_payload_ok:
  "truthy src \<Longrightarrow> is_object src \<Longrightarrow> src = (let f = get_opt w (js ''flags'') in
      if truthy f \<and> is_object f then f else w) \<Longrightarrow>
   buildFeatureFlagsPayload w =
     Inr (map (\<lambda>key. (key, JBool (get_prop src key = JBool True))) safe_flag_keys)"
  unfolding buildFeatureFlagsPayload_def Let_def
  by (simp add: from_entries_distinct safe_flag_keys_distinct comp_def)

text \<open>The switch body never leaks a switch outside the six safe ones: whenever it is
  built, its keys are exactly the safe keys in their fixed order and every value is a boolean.\<close>

theorem flags_payload_safe:
  "buildFeatureFlagsPayload w = Inr body \<Longrightarrow>
     map fst body = safe_flag_keys \<and> (\<forall>b \<in> set (map snd body). is_boolean b)"
proof -
  assume built: "buildFeatureFlagsPayload w = Inr body"
  define src where "src = (let f = get_opt w (js ''flags'') in
      if truthy f \<and> is_object f then f else w)"
  have "truthy src" "is_object src"
    using built by (auto simp: src_def buildFeatureFlagsPayload_def Let_def split: if_splits)
  then have "body = map (\<lambda>key. (key, JBool (get_prop src key = JBool True))) safe_flag_keys"
    using built flags_payload_ok [of src w] by (simp add: src_def)
  then show ?thesis by (auto simp: comp_def)
qed

theorem flags_payload_safe_witness:
  "\<exists>body. buildFeatureFlagsPayload (JObj [(js ''server_outbox_enabled'', JBool True)]) = Inr body
     \<and> map fst body = safe_flag_keys"
proof -
  let ?v = "JObj [(js ''server_outbox_enabled'', JBool True)]"
  obtain body where b: "buildFeatureFlagsPayload ?v = Inr body"
    by (simp add: buildFeatureFlagsPayload_def)
  then show ?thesis using flags_payload_safe [OF b] by blast
qed

lemma foldl_put_lookup:
  "distinct ks \<Longrightarrow> lookup_prop (foldl (\<lambda>acc k. put acc k (g k)) ps ks) j =
     (if j \<in> set ks then g j else lookup_prop ps j)"
  by (induction ks arbitrary: ps) auto

lemma foldl_put_nonempty_lookup:
  "get_prop (normalizeFeatureFlags v) (js ''flags'') =
     JObj (foldl (\<lambda>acc key. put acc key (JBool (get_prop (object_or_empty
        (get_prop (object_or_empty v) (js ''flags''))) key = JBool True)))
        (entries (object_or_empty (get_prop (object_or_empty v) (js ''flags'')))) safe_flag_keys)"
  by (simp add: normalizeFeatureFlags_def Let_def)

text \<open>Loading and saving the switches without touching them is lossless: the body built
  from the normalised response never throws and sends, for each safe switch, whether the
  response had it at exactly \<open>true\<close>.\<close>

theorem flags_roundtrip:
  "buildFeatureFlagsPayload (normalizeFeatureFlags v) =
     Inr (map (\<lambda>key. (key, JBool (get_opt (get_opt v (js ''flags'')) key = JBool True))) safe_flag_keys)"
proof -
  let ?sf = "object_or_empty (get_prop (object_or_empty v) (js ''flags''))"
  let ?f = "get_prop (normalizeFeatureFlags v) (js ''flags'')"
  have f: "?f = JObj (foldl (\<lambda>acc key. put acc key (JBool (get_prop ?sf key = JBool True)))
      (entries ?sf) safe_flag_keys)"
    by (rule foldl_put_nonempty_lookup)
  have src: "get_prop ?sf key = JBool True \<longleftrightarrow> get_opt (get_opt v (js ''flags'')) key = JBool True"
    if "plain_key key" for key
    using that by (cases v; cases "get_opt v (js ''flags'')")
      (auto simp: object_or_empty_def get_opt_eq_get_prop get_prop_def)
  have "buildFeatureFlagsPayload (normalizeFeatureFlags v) =
      Inr (map (\<lambda>key. (key, JBool (get_prop ?f key = JBool True))) safe_flag_keys)"
    by (rule flags_payload_ok) (simp_all add: f get_opt_eq_get_prop)
  also have "map (\<lambda>key. (key, JBool (get_prop ?f key = JBool True))) safe_flag_keys =
      map (\<lambda>key. (key, JBool (get_opt (get_opt v (js ''flags'')) key = JBool True))) safe_flag_keys"
    using src safe_flag_keys_plain
    by (intro map_cong) (auto simp: f foldl_put_lookup safe_flag_keys_distinct)
  finally show ?thesis .
qed

section \<open>The current project\<close>

text \<open>The project key of a page is the first non-empty of the URL, the chosen context and
  the principal's own project, in this order; the wildcard principal counts as none, and the
  result has no surrounding white space.\<close>

theorem resolveProjectKey_priority:
  "resolveProjectKey q c p =
     (if truthy q then trim (to_string q) else if truthy c then trim (to_string c)
      else if truthy p \<and> p \<noteq> S ''*'' then trim (to_string p) else [])
   \<and> trim (resolveProjectKey q c p) = resolveProjectKey q c p"
  by (auto simp: resolveProjectKey_def with_default_def js_or_def)

end
