(* ===== verification/Markdown.thy ===== *)
theory Markdown imports JsValues begin

text \<open>
  \<open>utils/markdown.js\<close>: the Markdown renderer whose result the console inserts with
  \<open>v-html\<close>.  The regular expressions are modelled by matchers at one position and a
  left-to-right replacement loop.  \<open>MarkdownSafety\<close> proves what the output may contain.
\<close>

section \<open>Escaping\<close>

definition escapeHtml :: "jstr \<Rightarrow> jstr" where
  "escapeHtml s =
     replace_all [39] (js ''&#039;'')
      (replace_all [34] (js ''&quot;'')
        (replace_all [62] (js ''&gt;'')
          (replace_all [60] (js ''&lt;'')
            (replace_all [38] (js ''&amp;'') s))))"

section \<open>Global regular-expression replacement\<close>

text \<open>
  \<open>s.replace(/re/g, f)\<close>: at each position the matcher either fails or yields the replacement
  and the input behind the match.  All expressions of the module match at least one unit.
\<close>

type_synonym matcher = "jstr \<Rightarrow> (jstr \<times> jstr) option"

function replace_matches :: "matcher \<Rightarrow> jstr \<Rightarrow> jstr" where
  "replace_matches m s =
     (case s of [] \<Rightarrow> []
      | c # r \<Rightarrow> (case m s of
            Some (rep, rest) \<Rightarrow>
              if length rest < length s then rep @ replace_matches m rest else c # replace_matches m r
          | None \<Rightarrow> c # replace_matches m r))"
  by pat_completeness auto
termination
  by (relation "measure (\<lambda>(m, s). length s)") auto

declare replace_matches.simps [simp del]

lemma replace_matches_Nil [simp]: "replace_matches m [] = []"
  by (simp add: replace_matches.simps)

lemma replace_matches_Cons:
  "replace_matches m (c # r) = (case m (c # r) of
      Some (rep, rest) \<Rightarrow> if length rest < length (c # r) then rep @ replace_matches m rest
                          else c # replace_matches m r
    | None \<Rightarrow> c # replace_matches m r)"
  by (simp only: replace_matches.simps [of m "c # r"] list.case)

text \<open>\<open>/`([^`]+)`/\<close>\<close>

definition code_match :: matcher where
  "code_match s = (case s of [] \<Rightarrow> None
    | c # r \<Rightarrow> let body = takeWhile (\<lambda>x. x \<noteq> 96) r; rest = dropWhile (\<lambda>x. x \<noteq> 96) r
              in if c = 96 \<and> body \<noteq> [] \<and> rest \<noteq> []
                 then Some (js ''<code>'' @ body @ js ''</code>'', tl rest) else None)"

text \<open>\<open>/\*\*([^*]+)\*\*/\<close>\<close>

definition strong_match :: matcher where
  "strong_match s =
     (let r = drop 2 s; body = takeWhile (\<lambda>x. x \<noteq> 42) r; rest = dropWhile (\<lambda>x. x \<noteq> 42) r
      in if starts_with s [42, 42] \<and> body \<noteq> [] \<and> starts_with rest [42, 42]
         then Some (js ''<strong>'' @ body @ js ''</strong>'', drop 2 rest) else None)"

text \<open>\<open>/\[([^\]]+)\]\((https?:\/\/[^\s)]+)\)/\<close>\<close>

definition is_web_url :: "jstr \<Rightarrow> bool" where
  "is_web_url u \<longleftrightarrow> (starts_with u (js ''http://'') \<and> 7 < length u)
                 \<or> (starts_with u (js ''https://'') \<and> 8 < length u)"

definition link_open :: "jstr \<Rightarrow> jstr" where
  "link_open url = js ''<a href=\"'' @ url @ js ''\" target=\"_blank\" rel=\"noopener noreferrer\">''"

definition link_match :: matcher where
  "link_match s = (case s of [] \<Rightarrow> None
    | c # r \<Rightarrow> let label = takeWhile (\<lambda>x. x \<noteq> 93) r; r1 = dropWhile (\<lambda>x. x \<noteq> 93) r;
                  r2 = drop 2 r1;
                  url = takeWhile (\<lambda>x. \<not> is_space x \<and> x \<noteq> 41) r2;
                  rest = dropWhile (\<lambda>x. \<not> is_space x \<and> x \<noteq> 41) r2
              in if c = 91 \<and> label \<noteq> [] \<and> starts_with r1 [93, 40] \<and> is_web_url url
                    \<and> starts_with rest [41]
                 then Some (link_open url @ label @ js ''</a>'', tl rest) else None)"

definition inline :: "jstr \<Rightarrow> jstr" where
  "inline v = replace_matches link_match
     (replace_matches strong_match (replace_matches code_match (escapeHtml v)))"

section \<open>Lines\<close>

definition is_line_terminator :: "nat \<Rightarrow> bool" where
  "is_line_terminator c \<longleftrightarrow> c \<in> {10, 13, 0x2028, 0x2029}"

text \<open>
  \<open>/\s+(.+)$/\<close> at the end of an expression: the white space is taken greedily, and gives one
  unit back when nothing else follows it.
\<close>

definition match_tail :: "jstr \<Rightarrow> jstr option" where
  "match_tail s =
     (let ws = takeWhile is_space s; body = dropWhile is_space s
      in if ws = [] then None
         else if body \<noteq> [] then
           (if list_all (\<lambda>c. \<not> is_line_terminator c) body then Some body else None)
         else if 2 \<le> length ws \<and> \<not> is_line_terminator (last ws) then Some [last ws] else None)"

text \<open>\<open>/^(#{1,4})\s+(.+)$/\<close>: the number of marks and the text.\<close>

definition match_heading :: "jstr \<Rightarrow> (nat \<times> jstr) option" where
  "match_heading line =
     (let n = length (takeWhile (\<lambda>c. c = 35) line)
      in if 1 \<le> n \<and> n \<le> 4
         then map_option (\<lambda>t. (n, t)) (match_tail (dropWhile (\<lambda>c. c = 35) line)) else None)"

text \<open>\<open>/^\s*[-*]\s+(.+)$/\<close>\<close>

definition match_item :: "jstr \<Rightarrow> jstr option" where
  "match_item line = (case dropWhile is_space line of
      c # r \<Rightarrow> if c = 45 \<or> c = 42 then match_tail r else None
    | [] \<Rightarrow> None)"

section \<open>The block loop\<close>

record md_state =
  inCode :: bool
  inList :: bool
  md_output :: "jstr list"

definition push :: "md_state \<Rightarrow> jstr \<Rightarrow> md_state" where
  "push st chunk = st\<lparr>md_output := md_output st @ [chunk]\<rparr>"

definition close_list :: "md_state \<Rightarrow> md_state" where
  "close_list st = (if inList st then (push st (js ''</ul>''))\<lparr>inList := False\<rparr> else st)"

definition render_line :: "md_state \<Rightarrow> jstr \<Rightarrow> md_state" where
  "render_line st line =
     (if starts_with line [96, 96, 96] then
        (let st1 = close_list st;
             st2 = push st1 (if inCode st1 then js ''</code></pre>'' else js ''<pre><code>'')
         in st2\<lparr>inCode := \<not> inCode st2\<rparr>)
      else if inCode st then push st (escapeHtml line @ [10])
      else case match_heading line of
          Some (n, t) \<Rightarrow>
            (let st1 = close_list st; level = [48 + (n + 1)]
             in push st1 (js ''<h'' @ level @ js ''>'' @ inline t @ js ''</h'' @ level @ js ''>''))
        | None \<Rightarrow> (case match_item line of
            Some t \<Rightarrow>
              (let st1 = (if \<not> inList st then (push st (js ''<ul>''))\<lparr>inList := True\<rparr> else st)
               in push st1 (js ''<li>'' @ inline t @ js ''</li>''))
          | None \<Rightarrow>
              (let st1 = close_list st
               in push st1 (if trim line \<noteq> [] then js ''<p>'' @ inline line @ js ''</p>'' else []))))"

definition md_lines :: "jstr \<Rightarrow> jstr list" where
  "md_lines source = split_on 10 (replace_all [13, 10] [10] source)"

definition md_finish :: "md_state \<Rightarrow> jstr list" where
  "md_finish st = (let out1 = (if inList st then md_output st @ [js ''</ul>''] else md_output st)
     in if inCode st then out1 @ [js ''</code></pre>''] else out1)"

definition md_chunks :: "jstr \<Rightarrow> jstr list" where
  "md_chunks source = md_finish (foldl render_line
     \<lparr>inCode = False, inList = False, md_output = []\<rparr> (md_lines source))"

definition renderSafeMarkdown :: "jsval \<Rightarrow> jstr" where
  "renderSafeMarkdown source = concat (md_chunks (text_or_empty source))"

end
