(* ===== verification/MarkdownSafety.thy ===== *)
theory MarkdownSafety imports Markdown begin

text \<open>
  What the Markdown renderer may emit.  Escaping is lossless and leaves no markup character; the
  inline passes only insert tags of a fixed list around text that is already safe (one locale
  states the contract a pass has to meet, each regular expression is an interpretation); the
  block loop emits complete blocks only.  The result is the safety theorem for \<open>v-html\<close>.
\<close>

section \<open>Escaping\<close>

definition esc_unit :: "nat \<Rightarrow> jstr" where
  "esc_unit c = (if c = 38 then js ''&amp;'' else if c = 60 then js ''&lt;''
     else if c = 62 then js ''&gt;'' else if c = 34 then js ''&quot;''
     else if c = 39 then js ''&#039;'' else [c])"

lemma escapeHtml_append: "escapeHtml (s @ t) = escapeHtml s @ escapeHtml t"
  by (simp add: escapeHtml_def replace_all_unit)

lemma escapeHtml_Nil [simp]: "escapeHtml [] = []"
  by (simp add: escapeHtml_def)

lemma escapeHtml_unit: "escapeHtml [c] = esc_unit c"
  by (simp add: escapeHtml_def replace_all_unit esc_unit_def js_def)

lemma escapeHtml_eq: "escapeHtml s = concat (map esc_unit s)"
proof (induction s)
  case (Cons c s)
  then show ?case using escapeHtml_append [of "[c]" s] by (simp add: escapeHtml_unit)
qed simp

lemma esc_unit_clean: "x \<in> set (esc_unit c) \<Longrightarrow> x \<noteq> 60 \<and> x \<noteq> 62 \<and> x \<noteq> 34 \<and> x \<noteq> 39"
  by (auto simp: esc_unit_def js_def split: if_splits)

lemma escapeHtml_clean: "x \<in> set (escapeHtml s) \<Longrightarrow> x \<noteq> 60 \<and> x \<noteq> 62 \<and> x \<noteq> 34 \<and> x \<noteq> 39"
  by (auto simp: escapeHtml_eq dest!: esc_unit_clean)

text \<open>What a browser shows for the five character references.\<close>

function unescape :: "jstr \<Rightarrow> jstr" where
  "unescape s = (case s of [] \<Rightarrow> [] | c # r \<Rightarrow>
     (if starts_with s (js ''&amp;'') then 38 # unescape (drop 5 s)
      else if starts_with s (js ''&lt;'') then 60 # unescape (drop 4 s)
      else if starts_with s (js ''&gt;'') then 62 # unescape (drop 4 s)
      else if starts_with s (js ''&quot;'') then 34 # unescape (drop 6 s)
      else if starts_with s (js ''&#039;'') then 39 # unescape (drop 6 s)
      else c # unescape r))"
  by pat_completeness auto
termination
  by (relation "measure length") auto

declare unescape.simps [simp del]

lemma unescape_esc_unit: "unescape (esc_unit c @ s) = c # unescape s"
  by (auto simp: esc_unit_def unescape.simps [of "_ # _"] starts_with_def js_def)

text \<open>Escaping loses nothing: decoding the five character references gives back the text,
  so no two texts are displayed alike, and the escaped text holds no angle bracket and no quote
  of either kind.\<close>

theorem escape_roundtrip:
  "unescape (escapeHtml s) = s \<and> set (escapeHtml s) \<inter> {60, 62, 34, 39} = {}"
proof
  show "unescape (escapeHtml s) = s"
    by (induction s) (simp_all add: escapeHtml_eq unescape_esc_unit unescape.simps [of "[]"])
  show "set (escapeHtml s) \<inter> {60, 62, 34, 39} = {}"
    using escapeHtml_clean by blast
qed

section \<open>Text with tags\<close>

text \<open>
  Text in which every \<open><\<close> starts one of the given tags and no double quote occurs outside tags.
\<close>

inductive tagged :: "jstr set \<Rightarrow> jstr \<Rightarrow> bool" for T where
  tagged_nil: "tagged T []"
| tagged_char: "c \<noteq> 60 \<Longrightarrow> c \<noteq> 34 \<Longrightarrow> tagged T s \<Longrightarrow> tagged T (c # s)"
| tagged_tag: "t \<in> T \<Longrightarrow> tagged T s \<Longrightarrow> tagged T (t @ s)"

text \<open>Tags are literals that start with the bracket and hold no quote.\<close>

definition tag_set :: "jstr set \<Rightarrow> bool" where
  "tag_set T \<longleftrightarrow> (\<forall>t \<in> T. (\<exists>r. t = 60 # r) \<and> 34 \<notin> set t)"

lemma tagged_text: "set s \<inter> {60, 34} = {} \<Longrightarrow> tagged T s"
  by (induction s) (auto intro: tagged.intros)

lemma tagged_append: "tagged T a \<Longrightarrow> tagged T b \<Longrightarrow> tagged T (a @ b)"
  by (induction rule: tagged.induct) (auto intro: tagged.intros)

lemma tagged_mono: "tagged T s \<Longrightarrow> T \<subseteq> U \<Longrightarrow> tagged U s"
  by (induction rule: tagged.induct) (auto intro: tagged.intros)

lemma tagged_no_quote: "tagged T s \<Longrightarrow> tag_set T \<Longrightarrow> 34 \<notin> set s"
  by (induction rule: tagged.induct) (auto simp: tag_set_def)

lemma tagged_wrap:
  "t \<in> T \<Longrightarrow> u \<in> T \<Longrightarrow> tagged T b \<Longrightarrow> tagged T s \<Longrightarrow> tagged T ((t @ b @ u) @ s)"
  by (simp add: tagged_append tagged_tag)

text \<open>Cutting at a unit that no tag contains keeps both parts well tagged.\<close>

lemma tagged_split:
  "tagged T s \<Longrightarrow> (\<And>t c. t \<in> T \<Longrightarrow> c \<in> set t \<Longrightarrow> P c) \<Longrightarrow>
   tagged T (takeWhile P s) \<and> tagged T (dropWhile P s)"
proof (induction rule: tagged.induct)
  case (tagged_tag t s)
  then have "takeWhile P (t @ s) = t @ takeWhile P s" "dropWhile P (t @ s) = dropWhile P s"
    by (auto simp: takeWhile_append2 dropWhile_append2)
  then show ?case using tagged_tag by (simp add: tagged.tagged_tag)
qed (auto intro: tagged.intros)

lemma tagged_tl:
  assumes "tagged T (c # s)" "c \<noteq> 60" "tag_set T"
  shows "tagged T s"
  using assms(1)
proof (cases rule: tagged.cases)
  case (tagged_tag t r)
  then show ?thesis using assms(2,3) by (auto simp: tag_set_def Cons_eq_append_conv)
qed auto

section \<open>The contract of an inline pass\<close>

text \<open>
  A matcher looks for one starting unit.  A replacement loop over it copies everything else.
\<close>

locale regex_matcher =
  fixes m :: matcher and trig :: nat
  assumes m_trig: "m s = Some (rep, rest) \<Longrightarrow> \<exists>r. s = trig # r \<and> length rest \<le> length r"
begin

lemma skip_unit: "c \<noteq> trig \<Longrightarrow> replace_matches m (c # s) = c # replace_matches m s"
  using m_trig [of "c # s"] by (auto simp: replace_matches_Cons split: option.split)

lemma skip_prefix: "trig \<notin> set t \<Longrightarrow> replace_matches m (t @ s) = t @ replace_matches m s"
  by (induction t) (auto simp: skip_unit)

lemma hit: "m (c # s) = Some (rep, rest) \<Longrightarrow> replace_matches m (c # s) = rep @ replace_matches m rest"
  using m_trig [of "c # s" rep rest] by (simp add: replace_matches_Cons)

lemma miss: "m (c # s) = None \<Longrightarrow> replace_matches m (c # s) = c # replace_matches m s"
  by (simp add: replace_matches_Cons)

end

text \<open>
  A pass over well tagged text: the starting unit is not part of a tag, and a replacement turns
  well tagged text into output that meets \<open>Out\<close>, leaving a well tagged remainder.
\<close>

locale markup_pass = regex_matcher +
  fixes T :: "jstr set" and Out :: "jstr \<Rightarrow> bool"
  assumes T_tags: "tag_set T"
    and trig_free: "t \<in> T \<Longrightarrow> trig \<notin> set t"
    and trig_text: "trig \<noteq> 60" "trig \<noteq> 34"
    and Out_nil: "Out []"
    and Out_char: "c \<noteq> 60 \<Longrightarrow> c \<noteq> 34 \<Longrightarrow> Out s \<Longrightarrow> Out (c # s)"
    and Out_tag: "t \<in> T \<Longrightarrow> Out s \<Longrightarrow> Out (t @ s)"
    and m_safe: "tagged T r \<Longrightarrow> m (trig # r) = Some (rep, rest) \<Longrightarrow>
      tagged T rest \<and> (\<forall>s. Out s \<longrightarrow> Out (rep @ s))"
begin

lemma pass_safe: "tagged T s \<Longrightarrow> Out (replace_matches m s)"
proof (induction "length s" arbitrary: s rule: less_induct)
  case less
  from less.prems show ?case
  proof (cases rule: tagged.cases)
    case tagged_nil
    then show ?thesis using Out_nil by simp
  next
    case (tagged_char c r)
    then have keep: "Out (c # replace_matches m r)"
      using less.hyps [of r] Out_char by simp
    show ?thesis
    proof (cases "m (c # r)")
      case None
      then show ?thesis using keep tagged_char(1) miss by simp
    next
      case (Some p)
      then obtain rep rest where hit_eq: "m (c # r) = Some (rep, rest)" by (cases p) auto
      then have c: "c = trig" and len: "length rest \<le> length r"
        using m_trig by blast+
      have rest: "tagged T rest" and out: "\<And>u. Out u \<Longrightarrow> Out (rep @ u)"
        using m_safe [OF tagged_char(4), of rep rest] hit_eq c by auto
      have "Out (replace_matches m rest)"
        by (rule less.hyps) (use len rest tagged_char(1) in auto)
      then show ?thesis using out hit hit_eq tagged_char(1) by simp
    qed
  next
    case (tagged_tag t r)
    have "t \<noteq> []" using T_tags tagged_tag(2) by (auto simp: tag_set_def)
    then have "Out (replace_matches m r)"
      using less.hyps [of r] tagged_tag by simp
    then show ?thesis
      using tagged_tag trig_free by (simp add: skip_prefix Out_tag)
  qed
qed

end

section \<open>The three passes\<close>

definition code_tags :: "jstr set" where
  "code_tags = {js ''<code>'', js ''</code>''}"

definition inline_tags :: "jstr set" where
  "inline_tags = code_tags \<union> {js ''<strong>'', js ''</strong>''}"

lemma tag_sets: "tag_set {}" "tag_set code_tags" "tag_set inline_tags"
  by (auto simp: tag_set_def code_tags_def inline_tags_def js_def)

lemma code_inline: "code_tags \<subseteq> inline_tags"
  by (auto simp: inline_tags_def)

lemma inline_tag_unit:
  assumes "t \<in> inline_tags" "c \<in> set t"
  shows "c \<notin> {34, 40, 41, 42, 91, 93, 96} \<and> \<not> is_space c"
proof -
  have "c \<in> {60, 47, 62, 99, 111, 100, 101, 115, 116, 114, 110, 103}"
    using assms by (auto simp: inline_tags_def code_tags_def js_def)
  then show ?thesis by (auto simp: is_space_def)
qed

lemma tagged_cut:
  "tagged T s \<Longrightarrow> T \<subseteq> inline_tags \<Longrightarrow> d \<in> {34, 40, 41, 42, 91, 93, 96} \<Longrightarrow>
   tagged T (takeWhile (\<lambda>x. x \<noteq> d) s) \<and> tagged T (dropWhile (\<lambda>x. x \<noteq> d) s)"
  by (rule tagged_split) (use inline_tag_unit in blast)+

lemma tagged_cut_url:
  "tagged T s \<Longrightarrow> T \<subseteq> inline_tags \<Longrightarrow>
   tagged T (takeWhile (\<lambda>x. \<not> is_space x \<and> x \<noteq> 41) s) \<and>
   tagged T (dropWhile (\<lambda>x. \<not> is_space x \<and> x \<noteq> 41) s)"
  by (rule tagged_split) (use inline_tag_unit in blast)+

lemma tagged_behind:
  "tagged T (c # s) \<Longrightarrow> T \<subseteq> inline_tags \<Longrightarrow> c \<noteq> 60 \<Longrightarrow> tagged T s"
  using tagged_tl tag_sets(3) by (metis subset_iff tag_set_def)

text \<open>
  The tags the renderer may write, and safe output: every \<open><\<close> of the data state starts one of
  these tags or a link tag whose quoted address is an \<open>http(s)\<close> address; a quoted attribute
  value ends at the next double quote, as an HTML tokenizer reads it.
\<close>

definition allowed_tags :: "jstr set" where
  "allowed_tags = js ` {''<code>'', ''</code>'', ''<strong>'', ''</strong>'', ''</a>'', ''<p>'', ''</p>'',
     ''<ul>'', ''</ul>'', ''<li>'', ''</li>'', ''<pre>'', ''</pre>'', ''<h2>'', ''</h2>'', ''<h3>'', ''</h3>'',
     ''<h4>'', ''</h4>'', ''<h5>'', ''</h5>''}"

inductive safe_html :: "jstr \<Rightarrow> bool" where
  safe_nil: "safe_html []"
| safe_char: "c \<noteq> 60 \<Longrightarrow> safe_html s \<Longrightarrow> safe_html (c # s)"
| safe_tag: "t \<in> allowed_tags \<Longrightarrow> safe_html s \<Longrightarrow> safe_html (t @ s)"
| safe_link: "34 \<notin> set url \<Longrightarrow> is_web_url url \<Longrightarrow> safe_html s \<Longrightarrow> safe_html (link_open url @ s)"

lemma safe_html_append: "safe_html a \<Longrightarrow> safe_html b \<Longrightarrow> safe_html (a @ b)"
  by (induction rule: safe_html.induct) (auto intro: safe_html.intros)

lemma safe_html_text: "60 \<notin> set s \<Longrightarrow> safe_html s"
  by (induction s) (auto intro: safe_html.intros)

lemma safe_html_allowed: "t \<in> allowed_tags \<Longrightarrow> safe_html t"
  using safe_tag [OF _ safe_nil] by fastforce

lemma inline_tags_allowed: "inline_tags \<subseteq> allowed_tags"
  by (auto simp: inline_tags_def code_tags_def allowed_tags_def)

lemma tagged_safe: "tagged T s \<Longrightarrow> T \<subseteq> allowed_tags \<Longrightarrow> safe_html s"
  by (induction rule: tagged.induct) (auto intro: safe_html.intros)

lemma code_match_shape:
  "code_match s = Some (rep, rest) \<Longrightarrow> \<exists>r. s = 96 # r \<and> length rest \<le> length r"
  by (auto simp: code_match_def Let_def length_dropWhile_le le_diff_conv le_SucI
      split: list.splits if_splits)

lemma strong_match_shape:
  "strong_match s = Some (rep, rest) \<Longrightarrow> \<exists>r. s = 42 # r \<and> length rest \<le> length r"
proof -
  assume "strong_match s = Some (rep, rest)"
  then have s: "starts_with s [42, 42]" and rest: "rest = drop 2 (dropWhile (\<lambda>x. x \<noteq> 42) (drop 2 s))"
    by (auto simp: strong_match_def Let_def split: if_splits)
  from s obtain r where r: "s = [42, 42] @ r" by (auto dest: starts_withE)
  then show ?thesis
    using rest length_dropWhile_le [of "\<lambda>x. x \<noteq> 42" r] by auto
qed

lemma link_match_shape:
  "link_match s = Some (rep, rest) \<Longrightarrow> \<exists>r. s = 91 # r \<and> length rest \<le> length r"
proof -
  assume a: "link_match s = Some (rep, rest)"
  then obtain r where s: "s = 91 # r"
    by (auto simp: link_match_def Let_def split: list.splits if_splits)
  let ?P = "\<lambda>x. \<not> is_space x \<and> x \<noteq> 41"
  have "rest = tl (dropWhile ?P (drop 2 (dropWhile (\<lambda>x. x \<noteq> 93) r)))"
    using a s by (auto simp: link_match_def Let_def split: if_splits)
  moreover have "length (dropWhile ?P (drop 2 (dropWhile (\<lambda>x. x \<noteq> 93) r))) \<le> length r"
    using length_dropWhile_le [of ?P "drop 2 (dropWhile (\<lambda>x. x \<noteq> 93) r)"]
      length_dropWhile_le [of "\<lambda>x. x \<noteq> 93" r] by auto
  ultimately show ?thesis using s by simp
qed

interpretation code_pass: markup_pass code_match 96 "{}" "tagged code_tags"
proof unfold_locales
  fix r rep rest
  assume r: "tagged {} r" and m: "code_match (96 # r) = Some (rep, rest)"
  let ?b = "takeWhile (\<lambda>x. x \<noteq> 96) r" and ?d = "dropWhile (\<lambda>x. x \<noteq> 96) r"
  have rep: "rep = js ''<code>'' @ ?b @ js ''</code>''" and rest: "rest = tl ?d" and ne: "?d \<noteq> []"
    using m by (auto simp: code_match_def Let_def split: if_splits)
  have parts: "tagged {} ?b" "tagged {} ?d"
    using tagged_cut [OF r, of 96] by auto
  obtain d where d: "?d = 96 # d"
    using ne dropWhile_Cons_fails [of "\<lambda>x. x \<noteq> 96" r] by (cases ?d) auto
  then have "tagged {} rest" using parts rest tagged_behind [of "{}" 96 d] by simp
  moreover have "tagged code_tags (rep @ s)" if "tagged code_tags s" for s
    using that tagged_mono [OF parts(1), of code_tags] unfolding rep
    by (intro tagged_wrap) (simp_all add: code_tags_def)
  ultimately show "tagged {} rest \<and> (\<forall>s. tagged code_tags s \<longrightarrow> tagged code_tags (rep @ s))"
    by simp
qed (use code_match_shape in \<open>auto simp: tag_sets intro: tagged.intros\<close>)

interpretation strong_pass: markup_pass strong_match 42 code_tags "tagged inline_tags"
proof unfold_locales
  fix r rep rest
  assume r: "tagged code_tags r" and m: "strong_match (42 # r) = Some (rep, rest)"
  let ?b = "takeWhile (\<lambda>x. x \<noteq> 42) (tl r)" and ?d = "dropWhile (\<lambda>x. x \<noteq> 42) (tl r)"
  have st: "starts_with (42 # r) [42, 42]" and rep: "rep = js ''<strong>'' @ ?b @ js ''</strong>''"
    and rest: "rest = drop 2 ?d" and d: "starts_with ?d [42, 42]"
    using m by (auto simp: strong_match_def Let_def drop_Suc numeral_2_eq_2 split: if_splits)
  obtain r' where r': "r = 42 # r'" using st by (auto dest: starts_withE)
  have "tagged code_tags r'" using tagged_behind [of code_tags 42 r'] r r' code_inline by simp
  then have parts: "tagged code_tags ?b" "tagged code_tags ?d"
    using tagged_cut [of code_tags r' 42] r' code_inline by auto
  obtain d' where d': "?d = 42 # 42 # d'" using d by (auto dest: starts_withE)
  have "tagged code_tags rest"
    using tagged_behind [of code_tags 42 "42 # d'"] tagged_behind [of code_tags 42 d']
      parts d' rest code_inline by simp
  moreover have "tagged inline_tags (rep @ s)" if "tagged inline_tags s" for s
    using that tagged_mono [OF parts(1) code_inline] unfolding rep
    by (intro tagged_wrap) (simp_all add: inline_tags_def)
  ultimately show "tagged code_tags rest \<and> (\<forall>s. tagged inline_tags s \<longrightarrow> tagged inline_tags (rep @ s))"
    by simp
next
  show "\<And>t. t \<in> code_tags \<Longrightarrow> 42 \<notin> set t" using inline_tag_unit code_inline by blast
  show "\<And>t s. t \<in> code_tags \<Longrightarrow> tagged inline_tags s \<Longrightarrow> tagged inline_tags (t @ s)"
    using code_inline by (blast intro: tagged_tag)
qed (use strong_match_shape in \<open>auto simp: tag_sets intro: tagged.intros\<close>)

interpretation link_pass: markup_pass link_match 91 inline_tags safe_html
proof unfold_locales
  fix r rep rest
  assume r: "tagged inline_tags r" and m: "link_match (91 # r) = Some (rep, rest)"
  let ?P = "\<lambda>x. \<not> is_space x \<and> x \<noteq> 41"
  define lab d where "lab = takeWhile (\<lambda>x. x \<noteq> 93) r" and "d = dropWhile (\<lambda>x. x \<noteq> 93) r"
  define url e where "url = takeWhile ?P (drop 2 d)" and "e = dropWhile ?P (drop 2 d)"
  have rep: "rep = link_open url @ lab @ js ''</a>''" and rest: "rest = tl e" and web: "is_web_url url"
    and d: "starts_with d [93, 40]" and e: "starts_with e [41]"
    using m by (auto simp: link_match_def Let_def lab_def d_def url_def e_def split: if_splits)
  have parts: "tagged inline_tags lab" "tagged inline_tags d"
    using tagged_cut [OF r, of 93] by (auto simp: lab_def d_def)
  obtain d' where d': "d = 93 # 40 # d'" using d by (auto dest: starts_withE)
  have "tagged inline_tags d'"
    using tagged_behind [of inline_tags 93 "40 # d'"] tagged_behind [of inline_tags 40 d'] parts d' by simp
  then have "tagged inline_tags url" "tagged inline_tags e"
    using tagged_cut_url [of inline_tags d'] d' by (auto simp: url_def e_def)
  moreover obtain e' where "e = 41 # e'" using e by (auto dest: starts_withE)
  ultimately have "tagged inline_tags rest" and quote: "34 \<notin> set url"
    using tagged_behind [of inline_tags 41 e'] rest tagged_no_quote tag_sets(3) by auto
  moreover have "safe_html (rep @ s)" if "safe_html s" for s
  proof -
    have "safe_html (js ''</a>'' @ s)"
      using that by (intro safe_tag) (simp_all add: allowed_tags_def)
    then have "safe_html (lab @ js ''</a>'' @ s)"
      using tagged_safe [OF parts(1) inline_tags_allowed] by (rule safe_html_append [rotated])
    then show ?thesis unfolding rep using safe_link [OF quote web] by simp
  qed
  ultimately show "tagged inline_tags rest \<and> (\<forall>s. safe_html s \<longrightarrow> safe_html (rep @ s))" by simp
next
  show "\<And>t. t \<in> inline_tags \<Longrightarrow> 91 \<notin> set t" using inline_tag_unit by blast
  show "\<And>t s. t \<in> inline_tags \<Longrightarrow> safe_html s \<Longrightarrow> safe_html (t @ s)"
    using inline_tags_allowed by (blast intro: safe_tag)
qed (use link_match_shape in \<open>auto simp: tag_sets intro: safe_html.intros\<close>)

lemma inline_safe: "safe_html (inline v)"
proof -
  have "tagged {} (escapeHtml v)"
    using escapeHtml_clean by (intro tagged_text) blast
  then show ?thesis
    unfolding inline_def by (intro link_pass.pass_safe strong_pass.pass_safe code_pass.pass_safe)
qed

section \<open>The block structure of the output\<close>

definition heading_chunk :: "nat \<Rightarrow> jstr \<Rightarrow> jstr" where
  "heading_chunk n t = js ''<h'' @ [48 + (n + 1)] @ js ''>'' @ inline t @ js ''</h'' @ [48 + (n + 1)] @ js ''>''"

definition item_chunk :: "jstr \<Rightarrow> jstr" where
  "item_chunk t = js ''<li>'' @ inline t @ js ''</li>''"

definition para_chunk :: "jstr \<Rightarrow> jstr" where
  "para_chunk t = js ''<p>'' @ inline t @ js ''</p>''"

definition code_chunk :: "jstr \<Rightarrow> jstr" where
  "code_chunk l = escapeHtml l @ [10]"

text \<open>
  A document: paragraphs, empty chunks and headings, lists with at least one item, and code
  blocks of escaped lines, each opened and closed.
\<close>

inductive document :: "jstr list \<Rightarrow> bool" where
  doc_nil: "document []"
| doc_empty: "document d \<Longrightarrow> document (d @ [[]])"
| doc_para: "document d \<Longrightarrow> document (d @ [para_chunk t])"
| doc_heading: "document d \<Longrightarrow> 1 \<le> n \<Longrightarrow> n \<le> 4 \<Longrightarrow> document (d @ [heading_chunk n t])"
| doc_list: "document d \<Longrightarrow> ts \<noteq> [] \<Longrightarrow>
    document (d @ js ''<ul>'' # map item_chunk ts @ [js ''</ul>''])"
| doc_code: "document d \<Longrightarrow>
    document (d @ js ''<pre><code>'' # map code_chunk ls @ [js ''</code></pre>''])"

text \<open>The loop invariant: what has been written, by mode.\<close>

definition md_inv :: "md_state \<Rightarrow> bool" where
  "md_inv st \<longleftrightarrow>
     (if inCode st then \<not> inList st \<and> (\<exists>d ls. document d \<and>
        md_output st = d @ js ''<pre><code>'' # map code_chunk ls)
      else if inList st then (\<exists>d ts. document d \<and> ts \<noteq> [] \<and>
        md_output st = d @ js ''<ul>'' # map item_chunk ts)
      else document (md_output st))"

lemma md_inv_codeI:
  "inCode st \<Longrightarrow> \<not> inList st \<Longrightarrow> document d \<Longrightarrow>
   md_output st = d @ js ''<pre><code>'' # map code_chunk ls \<Longrightarrow> md_inv st"
  by (auto simp: md_inv_def)

lemma md_inv_listI:
  "\<not> inCode st \<Longrightarrow> inList st \<Longrightarrow> document d \<Longrightarrow> ts \<noteq> [] \<Longrightarrow>
   md_output st = d @ js ''<ul>'' # map item_chunk ts \<Longrightarrow> md_inv st"
  by (auto simp: md_inv_def)

lemma match_heading_range: "match_heading line = Some (n, t) \<Longrightarrow> 1 \<le> n \<and> n \<le> 4"
  by (auto simp: match_heading_def Let_def split: if_splits)

lemma close_list_inv:
  assumes "md_inv st"
  shows "md_inv (close_list st) \<and> \<not> inList (close_list st) \<and> inCode (close_list st) = inCode st"
proof (cases "inList st")
  case True
  then obtain d ts where "document d" "ts \<noteq> []" "md_output st = d @ js ''<ul>'' # map item_chunk ts"
    and c: "\<not> inCode st"
    using assms by (auto simp: md_inv_def split: if_splits)
  then have "document (md_output st @ [js ''</ul>''])"
    using doc_list [of d ts] by simp
  then show ?thesis using True c by (simp add: close_list_def push_def md_inv_def)
qed (use assms in \<open>simp add: close_list_def\<close>)

lemma push_leaf_inv:
  assumes "md_inv st" "\<not> inCode st" "\<not> inList st"
    "y = [] \<or> (\<exists>t. y = para_chunk t) \<or> (\<exists>n t. 1 \<le> n \<and> n \<le> 4 \<and> y = heading_chunk n t)"
  shows "md_inv (push st y)"
  using assms by (auto simp: md_inv_def push_def intro: document.intros)

lemma push_code_inv:
  assumes "md_inv st" "inCode st"
  shows "md_inv (push st (code_chunk l))"
proof -
  obtain d ls where "document d" "md_output st = d @ js ''<pre><code>'' # map code_chunk ls" "\<not> inList st"
    using assms by (auto simp: md_inv_def)
  then show ?thesis
    using assms(2) by (intro md_inv_codeI [of _ d "ls @ [l]"]) (simp_all add: push_def)
qed

lemma push_item_inv:
  assumes "md_inv st" "\<not> inCode st"
  shows "md_inv (push (if \<not> inList st then (push st (js ''<ul>''))\<lparr>inList := True\<rparr> else st) (item_chunk t))"
proof (cases "inList st")
  case True
  then obtain d ts where d: "document d" "ts \<noteq> []" "md_output st = d @ js ''<ul>'' # map item_chunk ts"
    using assms by (auto simp: md_inv_def)
  then show ?thesis
    using True assms(2) by (intro md_inv_listI [of _ d "ts @ [t]"]) (simp_all add: push_def)
next
  case False
  then have d: "document (md_output st)" using assms by (simp add: md_inv_def)
  then show ?thesis using False assms(2)
    by (intro md_inv_listI [of _ "md_output st" "[t]"]) (simp_all add: push_def)
qed

lemma render_line_cases:
  assumes "\<not> starts_with line [96, 96, 96]" "\<not> inCode st"
  shows "match_heading line = Some (n, t) \<Longrightarrow> render_line st line = push (close_list st) (heading_chunk n t)"
    and "match_heading line = None \<Longrightarrow> match_item line = Some t \<Longrightarrow> render_line st line =
      push (if \<not> inList st then (push st (js ''<ul>''))\<lparr>inList := True\<rparr> else st) (item_chunk t)"
    and "match_heading line = None \<Longrightarrow> match_item line = None \<Longrightarrow> render_line st line =
      push (close_list st) (if trim line \<noteq> [] then para_chunk line else [])"
  using assms by (simp_all add: render_line_def Let_def heading_chunk_def item_chunk_def para_chunk_def)

lemma render_line_inv:
  assumes inv: "md_inv st"
  shows "md_inv (render_line st line)"
proof -
  note cl = close_list_inv [OF inv]
  have fence: "md_inv ((push (close_list st) (if inCode (close_list st) then js ''</code></pre>''
      else js ''<pre><code>''))\<lparr>inCode := \<not> inCode (close_list st)\<rparr>)"
  proof (cases "inCode st")
    case True
    then obtain d ls where "document d" "md_output (close_list st) = d @ js ''<pre><code>'' # map code_chunk ls"
      using cl by (auto simp: md_inv_def)
    then have "document (md_output (close_list st) @ [js ''</code></pre>''])"
      using doc_code [of d ls] by simp
    then show ?thesis using cl True by (simp add: md_inv_def push_def)
  next
    case False
    then have "document (md_output (close_list st))" using cl by (simp add: md_inv_def)
    then show ?thesis using cl False
      by (intro md_inv_codeI [of _ "md_output (close_list st)" "[]"]) (simp_all add: push_def)
  qed
  show ?thesis
  proof (cases "starts_with line [96, 96, 96]")
    case True
    then show ?thesis using fence by (simp add: render_line_def Let_def push_def)
  next
    case nofence: False
    show ?thesis
    proof (cases "inCode st")
      case True
      then show ?thesis
        using nofence push_code_inv [OF inv True, of line] by (simp add: render_line_def code_chunk_def)
    next
      case nocode: False
      have leaf: "md_inv (push (close_list st) y)" if "y = [] \<or> (\<exists>t. y = para_chunk t)
          \<or> (\<exists>n t. 1 \<le> n \<and> n \<le> 4 \<and> y = heading_chunk n t)" for y
        using that cl nocode by (intro push_leaf_inv) auto
      note cs = render_line_cases [OF nofence nocode]
      show ?thesis
      proof (cases "match_heading line")
        case None
        show ?thesis
        proof (cases "match_item line")
          case item: None
          show ?thesis unfolding cs(3) [OF None item] by (rule leaf) auto
        next
          case (Some t)
          then show ?thesis using cs(2) [OF None] push_item_inv [OF inv nocode] by simp
        qed
      next
        case (Some p)
        then obtain n t where h: "match_heading line = Some (n, t)" by (cases p) auto
        show ?thesis unfolding cs(1) [OF h]
          by (rule leaf) (use match_heading_range [OF h] in blast)
      qed
    qed
  qed
qed

lemma render_lines_inv: "md_inv st \<Longrightarrow> md_inv (foldl render_line st lines)"
  by (induction lines arbitrary: st) (auto simp: render_line_inv)

lemma md_finish_document: "md_inv st \<Longrightarrow> document (md_finish st)"
  by (auto simp: md_inv_def md_finish_def intro: doc_list doc_code split: if_splits)

text \<open>The output is a sequence of complete blocks for every input: each list holds at
  least one item and is closed before anything that is not an item, code blocks never nest in
  lists, and an unterminated fence or list at the end of the text is closed.\<close>

theorem render_document: "document (md_chunks source)"
  unfolding md_chunks_def
  by (intro md_finish_document render_lines_inv) (simp add: md_inv_def doc_nil)

section \<open>Safety\<close>

lemma safe_between:
  "t \<in> allowed_tags \<Longrightarrow> u \<in> allowed_tags \<Longrightarrow> safe_html b \<Longrightarrow> safe_html (t @ b @ u)"
  by (meson safe_tag safe_html_append safe_html_allowed)

lemma chunk_safe:
  "safe_html (para_chunk t)" "safe_html (item_chunk t)" "safe_html (code_chunk l)"
  "1 \<le> n \<Longrightarrow> n \<le> 4 \<Longrightarrow> safe_html (heading_chunk n t)"
proof -
  show "safe_html (para_chunk t)" "safe_html (item_chunk t)"
    by (auto simp: para_chunk_def item_chunk_def allowed_tags_def intro!: safe_between inline_safe)
  show "safe_html (code_chunk l)"
    by (auto simp: code_chunk_def intro!: safe_html_text dest: escapeHtml_clean)
  assume "1 \<le> n" "n \<le> 4"
  then have "n \<in> {1, 2, 3, 4}" by auto
  then have "js ''<h'' @ [48 + (n + 1)] @ js ''>'' \<in> allowed_tags"
    "js ''</h'' @ [48 + (n + 1)] @ js ''>'' \<in> allowed_tags"
    by (auto simp: allowed_tags_def js_def)
  then show "safe_html (heading_chunk n t)"
    using safe_between [OF _ _ inline_safe] by (fastforce simp: heading_chunk_def)
qed

lemma fence_safe: "safe_html (js ''<pre><code>'')" "safe_html (js ''</code></pre>'')"
proof -
  have "js ''<pre><code>'' = js ''<pre>'' @ js ''<code>''" "js ''</code></pre>'' = js ''</code>'' @ js ''</pre>''"
    by (simp_all add: js_def)
  moreover have "js ''<pre>'' \<in> allowed_tags" "js ''<code>'' \<in> allowed_tags"
    "js ''</code>'' \<in> allowed_tags" "js ''</pre>'' \<in> allowed_tags"
    by (simp_all add: allowed_tags_def)
  ultimately show "safe_html (js ''<pre><code>'')" "safe_html (js ''</code></pre>'')"
    using safe_html_append [OF safe_html_allowed safe_html_allowed] by simp_all
qed

lemma list_tag_safe: "safe_html (js ''<ul>'')" "safe_html (js ''</ul>'')"
  by (rule safe_html_allowed; simp add: allowed_tags_def)+

lemma safe_concat_map: "(\<And>x. safe_html (f x)) \<Longrightarrow> safe_html (concat (map f xs))"
  by (induction xs) (auto intro: safe_nil safe_html_append)

lemma document_safe: "document d \<Longrightarrow> safe_html (concat d)"
  by (induction rule: document.induct)
    (auto intro!: safe_nil safe_html_append safe_concat_map chunk_safe fence_safe list_tag_safe)


end
