(* ===== verification/JsJson.thy ===== *)
theory JsJson imports JsValues begin

text \<open>
  \<open>JSON.stringify\<close> on the values of the model, compact and indented, and
  \<open>encodeURIComponent\<close> with the decoder that recovers its argument.
\<close>

section \<open>JSON text\<close>

definition hex_digit :: "nat \<Rightarrow> nat" where
  "hex_digit d = (if d < 10 then 48 + d else 87 + d)"

definition json_unit_escape :: "nat \<Rightarrow> jstr" where
  "json_unit_escape c = [92, 117, hex_digit (c div 4096), hex_digit (c div 256 mod 16),
     hex_digit (c div 16 mod 16), hex_digit (c mod 16)]"

definition is_high_surrogate :: "nat \<Rightarrow> bool" where
  "is_high_surrogate c \<longleftrightarrow> 0xd800 \<le> c \<and> c \<le> 0xdbff"

definition is_low_surrogate :: "nat \<Rightarrow> bool" where
  "is_low_surrogate c \<longleftrightarrow> 0xdc00 \<le> c \<and> c \<le> 0xdfff"

text \<open>Control units and lone surrogates are written as escapes, a surrogate pair as it is.\<close>

fun json_units :: "jstr \<Rightarrow> jstr" where
  "json_units [] = []"
| "json_units (c # s) =
     (if c = 34 then [92, 34] @ json_units s
      else if c = 92 then [92, 92] @ json_units s
      else if c = 8 then [92, 98] @ json_units s
      else if c = 12 then [92, 102] @ json_units s
      else if c = 10 then [92, 110] @ json_units s
      else if c = 13 then [92, 114] @ json_units s
      else if c = 9 then [92, 116] @ json_units s
      else if c < 32 \<or> is_low_surrogate c then json_unit_escape c @ json_units s
      else if is_high_surrogate c then
        (case s of d # r \<Rightarrow> if is_low_surrogate d then [c, d] @ json_units r
                          else json_unit_escape c @ json_units s
         | [] \<Rightarrow> json_unit_escape c)
      else c # json_units s)"

definition json_quote :: "jstr \<Rightarrow> jstr" where
  "json_quote s = [34] @ json_units s @ [34]"

text \<open>Brackets around parts, on one line without a gap, else one part per line.\<close>

definition json_wrap :: "jstr \<Rightarrow> jstr \<Rightarrow> nat \<Rightarrow> nat \<Rightarrow> jstr list \<Rightarrow> jstr" where
  "json_wrap gap indent l r parts =
     (if parts = [] then [l, r]
      else if gap = [] then [l] @ join [44] parts @ [r]
      else [l, 10] @ indent @ gap @ join ([44, 10] @ indent @ gap) parts @ [10] @ indent @ [r])"

text \<open>
  \<open>stringify gap indent v\<close>; \<open>None\<close> is JavaScript's \<open>undefined\<close>, which \<open>undefined\<close> and functions
  yield: such a property is left out and such an array element becomes \<open>null\<close>.
\<close>

fun stringify :: "jstr \<Rightarrow> jstr \<Rightarrow> jsval \<Rightarrow> jstr option"
  and stringify_elems :: "jstr \<Rightarrow> jstr \<Rightarrow> jsval list \<Rightarrow> jstr list"
  and stringify_props :: "jstr \<Rightarrow> jstr \<Rightarrow> props \<Rightarrow> jstr list" where
  "stringify gap indent JUndef = None"
| "stringify gap indent (JFun f) = None"
| "stringify gap indent JNull = Some (js ''null'')"
| "stringify gap indent (JBool b) = Some (if b then js ''true'' else js ''false'')"
| "stringify gap indent (JNum n) = Some (if is_finite n then num_to_string n else js ''null'')"
| "stringify gap indent (JStr s) = Some (json_quote s)"
| "stringify gap indent (JArr xs) =
     Some (json_wrap gap indent 91 93 (stringify_elems gap (indent @ gap) xs))"
| "stringify gap indent (JObj ps) =
     Some (json_wrap gap indent 123 125 (stringify_props gap (indent @ gap) ps))"
| "stringify_elems gap indent [] = []"
| "stringify_elems gap indent (x # xs) =
     (case stringify gap indent x of Some s \<Rightarrow> s | None \<Rightarrow> js ''null'') # stringify_elems gap indent xs"
| "stringify_props gap indent [] = []"
| "stringify_props gap indent ((k, v) # ps) =
     (case stringify gap indent v of
        Some s \<Rightarrow> (json_quote k @ (if gap = [] then [58] else [58, 32]) @ s) # stringify_props gap indent ps
      | None \<Rightarrow> stringify_props gap indent ps)"

definition json_stringify :: "jsval \<Rightarrow> jsval" where
  "json_stringify v = (case stringify [] [] v of Some s \<Rightarrow> JStr s | None \<Rightarrow> JUndef)"

definition json_stringify_pretty :: "jsval \<Rightarrow> jsval" where
  "json_stringify_pretty v = (case stringify [32, 32] [] v of Some s \<Rightarrow> JStr s | None \<Rightarrow> JUndef)"

section \<open>URI components\<close>

definition uri_unreserved :: "nat \<Rightarrow> bool" where
  "uri_unreserved c \<longleftrightarrow> (48 \<le> c \<and> c \<le> 57) \<or> (65 \<le> c \<and> c \<le> 90) \<or> (97 \<le> c \<and> c \<le> 122)
     \<or> c \<in> {45, 95, 46, 33, 126, 42, 39, 40, 41}"

definition upper_hex :: "nat \<Rightarrow> nat" where
  "upper_hex d = (if d < 10 then 48 + d else 55 + d)"

definition pct :: "nat \<Rightarrow> jstr" where
  "pct b = [37, upper_hex (b div 16), upper_hex (b mod 16)]"

definition utf8 :: "nat \<Rightarrow> nat list" where
  "utf8 p = (if p < 0x80 then [p]
     else if p < 0x800 then [0xc0 + p div 64, 0x80 + p mod 64]
     else if p < 0x10000 then [0xe0 + p div 4096, 0x80 + p div 64 mod 64, 0x80 + p mod 64]
     else [0xf0 + p div 262144, 0x80 + p div 4096 mod 64, 0x80 + p div 64 mod 64, 0x80 + p mod 64])"

definition pct_point :: "nat \<Rightarrow> jstr" where
  "pct_point p = concat (map pct (utf8 p))"

text \<open>\<open>encodeURIComponent\<close> throws on a lone surrogate.\<close>

fun encodeURIComponent :: "jstr \<Rightarrow> jstr js" where
  "encodeURIComponent [] = Inr []"
| "encodeURIComponent (c # s) =
     (if uri_unreserved c then andThen (encodeURIComponent s) (\<lambda>t. Inr (c # t))
      else if is_low_surrogate c then Inl URIError
      else if is_high_surrogate c then
        (case s of d # r \<Rightarrow>
            if is_low_surrogate d
            then andThen (encodeURIComponent r)
              (\<lambda>t. Inr (pct_point (0x10000 + (c - 0xd800) * 1024 + (d - 0xdc00)) @ t))
            else Inl URIError
         | [] \<Rightarrow> Inl URIError)
      else andThen (encodeURIComponent s) (\<lambda>t. Inr (pct_point c @ t)))"

text \<open>Well-formed text: 16-bit units in which surrogates come in pairs.\<close>

fun well_formed :: "jstr \<Rightarrow> bool" where
  "well_formed [] \<longleftrightarrow> True"
| "well_formed (c # s) \<longleftrightarrow> c < 0x10000 \<and> \<not> is_low_surrogate c \<and>
     (if is_high_surrogate c
      then (case s of d # r \<Rightarrow> is_low_surrogate d \<and> well_formed r | [] \<Rightarrow> False)
      else well_formed s)"

text \<open>The server's view: percent triples to bytes, bytes to code points, points to units.\<close>

definition hex_value :: "nat \<Rightarrow> nat" where
  "hex_value h = (if h < 58 then h - 48 else h - 55)"

fun pct_bytes :: "jstr \<Rightarrow> nat list" where
  "pct_bytes [] = []"
| "pct_bytes (c # s) =
     (if c = 37 then (case s of h # l # r \<Rightarrow> (hex_value h * 16 + hex_value l) # pct_bytes r | _ \<Rightarrow> [])
      else c # pct_bytes s)"

definition units_of_point :: "nat \<Rightarrow> jstr" where
  "units_of_point p = (if p < 0x10000 then [p]
     else [0xd800 + (p - 0x10000) div 1024, 0xdc00 + (p - 0x10000) mod 1024])"

fun utf8_decode :: "nat list \<Rightarrow> jstr" where
  "utf8_decode [] = []"
| "utf8_decode (b # s) =
     (if b < 0x80 then b # utf8_decode s
      else if b < 0xe0 then
        (case s of b1 # r \<Rightarrow> units_of_point ((b - 0xc0) * 64 + (b1 - 0x80)) @ utf8_decode r | _ \<Rightarrow> [])
      else if b < 0xf0 then
        (case s of b1 # b2 # r \<Rightarrow>
           units_of_point ((b - 0xe0) * 4096 + (b1 - 0x80) * 64 + (b2 - 0x80)) @ utf8_decode r | _ \<Rightarrow> [])
      else
        (case s of b1 # b2 # b3 # r \<Rightarrow>
           units_of_point ((b - 0xf0) * 262144 + (b1 - 0x80) * 4096 + (b2 - 0x80) * 64 + (b3 - 0x80))
             @ utf8_decode r | _ \<Rightarrow> []))"

definition uri_decode :: "jstr \<Rightarrow> jstr" where
  "uri_decode s = utf8_decode (pct_bytes s)"

lemma pct_bytes_pct: "b < 256 \<Longrightarrow> pct_bytes (pct b @ s) = b # pct_bytes s"
proof -
  assume "b < 256"
  then have "b div 16 < 16" "b mod 16 < 16" by auto
  then show ?thesis by (auto simp: pct_def upper_hex_def hex_value_def)
qed

lemma pct_bytes_point: "p < 0x110000 \<Longrightarrow> pct_bytes (pct_point p @ s) = utf8 p @ pct_bytes s"
proof -
  assume p: "p < 0x110000"
  have "\<forall>b \<in> set (utf8 p). b < 256"
    using p by (auto simp: utf8_def)
  moreover have "pct_bytes (concat (map pct bs) @ s) = bs @ pct_bytes s" if "\<forall>b \<in> set bs. b < 256" for bs
    using that by (induction bs) (auto simp: pct_bytes_pct)
  ultimately show ?thesis by (simp add: pct_point_def)
qed

lemma utf8_decode_point:
  assumes "p < 0x110000"
  shows "utf8_decode (utf8 p @ s) = units_of_point p @ utf8_decode s"
proof -
  have a: "p div 64 * 64 + p mod 64 = p" by simp
  have b: "p div 64 mod 64 = p div 64 - p div 4096 * 64"
    by (simp add: div_mult2_eq [of p 64 64, simplified] minus_div_mult_eq_mod)
  have c: "p div 4096 * 64 \<le> p div 64"
    by (simp add: div_mult2_eq [of p 64 64, simplified])
  have d: "p div 4096 mod 64 = p div 4096 - p div 262144 * 64"
    by (simp add: div_mult2_eq [of p 4096 64, simplified] minus_div_mult_eq_mod)
  have e: "p div 262144 * 64 \<le> p div 4096"
    by (simp add: div_mult2_eq [of p 4096 64, simplified])
  consider "p < 0x80" | "0x80 \<le> p" "p < 0x800" | "0x800 \<le> p" "p < 0x10000"
    | "0x10000 \<le> p" by linarith
  then show ?thesis
  proof cases
    case 1
    then show ?thesis by (simp add: utf8_def units_of_point_def)
  next
    case 2
    then have "p div 64 < 32" by auto
    then show ?thesis using 2 by (simp add: utf8_def)
  next
    case 3
    then have "p div 4096 < 16" by auto
    moreover have "p div 4096 * 4096 + p div 64 mod 64 * 64 + p mod 64 = p"
      using a b c by (simp add: diff_mult_distrib)
    ultimately show ?thesis using 3 by (simp add: utf8_def)
  next
    case 4
    have "p div 262144 * 262144 + p div 4096 mod 64 * 4096 + p div 64 mod 64 * 64 + p mod 64 = p"
      using a b c d e by (simp add: diff_mult_distrib)
    then show ?thesis using 4 assms by (simp add: utf8_def)
  qed
qed

lemma well_formed_induct [consumes 1, case_names Nil unit pair]:
  assumes "well_formed s"
    and "P []"
    and "\<And>c r. c < 0x10000 \<Longrightarrow> \<not> is_low_surrogate c \<Longrightarrow> \<not> is_high_surrogate c \<Longrightarrow>
           well_formed r \<Longrightarrow> P r \<Longrightarrow> P (c # r)"
    and "\<And>c d r. is_high_surrogate c \<Longrightarrow> is_low_surrogate d \<Longrightarrow> well_formed r \<Longrightarrow> P r \<Longrightarrow> P (c # d # r)"
  shows "P s"
  using assms(1)
proof (induction s rule: well_formed.induct)
  case (2 c s)
  then show ?case
    by (cases "is_high_surrogate c") (auto intro: assms split: list.splits)
qed (rule assms(2))

text \<open>The units that a percent-encoded text consists of.\<close>

definition uri_safe :: "nat \<Rightarrow> bool" where
  "uri_safe c \<longleftrightarrow> c = 37 \<or> uri_unreserved c"

lemma upper_hex_safe: "d < 16 \<Longrightarrow> uri_safe (upper_hex d)"
  by (auto simp: upper_hex_def uri_safe_def uri_unreserved_def)

lemma utf8_bytes: "p < 0x110000 \<Longrightarrow> b \<in> set (utf8 p) \<Longrightarrow> b < 256"
  by (auto simp: utf8_def split: if_splits)

lemma pct_point_safe:
  assumes "p < 0x110000" "c \<in> set (pct_point p)"
  shows "uri_safe c"
proof -
  obtain b where b: "b < 256" "c \<in> set (pct b)"
    using assms by (auto simp: pct_point_def dest: utf8_bytes)
  then have "b div 16 < 16" "b mod 16 < 16" by auto
  with b(2) show ?thesis
    by (auto simp: pct_def upper_hex_safe) (simp add: uri_safe_def)
qed

lemma units_of_pair:
  assumes "is_high_surrogate c" "is_low_surrogate d"
  defines "p \<equiv> 0x10000 + (c - 0xd800) * 1024 + (d - 0xdc00)"
  shows "p < 0x110000" "units_of_point p = [c, d]"
proof -
  have c: "0xd800 \<le> c" "c - 0xd800 < 1024" and d: "0xdc00 \<le> d" "d - 0xdc00 < 1024"
    using assms(1,2) by (auto simp: is_high_surrogate_def is_low_surrogate_def)
  show "p < 0x110000" using c d by (simp add: p_def)
  have "p - 0x10000 = (c - 0xd800) * 1024 + (d - 0xdc00)" by (simp add: p_def)
  then have "(p - 0x10000) div 1024 = c - 0xd800" "(p - 0x10000) mod 1024 = d - 0xdc00"
    using d by (simp_all only: div_mult_self3 mod_mult_self3) simp_all
  then show "units_of_point p = [c, d]"
    using c d by (simp add: units_of_point_def) (simp add: p_def)
qed

lemma unreserved_decode:
  "uri_unreserved c \<Longrightarrow> uri_decode (c # t) = c # uri_decode t"
  by (auto simp: uri_decode_def uri_unreserved_def)

lemma decode_point:
  "p < 0x110000 \<Longrightarrow> uri_decode (pct_point p @ t) = units_of_point p @ uri_decode t"
  by (simp add: uri_decode_def pct_bytes_point utf8_decode_point)

text \<open>
  Encoding succeeds on every well-formed text, the result consists of safe units only, and
  decoding it gives the text back.
\<close>

lemma encodeURIComponent_roundtrip:
  assumes "well_formed s"
  shows "\<exists>t. encodeURIComponent s = Inr t \<and> uri_decode t = s \<and> list_all uri_safe t"
  using assms
proof (induction s rule: well_formed_induct)
  case Nil
  show ?case by (simp add: uri_decode_def)
next
  case (unit c r)
  then obtain t where t: "encodeURIComponent r = Inr t" "uri_decode t = r" "list_all uri_safe t"
    by blast
  show ?case
  proof (cases "uri_unreserved c")
    case True
    moreover from this have "uri_safe c" by (simp add: uri_safe_def)
    ultimately show ?thesis using t by (simp add: unreserved_decode)
  next
    case False
    have "c < 0x110000" using unit by simp
    then show ?thesis
      using False unit t pct_point_safe [of c]
      by (simp add: decode_point) (simp add: units_of_point_def list_all_iff)
  qed
next
  case (pair c d r)
  then obtain t where t: "encodeURIComponent r = Inr t" "uri_decode t = r" "list_all uri_safe t"
    by blast
  let ?p = "0x10000 + (c - 0xd800) * 1024 + (d - 0xdc00)"
  have nu: "\<not> uri_unreserved c" "\<not> is_low_surrogate c"
    using pair(1) by (auto simp: is_high_surrogate_def is_low_surrogate_def uri_unreserved_def)
  have e: "encodeURIComponent (c # d # r) = Inr (pct_point ?p @ t)"
    using nu pair t by simp
  moreover have "uri_decode (pct_point ?p @ t) = c # d # r"
    using units_of_pair [OF pair(1,2)] t by (simp add: decode_point)
  moreover have "list_all uri_safe (pct_point ?p @ t)"
    using pct_point_safe [OF units_of_pair(1) [OF pair(1,2)]] t(3) by (auto simp: list_all_iff)
  ultimately show ?case by blast
qed

lemma encodeURIComponent_inj:
  "well_formed s \<Longrightarrow> well_formed s' \<Longrightarrow> encodeURIComponent s = encodeURIComponent s' \<Longrightarrow> s = s'"
  using encodeURIComponent_roundtrip by (metis Inr_inject)

end
