(* ===== verification/ApiClient.thy ===== *)
theory ApiClient imports JsJson begin

text \<open>
  \<open>api.js\<close>: the client through which every request of the console goes.  A request is built
  from the path, the options, the parameters and the stored token; \<open>fetch\<close> and the URL parser
  belong to the browser and are arguments of the model; the answer is settled into a payload or
  an exception, with the events dispatched on the way.
\<close>

section \<open>The host\<close>

text \<open>A URL: what the parser made of the reference, and its list of query pairs.\<close>

record url =
  url_target :: jstr
  url_query :: "(jstr \<times> jstr) list"

text \<open>
  \<open>location_origin\<close> is \<open>None\<close> where there is no \<open>window\<close>, else the value of
  \<open>window.location?.origin\<close>; \<open>local_storage\<close> is \<open>None\<close> where there is no storage.
\<close>

record host =
  api_base :: jsval
  location_origin :: "jsval option"
  local_storage :: "(jstr \<rightharpoonup> jstr) option"
  has_form_data :: bool
  parse_url :: "jstr \<Rightarrow> jstr \<Rightarrow> url js"

text \<open>A request body: a text (or nothing, or whatever the caller passed), or a form.\<close>

datatype 'file body = Value jsval | Form "(jstr \<times> 'file) list"

record 'file options =
  opt_method :: jsval
  opt_body :: "'file body"
  opt_headers :: props
  opt_skipUnauthorized :: jsval

record 'file wire =
  wire_url :: url
  wire_method :: jsval
  wire_body :: "'file body"
  wire_headers :: props

text \<open>The answer: \<open>fetch\<close> rejects, or responds; \<open>None\<close> is a body that is not JSON.\<close>

record response =
  resp_status :: nat
  resp_request_id :: "jstr option"
  resp_json :: "jsval option"

datatype fetch_result = Rejects jsval | Responds response

datatype event = Unauthorized api_error

definition no_options :: "'file options" where
  "no_options = \<lparr>opt_method = JUndef, opt_body = Value JUndef, opt_headers = [],
     opt_skipUnauthorized = JUndef\<rparr>"

section \<open>Constants\<close>

definition TOKEN_KEY :: jstr where
  "TOKEN_KEY = js ''codex-memory-admin-token''"

definition STATUS_MESSAGES :: "(nat \<times> jstr) list" where
  "STATUS_MESSAGES =
     [(400, [0x8bf7, 0x6c42, 0x5185, 0x5bb9, 0x6709, 0x8bef, 0xff0c, 0x8bf7, 0x68c0, 0x67e5,
     0x540e, 0x91cd, 0x8bd5, 0x3002]),
      (401, [0x767b, 0x5f55, 0x72b6, 0x6001, 0x5df2, 0x5931, 0x6548, 0xff0c, 0x8bf7, 0x91cd,
     0x65b0, 0x767b, 0x5f55, 0x3002]),
      (403, [0x5f53, 0x524d, 0x8d26, 0x53f7, 0x6ca1, 0x6709, 0x6267, 0x884c, 0x6b64, 0x64cd,
     0x4f5c, 0x7684, 0x6743, 0x9650, 0x3002]),
      (404, [0x672a, 0x627e, 0x5230, 0x8bf7, 0x6c42, 0x7684, 0x6570, 0x636e, 0xff0c, 0x5185,
     0x5bb9, 0x53ef, 0x80fd, 0x5df2, 0x88ab, 0x79fb, 0x9664, 0x3002]),
      (409, [0x6570, 0x636e, 0x5df2, 0x53d1, 0x751f, 0x53d8, 0x5316, 0xff0c, 0x8bf7, 0x5237,
     0x65b0, 0x540e, 0x91cd, 0x8bd5, 0x3002]),
      (413, [0x6587, 0x4ef6, 0x8fc7, 0x5927, 0xff0c, 0x8bf7, 0x538b, 0x7f29, 0x6216, 0x62c6,
     0x5206, 0x540e, 0x91cd, 0x8bd5, 0x3002]),
      (422, [0x90e8, 0x5206, 0x8f93, 0x5165, 0x4e0d, 0x7b26, 0x5408, 0x8981, 0x6c42, 0xff0c,
     0x8bf7, 0x68c0, 0x67e5, 0x8868, 0x5355, 0x3002]),
      (429, [0x8bf7, 0x6c42, 0x8fc7, 0x4e8e, 0x9891, 0x7e41, 0xff0c, 0x8bf7, 0x7a0d, 0x540e,
     0x91cd, 0x8bd5, 0x3002]),
      (500, [0x670d, 0x52a1, 0x6682, 0x65f6, 0x4e0d, 0x53ef, 0x7528, 0xff0c, 0x8bf7, 0x7a0d,
     0x540e, 0x91cd, 0x8bd5, 0x3002]),
      (502, [0x4e0a, 0x6e38, 0x670d, 0x52a1, 0x6682, 0x65f6, 0x4e0d, 0x53ef, 0x7528, 0xff0c,
     0x8bf7, 0x7a0d, 0x540e, 0x91cd, 0x8bd5, 0x3002]),
      (503, [0x670d, 0x52a1, 0x6b63, 0x5728, 0x7ef4, 0x62a4, 0xff0c, 0x8bf7, 0x7a0d, 0x540e,
     0x91cd, 0x8bd5, 0x3002])]"

definition msg_cancelled :: jstr where "msg_cancelled = [0x8bf7, 0x6c42, 0x5df2, 0x53d6, 0x6d88, 0x3002]"
definition msg_failed :: jstr where "msg_failed = [0x8bf7, 0x6c42, 0x5931, 0x8d25, 0xff0c, 0x8bf7, 0x7a0d, 0x540e, 0x91cd, 0x8bd5,
     0x3002]"
definition msg_network :: jstr where "msg_network = [0x65e0, 0x6cd5, 0x8fde, 0x63a5, 0x7ba1, 0x7406, 32, 65, 80, 73, 0xff0c, 0x8bf7,
     0x68c0, 0x67e5, 0x670d, 0x52a1, 0x72b6, 0x6001, 0x540e, 0x91cd, 0x8bd5, 0x3002]"
definition msg_http :: "nat \<Rightarrow> jstr" where
  "msg_http status = [0x8bf7, 0x6c42, 0x5931, 0x8d25, 0xff08, 72, 84, 84, 80, 32] @ dec_digits (int status) @ [0xff09, 0x3002]"

section \<open>Building a request\<close>

definition base :: "host \<Rightarrow> jsval" where
  "base h = js_or (api_base h) (S ''/api/admin/v1'')"

definition storageToken :: "host \<Rightarrow> jstr" where
  "storageToken h = (case local_storage h of None \<Rightarrow> []
    | Some items \<Rightarrow> (case items TOKEN_KEY of Some t \<Rightarrow> t | None \<Rightarrow> []))"

text \<open>\<open>URLSearchParams.set\<close> replaces the first pair of that name and drops the others.\<close>

fun query_set :: "(jstr \<times> jstr) list \<Rightarrow> jstr \<Rightarrow> jstr \<Rightarrow> (jstr \<times> jstr) list" where
  "query_set [] k v = [(k, v)]"
| "query_set ((k', v') # ps) k v =
     (if k' = k then (k, v) # filter (\<lambda>p. fst p \<noteq> k) ps else (k', v') # query_set ps k v)"

definition append_entry :: "(jstr \<times> jstr) list \<Rightarrow> jstr \<times> jsval \<Rightarrow> (jstr \<times> jstr) list" where
  "append_entry q entry = (case entry of (key, v) \<Rightarrow>
     if strict_eq v JUndef \<or> strict_eq v JNull \<or> strict_eq v (JStr []) then q
     else if is_array v then q @ map (\<lambda>item. (key, to_string item)) (elems v)
     else query_set q key (to_string v))"

definition appendQuery :: "url \<Rightarrow> jsval \<Rightarrow> url" where
  "appendQuery u params =
     u\<lparr>url_query := foldl append_entry (url_query u) (entries (js_or params (JObj [])))\<rparr>"

definition body_truthy :: "'file body \<Rightarrow> bool" where
  "body_truthy b = (case b of Value v \<Rightarrow> truthy v | Form _ \<Rightarrow> True)"

definition is_form :: "'file body \<Rightarrow> bool" where
  "is_form b = (case b of Value _ \<Rightarrow> False | Form _ \<Rightarrow> True)"

definition request_headers :: "host \<Rightarrow> 'file options \<Rightarrow> props" where
  "request_headers h opts =
     (let token = storageToken h;
          isFormData = (has_form_data h \<and> is_form (opt_body opts))
      in put_all
          ([(js ''Accept'', S ''application/json'')]
            @ (if body_truthy (opt_body opts) \<and> \<not> isFormData
               then [(js ''Content-Type'', S ''application/json'')] else [])
            @ (if token \<noteq> [] then [(js ''Authorization'', JStr (js ''Bearer '' @ token))] else []))
          (opt_headers opts))"

definition request_origin :: "host \<Rightarrow> jstr" where
  "request_origin h = (case location_origin h of
      Some org \<Rightarrow> if truthy org then to_string org else js ''http://localhost''
    | None \<Rightarrow> js ''http://localhost'')"

definition prepare :: "host \<Rightarrow> jstr \<Rightarrow> 'file options \<Rightarrow> jsval \<Rightarrow> 'file wire js" where
  "prepare h path opts params =
     andThen (parse_url h (to_string (base h) @ path) (request_origin h))
       (\<lambda>u. Inr \<lparr>wire_url = appendQuery u params, wire_method = opt_method opts,
                 wire_body = opt_body opts, wire_headers = request_headers h opts\<rparr>)"

section \<open>Settling the answer\<close>

text \<open>The constructor; \<open>super(message)\<close> turns the message into a string.\<close>

definition newAdminApiError ::
    "jsval \<Rightarrow> jsval \<Rightarrow> jsval \<Rightarrow> jsval \<Rightarrow> jsval \<Rightarrow> jsval \<Rightarrow> jsval \<Rightarrow> api_error" where
  "newAdminApiError message status code meta requestId payload cause =
     \<lparr>ae_message = (if message = JUndef then [] else to_string message),
      ae_status = js_or status (N 0),
      ae_code = js_or code (S ''request_failed''),
      ae_meta = js_or meta (JObj []),
      ae_requestId = js_or requestId (JStr []),
      ae_payload = js_or payload JNull,
      ae_cause = cause\<rparr>"

definition error_name :: "jserror \<Rightarrow> jsval" where
  "error_name e = (case e of
      TypeError \<Rightarrow> S ''TypeError'' | URIError \<Rightarrow> S ''URIError''
    | ReferenceError \<Rightarrow> S ''ReferenceError'' | PlainError m \<Rightarrow> S ''Error''
    | HostError v \<Rightarrow> get_opt v (js ''name'') | AdminApiError a \<Rightarrow> S ''AdminApiError'')"

text \<open>The text of an engine's own error depends on the engine and is an argument.\<close>

definition error_message :: "(jserror \<Rightarrow> jstr) \<Rightarrow> jserror \<Rightarrow> jsval" where
  "error_message engine e = (case e of
      PlainError m \<Rightarrow> JStr m | HostError v \<Rightarrow> get_opt v (js ''message'')
    | AdminApiError a \<Rightarrow> JStr (ae_message a) | _ \<Rightarrow> JStr (engine e))"

definition getErrorMessage :: "(jserror \<Rightarrow> jstr) \<Rightarrow> jserror \<Rightarrow> jsval" where
  "getErrorMessage engine e =
     (if strict_eq (error_name e) (S ''AbortError'') then JStr msg_cancelled
      else js_or (error_message engine e) (JStr msg_failed))"

definition response_ok :: "response \<Rightarrow> bool" where
  "response_ok r \<longleftrightarrow> 200 \<le> resp_status r \<and> resp_status r \<le> 299"

definition notifyUnauthorized :: "host \<Rightarrow> api_error \<Rightarrow> event list" where
  "notifyUnauthorized h e = (if location_origin h \<noteq> None then [Unauthorized e] else [])"

text \<open>The exception for a response that is not \<open>ok\<close>; reading \<open>null.error\<close> throws.\<close>

definition response_error :: "response \<Rightarrow> jsval \<Rightarrow> api_error js" where
  "response_error r payload =
     andThen (get_or_throw payload (js ''error'')) (\<lambda>err.
       let status_message = (case map_of STATUS_MESSAGES (resp_status r) of
               Some m \<Rightarrow> JStr m | None \<Rightarrow> JUndef);
           header_id = (case resp_request_id r of Some i \<Rightarrow> JStr i | None \<Rightarrow> JNull)
       in Inr (newAdminApiError
            (js_or (js_or (get_opt err (js ''message'')) status_message)
               (JStr (msg_http (resp_status r))))
            (N (int (resp_status r)))
            (get_opt err (js ''code''))
            (js_or (get_opt err (js ''meta'')) (get_prop payload (js ''meta'')))
            (js_or (get_prop payload (js ''request_id'')) header_id)
            payload JUndef))"

definition settle :: "host \<Rightarrow> 'file options \<Rightarrow> fetch_result \<Rightarrow> jsval js \<times> event list" where
  "settle h opts res = (case res of
      Rejects cause \<Rightarrow>
        if strict_eq (get_opt cause (js ''name'')) (S ''AbortError'') then (Inl (HostError cause), [])
        else (Inl (AdminApiError (newAdminApiError (JStr msg_network) JUndef (S ''network_error'')
                JUndef JUndef JUndef cause)), [])
    | Responds r \<Rightarrow>
        let payload = (case resp_json r of Some v \<Rightarrow> v | None \<Rightarrow> JObj [])
        in if \<not> response_ok r then
             (case response_error r payload of
                Inl e \<Rightarrow> (Inl e, [])
              | Inr e \<Rightarrow> (Inl (AdminApiError e),
                  if resp_status r = 401 \<and> \<not> truthy (opt_skipUnauthorized opts)
                  then notifyUnauthorized h e else []))
           else (Inr payload, []))"

definition request ::
    "host \<Rightarrow> ('file wire \<Rightarrow> fetch_result) \<Rightarrow> jstr \<Rightarrow> 'file options \<Rightarrow> jsval \<Rightarrow> jsval js \<times> event list" where
  "request h fetch path opts params = (case prepare h path opts params of
      Inl e \<Rightarrow> (Inl e, [])
    | Inr w \<Rightarrow> settle h opts (fetch w))"

section \<open>The calls\<close>

definition adminGet :: "host \<Rightarrow> ('file wire \<Rightarrow> fetch_result) \<Rightarrow> jstr \<Rightarrow> jsval \<Rightarrow> jsval js \<times> event list" where
  "adminGet h fetch path params = request h fetch path no_options params"

definition login_options :: "jsval \<Rightarrow> jsval \<Rightarrow> 'file options" where
  "login_options username password = no_options\<lparr>opt_method := S ''POST'',
     opt_body := Value (json_stringify (JObj [(js ''username'', username), (js ''password'', password)])),
     opt_skipUnauthorized := JBool True\<rparr>"

definition adminLogin :: "host \<Rightarrow> ('file wire \<Rightarrow> fetch_result) \<Rightarrow> jsval \<Rightarrow> jsval \<Rightarrow> jsval js \<times> event list" where
  "adminLogin h fetch username password =
     request h fetch (js ''/login'') (login_options username password) (JObj [])"

definition send_options :: "jsval \<Rightarrow> jsval \<Rightarrow> 'file options" where
  "send_options verb body = no_options\<lparr>opt_method := verb, opt_body := Value (json_stringify body)\<rparr>"

definition adminPost ::
    "host \<Rightarrow> ('file wire \<Rightarrow> fetch_result) \<Rightarrow> jstr \<Rightarrow> jsval \<Rightarrow> jsval \<Rightarrow> jsval js \<times> event list" where
  "adminPost h fetch path body params = request h fetch path (send_options (S ''POST'') body) params"

definition adminPut ::
    "host \<Rightarrow> ('file wire \<Rightarrow> fetch_result) \<Rightarrow> jstr \<Rightarrow> jsval \<Rightarrow> jsval \<Rightarrow> jsval js \<times> event list" where
  "adminPut h fetch path body params = request h fetch path (send_options (S ''PUT'') body) params"

text \<open>Without \<open>FormData\<close> its constructor is an unbound name.\<close>

definition adminUpload ::
    "host \<Rightarrow> ('file wire \<Rightarrow> fetch_result) \<Rightarrow> jstr \<Rightarrow> 'file \<Rightarrow> jsval \<Rightarrow> jsval js \<times> event list" where
  "adminUpload h fetch path file params =
     (if \<not> has_form_data h then (Inl ReferenceError, [])
      else request h fetch path
        (no_options\<lparr>opt_method := S ''POST'', opt_body := Form [(js ''file'', file)]\<rparr>) params)"

section \<open>What a request sends\<close>

text \<open>The query of a request, entry by entry: what a parameter contributes.\<close>

definition query_pairs :: "jstr \<times> jsval \<Rightarrow> (jstr \<times> jstr) list" where
  "query_pairs entry = (case entry of (key, v) \<Rightarrow>
     if is_nullish v \<or> v = JStr [] then []
     else if is_array v then map (\<lambda>item. (key, to_string item)) (elems v)
     else [(key, to_string v)])"

lemma query_set_fresh: "k \<notin> fst ` set q \<Longrightarrow> query_set q k v = q @ [(k, v)]"
  by (induction q k v rule: query_set.induct) auto

lemma append_entry_fresh:
  "fst entry \<notin> fst ` set q \<Longrightarrow> append_entry q entry = q @ query_pairs entry"
  by (cases entry)
    (auto simp: append_entry_def query_pairs_def query_set_fresh is_nullish_def)

lemma query_pairs_key: "p \<in> set (query_pairs entry) \<Longrightarrow> fst p = fst entry"
  by (auto simp: query_pairs_def split: prod.splits if_splits)

lemma fold_append_entry:
  "distinct (map fst es) \<Longrightarrow> fst ` set q \<inter> fst ` set es = {} \<Longrightarrow>
   foldl append_entry q es = q @ concat (map query_pairs es)"
proof (induction es arbitrary: q)
  case (Cons e es)
  have "append_entry q e = q @ query_pairs e"
    using Cons.prems by (intro append_entry_fresh) auto
  moreover have "foldl append_entry (q @ query_pairs e) es =
      (q @ query_pairs e) @ concat (map query_pairs es)"
    using Cons.prems by (intro Cons.IH) (auto simp: image_iff dest!: query_pairs_key)
  ultimately show ?case by simp
qed simp

text \<open>The query of a request is exactly the concatenation of what its parameters
  contribute, in their order: an \<open>undefined\<close>, \<open>null\<close> or empty parameter contributes no pair, an
  array one pair per item under the same name, anything else one pair; nothing the URL already
  had is lost.\<close>

theorem appendQuery_exact:
  assumes "distinct (map fst ps)"
    and "fst ` set (url_query u) \<inter> fst ` set ps = {}"
  shows "url_query (appendQuery u (JObj ps)) = url_query u @ concat (map query_pairs ps)
    \<and> url_target (appendQuery u (JObj ps)) = url_target u"
  using assms by (simp add: appendQuery_def js_or_def fold_append_entry)

theorem appendQuery_exact_witness:
  "url_query (appendQuery \<lparr>url_target = js ''/projects'', url_query = []\<rparr>
     (JObj [(js ''page'', N 2), (js ''keyword'', JStr []),
            (js ''status'', JArr [S ''open'', S ''closed'']), (js ''sort'', JNull)]))
   = [(js ''page'', js ''2''), (js ''status'', js ''open''), (js ''status'', js ''closed'')]"
proof -
  let ?ps = "[(js ''page'', N 2), (js ''keyword'', JStr []),
    (js ''status'', JArr [S ''open'', S ''closed'']), (js ''sort'', JNull)]"
  have two: "num_to_string (Fin 2) = js ''2''" by code_simp
  have "url_query (appendQuery \<lparr>url_target = js ''/projects'', url_query = []\<rparr> (JObj ?ps)) =
      [] @ concat (map query_pairs ?ps)"
    using appendQuery_exact [of ?ps "\<lparr>url_target = js ''/projects'', url_query = []\<rparr>"] by simp
  then show ?thesis by (simp add: query_pairs_def two)
qed

text \<open>Without headers of its own, a request carries the bearer token exactly when one is
  stored, declares a JSON body exactly when it has one, leaves the content type of a form to the
  browser, and sends nothing else than what it accepts.\<close>

theorem request_headers_exact:
  assumes "opt_headers opts = []"
  shows "map_of (request_headers h opts) (js ''Authorization'') =
      (if storageToken h = [] then None else Some (JStr (js ''Bearer '' @ storageToken h)))
    \<and> map_of (request_headers h opts) (js ''Content-Type'') =
      (if body_truthy (opt_body opts) \<and> \<not> (has_form_data h \<and> is_form (opt_body opts))
       then Some (S ''application/json'') else None)
    \<and> map_of (request_headers h opts) (js ''Accept'') = Some (S ''application/json'')
    \<and> fst ` set (request_headers h opts) \<subseteq> {js ''Accept'', js ''Content-Type'', js ''Authorization''}"
  using assms by (auto simp: request_headers_def Let_def)

theorem request_headers_exact_witness:
  "map_of (request_headers \<lparr>api_base = JUndef, location_origin = None,
        local_storage = Some [TOKEN_KEY \<mapsto> js ''t''], has_form_data = True, parse_url = (\<lambda>r b. Inl TypeError)\<rparr>
      (send_options (S ''POST'') JNull :: unit options)) (js ''Authorization'') = Some (S ''Bearer t'')"
proof -
  let ?h = "\<lparr>api_base = JUndef, location_origin = None, local_storage = Some [TOKEN_KEY \<mapsto> js ''t''],
     has_form_data = True, parse_url = (\<lambda>r b. Inl TypeError)\<rparr>"
  have "storageToken ?h = js ''t''" by (simp add: storageToken_def)
  moreover have "js ''Bearer '' @ js ''t'' = js ''Bearer t''" by (simp add: js_def)
  ultimately show ?thesis
    using request_headers_exact [of "send_options (S ''POST'') JNull :: unit options" ?h]
    by (simp add: send_options_def no_options_def)
qed

section \<open>How an answer is settled\<close>

definition payload_of :: "response \<Rightarrow> jsval" where
  "payload_of r = (case resp_json r of Some v \<Rightarrow> v | None \<Rightarrow> JObj [])"

lemma response_error_status:
  "response_error r payload = Inr e \<Longrightarrow> ae_status e = js_or (N (int (resp_status r))) (N 0)"
  by (auto simp: response_error_def Let_def newAdminApiError_def andThen_Inr_iff)

lemma response_error_null: "is_nullish payload \<Longrightarrow> response_error r payload = Inl TypeError"
  by (auto simp: response_error_def is_nullish_def)

text \<open>The promise every call makes about its events.\<close>

lemma request_events:
  assumes "request h fetch path opts params = (res, evs)" "ev \<in> set evs"
  shows "\<exists>e. evs = [Unauthorized e] \<and> res = Inl (AdminApiError e) \<and> ae_status e = N 401
     \<and> \<not> truthy (opt_skipUnauthorized opts)"
  using assms
  by (auto simp: request_def settle_def Let_def notifyUnauthorized_def
      split: sum.splits fetch_result.splits if_splits dest!: response_error_status)

text \<open>C28. The session-expired event is dispatched exactly for a 401 answer whose body is not
  \<open>null\<close>, in a window, unless the call opted out (the login does); it is dispatched once, and its
  detail is the very exception the caller gets, with status 401.\<close>

theorem unauthorized_once:
  assumes "prepare h path opts params = Inr w"
  shows "(snd (request h fetch path opts params) \<noteq> [] \<longleftrightarrow>
      (\<exists>r. fetch w = Responds r \<and> resp_status r = 401 \<and> \<not> is_nullish (payload_of r))
      \<and> location_origin h \<noteq> None \<and> \<not> truthy (opt_skipUnauthorized opts))
    \<and> (\<forall>ev \<in> set (snd (request h fetch path opts params)). \<exists>e.
        snd (request h fetch path opts params) = [Unauthorized e] \<and> ae_status e = N 401
        \<and> fst (request h fetch path opts params) = Inl (AdminApiError e))"
proof
  have "response_error r payload \<noteq> Inl e" if "\<not> is_nullish payload" for r payload e
    using that by (simp add: response_error_def Let_def)
  then show "snd (request h fetch path opts params) \<noteq> [] \<longleftrightarrow>
      (\<exists>r. fetch w = Responds r \<and> resp_status r = 401 \<and> \<not> is_nullish (payload_of r))
      \<and> location_origin h \<noteq> None \<and> \<not> truthy (opt_skipUnauthorized opts)"
    using assms response_error_null
    by (cases "fetch w") (auto simp: request_def settle_def Let_def payload_of_def [symmetric]
        notifyUnauthorized_def response_ok_def split: sum.splits if_splits)
  show "\<forall>ev \<in> set (snd (request h fetch path opts params)). \<exists>e.
        snd (request h fetch path opts params) = [Unauthorized e] \<and> ae_status e = N 401
        \<and> fst (request h fetch path opts params) = Inl (AdminApiError e)"
    using request_events [of h fetch path opts params] by (metis prod.collapse)
qed

theorem unauthorized_once_witness:
  "\<exists>e. snd (request \<lparr>api_base = JUndef, location_origin = Some (S ''http://a''), local_storage = None,
        has_form_data = True, parse_url = (\<lambda>r b. Inr \<lparr>url_target = b @ r, url_query = []\<rparr>)\<rparr>
      (\<lambda>w. Responds \<lparr>resp_status = 401, resp_request_id = None, resp_json = None\<rparr>)
      (js ''/me'') (no_options :: unit options) (JObj [])) = [Unauthorized e] \<and> ae_status e = N 401"
proof -
  let ?h = "\<lparr>api_base = JUndef, location_origin = Some (S ''http://a''), local_storage = None,
     has_form_data = True, parse_url = (\<lambda>r b. Inr \<lparr>url_target = b @ r, url_query = []\<rparr>)\<rparr>"
  let ?opts = "no_options :: unit options"
  let ?fetch = "\<lambda>w :: unit wire. Responds \<lparr>resp_status = 401, resp_request_id = None, resp_json = None\<rparr>"
  obtain w where w: "prepare ?h (js ''/me'') ?opts (JObj []) = Inr w"
    by (simp add: prepare_def)
  have "snd (request ?h ?fetch (js ''/me'') ?opts (JObj [])) \<noteq> []"
    using unauthorized_once [OF w, of ?fetch] by (simp add: payload_of_def no_options_def)
  then obtain ev where "ev \<in> set (snd (request ?h ?fetch (js ''/me'') ?opts (JObj [])))"
    by (metis list.set_intros(1) neq_Nil_conv)
  then show ?thesis
    using unauthorized_once [OF w, of ?fetch] by blast
qed

text \<open>A refused request (a status outside 200..299 with a body that is not \<open>null\<close>) always
  ends in an \<open>AdminApiError\<close> with that status and the body kept as payload.  Its text is the
  server's own message if there is one, else the Chinese text for the status, else a generic one
  that names the status.\<close>

theorem refused_request:
  assumes "prepare h path opts params = Inr w" "fetch w = Responds r" "\<not> response_ok r"
    and "\<not> is_nullish (payload_of r)"
  shows "\<exists>e. fst (request h fetch path opts params) = Inl (AdminApiError e)
    \<and> ae_status e = N (int (resp_status r))
    \<and> ae_payload e = js_or (payload_of r) JNull
    \<and> ae_message e =
        (let server = get_opt (get_prop (payload_of r) (js ''error'')) (js ''message'')
         in if truthy server then to_string server
            else case map_of STATUS_MESSAGES (resp_status r) of Some m \<Rightarrow> m | None \<Rightarrow> msg_http (resp_status r))"
proof -
  have ne: "m \<noteq> []" if "map_of STATUS_MESSAGES s = Some m" for s m
    using map_of_SomeD [OF that] by (auto simp: STATUS_MESSAGES_def)
  have st: "js_or (N (int n)) (N 0) = N (int n)" for n
    by (simp add: js_or_def)
  have mh: "msg_http s \<noteq> []" for s by (simp add: msg_http_def)
  obtain e where e: "response_error r (payload_of r) = Inr e"
    using assms(4) by (simp add: response_error_def Let_def)
  moreover have "fst (request h fetch path opts params) = Inl (AdminApiError e)"
    using assms e by (simp add: request_def settle_def Let_def payload_of_def)
  ultimately show ?thesis
    using assms(4) ne [of "resp_status r"] mh [of "resp_status r"] st [of "resp_status r"]
    by (auto simp: response_error_def Let_def newAdminApiError_def js_or_def split: option.splits)
qed

theorem refused_request_witness:
  "\<exists>e. fst (request \<lparr>api_base = JUndef, location_origin = None, local_storage = None,
        has_form_data = True, parse_url = (\<lambda>r b. Inr \<lparr>url_target = b @ r, url_query = []\<rparr>)\<rparr>
      (\<lambda>w. Responds \<lparr>resp_status = 409, resp_request_id = None, resp_json = None\<rparr>)
      (js ''/projects'') (no_options :: unit options) (JObj [])) = Inl (AdminApiError e)
     \<and> ae_message e = [0x6570, 0x636e, 0x5df2, 0x53d1, 0x751f, 0x53d8, 0x5316, 0xff0c, 0x8bf7, 0x5237,
     0x65b0, 0x540e, 0x91cd, 0x8bd5, 0x3002]"
proof -
  let ?h = "\<lparr>api_base = JUndef, location_origin = None, local_storage = None,
     has_form_data = True, parse_url = (\<lambda>r b. Inr \<lparr>url_target = b @ r, url_query = []\<rparr>)\<rparr>"
  let ?r = "\<lparr>resp_status = 409, resp_request_id = None, resp_json = None\<rparr>"
  obtain w where w: "prepare ?h (js ''/projects'') (no_options :: unit options) (JObj []) = Inr w"
    by (simp add: prepare_def)
  show ?thesis
    using refused_request [OF w, of "\<lambda>w. Responds ?r" ?r]
    by (auto simp: response_ok_def payload_of_def STATUS_MESSAGES_def)
qed

text \<open>When the answer to a refused request is the JSON text \<open>null\<close>, reading \<open>payload.error\<close>
  throws a \<open>TypeError\<close>: the caller gets no \<open>AdminApiError\<close> (no status, no Chinese text) and a
  401 of this shape does not announce the expired session.\<close>

theorem null_error_body:
  assumes "prepare h path opts params = Inr w" "fetch w = Responds r" "\<not> response_ok r"
    and "resp_json r = Some JNull"
  shows "request h fetch path opts params = (Inl TypeError, [])"
  using assms by (simp add: request_def settle_def response_error_null)

theorem null_error_body_witness:
  "request \<lparr>api_base = JUndef, location_origin = Some (S ''http://a''), local_storage = None,
        has_form_data = True, parse_url = (\<lambda>r b. Inr \<lparr>url_target = b @ r, url_query = []\<rparr>)\<rparr>
      (\<lambda>w. Responds \<lparr>resp_status = 401, resp_request_id = None, resp_json = Some JNull\<rparr>)
      (js ''/me'') (no_options :: unit options) (JObj []) = (Inl TypeError, [])"
  by (rule null_error_body [where r = "\<lparr>resp_status = 401, resp_request_id = None, resp_json = Some JNull\<rparr>"])
    (simp_all add: prepare_def response_ok_def)

text \<open>A request that never got an answer dispatches nothing.  A cancelled one rethrows the
  host's error and reads as cancelled; any other becomes an \<open>AdminApiError\<close> with status 0 and the
  code \<open>network_error\<close>, whose text tells the user that the API cannot be reached.\<close>

theorem unanswered_request:
  assumes "prepare h path opts params = Inr w" "fetch w = Rejects cause"
  shows "\<exists>e. request h fetch path opts params = (Inl e, []) \<and>
    (if get_opt cause (js ''name'') = S ''AbortError''
     then e = HostError cause \<and> getErrorMessage engine e = JStr msg_cancelled
     else getErrorMessage engine e = JStr msg_network \<and>
       (\<exists>a. e = AdminApiError a \<and> ae_status a = N 0 \<and> ae_code a = S ''network_error'' \<and> ae_cause a = cause))"
  using assms
  by (auto simp: request_def settle_def newAdminApiError_def getErrorMessage_def error_name_def
      error_message_def js_or_def msg_network_def)

theorem unanswered_request_witness:
  "\<exists>e. request \<lparr>api_base = JUndef, location_origin = None, local_storage = None, has_form_data = False,
        parse_url = (\<lambda>r b. Inr \<lparr>url_target = b @ r, url_query = []\<rparr>)\<rparr>
      (\<lambda>w. Rejects (JObj [(js ''name'', S ''TypeError'')]))
      (js ''/dashboard'') (no_options :: unit options) (JObj []) = (Inl e, [])
     \<and> getErrorMessage (\<lambda>x. []) e = JStr msg_network"
proof -
  let ?h = "\<lparr>api_base = JUndef, location_origin = None, local_storage = None,
     has_form_data = False, parse_url = (\<lambda>r b. Inr \<lparr>url_target = b @ r, url_query = []\<rparr>)\<rparr>"
  obtain w where w: "prepare ?h (js ''/dashboard'') (no_options :: unit options) (JObj []) = Inr w"
    by (simp add: prepare_def)
  show ?thesis
    using unanswered_request [OF w, of "\<lambda>w. Rejects (JObj [(js ''name'', S ''TypeError'')])"
      "JObj [(js ''name'', S ''TypeError'')]" "\<lambda>x. []"] by auto
qed

section \<open>The contract the callers rely on\<close>

text \<open>
  What the stores and views know of a call: it dispatches an event only for the 401 failure it
  throws.  The login call dispatches none at all.
\<close>

locale admin_call =
  fixes call :: "'req \<Rightarrow> jsval js \<times> event list"
  assumes announced: "call q = (res, evs) \<Longrightarrow> ev \<in> set evs \<Longrightarrow>
    \<exists>e. evs = [Unauthorized e] \<and> res = Inl (AdminApiError e) \<and> ae_status e = N 401"
begin

lemma success_silent: "call q = (Inr v, evs) \<Longrightarrow> evs = []"
  using announced [of q "Inr v" evs] by (cases evs) auto

lemma one_event: "length (snd (call q)) \<le> 1"
proof (cases "snd (call q)")
  case (Cons ev evs)
  then have "call q = (fst (call q), ev # evs)" by (simp add: prod_eq_iff)
  then show ?thesis using announced [of q "fst (call q)" "ev # evs" ev] Cons by auto
qed simp

lemma failure_announced:
  "call q = (Inl x, Unauthorized e # evs) \<Longrightarrow> x = AdminApiError e \<and> ae_status e = N 401"
  using announced [of q "Inl x" "Unauthorized e # evs" "Unauthorized e"] by auto

end

locale silent_call = admin_call +
  assumes silent: "snd (call q) = []"

interpretation get_call: admin_call "\<lambda>(path, params). adminGet h fetch path params" for h fetch
  by unfold_locales (auto simp: adminGet_def dest!: request_events)

interpretation post_call: admin_call "\<lambda>(path, body, params). adminPost h fetch path body params" for h fetch
  by unfold_locales (auto simp: adminPost_def dest!: request_events)

interpretation put_call: admin_call "\<lambda>(path, body, params). adminPut h fetch path body params" for h fetch
  by unfold_locales (auto simp: adminPut_def dest!: request_events)

interpretation upload_call: admin_call "\<lambda>(path, file, params). adminUpload h fetch path file params" for h fetch
  by unfold_locales (auto simp: adminUpload_def split: if_splits dest!: request_events)

lemma login_silent: "snd (adminLogin h fetch username password) = []"
  using request_events [of h fetch "js ''/login''" "login_options username password" "JObj []"]
  by (cases "adminLogin h fetch username password"; cases "snd (adminLogin h fetch username password)")
    (auto simp: adminLogin_def login_options_def)

interpretation login_call: silent_call "\<lambda>(username, password). adminLogin h fetch username password" for h fetch
  by unfold_locales (auto simp: login_silent, metis login_silent empty_iff empty_set snd_conv)

end
