(* ===== verification/JsonParse.thy ===== *)
theory JsonParse imports JsJson begin

text \<open>
  \<open>JSON.parse\<close>, and the proof that it recovers what \<open>JSON.stringify\<close> wrote.  The parser runs on
  fuel; two units per character are enough because every nested call either consumes a
  character or is followed by one that does.
\<close>

section \<open>The parser\<close>

definition skip_ws :: "jstr \<Rightarrow> jstr" where
  "skip_ws s = dropWhile (\<lambda>c. c = 32 \<or> c = 9 \<or> c = 10 \<or> c = 13) s"

definition hex_digit_value :: "nat \<Rightarrow> nat option" where
  "hex_digit_value c =
     (if 48 \<le> c \<and> c \<le> 57 then Some (c - 48)
      else if 97 \<le> c \<and> c \<le> 102 then Some (c - 87)
      else if 65 \<le> c \<and> c \<le> 70 then Some (c - 55) else None)"

definition hex4 :: "nat \<Rightarrow> nat \<Rightarrow> nat \<Rightarrow> nat \<Rightarrow> nat option" where
  "hex4 a b c d =
     (case (hex_digit_value a, hex_digit_value b, hex_digit_value c, hex_digit_value d) of
        (Some a', Some b', Some c', Some d') \<Rightarrow> Some (a' * 4096 + b' * 256 + c' * 16 + d')
      | _ \<Rightarrow> None)"

definition escape_value :: "nat \<Rightarrow> nat option" where
  "escape_value e =
     (if e = 34 \<or> e = 92 \<or> e = 47 then Some e
      else if e = 98 then Some 8 else if e = 102 then Some 12 else if e = 110 then Some 10
      else if e = 114 then Some 13 else if e = 116 then Some 9 else None)"

text \<open>The characters of a string up to its closing quote.\<close>

fun json_chars :: "jstr \<Rightarrow> (jstr \<times> jstr) option" where
  "json_chars [] = None"
| "json_chars (c # s) =
     (if c = 34 then Some ([], s)
      else if c = 92 then
        (case s of
           [] \<Rightarrow> None
         | e # r \<Rightarrow>
             if e = 117 then
               (case r of
                  h1 # h2 # h3 # h4 # r' \<Rightarrow>
                    (case hex4 h1 h2 h3 h4 of
                       Some u \<Rightarrow> map_option (\<lambda>(t, rest). (u # t, rest)) (json_chars r')
                     | None \<Rightarrow> None)
                | _ \<Rightarrow> None)
             else (case escape_value e of
                 Some u \<Rightarrow> map_option (\<lambda>(t, rest). (u # t, rest)) (json_chars r)
               | None \<Rightarrow> None))
      else if c < 32 then None
      else map_option (\<lambda>(t, rest). (c # t, rest)) (json_chars s))"

text \<open>Numbers: \<open>-? (0 | [1-9][0-9]*) (\.[0-9]+)? ([eE][+-]?[0-9]+)?\<close>.\<close>

definition is_digit_unit :: "nat \<Rightarrow> bool" where
  "is_digit_unit c \<longleftrightarrow> 48 \<le> c \<and> c \<le> 57"

definition number_unit :: "nat \<Rightarrow> bool" where
  "number_unit c \<longleftrightarrow> is_digit_unit c \<or> c = 43 \<or> c = 45 \<or> c = 46 \<or> c = 69 \<or> c = 101"

definition exponent_ok :: "jstr \<Rightarrow> bool" where
  "exponent_ok s = (case s of
      [] \<Rightarrow> True
    | e # r \<Rightarrow> (e = 101 \<or> e = 69) \<and>
        (let ds = (case r of g # r' \<Rightarrow> if g = 43 \<or> g = 45 then r' else r | [] \<Rightarrow> [])
         in ds \<noteq> [] \<and> list_all is_digit_unit ds))"

definition fraction_ok :: "jstr \<Rightarrow> bool" where
  "fraction_ok s = (case s of
      c # r \<Rightarrow> if c = 46 then takeWhile is_digit_unit r \<noteq> [] \<and> exponent_ok (dropWhile is_digit_unit r)
              else exponent_ok s
    | [] \<Rightarrow> True)"

definition number_ok :: "jstr \<Rightarrow> bool" where
  "number_ok s =
     (let u = (case s of c # r \<Rightarrow> if c = 45 then r else s | [] \<Rightarrow> []);
          ds = takeWhile is_digit_unit u
      in ds \<noteq> [] \<and> (hd ds = 48 \<longrightarrow> length ds = 1) \<and> fraction_ok (dropWhile is_digit_unit u))"

definition json_number :: "jstr \<Rightarrow> (jsval \<times> jstr) option" where
  "json_number s =
     (let token = takeWhile number_unit s
      in if number_ok token then Some (JNum (string_to_num token), dropWhile number_unit s) else None)"

definition json_literal :: "jstr \<Rightarrow> (jsval \<times> jstr) option" where
  "json_literal s =
     (if starts_with s (js ''null'') then Some (JNull, drop 4 s)
      else if starts_with s (js ''true'') then Some (JBool True, drop 4 s)
      else if starts_with s (js ''false'') then Some (JBool False, drop 5 s)
      else json_number s)"

fun json_value :: "nat \<Rightarrow> jstr \<Rightarrow> (jsval \<times> jstr) option"
  and json_elems :: "nat \<Rightarrow> jstr \<Rightarrow> (jsval list \<times> jstr) option"
  and json_members :: "nat \<Rightarrow> jstr \<Rightarrow> (props \<times> jstr) option" where
  "json_value 0 s = None"
| "json_value (Suc n) s =
     (case skip_ws s of
        [] \<Rightarrow> None
      | c # r \<Rightarrow>
          if c = 34 then map_option (\<lambda>(t, rest). (JStr t, rest)) (json_chars r)
          else if c = 91 then
            (case skip_ws r of
               d # r' \<Rightarrow> if d = 93 then Some (JArr [], r')
                        else map_option (\<lambda>(vs, rest). (JArr vs, rest)) (json_elems n r)
             | [] \<Rightarrow> None)
          else if c = 123 then
            (case skip_ws r of
               d # r' \<Rightarrow> if d = 125 then Some (JObj [], r')
                        else map_option (\<lambda>(ps, rest). (JObj (from_entries ps), rest)) (json_members n r)
             | [] \<Rightarrow> None)
          else json_literal (c # r))"
| "json_elems 0 s = None"
| "json_elems (Suc n) s =
     (case json_value n s of
        None \<Rightarrow> None
      | Some (v, r) \<Rightarrow> (case skip_ws r of
            [] \<Rightarrow> None
          | c # r' \<Rightarrow>
              if c = 44 then map_option (\<lambda>(vs, rest). (v # vs, rest)) (json_elems n r')
              else if c = 93 then Some ([v], r') else None))"
| "json_members 0 s = None"
| "json_members (Suc n) s =
     (case skip_ws s of
        [] \<Rightarrow> None
      | q # k0 \<Rightarrow>
          if q \<noteq> 34 then None
          else (case json_chars k0 of
              None \<Rightarrow> None
            | Some (k, r0) \<Rightarrow> (case skip_ws r0 of
                  [] \<Rightarrow> None
                | colon # r1 \<Rightarrow>
                    if colon \<noteq> 58 then None
                    else (case json_value n r1 of
                        None \<Rightarrow> None
                      | Some (v, r) \<Rightarrow> (case skip_ws r of
                            [] \<Rightarrow> None
                          | c # r' \<Rightarrow>
                              if c = 44 then map_option (\<lambda>(ps, rest). ((k, v) # ps, rest)) (json_members n r')
                              else if c = 125 then Some ([(k, v)], r') else None)))))"

definition json_parse :: "jstr \<Rightarrow> jsval option" where
  "json_parse s = (case json_value (2 * length s + 1) s of
      Some (v, rest) \<Rightarrow> if skip_ws rest = [] then Some v else None
    | None \<Rightarrow> None)"

section \<open>Strings\<close>

lemma hex_digit_value_digit: "d < 16 \<Longrightarrow> hex_digit_value (hex_digit d) = Some d"
  by (auto simp: hex_digit_value_def hex_digit_def)

lemma hex4_escape:
  assumes "c < 0x10000"
  shows "hex4 (hex_digit (c div 4096)) (hex_digit (c div 256 mod 16)) (hex_digit (c div 16 mod 16))
    (hex_digit (c mod 16)) = Some c"
proof -
  have "c div 4096 < 16" using assms by auto
  moreover have "c div 4096 * 4096 + c div 256 mod 16 * 256 + c div 16 mod 16 * 16 + c mod 16 = c"
  proof -
    have "c div 256 div 16 = c div 4096" "c div 16 div 16 = c div 256"
      by (simp_all add: div_mult2_eq [symmetric])
    moreover have "c div 256 div 16 * 16 + c div 256 mod 16 = c div 256"
      "c div 16 div 16 * 16 + c div 16 mod 16 = c div 16" "c div 16 * 16 + c mod 16 = c"
      by (simp_all only: div_mult_mod_eq)
    ultimately show ?thesis by linarith
  qed
  ultimately show ?thesis by (simp add: hex4_def hex_digit_value_digit)
qed

lemma json_chars_escape:
  "c < 0x10000 \<Longrightarrow> json_chars (json_unit_escape c @ s) =
     map_option (\<lambda>(t, rest). (c # t, rest)) (json_chars s)"
  by (simp add: json_unit_escape_def hex4_escape)

lemma json_chars_short:
  "escape_value e = Some c \<Longrightarrow> json_chars (92 # e # s) = map_option (\<lambda>(t, rest). (c # t, rest)) (json_chars s)"
  by (auto simp: escape_value_def split: if_splits)

lemma json_chars_plain:
  "32 \<le> c \<Longrightarrow> c \<noteq> 34 \<Longrightarrow> c \<noteq> 92 \<Longrightarrow>
     json_chars (c # s) = map_option (\<lambda>(t, rest). (c # t, rest)) (json_chars s)"
  by simp

definition short_escaped :: "nat \<Rightarrow> bool" where
  "short_escaped c \<longleftrightarrow> c \<in> {34, 92, 8, 12, 10, 13, 9}"

lemma json_units_short:
  "short_escaped c \<Longrightarrow> \<exists>e. escape_value e = Some c \<and> json_units (c # s) = 92 # e # json_units s"
  by (auto simp: short_escaped_def escape_value_def)

lemma json_units_escape:
  "\<not> short_escaped c \<Longrightarrow> c < 32 \<or> is_low_surrogate c \<Longrightarrow> json_units (c # s) = json_unit_escape c @ json_units s"
  by (simp add: short_escaped_def)

lemma json_units_plain:
  "\<not> short_escaped c \<Longrightarrow> \<not> (c < 32 \<or> is_low_surrogate c) \<Longrightarrow> \<not> is_high_surrogate c \<Longrightarrow>
   json_units (c # s) = c # json_units s"
  by (simp add: short_escaped_def)

lemma json_units_pair:
  "\<not> short_escaped c \<Longrightarrow> \<not> (c < 32 \<or> is_low_surrogate c) \<Longrightarrow> is_high_surrogate c \<Longrightarrow> is_low_surrogate d \<Longrightarrow>
   json_units (c # d # r) = c # d # json_units r"
  by (simp add: short_escaped_def)

lemma json_units_lone:
  "\<not> short_escaped c \<Longrightarrow> \<not> (c < 32 \<or> is_low_surrogate c) \<Longrightarrow> is_high_surrogate c \<Longrightarrow>
   (\<And>d r. s = d # r \<Longrightarrow> \<not> is_low_surrogate d) \<Longrightarrow>
   json_units (c # s) = json_unit_escape c @ json_units s"
  by (cases s) (simp_all add: short_escaped_def)

lemma json_chars_units:
  "\<forall>c \<in> set s. c < 0x10000 \<Longrightarrow> json_chars (json_units s @ 34 # rest) = Some (s, rest)"
proof (induction s rule: measure_induct_rule [of length])
  case (less s)
  show ?case
  proof (cases s)
    case Nil
    then show ?thesis by simp
  next
    case (Cons c r)
    have IH: "json_chars (json_units r @ 34 # rest) = Some (r, rest)"
      using less Cons by simp
    have c: "c < 0x10000" using less.prems Cons by simp
    have nonspecial: "32 \<le> x" "x \<noteq> 34" "x \<noteq> 92" if "\<not> short_escaped x" "\<not> x < 32" for x
      using that by (auto simp: short_escaped_def)
    consider (short) "short_escaped c" | (esc) "\<not> short_escaped c" "c < 32 \<or> is_low_surrogate c"
      | (plain) "\<not> short_escaped c" "\<not> (c < 32 \<or> is_low_surrogate c)" "\<not> is_high_surrogate c"
      | (pair) d t where "\<not> short_escaped c" "\<not> (c < 32 \<or> is_low_surrogate c)" "is_high_surrogate c"
          "r = d # t" "is_low_surrogate d"
      | (lone) "\<not> short_escaped c" "\<not> (c < 32 \<or> is_low_surrogate c)" "is_high_surrogate c"
          "\<And>d t. r = d # t \<Longrightarrow> \<not> is_low_surrogate d"
      by blast
    then show ?thesis
    proof cases
      case short
      then obtain e where "escape_value e = Some c" "json_units (c # r) = 92 # e # json_units r"
        using json_units_short by blast
      then show ?thesis using IH Cons json_chars_short [of e c "json_units r @ 34 # rest"] by simp
    next
      case esc
      then show ?thesis
        using IH Cons json_units_escape [OF esc] json_chars_escape [OF c] by (simp del: json_units.simps)
    next
      case plain
      then show ?thesis
        using IH Cons json_units_plain [OF plain] json_chars_plain [of c] nonspecial [of c]
        by (simp del: json_units.simps json_chars.simps)
    next
      case pair
      have d: "32 \<le> d" "d \<noteq> 34" "d \<noteq> 92" using pair(5) by (auto simp: is_low_surrogate_def)
      have "json_chars (json_units t @ 34 # rest) = Some (t, rest)"
        using less Cons pair(4) by simp
      then show ?thesis
        using Cons json_units_pair [OF pair(1,2,3,5)] json_chars_plain [of c] nonspecial [of c]
          json_chars_plain [OF d] pair
        by (simp del: json_units.simps json_chars.simps)
    next
      case lone
      then show ?thesis
        using IH Cons json_units_lone [OF lone] json_chars_escape [OF c] by (simp del: json_units.simps)
    qed
  qed
qed

section \<open>Values\<close>

text \<open>
  The values \<open>JSON.stringify\<close> represents faithfully: units in range, distinct keys, and numbers
  whose decimal text reads back (which every double does).
\<close>

definition number_faithful :: "jnum \<Rightarrow> bool" where
  "number_faithful n \<longleftrightarrow> is_finite n \<and> number_ok (num_to_string n) \<and> list_all number_unit (num_to_string n)
     \<and> string_to_num (num_to_string n) = n"

definition text_faithful :: "jstr \<Rightarrow> bool" where
  "text_faithful s \<longleftrightarrow> list_all (\<lambda>c. c < 0x10000) s"

fun json_faithful :: "jsval \<Rightarrow> bool" where
  "json_faithful JUndef \<longleftrightarrow> False"
| "json_faithful (JFun f) \<longleftrightarrow> False"
| "json_faithful JNull \<longleftrightarrow> True"
| "json_faithful (JBool b) \<longleftrightarrow> True"
| "json_faithful (JNum n) \<longleftrightarrow> number_faithful n"
| "json_faithful (JStr s) \<longleftrightarrow> text_faithful s"
| "json_faithful (JArr xs) \<longleftrightarrow> list_all json_faithful xs"
| "json_faithful (JObj ps) \<longleftrightarrow> distinct (map fst ps) \<and> list_all (\<lambda>p. text_faithful (fst p) \<and> json_faithful (snd p)) ps"

lemma json_chars_quote:
  "text_faithful s \<Longrightarrow> json_chars (json_units s @ 34 # rest) = Some (s, rest)"
  by (simp add: text_faithful_def list_all_iff json_chars_units)

definition starter :: "nat \<Rightarrow> bool" where
  "starter c \<longleftrightarrow> c \<notin> {32, 9, 10, 13, 93, 125}"

definition closed_by :: "jstr \<Rightarrow> bool" where
  "closed_by rest \<longleftrightarrow> (case rest of [] \<Rightarrow> True | c # _ \<Rightarrow> \<not> number_unit c)"

lemma skip_ws_starter: "starter c \<Longrightarrow> skip_ws (c # s) = c # s"
  by (simp add: starter_def skip_ws_def)

lemma number_starts:
  assumes "number_ok s"
  obtains c r where "s = c # r" "c = 45 \<or> is_digit_unit c"
proof (cases s)
  case Nil
  then show ?thesis using assms by (simp add: number_ok_def)
next
  case (Cons c r)
  have "c = 45 \<or> is_digit_unit c"
    using assms Cons by (auto simp: number_ok_def Let_def split: if_splits)
  then show ?thesis using Cons that by blast
qed

lemma js_literals:
  "js ''null'' = [110, 117, 108, 108]" "js ''true'' = [116, 114, 117, 101]"
  "js ''false'' = [102, 97, 108, 115, 101]"
  by (simp_all add: js_def)

lemma takeWhile_token:
  "list_all number_unit s \<Longrightarrow> closed_by rest \<Longrightarrow>
   takeWhile number_unit (s @ rest) = s \<and> dropWhile number_unit (s @ rest) = rest"
  by (cases rest) (auto simp: closed_by_def list_all_iff takeWhile_append2 dropWhile_append2)

lemma json_value_number:
  assumes "number_faithful n" "closed_by rest"
  shows "json_value (Suc k) (num_to_string n @ rest) = Some (JNum n, rest)"
proof -
  let ?s = "num_to_string n"
  have ok: "number_ok ?s" "list_all number_unit ?s" "string_to_num ?s = n"
    using assms(1) by (auto simp: number_faithful_def)
  obtain c r where s: "?s = c # r" "c = 45 \<or> is_digit_unit c"
    using number_starts [OF ok(1)] by blast
  have num: "json_number (?s @ rest) = Some (JNum n, rest)"
    using ok takeWhile_token [OF ok(2) assms(2)] by (simp add: json_number_def Let_def)
  have c: "c \<notin> {34, 91, 123, 110, 116, 102}" "starter c"
    using s(2) by (auto simp: is_digit_unit_def starter_def)
  then have "json_literal (c # r @ rest) = json_number (c # r @ rest)"
    by (simp add: json_literal_def starts_with_def js_literals)
  then show ?thesis using c num s(1) by (simp add: skip_ws_starter)
qed

lemma stringify_starts:
  assumes "json_faithful v" "stringify [] ind v = Some s"
  shows "\<exists>c r. s = c # r \<and> starter c"
proof (cases v)
  case (JNum n)
  then have "number_ok s" "s = num_to_string n"
    using assms by (auto simp: number_faithful_def)
  then obtain c r where "s = c # r" "c = 45 \<or> is_digit_unit c"
    using number_starts by blast
  then show ?thesis by (auto simp: starter_def is_digit_unit_def)
qed (use assms in \<open>auto simp: starter_def js_literals json_quote_def json_wrap_def split: if_splits\<close>)

lemma stringify_total: "json_faithful v \<Longrightarrow> \<exists>s. stringify gap ind v = Some s"
  by (cases v) auto

definition elems_text :: "jstr \<Rightarrow> jsval list \<Rightarrow> jstr" where
  "elems_text ind xs = join [44] (stringify_elems [] ind xs)"

definition props_text :: "jstr \<Rightarrow> props \<Rightarrow> jstr" where
  "props_text ind ps = join [44] (stringify_props [] ind ps)"

lemma elems_text_simps:
  assumes "stringify [] ind x = Some s"
  shows "elems_text ind [x] = s"
    and "xs \<noteq> [] \<Longrightarrow> elems_text ind (x # xs) = s @ 44 # elems_text ind xs"
  using assms by (cases xs; simp add: elems_text_def join_Cons)+

lemma props_text_simps:
  assumes "stringify [] ind v = Some s"
  shows "props_text ind [(k, v)] = json_quote k @ 58 # s"
    and "json_faithful (JObj ps) \<Longrightarrow> ps \<noteq> [] \<Longrightarrow>
      props_text ind ((k, v) # ps) = json_quote k @ 58 # s @ 44 # props_text ind ps"
proof -
  show "props_text ind [(k, v)] = json_quote k @ 58 # s"
    using assms by (simp add: props_text_def)
  assume ps: "json_faithful (JObj ps)" "ps \<noteq> []"
  then obtain k' v' qs where q: "ps = (k', v') # qs" by (cases ps) auto
  then obtain s' where "stringify [] ind v' = Some s'"
    using ps stringify_total [of v' "[]" ind] by auto
  then show "props_text ind ((k, v) # ps) = json_quote k @ 58 # s @ 44 # props_text ind ps"
    using assms q by (simp add: props_text_def)
qed

lemma stringify_elems_Nil [simp]: "stringify_elems gap ind xs = [] \<longleftrightarrow> xs = []"
  by (cases xs) auto

lemma stringify_props_Nil:
  "json_faithful (JObj ps) \<Longrightarrow> stringify_props gap ind ps = [] \<longleftrightarrow> ps = []"
  by (cases ps) (auto dest: stringify_total [of _ gap ind] split: option.split)

definition reads_back :: "jsval \<Rightarrow> bool" where
  "reads_back v \<longleftrightarrow> (\<forall>ind s n rest. stringify [] ind v = Some s \<longrightarrow> closed_by rest \<longrightarrow>
     2 * length s \<le> n \<longrightarrow> json_value n (s @ rest) = Some (v, rest))"

lemma reads_backD:
  "reads_back v \<Longrightarrow> stringify [] ind v = Some s \<Longrightarrow> closed_by rest \<Longrightarrow> 2 * length s \<le> n \<Longrightarrow>
   json_value n (s @ rest) = Some (v, rest)"
  by (simp add: reads_back_def)

lemma closed_by_delims [simp]:
  "closed_by (44 # r)" "closed_by (93 # r)" "closed_by (125 # r)" "closed_by []"
  by (simp_all add: closed_by_def number_unit_def is_digit_unit_def)

lemma skip_ws_delims [simp]:
  "skip_ws (44 # r) = 44 # r" "skip_ws (93 # r) = 93 # r" "skip_ws (125 # r) = 125 # r"
  "skip_ws (34 # r) = 34 # r" "skip_ws (58 # r) = 58 # r" "skip_ws [] = []"
  "skip_ws (91 # r) = 91 # r" "skip_ws (123 # r) = 123 # r"
  by (simp_all add: skip_ws_def)

lemma elems_back:
  assumes "\<forall>x \<in> set xs. json_faithful x \<and> reads_back x" "xs \<noteq> []"
    and "2 * length (elems_text ind xs) + 2 \<le> n"
  shows "json_elems n (elems_text ind xs @ 93 # rest) = Some (xs, rest)"
  using assms
proof (induction xs arbitrary: n)
  case (Cons x xs)
  obtain s where s: "stringify [] ind x = Some s"
    using Cons.prems stringify_total [of x "[]" ind] by auto
  obtain m where n: "n = Suc m" using Cons.prems by (cases n) auto
  show ?case
  proof (cases "xs = []")
    case True
    then have "json_value m (s @ 93 # rest) = Some (x, 93 # rest)"
      using Cons.prems s n by (intro reads_backD [OF _ s]) (auto simp: elems_text_simps)
    then show ?thesis using True n s by (simp add: elems_text_simps)
  next
    case False
    note shape = elems_text_simps(2) [OF s False]
    have "json_value m (s @ 44 # elems_text ind xs @ 93 # rest) = Some (x, 44 # elems_text ind xs @ 93 # rest)"
      using Cons.prems n shape by (intro reads_backD [OF _ s]) auto
    moreover have "json_elems m (elems_text ind xs @ 93 # rest) = Some (xs, rest)"
      using Cons.prems n shape False by (intro Cons.IH) auto
    ultimately show ?thesis using n shape by simp
  qed
qed simp

lemma member_step:
  assumes "text_faithful k" "json_value m r = Some (v, c # r')" "skip_ws (c # r') = c # r'"
  shows "json_members (Suc m) (json_quote k @ 58 # r) =
     (if c = 44 then map_option (\<lambda>(ps, rest). ((k, v) # ps, rest)) (json_members m r')
      else if c = 125 then Some ([(k, v)], r') else None)"
  using assms json_chars_quote [of k "58 # r"] by (simp add: json_quote_def)

lemma members_back:
  assumes "json_faithful (JObj ps)" "\<forall>p \<in> set ps. reads_back (snd p)" "ps \<noteq> []"
    and "2 * length (props_text ind ps) + 2 \<le> n"
  shows "json_members n (props_text ind ps @ 125 # rest) = Some (ps, rest)"
  using assms
proof (induction ps arbitrary: n)
  case (Cons p ps)
  obtain k v where p: "p = (k, v)" by (cases p)
  obtain s where s: "stringify [] ind v = Some s"
    using Cons.prems p stringify_total [of v "[]" ind] by auto
  obtain m where n: "n = Suc m" using Cons.prems by (cases n) auto
  have k: "text_faithful k" and v: "reads_back v" using Cons.prems p by auto
  show ?case
  proof (cases "ps = []")
    case True
    then have "json_value m (s @ 125 # rest) = Some (v, 125 # rest)"
      using Cons.prems s n v p by (intro reads_backD [OF _ s]) (auto simp: props_text_simps)
    then show ?thesis using True n s p member_step [OF k] by (simp add: props_text_simps)
  next
    case False
    have f: "json_faithful (JObj ps)" using Cons.prems by simp
    note shape = props_text_simps(2) [OF s f False]
    have "json_value m (s @ 44 # props_text ind ps @ 125 # rest) = Some (v, 44 # props_text ind ps @ 125 # rest)"
      using Cons.prems n shape v p by (intro reads_backD [OF _ s]) auto
    moreover have "json_members m (props_text ind ps @ 125 # rest) = Some (ps, rest)"
      using Cons.prems n shape False f p by (intro Cons.IH) auto
    ultimately show ?thesis using n shape p member_step [OF k] by simp
  qed
qed simp

lemma text_starts:
  "json_faithful v \<Longrightarrow> stringify [] ind v = Some s \<Longrightarrow> skip_ws (s @ r) = s @ r \<and> s \<noteq> [] \<and> hd s \<noteq> 93 \<and> hd s \<noteq> 125"
  using stringify_starts [of v ind s] by (auto simp: skip_ws_starter) (auto simp: starter_def)

lemma elems_text_starts:
  assumes "\<forall>x \<in> set xs. json_faithful x" "xs \<noteq> []"
  shows "\<exists>c t. elems_text ind xs = c # t \<and> starter c"
proof -
  obtain x ys where xs: "xs = x # ys" using assms by (cases xs) auto
  then obtain s where s: "stringify [] ind x = Some s"
    using assms stringify_total [of x "[]" ind] by auto
  then obtain c t where "s = c # t" "starter c"
    using assms xs stringify_starts [of x ind s] by auto
  then show ?thesis using elems_text_simps [OF s] xs by (cases "ys = []") auto
qed

lemma props_text_starts:
  assumes "json_faithful (JObj ps)" "ps \<noteq> []"
  shows "\<exists>t. props_text ind ps = 34 # t"
proof -
  obtain k v qs where ps: "ps = (k, v) # qs" using assms by (cases ps) auto
  then obtain s where s: "stringify [] ind v = Some s"
    using assms stringify_total [of v "[]" ind] by auto
  then show ?thesis
    using props_text_simps [OF s, where k = k] assms ps by (cases "qs = []") (auto simp: json_quote_def)
qed

lemma faithful_reads_back: "json_faithful v \<Longrightarrow> reads_back v"
proof (induction v)
  case (JNum n)
  show ?case unfolding reads_back_def
  proof (intro allI impI)
    fix ind s k rest
    assume s: "stringify [] ind (JNum n) = Some s" and c: "closed_by rest" and k: "2 * length s \<le> k"
    have "s = num_to_string n" using JNum s by (simp add: number_faithful_def)
    moreover from this have "s \<noteq> []" using JNum by (auto simp: number_faithful_def number_ok_def)
    moreover from this obtain m where "k = Suc m" using k by (cases k) auto
    ultimately show "json_value k (s @ rest) = Some (JNum n, rest)"
      using JNum c json_value_number [of n rest m] by simp
  qed
next
  case (JStr t)
  show ?case unfolding reads_back_def
  proof (intro allI impI)
    fix ind s k rest
    assume s: "stringify [] ind (JStr t) = Some s" and k: "2 * length s \<le> k"
    then obtain m where "k = Suc m" by (cases k) (auto simp: json_quote_def)
    then show "json_value k (s @ rest) = Some (JStr t, rest)"
      using s JStr by (auto simp: json_quote_def json_chars_quote)
  qed
next
  case (JArr xs)
  show ?case unfolding reads_back_def
  proof (intro allI impI)
    fix ind s k rest
    assume s: "stringify [] ind (JArr xs) = Some s" and k: "2 * length s \<le> k"
    show "json_value k (s @ rest) = Some (JArr xs, rest)"
    proof (cases "xs = []")
      case True
      then show ?thesis using s k by (cases k) (auto simp: json_wrap_def)
    next
      case False
      have t: "s = 91 # elems_text ind xs @ [93]"
        using s False by (auto simp: json_wrap_def elems_text_def)
      obtain m where m: "k = Suc m" using k t by (cases k) auto
      have f: "\<forall>x \<in> set xs. json_faithful x \<and> reads_back x"
        using JArr by (auto simp: list_all_iff)
      have "json_elems m (elems_text ind xs @ 93 # rest) = Some (xs, rest)"
        using k t m by (intro elems_back [OF f False]) simp
      moreover obtain c u where "elems_text ind xs = c # u" "starter c"
        using elems_text_starts [of xs ind] f False by auto
      ultimately show ?thesis using t m by (auto simp: skip_ws_starter) (auto simp: starter_def)
    qed
  qed
next
  case (JObj ps)
  show ?case unfolding reads_back_def
  proof (intro allI impI)
    fix ind s k rest
    assume s: "stringify [] ind (JObj ps) = Some s" and k: "2 * length s \<le> k"
    show "json_value k (s @ rest) = Some (JObj ps, rest)"
    proof (cases "ps = []")
      case True
      then show ?thesis using s k by (cases k) (auto simp: json_wrap_def)
    next
      case False
      have t: "s = 123 # props_text ind ps @ [125]"
        using s False JObj.prems by (auto simp: json_wrap_def props_text_def stringify_props_Nil)
      obtain m where m: "k = Suc m" using k t by (cases k) auto
      have f: "\<forall>p \<in> set ps. reads_back (snd p)"
        using JObj by (auto simp: list_all_iff)
      have "json_members m (props_text ind ps @ 125 # rest) = Some (ps, rest)"
        using k t m by (intro members_back [OF JObj.prems f False]) simp
      moreover obtain u where "props_text ind ps = 34 # u"
        using props_text_starts [OF JObj.prems False] by blast
      moreover have "from_entries ps = ps" using JObj.prems by (simp add: from_entries_distinct)
      ultimately show ?thesis using t m by auto
    qed
  qed
next
  case (JBool b)
  show ?case unfolding reads_back_def
  proof (intro allI impI)
    fix ind s k rest
    assume s: "stringify [] ind (JBool b) = Some s" and k: "2 * length s \<le> k"
    then obtain m where "k = Suc m" by (cases k) (auto simp: js_literals split: if_splits)
    then show "json_value k (s @ rest) = Some (JBool b, rest)"
      using s by (auto simp: json_literal_def starts_with_def js_literals skip_ws_def)
  qed
next
  case JNull
  show ?case unfolding reads_back_def
  proof (intro allI impI)
    fix ind s k rest
    assume s: "stringify [] ind JNull = Some s" and k: "2 * length s \<le> k"
    then obtain m where "k = Suc m" by (cases k) (auto simp: js_literals)
    then show "json_value k (s @ rest) = Some (JNull, rest)"
      using s by (auto simp: json_literal_def starts_with_def js_literals skip_ws_def)
  qed
qed simp_all

text \<open>Parsing what was written gives the value back.\<close>

lemma json_parse_stringify:
  assumes "json_faithful v"
  shows "\<exists>s. json_stringify v = JStr s \<and> s \<noteq> [] \<and> json_parse s = Some v"
proof -
  obtain s where s: "stringify [] [] v = Some s"
    using stringify_total [OF assms] by blast
  then have "json_value (2 * length s + 1) (s @ []) = Some (v, [])"
    by (intro reads_backD [OF faithful_reads_back [OF assms]]) simp_all
  moreover have "s \<noteq> []" using text_starts [OF assms s] by simp
  ultimately show ?thesis using s by (simp add: json_stringify_def json_parse_def)
qed

lemma json_parse_null [simp]: "json_parse (js ''null'') = Some JNull"
  using json_parse_stringify [of JNull] by (simp add: json_stringify_def)

end
