(* ===== verification/SessionStore.thy ===== *)
theory SessionStore imports ApiClient JsonParse begin

text \<open>
  \<open>stores/session.js\<close>: the token and the identity of the user, mirrored in the local storage,
  and the restoration of the identity through \<open>GET /me\<close>.  The promise chain
  \<open>adminGet('/me').then(f).catch(g).finally(h)\<close> is modelled stage by stage, so that any other
  operation of the store may run between two of its handlers; several chains may be in flight.
\<close>

section \<open>The local storage\<close>

type_synonym disk = "(jstr \<rightharpoonup> jstr) option"

definition ME_KEY :: jstr where
  "ME_KEY = js ''codex-memory-admin-me''"

definition readStorage :: "disk \<Rightarrow> jstr \<Rightarrow> jstr \<Rightarrow> jstr" where
  "readStorage d key fallback = (case d of None \<Rightarrow> fallback
    | Some items \<Rightarrow> (case items key of Some s \<Rightarrow> if s \<noteq> [] then s else fallback | None \<Rightarrow> fallback))"

definition writeStorage :: "disk \<Rightarrow> jstr \<Rightarrow> jsval \<Rightarrow> disk" where
  "writeStorage d key v = (case d of None \<Rightarrow> None
    | Some items \<Rightarrow> if strict_eq v JNull \<or> strict_eq v (JStr []) then Some (items(key := None))
                   else Some (items(key \<mapsto> to_string v)))"

definition readMe :: "disk \<Rightarrow> jsval" where
  "readMe d = (case json_parse (readStorage d ME_KEY (js ''null'')) of Some v \<Rightarrow> v | None \<Rightarrow> JNull)"

text \<open>The contract of a store of named cells, and its interpretation on the definitions above.\<close>

definition stored_text :: "jsval \<Rightarrow> jstr" where
  "stored_text v = (if v = JNull then [] else to_string v)"

locale cell_store =
  fixes read_cell :: "'d \<Rightarrow> jstr \<Rightarrow> jstr"
    and write_cell :: "'d \<Rightarrow> jstr \<Rightarrow> jsval \<Rightarrow> 'd"
    and live :: "'d \<Rightarrow> bool"
  assumes read_same: "live d \<Longrightarrow> read_cell (write_cell d k v) k = stored_text v"
    and read_other: "k \<noteq> l \<Longrightarrow> read_cell (write_cell d k v) l = read_cell d l"
    and live_write: "live (write_cell d k v) \<longleftrightarrow> live d"
begin

lemma erased: "live d \<Longrightarrow> read_cell (write_cell d k JNull) k = []"
  by (simp add: read_same stored_text_def)

lemma independent_cells:
  assumes "live d" "k \<noteq> l"
  shows "read_cell (write_cell (write_cell d k v) l w) k = stored_text v"
    and "read_cell (write_cell (write_cell d k v) l w) l = stored_text w"
  using assms by (simp_all add: read_same read_other live_write)

end

interpretation local: cell_store "\<lambda>d k. readStorage d k []" writeStorage "\<lambda>d. d \<noteq> None"
  by unfold_locales
    (auto simp: readStorage_def writeStorage_def stored_text_def split: option.splits)

lemma storageToken_readStorage: "storageToken h = readStorage (local_storage h) TOKEN_KEY []"
  by (auto simp: storageToken_def readStorage_def split: option.split)

lemma keys_distinct [simp]: "TOKEN_KEY \<noteq> ME_KEY" "ME_KEY \<noteq> TOKEN_KEY"
  by (simp_all add: TOKEN_KEY_def ME_KEY_def)

section \<open>State and getters\<close>

text \<open>\<open>restoreError\<close> is \<open>None\<close> for \<open>null\<close>.\<close>

record session =
  token :: jstr
  me :: jsval
  restored :: bool
  restoring :: bool
  restoreError :: "jserror option"

definition initial_session :: "disk \<Rightarrow> session" where
  "initial_session d = \<lparr>token = readStorage d TOKEN_KEY [], me = readMe d, restored = False,
     restoring = False, restoreError = None\<rparr>"

text \<open>
  \<open>v?.includes(x)\<close> for a string \<open>x\<close>: membership in an array, substring of a string, \<open>undefined\<close> for a
  nullish value; nothing else has such a method.
\<close>

definition opt_includes :: "jsval \<Rightarrow> jstr \<Rightarrow> jsval js" where
  "opt_includes v x = (case v of
      JUndef \<Rightarrow> Inr JUndef | JNull \<Rightarrow> Inr JUndef
    | JArr xs \<Rightarrow> Inr (JBool (JStr x \<in> set xs))
    | JStr s \<Rightarrow> Inr (JBool (includes_str s x))
    | _ \<Rightarrow> Inl TypeError)"

definition permissions_of :: "session \<Rightarrow> jsval" where
  "permissions_of s = get_opt (me s) (js ''permissions'')"

definition isAuthenticated :: "session \<Rightarrow> bool" where
  "isAuthenticated s \<longleftrightarrow> token s \<noteq> []"

definition isAdmin :: "session \<Rightarrow> bool js" where
  "isAdmin s = andThen (opt_includes (permissions_of s) (js ''admin'')) (\<lambda>v. Inr (truthy v))"

definition isReadOnly :: "session \<Rightarrow> bool js" where
  "isReadOnly s = (if \<not> truthy (me s) then Inr False
     else andThen (opt_includes (permissions_of s) (js ''admin'')) (\<lambda>v. Inr (\<not> truthy v)))"

definition displayName :: "session \<Rightarrow> jsval" where
  "displayName s = js_or (js_or (get_opt (me s) (js ''display_name'')) (get_opt (me s) (js ''username'')))
     (JStr [0x7ba1, 0x7406, 0x5458])"

definition hasPermission :: "session \<Rightarrow> jstr \<Rightarrow> bool js" where
  "hasPermission s permission =
     andThen (opt_includes (permissions_of s) (js ''admin'')) (\<lambda>v.
       if truthy v then Inr True
       else andThen (opt_includes (permissions_of s) permission) (\<lambda>w. Inr (truthy w)))"

section \<open>Actions\<close>

text \<open>
  The stages of one restoration: waiting for the answer; answered; after \<open>then\<close>; after \<open>catch\<close>;
  settled.  \<open>sent_token\<close> is the token the request carries.
\<close>

datatype stage =
    Fetching
  | Answered "jsval js"
  | Handled "jsval js"
  | Caught "jsval js"
  | Settled "jsval js"

record flight =
  sent_token :: jstr
  stage_of :: stage

record session_world =
  session :: session
  disk :: disk
  restorePromise :: "nat option"
  flights :: "flight list"

definition initial_world :: "disk \<Rightarrow> session_world" where
  "initial_world d = \<lparr>session = initial_session d, disk = d, restorePromise = None, flights = []\<rparr>"

definition setToken :: "jsval \<Rightarrow> session_world \<Rightarrow> session_world" where
  "setToken v w = (let t = trim (text_or_empty v)
     in w\<lparr>session := (session w)\<lparr>token := t\<rparr>, disk := writeStorage (disk w) TOKEN_KEY (JStr t)\<rparr>)"

definition setMe :: "jsval \<Rightarrow> session_world \<Rightarrow> session_world" where
  "setMe v w = w\<lparr>session := (session w)\<lparr>me := v, restored := truthy v\<rparr>,
     disk := writeStorage (disk w) ME_KEY (if truthy v then json_stringify v else JNull)\<rparr>"

definition logout :: "session_world \<Rightarrow> session_world" where
  "logout w = w\<lparr>session := \<lparr>token = [], me = JNull, restored = False, restoring = False, restoreError = None\<rparr>,
     restorePromise := None,
     disk := writeStorage (writeStorage (disk w) TOKEN_KEY JNull) ME_KEY JNull\<rparr>"

text \<open>What \<open>ensureSession\<close> returns at once: a value, or the promise of a restoration.\<close>

datatype ensured = Now jsval | Promise nat

definition start_restore :: "session_world \<Rightarrow> session_world" where
  "start_restore w = w\<lparr>session := (session w)\<lparr>restoring := True, restoreError := None\<rparr>,
     restorePromise := Some (length (flights w)),
     flights := flights w @ [\<lparr>sent_token = readStorage (disk w) TOKEN_KEY [], stage_of = Fetching\<rparr>]\<rparr>"

definition ensureSession :: "bool \<Rightarrow> session_world \<Rightarrow> session_world \<times> ensured" where
  "ensureSession force w =
     (if token (session w) = [] then (w, Now JNull)
      else if restored (session w) \<and> truthy (me (session w)) \<and> \<not> force then (w, Now (me (session w)))
      else case restorePromise w of
          Some n \<Rightarrow> (w, Promise n)
        | None \<Rightarrow> (start_restore w, Promise (length (flights w))))"

definition set_stage :: "nat \<Rightarrow> stage \<Rightarrow> session_world \<Rightarrow> session_world" where
  "set_stage n st w = w\<lparr>flights := (flights w)[n := (flights w ! n)\<lparr>stage_of := st\<rparr>]\<rparr>"

definition error_status :: "jserror \<Rightarrow> jsval" where
  "error_status e = (case e of
      AdminApiError a \<Rightarrow> ae_status a | HostError v \<Rightarrow> get_opt v (js ''status'') | _ \<Rightarrow> JUndef)"

text \<open>The handlers of the chain; reading \<open>data\<close> of a nullish payload throws.\<close>

definition on_then :: "nat \<Rightarrow> jsval js \<Rightarrow> session_world \<Rightarrow> session_world" where
  "on_then n res w = (case res of
      Inl e \<Rightarrow> set_stage n (Handled (Inl e)) w
    | Inr payload \<Rightarrow> (case get_or_throw payload (js ''data'') of
          Inl e \<Rightarrow> set_stage n (Handled (Inl e)) w
        | Inr v \<Rightarrow> let w' = setMe (js_or v JNull) w
                  in set_stage n (Handled (Inr (me (session w')))) w'))"

definition on_catch :: "nat \<Rightarrow> jsval js \<Rightarrow> session_world \<Rightarrow> session_world" where
  "on_catch n res w = (case res of
      Inr v \<Rightarrow> set_stage n (Caught (Inr v)) w
    | Inl e \<Rightarrow>
        let w1 = w\<lparr>session := (session w)\<lparr>restoreError := Some e\<rparr>\<rparr>;
            w2 = (if strict_eq (error_status e) (N 401) then logout w1 else w1)
        in set_stage n (Caught (Inl e)) w2)"

definition on_finally :: "nat \<Rightarrow> jsval js \<Rightarrow> session_world \<Rightarrow> session_world" where
  "on_finally n res w = set_stage n (Settled res)
     (w\<lparr>session := (session w)\<lparr>restoring := False\<rparr>, restorePromise := None\<rparr>)"

section \<open>Interleavings\<close>

datatype action =
    Ensure bool
  | Answer nat "jsval js"
  | Then nat
  | Catch nat
  | Finally nat
  | SetToken jsval
  | SetMe jsval
  | Logout

definition at_stage :: "session_world \<Rightarrow> nat \<Rightarrow> stage \<Rightarrow> bool" where
  "at_stage w n st \<longleftrightarrow> n < length (flights w) \<and> stage_of (flights w ! n) = st"

inductive session_step :: "session_world \<Rightarrow> action \<Rightarrow> session_world \<Rightarrow> bool" where
  ensure_step: "session_step w (Ensure force) (fst (ensureSession force w))"
| answer_step: "at_stage w n Fetching \<Longrightarrow> session_step w (Answer n res) (set_stage n (Answered res) w)"
| then_step: "at_stage w n (Answered res) \<Longrightarrow> session_step w (Then n) (on_then n res w)"
| catch_step: "at_stage w n (Handled res) \<Longrightarrow> session_step w (Catch n) (on_catch n res w)"
| finally_step: "at_stage w n (Caught res) \<Longrightarrow> session_step w (Finally n) (on_finally n res w)"
| token_step: "session_step w (SetToken v) (setToken v w)"
| me_step: "session_step w (SetMe v) (setMe v w)"
| logout_step: "session_step w Logout (logout w)"

inductive session_run :: "session_world \<Rightarrow> action list \<Rightarrow> session_world \<Rightarrow> bool" where
  stop: "session_run w [] w"
| step: "session_run w as v \<Longrightarrow> session_step v a u \<Longrightarrow> session_run w (as @ [a]) u"

inductive_cases session_stepE: "session_step w a w'"

text \<open>The same relation as a function, for concrete runs.\<close>

definition stage_at :: "session_world \<Rightarrow> nat \<Rightarrow> stage option" where
  "stage_at w n = (if n < length (flights w) then Some (stage_of (flights w ! n)) else None)"

definition run_action :: "action \<Rightarrow> session_world \<Rightarrow> session_world option" where
  "run_action a w = (case a of
      Ensure force \<Rightarrow> Some (fst (ensureSession force w))
    | Answer n res \<Rightarrow> (case stage_at w n of Some Fetching \<Rightarrow> Some (set_stage n (Answered res) w) | _ \<Rightarrow> None)
    | Then n \<Rightarrow> (case stage_at w n of Some (Answered res) \<Rightarrow> Some (on_then n res w) | _ \<Rightarrow> None)
    | Catch n \<Rightarrow> (case stage_at w n of Some (Handled res) \<Rightarrow> Some (on_catch n res w) | _ \<Rightarrow> None)
    | Finally n \<Rightarrow> (case stage_at w n of Some (Caught res) \<Rightarrow> Some (on_finally n res w) | _ \<Rightarrow> None)
    | SetToken v \<Rightarrow> Some (setToken v w)
    | SetMe v \<Rightarrow> Some (setMe v w)
    | Logout \<Rightarrow> Some (logout w))"

fun run_actions :: "action list \<Rightarrow> session_world \<Rightarrow> session_world option" where
  "run_actions [] w = Some w"
| "run_actions (a # as) w = Option.bind (run_action a w) (run_actions as)"

lemma run_action_step: "run_action a w = Some w' \<Longrightarrow> session_step w a w'"
  by (auto simp: run_action_def stage_at_def at_stage_def
      split: action.splits option.splits if_splits stage.splits intro: session_step.intros)

lemma step_run_action: "session_step w a w' \<Longrightarrow> run_action a w = Some w'"
  by (induction rule: session_step.induct) (auto simp: run_action_def stage_at_def at_stage_def)

lemma session_run_trans:
  "session_run v bs u \<Longrightarrow> session_run w as v \<Longrightarrow> session_run w (as @ bs) u"
proof (induction rule: session_run.induct)
  case (step v bs x a u)
  then show ?case using session_run.step [of w "as @ bs" x a u] by simp
qed simp

lemma run_actions_run: "run_actions as w = Some w' \<Longrightarrow> session_run w as w'"
proof (induction as arbitrary: w)
  case Nil
  then show ?case by (auto intro: session_run.stop)
next
  case (Cons a as)
  then obtain v where v: "run_action a w = Some v" "run_actions as v = Some w'"
    by (auto simp: bind_eq_Some_conv)
  have "session_run w ([] @ [a]) v"
    by (rule session_run.step [OF session_run.stop run_action_step [OF v(1)]])
  then show ?case using session_run_trans [OF Cons.IH [OF v(2)], of w "[a]"] by simp
qed

section \<open>Invariants of every run\<close>

text \<open>
  The token of the store is the token in the storage; an identity counts as restored only when
  there is one; a restoration is marked as running exactly while its promise is registered, and
  the registered promise is one of the chains in flight.
\<close>

definition mirrors_token :: "session_world \<Rightarrow> bool" where
  "mirrors_token w \<longleftrightarrow> (disk w \<noteq> None \<longrightarrow> readStorage (disk w) TOKEN_KEY [] = token (session w))"

definition session_inv :: "session_world \<Rightarrow> bool" where
  "session_inv w \<longleftrightarrow> mirrors_token w
     \<and> (restored (session w) \<longrightarrow> truthy (me (session w)))
     \<and> (restoring (session w) \<longleftrightarrow> restorePromise w \<noteq> None)
     \<and> (\<forall>n. restorePromise w = Some n \<longrightarrow> n < length (flights w))"

lemma set_stage_simps [simp]:
  "session (set_stage n st w) = session w" "disk (set_stage n st w) = disk w"
  "restorePromise (set_stage n st w) = restorePromise w"
  "length (flights (set_stage n st w)) = length (flights w)"
  by (simp_all add: set_stage_def)

lemma session_inv_set_stage [simp]: "session_inv (set_stage n st w) \<longleftrightarrow> session_inv w"
  by (simp add: session_inv_def mirrors_token_def)

lemma disk_live [simp]: "writeStorage d k v = None \<longleftrightarrow> d = None"
  by (auto simp: writeStorage_def split: option.splits)

lemma session_inv_initial: "session_inv (initial_world d)"
  by (simp add: session_inv_def mirrors_token_def initial_world_def initial_session_def)

lemma session_inv_setToken: "session_inv w \<Longrightarrow> session_inv (setToken v w)"
  by (simp add: session_inv_def mirrors_token_def setToken_def Let_def local.read_same stored_text_def)

lemma session_inv_setMe: "session_inv w \<Longrightarrow> session_inv (setMe v w)"
  by (simp add: session_inv_def mirrors_token_def setMe_def local.read_other)

lemma session_inv_logout: "mirrors_token w \<Longrightarrow> session_inv (logout w)"
  by (simp add: session_inv_def mirrors_token_def logout_def local.independent_cells stored_text_def)

lemma session_inv_ensure: "session_inv w \<Longrightarrow> session_inv (fst (ensureSession force w))"
  by (auto simp: session_inv_def mirrors_token_def ensureSession_def start_restore_def split: option.split)

lemma session_inv_then: "session_inv w \<Longrightarrow> session_inv (on_then n res w)"
  by (simp add: on_then_def Let_def session_inv_setMe split: sum.split)

lemma session_inv_error: "session_inv w \<Longrightarrow> session_inv (w\<lparr>session := (session w)\<lparr>restoreError := x\<rparr>\<rparr>)"
  by (simp add: session_inv_def mirrors_token_def)

lemma session_inv_mirrors: "session_inv w \<Longrightarrow> mirrors_token w"
  by (simp add: session_inv_def)

lemma session_inv_catch: "session_inv w \<Longrightarrow> session_inv (on_catch n res w)"
  by (cases res)
    (simp_all add: on_catch_def Let_def session_inv_error session_inv_logout session_inv_mirrors)

lemma session_inv_finally: "session_inv w \<Longrightarrow> session_inv (on_finally n res w)"
  by (simp add: on_finally_def) (simp add: session_inv_def mirrors_token_def)

lemma session_inv_step: "session_step w a w' \<Longrightarrow> session_inv w \<Longrightarrow> session_inv w'"
  by (induction rule: session_step.induct)
    (simp_all add: session_inv_ensure session_inv_then session_inv_catch session_inv_finally
      session_inv_setToken session_inv_setMe session_inv_logout session_inv_mirrors)

lemma session_inv_run: "session_run w as w' \<Longrightarrow> session_inv w \<Longrightarrow> session_inv w'"
  by (induction rule: session_run.induct) (auto intro: session_inv_step)

text \<open>C4. In every state the store can reach, whatever the order in which answers, handlers,
  logins and logouts interleave: the token of the store is the token that the API client sends;
  an identity counts as restored only if there is one; and the restoration is marked as running
  exactly while its promise is registered.\<close>

theorem session_invariant:
  assumes "session_run (initial_world d) as w"
  shows "(local_storage h = disk w \<and> disk w \<noteq> None \<longrightarrow> storageToken h = token (session w))
    \<and> (restored (session w) \<longrightarrow> truthy (me (session w)))
    \<and> (restoring (session w) \<longleftrightarrow> restorePromise w \<noteq> None)"
  using session_inv_run [OF assms session_inv_initial]
  by (simp add: session_inv_def mirrors_token_def storageToken_readStorage)

theorem session_invariant_witness:
  "\<exists>w. session_run (initial_world (Some [TOKEN_KEY \<mapsto> js ''t''])) [Ensure False, Logout] w
     \<and> (restoring (session w) \<longleftrightarrow> restorePromise w \<noteq> None) \<and> token (session w) = []"
proof -
  let ?w0 = "initial_world (Some [TOKEN_KEY \<mapsto> js ''t''])"
  let ?w1 = "fst (ensureSession False ?w0)"
  have "session_run ?w0 ([] @ [Ensure False]) ?w1"
    by (rule session_run.step [OF session_run.stop session_step.ensure_step])
  then have "session_run ?w0 (([] @ [Ensure False]) @ [Logout]) (logout ?w1)"
    by (rule session_run.step [OF _ session_step.logout_step])
  then have r: "session_run ?w0 [Ensure False, Logout] (logout ?w1)" by simp
  show ?thesis using r session_invariant [OF r] by (auto simp: logout_def)
qed

section \<open>At most one restoration\<close>

text \<open>Runs without a logout, be it the user's or that of a 401 answer.\<close>

definition peaceful :: "action \<Rightarrow> bool" where
  "peaceful a = (case a of
      Logout \<Rightarrow> False
    | Answer n res \<Rightarrow> (case res of Inl e \<Rightarrow> \<not> strict_eq (error_status e) (N 401) | Inr v \<Rightarrow> True)
    | _ \<Rightarrow> True)"

definition unsettled :: "stage \<Rightarrow> bool" where
  "unsettled st = (case st of Settled r \<Rightarrow> False | _ \<Rightarrow> True)"

definition harmless :: "stage \<Rightarrow> bool" where
  "harmless st = (case st of
      Answered (Inl e) \<Rightarrow> \<not> strict_eq (error_status e) (N 401)
    | Handled (Inl e) \<Rightarrow> \<not> strict_eq (error_status e) (N 401)
    | _ \<Rightarrow> True)"

definition flight_inv :: "session_world \<Rightarrow> bool" where
  "flight_inv w \<longleftrightarrow> (\<forall>k < length (flights w).
     (unsettled (stage_of (flights w ! k)) \<longrightarrow> restorePromise w = Some k)
     \<and> harmless (stage_of (flights w ! k)))"

lemma stage_simps [simp]:
  "unsettled Fetching" "unsettled (Answered r)" "unsettled (Handled r)" "unsettled (Caught r)"
  "\<not> unsettled (Settled r)" "harmless Fetching" "harmless (Caught r)" "harmless (Settled r)"
  "harmless (Answered (Inr v))" "harmless (Handled (Inr v))"
  "harmless (Answered (Inl e)) \<longleftrightarrow> \<not> strict_eq (error_status e) (N 401)"
  "harmless (Handled (Inl e)) \<longleftrightarrow> \<not> strict_eq (error_status e) (N 401)"
  by (simp_all add: unsettled_def harmless_def)

lemma flight_invD:
  "flight_inv w \<Longrightarrow> k < length (flights w) \<Longrightarrow> unsettled (stage_of (flights w ! k)) \<Longrightarrow> restorePromise w = Some k"
  "flight_inv w \<Longrightarrow> k < length (flights w) \<Longrightarrow> harmless (stage_of (flights w ! k))"
  by (simp_all add: flight_inv_def)

lemma flight_invI:
  "(\<And>k. k < length (flights w) \<Longrightarrow> unsettled (stage_of (flights w ! k)) \<Longrightarrow> restorePromise w = Some k) \<Longrightarrow>
   (\<And>k. k < length (flights w) \<Longrightarrow> harmless (stage_of (flights w ! k))) \<Longrightarrow> flight_inv w"
  by (simp add: flight_inv_def)

lemma flight_inv_set_stage:
  "flight_inv w \<Longrightarrow> n < length (flights w) \<Longrightarrow> unsettled (stage_of (flights w ! n)) \<Longrightarrow> harmless st \<Longrightarrow>
   flight_inv (set_stage n st w)"
  by (rule flight_invI) (auto simp: set_stage_def nth_list_update dest: flight_invD split: if_splits)

lemma flight_inv_cong:
  "flights w' = flights w \<Longrightarrow> restorePromise w' = restorePromise w \<Longrightarrow> flight_inv w' \<longleftrightarrow> flight_inv w"
  by (simp add: flight_inv_def)

lemma flights_frame [simp]:
  "flights (setMe v w) = flights w" "restorePromise (setMe v w) = restorePromise w"
  "flights (setToken v w) = flights w" "restorePromise (setToken v w) = restorePromise w"
  "flights (logout w) = flights w" "restorePromise (logout w) = None"
  by (simp_all add: setMe_def setToken_def logout_def Let_def)

lemma flight_inv_frame:
  "flight_inv (setMe v w) \<longleftrightarrow> flight_inv w" "flight_inv (setToken v w) \<longleftrightarrow> flight_inv w"
  "flight_inv (w\<lparr>session := s\<rparr>) \<longleftrightarrow> flight_inv w"
  by (rule flight_inv_cong; simp)+

lemma flight_inv_ensure: "flight_inv w \<Longrightarrow> flight_inv (fst (ensureSession force w))"
  by (auto simp: ensureSession_def start_restore_def flight_inv_def nth_append less_Suc_eq split: option.split)

lemma flight_inv_finally:
  assumes "flight_inv w" "at_stage w n (Caught r)"
  shows "flight_inv (on_finally n r w)"
proof (rule flight_invI)
  fix k
  assume k: "k < length (flights (on_finally n r w))" "unsettled (stage_of (flights (on_finally n r w) ! k))"
  have n: "n < length (flights w)" "stage_of (flights w ! n) = Caught r"
    using assms(2) by (auto simp: at_stage_def)
  have "k \<noteq> n" "unsettled (stage_of (flights w ! k))" "k < length (flights w)"
    using k n by (auto simp: on_finally_def set_stage_def nth_list_update split: if_splits)
  then have "restorePromise w = Some k" "restorePromise w = Some n"
    using flight_invD(1) [OF assms(1), of k] flight_invD(1) [OF assms(1), of n] n by auto
  then show "restorePromise (on_finally n r w) = Some k" using \<open>k \<noteq> n\<close> by simp
next
  fix k
  assume "k < length (flights (on_finally n r w))"
  then show "harmless (stage_of (flights (on_finally n r w) ! k))"
    using flight_invD(2) [OF assms(1), of k]
    by (cases "k = n") (auto simp: on_finally_def set_stage_def)
qed

lemma get_or_throw_TypeError: "get_or_throw v k = Inl e \<Longrightarrow> e = TypeError"
  by (simp add: get_or_throw_def split: if_splits)

lemma flight_inv_then:
  assumes "flight_inv w" "at_stage w n (Answered res)"
  shows "flight_inv (on_then n res w)"
proof -
  have n: "n < length (flights w)" "stage_of (flights w ! n) = Answered res"
    using assms(2) by (auto simp: at_stage_def)
  have h: "harmless (Answered res)" using assms(1) n by (auto simp: flight_inv_def)
  have t: "\<not> strict_eq (error_status TypeError) (N 401)" by (simp add: error_status_def)
  show ?thesis
    using assms(1) n h t
    by (auto simp: on_then_def Let_def flight_inv_frame dest!: get_or_throw_TypeError
        intro!: flight_inv_set_stage split: sum.split)
qed

lemma flight_inv_catch:
  assumes "flight_inv w" "at_stage w n (Handled res)"
  shows "flight_inv (on_catch n res w)"
proof -
  have n: "n < length (flights w)" "stage_of (flights w ! n) = Handled res"
    using assms(2) by (auto simp: at_stage_def)
  have "harmless (Handled res)" using assms(1) n by (auto simp: flight_inv_def)
  then show ?thesis
    using assms(1) n
    by (cases res) (auto simp: on_catch_def Let_def flight_inv_frame intro!: flight_inv_set_stage)
qed

lemma flight_inv_step:
  "session_step w a w' \<Longrightarrow> peaceful a \<Longrightarrow> flight_inv w \<Longrightarrow> flight_inv w'"
proof (induction rule: session_step.induct)
  case (answer_step w n res)
  then show ?case
    by (auto simp: at_stage_def peaceful_def intro!: flight_inv_set_stage split: sum.splits)
qed (simp_all add: flight_inv_ensure flight_inv_then flight_inv_catch flight_inv_finally
      flight_inv_frame peaceful_def)

lemma flight_inv_run:
  "session_run w as w' \<Longrightarrow> list_all peaceful as \<Longrightarrow> flight_inv w \<Longrightarrow> flight_inv w'"
  by (induction rule: session_run.induct) (auto intro: flight_inv_step)



section \<open>Expiry, reload and permissions\<close>

text \<open>When the restoration fails with a 401 the store ends logged out for good: no token,
  no identity and no pending promise remain, both storage cells are gone, nothing is left that a
  later \<open>ensureSession\<close> would send to the API.\<close>

theorem expired_session_cleared:
  assumes "session_step w (Catch n) w'" "at_stage w n (Handled (Inl e))" "error_status e = N 401"
  shows "token (session w') = [] \<and> me (session w') = JNull \<and> \<not> restored (session w')
    \<and> restorePromise w' = None
    \<and> readStorage (disk w') TOKEN_KEY [] = [] \<and> readMe (disk w') = JNull
    \<and> ensureSession force w' = (w', Now JNull)"
proof -
  have w': "w' = on_catch n (Inl e) w"
    using assms(1,2) by (auto elim!: session_stepE simp: at_stage_def)
  have cells: "readStorage (disk (logout v)) TOKEN_KEY [] = []"
    "readStorage (disk (logout v)) ME_KEY (js ''null'') = js ''null''" for v
    by (cases "disk v"; simp add: logout_def readStorage_def writeStorage_def)+
  show ?thesis
    using assms(3) cells unfolding w'
    by (simp add: on_catch_def ensureSession_def readMe_def) (simp add: logout_def)
qed

theorem expired_session_cleared_witness:
  "\<exists>w w' e. session_step w (Catch 0) w' \<and> token (session w) \<noteq> [] \<and> error_status e = N 401
     \<and> ensureSession False w' = (w', Now JNull)"
proof -
  let ?e = "AdminApiError (newAdminApiError JUndef (N 401) JUndef JUndef JUndef JUndef JUndef)"
  let ?w0 = "initial_world (Some [TOKEN_KEY \<mapsto> js ''t''])"
  let ?w = "?w0\<lparr>flights := [\<lparr>sent_token = js ''t'', stage_of = Handled (Inl ?e)\<rparr>]\<rparr>"
  have st: "at_stage ?w 0 (Handled (Inl ?e))" by (simp add: at_stage_def)
  have e: "error_status ?e = N 401" by (simp add: error_status_def newAdminApiError_def)
  have step: "session_step ?w (Catch 0) (on_catch 0 (Inl ?e) ?w)"
    using st by (rule session_step.catch_step)
  have "token (session ?w) \<noteq> []"
    by (simp add: initial_world_def initial_session_def readStorage_def)
  then show ?thesis using expired_session_cleared [OF step st e, of False] step e by blast
qed

text \<open>What a login stores survives a reload of the page: the new store starts with the
  trimmed token and with the very identity that was set, not yet marked as restored.\<close>

theorem reload_restores:
  assumes "disk w \<noteq> None" "truthy v" "json_faithful v"
  shows "session (initial_world (disk (setMe v (setToken t w)))) =
    \<lparr>token = trim (text_or_empty t), me = v, restored = False, restoring = False, restoreError = None\<rparr>"
proof -
  obtain s where s: "json_stringify v = JStr s" "s \<noteq> []" "json_parse s = Some v"
    using json_parse_stringify [OF assms(3)] by blast
  obtain items where d: "disk w = Some items" using assms(1) by auto
  show ?thesis
    using assms(2) s d
    by (simp add: initial_world_def initial_session_def setMe_def setToken_def Let_def
        readMe_def readStorage_def writeStorage_def)
qed

theorem reload_restores_witness:
  "session (initial_world (disk (setMe (JObj [(js ''permissions'', JArr [S ''read''])])
      (setToken (S '' t '') (initial_world (Some Map.empty)))))) =
    \<lparr>token = js ''t'', me = JObj [(js ''permissions'', JArr [S ''read''])], restored = False,
     restoring = False, restoreError = None\<rparr>"
proof -
  have t: "trim (text_or_empty (S '' t '')) = js ''t''"
    by (simp add: js_def trim_def is_space_def)
  have "text_faithful (js ''permissions'')" "text_faithful (js ''read'')"
    by (simp_all add: text_faithful_def js_def)
  then have f: "json_faithful (JObj [(js ''permissions'', JArr [S ''read''])])" by simp
  have d: "disk (initial_world (Some Map.empty)) \<noteq> None" by (simp add: initial_world_def)
  show ?thesis using reload_restores [OF d _ f, of "S '' t ''"] t by simp
qed

text \<open>The administrator's permission is a superset: whoever is an administrator has every
  permission and is not read-only; otherwise a permission is held exactly if it is listed.  This
  includes a user without identity or without a list, who has none.\<close>

theorem permission_semantics:
  assumes "permissions_of s = JArr ps \<or> is_nullish (permissions_of s)"
  shows "hasPermission s p = Inr (S ''admin'' \<in> set (elems (permissions_of s)) \<or> JStr p \<in> set (elems (permissions_of s)))
    \<and> isAdmin s = Inr (S ''admin'' \<in> set (elems (permissions_of s)))
    \<and> isReadOnly s = Inr (truthy (me s) \<and> S ''admin'' \<notin> set (elems (permissions_of s)))"
  using assms
  by (auto simp: hasPermission_def isAdmin_def isReadOnly_def opt_includes_def is_nullish_def elems_def)

theorem permission_semantics_witness:
  "hasPermission \<lparr>token = [], me = JObj [(js ''permissions'', JArr [S ''admin''])], restored = True,
     restoring = False, restoreError = None\<rparr> (js ''operations_read'') = Inr True"
  using permission_semantics [of "\<lparr>token = [], me = JObj [(js ''permissions'', JArr [S ''admin''])],
      restored = True, restoring = False, restoreError = None\<rparr>" "[S ''admin'']" "js ''operations_read''"]
  by (simp add: permissions_of_def)

section \<open>Answers that arrive after a logout\<close>



text \<open>Nor does the end of an old restoration respect a newer one: its last handler drops the
  registration of whichever restoration is pending, after which another \<open>ensureSession\<close> sends a
  second request although one is still in flight.\<close>

theorem stale_finally:
  assumes "at_stage w n (Caught r)" "n \<noteq> k" "at_stage w k Fetching" "restorePromise w = Some k"
    and "token (session w) \<noteq> []"
  shows "session_step w (Finally n) (on_finally n r w)
    \<and> restorePromise (on_finally n r w) = None \<and> at_stage (on_finally n r w) k Fetching
    \<and> length (flights (fst (ensureSession True (on_finally n r w)))) = Suc (length (flights w))"
  using session_step.finally_step [OF assms(1)] assms
  by (auto simp: on_finally_def set_stage_def at_stage_def ensureSession_def start_restore_def)

theorem stale_finally_witness:
  "\<exists>w r. session_run (initial_world (Some [TOKEN_KEY \<mapsto> js ''t'']))
      [Ensure False, Logout, SetToken (S ''u''), Ensure True, Answer 0 (Inl TypeError), Then 0, Catch 0] w
    \<and> restorePromise w = Some 1 \<and> restorePromise (on_finally 0 r w) = None
    \<and> at_stage (on_finally 0 r w) 1 Fetching"
proof -
  let ?as = "[Ensure False, Logout, SetToken (S ''u''), Ensure True, Answer 0 (Inl TypeError), Then 0, Catch 0]"
  let ?w0 = "initial_world (Some [TOKEN_KEY \<mapsto> js ''t''])"
  have u: "trim (js ''u'') = js ''u''" by (simp add: js_def trim_def is_space_def)
  obtain w where w: "run_actions ?as ?w0 = Some w"
    and st: "at_stage w 0 (Caught (Inl TypeError))" "at_stage w 1 Fetching" "restorePromise w = Some 1"
      "token (session w) \<noteq> []"
    by (simp add: run_action_def stage_at_def at_stage_def ensureSession_def initial_world_def
        initial_session_def readStorage_def start_restore_def logout_def setToken_def u
        set_stage_def on_then_def on_catch_def error_status_def Let_def writeStorage_def)
  have "session_run ?w0 ?as w" using w by (rule run_actions_run)
  then show ?thesis using st stale_finally [OF st(1) _ st(2,3,4)] by auto
qed

end
