(* ===== verification/RouterGuard.thy ===== *)
theory RouterGuard imports SessionStore begin

text \<open>
  \<open>router.js\<close>: the table of routes and the navigation guard; the navigation of \<open>App.vue\<close>, the
  return address of \<open>LoginView.vue\<close> and \<open>PermissionGate.vue\<close>, which apply the same
  permissions.  The guard suspends while the session is restored, so it has an entry, run in the
  state in which the navigation starts, and an exit, run in the state in which the restoration
  has settled.
\<close>

section \<open>The routes\<close>

datatype redirection = RedirectTo jstr | RedirectKeepingQuery jstr

record route =
  r_path :: jstr
  r_name :: "jstr option"
  r_view :: "jstr option"
  r_redirect :: "redirection option"
  r_public :: bool
  r_requiresAuth :: bool
  r_permission :: "jstr option"
  r_anyPermissions :: "jstr list option"
  r_activeMenu :: "jstr option"
  r_section :: "jstr option"
  r_label :: "jstr option"

definition blank_route :: "jstr \<Rightarrow> route" where
  "blank_route p = \<lparr>r_path = p, r_name = None, r_view = None, r_redirect = None, r_public = False,
     r_requiresAuth = False, r_permission = None, r_anyPermissions = None, r_activeMenu = None,
     r_section = None, r_label = None\<rparr>"

text \<open>A page for signed-in users: path, name, view, section and label.\<close>

definition page :: "string \<Rightarrow> string \<Rightarrow> string \<Rightarrow> jstr \<Rightarrow> jstr \<Rightarrow> route" where
  "page p n v sec lab = (blank_route (js p))\<lparr>r_name := Some (js n), r_view := Some (js v),
     r_requiresAuth := True, r_permission := Some (js ''read''), r_section := Some sec, r_label := Some lab\<rparr>"

definition routes :: "route list" where
  "routes =
     [(blank_route (js ''/login''))\<lparr>r_name := Some (js ''login''), r_view := Some (js ''LoginView''),
        r_public := True, r_label := Some [0x767b, 0x5f55]\<rparr>,
      (blank_route (js ''/''))\<lparr>r_redirect := Some (RedirectTo (js ''/dashboard''))\<rparr>,
      page ''/dashboard'' ''dashboard'' ''DashboardView'' [0x603b, 0x89c8] [0x8fd0, 0x884c, 0x6982, 0x89c8],
      page ''/projects'' ''projects'' ''ProjectsView'' [0x8bb0, 0x5fc6, 0x6570, 0x636e] [0x9879, 0x76ee, 0x4e0e, 32, 83, 99, 111, 112, 101],
      (blank_route (js ''/record''))\<lparr>r_redirect := Some (RedirectKeepingQuery (js ''/records'')),
        r_requiresAuth := True\<rparr>,
      (page ''/system-status'' ''system-status'' ''SystemStatusView'' [0x8fd0, 0x884c, 0x76d1, 0x63a7] [0x7cfb, 0x7edf, 0x72b6, 0x6001])
        \<lparr>r_permission := None, r_anyPermissions := Some [js ''admin'', js ''operations_read'']\<rparr>,
      page ''/records'' ''records'' ''RecordsView'' [0x8bb0, 0x5fc6, 0x6570, 0x636e] [0x8bb0, 0x5fc6, 0x8d26, 0x672c],
      page ''/imports'' ''imports'' ''ImportView'' [0x6570, 0x636e, 0x6cbb, 0x7406] [0x5386, 0x53f2, 0x77e5, 0x8bc6, 0x5bfc, 0x5165],
      page ''/task-runs'' ''task-runs'' ''TaskRunsView'' [0x8fd0, 0x884c, 0x76d1, 0x63a7] [0x4efb, 0x52a1, 0x62a5, 0x544a],
      (page ''/task-runs/:id'' ''task-run-detail'' ''TaskRunDetailView'' [0x8fd0, 0x884c, 0x76d1, 0x63a7] [0x4efb, 0x52a1, 0x8fd0, 0x884c, 0x8be6, 0x60c5])
        \<lparr>r_activeMenu := Some (js ''/task-runs'')\<rparr>,
      page ''/contract-services'' ''contract-services'' ''ContractServicesView'' [0x63a5, 0x53e3, 0x6cbb, 0x7406] [0x63a5, 0x53e3, 0x5951, 0x7ea6],
      (page ''/contract-services/:serviceId'' ''contract-service-detail'' ''ContractServiceDetailView''
          [0x63a5, 0x53e3, 0x6cbb, 0x7406] [0x5951, 0x7ea6, 0x670d, 0x52a1, 0x8be6, 0x60c5])\<lparr>r_activeMenu := Some (js ''/contract-services'')\<rparr>,
      (page ''/contract-services/:serviceId/revisions/:revisionNumber'' ''contract-revision-detail''
          ''ContractRevisionDetailView'' [0x63a5, 0x53e3, 0x6cbb, 0x7406] [0x63a5, 0x53e3, 0x5951, 0x7ea6, 32, 82, 101, 118, 105, 115, 105, 111, 110, 32,
     0x8be6, 0x60c5])
        \<lparr>r_activeMenu := Some (js ''/contract-services'')\<rparr>,
      (blank_route (js ''/forbidden''))\<lparr>r_name := Some (js ''forbidden''),
        r_view := Some (js ''ForbiddenView''), r_requiresAuth := True, r_label := Some [0x65e0, 0x6743, 0x8bbf, 0x95ee]\<rparr>,
      (blank_route (js ''/:pathMatch(.*)*''))\<lparr>r_name := Some (js ''not-found''),
        r_view := Some (js ''NotFoundView''), r_public := True, r_label := Some [0x9875, 0x9762, 0x4e0d, 0x5b58, 0x5728]\<rparr>]"

section \<open>The guard\<close>

text \<open>The target of a navigation: the matched route, the full path and the query.\<close>

record location =
  to_route :: route
  to_fullPath :: jstr
  to_query :: props

datatype nav = Proceed | GoPath jstr | GoNamed jstr props

datatype entered = Decided nav | AwaitSession

definition login_with :: "location \<Rightarrow> props \<Rightarrow> nav" where
  "login_with to extra = GoNamed (js ''login'') ((js ''redirect'', JStr (to_fullPath to)) # extra)"

definition forbidden_from :: "location \<Rightarrow> nav" where
  "forbidden_from to = GoNamed (js ''forbidden'') [(js ''from'', JStr (to_fullPath to))]"

definition guard_enter :: "location \<Rightarrow> session \<Rightarrow> entered" where
  "guard_enter to s =
     (if r_name (to_route to) = Some (js ''login'') then
        (if token s = [] then Decided Proceed else AwaitSession)
      else if \<not> r_requiresAuth (to_route to) then Decided Proceed
      else if token s = [] then Decided (login_with to [])
      else AwaitSession)"

text \<open>\<open>list.some(f)\<close> with a callback that may throw.\<close>

fun some_js :: "('a \<Rightarrow> bool js) \<Rightarrow> 'a list \<Rightarrow> bool js" where
  "some_js f [] = Inr False"
| "some_js f (x # xs) = andThen (f x) (\<lambda>b. if b then Inr True else some_js f xs)"

definition check_permissions :: "location \<Rightarrow> session \<Rightarrow> nav js" where
  "check_permissions to s =
     andThen (case r_permission (to_route to) of
         Some p \<Rightarrow> if p = [] then Inr True else hasPermission s p
       | None \<Rightarrow> Inr True)
       (\<lambda>ok. if \<not> ok then Inr (forbidden_from to)
         else andThen (case r_anyPermissions (to_route to) of
             Some ps \<Rightarrow> some_js (hasPermission s) ps | None \<Rightarrow> Inr True)
           (\<lambda>any. Inr (if any then Proceed else forbidden_from to)))"

definition guard_leave :: "location \<Rightarrow> session \<Rightarrow> jsval js \<Rightarrow> nav js" where
  "guard_leave to s res =
     (if r_name (to_route to) = Some (js ''login'') then
        (case res of
           Inr v \<Rightarrow> Inr (GoPath (to_string (js_or (lookup_prop (to_query to) (js ''redirect'')) (S ''/dashboard''))))
         | Inl e \<Rightarrow> Inr Proceed)
      else case res of
          Inl e \<Rightarrow> if strict_eq (error_status e) (N 401)
                  then Inr (login_with to [(js ''reason'', S ''session_expired'')]) else Inr Proceed
        | Inr v \<Rightarrow> check_permissions to s)"

text \<open>The whole guard on the session store: decided at once, or waiting for a restoration.\<close>

datatype guarding = Finished "nav js" | WaitsFor nat

definition beforeEach :: "location \<Rightarrow> session_world \<Rightarrow> session_world \<times> guarding" where
  "beforeEach to w = (case guard_enter to (session w) of
      Decided n \<Rightarrow> (w, Finished (Inr n))
    | AwaitSession \<Rightarrow> (case ensureSession False w of
          (w', Now v) \<Rightarrow> (w', Finished (guard_leave to (session w') (Inr v)))
        | (w', Promise n) \<Rightarrow> (w', WaitsFor n)))"

definition resume_guard :: "location \<Rightarrow> nat \<Rightarrow> session_world \<Rightarrow> nav js option" where
  "resume_guard to n w = (case stage_at w n of
      Some (Settled res) \<Rightarrow> Some (guard_leave to (session w) res) | _ \<Rightarrow> None)"

section \<open>Navigation, the login form and the gate\<close>

record nav_item =
  nav_to :: jstr
  nav_label :: jstr
  nav_permissions :: "jstr list option"

definition navGroups :: "(jstr \<times> nav_item list) list" where
  "navGroups =
     [([0x603b, 0x89c8], [\<lparr>nav_to = js ''/dashboard'', nav_label = [0x8fd0, 0x884c, 0x6982, 0x89c8], nav_permissions = None\<rparr>]),
      ([0x8bb0, 0x5fc6, 0x6570, 0x636e], [\<lparr>nav_to = js ''/projects'', nav_label = [0x9879, 0x76ee, 0x4e0e, 32, 83, 99, 111, 112, 101], nav_permissions = None\<rparr>,
         \<lparr>nav_to = js ''/records'', nav_label = [0x8bb0, 0x5fc6, 0x8d26, 0x672c], nav_permissions = None\<rparr>]),
      ([0x8fd0, 0x884c, 0x76d1, 0x63a7], [\<lparr>nav_to = js ''/task-runs'', nav_label = [0x4efb, 0x52a1, 0x62a5, 0x544a], nav_permissions = None\<rparr>,
         \<lparr>nav_to = js ''/system-status'', nav_label = [0x7cfb, 0x7edf, 0x72b6, 0x6001],
          nav_permissions = Some [js ''admin'', js ''operations_read'']\<rparr>]),
      ([0x6570, 0x636e, 0x6cbb, 0x7406], [\<lparr>nav_to = js ''/imports'', nav_label = [0x5386, 0x53f2, 0x77e5, 0x8bc6, 0x5bfc, 0x5165], nav_permissions = None\<rparr>]),
      ([0x63a5, 0x53e3, 0x6cbb, 0x7406], [\<lparr>nav_to = js ''/contract-services'', nav_label = [0x63a5, 0x53e3, 0x5951, 0x7ea6], nav_permissions = None\<rparr>])]"

definition item_visible :: "session \<Rightarrow> nav_item \<Rightarrow> bool js" where
  "item_visible s item = (case nav_permissions item of
      None \<Rightarrow> Inr True | Some ps \<Rightarrow> some_js (hasPermission s) ps)"

definition visibleGroups :: "session \<Rightarrow> (jstr \<times> nav_item list) list js" where
  "visibleGroups s =
     andThen (mapM (\<lambda>(label, items). andThen (filter_js (item_visible s) items) (\<lambda>xs. Inr (label, xs))) navGroups)
       (\<lambda>groups. Inr (filter (\<lambda>g. snd g \<noteq> []) groups))"

definition safeRedirect :: "props \<Rightarrow> jstr" where
  "safeRedirect query =
     (let v = to_string (js_or (lookup_prop query (js ''redirect'')) (S ''/dashboard''))
      in if starts_with v (js ''/'') \<and> \<not> starts_with v (js ''//'') then v else js ''/dashboard'')"

text \<open>\<open>new Set(permissions || [])\<close>: a string is a set of its characters, other values cannot be
  iterated; the characters outside the basic plane do not occur in permission names.\<close>

definition permission_set :: "session \<Rightarrow> jsval list js" where
  "permission_set s = (case js_or (permissions_of s) (JArr []) of
      JArr xs \<Rightarrow> Inr xs | JStr t \<Rightarrow> Inr (map (\<lambda>c. JStr [c]) t) | _ \<Rightarrow> Inl TypeError)"

definition gate_allowed :: "session \<Rightarrow> jstr \<Rightarrow> jstr list \<Rightarrow> jstr list \<Rightarrow> bool js" where
  "gate_allowed s permission anyOf allOf = andThen (permission_set s) (\<lambda>ps.
     Inr (if allOf \<noteq> [] \<and> \<not> list_all (\<lambda>p. JStr p \<in> set ps) allOf then False
          else if anyOf \<noteq> [] then list_ex (\<lambda>p. JStr p \<in> set ps) anyOf
          else JStr permission \<in> set ps))"

section \<open>Who gets where\<close>

lemma hasPermission_array [simp]:
  "permissions_of s = JArr ps \<Longrightarrow> hasPermission s p = Inr (S ''admin'' \<in> set ps \<or> JStr p \<in> set ps)"
  by (auto simp: hasPermission_def opt_includes_def)

lemma page_simps [simp]:
  "r_path (page p n v sec lab) = js p" "r_name (page p n v sec lab) = Some (js n)"
  "r_redirect (page p n v sec lab) = None" "r_requiresAuth (page p n v sec lab)"
  "r_permission (page p n v sec lab) = Some (js ''read'')" "r_anyPermissions (page p n v sec lab) = None"
  by (simp_all add: page_def blank_route_def)

lemma blank_simps [simp]:
  "r_path (blank_route p) = p" "r_name (blank_route p) = None" "r_redirect (blank_route p) = None"
  "\<not> r_requiresAuth (blank_route p)" "r_permission (blank_route p) = None"
  "r_anyPermissions (blank_route p) = None"
  by (simp_all add: blank_route_def)

text \<open>The table leaves no page open by accident: every route that shows a page, except the
  login form and the not-found page, requires a session, and every one of them except the
  forbidden page also requires the permission to read or one of the operator permissions.\<close>

theorem routes_protected:
  "\<forall>r \<in> set routes. r_redirect r = None \<longrightarrow> r_name r \<notin> {Some (js ''login''), Some (js ''not-found'')} \<longrightarrow>
     r_requiresAuth r \<and> (r_name r = Some (js ''forbidden'')
       \<or> r_permission r = Some (js ''read'') \<or> r_anyPermissions r = Some [js ''admin'', js ''operations_read''])"
  by (simp add: routes_def)

theorem routes_protected_witness:
  "\<exists>r \<in> set routes. r_path r = js ''/imports'' \<and> r_requiresAuth r"
proof -
  let ?r = "page ''/imports'' ''imports'' ''ImportView'' [0x6570, 0x636e, 0x6cbb, 0x7406] [0x5386, 0x53f2, 0x77e5, 0x8bc6, 0x5bfc, 0x5165]"
  have "?r \<in> set routes" by (simp add: routes_def)
  moreover from this have "r_requiresAuth ?r" using routes_protected by auto
  ultimately show ?thesis by (intro bexI [of _ ?r]) auto
qed

text \<open>Without a token no protected page is entered: the guard sends the user to the login
  form with the address to return to, sends no request and changes nothing.\<close>

theorem no_entry_without_token:
  assumes "r_requiresAuth (to_route to)" "r_name (to_route to) \<noteq> Some (js ''login'')"
    and "token (session w) = []"
  shows "beforeEach to w = (w, Finished (Inr (GoNamed (js ''login'') [(js ''redirect'', JStr (to_fullPath to))])))"
  using assms by (simp add: beforeEach_def guard_enter_def login_with_def)

theorem no_entry_without_token_witness:
  "beforeEach \<lparr>to_route = page ''/imports'' ''imports'' ''ImportView'' [] [], to_fullPath = js ''/imports?a=1'', to_query = []\<rparr>
     (initial_world None) = (initial_world None,
       Finished (Inr (GoNamed (js ''login'') [(js ''redirect'', S ''/imports?a=1'')])))"
  using no_entry_without_token [of "\<lparr>to_route = page ''/imports'' ''imports'' ''ImportView'' [] [],
      to_fullPath = js ''/imports?a=1'', to_query = []\<rparr>" "initial_world None"]
  by (simp add: initial_world_def initial_session_def readStorage_def)

definition authorised :: "route \<Rightarrow> session \<Rightarrow> bool" where
  "authorised r s \<longleftrightarrow>
     (case r_permission r of Some p \<Rightarrow> p = [] \<or> hasPermission s p = Inr True | None \<Rightarrow> True)
     \<and> (case r_anyPermissions r of Some ps \<Rightarrow> \<exists>p \<in> set ps. hasPermission s p = Inr True | None \<Rightarrow> True)"

lemma some_js_True: "some_js f xs = Inr True \<Longrightarrow> \<exists>x \<in> set xs. f x = Inr True"
  by (induction xs) (auto simp: andThen_Inr_iff split: if_splits)

lemma check_permissions_sound: "check_permissions to s = Inr Proceed \<Longrightarrow> authorised (to_route to) s"
  by (auto simp: check_permissions_def authorised_def forbidden_from_def andThen_Inr_iff
      split: option.splits if_splits dest!: some_js_True)

text \<open>C8. A navigation to a protected page that waited for the session goes ahead only if the
  restored user has the permissions of the page, or if the restoration failed for a reason other
  than 401 (the page is then shown under a warning); a 401 always leads back to the login form.\<close>

theorem guard_sound:
  assumes "resume_guard to n w = Some (Inr Proceed)" "r_name (to_route to) \<noteq> Some (js ''login'')"
  shows "(\<exists>v. stage_at w n = Some (Settled (Inr v)) \<and> authorised (to_route to) (session w))
    \<or> (\<exists>e. stage_at w n = Some (Settled (Inl e)) \<and> error_status e \<noteq> N 401)"
  using assms check_permissions_sound [of to "session w"]
  by (auto simp: resume_guard_def guard_leave_def login_with_def
      split: option.splits stage.splits sum.splits if_splits)

theorem guard_sound_witness:
  "\<exists>w. authorised (page ''/imports'' ''imports'' ''ImportView'' [] []) (session w)
     \<and> stage_at w 0 \<noteq> None"
proof -
  let ?to = "\<lparr>to_route = page ''/imports'' ''imports'' ''ImportView'' [] [], to_fullPath = [], to_query = []\<rparr>"
  let ?s = "\<lparr>token = js ''t'', me = JObj [(js ''permissions'', JArr [S ''read''])], restored = True,
     restoring = False, restoreError = None\<rparr>"
  let ?w = "\<lparr>session = ?s, disk = None, restorePromise = None,
     flights = [\<lparr>sent_token = js ''t'', stage_of = Settled (Inr JNull)\<rparr>]\<rparr>"
  have "permissions_of ?s = JArr [S ''read'']" by (simp add: permissions_of_def)
  then have "resume_guard ?to 0 ?w = Some (Inr Proceed)"
    by (simp add: resume_guard_def stage_at_def guard_leave_def check_permissions_def)
  from guard_sound [OF this] show ?thesis
    by (intro exI [of _ ?w]) (auto simp: stage_at_def)
qed

section \<open>Navigation and guard agree\<close>

lemma some_js_total [simp]: "some_js (\<lambda>p. Inr (P p)) qs = Inr (\<exists>q \<in> set qs. P q)"
  by (induction qs) auto

lemma some_js_array:
  "permissions_of s = JArr ps \<Longrightarrow>
   some_js (hasPermission s) qs = Inr (\<exists>q \<in> set qs. S ''admin'' \<in> set ps \<or> JStr q \<in> set ps)"
  by (induction qs) auto

lemma check_permissions_array:
  assumes "permissions_of s = JArr ps"
  shows "check_permissions to s = Inr (if
     (case r_permission (to_route to) of Some p \<Rightarrow> p = [] \<or> S ''admin'' \<in> set ps \<or> JStr p \<in> set ps | None \<Rightarrow> True)
     \<and> (case r_anyPermissions (to_route to) of
          Some qs \<Rightarrow> (\<exists>q \<in> set qs. S ''admin'' \<in> set ps \<or> JStr q \<in> set ps) | None \<Rightarrow> True)
     then Proceed else forbidden_from to)"
  unfolding check_permissions_def some_js_array [OF assms] hasPermission_array [OF assms]
  by (cases "r_permission (to_route to)"; cases "r_anyPermissions (to_route to)"; simp)

definition shown :: "jsval list \<Rightarrow> nav_item \<Rightarrow> bool" where
  "shown ps item = (case nav_permissions item of
      None \<Rightarrow> True | Some qs \<Rightarrow> \<exists>q \<in> set qs. S ''admin'' \<in> set ps \<or> JStr q \<in> set ps)"

lemma visibleGroups_array:
  assumes "permissions_of s = JArr ps"
  shows "visibleGroups s = Inr (filter (\<lambda>g. snd g \<noteq> [])
    (map (\<lambda>(label, items). (label, filter (shown ps) items)) navGroups))"
proof -
  have "item_visible s item = Inr (shown ps item)" for item
    using assms by (auto simp: item_visible_def shown_def some_js_array split: option.split)
  then have "filter_js (item_visible s) items = Inr (filter (shown ps) items)" for items
    by (intro filter_js_total) auto
  then show ?thesis
    by (simp add: visibleGroups_def mapM_total [where g = "\<lambda>(label, items). (label, filter (shown ps) items)"]
        case_prod_beta)
qed

definition destination :: "jstr \<Rightarrow> route option" where
  "destination p = List.find (\<lambda>r. r_path r = p) routes"

definition nav_matches :: "nav_item \<Rightarrow> route \<Rightarrow> bool" where
  "nav_matches item r \<longleftrightarrow> r_requiresAuth r \<and>
     (if nav_permissions item = None
      then r_permission r = Some (js ''read'') \<and> r_anyPermissions r = None
      else r_permission r = None \<and> r_anyPermissions r = nav_permissions item)"

lemma nav_routes:
  "\<forall>item \<in> set (concat (map snd navGroups)). case destination (nav_to item) of
     None \<Rightarrow> False | Some r \<Rightarrow> nav_matches item r"
  by (simp add: navGroups_def destination_def routes_def nav_matches_def)

text \<open>The menu shows no dead entry: for a user who may read, every visible entry leads to a
  page of the table that the guard lets him enter.\<close>

theorem menu_reachable:
  assumes "permissions_of s = JArr ps" "S ''read'' \<in> set ps \<or> S ''admin'' \<in> set ps"
    and "visibleGroups s = Inr groups" "(label, items) \<in> set groups" "item \<in> set items"
  shows "\<exists>r. destination (nav_to item) = Some r \<and> r_requiresAuth r
    \<and> (\<forall>to. to_route to = r \<longrightarrow> check_permissions to s = Inr Proceed)"
proof -
  have item: "item \<in> set (concat (map snd navGroups))" "shown ps item"
    using assms(3,4,5) by (force simp: visibleGroups_array [OF assms(1)])+
  obtain r where r: "destination (nav_to item) = Some r" "nav_matches item r"
    using nav_routes item(1) by (auto split: option.splits)
  have "check_permissions to s = Inr Proceed" if "to_route to = r" for to
    using that r(2) item(2) assms(2)
    by (auto simp: check_permissions_array [OF assms(1)] nav_matches_def shown_def split: option.splits)
  then show ?thesis using r by (auto simp: nav_matches_def)
qed

theorem menu_reachable_witness:
  "\<exists>r. destination (js ''/imports'') = Some r \<and> r_requiresAuth r"
proof -
  let ?s = "\<lparr>token = js ''t'', me = JObj [(js ''permissions'', JArr [S ''read''])], restored = True,
     restoring = False, restoreError = None\<rparr>"
  have p: "permissions_of ?s = JArr [S ''read'']" by (simp add: permissions_of_def)
  let ?item = "\<lparr>nav_to = js ''/imports'', nav_label = [0x5386, 0x53f2, 0x77e5, 0x8bc6, 0x5bfc, 0x5165], nav_permissions = None\<rparr>"
  obtain groups where g: "visibleGroups ?s = Inr groups" "([0x6570, 0x636e, 0x6cbb, 0x7406], [?item]) \<in> set groups"
    by (simp add: visibleGroups_array [OF p]) (simp add: navGroups_def shown_def)
  show ?thesis using menu_reachable [OF p _ g, of ?item] by auto
qed

text \<open>Logging in returns to where one was stopped: the query the guard attaches makes the
  login form go back to the very address that was asked for, and whatever the query holds, the
  address the form goes to is a path of this site, never a protocol-relative one.\<close>

theorem login_returns:
  assumes "starts_with (to_fullPath to) (js ''/'')" "\<not> starts_with (to_fullPath to) (js ''//'')"
  shows "(\<exists>q. login_with to extra = GoNamed (js ''login'') q \<and> safeRedirect q = to_fullPath to)
    \<and> starts_with (safeRedirect any) (js ''/'') \<and> \<not> starts_with (safeRedirect any) (js ''//'')"
proof -
  have "to_fullPath to \<noteq> []" using assms(1) by (auto simp: starts_with_def js_def)
  then show ?thesis using assms
    by (auto simp: login_with_def safeRedirect_def Let_def js_or_def) (simp_all add: starts_with_def js_def)
qed

theorem login_returns_witness:
  "safeRedirect [(js ''redirect'', S ''/task-runs?page=2'')] = js ''/task-runs?page=2''
   \<and> \<not> starts_with (safeRedirect [(js ''redirect'', S ''//evil.example'')]) (js ''//'')"
  using login_returns [of "\<lparr>to_route = blank_route [], to_fullPath = js ''/task-runs?page=2'', to_query = []\<rparr>" "[]"
      "[(js ''redirect'', S ''//evil.example'')]"]
  by (auto simp: login_with_def starts_with_def js_def)

text \<open>The gate around write actions, as the console uses it (for the administrator's
  permission alone), admits exactly the administrators; a gate for another permission admits only
  users whom the guard would admit too.\<close>

theorem gate_admits:
  assumes "permissions_of s = JArr ps \<or> is_nullish (permissions_of s)"
  shows "gate_allowed s (js ''admin'') [] [] = isAdmin s
    \<and> (gate_allowed s p [] [] = Inr True \<longrightarrow> hasPermission s p = Inr True)"
  using assms
  by (auto simp: gate_allowed_def permission_set_def isAdmin_def hasPermission_def opt_includes_def
      is_nullish_def)

theorem gate_admits_witness:
  "gate_allowed \<lparr>token = [], me = JObj [(js ''permissions'', JArr [S ''read''])], restored = True,
     restoring = False, restoreError = None\<rparr> (js ''admin'') [] [] = Inr False"
  using gate_admits [of "\<lparr>token = [], me = JObj [(js ''permissions'', JArr [S ''read''])], restored = True,
     restoring = False, restoreError = None\<rparr>" "[S ''read'']"]
  by (simp add: permissions_of_def isAdmin_def opt_includes_def)

end
