(* ===== verification/ContextStore.thy ===== *)
theory ContextStore imports ApiClient begin

text \<open>
  \<open>stores/context.js\<close>: the projects the user may choose from, the chosen project with its scopes,
  and the chosen scope.  Loads are asynchronous: an action starts a request and a later step
  settles it, in any order.
\<close>

section \<open>State and getters\<close>

record context_state =
  projects :: "jsval list"
  scopes :: "jsval list"
  projectKey :: jstr
  scopeId :: jstr
  loadingProjects :: bool
  loadingScopes :: bool
  context_error :: "jserror option"

definition initial_context :: context_state where
  "initial_context = \<lparr>projects = [], scopes = [], projectKey = [], scopeId = [],
     loadingProjects = False, loadingScopes = False, context_error = None\<rparr>"

text \<open>\<open>list.find(f) || null\<close> with a callback that may throw.\<close>

fun find_js :: "('a \<Rightarrow> bool js) \<Rightarrow> 'a list \<Rightarrow> 'a option js" where
  "find_js f [] = Inr None"
| "find_js f (x # xs) = andThen (f x) (\<lambda>b. if b then Inr (Some x) else find_js f xs)"

definition or_null :: "jsval option js \<Rightarrow> jsval js" where
  "or_null r = andThen r (\<lambda>v. Inr (case v of Some x \<Rightarrow> js_or x JNull | None \<Rightarrow> JNull))"

definition currentProject :: "context_state \<Rightarrow> jsval js" where
  "currentProject c = or_null (find_js (\<lambda>item. andThen (get_or_throw item (js ''project_key''))
     (\<lambda>k. Inr (strict_eq k (JStr (projectKey c))))) (projects c))"

definition currentScope :: "context_state \<Rightarrow> jsval js" where
  "currentScope c = or_null (find_js (\<lambda>item. andThen (get_or_throw item (js ''scope_key''))
     (\<lambda>k. Inr (to_string (js_or k (get_prop item (js ''id''))) = scopeId c))) (scopes c))"

section \<open>Actions\<close>

text \<open>The requests sent so far, each with whether it is still open.\<close>

datatype load = LoadProjects | LoadScopes jstr

record context_world =
  ctx :: context_state
  loads :: "(load \<times> bool) list"

definition initial_context_world :: context_world where
  "initial_context_world = \<lparr>ctx = initial_context, loads = []\<rparr>"

definition projects_params :: jsval where
  "projects_params = JObj [(js ''page'', N 1), (js ''page_size'', N 200), (js ''sort'', S ''project_key''),
     (js ''order'', S ''asc'')]"

definition scopes_params :: jsval where
  "scopes_params = JObj [(js ''page'', N 1), (js ''page_size'', N 200)]"

definition load_path :: "load \<Rightarrow> jstr js" where
  "load_path l = (case l of
      LoadProjects \<Rightarrow> Inr (js ''/projects'')
    | LoadScopes k \<Rightarrow> andThen (encodeURIComponent k) (\<lambda>e. Inr (js ''/projects/'' @ e @ js ''/scopes'')))"

definition open_load :: "load \<Rightarrow> context_world \<Rightarrow> context_world" where
  "open_load l w = w\<lparr>loads := loads w @ [(l, True)]\<rparr>"

definition loadProjects :: "bool \<Rightarrow> context_world \<Rightarrow> context_world" where
  "loadProjects force w =
     (if projects (ctx w) \<noteq> [] \<and> \<not> force then w
      else open_load LoadProjects (w\<lparr>ctx := (ctx w)\<lparr>loadingProjects := True, context_error := None\<rparr>\<rparr>))"

text \<open>A key that cannot be encoded throws inside the \<open>try\<close>, before any request.\<close>

definition selectProject :: "jsval \<Rightarrow> bool \<Rightarrow> context_world \<Rightarrow> context_world" where
  "selectProject key force w =
     (let next' = text_or_empty key; c = ctx w
      in if \<not> force \<and> next' = projectKey c \<and> (scopes c \<noteq> [] \<or> next' = []) then w
         else let c1 = c\<lparr>projectKey := next', scopeId := [], scopes := []\<rparr>
              in if next' = [] then w\<lparr>ctx := c1\<rparr>
                 else case load_path (LoadScopes next') of
                     Inl e \<Rightarrow> w\<lparr>ctx := c1\<lparr>loadingScopes := False, context_error := Some e\<rparr>\<rparr>
                   | Inr path \<Rightarrow> open_load (LoadScopes next') (w\<lparr>ctx := c1\<lparr>loadingScopes := True\<rparr>\<rparr>))"

definition selectScope :: "jsval \<Rightarrow> context_world \<Rightarrow> context_world" where
  "selectScope v w = w\<lparr>ctx := (ctx w)\<lparr>scopeId := text_or_empty v\<rparr>\<rparr>"

definition reset :: "context_world \<Rightarrow> context_world" where
  "reset w = w\<lparr>ctx := (ctx w)\<lparr>projects := [], scopes := [], projectKey := [], scopeId := [],
     context_error := None\<rparr>\<rparr>"

text \<open>\<open>Array.isArray(result.data) ? result.data : []\<close>; a nullish payload throws.\<close>

definition data_list :: "jsval js \<Rightarrow> jsval list js" where
  "data_list res = andThen res (\<lambda>payload. andThen (get_or_throw payload (js ''data'')) (\<lambda>d. Inr (elems d)))"

definition settle_load :: "load \<Rightarrow> jsval js \<Rightarrow> context_state \<Rightarrow> context_state" where
  "settle_load l res c = (case l of
      LoadProjects \<Rightarrow> (case data_list res of
          Inr ps \<Rightarrow> c\<lparr>projects := ps, loadingProjects := False\<rparr>
        | Inl e \<Rightarrow> c\<lparr>context_error := Some e, loadingProjects := False\<rparr>)
    | LoadScopes k \<Rightarrow> (case data_list res of
          Inr ss \<Rightarrow> c\<lparr>scopes := ss, loadingScopes := False\<rparr>
        | Inl e \<Rightarrow> c\<lparr>context_error := Some e, loadingScopes := False\<rparr>))"

definition finish_load :: "nat \<Rightarrow> jsval js \<Rightarrow> context_world \<Rightarrow> context_world" where
  "finish_load n res w = w\<lparr>ctx := settle_load (fst (loads w ! n)) res (ctx w),
     loads := (loads w)[n := (fst (loads w ! n), False)]\<rparr>"

definition is_open :: "context_world \<Rightarrow> nat \<Rightarrow> load \<Rightarrow> bool" where
  "is_open w n l \<longleftrightarrow> n < length (loads w) \<and> loads w ! n = (l, True)"

inductive context_reachable :: "context_world \<Rightarrow> bool" where
  start: "context_reachable initial_context_world"
| projects_step: "context_reachable w \<Longrightarrow> context_reachable (loadProjects force w)"
| project_step: "context_reachable w \<Longrightarrow> context_reachable (selectProject key force w)"
| scope_step: "context_reachable w \<Longrightarrow> context_reachable (selectScope v w)"
| reset_step: "context_reachable w \<Longrightarrow> context_reachable (reset w)"
| answer_step: "context_reachable w \<Longrightarrow> is_open w n l \<Longrightarrow> context_reachable (finish_load n res w)"

section \<open>Loading flags\<close>

definition flags_inv :: "context_world \<Rightarrow> bool" where
  "flags_inv w \<longleftrightarrow> (loadingProjects (ctx w) \<longrightarrow> (\<exists>n. is_open w n LoadProjects))
     \<and> (loadingScopes (ctx w) \<longrightarrow> (\<exists>n k. is_open w n (LoadScopes k)))"

lemma is_open_open_load:
  "is_open w n l \<Longrightarrow> is_open (open_load l' w) n l" "is_open (open_load l w) (length (loads w)) l"
  by (auto simp: is_open_def open_load_def nth_append)

lemma is_open_ctx [simp]: "is_open (w\<lparr>ctx := c\<rparr>) n l \<longleftrightarrow> is_open w n l"
  by (simp add: is_open_def)

lemma ctx_open_load [simp]: "ctx (open_load l w) = ctx w" "loads (w\<lparr>ctx := c\<rparr>) = loads w"
  by (simp_all add: open_load_def)

lemma is_open_finish: "is_open w m l' \<Longrightarrow> m \<noteq> n \<Longrightarrow> is_open (finish_load n res w) m l'"
  by (simp add: is_open_def finish_load_def)

lemma flags_open_load:
  assumes "flags_inv w" "loadingProjects c \<Longrightarrow> loadingProjects (ctx w) \<or> l = LoadProjects"
    and "loadingScopes c \<Longrightarrow> loadingScopes (ctx w) \<or> (\<exists>k. l = LoadScopes k)"
  shows "flags_inv (open_load l (w\<lparr>ctx := c\<rparr>))"
proof -
  let ?v = "open_load l (w\<lparr>ctx := c\<rparr>)"
  have new: "is_open ?v (length (loads w)) l"
    using is_open_open_load(2) [of l "w\<lparr>ctx := c\<rparr>"] by simp
  have old: "is_open ?v n l'" if "is_open w n l'" for n l'
    using is_open_open_load(1) [of "w\<lparr>ctx := c\<rparr>"] that by simp
  show ?thesis
    using assms new old unfolding flags_inv_def by (metis ctx_open_load(1) context_world.select_convs(1)
        context_world.surjective context_world.update_convs(1))
qed

lemma settle_load_flags:
  "loadingProjects (settle_load l res c) \<longleftrightarrow> loadingProjects c \<and> l \<noteq> LoadProjects"
  "loadingScopes (settle_load l res c) \<longleftrightarrow> loadingScopes c \<and> l = LoadProjects"
  by (auto simp: settle_load_def split: load.split sum.split)

lemma flags_finish:
  assumes "flags_inv w" "is_open w n l"
  shows "flags_inv (finish_load n res w)"
proof -
  have l: "fst (loads w ! n) = l" using assms(2) by (simp add: is_open_def)
  have c: "ctx (finish_load n res w) = settle_load l res (ctx w)" by (simp add: finish_load_def l)
  have "m \<noteq> n" if "is_open w m l'" "l' \<noteq> l" for m l'
    using that assms(2) by (auto simp: is_open_def)
  then have other: "is_open (finish_load n res w) m l'" if "is_open w m l'" "l' \<noteq> l" for m l'
    using that by (blast intro: is_open_finish)
  have "\<exists>m. is_open (finish_load n res w) m LoadProjects" if "loadingProjects (settle_load l res (ctx w))"
    using that assms(1) other by (auto simp: settle_load_flags flags_inv_def)
  moreover have "\<exists>m k. is_open (finish_load n res w) m (LoadScopes k)"
    if "loadingScopes (settle_load l res (ctx w))"
    using that assms(1) other by (fastforce simp: settle_load_flags flags_inv_def)
  ultimately show ?thesis by (simp add: flags_inv_def c)
qed

lemma flags_same:
  "flags_inv w \<Longrightarrow> loadingProjects c = loadingProjects (ctx w) \<Longrightarrow> loadingScopes c = loadingScopes (ctx w) \<Longrightarrow>
   flags_inv (w\<lparr>ctx := c\<rparr>)"
  by (simp add: flags_inv_def)

lemma flags_reachable: "context_reachable w \<Longrightarrow> flags_inv w"
proof (induction rule: context_reachable.induct)
  case start
  then show ?case by (simp add: flags_inv_def initial_context_world_def initial_context_def)
next
  case (projects_step w force)
  then show ?case by (auto simp: loadProjects_def intro!: flags_open_load)
next
  case (project_step w key force)
  have enc: "flags_inv (w\<lparr>ctx := (ctx w)\<lparr>projectKey := p, scopeId := s, scopes := ss, loadingScopes := False, context_error := e\<rparr>\<rparr>)"
    for p s ss e using project_step by (simp add: flags_inv_def)
  show ?case
    using project_step.IH enc
    by (auto simp: selectProject_def Let_def intro: flags_same flags_open_load split: sum.split)
next
  case (scope_step w v)
  then show ?case by (simp add: selectScope_def flags_same)
next
  case (reset_step w)
  then show ?case by (simp add: reset_def flags_same)
next
  case (answer_step w n l res)
  then show ?case by (blast intro: flags_finish)
qed

text \<open>No spinner is left behind: in every reachable state, whatever was selected, reloaded or
  reset meanwhile, a loading flag is set only while a request that will clear it is still open; once
  all requests are settled, both flags are off.\<close>

theorem loading_flags_honest:
  assumes "context_reachable w"
  shows "(loadingProjects (ctx w) \<longrightarrow> (\<exists>n. is_open w n LoadProjects))
    \<and> (loadingScopes (ctx w) \<longrightarrow> (\<exists>n k. is_open w n (LoadScopes k)))
    \<and> ((\<forall>n l. \<not> is_open w n l) \<longrightarrow> \<not> loadingProjects (ctx w) \<and> \<not> loadingScopes (ctx w))"
  using flags_reachable [OF assms] by (auto simp: flags_inv_def)

theorem loading_flags_honest_witness:
  "\<exists>n. is_open (loadProjects False initial_context_world) n LoadProjects"
proof -
  have r: "context_reachable (loadProjects False initial_context_world)"
    by (rule context_reachable.projects_step [OF context_reachable.start])
  have "loadingProjects (ctx (loadProjects False initial_context_world))"
    by (simp add: loadProjects_def initial_context_world_def initial_context_def)
  then show ?thesis using loading_flags_honest [OF r] by blast
qed

section \<open>Choosing a project\<close>

text \<open>Choosing another project at once empties the scopes and the chosen scope, and when its
  request is the next to be answered, the store holds exactly the scopes the API lists for it, with
  no scope chosen; an answer that is not a list leaves none, a failure is kept as the error.\<close>

theorem select_then_answer:
  assumes "text_or_empty key = k" "k \<noteq> []" "k \<noteq> projectKey (ctx w)" "load_path (LoadScopes k) = Inr path"
  defines "v \<equiv> selectProject key False w"
  shows "is_open v (length (loads w)) (LoadScopes k)
    \<and> projectKey (ctx v) = k \<and> scopes (ctx v) = [] \<and> scopeId (ctx v) = [] \<and> loadingScopes (ctx v)
    \<and> ctx (finish_load (length (loads w)) res v) =
        (case data_list res of
           Inr ss \<Rightarrow> (ctx v)\<lparr>scopes := ss, loadingScopes := False\<rparr>
         | Inl e \<Rightarrow> (ctx v)\<lparr>context_error := Some e, loadingScopes := False\<rparr>)"
  using assms(1-4)
  by (cases "data_list res")
    (simp_all add: v_def selectProject_def Let_def open_load_def is_open_def finish_load_def settle_load_def)

theorem select_then_answer_witness:
  "scopes (ctx (finish_load 0 (Inr (JObj [(js ''data'', JArr [JNull])]))
     (selectProject (S ''p'') False initial_context_world))) = [JNull]"
proof -
  have p: "load_path (LoadScopes (js ''p'')) = Inr (js ''/projects/p/scopes'')"
    by (simp add: load_path_def js_def uri_unreserved_def)
  have "js ''p'' \<noteq> projectKey (ctx initial_context_world)"
    by (simp add: initial_context_world_def initial_context_def)
  from select_then_answer [OF _ _ this p, of "S ''p''" "Inr (JObj [(js ''data'', JArr [JNull])])"]
  show ?thesis by (simp add: data_list_def initial_context_world_def)
qed

text \<open>An answer is applied without asking whether its project is still chosen: if the user
  has gone on from project \<open>a\<close> to project \<open>b\<close> and the answer for \<open>a\<close> arrives last, the store ends
  with project \<open>b\<close> and the scopes of \<open>a\<close>.\<close>

theorem stale_scopes:
  assumes "text_or_empty ka = a" "text_or_empty kb = b" "a \<noteq> []" "b \<noteq> []" "a \<noteq> b" "a \<noteq> projectKey (ctx w)"
    and "load_path (LoadScopes a) = Inr pa" "load_path (LoadScopes b) = Inr pb"
    and "data_list ra = Inr as" "data_list rb = Inr bs"
  defines "v \<equiv> selectProject kb False (selectProject ka False w)"
  defines "n \<equiv> length (loads w)"
  shows "is_open v n (LoadScopes a) \<and> is_open v (Suc n) (LoadScopes b)
    \<and> projectKey (ctx (finish_load n ra (finish_load (Suc n) rb v))) = b
    \<and> scopes (ctx (finish_load n ra (finish_load (Suc n) rb v))) = as"
  using assms(1-10)
  by (simp add: v_def n_def selectProject_def Let_def open_load_def is_open_def finish_load_def
      settle_load_def nth_append nth_list_update)

theorem stale_scopes_witness:
  "\<exists>w. projectKey (ctx w) = js ''b'' \<and> scopes (ctx w) = [S ''scope of a''] \<and> context_reachable w"
proof -
  have p: "load_path (LoadScopes (js ''a'')) = Inr (js ''/projects/a/scopes'')"
    "load_path (LoadScopes (js ''b'')) = Inr (js ''/projects/b/scopes'')"
    by (simp_all add: load_path_def js_def uri_unreserved_def)
  have ne: "js ''a'' \<noteq> projectKey (ctx initial_context_world)"
    by (simp add: initial_context_world_def initial_context_def)
  let ?ra = "Inr (JObj [(js ''data'', JArr [S ''scope of a''])])"
  let ?rb = "Inr (JObj [(js ''data'', JArr [])])"
  let ?v = "selectProject (S ''b'') False (selectProject (S ''a'') False initial_context_world)"
  have l: "length (loads initial_context_world) = 0" by (simp add: initial_context_world_def)
  have st: "is_open ?v 0 (LoadScopes (js ''a''))" "is_open ?v 1 (LoadScopes (js ''b''))"
    "projectKey (ctx (finish_load 0 ?ra (finish_load 1 ?rb ?v))) = js ''b''"
    "scopes (ctx (finish_load 0 ?ra (finish_load 1 ?rb ?v))) = [S ''scope of a'']"
    using stale_scopes [of "S ''a''" "js ''a''" "S ''b''" "js ''b''" initial_context_world, OF _ _ _ _ _ ne p,
        of ?ra "[S ''scope of a'']" ?rb "[]"] l
    by (simp_all add: data_list_def)
  have "context_reachable ?v"
    by (intro context_reachable.project_step context_reachable.start)
  from context_reachable.answer_step [OF this st(2), of ?rb]
  have "context_reachable (finish_load 0 ?ra (finish_load 1 ?rb ?v))"
    by (rule context_reachable.answer_step) (rule is_open_finish [OF st(1)], simp)
  then show ?thesis using st(3,4) by blast
qed

text \<open>Nor does a reset (the logout) cancel a request: an answer that arrives afterwards fills
  the emptied store with the projects of the user who has just left.\<close>

theorem reset_refilled:
  assumes "is_open w n LoadProjects" "data_list res = Inr ps"
  shows "projects (ctx (reset w)) = [] \<and> is_open (reset w) n LoadProjects
    \<and> projects (ctx (finish_load n res (reset w))) = ps"
  using assms by (simp add: reset_def is_open_def finish_load_def settle_load_def)

theorem reset_refilled_witness:
  "projects (ctx (finish_load 0 (Inr (JObj [(js ''data'', JArr [S ''secret''])]))
     (reset (loadProjects False initial_context_world)))) = [S ''secret'']"
proof -
  have "is_open (loadProjects False initial_context_world) 0 LoadProjects"
    by (simp add: is_open_def loadProjects_def open_load_def initial_context_world_def initial_context_def)
  from reset_refilled [OF this, of "Inr (JObj [(js ''data'', JArr [S ''secret''])])" "[S ''secret'']"]
  show ?thesis by (simp add: data_list_def)
qed

end
