(* ===== verification/TaskRuns.thy ===== *)
theory TaskRuns imports ApiClient begin

text \<open>
  \<open>taskRuns.js\<close>: the parameters, requests and answers of the task-run pages; and the interface
  of a parameter filter, which \<open>contractServices.js\<close> implements a second time.
\<close>

section \<open>Parameters\<close>

definition given :: "jsval \<Rightarrow> bool" where
  "given v \<longleftrightarrow> \<not> strict_eq v JUndef \<and> \<not> strict_eq v JNull \<and> trim (to_string v) \<noteq> []"

definition compactParams :: "jsval \<Rightarrow> props js" where
  "compactParams params =
     (let p = with_default params (JObj [])
      in if p = JNull then Inl TypeError
         else Inr (from_entries (filter (\<lambda>(_, v). given v) (entries p))))"

text \<open>The contract of such a filter, and what its callers conclude from it.\<close>

locale param_filter =
  fixes compact :: "jsval \<Rightarrow> props js"
  assumes compact_object: "distinct (map fst ps) \<Longrightarrow> compact (JObj ps) = Inr (filter (\<lambda>p. given (snd p)) ps)"
    and compact_missing: "compact JUndef = Inr []"
begin

lemma compact_twice:
  assumes "distinct (map fst ps)" "compact (JObj ps) = Inr qs"
  shows "compact (JObj qs) = Inr qs"
  using assms by (auto simp: compact_object distinct_map_filter)

lemma compact_lookup:
  assumes "distinct (map fst ps)" "compact (JObj ps) = Inr qs" "map_of ps k = Some v"
  shows "map_of qs k = (if given v then Some v else None)"
  using assms by (auto simp: compact_object map_of_filter_distinct)

lemma compact_query:
  assumes "distinct (map fst ps)" "compact (JObj ps) = Inr qs" "pair \<in> set (concat (map query_pairs qs))"
  shows "\<exists>v. (fst pair, v) \<in> set ps \<and> given v"
proof -
  obtain e where e: "e \<in> set qs" "pair \<in> set (query_pairs e)" using assms(3) by auto
  moreover have "e \<in> set ps" "given (snd e)" using e(1) assms(1,2) by (auto simp: compact_object)
  ultimately show ?thesis using query_pairs_key [OF e(2)] by (metis prod.collapse)
qed

end

lemma compactParams_object:
  "distinct (map fst ps) \<Longrightarrow> compactParams (JObj ps) = Inr (filter (\<lambda>p. given (snd p)) ps)"
  by (simp add: compactParams_def with_default_def from_entries_distinct distinct_map_filter case_prod_beta')

interpretation task_params: param_filter compactParams
  by unfold_locales
    (simp add: compactParams_object, simp add: compactParams_def with_default_def from_entries_def)

text \<open>The API name of each filter, beside its name in the page's form.\<close>

definition task_filter_names :: "(string \<times> string) list" where
  "task_filter_names =
     [(''project_key'', ''projectKey''), (''status'', ''status''), (''uncertain'', ''uncertain''),
      (''keyword'', ''keyword''), (''started_from'', ''startedFrom''), (''started_to'', ''startedTo''),
      (''sort'', ''sort''), (''order'', ''order'')]"

definition named_fields :: "(string \<times> string) list \<Rightarrow> jsval \<Rightarrow> props" where
  "named_fields names f = map (\<lambda>(name, field). (js name, get_prop f (js field))) names"

definition filter_fields :: "(string \<times> string) list \<Rightarrow> jsval \<Rightarrow> props js" where
  "filter_fields names filters = (let f = with_default filters (JObj []) in
     if is_nullish f then Inl TypeError else Inr (named_fields names f @
       [(js ''page'', js_or (get_prop f (js ''page'')) (N 1)),
        (js ''page_size'', js_or (get_prop f (js ''pageSize'')) (N 20))]))"

lemma filter_fields_lookup:
  assumes "filter_fields names (JObj f) = Inr fs" "distinct (map fst names)"
    and "''page'' \<notin> fst ` set names" "''page_size'' \<notin> fst ` set names"
  shows "distinct (map fst fs)"
    and "(name, field) \<in> set names \<Longrightarrow> map_of fs (js name) = Some (lookup_prop f (js field))"
    and "map_of fs (js ''page'') = Some (js_or (lookup_prop f (js ''page'')) (N 1))"
    and "map_of fs (js ''page_size'') = Some (js_or (lookup_prop f (js ''pageSize'')) (N 20))"
proof -
  have fs: "fs = named_fields names (JObj f) @ [(js ''page'', js_or (lookup_prop f (js ''page'')) (N 1)),
      (js ''page_size'', js_or (lookup_prop f (js ''pageSize'')) (N 20))]"
    using assms(1) by (simp add: filter_fields_def with_default_def)
  have k: "map fst (named_fields names (JObj f)) = map js (map fst names)"
    by (simp add: named_fields_def case_prod_beta)
  have i: "inj_on js X" for X by (rule inj_onI) simp
  show d: "distinct (map fst fs)"
    using assms(2-4) k i by (auto simp: fs distinct_map image_iff intro: comp_inj_on)
  show "map_of fs (js name) = Some (lookup_prop f (js field))" if "(name, field) \<in> set names"
    using that d by (intro map_of_is_SomeI) (force simp: fs named_fields_def)+
  show "map_of fs (js ''page'') = Some (js_or (lookup_prop f (js ''page'')) (N 1))"
    using d by (intro map_of_is_SomeI) (simp_all add: fs)
  show "map_of fs (js ''page_size'') = Some (js_or (lookup_prop f (js ''pageSize'')) (N 20))"
    using d by (intro map_of_is_SomeI) (simp_all add: fs)
qed

definition buildTaskRunListParams :: "jsval \<Rightarrow> props js" where
  "buildTaskRunListParams filters = andThen (filter_fields task_filter_names filters) (\<lambda>fs. compactParams (JObj fs))"

section \<open>Requests\<close>

definition taskRunStatusLabels :: "(jstr \<times> jstr) list" where
  "taskRunStatusLabels =
     [(js ''pending'', [0x5f85, 0x5f00, 0x59cb]), (js ''running'', [0x8fd0, 0x884c, 0x4e2d]), (js ''completed'', [0x5df2, 0x5b8c, 0x6210]),
      (js ''failed'', [0x5931, 0x8d25]), (js ''stopped'', [0x5df2, 0x505c, 0x6b62]), (js ''open'', [0x8fdb, 0x884c, 0x4e2d]),
      (js ''closed'', [0x5df2, 0x5173, 0x95ed])]"

definition taskRunStatusOptions :: "props list" where
  "taskRunStatusOptions = map (\<lambda>(k, label). [(js ''value'', JStr k), (js ''label'', JStr label)]) taskRunStatusLabels"

type_synonym call_result = "jsval js \<times> event list"

definition listTaskRuns :: "host \<Rightarrow> ('file wire \<Rightarrow> fetch_result) \<Rightarrow> jsval \<Rightarrow> call_result" where
  "listTaskRuns h fetch params = adminGet h fetch (js ''/task-runs'') params"

definition taskRunPath :: "jsval \<Rightarrow> jstr js" where
  "taskRunPath id' = andThen (encodeURIComponent (to_string id')) (\<lambda>e. Inr (js ''/task-runs/'' @ e))"

definition taskRunReportPath :: "jsval \<Rightarrow> jsval \<Rightarrow> jstr js" where
  "taskRunReportPath id' revision = andThen (taskRunPath id') (\<lambda>p.
     andThen (encodeURIComponent (to_string revision)) (\<lambda>r. Inr (p @ js ''/reports/'' @ r)))"

text \<open>A path that cannot be built throws before anything is sent.\<close>

definition get_at :: "host \<Rightarrow> ('file wire \<Rightarrow> fetch_result) \<Rightarrow> jstr js \<Rightarrow> jsval \<Rightarrow> call_result" where
  "get_at h fetch path params = (case path of
      Inl e \<Rightarrow> (Inl e, []) | Inr p \<Rightarrow> adminGet h fetch p params)"

definition getTaskRun :: "host \<Rightarrow> ('file wire \<Rightarrow> fetch_result) \<Rightarrow> jsval \<Rightarrow> call_result" where
  "getTaskRun h fetch id' = get_at h fetch (taskRunPath id') (JObj [])"

definition getTaskRunReport :: "host \<Rightarrow> ('file wire \<Rightarrow> fetch_result) \<Rightarrow> jsval \<Rightarrow> jsval \<Rightarrow> call_result" where
  "getTaskRunReport h fetch id' revision = get_at h fetch (taskRunReportPath id' revision) (JObj [])"

section \<open>Answers\<close>

definition unwrapData :: "jsval \<Rightarrow> jsval" where
  "unwrapData payload = js_coalesce (get_opt payload (js ''data'')) (JObj [])"

definition extractTaskRuns :: "jsval \<Rightarrow> jsval list" where
  "extractTaskRuns payload = elems (unwrapData payload)"

record pagination =
  pg_page :: jnum
  pg_pageSize :: jnum
  pg_total :: jnum
  pg_hasNext :: bool

definition extractPagination :: "jsval \<Rightarrow> jsval \<Rightarrow> jsval \<Rightarrow> pagination" where
  "extractPagination payload page' pageSize =
     (let meta = js_or (get_opt payload (js ''meta'')) (JObj [])
      in \<lparr>pg_page = to_number (js_coalesce (get_prop meta (js ''page'')) (with_default page' (N 1))),
          pg_pageSize = to_number (js_coalesce (get_prop meta (js ''page_size'')) (with_default pageSize (N 50))),
          pg_total = to_number (js_coalesce (get_prop meta (js ''total'')) (N 0)),
          pg_hasNext = truthy (get_prop meta (js ''has_next''))\<rparr>)"

definition array_or_empty :: "jsval \<Rightarrow> jsval" where
  "array_or_empty v = (if is_array v then v else JArr [])"

definition extractTaskRun :: "jsval \<Rightarrow> jsval" where
  "extractTaskRun payload =
     (let data = unwrapData payload
      in JObj (put_all (entries data)
           [(js ''git_baseline'', js_or (get_opt data (js ''git_baseline'')) (JObj [])),
            (js ''events'', array_or_empty (get_opt data (js ''events''))),
            (js ''reports'', array_or_empty (get_opt data (js ''reports'')))]))"

definition msg_project_number :: "jsval \<Rightarrow> jstr" where
  "msg_project_number v = [0x9879, 0x76ee, 32, 35] @ to_string v"

definition taskRunProjectLabel :: "jsval \<Rightarrow> jsval js" where
  "taskRunProjectLabel taskRun =
     andThen (get_or_throw (with_default taskRun (JObj [])) (js ''project_key'')) (\<lambda>key.
       let run = with_default taskRun (JObj []); pid = get_prop run (js ''project_id'')
       in Inr (js_or key (if \<not> is_nullish pid then JStr (msg_project_number pid) else JStr [0x672a, 0x6807, 0x8bb0, 0x9879, 0x76ee])))"

definition taskRunPrompt :: "jsval \<Rightarrow> jstr js" where
  "taskRunPrompt taskRun =
     andThen (get_or_throw (with_default taskRun (JObj [])) (js ''prompt_excerpt'')) (\<lambda>excerpt.
       Inr (trim (text_or_empty
         (js_or excerpt (get_prop (with_default taskRun (JObj [])) (js ''prompt_summary''))))))"

section \<open>Properties\<close>

lemma given_digits: "num_to_string n = c # s \<Longrightarrow> \<forall>d \<in> set (c # s). \<not> is_space d \<Longrightarrow> given (JNum n)"
  by (simp add: given_def trim_id)

lemma given_one: "given (N 1)"
proof -
  have "num_to_string (Fin 1) = [49]" by code_simp
  then show ?thesis using given_digits [of "Fin 1" 49 "[]"] by (simp add: is_space_def)
qed

lemma given_twenty: "given (N 20)"
proof -
  have "num_to_string (Fin 20) = [50, 48]" by code_simp
  then show ?thesis using given_digits [of "Fin 20" 50 "[48]"] by (simp add: is_space_def)
qed

text \<open>The list request of the task pages carries exactly the filters that were given: a
  filter that is absent, null or blank is left out, the others are sent under their API names with
  their values, and page and page size are sent always, with 1 and 20 as defaults.\<close>

theorem task_list_params:
  assumes "buildTaskRunListParams (JObj f) = Inr qs"
  shows "(\<forall>(name, field) \<in> set task_filter_names. map_of qs (js name) =
      (if given (lookup_prop f (js field)) then Some (lookup_prop f (js field)) else None))
    \<and> (lookup_prop f (js ''page'') = JUndef \<longrightarrow> map_of qs (js ''page'') = Some (N 1))
    \<and> (lookup_prop f (js ''pageSize'') = JUndef \<longrightarrow> map_of qs (js ''page_size'') = Some (N 20))
    \<and> compactParams (JObj qs) = Inr qs"
proof -
  obtain fs where fs: "filter_fields task_filter_names (JObj f) = Inr fs" and c: "compactParams (JObj fs) = Inr qs"
    using assms by (auto simp: buildTaskRunListParams_def andThen_Inr_iff)
  have n: "distinct (map fst task_filter_names)" "''page'' \<notin> fst ` set task_filter_names"
    "''page_size'' \<notin> fst ` set task_filter_names"
    by (simp_all add: task_filter_names_def)
  note look = filter_fields_lookup [OF fs n]
  note kept = task_params.compact_lookup [OF look(1) c]
  show ?thesis
    using look kept [OF look(2)] kept [OF look(3)] kept [OF look(4)] given_one given_twenty
      task_params.compact_twice [OF look(1) c]
    by auto
qed

theorem task_list_params_witness:
  "\<exists>qs. buildTaskRunListParams (JObj [(js ''status'', S ''open''), (js ''keyword'', S ''  '')]) = Inr qs
     \<and> map_of qs (js ''status'') = Some (S ''open'') \<and> map_of qs (js ''keyword'') = None
     \<and> map_of qs (js ''page'') = Some (N 1)"
proof -
  let ?f = "[(js ''status'', S ''open''), (js ''keyword'', S ''  '')]"
  have "distinct (map fst (named_fields task_filter_names (JObj ?f) @
      [(js ''page'', N 1), (js ''page_size'', N 20)]))"
    by (simp add: named_fields_def task_filter_names_def)
  then obtain qs where q: "buildTaskRunListParams (JObj ?f) = Inr qs"
    by (simp add: buildTaskRunListParams_def filter_fields_def with_default_def compactParams_object)
  have "given (S ''open'')" "\<not> given (S ''  '')"
    by (simp_all add: given_def js_def trim_def is_space_def)
  then show ?thesis
    using task_list_params [OF q] q by (auto simp: task_filter_names_def)
qed

text \<open>The detail page can rely on the shape of a task run: whatever the API answers, the two
  lists are arrays and the baseline is a value, lists and baseline that were there are kept, and every
  other field is passed on.\<close>

theorem task_run_shape:
  "is_array (get_prop (extractTaskRun payload) (js ''events''))
   \<and> is_array (get_prop (extractTaskRun payload) (js ''reports''))
   \<and> truthy (get_prop (extractTaskRun payload) (js ''git_baseline''))
   \<and> (\<forall>data. get_opt payload (js ''data'') = JObj data \<longrightarrow>
       (is_array (lookup_prop data (js ''events'')) \<longrightarrow>
          get_prop (extractTaskRun payload) (js ''events'') = lookup_prop data (js ''events''))
       \<and> (\<forall>k. js k \<notin> {js ''events'', js ''reports'', js ''git_baseline''} \<longrightarrow>
          get_prop (extractTaskRun payload) (js k) = lookup_prop data (js k)))"
  by (auto simp: extractTaskRun_def Let_def array_or_empty_def unwrapData_def js_or_def)

theorem task_run_shape_witness:
  "get_prop (extractTaskRun (JObj [(js ''data'', JObj [(js ''id'', N 7), (js ''events'', JNull)])])) (js ''id'') = N 7
   \<and> is_array (get_prop (extractTaskRun (JObj [(js ''data'', JObj [(js ''id'', N 7), (js ''events'', JNull)])])) (js ''events''))"
  using task_run_shape [of "JObj [(js ''data'', JObj [(js ''id'', N 7), (js ''events'', JNull)])]"] by simp

section \<open>Paths\<close>

text \<open>
  A path segment decodes to the text it stands for, and holds no separator, so that the segments
  of a path determine its parts.
\<close>

lemma split_on_append: "c \<notin> set s \<Longrightarrow> split_on c (s @ c # t) = s # split_on c t"
  by (induction s) auto

lemma split_on_last: "c \<notin> set s \<Longrightarrow> split_on c s = [s]"
  by (induction s) auto

lemma uri_safe_no_slash: "list_all uri_safe t \<Longrightarrow> 47 \<notin> set t"
  by (auto simp: list_all_iff uri_safe_def uri_unreserved_def)

lemma segment_cases:
  assumes "well_formed s"
  obtains t where "encodeURIComponent s = Inr t" "uri_decode t = s" "47 \<notin> set t"
  using encodeURIComponent_roundtrip [OF assms] uri_safe_no_slash by blast

text \<open>The address of a report names its run and its revision unambiguously: it always
  exists for well-formed identifiers, its segments decode to exactly the two identifiers, whatever
  characters they hold, and so no two reports share an address.\<close>

theorem report_path_segments:
  assumes "well_formed (to_string a)" "well_formed (to_string b)"
  shows "\<exists>p x y. taskRunReportPath a b = Inr p
    \<and> split_on 47 p = [[], js ''task-runs'', x, js ''reports'', y]
    \<and> uri_decode x = to_string a \<and> uri_decode y = to_string b"
proof -
  obtain x where x: "encodeURIComponent (to_string a) = Inr x" "uri_decode x = to_string a" "47 \<notin> set x"
    using segment_cases [OF assms(1)] .
  obtain y where y: "encodeURIComponent (to_string b) = Inr y" "uri_decode y = to_string b" "47 \<notin> set y"
    using segment_cases [OF assms(2)] .
  have lits: "js ''/task-runs/'' = 47 # js ''task-runs'' @ [47]" "js ''/reports/'' = 47 # js ''reports'' @ [47]"
    "47 \<notin> set (js ''task-runs'')" "47 \<notin> set (js ''reports'')"
    by (simp_all add: js_def)
  have "split_on 47 (js ''/task-runs/'' @ x @ js ''/reports/'' @ y) =
      [[], js ''task-runs'', x, js ''reports'', y]"
    using x(3) y(3) lits by (simp add: split_on_append split_on_last)
  then show ?thesis using x y by (simp add: taskRunReportPath_def taskRunPath_def)
qed

theorem report_path_segments_witness:
  "\<exists>p x y. taskRunReportPath (S ''a/b'') (S ''1'') = Inr p
    \<and> split_on 47 p = [[], js ''task-runs'', x, js ''reports'', y] \<and> uri_decode x = js ''a/b''"
proof -
  have "well_formed (js ''a/b'')" "well_formed (js ''1'')"
    by (simp_all add: js_def is_low_surrogate_def is_high_surrogate_def)
  then show ?thesis using report_path_segments [of "S ''a/b''" "S ''1''"] by auto
qed

end
