(* ===== verification/ContractServices.thy ===== *)
theory ContractServices imports TaskRuns begin

text \<open>
  \<open>contractServices.js\<close> and \<open>codexAuthStatus.js\<close>: parameters, paths, requests and answers of the
  interface-contract pages, the rules that decide whether a revision may be published, and the
  texts of the login status of the Codex CLI.  Names that \<open>taskRuns.js\<close> uses too carry the prefix
  \<open>contract_\<close>.
\<close>

section \<open>Parameters and paths\<close>

definition contractStatusOptions :: "props list" where
  "contractStatusOptions =
     [[(js ''value'', S ''proposed''), (js ''label'', JStr [0x5f85, 0x53d1, 0x5e03])],
      [(js ''value'', S ''published''), (js ''label'', JStr [0x5df2, 0x53d1, 0x5e03])],
      [(js ''value'', S ''superseded''), (js ''label'', JStr [0x5df2, 0x88ab, 0x66ff, 0x4ee3])]]"

definition compactContractParams :: "jsval \<Rightarrow> props js" where
  "compactContractParams params =
     (let p = with_default params (JObj [])
      in if p = JNull then Inl TypeError
         else Inr (from_entries (filter (\<lambda>(_, v). given v) (entries p))))"

interpretation contract_params: param_filter compactContractParams
  by unfold_locales
    (simp add: compactContractParams_def with_default_def from_entries_distinct distinct_map_filter case_prod_beta',
     simp add: compactContractParams_def with_default_def from_entries_def)

definition service_filter_names :: "(string \<times> string) list" where
  "service_filter_names =
     [(''project_key'', ''projectKey''), (''status'', ''status''), (''keyword'', ''keyword'')]"

definition buildContractServiceListParams :: "jsval \<Rightarrow> props js" where
  "buildContractServiceListParams filters =
     andThen (filter_fields service_filter_names filters) (\<lambda>fs. compactContractParams (JObj fs))"

definition servicePath :: "jsval \<Rightarrow> jstr js" where
  "servicePath serviceId =
     andThen (encodeURIComponent (to_string serviceId)) (\<lambda>e. Inr (js ''/contract-services/'' @ e))"

definition revisionPath :: "jsval \<Rightarrow> jsval \<Rightarrow> jstr js" where
  "revisionPath serviceId revisionNumber = andThen (servicePath serviceId) (\<lambda>p.
     andThen (encodeURIComponent (to_string revisionNumber)) (\<lambda>r. Inr (p @ js ''/revisions/'' @ r)))"

section \<open>Answers\<close>

text \<open>\<open>payload && hasOwnProperty.call(payload, 'data') ? payload.data : {}\<close>.\<close>

definition contract_unwrapData :: "jsval \<Rightarrow> jsval" where
  "contract_unwrapData payload = (case payload of
      JObj ps \<Rightarrow> (case map_of ps (js ''data'') of Some v \<Rightarrow> v | None \<Rightarrow> JObj [])
    | _ \<Rightarrow> JObj [])"

fun find_value :: "(jsval \<Rightarrow> bool js) \<Rightarrow> jsval list \<Rightarrow> jsval js" where
  "find_value f [] = Inr JUndef"
| "find_value f (x # xs) = andThen (f x) (\<lambda>b. if b then Inr x else find_value f xs)"

definition service_source :: "jsval \<Rightarrow> props" where
  "service_source v =
     (let service = get_opt v (js ''service'')
      in if truthy service \<and> is_object service
         then put (entries service) (js ''revisions'') (js_or (get_prop v (js ''revisions'')) (JArr []))
         else entries (js_or v (JObj [])))"

definition normalizeContractService :: "jsval \<Rightarrow> jsval js" where
  "normalizeContractService v =
     (let source = service_source v;
          revisions = array_or_empty (lookup_prop source (js ''revisions''));
          published = lookup_prop source (js ''current_published_revision_id'')
      in andThen (find_value (\<lambda>item. andThen (get_or_throw item (js ''id'')) (\<lambda>i. Inr (strict_eq i published)))
                    (elems revisions))
           (\<lambda>current. Inr (JObj (put_all source
              [(js ''revisions'', revisions),
               (js ''status'', js_or (lookup_prop source (js ''status''))
                  (if \<not> is_nullish published then S ''published''
                   else if elems revisions \<noteq> [] then S ''proposed'' else S ''empty'')),
               (js ''published_revision_number'',
                  js_coalesce (js_coalesce (lookup_prop source (js ''published_revision_number''))
                    (get_opt current (js ''revision_number''))) JNull)]))))"

text \<open>Calling \<open>map\<close> on a value without that method throws.\<close>

definition extractContractServices :: "jsval \<Rightarrow> jsval list js" where
  "extractContractServices payload =
     (let data = contract_unwrapData payload;
          services = (if is_array data then data
            else js_or (js_or (get_opt data (js ''items'')) (get_opt data (js ''services''))) (JArr []))
      in case services of JArr xs \<Rightarrow> mapM normalizeContractService xs | _ \<Rightarrow> Inl TypeError)"

definition extractContractService :: "jsval \<Rightarrow> jsval js" where
  "extractContractService payload = normalizeContractService (contract_unwrapData payload)"

definition has_project_key :: "jsval \<Rightarrow> bool" where
  "has_project_key item = (case get_opt item (js ''project_key'') of JStr s \<Rightarrow> trim s \<noteq> [] | _ \<Rightarrow> False)"

definition extractContractProjects :: "jsval \<Rightarrow> jsval list" where
  "extractContractProjects payload = filter has_project_key (elems (array_or_empty (contract_unwrapData payload)))"

definition resolveContractProjectKey :: "jsval list \<Rightarrow> jsval \<Rightarrow> jsval js" where
  "resolveContractProjectKey ps principalProjectKey =
     (let principal = trim (text_or_empty (with_default principalProjectKey (JStr [])))
      in andThen (mapM (\<lambda>item. get_or_throw item (js ''project_key'')) ps) (\<lambda>keys.
           if principal \<noteq> [] \<and> principal \<noteq> js ''*'' \<and> JStr principal \<in> set keys then Inr (JStr principal)
           else Inr (if length keys = 1 then hd keys else JStr [])))"

definition extractContractRevision :: "jsval \<Rightarrow> jsval" where
  "extractContractRevision payload = contract_unwrapData payload"

definition getContractRevisionMarkdown :: "jsval \<Rightarrow> jsval" where
  "getContractRevisionMarkdown revision =
     js_coalesce (js_coalesce (get_opt revision (js ''markdown_document'')) (get_opt revision (js ''markdown'')))
       (JStr [])"

record validation =
  v_errors :: "jsval list"
  v_warnings :: "jsval list"

definition first_array :: "jsval \<Rightarrow> jsval \<Rightarrow> jsval list" where
  "first_array a b = (if is_array a then elems a else if is_array b then elems b else [])"

definition getContractValidation :: "jsval \<Rightarrow> validation js" where
  "getContractValidation revision =
     (let r = with_default revision (JObj [])
      in andThen (get_or_throw r (js ''validation'')) (\<lambda>v0.
           let v = js_or (js_or (js_or v0 (get_prop r (js ''validation_result'')))
                     (get_prop r (js ''validation_summary''))) (JObj [])
           in Inr \<lparr>v_errors = first_array (get_prop v (js ''errors'')) (get_prop r (js ''validation_errors'')),
                   v_warnings = first_array (get_prop v (js ''warnings'')) (get_prop r (js ''warnings''))\<rparr>))"

definition canPublishContractRevision :: "jsval \<Rightarrow> bool js" where
  "canPublishContractRevision revision =
     (let r = with_default revision (JObj [])
      in andThen (get_or_throw r (js ''status'')) (\<lambda>status.
           if \<not> strict_eq status (S ''proposed'') then Inr False
           else if \<not> truthy (get_prop r (js ''content_hash'')) then Inr False
           else andThen (getContractValidation r) (\<lambda>v. Inr (v_errors v = []))))"

text \<open>\<open>/^[a-z0-9][a-z0-9._-]{1,79}$/\<close> on the trimmed text.\<close>

definition key_start :: "nat \<Rightarrow> bool" where
  "key_start c \<longleftrightarrow> (97 \<le> c \<and> c \<le> 122) \<or> (48 \<le> c \<and> c \<le> 57)"

definition key_unit :: "nat \<Rightarrow> bool" where
  "key_unit c \<longleftrightarrow> key_start c \<or> c = 46 \<or> c = 95 \<or> c = 45"

definition isStableServiceKey :: "jsval \<Rightarrow> bool" where
  "isStableServiceKey v = (case trim (text_or_empty v) of
      [] \<Rightarrow> False
    | c # s \<Rightarrow> key_start c \<and> 1 \<le> length s \<and> length s \<le> 79 \<and> list_all key_unit s)"

definition contract_extractPagination :: "jsval \<Rightarrow> jsval \<Rightarrow> jsval \<Rightarrow> pagination" where
  "contract_extractPagination payload fallbackPage fallbackPageSize =
     (let meta = js_or (get_opt payload (js ''meta'')) (JObj []);
          pg = js_or (get_prop meta (js ''pagination'')) meta
      in \<lparr>pg_page = to_number (js_or (get_prop pg (js ''page'')) (with_default fallbackPage (N 1))),
          pg_pageSize = to_number (js_or (js_or (get_prop pg (js ''page_size'')) (get_prop pg (js ''pageSize'')))
             (with_default fallbackPageSize (N 20))),
          pg_total = to_number (js_or (get_prop pg (js ''total'')) (N 0)),
          pg_hasNext = truthy (js_coalesce (js_coalesce (get_prop pg (js ''has_next'')) (get_prop pg (js ''hasNext'')))
             (JBool False))\<rparr>)"

section \<open>Requests\<close>

definition listContractServices :: "host \<Rightarrow> ('file wire \<Rightarrow> fetch_result) \<Rightarrow> jsval \<Rightarrow> call_result" where
  "listContractServices h fetch params = adminGet h fetch (js ''/contract-services'') params"

definition listContractProjects :: "host \<Rightarrow> ('file wire \<Rightarrow> fetch_result) \<Rightarrow> call_result" where
  "listContractProjects h fetch =
     adminGet h fetch (js ''/projects'') (JObj [(js ''page'', N 1), (js ''page_size'', N 100)])"

definition createContractService :: "host \<Rightarrow> ('file wire \<Rightarrow> fetch_result) \<Rightarrow> jsval \<Rightarrow> call_result" where
  "createContractService h fetch body = adminPost h fetch (js ''/contract-services'') body (JObj [])"

definition getContractService :: "host \<Rightarrow> ('file wire \<Rightarrow> fetch_result) \<Rightarrow> jsval \<Rightarrow> call_result" where
  "getContractService h fetch serviceId = get_at h fetch (servicePath serviceId) (JObj [])"

definition uploadContractRevision ::
    "host \<Rightarrow> ('file wire \<Rightarrow> fetch_result) \<Rightarrow> jsval \<Rightarrow> 'file \<Rightarrow> call_result" where
  "uploadContractRevision h fetch serviceId file = (case servicePath serviceId of
      Inl e \<Rightarrow> (Inl e, []) | Inr p \<Rightarrow> adminUpload h fetch (p @ js ''/revisions'') file (JObj []))"

definition getContractRevision ::
    "host \<Rightarrow> ('file wire \<Rightarrow> fetch_result) \<Rightarrow> jsval \<Rightarrow> jsval \<Rightarrow> call_result" where
  "getContractRevision h fetch serviceId revisionNumber =
     get_at h fetch (revisionPath serviceId revisionNumber) (JObj [])"

definition publishContractRevision ::
    "host \<Rightarrow> ('file wire \<Rightarrow> fetch_result) \<Rightarrow> jsval \<Rightarrow> jsval \<Rightarrow> jsval \<Rightarrow> call_result" where
  "publishContractRevision h fetch serviceId revisionNumber expectedContentHash =
     (case revisionPath serviceId revisionNumber of
        Inl e \<Rightarrow> (Inl e, [])
      | Inr p \<Rightarrow> adminPost h fetch (p @ js ''/publish'')
          (JObj [(js ''expected_content_hash'', expectedContentHash)]) (JObj []))"

section \<open>The login status of the Codex CLI\<close>

definition REASON_MESSAGES :: props where
  "REASON_MESSAGES =
     [(js ''coordinator_not_configured'', JStr [0x8ba4, 0x8bc1, 0x534f, 0x8c03, 0x5668, 0x672a, 0x914d, 0x7f6e, 0xff0c, 0x8bf7,
     0x5148, 0x8865, 0x9f50, 0x534f, 0x8c03, 0x5668, 0x5730, 0x5740, 0x540e, 0x518d,
     0x91cd, 0x8bd5, 0x3002]),
      (js ''coordinator_token_not_configured'', JStr [0x8ba4, 0x8bc1, 0x534f, 0x8c03, 0x5668, 0x63a7, 0x5236, 0x4ee4, 0x724c, 0x672a,
     0x914d, 0x7f6e, 0xff0c, 0x8bf7, 0x5148, 0x8865, 0x9f50, 0x914d, 0x7f6e, 0x540e,
     0x518d, 0x91cd, 0x8bd5, 0x3002]),
      (js ''coordinator_invalid'', JStr [0x8ba4, 0x8bc1, 0x534f, 0x8c03, 0x5668, 0x5730, 0x5740, 0x65e0, 0x6548, 0xff0c,
     0x8bf7, 0x68c0, 0x67e5, 0x914d, 0x7f6e, 0x540e, 0x518d, 0x91cd, 0x8bd5, 0x3002]),
      (js ''coordinator_unauthorized'', JStr [0x8ba4, 0x8bc1, 0x534f, 0x8c03, 0x5668, 0x672a, 0x63a5, 0x53d7, 0x63a7, 0x5236,
     0x4ee4, 0x724c, 0xff0c, 0x8bf7, 0x68c0, 0x67e5, 0x914d, 0x7f6e, 0x540e, 0x518d,
     0x91cd, 0x8bd5, 0x3002]),
      (js ''coordinator_unreachable'', JStr [0x8ba4, 0x8bc1, 0x534f, 0x8c03, 0x5668, 0x4e0d, 0x53ef, 0x8fbe, 0xff0c, 0x8bf7,
     0x786e, 0x8ba4, 0x534f, 0x8c03, 0x5668, 0x6b63, 0x5728, 0x8fd0, 0x884c, 0x540e,
     0x518d, 0x91cd, 0x8bd5, 0x3002]),
      (js ''coordinator_invalid_response'', JStr [0x8ba4, 0x8bc1, 0x534f, 0x8c03, 0x5668, 0x8fd4, 0x56de, 0x4e86, 0x65e0, 0x6cd5,
     0x8bc6, 0x522b, 0x7684, 0x72b6, 0x6001, 0xff0c, 0x8bf7, 0x68c0, 0x67e5, 0x534f,
     0x8c03, 0x5668, 0x7248, 0x672c, 0x540e, 0x518d, 0x91cd, 0x8bd5, 0x3002]),
      (js ''auth_status_error'', JStr [67, 111, 100, 101, 120, 32, 67, 76, 73, 32, 0x767b, 0x5f55, 0x72b6, 0x6001, 0x5f02,
     0x5e38, 0xff0c, 0x8bf7, 0x70b9, 0x51fb, 0x201c, 0x91cd, 0x65b0, 0x68c0, 0x67e5,
     0x201d, 0xff1b, 0x82e5, 0x6301, 0x7eed, 0x5931, 0x8d25, 0xff0c, 0x8bf7, 0x68c0,
     0x67e5, 0x534f, 0x8c03, 0x5668, 0x548c, 32, 67, 76, 73, 32, 0x767b, 0x5f55, 0x8fdb,
     0x7a0b, 0x3002])]"

definition AUTH_STATUS_MESSAGES :: props where
  "AUTH_STATUS_MESSAGES =
     [(js ''ready'', JStr [67, 111, 100, 101, 120, 32, 67, 76, 73, 32, 0x5df2, 0x767b, 0x5f55, 0xff0c, 0x53ef,
     0x70b9, 0x51fb, 0x201c, 0x66f4, 0x6362, 0x8d26, 0x53f7, 0x201d, 0x542f, 0x52a8,
     0x65b0, 0x7684, 0x767b, 0x5f55, 0x6d41, 0x7a0b, 0x3002]),
      (js ''not_logged_in'', JStr [67, 111, 100, 101, 120, 32, 67, 76, 73, 32, 0x5c1a, 0x672a, 0x767b, 0x5f55, 0xff0c,
     0x53ef, 0x70b9, 0x51fb, 0x201c, 0x5f00, 0x59cb, 0x767b, 0x5f55, 0x201d, 0x3002]),
      (js ''login_in_progress'', JStr [0x767b, 0x5f55, 0x6b63, 0x5728, 0x8fdb, 0x884c, 0x4e2d, 0xff0c, 0x53ef, 0x7b49,
     0x5f85, 0x5b8c, 0x6210, 0x6216, 0x70b9, 0x51fb, 0x201c, 0x53d6, 0x6d88, 0x201d,
     0x3002]),
      (js ''error'', JStr [0x8ba4, 0x8bc1, 0x72b6, 0x6001, 0x68c0, 0x67e5, 0x5931, 0x8d25, 0xff0c, 0x8bf7,
     0x70b9, 0x51fb, 0x201c, 0x91cd, 0x65b0, 0x68c0, 0x67e5, 0x201d, 0x3002])]"

definition getCodexAuthStatusMessage :: "jsval \<Rightarrow> jsval \<Rightarrow> jsval \<Rightarrow> jsval" where
  "getCodexAuthStatusMessage status reason message =
     js_or (js_or (js_or message (lookup_prop REASON_MESSAGES (to_string reason)))
       (lookup_prop AUTH_STATUS_MESSAGES (to_string status)))
       (lookup_prop REASON_MESSAGES (js ''auth_status_error''))"

section \<open>Properties\<close>

text \<open>The object that normalisation yields, and that it is a fixed point.\<close>

definition pinned_service :: "props \<Rightarrow> jsval \<Rightarrow> props" where
  "pinned_service source current =
     (let revisions = array_or_empty (lookup_prop source (js ''revisions''));
          published = lookup_prop source (js ''current_published_revision_id'')
      in [(js ''revisions'', revisions),
          (js ''status'', js_or (lookup_prop source (js ''status''))
             (if \<not> is_nullish published then S ''published''
              else if elems revisions \<noteq> [] then S ''proposed'' else S ''empty'')),
          (js ''published_revision_number'',
             js_coalesce (js_coalesce (lookup_prop source (js ''published_revision_number''))
               (get_opt current (js ''revision_number''))) JNull)])"

definition current_revision :: "props \<Rightarrow> jsval js" where
  "current_revision source =
     find_value (\<lambda>item. andThen (get_or_throw item (js ''id''))
         (\<lambda>i. Inr (strict_eq i (lookup_prop source (js ''current_published_revision_id'')))))
       (elems (array_or_empty (lookup_prop source (js ''revisions''))))"

lemma normalizeContractService_eq:
  "normalizeContractService v = andThen (current_revision (service_source v))
     (\<lambda>c. Inr (JObj (put_all (service_source v) (pinned_service (service_source v) c))))"
  by (simp add: normalizeContractService_def pinned_service_def current_revision_def Let_def)

lemma array_or_empty_simps [simp]:
  "array_or_empty (array_or_empty v) = array_or_empty v" "is_array (array_or_empty v)"
  "is_array v \<Longrightarrow> array_or_empty v = v"
  by (simp_all add: array_or_empty_def)

lemma normalized_lookup:
  fixes s :: props and c :: jsval
  defines "n \<equiv> put_all s (pinned_service s c)"
  shows "lookup_prop n (js ''revisions'') = array_or_empty (lookup_prop s (js ''revisions''))"
    and "truthy (lookup_prop n (js ''status''))"
    and "lookup_prop n (js ''published_revision_number'') =
      js_coalesce (js_coalesce (lookup_prop s (js ''published_revision_number'')) (get_opt c (js ''revision_number''))) JNull"
    and "js k \<notin> {js ''revisions'', js ''status'', js ''published_revision_number''} \<Longrightarrow>
      lookup_prop n (js k) = lookup_prop s (js k)"
  by (auto simp: n_def pinned_service_def Let_def)

text \<open>Normalising a service is idempotent: once the API's answer has been brought into shape,
  bringing it into shape again (after a publication, say) changes neither a value nor the order of
  the properties; lists of revisions stay lists and the status is never empty.\<close>

theorem normalize_service_idempotent:
  assumes "normalizeContractService v = Inr w" "\<not> is_object (get_opt w (js ''service''))"
  shows "normalizeContractService w = Inr w
    \<and> is_array (get_prop w (js ''revisions'')) \<and> truthy (get_prop w (js ''status''))"
proof -
  define s where "s = service_source v"
  obtain c where c: "current_revision s = Inr c" and w: "w = JObj (put_all s (pinned_service s c))"
    using assms(1) by (auto simp: normalizeContractService_eq andThen_Inr_iff s_def)
  define n where "n = put_all s (pinned_service s c)"
  note look = normalized_lookup [where s = s and c = c, folded n_def]
  have src: "service_source w = n"
    using assms(2) by (simp add: w service_source_def Let_def n_def js_or_def)
  have cur: "current_revision n = Inr c"
    using c look(1) look(4) [of "''current_published_revision_id''"] by (simp add: current_revision_def)
  have same: "pinned_service n c =
      [(js ''revisions'', lookup_prop n (js ''revisions'')), (js ''status'', lookup_prop n (js ''status'')),
       (js ''published_revision_number'', lookup_prop n (js ''published_revision_number''))]"
    using look by (cases "is_nullish (lookup_prop s (js ''published_revision_number''))")
      (simp_all add: pinned_service_def Let_def js_coalesce_def)
  have own: "map_of n (js k) = Some (lookup_prop n (js k))"
    if "k \<in> {''revisions'', ''status'', ''published_revision_number''}" for k
  proof -
    have "js k \<in> set (map fst (pinned_service s c))"
      using that by (auto simp: pinned_service_def Let_def)
    from put_all_defines [OF this, of s] show ?thesis by (auto simp: lookup_prop_def n_def)
  qed
  have "put_all n (pinned_service n c) = n"
    using own by (intro put_all_present) (auto simp: same)
  then show ?thesis
    using src cur look by (simp add: normalizeContractService_eq) (simp add: w n_def)
qed

theorem normalize_service_idempotent_witness:
  "\<exists>w. normalizeContractService (JObj [(js ''id'', N 3), (js ''revisions'', JArr [JObj [(js ''id'', N 4)]])]) = Inr w
     \<and> normalizeContractService w = Inr w"
proof -
  let ?v = "JObj [(js ''id'', N 3), (js ''revisions'', JArr [JObj [(js ''id'', N 4)]])]"
  obtain w where w: "normalizeContractService ?v = Inr w" "\<not> is_object (get_opt w (js ''service''))"
    by (simp add: normalizeContractService_def service_source_def Let_def js_or_def array_or_empty_def)
  then show ?thesis using normalize_service_idempotent [OF w] by blast
qed

text \<open>Only a clean proposal can be published: the publish button is offered for no revision
  that is not proposed, that lacks the content hash the publication is checked against, or for which
  the validation recorded an error.\<close>

theorem publish_gate:
  assumes "canPublishContractRevision (JObj r) = Inr True"
  shows "lookup_prop r (js ''status'') = S ''proposed'' \<and> truthy (lookup_prop r (js ''content_hash''))
    \<and> (\<exists>v. getContractValidation (JObj r) = Inr v \<and> v_errors v = [])
    \<and> (is_array (get_opt (lookup_prop r (js ''validation'')) (js ''errors'')) \<longrightarrow>
         get_opt (lookup_prop r (js ''validation'')) (js ''errors'') = JArr [])"
proof -
  have v: "lookup_prop r (js ''status'') = S ''proposed''" "truthy (lookup_prop r (js ''content_hash''))"
    "\<exists>v. getContractValidation (JObj r) = Inr v \<and> v_errors v = []"
    using assms by (auto simp: canPublishContractRevision_def with_default_def Let_def andThen_Inr_iff split: if_splits)
  have "truthy (lookup_prop r (js ''validation''))"
    if "is_array (get_opt (lookup_prop r (js ''validation'')) (js ''errors''))"
    using that by (cases "lookup_prop r (js ''validation'')") (auto simp: get_opt_eq_get_prop get_prop_def)
  then show ?thesis using v
    by (auto simp: getContractValidation_def with_default_def Let_def first_array_def get_opt_eq_get_prop
        elim!: is_arrayE)
qed

theorem publish_gate_witness:
  "\<exists>v. getContractValidation (JObj [(js ''status'', S ''proposed''), (js ''content_hash'', S ''h'')]) = Inr v
     \<and> v_errors v = []"
proof -
  have "canPublishContractRevision (JObj [(js ''status'', S ''proposed''), (js ''content_hash'', S ''h'')]) = Inr True"
    by (simp add: canPublishContractRevision_def with_default_def getContractValidation_def Let_def
        first_array_def js_or_def)
  from publish_gate [OF this] show ?thesis by blast
qed

lemma key_unit_safe: "key_unit c \<Longrightarrow> uri_unreserved c \<and> c < 0x10000"
  by (auto simp: key_unit_def key_start_def uri_unreserved_def)

lemma encode_unreserved: "list_all uri_unreserved s \<Longrightarrow> encodeURIComponent s = Inr s"
  by (induction s) auto

text \<open>A key that the form accepts is its own address: it has 2 to 80 units, all of them
  survive the encoding of the path unchanged, and the text typed with surrounding white space is
  accepted for its trimmed form.\<close>

theorem stable_key_path:
  assumes "isStableServiceKey v"
  defines "k \<equiv> trim (text_or_empty v)"
  shows "servicePath (JStr k) = Inr (js ''/contract-services/'' @ k)
    \<and> 2 \<le> length k \<and> length k \<le> 80 \<and> isStableServiceKey (JStr k) \<and> to_lower k = k"
proof -
  obtain c s where k: "k = c # s" "key_start c" "1 \<le> length s" "length s \<le> 79" "list_all key_unit s"
    using assms by (auto simp: isStableServiceKey_def split: list.splits)
  have units: "list_all key_unit k" using k by (auto simp: key_unit_def)
  then have "list_all uri_unreserved k"
    using key_unit_safe by (auto simp: list_all_iff)
  moreover have "lower_unit c = [c]" if "key_unit c" for c
    using that by (auto simp: key_unit_def key_start_def lower_unit_def upper32_def upper80_def lower_special_def)
  then have "to_lower k = k"
    using units by (induction k) (auto simp: to_lower_def)
  moreover have "isStableServiceKey (JStr k)"
    using k trim_trim [of "text_or_empty v"] by (simp add: isStableServiceKey_def k_def [symmetric])
  ultimately show ?thesis
    using k by (simp add: servicePath_def encode_unreserved)
qed

theorem stable_key_path_witness:
  "servicePath (S ''pay.api'') = Inr (js ''/contract-services/'' @ js ''pay.api'')"
proof -
  have "isStableServiceKey (S '' pay.api'')" "trim (text_or_empty (S '' pay.api'')) = js ''pay.api''"
    by (simp_all add: isStableServiceKey_def js_def trim_def is_space_def key_start_def key_unit_def)
  then show ?thesis using stable_key_path [of "S '' pay.api''"] by simp
qed

text \<open>The address of a revision determines the service and the number: two revisions with the
  same address are the same revision of the same service, whatever characters the identifiers hold.\<close>

theorem revision_path_injective:
  assumes "well_formed (to_string a)" "well_formed (to_string b)" "well_formed (to_string c)" "well_formed (to_string d)"
    and "revisionPath a b = revisionPath c d"
  shows "to_string a = to_string c \<and> to_string b = to_string d \<and> (\<exists>p. revisionPath a b = Inr p)"
proof -
  have lits: "js ''/contract-services/'' = 47 # js ''contract-services'' @ [47]"
    "js ''/revisions/'' = 47 # js ''revisions'' @ [47]"
    "47 \<notin> set (js ''contract-services'')" "47 \<notin> set (js ''revisions'')"
    by (simp_all add: js_def)
  have seg: "\<exists>p u v. revisionPath x y = Inr p
      \<and> split_on 47 p = [[], js ''contract-services'', u, js ''revisions'', v]
      \<and> uri_decode u = to_string x \<and> uri_decode v = to_string y"
    if wx: "well_formed (to_string x)" and wy: "well_formed (to_string y)" for x y
  proof -
    obtain u where u: "encodeURIComponent (to_string x) = Inr u" "uri_decode u = to_string x" "47 \<notin> set u"
      using segment_cases [OF wx] .
    obtain v where v: "encodeURIComponent (to_string y) = Inr v" "uri_decode v = to_string y" "47 \<notin> set v"
      using segment_cases [OF wy] .
    have "split_on 47 (js ''/contract-services/'' @ u @ js ''/revisions/'' @ v) =
        [[], js ''contract-services'', u, js ''revisions'', v]"
      using u(3) v(3) lits by (simp add: split_on_append split_on_last)
    then show ?thesis using u v by (simp add: revisionPath_def servicePath_def)
  qed
  show ?thesis using seg [OF assms(1,2)] seg [OF assms(3,4)] assms(5) by auto
qed

theorem revision_path_injective_witness:
  "revisionPath (S ''a/1'') (S ''2'') \<noteq> revisionPath (S ''a'') (S ''1/2'')"
proof
  assume "revisionPath (S ''a/1'') (S ''2'') = revisionPath (S ''a'') (S ''1/2'')"
  moreover have "well_formed (js ''a/1'')" "well_formed (js ''2'')" "well_formed (js ''a'')" "well_formed (js ''1/2'')"
    by (simp_all add: js_def is_low_surrogate_def is_high_surrogate_def)
  ultimately show False
    using revision_path_injective [of "S ''a/1''" "S ''2''" "S ''a''" "S ''1/2''"] by simp
qed

text \<open>The project a page starts with is never one the API did not list: it is the user's own
  project if that is listed, else the only listed project, else none.\<close>

theorem contract_project_choice:
  assumes "resolveContractProjectKey ps pk = Inr k"
  defines "own \<equiv> trim (text_or_empty (with_default pk (JStr [])))"
  shows "(k = JStr [] \<or> (\<exists>p \<in> set ps. get_prop p (js ''project_key'') = k))
    \<and> (own \<noteq> [] \<and> own \<noteq> js ''*'' \<and> (\<exists>p \<in> set ps. get_prop p (js ''project_key'') = JStr own) \<longrightarrow> k = JStr own)"
proof -
  obtain keys where keys: "mapM (\<lambda>item. get_or_throw item (js ''project_key'')) ps = Inr keys"
    using assms(1) by (auto simp: resolveContractProjectKey_def andThen_Inr_iff Let_def)
  have m: "mapM (\<lambda>item. get_or_throw item (js ''project_key'')) xs = Inr ys \<Longrightarrow>
      ys = map (\<lambda>p. get_prop p (js ''project_key'')) xs" for xs ys
    by (induction xs arbitrary: ys) (auto simp: andThen_Inr_iff get_or_throw_def split: if_splits)
  have eq: "keys = map (\<lambda>p. get_prop p (js ''project_key'')) ps" by (rule m [OF keys])
  show ?thesis
    using assms(1) keys
    by (auto simp: resolveContractProjectKey_def Let_def own_def eq image_iff length_Suc_conv split: if_splits)
qed

theorem contract_project_choice_witness:
  "resolveContractProjectKey [JObj [(js ''project_key'', S ''a'')], JObj [(js ''project_key'', S ''b'')]] (S ''b'')
     = Inr (S ''b'')"
proof -
  let ?ps = "[JObj [(js ''project_key'', S ''a'')], JObj [(js ''project_key'', S ''b'')]]"
  have t: "trim (js ''b'') = js ''b''" by (simp add: js_def trim_def is_space_def)
  obtain k where k: "resolveContractProjectKey ?ps (S ''b'') = Inr k"
    by (simp add: resolveContractProjectKey_def Let_def with_default_def t)
  then show ?thesis using contract_project_choice [OF k] t by (simp add: with_default_def)
qed

text \<open>The two readers of page information agree on what the API sends: for numbers other than
  zero in page and page size they yield the same record, namely these numbers.\<close>

theorem pagination_readers_agree:
  assumes "lookup_prop m (js ''page'') = JNum (Fin p)" "p \<noteq> 0"
    and "lookup_prop m (js ''page_size'') = JNum (Fin z)" "z \<noteq> 0"
    and "lookup_prop m (js ''total'') = JNum (Fin t)" "lookup_prop m (js ''has_next'') = JBool b"
    and "lookup_prop m (js ''pagination'') = JUndef"
    and "get_opt payload (js ''meta'') = JObj m"
  shows "extractPagination payload a c = \<lparr>pg_page = Fin p, pg_pageSize = Fin z, pg_total = Fin t, pg_hasNext = b\<rparr>
    \<and> contract_extractPagination payload a' c' = extractPagination payload a c"
  using assms by (simp add: extractPagination_def contract_extractPagination_def js_or_def Let_def)

theorem pagination_readers_agree_witness:
  "pg_total (contract_extractPagination (JObj [(js ''meta'', JObj [(js ''page'', N 2), (js ''page_size'', N 50),
      (js ''total'', N 0), (js ''has_next'', JBool False)])]) JUndef JUndef) = Fin 0"
  using pagination_readers_agree [of "[(js ''page'', N 2), (js ''page_size'', N 50), (js ''total'', N 0),
      (js ''has_next'', JBool False)]" 2 50 0 False
      "JObj [(js ''meta'', JObj [(js ''page'', N 2), (js ''page_size'', N 50),
        (js ''total'', N 0), (js ''has_next'', JBool False)])]" JUndef JUndef JUndef JUndef]
  by simp

text \<open>The login card always has a text: the server's own message, else the text for the
  reason, else the text for the status, else the general one.\<close>

theorem auth_message_priority:
  assumes "plain_key (to_string reason)" "plain_key (to_string status)"
  shows "truthy (getCodexAuthStatusMessage status reason message)
    \<and> getCodexAuthStatusMessage status reason message =
       (if truthy message then message
        else case map_of REASON_MESSAGES (to_string reason) of Some t \<Rightarrow> t
          | None \<Rightarrow> (case map_of AUTH_STATUS_MESSAGES (to_string status) of Some t \<Rightarrow> t
            | None \<Rightarrow> lookup_prop REASON_MESSAGES (js ''auth_status_error'')))"
proof -
  have t: "truthy v" if "map_of REASON_MESSAGES k = Some v \<or> map_of AUTH_STATUS_MESSAGES k = Some v" for k v
    using that by (auto simp: REASON_MESSAGES_def AUTH_STATUS_MESSAGES_def split: if_splits)
  have e: "truthy (lookup_prop REASON_MESSAGES (js ''auth_status_error''))"
    by (simp add: REASON_MESSAGES_def)
  show ?thesis
    using assms t [of "to_string reason"] t [of "to_string status"] e
    by (auto simp: getCodexAuthStatusMessage_def js_or_def lookup_prop_def plain_key_def split: option.splits)
qed

theorem auth_message_priority_witness:
  "getCodexAuthStatusMessage (S ''ready'') (JStr []) (JStr []) = lookup_prop AUTH_STATUS_MESSAGES (js ''ready'')"
proof -
  have "plain_key []" by (simp add: plain_key_js [of "''''", simplified])
  then show ?thesis
    using auth_message_priority [of "JStr []" "S ''ready''" "JStr []"]
    by (simp add: REASON_MESSAGES_def AUTH_STATUS_MESSAGES_def)
qed

end
