(* ===== verification/Format.thy ===== *)
theory Format imports JsJson begin

text \<open>
  \<open>utils/format.js\<close>: the texts under which the console shows values.  The renderer and the search
  for a title follow references and keep a set of the objects on the current path, so they work
  on an explicit heap, in which objects may be shared and may form cycles.  Dates and numbers are
  printed by the host's \<open>Intl\<close> and parsed by its \<open>Date\<close>, which are arguments.
\<close>

section \<open>Tables\<close>

definition STATUS_MAP :: "(jstr \<times> jstr \<times> jstr) list" where
  "STATUS_MAP =
     [(js ''active'', ([0x6d3b, 0x8dc3], js ''success'')),
      (js ''healthy'', ([0x6b63, 0x5e38], js ''success'')),
      (js ''ok'', ([0x6b63, 0x5e38], js ''success'')),
      (js ''ready'', ([0x5c31, 0x7eea], js ''success'')),
      (js ''queued'', ([0x6392, 0x961f, 0x4e2d], js ''warning'')),
      (js ''completed'', ([0x5df2, 0x5b8c, 0x6210], js ''success'')),
      (js ''approved'', ([0x5df2, 0x6279, 0x51c6], js ''success'')),
      (js ''published'', ([0x5df2, 0x53d1, 0x5e03], js ''success'')),
      (js ''passed'', ([0x5df2, 0x901a, 0x8fc7], js ''success'')),
      (js ''generated'', ([0x5df2, 0x751f, 0x6210], js ''success'')),
      (js ''running'', ([0x8fd0, 0x884c, 0x4e2d], js ''primary'')),
      (js ''in_progress'', ([0x8fdb, 0x884c, 0x4e2d], js ''primary'')),
      (js ''processing'', ([0x5904, 0x7406, 0x4e2d], js ''primary'')),
      (js ''uploading'', ([0x4e0a, 0x4f20, 0x4e2d], js ''primary'')),
      (js ''proposed'', ([0x5f85, 0x53d1, 0x5e03], js ''warning'')),
      (js ''pending'', ([0x5f85, 0x5904, 0x7406], js ''warning'')),
      (js ''pending_review'', ([0x5f85, 0x5ba1, 0x6838], js ''warning'')),
      (js ''awaiting_review'', ([0x5f85, 0x5ba1, 0x6838], js ''warning'')),
      (js ''needs_review'', ([0x5f85, 0x4eba, 0x5de5, 0x5904, 0x7406], js ''warning'')),
      (js ''retry_wait'', ([0x7b49, 0x5f85, 0x91cd, 0x8bd5], js ''warning'')),
      (js ''dispatched'', ([0x5df2, 0x6295, 0x9012], js ''info'')),
      (js ''uncertain'', ([0x4e0d, 0x786e, 0x5b9a], js ''warning'')),
      (js ''degraded'', ([0x5df2, 0x964d, 0x7ea7], js ''warning'')),
      (js ''failed'', ([0x5931, 0x8d25], js ''danger'')),
      (js ''error'', ([0x5f02, 0x5e38], js ''danger'')),
      (js ''dead'', ([0x6b7b, 0x4fe1], js ''danger'')),
      (js ''rejected'', ([0x5df2, 0x62d2, 0x7edd], js ''danger'')),
      (js ''cancelled'', ([0x5df2, 0x53d6, 0x6d88], js ''info'')),
      (js ''deprecated'', ([0x5df2, 0x5e9f, 0x5f03], js ''info'')),
      (js ''quarantined'', ([0x5df2, 0x9694, 0x79bb], js ''warning'')),
      (js ''parsed'', ([0x5df2, 0x89e3, 0x6790], js ''success'')),
      (js ''duplicate'', ([0x91cd, 0x590d], js ''info'')),
      (js ''inactive'', ([0x672a, 0x542f, 0x7528], js ''info'')),
      (js ''empty'', ([0x6682, 0x65e0, 0x7248, 0x672c], js ''info'')),
      (js ''superseded'', ([0x5df2, 0x66ff, 0x4ee3], js ''info'')),
      (js ''draft'', ([0x8349, 0x7a3f], js ''info'')),
      (js ''finalized'', ([0x5df2, 0x5c01, 0x7248], js ''success'')),
      (js ''restricted'', ([0x53d7, 0x9650], js ''info'')),
      (js ''rolled_back'', ([0x5df2, 0x56de, 0x6eda], js ''info'')),
      (js ''unknown'', ([0x672a, 0x77e5], js ''info''))]"

definition FIELD_LABELS :: "(jstr \<times> jstr) list" where
  "FIELD_LABELS =
     [(js ''id'', [73, 68]),
      (js ''project_id'', [0x9879, 0x76ee, 32, 73, 68]),
      (js ''project_key'', [0x9879, 0x76ee, 0x952e]),
      (js ''scope_id'', [83, 99, 111, 112, 101, 32, 73, 68]),
      (js ''scope'', [83, 99, 111, 112, 101]),
      (js ''scope_key'', [83, 99, 111, 112, 101, 32, 0x952e]),
      (js ''event_key'', [0x4e8b, 0x4ef6, 0x952e]),
      (js ''event_type'', [0x4e8b, 0x4ef6, 0x7c7b, 0x578b]),
      (js ''role'', [0x89d2, 0x8272]),
      (js ''source'', [0x6765, 0x6e90]),
      (js ''source_name'', [0x6765, 0x6e90, 0x540d, 0x79f0]),
      (js ''source_type'', [0x6765, 0x6e90, 0x7c7b, 0x578b]),
      (js ''content'', [0x5185, 0x5bb9]),
      (js ''title'', [0x6807, 0x9898]),
      (js ''name'', [0x540d, 0x79f0]),
      (js ''heading'', [0x6807, 0x9898]),
      (js ''label'', [0x6807, 0x7b7e]),
      (js ''summary'', [0x6458, 0x8981]),
      (js ''description'', [0x8bf4, 0x660e]),
      (js ''text'', [0x6587, 0x672c]),
      (js ''value'', [0x503c]),
      (js ''level'', [0x5c42, 0x7ea7]),
      (js ''memory_type'', [0x8bb0, 0x5fc6, 0x7c7b, 0x578b]),
      (js ''status'', [0x72b6, 0x6001]),
      (js ''review_status'', [0x5ba1, 0x6838, 0x72b6, 0x6001]),
      (js ''decision_queue_status'', [0x51b3, 0x7b56, 0x961f, 0x5217, 0x72b6, 0x6001]),
      (js ''confidence'', [0x7f6e, 0x4fe1, 0x5ea6]),
      (js ''model_confidence'', [0x6a21, 0x578b, 0x7f6e, 0x4fe1, 0x5ea6]),
      (js ''model'', [0x6a21, 0x578b]),
      (js ''abstain'', [0x6682, 0x7f13, 0x51b3, 0x7b56]),
      (js ''published_memory_id'', [0x5df2, 0x53d1, 0x5e03, 0x8bb0, 0x5fc6, 32, 73, 68]),
      (js ''metadata'', [0x5143, 0x6570, 0x636e]),
      (js ''metadata_json'', [0x5143, 0x6570, 0x636e]),
      (js ''evidence'', [0x8bc1, 0x636e]),
      (js ''evidence_json'', [0x8bc1, 0x636e]),
      (js ''payload'', [0x8f7d, 0x8377]),
      (js ''data'', [0x6570, 0x636e]),
      (js ''code'', [0x4ee3, 0x7801]),
      (js ''error'', [0x9519, 0x8bef]),
      (js ''error_code'', [0x9519, 0x8bef, 0x4ee3, 0x7801]),
      (js ''request_id'', [0x8bf7, 0x6c42, 32, 73, 68]),
      (js ''subject_type'', [0x4e3b, 0x4f53, 0x7c7b, 0x578b]),
      (js ''subject_id'', [0x4e3b, 0x4f53, 32, 73, 68]),
      (js ''content_hash'', [0x5185, 0x5bb9, 0x54c8, 0x5e0c]),
      (js ''created_at'', [0x521b, 0x5efa, 0x65f6, 0x95f4]),
      (js ''updated_at'', [0x66f4, 0x65b0, 0x65f6, 0x95f4]),
      (js ''started_at'', [0x5f00, 0x59cb, 0x65f6, 0x95f4]),
      (js ''ended_at'', [0x7ed3, 0x675f, 0x65f6, 0x95f4]),
      (js ''database'', [0x6570, 0x636e, 0x5e93]),
      (js ''dialect'', [0x6570, 0x636e, 0x5e93, 0x65b9, 0x8a00]),
      (js ''migration_schema'', [0x8fc1, 0x79fb, 0x72b6, 0x6001]),
      (js ''latest_migration'', [0x6700, 0x65b0, 0x8fc1, 0x79fb]),
      (js ''pending_jobs'', [0x5f85, 0x5904, 0x7406, 0x4efb, 0x52a1]),
      (js ''server_outbox'', [0x5f85, 0x6295, 0x9012, 32, 79, 117, 116, 98, 111, 120]),
      (js ''dead_letters'', [0x6b7b, 0x4fe1, 0x4e8b, 0x4ef6]),
      (js ''degraded'', [0x5df2, 0x964d, 0x7ea7]),
      (js ''degraded_reason'', [0x964d, 0x7ea7, 0x539f, 0x56e0]),
      (js ''latency_ms'', [0x5ef6, 0x8fdf, 0xff08, 0x6beb, 0x79d2, 0xff09]),
      (js ''truncated'', [0x5df2, 0x622a, 0x65ad]),
      (js ''redaction_applied'', [0x5df2, 0x8131, 0x654f])]"

definition ROLE_LABELS :: "(jstr \<times> jstr) list" where
  "ROLE_LABELS =
     [(js ''user'', [0x7528, 0x6237]),
      (js ''assistant'', [0x52a9, 0x624b]),
      (js ''system'', [0x7cfb, 0x7edf]),
      (js ''tool'', [0x5de5, 0x5177])]"

definition MEMORY_TYPE_LABELS :: "(jstr \<times> jstr) list" where
  "MEMORY_TYPE_LABELS =
     [(js ''fact'', [0x4e8b, 0x5b9e]),
      (js ''preference'', [0x504f, 0x597d]),
      (js ''rule'', [0x89c4, 0x5219]),
      (js ''summary'', [0x6458, 0x8981]),
      (js ''imported_reference'', [0x5bfc, 0x5165, 0x53c2, 0x8003]),
      (js ''reference'', [0x53c2, 0x8003, 0x8d44, 0x6599])]"

definition TITLE_KEYS :: "jstr list" where
  "TITLE_KEYS = map js [''title'', ''name'', ''heading'', ''label'', ''subject'', ''summary'', ''text'',
     ''value'', ''content'', ''source_name'', ''event_type'', ''event_key'', ''id'']"

text \<open>\<open>table[key]\<close> on such a table, inherited properties included.\<close>

definition table_get :: "(jstr \<times> jstr) list \<Rightarrow> jstr \<Rightarrow> jsval" where
  "table_get table key = (case map_of table key of Some t \<Rightarrow> JStr t | None \<Rightarrow> inherited key)"

section \<open>Scalars\<close>

text \<open>The host's dates and numbers: parsing, printing (with seconds or without), compact numbers.\<close>

record intl =
  parse_date :: "jsval \<Rightarrow> int option"
  print_date :: "bool \<Rightarrow> int \<Rightarrow> jstr"
  date_string :: "int option \<Rightarrow> jstr"
  print_number :: "bool \<Rightarrow> jnum \<Rightarrow> jstr"

definition dash :: jstr where "dash = [45]"

definition is_blank :: "jsval \<Rightarrow> bool" where
  "is_blank v \<longleftrightarrow> strict_eq v JNull \<or> strict_eq v JUndef \<or> strict_eq v (JStr [])"

definition yes_no :: "bool \<Rightarrow> jstr" where
  "yes_no b = (if b then [0x662f] else [0x5426])"

definition scalarText :: "jsval \<Rightarrow> jstr" where
  "scalarText v = (if is_blank v then dash else case v of JBool b \<Rightarrow> yes_no b | _ \<Rightarrow> to_string v)"

record status_meta =
  sm_status :: jstr
  sm_label :: jsval
  sm_type :: jstr

text \<open>
  The status of a value.  Destructuring what the table inherits (a function, a plain object)
  throws, because neither is iterable.
\<close>

definition status_source :: "jsval \<Rightarrow> jsval" where
  "status_source status = (if is_object status
     then js_coalesce (js_coalesce (get_prop status (js ''status'')) (get_prop status (js ''code'')))
       (get_prop status (js ''value'')) else status)"

definition statusMeta :: "jsval \<Rightarrow> jsval \<Rightarrow> status_meta js" where
  "statusMeta status fallbackLabel =
     (let source = status_source status;
          normalized = to_lower (to_string (js_or source (S ''unknown'')));
          fallback = js_or (js_or (with_default fallbackLabel (JStr []))
            (if is_object status then get_prop status (js ''label'') else JStr [])) (JStr (scalarText source))
      in case map_of STATUS_MAP normalized of
           Some (label, kind) \<Rightarrow> Inr \<lparr>sm_status = normalized, sm_label = JStr label, sm_type = kind\<rparr>
         | None \<Rightarrow> if truthy (inherited normalized) then Inl TypeError
             else Inr \<lparr>sm_status = normalized, sm_label = js_or fallback (JStr [0x672a, 0x77e5]), sm_type = js ''info''\<rparr>)"

definition fieldLabel :: "jsval \<Rightarrow> jsval \<Rightarrow> jsval" where
  "fieldLabel key fallbackLabel =
     (let normalized = trim (text_or_empty key)
      in if normalized = [] then with_default fallbackLabel (JStr [])
         else js_or (js_or (table_get FIELD_LABELS normalized) (with_default fallbackLabel (JStr [])))
           (JStr (replace_all [95] [32] normalized)))"

definition roleLabel :: "jsval \<Rightarrow> jsval" where
  "roleLabel v = js_or (table_get ROLE_LABELS (to_lower (text_or_empty v))) (JStr (scalarText v))"

definition memoryTypeLabel :: "jsval \<Rightarrow> jsval" where
  "memoryTypeLabel v = js_or (table_get MEMORY_TYPE_LABELS (to_lower (text_or_empty v))) (JStr (scalarText v))"

text \<open>\<open>formatDateTime\<close>; the option \<open>seconds: false\<close> leaves the seconds out.\<close>

definition formatDateTime :: "intl \<Rightarrow> jsval \<Rightarrow> bool \<Rightarrow> jstr" where
  "formatDateTime host v seconds =
     (if \<not> truthy v then dash
      else case parse_date host v of
          None \<Rightarrow> to_string v
        | Some ms \<Rightarrow> replace_all [47] [45] (print_date host seconds ms))"

definition percentage :: "jnum \<Rightarrow> jstr" where
  "percentage n = num_to_string (math_round (num_mul n (Fin 100))) @ [37]"

definition status_keys :: "jstr list" where
  "status_keys = [js ''database'', js ''migration_schema'']"

definition confidence_keys :: "jstr list" where
  "confidence_keys = [js ''confidence'', js ''model_confidence'']"

definition unit_interval :: "jnum \<Rightarrow> bool" where
  "unit_interval n \<longleftrightarrow> is_finite n \<and> Fin 0 \<le> n \<and> n \<le> Fin 1"

definition scalarReadableValue :: "intl \<Rightarrow> jstr \<Rightarrow> jsval \<Rightarrow> jsval js" where
  "scalarReadableValue host key v =
     (let k = to_lower key
      in if is_blank v then Inr (JStr dash)
         else if is_boolean v then
           (if k = js ''degraded'' then Inr (JStr (if v = JBool True then [0x5df2, 0x964d, 0x7ea7] else [0x6b63, 0x5e38]))
            else Inr (JStr (yes_no (v = JBool True))))
         else if k = js ''role'' then
           Inr (js_or (table_get ROLE_LABELS (to_lower (to_string v))) (JStr (to_string v)))
         else if k = js ''memory_type'' then
           Inr (js_or (table_get MEMORY_TYPE_LABELS (to_lower (to_string v))) (JStr (to_string v)))
         else if k = js ''status'' \<or> ends_with k (js ''_status'') \<or> k \<in> set status_keys then
           andThen (statusMeta v JUndef) (\<lambda>m. Inr (sm_label m))
         else if k \<in> set confidence_keys \<and> unit_interval (to_number v) then
           Inr (JStr (percentage (to_number v)))
         else if ends_with k (js ''_at'') \<and> is_string v then Inr (JStr (formatDateTime host v True))
         else Inr (JStr (scalarText v)))"

section \<open>Objects\<close>

text \<open>
  A value is a scalar (\<open>Prim\<close>, never an array or an object) or a reference into the heap.
\<close>

datatype fval = Prim jsval | Ref nat

datatype fobj = FArr "fval list" | FObj "(jstr \<times> fval) list" | FDate "int option"

type_synonym heap = "fobj list"

definition heap_obj :: "heap \<Rightarrow> nat \<Rightarrow> fobj" where
  "heap_obj h a = (if a < length h then h ! a else FObj [])"

definition heap_get :: "heap \<Rightarrow> fval \<Rightarrow> jstr \<Rightarrow> fval" where
  "heap_get h v k = (case v of
      Prim p \<Rightarrow> Prim (get_opt p k)
    | Ref a \<Rightarrow> (case heap_obj h a of
          FObj ps \<Rightarrow> (case map_of ps k of Some w \<Rightarrow> w | None \<Rightarrow> Prim (inherited k))
        | FArr xs \<Rightarrow> if k = js ''length'' then Prim (N (int (length xs))) else Prim JUndef
        | FDate d \<Rightarrow> Prim (inherited k)))"

definition isStructured :: "fval \<Rightarrow> bool" where
  "isStructured v = (case v of Ref a \<Rightarrow> True | Prim p \<Rightarrow> False)"

definition indentMarkdown :: "jstr \<Rightarrow> jstr" where
  "indentMarkdown source = join [10] (map (\<lambda>line. [32, 32] @ line) (split_on 10 source))"

definition msg_too_deep :: jstr where "msg_too_deep = [0x2026, 0xff08, 0x5c42, 0x7ea7, 0x8fc7, 0x6df1, 0xff0c, 0x5df2, 0x7701, 0x7565,
     0xff09]"
definition msg_cycle :: jstr where "msg_cycle = [0x2026, 0xff08, 0x5faa, 0x73af, 0x5f15, 0x7528, 0xff0c, 0x5df2, 0x7701, 0x7565,
     0xff09]"

definition bold_item :: "nat \<Rightarrow> jstr" where
  "bold_item i = js ''- **'' @ [0x7b2c, 32] @ dec_digits (int i) @ [32, 0x9879] @ js ''**'' @ [10]"

definition bold_label :: "jsval \<Rightarrow> jstr" where
  "bold_label label = js ''- **'' @ to_string label @ js ''**'' @ [0xff1a]"

text \<open>One line or block of the rendering: structured parts are indented below their head.\<close>

definition part_text ::
    "intl \<Rightarrow> (fval \<Rightarrow> jsval js) \<Rightarrow> jstr \<Rightarrow> jstr \<Rightarrow> jstr \<Rightarrow> fval \<Rightarrow> jstr js" where
  "part_text host render block_head line_head key item = (case item of
      Ref b \<Rightarrow> andThen (render item) (\<lambda>t. Inr (block_head @ indentMarkdown (to_string t)))
    | Prim p \<Rightarrow> andThen (scalarReadableValue host key p) (\<lambda>t. Inr (line_head @ to_string t)))"

text \<open>
  \<open>renderReadableValue\<close>.  The first argument is \<open>maxDepth - depth\<close>; \<open>seen\<close> holds the objects on
  the path, to which an object is added before its parts are rendered and from which it is deleted
  afterwards.
\<close>

fun renderReadableValue :: "nat \<Rightarrow> intl \<Rightarrow> heap \<Rightarrow> nat list \<Rightarrow> jstr \<Rightarrow> fval \<Rightarrow> jsval js" where
  "renderReadableValue left host h seen key v =
     (case v of
        Prim p \<Rightarrow> if is_blank p then Inr (JStr dash) else scalarReadableValue host key p
      | Ref a \<Rightarrow>
          (case left of
             0 \<Rightarrow> Inr (JStr msg_too_deep)
           | Suc rest \<Rightarrow>
               if a \<in> set seen then Inr (JStr msg_cycle)
               else (case heap_obj h a of
                   FArr xs \<Rightarrow>
                     if xs = [] then Inr (JStr dash)
                     else andThen (mapM (\<lambda>(i, item).
                         part_text host (renderReadableValue rest host h (a # seen) []) (bold_item (i + 1))
                           (js ''- '') [] item) (enumerate 0 xs))
                       (\<lambda>ls. Inr (JStr (join [10] ls)))
                 | FObj ps \<Rightarrow>
                     if ps = [] then Inr (JStr dash)
                     else andThen (mapM (\<lambda>(k, item).
                         let label = bold_label (fieldLabel (JStr k) JUndef)
                         in part_text host (renderReadableValue rest host h (a # seen) k) (label @ [10]) label k item) ps)
                       (\<lambda>ls. Inr (JStr (join [10] ls)))
                 | FDate d \<Rightarrow> Inr (JStr dash))))"

declare renderReadableValue.simps [simp del]

definition formatReadableValue :: "intl \<Rightarrow> heap \<Rightarrow> nat \<Rightarrow> fval \<Rightarrow> jsval js" where
  "formatReadableValue host h maxDepth v = renderReadableValue maxDepth host h [] [] v"

definition default_depth :: nat where "default_depth = 6"

section \<open>Titles, plain text and raw JSON\<close>

definition first_text :: "jstr list \<Rightarrow> jstr" where
  "first_text ts = (case List.find (\<lambda>t. t \<noteq> []) ts of Some t \<Rightarrow> t | None \<Rightarrow> [])"

definition unvisited :: "heap \<Rightarrow> nat list \<Rightarrow> nat" where
  "unvisited h path = card ({..<length h} - set path)"

lemma unvisited_Cons:
  "a \<notin> set path \<Longrightarrow> \<not> length h \<le> a \<Longrightarrow> unvisited h (a # path) < unvisited h path"
proof -
  assume a: "a \<notin> set path" "\<not> length h \<le> a"
  have "{..<length h} - set (a # path) = ({..<length h} - set path) - {a}" by auto
  moreover have "card (({..<length h} - set path) - {a}) < card ({..<length h} - set path)"
    by (rule card_Diff1_less) (use a in auto)
  ultimately show ?thesis by (simp only: unvisited_def)
qed

text \<open>
  \<open>titleCandidate\<close>: the recursion enters an object at most once per path, so the number of
  objects not yet on the path decreases.
\<close>

function titleCandidate :: "heap \<Rightarrow> nat list \<Rightarrow> fval \<Rightarrow> jstr" where
  "titleCandidate h seen v =
     (case v of
        Prim p \<Rightarrow> if is_blank p then [] else (let t = scalarText p in if t = dash then [] else trim t)
      | Ref a \<Rightarrow>
          if a \<in> set seen \<or> length h \<le> a then []
          else (case h ! a of
              FArr xs \<Rightarrow> first_text (map (titleCandidate h (a # seen)) xs)
            | FObj ps \<Rightarrow>
                (let c = first_text (map (\<lambda>k. titleCandidate h (a # seen) (heap_get h v k)) TITLE_KEYS)
                 in if c \<noteq> [] then c else first_text (map (\<lambda>p. titleCandidate h (a # seen) (snd p)) ps))
            | FDate d \<Rightarrow> []))"
  by pat_completeness auto

termination
  by (relation "measure (\<lambda>(h, seen, v). unvisited h seen)") (auto simp: unvisited_Cons)

declare titleCandidate.simps [simp del]

text \<open>\<open>s.replace(/\s+/g, ' ')\<close>.\<close>

fun collapse_spaces :: "jstr \<Rightarrow> jstr" where
  "collapse_spaces [] = []"
| "collapse_spaces (c # s) =
     (if is_space c \<and> s \<noteq> [] \<and> is_space (hd s) then collapse_spaces s
      else (if is_space c then 32 else c) # collapse_spaces s)"

definition plain_text :: "jstr \<Rightarrow> jstr" where
  "plain_text s = trim (collapse_spaces (replace_all [96] [] (replace_all [42, 42] [] s)))"

definition readableText :: "intl \<Rightarrow> heap \<Rightarrow> fval \<Rightarrow> int \<Rightarrow> jstr js" where
  "readableText host h v limit = andThen (formatReadableValue host h default_depth v) (\<lambda>r.
     let t = plain_text (to_string r)
     in Inr (if 0 < limit \<and> limit < int (length t) then take (nat limit) t @ [0x2026] else t))"

definition readableTitle :: "heap \<Rightarrow> fval \<Rightarrow> jsval \<Rightarrow> jsval" where
  "readableTitle h v fallback =
     js_or (JStr (titleCandidate h [] v)) (with_default fallback (JStr [0x672a, 0x547d, 0x540d, 0x8bb0, 0x5f55]))"

text \<open>ISO 8601 text of a time in milliseconds, by the proleptic Gregorian calendar.\<close>

definition pad_digits :: "nat \<Rightarrow> int \<Rightarrow> jstr" where
  "pad_digits n i = (let d = dec_digits i in replicate (n - length d) 48 @ d)"

definition civil_date :: "int \<Rightarrow> int \<times> int \<times> int" where
  "civil_date days =
     (let z = days + 719468; era = z div 146097; doe = z mod 146097;
          yoe = (doe - doe div 1460 + doe div 36524 - doe div 146096) div 365;
          doy = doe - (365 * yoe + yoe div 4 - yoe div 100); mp = (5 * doy + 2) div 153;
          d = doy - (153 * mp + 2) div 5 + 1; m = (if mp < 10 then mp + 3 else mp - 9)
      in (yoe + era * 400 + (if m \<le> 2 then 1 else 0), m, d))"

definition iso_year :: "int \<Rightarrow> jstr" where
  "iso_year y = (if 0 \<le> y \<and> y \<le> 9999 then pad_digits 4 y
     else (if y < 0 then [45] else [43]) @ pad_digits 6 (abs y))"

definition iso_string :: "int \<Rightarrow> jstr" where
  "iso_string ms =
     (case civil_date (ms div 86400000) of (y, m, d) \<Rightarrow>
        let t = ms mod 86400000
        in iso_year y @ [45] @ pad_digits 2 m @ [45] @ pad_digits 2 d @ [84]
           @ pad_digits 2 (t div 3600000) @ [58] @ pad_digits 2 (t div 60000 mod 60) @ [58]
           @ pad_digits 2 (t div 1000 mod 60) @ [46] @ pad_digits 3 (t mod 1000) @ [90])"

text \<open>The tree that \<open>JSON.stringify\<close> sees; \<open>None\<close> when it meets a cycle and throws.\<close>

function heap_tree :: "heap \<Rightarrow> nat list \<Rightarrow> fval \<Rightarrow> jsval option" where
  "heap_tree h path v =
     (case v of
        Prim p \<Rightarrow> Some p
      | Ref a \<Rightarrow>
          if a \<in> set path \<or> length h \<le> a then None
          else (case h ! a of
              FArr xs \<Rightarrow> map_option JArr (those (map (heap_tree h (a # path)) xs))
            | FObj ps \<Rightarrow> map_option JObj (those (map (\<lambda>p. map_option (Pair (fst p)) (heap_tree h (a # path) (snd p))) ps))
            | FDate d \<Rightarrow> Some (case d of Some ms \<Rightarrow> JStr (iso_string ms) | None \<Rightarrow> JNull)))"
  by pat_completeness auto

termination
  by (relation "measure (\<lambda>(h, path, v). unvisited h path)") (auto simp: unvisited_Cons)

declare heap_tree.simps [simp del]

definition serializeRawJson :: "intl \<Rightarrow> heap \<Rightarrow> fval \<Rightarrow> jsval js" where
  "serializeRawJson host h v = (case heap_tree h [] (if v = Prim JUndef then Prim JNull else v) of
      Some t \<Rightarrow> Inr (js_or (json_stringify_pretty t) (S ''null''))
    | None \<Rightarrow> formatReadableValue host h default_depth v)"

definition localDateTimeToIso :: "intl \<Rightarrow> jsval \<Rightarrow> jstr" where
  "localDateTimeToIso host v =
     (if \<not> truthy v then []
      else case parse_date host v of None \<Rightarrow> to_string v | Some ms \<Rightarrow> iso_string ms)"

definition compactNumber :: "intl \<Rightarrow> jsval \<Rightarrow> jstr" where
  "compactNumber host v =
     (let n = to_number (js_or v (N 0)) in print_number host (Fin 10000 \<le> n) n)"

definition displayValue :: "intl \<Rightarrow> heap \<Rightarrow> fval \<Rightarrow> jsval js" where
  "displayValue host h v = formatReadableValue host h default_depth v"

text \<open>\<open>String(v)\<close> on the heap; an array that contains itself prints as nothing there.\<close>

function heap_string :: "intl \<Rightarrow> heap \<Rightarrow> nat list \<Rightarrow> fval \<Rightarrow> jstr" where
  "heap_string host h path v =
     (case v of
        Prim p \<Rightarrow> to_string p
      | Ref a \<Rightarrow>
          if a \<in> set path \<or> length h \<le> a then []
          else (case h ! a of
              FArr xs \<Rightarrow> join [44] (map (\<lambda>x. if x = Prim JUndef \<or> x = Prim JNull then []
                                     else heap_string host h (a # path) x) xs)
            | FObj ps \<Rightarrow> js ''[object Object]''
            | FDate d \<Rightarrow> date_string host d))"
  by pat_completeness auto

termination
  by (relation "measure (\<lambda>(host, h, path, v). unvisited h path)") (auto simp: unvisited_Cons)

declare heap_string.simps [simp del]

definition truthy_fval :: "fval \<Rightarrow> bool" where
  "truthy_fval v = (case v of Prim p \<Rightarrow> truthy p | Ref a \<Rightarrow> True)"

definition scopeDisplayName :: "intl \<Rightarrow> heap \<Rightarrow> fval \<Rightarrow> jstr js" where
  "scopeDisplayName host h scope = andThen (readableText host h (heap_get h scope (js ''name'')) 0) (\<lambda>name.
     Inr (if name \<noteq> [] \<and> name \<noteq> dash \<and> \<not> list_all (\<lambda>c. c = 63) name then name
       else if truthy_fval (heap_get h scope (js ''is_default''))
         \<or> heap_get h scope (js ''scope_key'') = Prim (S ''default'') then [0x9ed8, 0x8ba4, 32, 83, 99, 111, 112, 101]
       else (let key = heap_get h scope (js ''scope_key''); sid = heap_get h scope (js ''id'')
             in heap_string host h [] (if truthy_fval key then key else if truthy_fval sid then sid
                 else Prim (JStr [0x672a, 0x547d, 0x540d, 32, 83, 99, 111, 112, 101])))))"

end
