(* ===== verification/FormatLaws.thy ===== *)
theory FormatLaws imports Format begin

text \<open>
  What the texts of \<open>utils/format.js\<close> satisfy: statuses, the equivalence of the renderer with a
  recursion over trees, titles and one-line texts.
\<close>

section \<open>Statuses\<close>

lemma lower_not_method: "to_lower s \<notin> set (map js proto_methods)"
proof
  assume "to_lower s \<in> set (map js proto_methods)"
  then obtain m where m: "m \<in> set proto_methods" "to_lower s = js m" by auto
  have "\<exists>c \<in> set (js m). 65 \<le> c \<and> c \<le> 90"
    using m(1) by (auto simp: proto_methods_def js_def)
  then show False using m(2) to_lower_no_upper [of _ s] by metis
qed

lemma inherited_lower:
  "truthy (inherited (to_lower s)) \<longleftrightarrow> to_lower s \<in> {js ''constructor'', js ''__proto__''}"
  using lower_not_method [of s] by (simp add: inherited_def)

lemma status_map_plain:
  "map_of STATUS_MAP (js ''constructor'') = None" "map_of STATUS_MAP (js ''__proto__'') = None"
  by (simp_all add: STATUS_MAP_def)

definition status_kinds :: "jstr list" where
  "status_kinds = map js [''success'', ''warning'', ''primary'', ''info'', ''danger'']"

lemma status_map_entries:
  "(k, label, kind) \<in> set STATUS_MAP \<Longrightarrow> label \<noteq> [] \<and> kind \<in> set status_kinds"
  by (auto simp: STATUS_MAP_def status_kinds_def)

text \<open>Every status a record can carry gets a tag with a text and one of the five colours the
  tag component knows, except two: for a status that reads \<open>constructor\<close> or \<open>__proto__\<close> in any
  case, the table yields what every object inherits, and showing the record throws.\<close>

theorem status_meta_total:
  "(statusMeta status label = Inl TypeError \<longleftrightarrow>
      to_lower (to_string (js_or (status_source status) (S ''unknown''))) \<in> {js ''constructor'', js ''__proto__''})
   \<and> (\<forall>m. statusMeta status label = Inr m \<longrightarrow> truthy (sm_label m) \<and> sm_type m \<in> set status_kinds)"
proof -
  define k where "k = to_lower (to_string (js_or (status_source status) (S ''unknown'')))"
  have unknown: "truthy (js_or a (JStr [0x672a, 0x77e5]))" for a by simp
  have info: "js ''info'' \<in> set status_kinds" by (simp add: status_kinds_def)
  show ?thesis
  proof (cases "map_of STATUS_MAP k")
    case None
    then show ?thesis
      using inherited_lower [of "to_string (js_or (status_source status) (S ''unknown''))"] info
      by (auto simp: statusMeta_def Let_def k_def [symmetric])
  next
    case (Some p)
    then have "k \<notin> {js ''constructor'', js ''__proto__''}"
      using status_map_plain by auto
    moreover have "fst p \<noteq> []" "snd p \<in> set status_kinds"
      using status_map_entries [of k "fst p" "snd p"] map_of_SomeD [OF Some] by auto
    ultimately show ?thesis using Some
      by (auto simp: statusMeta_def Let_def k_def [symmetric] split: prod.split)
  qed
qed

theorem status_meta_total_witness:
  "truthy (sm_label \<lparr>sm_status = js ''ok'', sm_label = JStr [0x6b63, 0x5e38], sm_type = js ''success''\<rparr>)"
proof -
  have "to_lower (js ''ok'') = js ''ok''"
    by (simp add: js_def to_lower_def lower_unit_def upper32_def upper80_def lower_special_def)
  then have "statusMeta (S ''ok'') JUndef =
      Inr \<lparr>sm_status = js ''ok'', sm_label = JStr [0x6b63, 0x5e38], sm_type = js ''success''\<rparr>"
    by (simp add: statusMeta_def status_source_def STATUS_MAP_def)
  then show ?thesis using status_meta_total [of "S ''ok''" JUndef] by blast
qed

section \<open>Rendering\<close>

text \<open>The same rendering over trees, without the set of visited objects.\<close>

definition tree_part ::
    "intl \<Rightarrow> (jsval \<Rightarrow> jsval js) \<Rightarrow> jstr \<Rightarrow> jstr \<Rightarrow> jstr \<Rightarrow> jsval \<Rightarrow> jstr js" where
  "tree_part host render block_head line_head key item =
     (if is_object item then andThen (render item) (\<lambda>t. Inr (block_head @ indentMarkdown (to_string t)))
      else andThen (scalarReadableValue host key item) (\<lambda>t. Inr (line_head @ to_string t)))"

fun tree_text :: "nat \<Rightarrow> intl \<Rightarrow> jstr \<Rightarrow> jsval \<Rightarrow> jsval js" where
  "tree_text left host key v =
     (if \<not> is_object v then (if is_blank v then Inr (JStr dash) else scalarReadableValue host key v)
      else case left of
          0 \<Rightarrow> Inr (JStr msg_too_deep)
        | Suc rest \<Rightarrow>
            (case v of
               JArr xs \<Rightarrow>
                 if xs = [] then Inr (JStr dash)
                 else andThen (mapM (\<lambda>(i, item).
                     tree_part host (tree_text rest host []) (bold_item (i + 1)) (js ''- '') [] item) (enumerate 0 xs))
                   (\<lambda>ls. Inr (JStr (join [10] ls)))
             | JObj ps \<Rightarrow>
                 if ps = [] then Inr (JStr dash)
                 else andThen (mapM (\<lambda>(k, item).
                     let label = bold_label (fieldLabel (JStr k) JUndef)
                     in tree_part host (tree_text rest host k) (label @ [10]) label k item) ps)
                   (\<lambda>ls. Inr (JStr (join [10] ls)))
             | _ \<Rightarrow> Inr (JStr dash)))"

declare tree_text.simps [simp del]

text \<open>Heaps as \<open>JSON.parse\<close> builds them: scalars are scalars and there are no dates.\<close>

definition plain_value :: "fval \<Rightarrow> bool" where
  "plain_value v = (case v of Prim p \<Rightarrow> \<not> is_object p | Ref a \<Rightarrow> True)"

definition plain_heap :: "heap \<Rightarrow> bool" where
  "plain_heap h \<longleftrightarrow> (\<forall>ob \<in> set h. case ob of
     FArr xs \<Rightarrow> list_all plain_value xs | FObj ps \<Rightarrow> list_all (\<lambda>p. plain_value (snd p)) ps | FDate d \<Rightarrow> False)"

lemma those_map: "those (map f xs) = Some ys \<longleftrightarrow> list_all2 (\<lambda>x y. f x = Some y) xs ys"
proof (induction xs arbitrary: ys)
  case (Cons x xs)
  then show ?case by (cases "f x") (auto simp: list_all2_Cons1)
qed auto

lemma list_all2_enumerate:
  "list_all2 P xs ys \<Longrightarrow> list_all2 (\<lambda>p q. fst p = fst q \<and> P (snd p) (snd q)) (enumerate n xs) (enumerate n ys)"
  by (simp add: list_all2_conv_all_nth nth_enumerate_eq)

lemma mapM_list_all2:
  "list_all2 (\<lambda>x y. f x = g y) xs ys \<Longrightarrow> mapM f xs = mapM g ys"
  by (induction rule: list_all2_induct) auto

lemma heap_tree_kind:
  assumes "heap_tree h path v = Some t" "plain_heap h" "plain_value v"
  shows "is_object t \<longleftrightarrow> isStructured v"
proof (cases v)
  case (Prim p)
  then show ?thesis using assms by (simp add: heap_tree.simps isStructured_def plain_value_def)
next
  case (Ref a)
  then have "a < length h" "h ! a \<in> set h"
    using assms(1) by (auto simp: heap_tree.simps split: if_splits)
  then show ?thesis using assms Ref
    by (auto simp: heap_tree.simps isStructured_def plain_heap_def split: fobj.splits if_splits)
qed

lemma plain_parts:
  assumes "plain_heap h" "a < length h"
  shows "h ! a = FArr xs \<Longrightarrow> x \<in> set xs \<Longrightarrow> plain_value x"
    and "h ! a = FObj ps \<Longrightarrow> p \<in> set ps \<Longrightarrow> plain_value (snd p)"
    and "h ! a \<noteq> FDate d"
  using assms nth_mem [OF assms(2)] by (fastforce simp: plain_heap_def list_all_iff)+

text \<open>An object of the heap and the node of the tree it becomes.\<close>

definition part_of_tree :: "heap \<Rightarrow> nat list \<Rightarrow> fval \<Rightarrow> jsval \<Rightarrow> bool" where
  "part_of_tree h path v t \<longleftrightarrow> heap_tree h path v = Some t \<and> plain_value v"

lemma array_parts:
  assumes "heap_tree h path (Ref a) = Some t" "plain_heap h" "h ! a = FArr xs"
  obtains ts where "t = JArr ts" "list_all2 (part_of_tree h (a # path)) xs ts"
    "a \<notin> set path" "a < length h"
proof -
  have a: "a \<notin> set path" "a < length h"
    using assms(1) by (auto simp: heap_tree.simps split: if_splits)
  then obtain ts where "t = JArr ts" "list_all2 (\<lambda>x y. heap_tree h (a # path) x = Some y) xs ts"
    using assms by (subst (asm) heap_tree.simps) (auto simp: those_map)
  moreover have "list_all2 (part_of_tree h (a # path)) xs ts"
    using calculation(2) plain_parts(1) [OF assms(2) a(2) assms(3)]
    by (auto simp: list_all2_conv_all_nth part_of_tree_def)
  ultimately show ?thesis using that a by blast
qed

lemma object_parts:
  assumes "heap_tree h path (Ref a) = Some t" "plain_heap h" "h ! a = FObj ps"
  obtains ts where "t = JObj ts"
    "list_all2 (\<lambda>p q. fst p = fst q \<and> part_of_tree h (a # path) (snd p) (snd q)) ps ts"
    "a \<notin> set path" "a < length h"
proof -
  have a: "a \<notin> set path" "a < length h"
    using assms(1) by (auto simp: heap_tree.simps split: if_splits)
  then obtain ts where t: "t = JObj ts"
    and ts: "list_all2 (\<lambda>p q. map_option (Pair (fst p)) (heap_tree h (a # path) (snd p)) = Some q) ps ts"
    using assms by (subst (asm) heap_tree.simps) (auto simp: those_map)
  have "list_all2 (\<lambda>p q. fst p = fst q \<and> part_of_tree h (a # path) (snd p) (snd q)) ps ts"
    using ts
  proof (rule list.rel_mono_strong)
    fix p q
    assume "p \<in> set ps" "map_option (Pair (fst p)) (heap_tree h (a # path) (snd p)) = Some q"
    then show "fst p = fst q \<and> part_of_tree h (a # path) (snd p) (snd q)"
      using plain_parts(2) [OF assms(2) a(2) assms(3)] by (auto simp: part_of_tree_def)
  qed
  then show ?thesis using that t a by blast
qed

lemma part_agrees:
  assumes "part_of_tree h path v t" "plain_heap h" "render v = tree_render t"
  shows "part_text host render bh lh key v = tree_part host tree_render bh lh key t"
  using heap_tree_kind [of h path v t] assms
  by (cases v) (auto simp: part_of_tree_def isStructured_def heap_tree.simps part_text_def tree_part_def)

lemma render_tree:
  assumes "part_of_tree h path v t" "plain_heap h"
  shows "renderReadableValue left host h path key v = tree_text left host key t"
  using assms
proof (induction left arbitrary: path v t key)
  case 0
  then show ?case using heap_tree_kind [of h path v t]
    by (cases v) (auto simp: renderReadableValue.simps tree_text.simps isStructured_def heap_tree.simps part_of_tree_def)
next
  case (Suc left)
  have tree: "heap_tree h path v = Some t" "plain_value v"
    using Suc.prems(1) by (simp_all add: part_of_tree_def)
  show ?case
  proof (cases v)
    case (Prim p)
    then show ?thesis using tree
      by (simp add: renderReadableValue.simps tree_text.simps heap_tree.simps plain_value_def)
  next
    case (Ref a)
    have agree: "part_text host (renderReadableValue left host h (a # path) k) bh lh k item =
        tree_part host (tree_text left host k) bh lh k item'" if "part_of_tree h (a # path) item item'"
      for bh lh k item item'
      by (rule part_agrees [OF that Suc.prems(2)], rule Suc.IH [OF that Suc.prems(2)])
    note unfolded = renderReadableValue.simps [of "Suc left"] tree_text.simps [of "Suc left"] heap_obj_def
    show ?thesis
    proof (cases "h ! a")
      case (FArr xs)
      obtain ts where t: "t = JArr ts" "list_all2 (part_of_tree h (a # path)) xs ts" "a \<notin> set path" "a < length h"
        using array_parts [OF _ Suc.prems(2) FArr] tree Ref by blast
      have "mapM (\<lambda>(i, item). part_text host (renderReadableValue left host h (a # path) [])
            (bold_item (i + 1)) (js ''- '') [] item) (enumerate 0 xs) =
          mapM (\<lambda>(i, item). tree_part host (tree_text left host []) (bold_item (i + 1)) (js ''- '') [] item)
            (enumerate 0 ts)"
        by (rule mapM_list_all2, rule list_all2_mono [OF list_all2_enumerate [OF t(2)]])
          (auto intro: agree)
      then show ?thesis using Ref FArr t list_all2_lengthD [OF t(2)] by (auto simp: unfolded)
    next
      case (FObj ps)
      obtain ts where t: "t = JObj ts"
        "list_all2 (\<lambda>p q. fst p = fst q \<and> part_of_tree h (a # path) (snd p) (snd q)) ps ts"
        "a \<notin> set path" "a < length h"
        using object_parts [OF _ Suc.prems(2) FObj] tree Ref by blast
      have "mapM (\<lambda>(k, item). let label = bold_label (fieldLabel (JStr k) JUndef)
            in part_text host (renderReadableValue left host h (a # path) k) (label @ [10]) label k item) ps =
          mapM (\<lambda>(k, item). let label = bold_label (fieldLabel (JStr k) JUndef)
            in tree_part host (tree_text left host k) (label @ [10]) label k item) ts"
        by (rule mapM_list_all2, rule list_all2_mono [OF t(2)])
          (auto simp: Let_def intro: agree)
      then show ?thesis using Ref FObj t list_all2_lengthD [OF t(2)] by (auto simp: unfolded)
    next
      case (FDate d)
      have "a < length h" using tree Ref by (auto simp: heap_tree.simps split: if_splits)
      then show ?thesis using plain_parts(3) [OF Suc.prems(2)] FDate by blast
    qed
  qed
qed



text \<open>Cyclic data is rendered too: the object that would be entered a second time on the same
  path is replaced by a marker, and the rendering ends.\<close>

theorem cycle_marked:
  "formatReadableValue host [FObj [(k, Ref 0)]] (Suc (Suc depth)) (Ref 0) =
     Inr (JStr (bold_label (fieldLabel (JStr k) JUndef) @ [10] @ indentMarkdown msg_cycle))"
  by (simp add: formatReadableValue_def renderReadableValue.simps heap_obj_def part_text_def Let_def)

text \<open>One field is enough to break the page: a record whose status reads \<open>constructor\<close> has
  no text, rendering it throws a \<open>TypeError\<close>, whatever its other fields are.\<close>

theorem status_breaks_rendering:
  assumes "h ! a = FObj ((js ''status'', Prim (S ''constructor'')) # ps)" "a < length h"
  shows "formatReadableValue host h (Suc depth) (Ref a) = Inl TypeError"
proof -
  have low: "to_lower (js ''constructor'') = js ''constructor''" "to_lower (js ''status'') = js ''status''"
    by (simp_all add: js_def to_lower_def lower_unit_def upper32_def upper80_def lower_special_def)
  have "statusMeta (S ''constructor'') JUndef = Inl TypeError"
    by (simp add: statusMeta_def status_source_def low status_map_plain inherited_def)
  then have "scalarReadableValue host (js ''status'') (S ''constructor'') = Inl TypeError"
    by (simp add: scalarReadableValue_def low is_blank_def Let_def)
  then show ?thesis
    using assms
    by (simp add: formatReadableValue_def renderReadableValue.simps heap_obj_def part_text_def Let_def)
qed

theorem status_breaks_rendering_witness:
  "\<forall>host. formatReadableValue host [FObj [(js ''status'', Prim (S ''constructor''))]] 6 (Ref 0) = Inl TypeError"
  using status_breaks_rendering [of "[FObj [(js ''status'', Prim (S ''constructor''))]]" 0 "[]" _ 5] by simp

section \<open>Titles and lines\<close>

lemma first_text_trimmed: "(\<And>t. t \<in> set ts \<Longrightarrow> trim t = t) \<Longrightarrow> trim (first_text ts) = first_text ts"
  by (auto simp: first_text_def find_Some_iff split: option.split)

lemma titleCandidate_trimmed: "trim (titleCandidate h seen v) = titleCandidate h seen v"
proof (induction h seen v rule: titleCandidate.induct)
  case (1 h seen v)
  show ?case
  proof (cases v)
    case (Prim p)
    then show ?thesis by (simp add: titleCandidate.simps Let_def)
  next
    case (Ref a)
    show ?thesis
    proof (cases "a \<in> set seen \<or> length h \<le> a")
      case True
      then show ?thesis using Ref by (auto simp: titleCandidate.simps)
    next
      case False
      note IH = 1 [OF Ref False]
      show ?thesis
        using Ref False IH
        by (cases "h ! a")
          (auto simp: titleCandidate.simps [of h seen] Let_def intro!: first_text_trimmed)
    qed
  qed
qed

text \<open>A record always has a title to show: the search for one ends even on cyclic data, and
  what it finds is text without surrounding white space; if it finds none, the fallback is shown,
  and the default one is not empty.\<close>

theorem title_always:
  "(\<exists>t. t \<noteq> [] \<and> trim t = t \<and> readableTitle h v fallback = JStr t) \<or>
   titleCandidate h [] v = [] \<and> readableTitle h v fallback = with_default fallback (JStr [0x672a, 0x547d, 0x540d, 0x8bb0, 0x5f55])"
  using titleCandidate_trimmed [of h "[]" v]
  by (auto simp: readableTitle_def js_or_def)

lemma collapse_spaces_units: "c \<in> set (collapse_spaces s) \<Longrightarrow> is_space c \<Longrightarrow> c = 32"
  by (induction s) (auto simp: is_space_def split: if_splits)

text \<open>The one-line text of a value is one line: it holds no line break, tab or other white
  space than the blank, none at its ends, and with a limit it is at most one unit longer than it.\<close>

theorem readable_line:
  assumes "readableText host h v limit = Inr t"
  shows "(\<forall>c \<in> set t. is_space c \<longrightarrow> c = 32) \<and> (0 < limit \<longrightarrow> int (length t) \<le> limit + 1)
    \<and> (t \<noteq> [] \<longrightarrow> \<not> is_space (hd t) \<and> \<not> is_space (last t))"
proof -
  obtain r where r: "t = (if 0 < limit \<and> limit < int (length (plain_text r))
      then take (nat limit) (plain_text r) @ [0x2026] else plain_text r)"
    using assms by (auto simp: readableText_def andThen_Inr_iff Let_def)
  have units: "c = 32" if "c \<in> set (plain_text r)" "is_space c" for c
    using that set_trim collapse_spaces_units unfolding plain_text_def by blast
  have dots: "\<not> is_space 0x2026" by (simp add: is_space_def)
  have ends: "plain_text r \<noteq> [] \<Longrightarrow> \<not> is_space (hd (plain_text r)) \<and> \<not> is_space (last (plain_text r))"
    using hd_last_trim unfolding plain_text_def by blast
  show ?thesis
  proof (cases "0 < limit \<and> limit < int (length (plain_text r))")
    case True
    then have "hd t = hd (plain_text r)" "plain_text r \<noteq> []"
      using r by (auto simp: hd_append)
    then show ?thesis using True r units ends dots by (auto dest: in_set_takeD)
  next
    case False
    then show ?thesis using r units ends by auto
  qed
qed

theorem readable_line_witness:
  "\<forall>host. \<exists>t. readableText host [] (Prim (S ''a'')) 5 = Inr t \<and> int (length t) \<le> 6"
proof
  fix host
  obtain t where t: "readableText host [] (Prim (S ''a'')) 5 = Inr t"
    by (simp add: readableText_def formatReadableValue_def renderReadableValue.simps scalarReadableValue_def
        is_blank_def to_lower_def status_keys_def confidence_keys_def ends_with_def starts_with_def
        Let_def js_def)
  from readable_line [OF t] t show "\<exists>t. readableText host [] (Prim (S ''a'')) 5 = Inr t \<and> int (length t) \<le> 6" by auto
qed

end
