(* ===== verification/Tooling.thy ===== *)
theory Tooling imports JsStrings begin

text \<open>
  \<open>tools/static_check.js\<close>, the repository's self-check, over a file tree that is its input.
\<close>

section \<open>The file tree\<close>

datatype node = File jstr | Dir "(jstr \<times> node) list"

type_synonym path = "jstr list"

fun node_at :: "node \<Rightarrow> path \<Rightarrow> node option" where
  "node_at n [] = Some n"
| "node_at (File t) (p # ps) = None"
| "node_at (Dir es) (p # ps) = (case map_of es p of Some n \<Rightarrow> node_at n ps | None \<Rightarrow> None)"

definition rel_path :: "string \<Rightarrow> path" where
  "rel_path s = split_on 47 (js s)"

definition requiredFiles :: "path list" where
  "requiredFiles = map rel_path
     [''alembic.ini'', ''alembic/env.py'', ''docker-compose.yml'', ''README.md'',
      ''src/codex_memory/persistence/config.py'', ''src/codex_memory/persistence/db.py'',
      ''src/codex_memory/api/v1_app.py'', ''src/codex_memory/entrypoints/worker.py'']"

definition scanRoots :: "path list" where
  "scanRoots = map rel_path [''src'', ''tests'', ''alembic'']"

definition extra_scan_files :: "path list" where
  "extra_scan_files = map rel_path [''README.md'', ''start-local.ps1'', ''alembic.ini'']"

text \<open>\<open>/\.(py|ini)$/\<close>.\<close>

definition scanned_name :: "jstr \<Rightarrow> bool" where
  "scanned_name s \<longleftrightarrow> ends_with s (js ''.py'') \<or> ends_with s (js ''.ini'')"

text \<open>\<open>collect\<close>: the files below a directory, without the caches of the Python interpreter.\<close>

fun collect :: "path \<Rightarrow> node \<Rightarrow> path list" where
  "collect p (File t) = []"
| "collect p (Dir es) = concat (map (\<lambda>(name, n).
     case n of
       Dir es' \<Rightarrow> if name \<noteq> js ''__pycache__'' then collect (p @ [name]) n else []
     | File t \<Rightarrow> if scanned_name name then [p @ [name]] else []) es)"

section \<open>The check\<close>

definition removedDatabaseName :: jstr where
  "removedDatabaseName = js ''sql'' @ js ''ite''"

datatype failure =
    MissingFile path
  | RemovedDatabase path
  | ReplacementCharacter path
  | NotPostgres
  | ComposeLacks jstr

text \<open>Reading a file that is not there, or listing one that is no directory, throws: \<open>None\<close>.\<close>

definition read_file :: "node \<Rightarrow> path \<Rightarrow> jstr option" where
  "read_file root p = (case node_at root p of Some (File t) \<Rightarrow> Some t | _ \<Rightarrow> None)"

definition collect_root :: "node \<Rightarrow> path \<Rightarrow> path list option" where
  "collect_root root p = (case node_at root p of Some (Dir es) \<Rightarrow> Some (collect p (Dir es)) | _ \<Rightarrow> None)"

definition scan_file :: "node \<Rightarrow> path \<Rightarrow> failure list option" where
  "scan_file root p = map_option (\<lambda>text'.
     (if includes_str (to_lower text') removedDatabaseName then [RemovedDatabase p] else [])
     @ (if includes_str text' [0xfffd] then [ReplacementCharacter p] else [])) (read_file root p)"

definition compose_markers :: "jstr list" where
  "compose_markers = [js ''pgvector/pgvector:pg16'', js ''CODEX_MEMORY_DATABASE_URL'']"

definition scan_files :: "node \<Rightarrow> path list option" where
  "scan_files root = map_option (\<lambda>xss. concat xss @ extra_scan_files) (those (map (collect_root root) scanRoots))"

definition static_check :: "node \<Rightarrow> failure list option" where
  "static_check root =
     Option.bind (scan_files root) (\<lambda>files.
     Option.bind (those (map (scan_file root) files)) (\<lambda>scans.
     Option.bind (read_file root (rel_path ''src/codex_memory/persistence/config.py'')) (\<lambda>config.
     Option.bind (read_file root (rel_path ''docker-compose.yml'')) (\<lambda>compose.
       Some (map MissingFile (filter (\<lambda>p. node_at root p = None) requiredFiles)
         @ concat scans
         @ (if includes_str config (js ''postgresql+psycopg://'') then [] else [NotPostgres])
         @ map ComposeLacks (filter (\<lambda>m. \<not> includes_str compose m) compose_markers))))))"

section \<open>What a clean run guarantees\<close>

lemma those_Some_iff: "those xs = Some ys \<longleftrightarrow> xs = map Some ys"
proof (induction xs arbitrary: ys)
  case (Cons x xs)
  then show ?case by (cases x; cases ys) auto
qed auto

text \<open>A file somewhere below a directory, on a path that avoids the caches.\<close>

inductive below :: "node \<Rightarrow> path \<Rightarrow> jstr \<Rightarrow> bool" where
  here: "(name, File t) \<in> set es \<Longrightarrow> below (Dir es) [name] t"
| there: "(name, Dir es') \<in> set es \<Longrightarrow> name \<noteq> js ''__pycache__'' \<Longrightarrow> below (Dir es') ps t \<Longrightarrow>
    below (Dir es) (name # ps) t"

lemma below_nonempty: "below n ps t \<Longrightarrow> ps \<noteq> []"
  by (induction rule: below.induct) auto

lemma collect_entry:
  "(name, n) \<in> set es \<Longrightarrow>
   set (case n of Dir es' \<Rightarrow> if name \<noteq> js ''__pycache__'' then collect (p @ [name]) n else []
     | File t \<Rightarrow> if scanned_name name then [p @ [name]] else []) \<subseteq> set (collect p (Dir es))"
  by (auto simp del: collect.simps(1))

lemma collect_below:
  "below n ps t \<Longrightarrow> scanned_name (last ps) \<Longrightarrow> p @ ps \<in> set (collect p n)"
proof (induction arbitrary: p rule: below.induct)
  case (here name t es)
  then show ?case using collect_entry [OF here(1), of p] by auto
next
  case (there name es' es ps t)
  have "ps \<noteq> []" using there(3) by (rule below_nonempty)
  then have "p @ [name] @ ps \<in> set (collect (p @ [name]) (Dir es'))"
    using there.IH [of "p @ [name]"] there.prems by simp
  then show ?case using collect_entry [OF there(1), of p] there(2) by (simp del: collect.simps) blast
qed

lemma scanned_collected:
  assumes "scan_files root = Some files"
    and "r \<in> set scanRoots" "node_at root r = Some n" "below n ps t" "scanned_name (last ps)"
  shows "r @ ps \<in> set files"
proof -
  obtain xss where x: "map (collect_root root) scanRoots = map Some xss" "files = concat xss @ extra_scan_files"
    using assms(1) by (auto simp: scan_files_def those_Some_iff)
  have "collect_root root r \<in> set (map Some xss)" using assms(2) x(1) by (metis image_eqI list.set_map)
  then obtain es where "n = Dir es" "collect r (Dir es) \<in> set xss"
    using assms(3) by (auto simp: collect_root_def split: node.splits)
  moreover have "r @ ps \<in> set (collect r n)" using assms(4,5) by (rule collect_below)
  ultimately show ?thesis using x(2) by (auto simp del: collect.simps)
qed

lemma scanned_unmarked:
  assumes "map (scan_file root) files = map Some scans" "concat scans = []"
    and "p \<in> set files" "read_file root p = Some t"
  shows "\<not> includes_str (to_lower t) removedDatabaseName \<and> \<not> includes_str t [0xfffd]"
proof -
  have "scan_file root p \<in> set (map Some scans)" using assms(1,3) by (metis image_eqI list.set_map)
  then have "scan_file root p = Some []" using assms(2) by auto
  then show ?thesis using assms(4) by (auto simp: scan_file_def split: if_splits)
qed

text \<open>C27. A clean run of the self-check means what it says: every required file is there, no
  Python or ini file anywhere below the scanned directories (caches apart) mentions the removed
  database in any case or holds a replacement character, the default configuration names
  PostgreSQL, and the compose file has both markers.\<close>

theorem static_check_clean:
  assumes "static_check root = Some []"
  shows "(\<forall>p \<in> set requiredFiles. node_at root p \<noteq> None)
    \<and> (\<forall>r \<in> set scanRoots. \<forall>n ps t. node_at root r = Some n \<longrightarrow> below n ps t \<longrightarrow> scanned_name (last ps) \<longrightarrow>
         read_file root (r @ ps) = Some t \<longrightarrow>
         \<not> includes_str (to_lower t) removedDatabaseName \<and> \<not> includes_str t [0xfffd])
    \<and> (\<exists>c. read_file root (rel_path ''src/codex_memory/persistence/config.py'') = Some c
         \<and> includes_str c (js ''postgresql+psycopg://''))
    \<and> (\<exists>c. read_file root (rel_path ''docker-compose.yml'') = Some c \<and> (\<forall>m \<in> set compose_markers. includes_str c m))"
proof -
  obtain scans config compose where s: "scan_files root \<noteq> None"
    "map (scan_file root) (the (scan_files root)) = map Some scans"
    "read_file root (rel_path ''src/codex_memory/persistence/config.py'') = Some config"
    "read_file root (rel_path ''docker-compose.yml'') = Some compose"
    and clean: "filter (\<lambda>p. node_at root p = None) requiredFiles = []" "concat scans = []"
      "includes_str config (js ''postgresql+psycopg://'')"
      "filter (\<lambda>m. \<not> includes_str compose m) compose_markers = []"
    using assms by (auto simp: static_check_def bind_eq_Some_conv those_Some_iff split: if_splits)
  have "\<not> includes_str (to_lower t) removedDatabaseName \<and> \<not> includes_str t [0xfffd]"
    if "r \<in> set scanRoots" "node_at root r = Some n" "below n ps t" "scanned_name (last ps)"
      "read_file root (r @ ps) = Some t" for r n ps t
    using that scanned_collected [OF _ that(1-4)] scanned_unmarked [OF s(2) clean(2) _ that(5)] s(1) by auto
  moreover have "\<forall>p \<in> set requiredFiles. node_at root p \<noteq> None" "\<forall>m \<in> set compose_markers. includes_str compose m"
    using clean(1,4) unfolding filter_empty_conv by auto
  ultimately show ?thesis using s(3,4) clean(3) by blast
qed

text \<open>A repository on which the check is clean.\<close>

definition dir :: "(string \<times> node) list \<Rightarrow> node" where
  "dir es = Dir (map (\<lambda>(name, n). (js name, n)) es)"

definition sound_tree :: node where
  "sound_tree = dir
     [(''alembic.ini'', File []), (''alembic'', dir [(''env.py'', File (js ''x''))]), (''README.md'', File []),
      (''docker-compose.yml'', File (js ''pgvector/pgvector:pg16 CODEX_MEMORY_DATABASE_URL'')),
      (''start-local.ps1'', File []), (''tests'', dir []),
      (''src'', dir [(''codex_memory'', dir
         [(''persistence'', dir [(''config.py'', File (js ''postgresql+psycopg://'')), (''db.py'', File [])]),
          (''api'', dir [(''v1_app.py'', File [])]), (''entrypoints'', dir [(''worker.py'', File [])])])])]"

lemma sound_tree_clean: "static_check sound_tree = Some []"
  by code_simp

theorem static_check_clean_witness:
  "node_at sound_tree (rel_path ''alembic/env.py'') \<noteq> None \<and> \<not> includes_str (to_lower (js ''x'')) removedDatabaseName"
proof -
  note facts = static_check_clean [OF sound_tree_clean]
  have required: "rel_path ''alembic/env.py'' \<in> set requiredFiles" by (simp add: requiredFiles_def)
  have below: "node_at sound_tree [js ''alembic''] = Some (Dir [(js ''env.py'', File (js ''x''))])"
    "read_file sound_tree ([js ''alembic''] @ [js ''env.py'']) = Some (js ''x'')"
    "scanned_name (last [js ''env.py''])" "[js ''alembic''] \<in> set scanRoots"
    by code_simp+
  have "below (Dir [(js ''env.py'', File (js ''x''))]) [js ''env.py''] (js ''x'')" by (simp add: below.here)
  then show ?thesis using facts required below by blast
qed

end
