(* ===== verification/BuildConfig.thy ===== *)
theory BuildConfig imports ApiClient begin

text \<open>
  \<open>vite.config.js\<close>: the server of the development with its proxy, the assignment of modules to bundles, and the settings of
  the tests.  The plug-in and \<open>loadEnv\<close> belong to Vite and are parameters.
\<close>

section \<open>The configuration\<close>

definition manualChunks :: "jstr \<Rightarrow> string option" where
  "manualChunks mid =
     (if includes_str mid (js ''node_modules/@element-plus/icons-vue'') then Some ''element-icons''
      else if includes_str mid (js ''node_modules/@vueuse'') then Some ''vue-use''
      else if list_ex (\<lambda>e. includes_str mid (js e)) [''node_modules/dayjs'', ''node_modules/async-validator'',
          ''node_modules/lodash-unified'', ''node_modules/@ctrl/tinycolor''] then Some ''element-utils''
      else if includes_str mid (js ''node_modules/vue'') \<or> includes_str mid (js ''node_modules/pinia'')
          \<or> includes_str mid (js ''node_modules/vue-router'') then Some ''vue-core''
      else None)"

record 'plugin build_config =
  bc_plugins :: "'plugin list"
  bc_port :: int
  bc_proxy :: "(jstr \<times> jsval \<times> bool) list"
  bc_sourcemap :: bool
  bc_chunkSizeWarningLimit :: int
  bc_manualChunks :: "jstr \<Rightarrow> string option"
  bc_testEnvironment :: string
  bc_setupFiles :: string
  bc_coverageReporter :: "string list"
  bc_coverageInclude :: "string list"

text \<open>An entry of the proxy: the prefix of the path, the target, and \<open>changeOrigin\<close>.\<close>

definition proxy_target :: "jsval \<Rightarrow> jsval js" where
  "proxy_target env = andThen (get_or_throw env (js ''VITE_ADMIN_API_PROXY_TARGET'')) (\<lambda>v. Inr (js_or v (S ''http://127.0.0.1:8000'')))"

definition vite_config :: "'plugin \<Rightarrow> (jsval \<Rightarrow> jsval \<Rightarrow> jsval \<Rightarrow> jsval) \<Rightarrow> jsval \<Rightarrow> jsval \<Rightarrow> 'plugin build_config js" where
  "vite_config vue loadEnv cwd mode = andThen (proxy_target (loadEnv mode cwd (S ''''))) (\<lambda>target. Inr
     \<lparr>bc_plugins = [vue], bc_port = 5174, bc_proxy = [(js ''/api'', target, True)], bc_sourcemap = True, bc_chunkSizeWarningLimit = 500,
      bc_manualChunks = manualChunks, bc_testEnvironment = ''node'', bc_setupFiles = ''./src/test/setup.js'',
      bc_coverageReporter = [''text'', ''json-summary''], bc_coverageInclude = [''src/**/*.{js,vue}'']\<rparr>)"

section \<open>Laws\<close>

text \<open>Without a variable of the environment, or with an empty one, the proxy leads to the local service.\<close>

lemma local_target: "vite_config vue loadEnv cwd mode = Inr c \<Longrightarrow> \<not> truthy (get_prop (loadEnv mode cwd (S '''')) (js ''VITE_ADMIN_API_PROXY_TARGET''))
    \<Longrightarrow> bc_proxy c = [(js ''/api'', S ''http://127.0.0.1:8000'', True)]"
  by (auto simp: vite_config_def proxy_target_def get_or_throw_def js_or_def andThen_Inr_iff split: if_splits)

text \<open>Unless the API is configured to be elsewhere, every request of the API client goes through the proxy of the development server.\<close>

lemma requests_proxied:
  assumes "\<not> truthy (api_base h)" "vite_config vue loadEnv cwd mode = Inr c"
  shows "\<exists>p \<in> set (map fst (bc_proxy c)). starts_with (to_string (base h) @ path) p"
  using assms by (auto simp: vite_config_def andThen_Inr_iff base_def js_or_def starts_with_def js_def)

text \<open>A module of the widget library's icons, of VueUse or of the helpers never lands in the bundle of the framework.\<close>

lemma helpers_apart: "manualChunks mid = Some ''vue-core'' \<Longrightarrow> \<not> includes_str mid (js ''node_modules/@vueuse'') \<and> \<not> includes_str mid (js ''node_modules/dayjs'')"
  by (auto simp: manualChunks_def split: if_splits)

end
