(* ===== verification/Async.thy ===== *)
theory Async imports ApiClient begin

text \<open>
  The asynchronous code of the pages.  An \<open>async\<close> function over the reactive state of a page is a
  \<open>task\<close>: it reads the state, updates it, awaits calls to the outside and ends with a value or an
  exception.  Between two awaits it runs undisturbed; while it waits, other tasks of the page may
  run.  The theory gives the combinators the pages are written with, the run of a single task
  against a server, the interleaved runs of a page, and two contracts that pages share: a lock
  kept in a flag, and loads that are numbered so that stale answers can be told from fresh ones.
\<close>

section \<open>Calls and tasks\<close>

text \<open>A file the user picked.\<close>

record jsfile =
  file_name :: jsval
  file_size :: int
  file_modified :: jsval
  file_tag :: nat

text \<open>
  What a page may await: calls of the API client, several of them (\<open>Promise.all\<close> and
  \<open>Promise.allSettled\<close>), a navigation of the router, the bytes of a file, an action of another
  store, and the continuation of an \<open>async\<close> function of its own (\<open>Tick\<close>).
\<close>

datatype call =
    Get jstr jsval
  | Post jstr jsval
  | Put jstr jsval
  | Upload jstr jsfile
  | Login jstr jstr
  | All "call list"
  | AllSettled "call list"
  | Replace jsval
  | Push jsval
  | ReadFile jsfile
  | StoreAction string jsval
  | Tick

datatype answer = Returned "jsval js" | Results "jsval js list" | Buffer "nat list js"

fun returned :: "answer \<Rightarrow> jsval js" where
  "returned (Returned r) = r" | "returned _ = Inl TypeError"

fun results :: "answer \<Rightarrow> jsval js list" where
  "results (Results rs) = rs" | "results _ = []"

fun buffer :: "answer \<Rightarrow> nat list js" where
  "buffer (Buffer b) = b" | "buffer _ = Inl TypeError"

text \<open>
  The answers a call can get.  A call of the API client settles with a value or an exception, and so does the
  session store's \<open>ensureSession\<close>; the actions of the context store catch what goes wrong in them and fulfil; \<open>Promise.all\<close> fulfils with an array of all values; \<open>Promise.allSettled\<close> always fulfils.
  A navigation is taken to fulfil: the router reports an aborted or repeated navigation as a value.
\<close>

definition suits :: "call \<Rightarrow> answer \<Rightarrow> bool" where
  "suits c a = (case c of
      Tick \<Rightarrow> True
    | ReadFile f \<Rightarrow> (\<exists>b. a = Buffer b)
    | AllSettled cs \<Rightarrow> (\<exists>rs. a = Results rs \<and> length rs = length cs)
    | All cs \<Rightarrow> (\<exists>r. a = Returned r \<and> (\<forall>v. r = Inr v \<longrightarrow> (\<exists>vs. v = JArr vs \<and> length vs = length cs)))
    | Replace q \<Rightarrow> (\<exists>v. a = Returned (Inr v))
    | Push q \<Rightarrow> (\<exists>v. a = Returned (Inr v))
    | StoreAction n v \<Rightarrow> (\<exists>r. a = Returned r \<and> (n = ''ensureSession'' \<or> (\<exists>v. r = Inr v)))
    | _ \<Rightarrow> (\<exists>r. a = Returned r))"

datatype ('s, 'r) task =
    Done "'r js"
  | Await call "answer \<Rightarrow> ('s, 'r) task"
  | Look "'s \<Rightarrow> ('s, 'r) task"
  | Update "'s \<Rightarrow> 's" "('s, 'r) task"

section \<open>Combinators\<close>

text \<open>Continue with the outcome of a task, whatever it is.\<close>

primrec resume :: "('s, 'r) task \<Rightarrow> ('r js \<Rightarrow> ('s, 'q) task) \<Rightarrow> ('s, 'q) task" where
  "resume (Done r) f = f r"
| "resume (Await c k) f = Await c (\<lambda>a. resume (k a) f)"
| "resume (Look k) f = Look (\<lambda>s. resume (k s) f)"
| "resume (Update g t) f = Update g (resume t f)"

abbreviation return :: "('s, unit) task" where
  "return \<equiv> Done (Inr ())"

abbreviation throw :: "jserror \<Rightarrow> ('s, 'r) task" where
  "throw e \<equiv> Done (Inl e)"

text \<open>Statements in sequence, \<open>try\<close>-\<open>catch\<close>, and \<open>try\<close>-\<open>finally\<close> with a synchronous last block.\<close>

definition seq :: "('s, 'r) task \<Rightarrow> ('r \<Rightarrow> ('s, 'q) task) \<Rightarrow> ('s, 'q) task" where
  "seq t f = resume t (\<lambda>r. case r of Inl e \<Rightarrow> throw e | Inr v \<Rightarrow> f v)"

definition try_catch :: "('s, 'r) task \<Rightarrow> (jserror \<Rightarrow> ('s, 'r) task) \<Rightarrow> ('s, 'r) task" where
  "try_catch t h = resume t (\<lambda>r. case r of Inl e \<Rightarrow> h e | Inr v \<Rightarrow> Done (Inr v))"

definition try_finally :: "('s, 'r) task \<Rightarrow> ('s \<Rightarrow> 's) \<Rightarrow> ('s, 'r) task" where
  "try_finally t g = resume t (\<lambda>r. Update g (Done r))"

text \<open>\<open>await f()\<close> for an \<open>async\<close> function of the page: other tasks may run before the caller goes on.\<close>

definition await_task :: "('s, 'r) task \<Rightarrow> ('r \<Rightarrow> ('s, 'q) task) \<Rightarrow> ('s, 'q) task" where
  "await_task t f = resume t (\<lambda>r. Await Tick (\<lambda>a. case r of Inl e \<Rightarrow> throw e | Inr v \<Rightarrow> f v))"

text \<open>\<open>await call\<close> and an expression that may throw.\<close>

definition await_call :: "call \<Rightarrow> (jsval \<Rightarrow> ('s, 'q) task) \<Rightarrow> ('s, 'q) task" where
  "await_call c f = Await c (\<lambda>a. case returned a of Inl e \<Rightarrow> throw e | Inr v \<Rightarrow> f v)"

definition eval_js :: "'a js \<Rightarrow> ('a \<Rightarrow> ('s, 'q) task) \<Rightarrow> ('s, 'q) task" where
  "eval_js r f = (case r of Inl e \<Rightarrow> throw e | Inr v \<Rightarrow> f v)"

text \<open>Induction over the continuations of a task.\<close>

lemma task_induct [case_names Done Await Look Update]:
  assumes "\<And>r. P (Done r)" "\<And>c k. (\<And>a. P (k a)) \<Longrightarrow> P (Await c k)"
    and "\<And>k. (\<And>s. P (k s)) \<Longrightarrow> P (Look k)" "\<And>f t. P t \<Longrightarrow> P (Update f t)"
  shows "P t"
  by (induction t) (auto intro: assms)

lemma resume_Done [simp]: "resume t Done = t"
  by (induction t) simp_all

lemma resume_assoc: "resume (resume t f) g = resume t (\<lambda>r. resume (f r) g)"
  by (induction t) simp_all

lemma seq_simps [simp]:
  "seq (throw e) f = throw e" "seq (Done (Inr v)) f = f v"
  "seq (Await c k) f = Await c (\<lambda>a. seq (k a) f)"
  "seq (Look l) f = Look (\<lambda>s. seq (l s) f)" "seq (Update g t) f = Update g (seq t f)"
  by (simp_all add: seq_def)

lemma try_catch_simps [simp]:
  "try_catch (throw e) h = h e" "try_catch (Done (Inr v)) h = Done (Inr v)"
  "try_catch (Await c k) h = Await c (\<lambda>a. try_catch (k a) h)"
  "try_catch (Look l) h = Look (\<lambda>s. try_catch (l s) h)" "try_catch (Update g t) h = Update g (try_catch t h)"
  by (simp_all add: try_catch_def)

lemma try_finally_simps [simp]:
  "try_finally (Done r) u = Update u (Done r)"
  "try_finally (Await c k) u = Await c (\<lambda>a. try_finally (k a) u)"
  "try_finally (Look l) u = Look (\<lambda>s. try_finally (l s) u)" "try_finally (Update g t) u = Update g (try_finally t u)"
  by (simp_all add: try_finally_def)

lemma seq_assoc: "seq (seq t f) g = seq t (\<lambda>v. seq (f v) g)"
  unfolding seq_def resume_assoc by (rule arg_cong [of _ _ "resume t"]) (auto split: sum.split)

section \<open>Running a task alone\<close>

text \<open>
  A server answers each call from the calls before it.  The run of a task yields its outcome, the
  calls in their order and the last state.
\<close>

type_synonym server = "call list \<Rightarrow> call \<Rightarrow> answer"

primrec exec :: "('s, 'r) task \<Rightarrow> server \<Rightarrow> call list \<Rightarrow> 's \<Rightarrow> 'r js \<times> call list \<times> 's" where
  "exec (Done r) = (\<lambda>srv tr s. (r, tr, s))"
| "exec (Await c k) = (\<lambda>srv tr s. exec (k (srv tr c)) srv (if c = Tick then tr else tr @ [c]) s)"
| "exec (Look k) = (\<lambda>srv tr s. exec (k s) srv tr s)"
| "exec (Update f t) = (\<lambda>srv tr s. exec t srv tr (f s))"

lemma exec_resume:
  "exec (resume t f) srv tr s = (case exec t srv tr s of (r, tr', s') \<Rightarrow> exec (f r) srv tr' s')"
  by (induction t arbitrary: tr s) simp_all

lemma exec_seq:
  "exec (seq t f) srv tr s = (case exec t srv tr s of
     (r, tr', s') \<Rightarrow> (case r of Inl e \<Rightarrow> (Inl e, tr', s') | Inr v \<Rightarrow> exec (f v) srv tr' s'))"
  by (auto simp: seq_def exec_resume split: prod.split sum.split)

lemma exec_try_catch:
  "exec (try_catch t h) srv tr s = (case exec t srv tr s of
     (r, tr', s') \<Rightarrow> (case r of Inl e \<Rightarrow> exec (h e) srv tr' s' | Inr v \<Rightarrow> (Inr v, tr', s')))"
  by (auto simp: try_catch_def exec_resume split: prod.split sum.split)

lemma exec_try_finally:
  "exec (try_finally t g) srv tr s = (case exec t srv tr s of (r, tr', s') \<Rightarrow> (r, tr', g s'))"
  by (auto simp: try_finally_def exec_resume split: prod.split)

lemma exec_await_task:
  "exec (await_task t f) srv tr s = (case exec t srv tr s of
     (r, tr', s') \<Rightarrow> (case r of Inl e \<Rightarrow> (Inl e, tr', s') | Inr v \<Rightarrow> exec (f v) srv tr' s'))"
  by (auto simp: await_task_def exec_resume split: prod.split sum.split)

lemma exec_await_call:
  "c \<noteq> Tick \<Longrightarrow> exec (await_call c f) srv tr s = (case returned (srv tr c) of
     Inl e \<Rightarrow> (Inl e, tr @ [c], s) | Inr v \<Rightarrow> exec (f v) srv (tr @ [c]) s)"
  by (auto simp: await_call_def split: sum.split)

lemma exec_eval_js:
  "exec (eval_js r f) srv tr s = (case r of Inl e \<Rightarrow> (Inl e, tr, s) | Inr v \<Rightarrow> exec (f v) srv tr s)"
  by (simp add: eval_js_def split: sum.split)

lemmas exec_simps = exec_seq exec_try_catch exec_try_finally exec_await_task exec_await_call exec_eval_js

lemma exec_log: "\<exists>calls. fst (snd (exec t srv tr s)) = tr @ calls"
proof (induction t arbitrary: tr s)
  case (Await c k)
  show ?case
    using Await [of "k (srv tr c)" "if c = Tick then tr else tr @ [c]" s] by (auto split: if_splits)
qed (simp_all)

section \<open>Interleaved runs\<close>

text \<open>A task runs until it ends or awaits.\<close>

primrec segment :: "('s, 'r) task \<Rightarrow> 's \<Rightarrow> 's \<times> ('s, 'r) task" where
  "segment (Done r) = (\<lambda>s. (s, Done r))"
| "segment (Await c k) = (\<lambda>s. (s, Await c k))"
| "segment (Look k) = (\<lambda>s. segment (k s) s)"
| "segment (Update f t) = (\<lambda>s. segment t (f s))"

text \<open>
  A page: it is mounted with what its first handlers left; at any time the user, a timer or the
  router starts another handler; and a pending task may get its answer, in any order.
\<close>

inductive page_run ::
    "('s \<Rightarrow> ('s, unit) task list \<Rightarrow> bool) \<Rightarrow> (('s, unit) task \<Rightarrow> bool) \<Rightarrow> 's \<Rightarrow> ('s, unit) task list \<Rightarrow> bool"
  for init handler where
  mount: "init s ts \<Longrightarrow> page_run init handler s ts"
| event: "page_run init handler s ts \<Longrightarrow> handler t \<Longrightarrow> segment t s = (s', t') \<Longrightarrow>
    page_run init handler s' (ts @ [t'])"
| answer: "page_run init handler s ts \<Longrightarrow> i < length ts \<Longrightarrow> ts ! i = Await c k \<Longrightarrow> suits c a \<Longrightarrow>
    segment (k a) s = (s', t') \<Longrightarrow> page_run init handler s' (ts[i := t'])"

lemma answer_last:
  assumes "page_run init handler s (ts @ [Await c k])" "suits c a" "segment (k a) s = (s', t')"
  shows "page_run init handler s' (ts @ [t'])"
  using page_run.answer [OF assms(1), of "length ts" c k a s' t'] assms(2,3) by simp

text \<open>The state after a pending task got an answer.\<close>

definition answered :: "('s, 'r) task \<Rightarrow> answer \<Rightarrow> 's \<Rightarrow> 's" where
  "answered t a s = (case t of Await c k \<Rightarrow> fst (segment (k a) s) | _ \<Rightarrow> s)"

lemma answered_Await [simp]: "answered (Await c k) a s = fst (segment (k a) s)"
  by (simp add: answered_def)

definition is_pending :: "('s, 'r) task \<Rightarrow> bool" where
  "is_pending t \<longleftrightarrow> (case t of Done r \<Rightarrow> False | _ \<Rightarrow> True)"

definition awaits :: "(call \<Rightarrow> bool) \<Rightarrow> ('s, 'r) task \<Rightarrow> bool" where
  "awaits P t \<longleftrightarrow> (case t of Await c k \<Rightarrow> P c | _ \<Rightarrow> False)"

lemma pending_simps [simp]:
  "is_pending (Await c k)" "\<not> is_pending (Done r)" "awaits P (Await c k) = P c" "\<not> awaits P (Done r)"
  by (simp_all add: is_pending_def awaits_def)

lemma segment_shape: "segment t s = (s', t') \<Longrightarrow> (\<exists>r. t' = Done r) \<or> (\<exists>c k. t' = Await c k)"
  by (induction t arbitrary: s rule: task_induct) auto

end
