(* ===== verification/PageContracts.thy ===== *)
theory PageContracts imports Async begin

text \<open>
  The contracts between the handlers of a page, each stated for one handler at a time, and what follows for every
  interleaving of them: invariants and calls (\<open>careful_page\<close>), a lock (\<open>locked_page\<close>), a flag that settles (\<open>settling_page\<close>),
  and numbered loads (\<open>numbered_page\<close>).
\<close>

section \<open>Frames\<close>

text \<open>A task that leaves a view of the state alone.\<close>

primrec indifferent :: "('s \<Rightarrow> 'x) \<Rightarrow> ('s, 'r) task \<Rightarrow> bool" where
  "indifferent view (Done r) = True"
| "indifferent view (Await c k) = (\<forall>a. suits c a \<longrightarrow> indifferent view (k a))"
| "indifferent view (Look k) = (\<forall>s. indifferent view (k s))"
| "indifferent view (Update f t) = ((\<forall>s. view (f s) = view s) \<and> indifferent view t)"

lemma indifferent_resume:
  "indifferent view t \<Longrightarrow> (\<And>r. indifferent view (f r)) \<Longrightarrow> indifferent view (resume t f)"
  by (induction t rule: task_induct) auto

text \<open>The rules that follow the structure of a handler.\<close>

named_theorems task_intro \<open>rules for the combinators of tasks\<close>

lemma indifferent_combinators [task_intro]:
  "indifferent view t1 \<Longrightarrow> (\<And>v. indifferent view (f1 v)) \<Longrightarrow> indifferent view (seq t1 f1)"
  "indifferent view t2 \<Longrightarrow> (\<And>e. indifferent view (h2 e)) \<Longrightarrow> indifferent view (try_catch t2 h2)"
  "indifferent view t3 \<Longrightarrow> (\<And>s. view (g3 s) = view s) \<Longrightarrow> indifferent view (try_finally t3 g3)"
  "indifferent view t4 \<Longrightarrow> (\<And>v. indifferent view (f4 v)) \<Longrightarrow> indifferent view (await_task t4 f4)"
  "(\<And>v. indifferent view (f5 v)) \<Longrightarrow> indifferent view (await_call c f5)"
  "(\<And>v. r6 = Inr v \<Longrightarrow> indifferent view (f6 v)) \<Longrightarrow> indifferent view (eval_js r6 f6)"
  "(\<And>s. indifferent view (l7 s)) \<Longrightarrow> indifferent view (Look l7)"
  "(\<And>s. view (g8 s) = view s) \<Longrightarrow> indifferent view t8 \<Longrightarrow> indifferent view (Update g8 t8)"
  "indifferent view (Done r9)"
  unfolding seq_def try_catch_def try_finally_def await_task_def await_call_def eval_js_def
  by (auto intro!: indifferent_resume split: sum.split)

section \<open>Invariants and calls\<close>

text \<open>
  A task that keeps a property of the state and, in states that have it, awaits only calls that satisfy a condition.
  With the trivial condition it is a task that keeps the property, with the trivial property one that sends certain calls
  whatever the state is.
\<close>

primrec careful :: "('s \<Rightarrow> bool) \<Rightarrow> (call \<Rightarrow> bool) \<Rightarrow> ('s, 'r) task \<Rightarrow> bool" where
  "careful P Q (Done r) = True"
| "careful P Q (Await c k) = (Q c \<and> (\<forall>a. suits c a \<longrightarrow> careful P Q (k a)))"
| "careful P Q (Look k) = (\<forall>s. P s \<longrightarrow> careful P Q (k s))"
| "careful P Q (Update f t) = ((\<forall>s. P s \<longrightarrow> P (f s)) \<and> careful P Q t)"

abbreviation keeps :: "('s \<Rightarrow> bool) \<Rightarrow> ('s, 'r) task \<Rightarrow> bool" where
  "keeps P \<equiv> careful P (\<lambda>c. True)"

abbreviation sends :: "(call \<Rightarrow> bool) \<Rightarrow> ('s, 'r) task \<Rightarrow> bool" where
  "sends Q \<equiv> careful (\<lambda>s. True) Q"

lemma careful_resume: "careful P Q t \<Longrightarrow> (\<And>r. careful P Q (f r)) \<Longrightarrow> careful P Q (resume t f)"
  by (induction t rule: task_induct) auto

lemma careful_segment: "careful P Q t \<Longrightarrow> P s \<Longrightarrow> segment t s = (s', t') \<Longrightarrow> P s' \<and> careful P Q t'"
  by (induction t arbitrary: s rule: task_induct) auto

lemma careful_combinators [task_intro]:
  "careful P Q t1 \<Longrightarrow> (\<And>v. careful P Q (f1 v)) \<Longrightarrow> careful P Q (seq t1 f1)"
  "careful P Q t2 \<Longrightarrow> (\<And>e. careful P Q (h2 e)) \<Longrightarrow> careful P Q (try_catch t2 h2)"
  "careful P Q t3 \<Longrightarrow> (\<And>s. P s \<Longrightarrow> P (g3 s)) \<Longrightarrow> careful P Q (try_finally t3 g3)"
  "careful P Q t4 \<Longrightarrow> Q Tick \<Longrightarrow> (\<And>v. careful P Q (f4 v)) \<Longrightarrow> careful P Q (await_task t4 f4)"
  "Q c \<Longrightarrow> (\<And>v. careful P Q (f5 v)) \<Longrightarrow> careful P Q (await_call c f5)"
  "(\<And>v. r6 = Inr v \<Longrightarrow> careful P Q (f6 v)) \<Longrightarrow> careful P Q (eval_js r6 f6)"
  "(\<And>s. P s \<Longrightarrow> careful P Q (l7 s)) \<Longrightarrow> careful P Q (Look l7)"
  "(\<And>s. P s \<Longrightarrow> P (g8 s)) \<Longrightarrow> careful P Q t8 \<Longrightarrow> careful P Q (Update g8 t8)"
  "careful P Q (Done r9)"
  unfolding seq_def try_catch_def try_finally_def await_task_def await_call_def eval_js_def
  by (auto intro!: careful_resume split: sum.split)

locale careful_page =
  fixes init :: "'s \<Rightarrow> ('s, unit) task list \<Rightarrow> bool" and handler :: "('s, unit) task \<Rightarrow> bool"
    and P :: "'s \<Rightarrow> bool" and Q :: "call \<Rightarrow> bool"
  assumes founded: "init s ts \<Longrightarrow> P s \<and> (\<forall>t \<in> set ts. careful P Q t)"
    and kept: "handler t \<Longrightarrow> careful P Q t"
begin

lemma run_careful: "page_run init handler s ts \<Longrightarrow> P s \<and> (\<forall>t \<in> set ts. careful P Q t)"
proof (induction rule: page_run.induct)
  case (mount s ts)
  then show ?case by (rule founded)
next
  case (event s ts t s' t')
  then show ?case using careful_segment [OF kept [OF event.hyps(2)] _ event.hyps(3)] by auto
next
  case (answer s ts i c k a s' t')
  have "careful P Q (k a)" using answer.IH answer.hyps(2,3,4) nth_mem by fastforce
  then show ?case
    using careful_segment [OF _ _ answer.hyps(5)] answer.IH set_update_subset_insert [of ts i t'] by auto
qed

text \<open>Every reachable state has the property, and every call that is on its way satisfies the condition.\<close>

lemma reachable: "page_run init handler s ts \<Longrightarrow> P s"
  using run_careful by blast

lemma asked:
  assumes "page_run init handler s ts" "Await c k \<in> set ts"
  shows "Q c"
  using run_careful [OF assms(1)] assms(2) by fastforce

end

section \<open>A lock kept in a flag\<close>

text \<open>
  \<open>lock_ok flag crit t h s\<close>: from the state \<open>s\<close>, where the task holds the lock if \<open>h\<close>, it sets the
  flag only when it was clear, clears it only when it set it itself, awaits critical calls only
  while it holds the lock, and gives it back before it ends.
\<close>

primrec lock_ok :: "('s \<Rightarrow> bool) \<Rightarrow> (call \<Rightarrow> bool) \<Rightarrow> ('s, 'r) task \<Rightarrow> bool \<Rightarrow> 's \<Rightarrow> bool" where
  "lock_ok flag crit (Done r) = (\<lambda>h s. \<not> h)"
| "lock_ok flag crit (Await c k) = (\<lambda>h s. (crit c \<longrightarrow> h) \<and>
     (\<forall>a s'. suits c a \<longrightarrow> (h \<longrightarrow> flag s') \<longrightarrow> lock_ok flag crit (k a) h s'))"
| "lock_ok flag crit (Look k) = (\<lambda>h s. lock_ok flag crit (k s) h s)"
| "lock_ok flag crit (Update f t) = (\<lambda>h s.
     if flag (f s) = flag s then lock_ok flag crit t h (f s)
     else if flag (f s) then lock_ok flag crit t True (f s)
     else h \<and> lock_ok flag crit t False (f s))"

lemma lock_ok_segment:
  "lock_ok flag crit t h s \<Longrightarrow> (h \<longrightarrow> flag s) \<Longrightarrow> segment t s = (s', t') \<Longrightarrow>
   \<exists>h'. (\<forall>s. lock_ok flag crit t' h' s) \<and> (h' \<longrightarrow> flag s')
     \<and> of_bool h' - of_bool h = (of_bool (flag s') - of_bool (flag s) :: int)"
proof (induction t arbitrary: h s rule: task_induct)
  case (Done r)
  then show ?case by (auto intro: exI [of _ False])
next
  case (Await c k)
  then show ?case by (auto intro: exI [of _ h])
next
  case (Look k)
  then show ?case by simp
next
  case (Update f t)
  show ?case
  proof (cases "flag (f s) = flag s")
    case True
    then show ?thesis using Update.IH [of h "f s"] Update.prems by simp
  next
    case False
    show ?thesis
    proof (cases "flag (f s)")
      case True
      then have "\<not> flag s" "\<not> h" using False Update.prems(2) by auto
      then show ?thesis using Update.IH [of True "f s"] Update.prems True by force
    next
      case cleared: False
      then have "flag s" "h" using False Update.prems(1) by auto
      then show ?thesis using Update.IH [of False "f s"] Update.prems cleared by force
    qed
  qed
qed

text \<open>A task that never touches the flag and never awaits a critical call may run anywhere.\<close>

primrec neutral :: "('s \<Rightarrow> bool) \<Rightarrow> (call \<Rightarrow> bool) \<Rightarrow> ('s, 'r) task \<Rightarrow> bool" where
  "neutral flag crit (Done r) = True"
| "neutral flag crit (Await c k) = (\<not> crit c \<and> (\<forall>a. suits c a \<longrightarrow> neutral flag crit (k a)))"
| "neutral flag crit (Look k) = (\<forall>s. neutral flag crit (k s))"
| "neutral flag crit (Update f t) = ((\<forall>s. flag (f s) = flag s) \<and> neutral flag crit t)"

lemma neutral_lock_ok: "neutral flag crit t \<Longrightarrow> lock_ok flag crit t False s"
  by (induction t arbitrary: s rule: task_induct) auto

lemma neutral_segment: "neutral flag crit t \<Longrightarrow> segment t s = (s', t') \<Longrightarrow> neutral flag crit t'"
  by (induction t arbitrary: s rule: task_induct) auto

lemma neutral_indifferent: "neutral flag crit t \<Longrightarrow> indifferent flag t"
  by (induction t rule: task_induct) auto

lemma neutral_resume:
  "neutral flag crit t \<Longrightarrow> (\<And>r. neutral flag crit (f r)) \<Longrightarrow> neutral flag crit (resume t f)"
  by (induction t rule: task_induct) auto

lemma neutral_combinators [task_intro]:
  "neutral flag crit t1 \<Longrightarrow> (\<And>v. neutral flag crit (f1 v)) \<Longrightarrow> neutral flag crit (seq t1 f1)"
  "neutral flag crit t2 \<Longrightarrow> (\<And>e. neutral flag crit (h2 e)) \<Longrightarrow> neutral flag crit (try_catch t2 h2)"
  "neutral flag crit t3 \<Longrightarrow> (\<And>s. flag (g3 s) = flag s) \<Longrightarrow> neutral flag crit (try_finally t3 g3)"
  "neutral flag crit t4 \<Longrightarrow> \<not> crit Tick \<Longrightarrow> (\<And>v. neutral flag crit (f4 v)) \<Longrightarrow> neutral flag crit (await_task t4 f4)"
  "\<not> crit c \<Longrightarrow> (\<And>v. neutral flag crit (f5 v)) \<Longrightarrow> neutral flag crit (await_call c f5)"
  "(\<And>v. r6 = Inr v \<Longrightarrow> neutral flag crit (f6 v)) \<Longrightarrow> neutral flag crit (eval_js r6 f6)"
  "(\<And>s. neutral flag crit (l7 s)) \<Longrightarrow> neutral flag crit (Look l7)"
  "(\<And>s. flag (g8 s) = flag s) \<Longrightarrow> neutral flag crit t8 \<Longrightarrow> neutral flag crit (Update g8 t8)"
  "neutral flag crit (Done r9)"
  unfolding seq_def try_catch_def try_finally_def await_task_def await_call_def eval_js_def
  by (auto intro!: neutral_resume split: sum.split)

text \<open>While the lock is held, critical calls are allowed too.\<close>

lemma lock_ok_held:
  "indifferent flag t \<Longrightarrow> flag s \<Longrightarrow> (\<And>r s. flag s \<Longrightarrow> lock_ok flag crit (f r) True s) \<Longrightarrow>
   lock_ok flag crit (resume t f) True s"
  by (induction t arbitrary: s rule: task_induct) auto

lemma lock_ok_release:
  "indifferent flag t \<Longrightarrow> flag s \<Longrightarrow> (\<And>s. flag s \<Longrightarrow> \<not> flag (g s)) \<Longrightarrow>
   lock_ok flag crit (try_finally t g) True s"
  unfolding try_finally_def by (rule lock_ok_held) auto

text \<open>The number of holders.\<close>

fun holders :: "bool list \<Rightarrow> int" where
  "holders [] = 0"
| "holders (h # hs) = of_bool h + holders hs"

lemma holders_append [simp]: "holders (hs @ ks) = holders hs + holders ks"
  by (induction hs) auto

lemma holders_nonneg: "0 \<le> holders hs"
  by (induction hs) auto

lemma holders_pos: "i < length hs \<Longrightarrow> hs ! i \<Longrightarrow> 1 \<le> holders hs"
proof (induction hs arbitrary: i)
  case (Cons h hs)
  then show ?case using holders_nonneg [of hs] by (cases i) force+
qed simp

lemma holders_none: "\<forall>i < length hs. \<not> hs ! i \<Longrightarrow> holders hs = 0"
  by (induction hs) (auto simp: All_less_Suc2)

lemma holders_update:
  "i < length hs \<Longrightarrow> holders (hs[i := h]) = holders hs + of_bool h - of_bool (hs ! i)"
proof (induction hs arbitrary: i)
  case (Cons x hs)
  then show ?case by (cases i) auto
qed simp

lemma holders_count:
  "length hs = length ts \<Longrightarrow> \<forall>i < length ts. P (ts ! i) \<longrightarrow> hs ! i \<Longrightarrow> int (length (filter P ts)) \<le> holders hs"
  by (induction hs ts rule: list_induct2) (auto simp: All_less_Suc2)

lemma holders_replicate [simp]: "holders (replicate n False) = 0"
  by (induction n) auto

locale locked_page =
  fixes init :: "'s \<Rightarrow> ('s, unit) task list \<Rightarrow> bool" and handler :: "('s, unit) task \<Rightarrow> bool"
    and flag :: "'s \<Rightarrow> bool" and crit :: "call \<Rightarrow> bool"
  assumes mounted: "init s ts \<Longrightarrow> \<not> flag s \<and> (\<forall>t \<in> set ts. neutral flag crit t)"
    and disciplined: "handler t \<Longrightarrow> lock_ok flag crit t False s"
begin

definition held :: "'s \<Rightarrow> ('s, unit) task list \<Rightarrow> bool list \<Rightarrow> bool" where
  "held s ts hs \<longleftrightarrow> length hs = length ts \<and> (\<forall>i < length ts. \<forall>s'. lock_ok flag crit (ts ! i) (hs ! i) s')
     \<and> holders hs = of_bool (flag s)"

lemma holder_flag:
  assumes "held s ts hs" "i < length ts" "hs ! i"
  shows "flag s"
proof -
  have "1 \<le> holders hs" using assms holders_pos [of i hs] by (simp add: held_def)
  then show ?thesis using assms(1) by (cases "flag s") (auto simp: held_def)
qed

lemma run_held: "page_run init handler s ts \<Longrightarrow> \<exists>hs. held s ts hs"
proof (induction rule: page_run.induct)
  case (mount s ts)
  have "held s ts (replicate (length ts) False)"
    using mounted [OF mount] by (auto simp: held_def intro: neutral_lock_ok)
  then show ?case by blast
next
  case (event s ts t s' t')
  obtain hs where hs: "held s ts hs" using event.IH by blast
  obtain h' where h': "\<forall>s. lock_ok flag crit t' h' s"
    "of_bool h' = (of_bool (flag s') - of_bool (flag s) :: int)"
    using lock_ok_segment [OF disciplined [OF event.hyps(2)] _ event.hyps(3)] by auto
  have "held s' (ts @ [t']) (hs @ [h'])"
    using hs h' by (auto simp: held_def nth_append)
  then show ?case by blast
next
  case (answer s ts i c k a s' t')
  obtain hs where hs: "held s ts hs" using answer.IH by blast
  have len: "length hs = length ts" using hs by (simp add: held_def)
  have "lock_ok flag crit (Await c k) (hs ! i) s" using hs answer.hyps(2,3) by (auto simp: held_def)
  moreover have "hs ! i \<longrightarrow> flag s" using holder_flag [OF hs answer.hyps(2)] by blast
  ultimately have "lock_ok flag crit (k a) (hs ! i) s" using answer.hyps(4) by simp
  then obtain h' where h': "\<forall>s. lock_ok flag crit t' h' s"
    "of_bool h' - of_bool (hs ! i) = (of_bool (flag s') - of_bool (flag s) :: int)"
    using lock_ok_segment [OF _ _ answer.hyps(5)] holder_flag [OF hs answer.hyps(2)] by blast
  have "holders (hs[i := h']) = holders hs + of_bool h' - of_bool (hs ! i)"
    using answer.hyps(2) len by (simp add: holders_update)
  then have "held s' (ts[i := t']) (hs[i := h'])"
    using hs h' answer.hyps(2) by (auto simp: held_def nth_list_update)
  then show ?case by blast
qed

text \<open>At any time at most one critical call is on its way, and then the flag is set.\<close>

lemma one_critical:
  assumes "page_run init handler s ts"
  shows "length (filter (awaits crit) ts) \<le> (if flag s then 1 else 0)"
proof -
  obtain hs where hs: "held s ts hs" using run_held [OF assms] by blast
  have "awaits crit (ts ! i) \<Longrightarrow> hs ! i" if "i < length ts" for i
    using hs that by (cases "ts ! i") (auto simp: held_def awaits_def)
  then have "int (length (filter (awaits crit) ts)) \<le> holders hs"
    using hs by (intro holders_count) (auto simp: held_def)
  then show ?thesis using hs by (cases "flag s") (auto simp: held_def)
qed

text \<open>When nothing is pending, the flag is clear.\<close>

lemma unlocked:
  assumes "page_run init handler s ts" "\<forall>t \<in> set ts. \<not> is_pending t"
  shows "\<not> flag s"
proof -
  obtain hs where hs: "held s ts hs" using run_held [OF assms(1)] by blast
  have "\<not> hs ! i" if "i < length ts" for i
    using hs that assms(2) nth_mem [OF that]
    by (cases "ts ! i") (fastforce simp: held_def is_pending_def)+
  then have "holders hs = 0" using hs holders_none [of hs] by (simp add: held_def)
  then show ?thesis using hs by (auto simp: held_def)
qed

end

section \<open>Tasks that clean up\<close>

text \<open>
  For loads without a number: a task that has set the busy flag owes its clearing.  \<open>settles busy t owed\<close>: however
  the task goes on, it ends owing nothing.
\<close>

primrec settles :: "('s \<Rightarrow> bool) \<Rightarrow> ('s, 'r) task \<Rightarrow> bool \<Rightarrow> bool" where
  "settles busy (Done r) = (\<lambda>owed. \<not> owed)"
| "settles busy (Await c k) = (\<lambda>owed. \<forall>a. suits c a \<longrightarrow> settles busy (k a) owed)"
| "settles busy (Look k) = (\<lambda>owed. \<forall>s. settles busy (k s) owed)"
| "settles busy (Update f t) = (\<lambda>owed. settles busy t
     (if \<forall>s. \<not> busy (f s) then False else if \<forall>s. busy (f s) \<longrightarrow> busy s then owed else True))"

lemma settles_less: "settles busy t True \<Longrightarrow> settles busy t owed"
  by (induction t arbitrary: owed rule: task_induct) (auto split: if_splits)

text \<open>One stretch of a task; \<open>others\<close> tells whether another task owes the clearing.\<close>

lemma settles_segment:
  "settles busy t owed \<Longrightarrow> (busy s \<longrightarrow> owed \<or> others) \<Longrightarrow> segment t s = (s', t') \<Longrightarrow>
   \<exists>owed'. settles busy t' owed' \<and> (busy s' \<longrightarrow> owed' \<or> others)"
proof (induction t arbitrary: s owed rule: task_induct)
  case (Update f t)
  let ?owed = "if \<forall>s. \<not> busy (f s) then False else if \<forall>s. busy (f s) \<longrightarrow> busy s then owed else True"
  have "settles busy t ?owed" "segment t (f s) = (s', t')" using Update.prems by simp_all
  moreover have "busy (f s) \<longrightarrow> ?owed \<or> others" using Update.prems(2) by auto
  ultimately show ?case using Update.IH [of ?owed "f s"] by blast
next
  case (Look k)
  then show ?case using Look.IH [of s owed s] by simp
next
  case (Await c k)
  then show ?case by (intro exI [of _ owed]) auto
qed auto

lemma settles_resume:
  "settles busy t owed \<Longrightarrow> (\<And>r. settles busy (f r) False) \<Longrightarrow> settles busy (resume t f) owed"
  by (induction t arbitrary: owed rule: task_induct) auto

lemma settles_finally: "(\<And>s. \<not> busy (g s)) \<Longrightarrow> settles busy (try_finally t g) owed"
  by (induction t arbitrary: owed rule: task_induct) auto

text \<open>The usual section: the flag is set, the work is tried, and the flag is cleared finally.\<close>

lemma settles_section: "(\<And>s. \<not> busy (g s)) \<Longrightarrow> settles busy (Update f (try_finally t g)) owed"
  by (simp add: settles_finally)

lemma settles_combinators [task_intro]:
  "settles busy t1 False \<Longrightarrow> (\<And>v. settles busy (f1 v) False) \<Longrightarrow> settles busy (seq t1 f1) False"
  "settles busy t2 False \<Longrightarrow> (\<And>e. settles busy (h2 e) False) \<Longrightarrow> settles busy (try_catch t2 h2) False"
  "settles busy t4 False \<Longrightarrow> (\<And>v. settles busy (f4 v) False) \<Longrightarrow> settles busy (await_task t4 f4) False"
  "(\<And>v. settles busy (f5 v) False) \<Longrightarrow> settles busy (await_call c f5) False"
  "(\<And>v. r6 = Inr v \<Longrightarrow> settles busy (f6 v) False) \<Longrightarrow> settles busy (eval_js r6 f6) False"
  "(\<And>s. settles busy (l7 s) False) \<Longrightarrow> settles busy (Look l7) False"
  "settles busy t3 False \<Longrightarrow> (\<And>s. busy (g3 s) \<Longrightarrow> busy s) \<Longrightarrow> settles busy (try_finally t3 g3) False"
  "(\<And>s. busy (g8 s) \<Longrightarrow> busy s) \<Longrightarrow> settles busy t8 False \<Longrightarrow> settles busy (Update g8 t8) False"
  "settles busy (Done r9) False"
  unfolding seq_def try_catch_def try_finally_def await_task_def await_call_def eval_js_def
  by (auto intro!: settles_resume split: sum.split)

definition owing :: "('s \<Rightarrow> bool) \<Rightarrow> 's \<Rightarrow> ('s, unit) task list \<Rightarrow> bool list \<Rightarrow> bool" where
  "owing busy s ts os \<longleftrightarrow> length os = length ts \<and> (\<forall>i < length ts. settles busy (ts ! i) (os ! i))
     \<and> (busy s \<longrightarrow> True \<in> set os)"

lemma owing_first:
  "settles busy t owed \<Longrightarrow> (busy s0 \<longrightarrow> owed) \<Longrightarrow> segment t s0 = (s, t') \<Longrightarrow> \<exists>os. owing busy s [t'] os"
  using settles_segment [of busy t owed s0 False s t'] by (fastforce simp: owing_def intro: exI [of _ "[_]"])

locale settling_page =
  fixes init :: "'s \<Rightarrow> ('s, unit) task list \<Rightarrow> bool" and handler :: "('s, unit) task \<Rightarrow> bool"
    and busy :: "'s \<Rightarrow> bool"
  assumes starts: "init s ts \<Longrightarrow> \<exists>os. owing busy s ts os"
    and settled: "handler t \<Longrightarrow> settles busy t False"
begin

lemma run_owing: "page_run init handler s ts \<Longrightarrow> \<exists>os. owing busy s ts os"
proof (induction rule: page_run.induct)
  case (mount s ts)
  then show ?case by (rule starts)
next
  case (event s ts t s' t')
  obtain os where os: "owing busy s ts os" using event.IH by blast
  obtain owed' where "settles busy t' owed'" "busy s' \<longrightarrow> owed' \<or> True \<in> set os"
    using settles_segment [OF settled [OF event.hyps(2)] _ event.hyps(3), of "True \<in> set os"] os
    by (auto simp: owing_def)
  then have "owing busy s' (ts @ [t']) (os @ [owed'])" using os by (auto simp: owing_def nth_append)
  then show ?case by blast
next
  case (answer s ts i c k a s' t')
  obtain os where os: "owing busy s ts os" using answer.IH by blast
  let ?others = "\<exists>j < length os. j \<noteq> i \<and> os ! j"
  have "settles busy (k a) (os ! i)" using os answer.hyps(2,3,4) by (fastforce simp: owing_def)
  moreover have "busy s \<longrightarrow> os ! i \<or> ?others" using os by (auto simp: owing_def in_set_conv_nth)
  ultimately obtain owed' where owed': "settles busy t' owed'" "busy s' \<longrightarrow> owed' \<or> ?others"
    using settles_segment [OF _ _ answer.hyps(5)] by blast
  have "busy s' \<longrightarrow> True \<in> set (os[i := owed'])"
    using owed'(2) os answer.hyps(2) by (auto simp: owing_def in_set_conv_nth nth_list_update split: if_splits)
  then have "owing busy s' (ts[i := t']) (os[i := owed'])"
    using os owed'(1) answer.hyps(2) by (auto simp: owing_def nth_list_update)
  then show ?case by blast
qed

text \<open>As long as the page is busy, a task is pending; at rest it is not busy.\<close>

lemma rested:
  assumes "page_run init handler s ts" "\<forall>t \<in> set ts. \<not> is_pending t"
  shows "\<not> busy s"
proof
  assume "busy s"
  then obtain os i where "i < length ts" "settles busy (ts ! i) True"
    using run_owing [OF assms(1)] by (auto simp: owing_def in_set_conv_nth)
  then show False using assms(2) nth_mem [of i ts] by (cases "ts ! i") (force simp: is_pending_def)+
qed

end

section \<open>Numbered loads\<close>

text \<open>
  A page numbers its loads with a counter.  \<open>clears good num busy n t s\<close>: run from \<open>s\<close>, with the counter at \<open>n\<close>
  whenever it goes on, the task ends with the busy flag clear.  Only states that satisfy \<open>good\<close> are considered, which every task keeps.
\<close>

primrec clears :: "('s \<Rightarrow> bool) \<Rightarrow> ('s \<Rightarrow> nat) \<Rightarrow> ('s \<Rightarrow> bool) \<Rightarrow> nat \<Rightarrow> ('s, 'r) task \<Rightarrow> 's \<Rightarrow> bool" where
  "clears good num busy n (Done r) = (\<lambda>s. num s = n \<longrightarrow> \<not> busy s)"
| "clears good num busy n (Await c k) = (\<lambda>s. num s = n \<longrightarrow> (\<forall>a s'.
     suits c a \<longrightarrow> good s' \<longrightarrow> num s' = n \<longrightarrow> (busy s' \<longrightarrow> busy s) \<longrightarrow> clears good num busy n (k a) s'))"
| "clears good num busy n (Look k) = (\<lambda>s. clears good num busy n (k s) s)"
| "clears good num busy n (Update f t) = (\<lambda>s. clears good num busy n t (f s))"

text \<open>
  A stretch of code that started in \<open>s0\<close> either left the counter and did not set the flag, or it
  advanced the counter and its remainder will clear the flag.
\<close>

definition accounted :: "('s \<Rightarrow> bool) \<Rightarrow> ('s \<Rightarrow> nat) \<Rightarrow> ('s \<Rightarrow> bool) \<Rightarrow> 's \<Rightarrow> 's \<Rightarrow> ('s, 'r) task \<Rightarrow> bool" where
  "accounted good num busy s0 s t \<longleftrightarrow>
     good s \<and> (num s = num s0 \<and> (busy s \<longrightarrow> busy s0) \<or> num s0 < num s \<and> clears good num busy (num s) t s)"

primrec counted :: "('s \<Rightarrow> bool) \<Rightarrow> ('s \<Rightarrow> nat) \<Rightarrow> ('s \<Rightarrow> bool) \<Rightarrow> ('s, 'r) task \<Rightarrow> 's \<Rightarrow> 's \<Rightarrow> bool" where
  "counted good num busy (Done r) = (\<lambda>s0 s. accounted good num busy s0 s (Done r :: ('s, 'r) task))"
| "counted good num busy (Await c k) = (\<lambda>s0 s. accounted good num busy s0 s (Await c k)
     \<and> (\<forall>a s'. suits c a \<longrightarrow> good s' \<longrightarrow> counted good num busy (k a) s' s'))"
| "counted good num busy (Look k) = (\<lambda>s0 s. counted good num busy (k s) s0 s)"
| "counted good num busy (Update f t) = (\<lambda>s0 s. counted good num busy t s0 (f s))"

lemma counted_segment:
  "counted good num busy t s0 s \<Longrightarrow> segment t s = (s', t') \<Longrightarrow>
   accounted good num busy s0 s' t' \<and> (\<forall>c k a s. t' = Await c k \<longrightarrow> suits c a \<longrightarrow> good s \<longrightarrow> counted good num busy (k a) s s)"
  by (induction t arbitrary: s rule: task_induct) auto

lemma clears_segment:
  "clears good num busy n t s \<Longrightarrow> segment t s = (s', t') \<Longrightarrow> clears good num busy n t' s'"
  by (induction t arbitrary: s rule: task_induct) auto

lemma indifferent_counted:
  "indifferent (\<lambda>s. (good s, num s, busy s)) t \<Longrightarrow> good s \<Longrightarrow> num s = num s0 \<Longrightarrow> (busy s \<longrightarrow> busy s0) \<Longrightarrow> counted good num busy t s0 s"
  by (induction t arbitrary: s0 s rule: task_induct) (auto simp: accounted_def)

text \<open>What may follow a load without disturbing the account.\<close>

lemma indifferent_clears:
  "indifferent (\<lambda>s. (good s, num s, busy s)) t \<Longrightarrow> (num s = n \<longrightarrow> \<not> busy s) \<Longrightarrow> clears good num busy n t s"
  by (induction t arbitrary: s rule: task_induct) auto

lemma clears_resume:
  "clears good num busy n t s \<Longrightarrow> (\<And>r s. (num s = n \<longrightarrow> \<not> busy s) \<Longrightarrow> clears good num busy n (f r) s) \<Longrightarrow>
   clears good num busy n (resume t f) s"
  by (induction t arbitrary: s rule: task_induct) auto

lemma indifferent_counted_from:
  fixes t :: "('s, 'q) task"
  assumes "accounted good num busy s0 s (Done r :: ('s, 'r) task)" "indifferent (\<lambda>s. (good s, num s, busy s)) t"
  shows "counted good num busy t s0 s"
  using assms
proof (induction t arbitrary: s rule: task_induct)
  case (Await c k)
  then have "counted good num busy (k a) s' s'" if "suits c a" "good s'" for a s'
    using that Await.prems(2) indifferent_counted [of good num busy "k a" s' s'] by simp
  moreover have "accounted good num busy s0 s (Await c k)"
    using Await.prems indifferent_clears [of good num busy "Await c k" s "num s"] by (auto simp: accounted_def)
  ultimately show ?case by simp
qed (auto simp: accounted_def)

lemma counted_resume:
  fixes t :: "('s, 'r) task" and f :: "'r js \<Rightarrow> ('s, 'q) task"
  assumes "counted good num busy t s0 s" "\<And>r. indifferent (\<lambda>s. (good s, num s, busy s)) (f r)"
  shows "counted good num busy (resume t f) s0 s"
  using assms(1)
proof (induction t arbitrary: s0 s rule: task_induct)
  case (Done r)
  then show ?case using indifferent_counted_from [OF _ assms(2)] by simp
next
  case (Await c k)
  have "clears good num busy n (resume (Await c k) f) s" if "clears good num busy n (Await c k) s" for n
    by (rule clears_resume [OF that]) (rule indifferent_clears [OF assms(2)])
  then show ?case using Await by (auto simp: accounted_def)
qed auto

text \<open>
  Tasks that account for every load they start, from any state on, compose.
\<close>

definition orderly :: "('s \<Rightarrow> bool) \<Rightarrow> ('s \<Rightarrow> nat) \<Rightarrow> ('s \<Rightarrow> bool) \<Rightarrow> ('s, 'r) task \<Rightarrow> bool" where
  "orderly good num busy t \<longleftrightarrow> (\<forall>s. good s \<longrightarrow> counted good num busy t s s)"

lemma counted_clears:
  "counted good num busy t s0 s \<Longrightarrow> (num s0 = n \<longrightarrow> \<not> busy s0) \<Longrightarrow> n \<le> num s0 \<Longrightarrow> clears good num busy n t s"
proof (induction t arbitrary: s0 s rule: task_induct)
  case (Await c k)
  have "clears good num busy n (k a) s'"
    if "num s = n" "suits c a" "good s'" "num s' = n" "busy s' \<longrightarrow> busy s" for a s'
  proof -
    have "num s = num s0 \<and> (busy s \<longrightarrow> busy s0)" using Await.prems(1,3) that(1) by (auto simp: accounted_def)
    then have "\<not> busy s'" using Await.prems(2) that(1,5) by auto
    moreover have "counted good num busy (k a) s' s'" using Await.prems(1) that by simp
    ultimately show ?thesis using Await.IH [of a s' s'] that(4) by simp
  qed
  then show ?case by simp
qed (auto simp: accounted_def)

lemma counted_shift:
  fixes t :: "('s, 'q) task"
  assumes "accounted good num busy s0 s1 (Done r :: ('s, 'r) task)" "counted good num busy t s1 s"
  shows "counted good num busy t s0 s"
proof -
  have shift: "accounted good num busy s0 s u"
    if "accounted good num busy s1 s u" "counted good num busy u s1 s" for u :: "('s, 'q) task" and s
    using assms(1) that counted_clears [OF that(2), of "num s"] by (auto simp: accounted_def)
  show ?thesis using assms(2)
  proof (induction t arbitrary: s rule: task_induct)
    case (Done r)
    then show ?case using shift [of s "Done r"] by simp
  next
    case (Await c k)
    then show ?case using shift [of s "Await c k"] by simp
  qed auto
qed

lemma clears_then:
  "counted good num busy t s0 s \<Longrightarrow> clears good num busy n t s \<Longrightarrow> n \<le> num s0 \<Longrightarrow> (\<And>r. orderly good num busy (f r)) \<Longrightarrow>
   clears good num busy n (resume t f) s"
proof (induction t arbitrary: s0 s rule: task_induct)
  case (Done r)
  then have "counted good num busy (f r) s s" by (simp add: accounted_def orderly_def)
  then show ?case using counted_clears [of good num busy "f r" s s n] Done.prems by (auto simp: accounted_def)
next
  case (Await c k)
  have "clears good num busy n (resume (k a) f) s'"
    if "num s = n" "suits c a" "good s'" "num s' = n" "busy s' \<longrightarrow> busy s" for a s'
    using Await.IH [of a s' s'] Await.prems that by simp
  then show ?case by simp
qed auto

lemma counted_then:
  "counted good num busy t s0 s \<Longrightarrow> (\<And>r. orderly good num busy (f r)) \<Longrightarrow> counted good num busy (resume t f) s0 s"
proof (induction t arbitrary: s0 s rule: task_induct)
  case (Done r)
  then have "counted good num busy (f r) s s" by (simp add: accounted_def orderly_def)
  then show ?case using Done.prems(1) counted_shift by simp
next
  case (Await c k)
  have rest: "counted good num busy (resume (k a) f) s' s'" if "suits c a" "good s'" for a s'
    using Await.IH [of a s' s'] Await.prems that by simp
  have "clears good num busy (num s) (resume (Await c k) f) s" if "clears good num busy (num s) (Await c k) s"
  proof -
    have "clears good num busy (num s) (resume (k a) f) s'"
      if "suits c a" "good s'" "num s' = num s" "busy s' \<longrightarrow> busy s" for a s'
      by (rule clears_then [of good num busy "k a" s' s'])
        (use \<open>clears good num busy (num s) (Await c k) s\<close> that Await.prems in simp_all)
    then show ?thesis by simp
  qed
  then show ?case using rest Await.prems(1) by (auto simp: accounted_def)
qed auto

lemma orderly_resume: "orderly good num busy t \<Longrightarrow> (\<And>r. orderly good num busy (f r)) \<Longrightarrow> orderly good num busy (resume t f)"
  by (simp add: orderly_def [of _ _ _ t] orderly_def [of _ _ _ "resume t f"] counted_then)

lemma orderly_Done: "orderly good num busy (Done r)"
  by (simp add: orderly_def accounted_def)

lemma orderly_Await: "(\<And>a. suits c a \<Longrightarrow> orderly good num busy (k a)) \<Longrightarrow> orderly good num busy (Await c k)"
  by (simp add: orderly_def accounted_def)

lemma orderly_Update:
  "(\<And>s. good s \<Longrightarrow> good (g s) \<and> num (g s) = num s \<and> (busy (g s) \<longrightarrow> busy s)) \<Longrightarrow> orderly good num busy t \<Longrightarrow>
   orderly good num busy (Update g t)"
  using counted_shift [of good num busy s "g s" "Inr ()" t "g s" for s]
  by (simp add: orderly_def accounted_def)

lemma orderly_combinators [task_intro]:
  "orderly good num busy t1 \<Longrightarrow> (\<And>v. orderly good num busy (f1 v)) \<Longrightarrow> orderly good num busy (seq t1 f1)"
  "orderly good num busy t2 \<Longrightarrow> (\<And>e. orderly good num busy (h2 e)) \<Longrightarrow> orderly good num busy (try_catch t2 h2)"
  "orderly good num busy t3 \<Longrightarrow> (\<And>s. good s \<Longrightarrow> good (g3 s) \<and> num (g3 s) = num s \<and> (busy (g3 s) \<longrightarrow> busy s)) \<Longrightarrow>
     orderly good num busy (try_finally t3 g3)"
  "orderly good num busy t4 \<Longrightarrow> (\<And>v. orderly good num busy (f4 v)) \<Longrightarrow> orderly good num busy (await_task t4 f4)"
  "(\<And>v. orderly good num busy (f5 v)) \<Longrightarrow> orderly good num busy (await_call c f5)"
  "(\<And>v. r6 = Inr v \<Longrightarrow> orderly good num busy (f6 v)) \<Longrightarrow> orderly good num busy (eval_js r6 f6)"
  "(\<And>s. good s \<Longrightarrow> orderly good num busy (l7 s)) \<Longrightarrow> orderly good num busy (Look l7)"
  "(\<And>s. good s \<Longrightarrow> good (g8 s) \<and> num (g8 s) = num s \<and> (busy (g8 s) \<longrightarrow> busy s)) \<Longrightarrow> orderly good num busy t8 \<Longrightarrow>
     orderly good num busy (Update g8 t8)"
  "orderly good num busy (Done r9)"
  unfolding seq_def try_catch_def try_finally_def await_task_def await_call_def eval_js_def
  by (auto intro!: orderly_resume orderly_Await orderly_Update orderly_Done split: sum.split) (simp add: orderly_def)

locale numbered_page =
  fixes init :: "'s \<Rightarrow> ('s, unit) task list \<Rightarrow> bool" and handler :: "('s, unit) task \<Rightarrow> bool"
    and good :: "'s \<Rightarrow> bool" and num :: "'s \<Rightarrow> nat" and busy :: "'s \<Rightarrow> bool"
  assumes begins: "init s ts \<Longrightarrow> good s \<and> (busy s \<longrightarrow> (\<exists>t \<in> set ts. is_pending t \<and> clears good num busy (num s) t s))
      \<and> (\<forall>c k a s'. Await c k \<in> set ts \<longrightarrow> suits c a \<longrightarrow> good s' \<longrightarrow> counted good num busy (k a) s' s')
      \<and> (\<forall>t \<in> set ts. (\<exists>c k. t = Await c k) \<or> (\<exists>r. t = Done r))"
    and counts: "handler t \<Longrightarrow> good s \<Longrightarrow> counted good num busy t s s"
begin

definition cared_for :: "'s \<Rightarrow> ('s, unit) task list \<Rightarrow> bool" where
  "cared_for s ts \<longleftrightarrow> good s \<and> (busy s \<longrightarrow> (\<exists>c k. Await c k \<in> set ts \<and> clears good num busy (num s) (Await c k) s))
     \<and> (\<forall>c k a s'. Await c k \<in> set ts \<longrightarrow> suits c a \<longrightarrow> good s' \<longrightarrow> counted good num busy (k a) s' s')"

lemma clears_await:
  "clears good num busy n (Await c k) s \<Longrightarrow> num s = n \<Longrightarrow> (busy s' \<longrightarrow> busy s) \<Longrightarrow>
   clears good num busy n (Await c k) s'"
  by auto

lemma settled_clears: "clears good num busy (num s) t s \<Longrightarrow> busy s \<Longrightarrow> segment t0 s0 = (s, t) \<Longrightarrow> \<exists>c k. t = Await c k"
  using segment_shape [of t0 s0 s t] by auto

lemma run_cared_for: "page_run init handler s ts \<Longrightarrow> cared_for s ts"
proof (induction rule: page_run.induct)
  case (mount s ts)
  then show ?case using begins [OF mount] by (fastforce simp: cared_for_def)
next
  case (event s ts t s' t')
  have new: "accounted good num busy s s' t'" "t' = Await c k \<Longrightarrow> suits c a \<Longrightarrow> good s1 \<Longrightarrow> counted good num busy (k a) s1 s1" for c k a s1
    using counted_segment [OF counts [OF event.hyps(2)] event.hyps(3)] event.IH by (auto simp: cared_for_def)
  have "\<exists>c k. Await c k \<in> set (ts @ [t']) \<and> clears good num busy (num s') (Await c k) s'" if flag: "busy s'"
  proof (cases "num s' = num s \<and> busy s")
    case True
    then obtain c k where owner: "Await c k \<in> set ts" "clears good num busy (num s) (Await c k) s"
      using event.IH by (auto simp: cared_for_def)
    then have "clears good num busy (num s') (Await c k) s'"
      using clears_await [OF owner(2), of s'] True by simp
    then show ?thesis using owner(1) by (metis UnI1 set_append)
  next
    case False
    then have "clears good num busy (num s') t' s'" using new(1) flag by (auto simp: accounted_def)
    moreover obtain c' k' where "t' = Await c' k'" using calculation settled_clears [OF _ flag event.hyps(3)] by blast
    moreover have "t' \<in> set (ts @ [t'])" by simp
    ultimately show ?thesis by metis
  qed
  moreover have "good s'" using new(1) by (simp add: accounted_def)
  ultimately show ?case using event.IH new(2) by (auto simp: cared_for_def)
next
  case (answer s ts i c k a s' t')
  have mem: "Await c k \<in> set ts" using answer.hyps(2,3) by (metis nth_mem)
  have new: "accounted good num busy s s' t'" "t' = Await c' k' \<Longrightarrow> suits c' a' \<Longrightarrow> good s1 \<Longrightarrow> counted good num busy (k' a') s1 s1" for c' k' a' s1
    using counted_segment [OF _ answer.hyps(5), of good num busy s] answer.IH answer.hyps(4) mem
    by (auto simp: cared_for_def)
  have found: "\<exists>c k. Await c k \<in> set (ts[i := t']) \<and> clears good num busy (num s') (Await c k) s'"
    if t': "clears good num busy (num s') t' s'" and b: "busy s'"
  proof -
    obtain c' k' where "t' = Await c' k'" using settled_clears [OF t' b answer.hyps(5)] by blast
    moreover have "t' \<in> set (ts[i := t'])" using answer.hyps(2) by (rule set_update_memI)
    ultimately show ?thesis using t' by blast
  qed
  have "\<exists>c k. Await c k \<in> set (ts[i := t']) \<and> clears good num busy (num s') (Await c k) s'" if flag: "busy s'"
  proof (cases "num s' = num s \<and> busy s")
    case True
    then obtain c' k' where owner: "Await c' k' \<in> set ts" "clears good num busy (num s') (Await c' k') s"
      using answer.IH by (auto simp: cared_for_def)
    show ?thesis
    proof (cases "Await c' k' = ts ! i")
      case True
      then have "clears good num busy (num s') (k a) s"
        using owner(2) answer.hyps(3,4) answer.IH \<open>num s' = num s \<and> busy s\<close> by (simp add: cared_for_def)
      then have "clears good num busy (num s') t' s'" using clears_segment answer.hyps(5) by fast
      then show ?thesis by (rule found [OF _ flag])
    next
      case False
      then obtain j where "j < length ts" "ts ! j = Await c' k'" "j \<noteq> i" using owner(1) by (metis in_set_conv_nth)
      then have "Await c' k' \<in> set (ts[i := t'])" by (metis length_list_update nth_list_update_neq nth_mem)
      moreover have "clears good num busy (num s') (Await c' k') s'"
        by (rule clears_await [OF owner(2)]) (use \<open>num s' = num s \<and> busy s\<close> in simp_all)
      ultimately show ?thesis by blast
    qed
  next
    case False
    then have "clears good num busy (num s') t' s'" using new(1) flag by (auto simp: accounted_def)
    then show ?thesis by (rule found [OF _ flag])
  qed
  moreover have "counted good num busy (k' a') s1 s1" if "Await c' k' \<in> set (ts[i := t'])" "suits c' a'" "good s1" for c' k' a' s1
    using that new(2) answer.IH set_update_subset_insert [of ts i t'] by (auto simp: cared_for_def)
  moreover have "good s'" using new(1) by (simp add: accounted_def)
  ultimately show ?case by (auto simp: cared_for_def)
qed

text \<open>When no task is pending, the page is not busy.\<close>

lemma at_rest:
  assumes "page_run init handler s ts" "\<forall>t \<in> set ts. \<not> is_pending t"
  shows "\<not> busy s"
  using run_cared_for [OF assms(1)] assms(2) by (fastforce simp: cared_for_def)

end

section \<open>Calls of a neutral task\<close>

text \<open>A server whose answers suit the calls.\<close>

definition polite :: "server \<Rightarrow> bool" where
  "polite srv \<longleftrightarrow> (\<forall>tr c. suits c (srv tr c))"

lemma exec_neutral:
  "neutral flag crit t \<Longrightarrow> polite srv \<Longrightarrow> exec t srv tr s = (r, tr', s') \<Longrightarrow> c \<in> set tr' \<Longrightarrow> crit c \<Longrightarrow> c \<in> set tr"
proof (induction t arbitrary: tr s rule: task_induct)
  case (Await c' k)
  then show ?case
    using Await.IH [of "srv tr c'" "if c' = Tick then tr else tr @ [c']" s] by (auto simp: polite_def split: if_splits)
qed auto

end
