(* ===== verification/NumberLaws.thy ===== *)
theory NumberLaws imports JsValues begin

text \<open>
  Whole numbers that a double holds exactly: \<open>Number(String(n))\<close> gives \<open>n\<close> back.
\<close>

section \<open>Doubles\<close>

lemma int_log2_bounds: "1 \<le> n \<Longrightarrow> 0 \<le> int_log2 n \<and> 2 ^ nat (int_log2 n) \<le> n"
proof (induction n rule: int_log2.induct)
  case (1 n)
  show ?case
  proof (cases "n < 2")
    case True
    then show ?thesis using 1 by (simp add: int_log2.simps)
  next
    case False
    then have IH: "0 \<le> int_log2 (n div 2)" "2 ^ nat (int_log2 (n div 2)) \<le> n div 2" using 1 by auto
    have "2 * 2 ^ nat (int_log2 (n div 2)) \<le> n" using IH(2) by linarith
    then show ?thesis using False IH(1)
      by (simp add: int_log2.simps [of n] nat_add_distrib)
  qed
qed

lemma rat_log2_int: "1 \<le> n \<Longrightarrow> n < 2 ^ 53 \<Longrightarrow> rat_log2 (of_int n) \<le> 52"
proof -
  assume n: "1 \<le> n" "n < 2 ^ 53"
  have b: "0 \<le> int_log2 n" "2 ^ nat (int_log2 n) \<le> n" using int_log2_bounds [OF n(1)] by auto
  have "int_log2 n \<le> 52"
  proof (rule ccontr)
    assume "\<not> int_log2 n \<le> 52"
    then have "(53::nat) \<le> nat (int_log2 n)" by linarith
    then have "(2::int) ^ 53 \<le> 2 ^ nat (int_log2 n)" by (rule power_increasing) simp
    then show False using b(2) n(2) by linarith
  qed
  moreover have "int_log2 1 = 0" by (simp add: int_log2.simps)
  ultimately show ?thesis by (simp add: rat_log2_def Let_def quotient_of_int)
qed

lemma to_double_int:
  assumes "0 \<le> n" "n < 2 ^ 53"
  shows "to_double (of_int n) = Fin (of_int n)"
proof (cases "n = 0")
  case True
  then show ?thesis by (simp add: to_double_def)
next
  case False
  then have n: "1 \<le> n" using assms by simp
  define e where "e = max (rat_log2 (of_int n) - 52) (- 1074)"
  have e: "e \<le> 0" using rat_log2_int [OF n assms(2)] by (simp add: e_def)
  have p: "pow2 e = 1 / 2 ^ nat (- e)" "pow2 e > 0" using e by (auto simp: pow2_def)
  have q: "(of_int n :: rat) / pow2 e = of_int (n * 2 ^ nat (- e))" using p by simp
  have r: "round_half_even (of_int m) = m" for m by (simp add: round_half_even_def)
  have restored: "(of_int (n * 2 ^ nat (- e)) :: rat) * pow2 e = of_int n" using p by simp
  have "round_half_even (of_int n / pow2 e) = n * 2 ^ nat (- e)" unfolding q by (rule r)
  then show ?thesis using False assms(1) e restored
    by (simp only: to_double_def Let_def abs_of_nonneg of_int_0_le_iff e_def [symmetric]) simp
qed

lemma int_log2_upper: "1 \<le> n \<Longrightarrow> n < 2 ^ (nat (int_log2 n) + 1)"
proof (induction n rule: int_log2.induct)
  case (1 n)
  show ?case
  proof (cases "n < 2")
    case True
    then show ?thesis by (simp add: int_log2.simps)
  next
    case False
    then have IH: "n div 2 < 2 ^ (nat (int_log2 (n div 2)) + 1)" "0 \<le> int_log2 (n div 2)"
      using 1 int_log2_bounds [of "n div 2"] by auto
    have "n < 2 * 2 ^ (nat (int_log2 (n div 2)) + 1)" using IH(1) by linarith
    then show ?thesis using False IH(2) by (simp add: int_log2.simps [of n] nat_add_distrib)
  qed
qed

lemma pow2_diff: "pow2 (int a - int b) = 2 ^ a / 2 ^ b"
proof (cases "b \<le> a")
  case True
  then have "nat (int a - int b) = a - b" by simp
  then show ?thesis using True by (simp add: pow2_def power_diff)
next
  case False
  then have "nat (- (int a - int b)) = b - a" by simp
  then show ?thesis using False by (simp add: pow2_def power_diff)
qed

lemma rat_log2_lower: "0 < q \<Longrightarrow> pow2 (rat_log2 q) \<le> q"
proof -
  assume q: "0 < q"
  obtain p r where pr: "quotient_of q = (p, r)" by fastforce
  have frac: "q = of_int p / of_int r" "0 < r" using quotient_of_div [OF pr] quotient_of_denom_pos [OF pr] by auto
  then have "0 < p" using q by (simp add: zero_less_divide_iff)
  then have lp: "0 \<le> int_log2 p" "2 ^ nat (int_log2 p) \<le> p" using int_log2_bounds [of p] by auto
  have lr: "0 \<le> int_log2 r" "r \<le> 2 ^ (nat (int_log2 r) + 1)"
    using int_log2_bounds [of r] int_log2_upper [of r] frac(2) by auto
  have "pow2 (int_log2 p - int_log2 r - 1) = 2 ^ nat (int_log2 p) / 2 ^ (nat (int_log2 r) + 1)"
    using pow2_diff [of "nat (int_log2 p)" "nat (int_log2 r) + 1"] lp(1) lr(1) by (simp add: algebra_simps)
  also have "\<dots> \<le> of_int p / 2 ^ (nat (int_log2 r) + 1)"
    using lp(2) by (intro divide_right_mono) (metis of_int_le_iff of_int_numeral of_int_power, simp)
  also have "\<dots> \<le> q"
    unfolding frac(1) using lr(2) frac(2) \<open>0 < p\<close>
    by (intro divide_left_mono) (metis of_int_le_iff of_int_numeral of_int_power, simp_all)
  finally show ?thesis by (simp add: rat_log2_def pr Let_def)
qed

text \<open>Rounding does not cross a whole number below \<open>2 ^ 53\<close>.\<close>

lemma round_bounds: "0 \<le> x \<Longrightarrow> x \<le> of_int m \<Longrightarrow> 0 \<le> round_half_even x \<and> round_half_even x \<le> m"
proof -
  assume x: "0 \<le> x" "x \<le> of_int m"
  have "\<lfloor>x\<rfloor> < m" if "x \<noteq> of_int \<lfloor>x\<rfloor>"
    using that x(2) of_int_floor_le [of x] by (cases "x = of_int m") (simp, simp add: floor_less_iff)
  then have "\<lfloor>x\<rfloor> + 1 \<le> m \<or> x = of_int \<lfloor>x\<rfloor>" by linarith
  moreover have "0 \<le> \<lfloor>x\<rfloor>" "\<lfloor>x\<rfloor> \<le> m" using x by (auto simp: floor_le_iff)
  ultimately show ?thesis by (auto simp: round_half_even_def Let_def)
qed

lemma to_double_bounds:
  assumes "0 \<le> q" "q \<le> of_int n" "1 \<le> n" "n < 2 ^ 53"
  shows "\<exists>v. to_double q = Fin v \<and> 0 \<le> v \<and> v \<le> of_int n"
proof (cases "q = 0")
  case True
  then show ?thesis using assms(3) by (simp add: to_double_def)
next
  case False
  then have q: "0 < q" using assms(1) by simp
  define e where "e = max (rat_log2 q - 52) (- 1074)"
  have "rat_log2 q \<le> 52"
  proof (rule ccontr)
    assume "\<not> rat_log2 q \<le> 52"
    then have "pow2 (rat_log2 q) = 2 ^ nat (rat_log2 q)" "53 \<le> nat (rat_log2 q)" by (auto simp: pow2_def)
    then have "(2 :: rat) ^ 53 \<le> pow2 (rat_log2 q)" using power_increasing [of 53 "nat (rat_log2 q)" "2 :: rat"] by simp
    then have "of_int (2 ^ 53) \<le> q" using rat_log2_lower [OF q] by simp
    then have "of_int (2 ^ 53) \<le> (of_int n :: rat)" using assms(2) by linarith
    then show False using assms(4) by (simp only: of_int_le_iff)
  qed
  then have e: "e \<le> 0" by (simp add: e_def)
  then have p: "pow2 e = 1 / 2 ^ nat (- e)" by (auto simp: pow2_def)
  let ?m = "round_half_even (q / pow2 e)"
  have "q / pow2 e \<le> of_int (n * 2 ^ nat (- e))" using assms(2) p by (simp add: mult_right_mono)
  moreover have "0 \<le> q / pow2 e" using q p by simp
  ultimately have m: "0 \<le> ?m" "?m \<le> n * 2 ^ nat (- e)" using round_bounds by blast+
  have "of_int ?m * pow2 e \<le> (of_int (n * 2 ^ nat (- e)) :: rat) * pow2 e"
    using m(2) p by (intro mult_right_mono) (simp_all only: of_int_le_iff, simp)
  also have "\<dots> = of_int n" using p by simp
  finally have "of_int ?m * pow2 e \<le> of_int n" .
  moreover have "0 \<le> of_int ?m * pow2 e" using m(1) p by simp
  ultimately show ?thesis using q e by (simp add: to_double_def Let_def e_def [symmetric])
qed

section \<open>Digits\<close>

lemma dec_digits_digit: "0 \<le> n \<Longrightarrow> c \<in> set (dec_digits n) \<Longrightarrow> is_digit c"
proof (induction n rule: dec_digits.induct)
  case (1 n)
  then show ?case
    by (cases "n < 10") (auto simp: dec_digits.simps [of n] is_digit_def)
qed

lemma digits_value_snoc:
  "digits_value 10 (s @ [nat (48 + d)]) = 10 * digits_value 10 s + d" if "0 \<le> d" "d < 10"
  using that by (simp add: digits_value_def)

lemma digits_value_dec: "0 \<le> n \<Longrightarrow> digits_value 10 (dec_digits n) = n"
proof (induction n rule: dec_digits.induct)
  case (1 n)
  show ?case
  proof (cases "n < 10")
    case True
    then show ?thesis using digits_value_snoc [of n "[]"] 1 by (simp add: dec_digits.simps [of n] digits_value_def)
  next
    case False
    then show ?thesis using 1 digits_value_snoc [of "n mod 10" "dec_digits (n div 10)"]
      by (simp add: dec_digits.simps [of n])
  qed
qed

lemma dec_digits_head:
  "0 < n \<Longrightarrow> \<exists>c r. dec_digits n = c # r \<and> c \<noteq> 48"
proof (induction n rule: dec_digits.induct)
  case (1 n)
  show ?case
  proof (cases "n < 10")
    case True
    then show ?thesis using 1 by (simp add: dec_digits.simps [of n])
  next
    case False
    then have "0 < n div 10" by (simp add: pos_imp_zdiv_pos_iff)
    then obtain c r where "dec_digits (n div 10) = c # r" "c \<noteq> 48" using 1 False by auto
    then show ?thesis using False by (simp add: dec_digits.simps [of n])
  qed
qed

lemma digit_not_space: "is_digit c \<Longrightarrow> \<not> is_space c"
  by (auto simp: is_digit_def is_space_def)

lemma parse_digits:
  assumes "s \<noteq> []" "\<And>c. c \<in> set s \<Longrightarrow> is_digit c"
  shows "parse_unsigned s = to_double (of_int (digits_value 10 s))"
proof -
  have all: "takeWhile is_digit s = s" "dropWhile is_digit s = []" using assms(2) by simp_all
  moreover have "s \<noteq> js ''Infinity''"
  proof
    assume "s = js ''Infinity''"
    then have "is_digit 73" using assms(2) [of 73] by (simp add: js_def)
    then show False by (simp add: is_digit_def)
  qed
  ultimately show ?thesis using assms(1)
    unfolding parse_unsigned_def all by (simp add: Let_def parse_exponent_def pow10_def)
qed

lemma trim_solid: "(\<And>c. c \<in> set s \<Longrightarrow> \<not> is_space c) \<Longrightarrow> trim s = s"
proof -
  assume s: "\<And>c. c \<in> set s \<Longrightarrow> \<not> is_space c"
  have "dropWhile is_space x = x" if "set x \<subseteq> set s" for x using that s by (cases x) auto
  then show ?thesis by (simp add: trim_def)
qed

lemma number_of_string:
  assumes "0 \<le> n" "n < 2 ^ 53"
  shows "string_to_num (dec_digits n) = Fin (of_int n)"
proof -
  obtain c r where s: "dec_digits n = c # r" by (cases "dec_digits n") (auto simp: dec_digits.simps [of n] split: if_splits)
  have digits: "\<And>d. d \<in> set (dec_digits n) \<Longrightarrow> is_digit d" using dec_digits_digit [OF assms(1)] .
  have "radix_literal (dec_digits n) = None"
  proof (cases "n = 0")
    case True
    then show ?thesis by (simp add: dec_digits.simps [of 0] radix_literal_def)
  next
    case False
    then show ?thesis using dec_digits_head [of n] assms(1) by (auto simp: radix_literal_def split: list.split)
  qed
  moreover have "trim (dec_digits n) = dec_digits n"
    using digits digit_not_space by (intro trim_solid) blast
  moreover have "c \<noteq> 43 \<and> c \<noteq> 45" using digits [of c] s by (auto simp: is_digit_def)
  ultimately show ?thesis
    using parse_digits [of "c # r"] digits digits_value_dec [OF assms(1)] to_double_int [OF assms]
    unfolding s by (simp add: string_to_num_def)
qed

lemma num_to_string_int: "0 \<le> n \<Longrightarrow> n \<le> 2 ^ 53 \<Longrightarrow> num_to_string (Fin (of_int n)) = dec_digits n"
  by (auto simp: num_to_string_def dec_digits.simps [of 0] js_def)

lemma number_string_roundtrip:
  "0 \<le> n \<Longrightarrow> n < 2 ^ 53 \<Longrightarrow> to_number (JStr (to_string (N n))) = Fin (of_int n)"
  by (simp add: num_to_string_int number_of_string)

end
