(* ===== verification/PageCommon.thy ===== *)
theory PageCommon imports PageContracts ContractServices NumberLaws begin

text \<open>
  What the pages share: reading the address of the page, the methods they call on form values, and
  the meaning of an awaited call in terms of the API client.
\<close>

section \<open>Form values and the address\<close>

text \<open>\<open>v.trim()\<close>: only a string has the method.\<close>

definition trim_val :: "jsval \<Rightarrow> jstr js" where
  "trim_val v = (case v of JStr s \<Rightarrow> Inr (trim s) | _ \<Rightarrow> Inl TypeError)"

lemma trim_val_simps [simp]: "trim_val (JStr s) = Inr (trim s)" "trim_val JUndef = Inl TypeError"
  by (simp_all add: trim_val_def)

lemma trim_val_string: "is_string v \<Longrightarrow> \<exists>s. v = JStr s \<and> trim_val v = Inr (trim s)"
  by (cases v) auto

text \<open>\<open>String(route.query.k || d)\<close>.\<close>

definition query_text :: "props \<Rightarrow> string \<Rightarrow> string \<Rightarrow> jstr" where
  "query_text q k d = to_string (js_or (lookup_prop q (js k)) (S d))"

text \<open>\<open>Math.max(1, Number(route.query.k || d) || d)\<close>.\<close>

definition num_or :: "jnum \<Rightarrow> jnum \<Rightarrow> jnum" where
  "num_or a b = (if truthy (JNum a) then a else b)"

definition query_count :: "props \<Rightarrow> string \<Rightarrow> int \<Rightarrow> jnum" where
  "query_count q k d = math_max (Fin 1) (num_or (to_number (js_or (lookup_prop q (js k)) (N d))) (Fin (of_int d)))"

lemma query_count_positive: "Fin 1 \<le> query_count q k d" if "1 \<le> d"
  using that
  by (cases "to_number (js_or (lookup_prop q (js k)) (N d))")
    (auto simp: query_count_def math_max_def num_or_def truthy_def less_eq_jnum_def)

text \<open>\<open>Object.fromEntries(Object.entries(params).map(([key, value]) => [key, String(value)]))\<close>.\<close>

definition stringify_params :: "props \<Rightarrow> jsval" where
  "stringify_params ps = JObj (from_entries (map (\<lambda>(k, v). (k, JStr (to_string v))) ps))"

text \<open>\<open>{ ...route.query, key: v }\<close> and \<open>delete query.key\<close>.\<close>

definition delete_key :: "props \<Rightarrow> jstr \<Rightarrow> props" where
  "delete_key ps k = filter (\<lambda>p. fst p \<noteq> k) ps"

lemma map_of_delete_key: "map_of (delete_key ps k) k' = (if k' = k then None else map_of ps k')"
  by (induction ps) (auto simp: delete_key_def)

text \<open>Building the address from text filters: a filter that is empty leaves it.\<close>

definition put_text :: "jstr \<Rightarrow> string \<Rightarrow> props \<Rightarrow> props" where
  "put_text v k q = (if v \<noteq> [] then put q (js k) (JStr v) else delete_key q (js k))"

text \<open>Reading a parameter back from the address it was written to.\<close>

lemma stringified_lookup:
  assumes "distinct (map fst fs)" "stringify_params (filter (\<lambda>e. given (snd e)) fs) = JObj q"
    and "map_of fs k = Some v" "plain_key k"
  shows "lookup_prop q k = (if given v then JStr (to_string v) else JUndef)"
proof -
  let ?g = "\<lambda>(k, v). (k, JStr (to_string v))"
  have keys: "map fst (map ?g xs) = map fst xs" for xs by (induction xs) auto
  have "distinct (map fst (map ?g (filter (\<lambda>e. given (snd e)) fs)))"
    unfolding keys using assms(1) by (rule distinct_map_filter)
  then have q: "q = map ?g (filter (\<lambda>e. given (snd e)) fs)"
    using assms(2) by (simp add: stringify_params_def from_entries_distinct)
  have "map_of (map ?g xs) k = map_option (\<lambda>v. JStr (to_string v)) (map_of xs k)" for xs
    by (induction xs) auto
  then have "map_of q k = (if given v then Some (JStr (to_string v)) else None)"
    using assms(3) by (simp add: q map_of_filter_distinct [OF assms(1)])
  then show ?thesis using assms(4) by (auto simp: lookup_prop_some lookup_prop_none)
qed

lemma given_number: "1 \<le> i \<Longrightarrow> i < 2 ^ 53 \<Longrightarrow> given (N i)"
proof -
  assume i: "1 \<le> i" "i < 2 ^ 53"
  have "\<not> is_space c" if "c \<in> set (dec_digits i)" for c
    using dec_digits_digit [of i c] digit_not_space that i by simp
  then have "trim (dec_digits i) = dec_digits i" by (rule trim_solid)
  moreover have "dec_digits i \<noteq> []" using dec_digits_head [of i] i by auto
  ultimately show ?thesis using i by (simp add: given_def num_to_string_int)
qed

lemma query_count_back:
  assumes "1 \<le> i" "i < 2 ^ 53" "lookup_prop q (js k) = JStr (dec_digits i)"
  shows "query_count q k d = Fin (of_int i)"
proof -
  have "dec_digits i \<noteq> []" using dec_digits_head [of i] assms(1) by auto
  then show ?thesis using assms number_of_string [of i]
    by (simp add: query_count_def js_or_def num_or_def math_max_def)
qed

lemma given_text: "given (JStr t) \<longleftrightarrow> trim t \<noteq> []"
  by (simp add: given_def)

section \<open>Awaited calls\<close>

text \<open>What the API client makes of a call; \<open>file\<close> is the object behind a picked file.\<close>

definition serve :: "host \<Rightarrow> ('file wire \<Rightarrow> fetch_result) \<Rightarrow> (jsfile \<Rightarrow> 'file) \<Rightarrow> call \<Rightarrow> jsval js" where
  "serve h fetch file' c = fst (case c of
      Get path params \<Rightarrow> adminGet h fetch path params
    | Post path body \<Rightarrow> adminPost h fetch path body (JObj [])
    | Put path body \<Rightarrow> adminPut h fetch path body (JObj [])
    | Upload path f \<Rightarrow> adminUpload h fetch path (file' f) (JObj [])
    | Login user password \<Rightarrow> adminLogin h fetch (JStr user) (JStr password)
    | _ \<Rightarrow> (Inl TypeError, []))"

text \<open>\<open>Array.isArray(result.data) ? result.data : []\<close> on a result that may be nullish.\<close>

definition data_array :: "jsval \<Rightarrow> jsval list js" where
  "data_array result = andThen (get_or_throw result (js ''data'')) (\<lambda>d. Inr (elems d))"

lemma suits_simps [simp]:
  "suits (Get p q) a \<longleftrightarrow> (\<exists>r. a = Returned r)" "suits (Post p q) a \<longleftrightarrow> (\<exists>r. a = Returned r)"
  "suits (Put p q) a \<longleftrightarrow> (\<exists>r. a = Returned r)" "suits (Upload p f) a \<longleftrightarrow> (\<exists>r. a = Returned r)"
  "suits (Login u w) a \<longleftrightarrow> (\<exists>r. a = Returned r)" "suits (StoreAction n v) a \<longleftrightarrow> (\<exists>r. a = Returned r \<and> (n = ''ensureSession'' \<or> (\<exists>v. r = Inr v)))"
  "suits (Replace q) a \<longleftrightarrow> (\<exists>v. a = Returned (Inr v))" "suits (Push q) a \<longleftrightarrow> (\<exists>v. a = Returned (Inr v))"
  "suits Tick a" "suits (ReadFile f) a \<longleftrightarrow> (\<exists>b. a = Buffer b)"
  "suits (AllSettled cs) a \<longleftrightarrow> (\<exists>rs. a = Results rs \<and> length rs = length cs)"
  "suits (All cs) a \<longleftrightarrow> (\<exists>r. a = Returned r \<and> (\<forall>v. r = Inr v \<longrightarrow> (\<exists>vs. v = JArr vs \<and> length vs = length cs)))"
  by (auto simp: suits_def)

section \<open>Servers for examples\<close>

text \<open>One that answers every request with the same value, and one that refuses every request.\<close>

fun constant_server :: "jsval js \<Rightarrow> server" where
  "constant_server r tr (ReadFile f) = Buffer (Inr [])"
| "constant_server r tr (AllSettled cs) = Results (map (\<lambda>c. r) cs)"
| "constant_server r tr (All cs) = Returned (andThen r (\<lambda>v. Inr (JArr (map (\<lambda>c. v) cs))))"
| "constant_server r tr (Replace q) = Returned (Inr JUndef)"
| "constant_server r tr (Push q) = Returned (Inr JUndef)"
| "constant_server r tr (StoreAction n v) = Returned (if n = ''ensureSession'' then r else Inr JUndef)"
| "constant_server r tr c = Returned r"

lemma constant_polite: "polite (constant_server r)"
  unfolding polite_def
proof (intro allI)
  fix tr c
  show "suits c (constant_server r tr c)" by (cases c; cases r) auto
qed

end
