(* ===== verification/ServicesPage.thy ===== *)
theory ServicesPage imports PageCommon begin

text \<open>
  \<open>views/ContractServicesView.vue\<close>: the list of interface-contract services with its filters, and
  the dialog that creates one.
\<close>

section \<open>State\<close>

record service_form =
  sf_project_key :: jsval
  sf_service_key :: jsval
  sf_name :: jsval
  sf_description :: jsval

record services_page =
  sp_route :: props
  sp_principal :: jsval
  sp_projectKey :: jsval
  sp_status :: jsval
  sp_keyword :: jsval
  sp_projects :: "jsval list"
  sp_rows :: "jsval list"
  sp_loading :: bool
  sp_error :: "jserror option"
  sp_page :: jnum
  sp_pageSize :: jnum
  sp_total :: jnum
  sp_dialogVisible :: bool
  sp_saving :: bool
  sp_formError :: "jserror option"
  sp_form :: service_form
  sp_sequence :: nat
  sp_pushed :: "jsval list"

text \<open>
  The set-up from the address and from \<open>session.me?.project_key\<close>.  \<open>sp_pushed\<close> lists the
  navigations that were started and not awaited.
\<close>

definition empty_form :: "jsval \<Rightarrow> service_form" where
  "empty_form key = \<lparr>sf_project_key = key, sf_service_key = S '''', sf_name = S '''', sf_description = S ''''\<rparr>"

definition services_initial :: "props \<Rightarrow> jsval \<Rightarrow> services_page" where
  "services_initial q me_key =
     \<lparr>sp_route = q, sp_principal = me_key,
      sp_projectKey = JStr (query_text q ''project_key'' ''''), sp_status = JStr (query_text q ''status'' ''''),
      sp_keyword = JStr (query_text q ''keyword'' ''''), sp_projects = [], sp_rows = [], sp_loading = False,
      sp_error = None, sp_page = query_count q ''page'' 1, sp_pageSize = query_count q ''page_size'' 20,
      sp_total = Fin 0, sp_dialogVisible = False, sp_saving = False, sp_formError = None,
      sp_form = empty_form (S ''''), sp_sequence = 0, sp_pushed = []\<rparr>"

section \<open>Parameters\<close>

definition service_params :: "jsval \<Rightarrow> jsval \<Rightarrow> jsval \<Rightarrow> jnum \<Rightarrow> jnum \<Rightarrow> props js" where
  "service_params project status keyword page' pageSize = buildContractServiceListParams (JObj
     [(js ''projectKey'', project), (js ''status'', status), (js ''keyword'', keyword),
      (js ''page'', JNum page'), (js ''pageSize'', JNum pageSize)])"

definition services_currentParams :: "services_page \<Rightarrow> props js" where
  "services_currentParams s =
     andThen (trim_val (sp_projectKey s)) (\<lambda>project.
     andThen (trim_val (sp_keyword s)) (\<lambda>keyword.
       service_params (JStr project) (sp_status s) (JStr keyword) (sp_page s) (sp_pageSize s)))"

definition services_routeParams :: "props \<Rightarrow> props js" where
  "services_routeParams q = service_params (JStr (query_text q ''project_key'' ''''))
     (JStr (query_text q ''status'' '''')) (JStr (query_text q ''keyword'' ''''))
     (query_count q ''page'' 1) (query_count q ''page_size'' 20)"

definition services_applyRouteParams :: "props \<Rightarrow> services_page \<Rightarrow> services_page" where
  "services_applyRouteParams params s = s\<lparr>
     sp_projectKey := JStr (query_text params ''project_key'' ''''),
     sp_status := JStr (query_text params ''status'' ''''),
     sp_keyword := JStr (query_text params ''keyword'' ''''),
     sp_page := to_number (js_or (lookup_prop params (js ''page'')) (N 1)),
     sp_pageSize := to_number (js_or (lookup_prop params (js ''page_size'')) (N 20))\<rparr>"

section \<open>Loading\<close>

definition services_syncQuery :: "props \<Rightarrow> (services_page, unit) task" where
  "services_syncQuery params = await_call
     (Replace (JObj [(js ''name'', S ''contract-services''), (js ''query'', stringify_params params)]))
     (\<lambda>r. return)"

definition services_listed :: "nat \<Rightarrow> jsval \<Rightarrow> (services_page, unit) task" where
  "services_listed n result = Look (\<lambda>s.
     if n \<noteq> sp_sequence s then return
     else eval_js (extractContractServices result) (\<lambda>rows.
       Update (\<lambda>s. s\<lparr>sp_rows := rows,
         sp_total := pg_total (contract_extractPagination result (JNum (sp_page s)) (JNum (sp_pageSize s)))\<rparr>) return))"

definition services_failed :: "nat \<Rightarrow> jserror \<Rightarrow> (services_page, unit) task" where
  "services_failed n cause = Look (\<lambda>s.
     if n \<noteq> sp_sequence s then return
     else Update (\<lambda>s. s\<lparr>sp_rows := [], sp_total := Fin 0, sp_error := Some cause\<rparr>) return)"

definition services_fetch :: "nat \<Rightarrow> props \<Rightarrow> (services_page, unit) task" where
  "services_fetch n params = try_finally
     (try_catch (await_call (Get (js ''/contract-services'') (JObj params)) (services_listed n)) (services_failed n))
     (\<lambda>s. if n = sp_sequence s then s\<lparr>sp_loading := False\<rparr> else s)"

definition services_load :: "bool \<Rightarrow> (services_page, unit) task" where
  "services_load sync =
     Update (\<lambda>s. s\<lparr>sp_sequence := Suc (sp_sequence s), sp_loading := True, sp_error := None\<rparr>)
     (Look (\<lambda>s. let n = sp_sequence s in
       eval_js (services_currentParams s) (\<lambda>params.
         if sync then await_task (services_syncQuery params) (\<lambda>r. services_fetch n params)
         else services_fetch n params)))"

definition services_search :: "(services_page, unit) task" where
  "services_search = Update (\<lambda>s. s\<lparr>sp_page := Fin 1\<rparr>) (services_load True)"

definition services_reset :: "(services_page, unit) task" where
  "services_reset = Update (\<lambda>s. s\<lparr>sp_projectKey := S '''', sp_status := S '''', sp_keyword := S '''', sp_page := Fin 1\<rparr>)
     (services_load True)"

definition services_loadProjects :: "(services_page, unit) task" where
  "services_loadProjects = try_catch
     (await_call (Get (js ''/projects'') (JObj [(js ''page'', N 1), (js ''page_size'', N 100)])) (\<lambda>result.
        Update (\<lambda>s. s\<lparr>sp_projects := extractContractProjects result\<rparr>) (Look (\<lambda>s.
          if truthy (sp_projectKey s) then return
          else eval_js (resolveContractProjectKey (sp_projects s) (sp_principal s)) (\<lambda>key.
            Update (\<lambda>s. s\<lparr>sp_projectKey := key\<rparr>) return)))))
     (\<lambda>cause. Update (\<lambda>s. s\<lparr>sp_projects := [], sp_error := Some cause\<rparr>) return)"

definition services_mounted :: "(services_page, unit) task" where
  "services_mounted = await_task services_loadProjects (\<lambda>r. services_load True)"

text \<open>The watcher of the address.\<close>

definition services_routeChanged :: "props \<Rightarrow> (services_page, unit) task" where
  "services_routeChanged q = Update (\<lambda>s. s\<lparr>sp_route := q\<rparr>)
     (eval_js (services_routeParams q) (\<lambda>incoming. Look (\<lambda>s.
        eval_js (services_currentParams s) (\<lambda>current.
          if json_stringify (JObj incoming) = json_stringify (JObj current) then return
          else Update (services_applyRouteParams incoming) (services_load False)))))"

section \<open>Creating a service\<close>

definition serviceId :: "jsval \<Rightarrow> jsval" where
  "serviceId row = js_coalesce (get_opt row (js ''id'')) (get_opt row (js ''service_id''))"

definition revisionCount :: "jsval \<Rightarrow> jsval" where
  "revisionCount row = js_coalesce (js_coalesce (get_opt row (js ''revision_count''))
     (get_opt (get_opt row (js ''revisions'')) (js ''length''))) (N 0)"

definition services_openDetail :: "jsval \<Rightarrow> services_page \<Rightarrow> services_page" where
  "services_openDetail row s =
     (if is_nullish (serviceId row) then s
      else s\<lparr>sp_pushed := sp_pushed s @ [JObj [(js ''name'', S ''contract-service-detail''),
        (js ''params'', JObj [(js ''serviceId'', serviceId row)])]]\<rparr>)"

definition services_openCreate :: "(services_page, unit) task" where
  "services_openCreate = Look (\<lambda>s. eval_js (trim_val (sp_projectKey s)) (\<lambda>key.
     Update (\<lambda>s. s\<lparr>sp_form := empty_form (JStr key), sp_formError := None, sp_dialogVisible := True\<rparr>) return))"

definition msg_form_missing :: jstr where "msg_form_missing = [0x8bf7, 0x586b, 0x5199, 0x9879, 0x76ee, 0x3001, 0x7a33, 0x5b9a, 0x670d, 0x52a1,
     0x6807, 0x8bc6, 0x548c, 0x670d, 0x52a1, 0x540d, 0x79f0]"
definition msg_form_key :: jstr where "msg_form_key = [0x670d, 0x52a1, 0x6807, 0x8bc6, 0x9700, 0x4f7f, 0x7528, 32, 50, 0x2013, 56, 48, 32,
     0x4f4d, 0x5c0f, 0x5199, 0x5b57, 0x6bcd, 0x3001, 0x6570, 0x5b57, 0x3001, 0x70b9,
     0x3001, 0x77ed, 0x6a2a, 0x7ebf, 0x6216, 0x4e0b, 0x5212, 0x7ebf, 0xff0c, 0x5e76,
     0x4ee5, 0x5b57, 0x6bcd, 0x6216, 0x6570, 0x5b57, 0x5f00, 0x5934]"

record service_payload =
  py_project_key :: jstr
  py_service_key :: jstr
  py_name :: jstr
  py_description :: jstr

definition form_payload :: "service_form \<Rightarrow> service_payload js" where
  "form_payload f =
     andThen (trim_val (sf_project_key f)) (\<lambda>project. andThen (trim_val (sf_service_key f)) (\<lambda>key.
     andThen (trim_val (sf_name f)) (\<lambda>name. andThen (trim_val (sf_description f)) (\<lambda>description.
       Inr \<lparr>py_project_key = project, py_service_key = key, py_name = name, py_description = description\<rparr>))))"

definition payload_body :: "service_payload \<Rightarrow> jsval" where
  "payload_body p = JObj [(js ''project_key'', JStr (py_project_key p)), (js ''service_key'', JStr (py_service_key p)),
     (js ''name'', JStr (py_name p)), (js ''description'', JStr (py_description p))]"

definition service_created :: "jsval \<Rightarrow> (services_page, unit) task" where
  "service_created result = Update (\<lambda>s. s\<lparr>sp_dialogVisible := False\<rparr>)
     (await_task (services_load True) (\<lambda>r.
        let created = js_or (get_opt result (js ''data'')) (JObj []) in
        if truthy (get_prop created (js ''id'')) \<or> truthy (get_prop created (js ''service_id''))
        then Update (services_openDetail created) return else return))"

definition saveService :: "(services_page, unit) task" where
  "saveService = Look (\<lambda>s. eval_js (form_payload (sp_form s)) (\<lambda>p.
     if py_project_key p = [] \<or> py_service_key p = [] \<or> py_name p = []
     then Update (\<lambda>s. s\<lparr>sp_formError := Some (PlainError msg_form_missing)\<rparr>) return
     else if \<not> isStableServiceKey (JStr (py_service_key p))
     then Update (\<lambda>s. s\<lparr>sp_formError := Some (PlainError msg_form_key)\<rparr>) return
     else Look (\<lambda>s. if sp_saving s then return
       else Update (\<lambda>s. s\<lparr>sp_saving := True, sp_formError := None\<rparr>)
         (try_finally
           (try_catch (await_call (Post (js ''/contract-services'') (payload_body p)) service_created)
              (\<lambda>cause. Update (\<lambda>s. s\<lparr>sp_formError := Some cause\<rparr>) return))
           (\<lambda>s. s\<lparr>sp_saving := False\<rparr>)))))"

section \<open>The page\<close>

text \<open>
  What may be started: the handlers, and the edits of the user.  A text field yields text; the
  page, its size and the dialog are set by their widgets.
\<close>

definition services_init :: "services_page \<Rightarrow> (services_page, unit) task list \<Rightarrow> bool" where
  "services_init s ts \<longleftrightarrow> ts = [] \<and> (\<exists>q me_key. s = services_initial q me_key)"

inductive services_handler :: "(services_page, unit) task \<Rightarrow> bool" where
  "services_handler services_mounted"
| "services_handler (services_load True)"
| "services_handler services_search"
| "services_handler services_reset"
| "services_handler saveService"
| "services_handler services_openCreate"
| "services_handler (services_routeChanged q)"
| "services_handler (Update (services_openDetail row) return)"
| "services_handler (Update (\<lambda>s. s\<lparr>sp_projectKey := JStr v\<rparr>) return)"
| "services_handler (Update (\<lambda>s. s\<lparr>sp_keyword := JStr v\<rparr>) return)"
| "services_handler (Update (\<lambda>s. s\<lparr>sp_status := u\<rparr>) return)"
| "services_handler (Update (\<lambda>s. s\<lparr>sp_page := m, sp_pageSize := n\<rparr>) return)"
| "services_handler (Update (\<lambda>s. s\<lparr>sp_form := f\<rparr>) return)"
| "services_handler (Update (\<lambda>s. s\<lparr>sp_dialogVisible := False\<rparr>) return)"

end
