(* ===== verification/ServicesLaws.thy ===== *)
theory ServicesLaws imports ServicesPage begin

text \<open>
  The list of interface-contract services: one creation at a time, loads whose stale answers are
  dropped, and what a cleared filter does.
\<close>

section \<open>Evaluation\<close>

lemmas task_defs = seq_def try_catch_def try_finally_def await_task_def await_call_def eval_js_def

lemmas services_load_defs = services_load_def services_fetch_def services_listed_def services_failed_def
  services_syncQuery_def

lemma service_params_total: "\<exists>ps. service_params p st k pg sz = Inr ps"
  using contract_params.compact_object
  by (auto simp: service_params_def buildContractServiceListParams_def filter_fields_def with_default_def
      compactContractParams_def)

lemma currentParams_total:
  "is_string (sp_projectKey s) \<Longrightarrow> is_string (sp_keyword s) \<Longrightarrow> \<exists>ps. services_currentParams s = Inr ps"
  using trim_val_string [of "sp_projectKey s"] trim_val_string [of "sp_keyword s"] service_params_total
  by (auto simp: services_currentParams_def)

section \<open>One creation at a time\<close>

definition creates :: "call \<Rightarrow> bool" where
  "creates c = (case c of Post path b \<Rightarrow> path = js ''/contract-services'' | _ \<Rightarrow> False)"

lemma creates_simps [simp]: "\<not> creates (Get p q)" "\<not> creates (Replace q)" "\<not> creates Tick"
  "creates (Post p b) \<longleftrightarrow> p = js ''/contract-services''"
  by (simp_all add: creates_def)

lemma openDetail_saving [simp]: "sp_saving (services_openDetail row s) = sp_saving s"
  by (simp add: services_openDetail_def)

lemma services_load_neutral: "neutral sp_saving creates (services_load b)"
  by (auto simp: services_load_defs Let_def intro!: task_intro split: if_splits)

lemma services_projects_neutral: "neutral sp_saving creates services_loadProjects"
  by (auto simp: services_loadProjects_def intro!: task_intro)

lemma save_disciplined: "lock_ok sp_saving creates saveService False s"
proof -
  have "indifferent sp_saving (service_created result)" for result
    by (auto simp: service_created_def Let_def intro!: task_intro neutral_indifferent [OF services_load_neutral])
  then show ?thesis
    by (auto simp: saveService_def eval_js_def await_call_def intro!: lock_ok_release task_intro split: sum.splits)
qed

interpretation services_lock: locked_page services_init services_handler sp_saving creates
proof
  show "\<not> sp_saving s \<and> (\<forall>t \<in> set ts. neutral sp_saving creates t)" if "services_init s ts" for s ts
    using that by (auto simp: services_init_def services_initial_def)
  show "lock_ok sp_saving creates t False s" if "services_handler t" for t s
    using that
  proof cases
    case 5
    then show ?thesis using save_disciplined by simp
  qed (auto simp: services_mounted_def services_search_def services_reset_def services_openCreate_def
      services_routeChanged_def services_applyRouteParams_def
      intro!: neutral_lock_ok task_intro services_load_neutral services_projects_neutral)
qed

section \<open>Loads\<close>

definition services_good :: "services_page \<Rightarrow> bool" where
  "services_good s \<longleftrightarrow> is_string (sp_projectKey s) \<and> is_string (sp_keyword s) \<and> list_all has_project_key (sp_projects s)"

lemma services_good_frame [simp]:
  "services_good (s\<lparr>sp_dialogVisible := b\<rparr>) = services_good s" "services_good (s\<lparr>sp_saving := b\<rparr>) = services_good s"
  "services_good (s\<lparr>sp_formError := e\<rparr>) = services_good s" "services_good (s\<lparr>sp_route := q\<rparr>) = services_good s"
  "services_good (s\<lparr>sp_page := n\<rparr>) = services_good s" "services_good (s\<lparr>sp_pageSize := n\<rparr>) = services_good s"
  "services_good (s\<lparr>sp_form := f\<rparr>) = services_good s" "services_good (s\<lparr>sp_status := v\<rparr>) = services_good s"
  by (simp_all add: services_good_def)

lemma resolved_key_string:
  "list_all has_project_key ps \<Longrightarrow> resolveContractProjectKey ps me_key = Inr key \<Longrightarrow> is_string key"
proof -
  assume ps: "list_all has_project_key ps" "resolveContractProjectKey ps me_key = Inr key"
  have "mapM (\<lambda>item. get_or_throw item (js ''project_key'')) ps = Inr keys \<Longrightarrow> list_all is_string keys" for keys
    using ps(1)
    by (induction ps arbitrary: keys)
      (auto simp: andThen_Inr_iff has_project_key_def get_or_throw_def get_opt_eq_get_prop split: if_splits jsval.splits)
  moreover have "list_all is_string keys \<Longrightarrow> length keys = 1 \<Longrightarrow> is_string (hd keys)" for keys
    by (cases keys) auto
  ultimately show ?thesis using ps(2)
    by (auto simp: resolveContractProjectKey_def andThen_Inr_iff Let_def split: if_splits)
qed

lemma services_load_counted:
  "services_good s \<Longrightarrow> sp_sequence s0 \<le> sp_sequence s \<Longrightarrow>
   counted services_good sp_sequence sp_loading (services_load b) s0 s"
  using currentParams_total [of "s\<lparr>sp_sequence := Suc (sp_sequence s), sp_loading := True, sp_error := None\<rparr>"]
  by (auto simp: services_load_defs task_defs Let_def accounted_def services_good_def split: sum.splits)

lemma projects_have_keys [simp]: "list_all has_project_key (extractContractProjects r)"
  by (simp add: extractContractProjects_def list_all_iff)

lemma openDetail_frame [simp]:
  "services_good (services_openDetail row s) = services_good s"
  "sp_sequence (services_openDetail row s) = sp_sequence s" "sp_loading (services_openDetail row s) = sp_loading s"
  by (simp_all add: services_openDetail_def services_good_def)

lemma resolved_from_projects [dest]:
  "resolveContractProjectKey (extractContractProjects r) p = Inr key \<Longrightarrow> is_string key"
  by (rule resolved_key_string) simp_all

lemma mounted_counted: "services_good s \<Longrightarrow> counted services_good sp_sequence sp_loading services_mounted s s"
  unfolding services_mounted_def services_loadProjects_def task_defs
  by (auto simp: accounted_def services_good_def intro!: services_load_counted split: sum.splits)

lemma created_counted:
  "services_good s \<Longrightarrow> counted services_good sp_sequence sp_loading
     (try_finally (try_catch (service_created result) (\<lambda>cause. Update (\<lambda>s. s\<lparr>sp_formError := Some cause\<rparr>) return))
       (\<lambda>s. s\<lparr>sp_saving := False\<rparr>)) s s"
  unfolding service_created_def try_finally_def try_catch_def await_task_def
  by (simp only: resume.simps resume_assoc counted.simps, rule counted_resume)
    (auto simp: Let_def intro!: services_load_counted task_intro split: sum.splits)

lemma save_counted: "services_good s \<Longrightarrow> counted services_good sp_sequence sp_loading saveService s s"
  using created_counted
  by (auto simp: saveService_def eval_js_def await_call_def accounted_def services_good_def split: sum.splits)

lemma route_counted: "services_good s \<Longrightarrow> counted services_good sp_sequence sp_loading (services_routeChanged q) s s"
  by (auto simp: services_routeChanged_def eval_js_def accounted_def services_applyRouteParams_def services_good_def
      intro!: services_load_counted split: sum.splits)

interpretation services_loads: numbered_page services_init services_handler services_good sp_sequence sp_loading
proof
  show "services_good s \<and> (sp_loading s \<longrightarrow> (\<exists>t \<in> set ts. is_pending t \<and> clears services_good sp_sequence sp_loading (sp_sequence s) t s))
      \<and> (\<forall>c k a s'. Await c k \<in> set ts \<longrightarrow> suits c a \<longrightarrow> services_good s' \<longrightarrow>
           counted services_good sp_sequence sp_loading (k a) s' s')
      \<and> (\<forall>t \<in> set ts. (\<exists>c k. t = Await c k) \<or> (\<exists>r. t = Done r))" if "services_init s ts" for s ts
    using that by (auto simp: services_init_def services_initial_def services_good_def)
  show "counted services_good sp_sequence sp_loading t s s" if "services_handler t" "services_good s" for t s
    using that(1)
  proof cases
    case 1
    then show ?thesis using that(2) mounted_counted by simp
  next
    case 5
    then show ?thesis using that(2) save_counted by simp
  next
    case 7
    then show ?thesis using that(2) route_counted by simp
  qed (use that(2) in \<open>auto simp: services_search_def services_reset_def services_openCreate_def eval_js_def
      accounted_def services_good_def services_openDetail_def intro!: services_load_counted split: sum.splits\<close>)
qed

section \<open>Properties\<close>

text \<open>However the user clicks and however the answers are delayed, at most one creation of a
  service is on its way, and then the form is marked as saving.\<close>

theorem services_one_creation:
  assumes "page_run services_init services_handler s ts"
  shows "length (filter (awaits creates) ts) \<le> (if sp_saving s then 1 else 0)"
  using services_lock.one_critical [OF assms] .

definition sample_form :: service_form where
  "sample_form = \<lparr>sf_project_key = S ''p'', sf_service_key = S ''ab'', sf_name = S ''n'', sf_description = S ''''\<rparr>"

lemma sample_payload:
  "form_payload sample_form = Inr \<lparr>py_project_key = js ''p'', py_service_key = js ''ab'', py_name = js ''n'', py_description = []\<rparr>"
  by (simp add: form_payload_def sample_form_def trim_def js_def is_space_def)

lemma sample_key: "isStableServiceKey (S ''ab'')"
  by code_simp

lemma sample_run:
  "\<exists>s k. page_run services_init services_handler s [return, Await (Post (js ''/contract-services'')
     (payload_body \<lparr>py_project_key = js ''p'', py_service_key = js ''ab'', py_name = js ''n'', py_description = []\<rparr>)) k]
   \<and> sp_saving s"
proof -
  let ?s0 = "services_initial [] JUndef"
  let ?s1 = "?s0\<lparr>sp_form := sample_form\<rparr>"
  have run0: "page_run services_init services_handler ?s0 []"
    by (rule page_run.mount) (auto simp: services_init_def)
  have run1: "page_run services_init services_handler ?s1 ([] @ [return])"
    by (rule page_run.event [OF run0 services_handler.intros(13) [of sample_form]]) simp
  have run2: "page_run services_init services_handler
      (fst (segment saveService ?s1)) (([] @ [return]) @ [snd (segment saveService ?s1)])"
    by (rule page_run.event [OF run1 services_handler.intros(5)]) simp
  obtain k where k: "snd (segment saveService ?s1) = Await (Post (js ''/contract-services'')
     (payload_body \<lparr>py_project_key = js ''p'', py_service_key = js ''ab'', py_name = js ''n'', py_description = []\<rparr>)) k"
    "sp_saving (fst (segment saveService ?s1))"
    using sample_key
    by (simp_all add: saveService_def eval_js_def sample_payload services_initial_def await_call_def)
  then show ?thesis using run2 by (intro exI [of _ "fst (segment saveService ?s1)"] exI [of _ k]) simp
qed

theorem services_one_creation_witness:
  "\<exists>s ts. page_run services_init services_handler s ts \<and> length (filter (awaits creates) ts) = 1 \<and> sp_saving s"
proof -
  obtain s k where run: "page_run services_init services_handler s [return, Await (Post (js ''/contract-services'')
     (payload_body \<lparr>py_project_key = js ''p'', py_service_key = js ''ab'', py_name = js ''n'', py_description = []\<rparr>)) k]"
    "sp_saving s" using sample_run by blast
  from services_one_creation [OF run(1)] run show ?thesis by (intro exI) auto
qed

text \<open>When nothing is pending any more, neither the list nor the form is busy: every path
  through a load, a creation or the mounting clears its flag.\<close>

theorem services_at_rest:
  assumes "page_run services_init services_handler s ts" "\<forall>t \<in> set ts. \<not> is_pending t"
  shows "\<not> sp_loading s \<and> \<not> sp_saving s"
  using services_loads.at_rest [OF assms] services_lock.unlocked [OF assms] by simp

theorem services_at_rest_witness:
  "\<not> sp_loading (services_initial [] JUndef) \<and> \<not> sp_saving (services_initial [] JUndef)"
  by (rule services_at_rest [OF page_run.mount]) (auto simp: services_init_def)

text \<open>The newest load wins: the answer to any older one changes nothing, and the answer to the
  newest ends the loading and shows its services, or its error over an empty list.\<close>

theorem services_latest_wins:
  assumes "n \<noteq> sp_sequence s"
  shows "answered (services_fetch n params) (Returned old) s = s
    \<and> \<not> sp_loading (answered (services_fetch (sp_sequence s) params') (Returned new') s)
    \<and> (case andThen new' extractContractServices of
        Inr rows \<Rightarrow> sp_rows (answered (services_fetch (sp_sequence s) params') (Returned new') s) = rows
          \<and> sp_error (answered (services_fetch (sp_sequence s) params') (Returned new') s) = sp_error s
      | Inl e \<Rightarrow> sp_rows (answered (services_fetch (sp_sequence s) params') (Returned new') s) = []
          \<and> sp_error (answered (services_fetch (sp_sequence s) params') (Returned new') s) = Some e)"
proof (cases new')
  case (Inl e)
  then show ?thesis using assms
    by (cases old) (simp_all add: services_fetch_def services_listed_def services_failed_def await_call_def eval_js_def)
next
  case (Inr v)
  then show ?thesis using assms
    by (cases old; cases "extractContractServices v")
      (simp_all add: services_fetch_def services_listed_def services_failed_def await_call_def eval_js_def)
qed

theorem services_latest_wins_witness:
  "answered (services_fetch 0 []) (Returned (Inl TypeError)) ((services_initial [] JUndef)\<lparr>sp_sequence := 1\<rparr>) =
     (services_initial [] JUndef)\<lparr>sp_sequence := 1\<rparr>"
  using services_latest_wins [of 0 "(services_initial [] JUndef)\<lparr>sp_sequence := 1\<rparr>" "[]" "Inl TypeError"] by simp

text \<open>A project filter that holds no text, which is what the cleared selection leaves, breaks the
  page: the parameters are computed outside the \<open>try\<close>, so the load throws, sends nothing, and the
  loading flag stays set.\<close>

theorem cleared_project_hangs:
  assumes "\<not> is_string (sp_projectKey s)"
  shows "\<exists>s'. exec (services_load sync) srv tr s = (Inl TypeError, tr, s') \<and> sp_loading s' \<and> sp_rows s' = sp_rows s"
proof -
  have "trim_val (sp_projectKey s) = Inl TypeError" using assms by (cases "sp_projectKey s") (auto simp: trim_val_def)
  then show ?thesis by (auto simp: services_load_def services_currentParams_def eval_js_def)
qed

theorem cleared_project_hangs_witness:
  "\<exists>s'. exec services_search (\<lambda>tr c. Returned (Inr JNull)) [] ((services_initial [] JUndef)\<lparr>sp_projectKey := JUndef\<rparr>)
     = (Inl TypeError, [], s') \<and> sp_loading s'"
  using cleared_project_hangs [of "(services_initial [] JUndef)\<lparr>sp_projectKey := JUndef, sp_page := Fin 1\<rparr>" True
      "\<lambda>tr c. Returned (Inr JNull)" "[]"]
  by (auto simp: services_search_def)

lemma sends_only:
  "neutral (\<lambda>s. False) (\<lambda>c. \<exists>path b. c = Post path b \<and> c \<noteq> Post (js ''/contract-services'') (payload_body p))
     (try_catch (await_call (Post (js ''/contract-services'') (payload_body p)) service_created)
        (\<lambda>cause. Update (\<lambda>s. s\<lparr>sp_formError := Some cause\<rparr>) return))"
  by (auto simp: service_created_def services_load_defs Let_def intro!: task_intro split: if_splits)



lemma service_params_eq:
  "service_params p st k pg sz = Inr (filter (\<lambda>e. given (snd e))
     [(js ''project_key'', p), (js ''status'', st), (js ''keyword'', k),
      (js ''page'', js_or (JNum pg) (N 1)), (js ''page_size'', js_or (JNum sz) (N 20))])"
  by (simp add: service_params_def buildContractServiceListParams_def filter_fields_def named_fields_def
      service_filter_names_def with_default_def contract_params.compact_object)

text \<open>The page does not chase its own tail: the address that a load writes reads back as the very
  parameters it was made from, so the watcher it triggers does nothing.\<close>

theorem services_no_reload:
  assumes "is_string (sp_projectKey s)" "is_string (sp_keyword s)" "is_string (sp_status s) \<or> sp_status s = JUndef"
    and "sp_page s = Fin (of_int i)" "1 \<le> i" "i < 2 ^ 53" "sp_pageSize s = Fin (of_int j)" "1 \<le> j" "j < 2 ^ 53"
    and "services_currentParams s = Inr ps" "stringify_params ps = JObj q"
  shows "exec (services_routeChanged q) srv tr s = (Inr (), tr, s\<lparr>sp_route := q\<rparr>)"
proof -
  obtain p k where pk: "sp_projectKey s = JStr p" "sp_keyword s = JStr k"
    using trim_val_string assms(1,2) by metis
  have n: "js_or (JNum (sp_page s)) (N 1) = N i" "js_or (JNum (sp_pageSize s)) (N 20) = N j"
    using assms(4-9) by simp_all
  let ?fs = "[(js ''project_key'', JStr (trim p)), (js ''status'', sp_status s), (js ''keyword'', JStr (trim k)),
     (js ''page'', N i), (js ''page_size'', N j)]"
  have ps: "ps = filter (\<lambda>e. given (snd e)) ?fs"
    using assms(10) [unfolded services_currentParams_def pk trim_val_simps andThen_simps service_params_eq n]
    by (simp only: sum.inject)
  have num: "num_to_string (Fin (of_int i)) = dec_digits i" "num_to_string (Fin (of_int j)) = dec_digits j"
    using assms by (simp_all add: num_to_string_int)
  have d: "distinct (map fst ?fs)" by simp
  note look = stringified_lookup [OF d assms(11) [unfolded ps]]
  have looks: "lookup_prop q (js ''project_key'') = (if given (JStr (trim p)) then JStr (trim p) else JUndef)"
    "lookup_prop q (js ''keyword'') = (if given (JStr (trim k)) then JStr (trim k) else JUndef)"
    "lookup_prop q (js ''status'') = (if given (sp_status s) then JStr (to_string (sp_status s)) else JUndef)"
    "lookup_prop q (js ''page'') = JStr (dec_digits i)" "lookup_prop q (js ''page_size'') = JStr (dec_digits j)"
    using look [of "js ''project_key''"] look [of "js ''keyword''"] look [of "js ''status''"]
      look [of "js ''page''"] look [of "js ''page_size''"] given_number [OF assms(5,6)] given_number [OF assms(8,9)] num
    by simp_all
  have counts: "query_count q ''page'' 1 = Fin (of_int i)" "query_count q ''page_size'' 20 = Fin (of_int j)"
    using assms(5,6,8,9) looks by (simp_all add: query_count_back)
  have texts: "query_text q ''project_key'' '''' = trim p" "query_text q ''keyword'' '''' = trim k"
    by (simp_all add: query_text_def looks given_text js_or_def)
  have st: "given (sp_status s) \<Longrightarrow> JStr (query_text q ''status'' '''') = sp_status s"
    "\<not> given (sp_status s) \<Longrightarrow> query_text q ''status'' '''' = []"
    using assms(3) trim_val_string [of "sp_status s"] by (auto simp: query_text_def looks given_text given_def js_or_def)
  have "services_routeParams q = Inr ps"
    using st counts texts given_number [of i] given_number [of j] assms(5,6,8,9)
    by (cases "given (sp_status s)")
      (auto simp: services_routeParams_def service_params_eq ps given_text)
  then show ?thesis using assms(10)
    by (simp add: services_routeChanged_def exec_eval_js services_currentParams_def)
qed

theorem services_no_reload_witness:
  "\<forall>srv. \<exists>q. exec (services_routeChanged q) srv [] (services_initial [] JUndef) =
     (Inr (), [], (services_initial [] JUndef)\<lparr>sp_route := q\<rparr>)"
proof
  fix srv
  let ?s = "services_initial [] JUndef"
  have s: "sp_page ?s = Fin (of_int 1)" "sp_pageSize ?s = Fin (of_int 20)" "is_string (sp_projectKey ?s)"
    "is_string (sp_keyword ?s)" "is_string (sp_status ?s)"
    by (simp_all add: services_initial_def query_count_def num_or_def math_max_def js_or_def)
  obtain ps where ps: "services_currentParams ?s = Inr ps" using currentParams_total s(3,4) by blast
  obtain q where q: "stringify_params ps = JObj q" by (simp add: stringify_params_def)
  from services_no_reload [OF s(3,4) disjI1 [OF s(5)] s(1) _ _ s(2) _ _ ps q]
  show "\<exists>q. exec (services_routeChanged q) srv [] ?s = (Inr (), [], ?s\<lparr>sp_route := q\<rparr>)" by auto
qed

end
