(* ===== verification/TaskRunsPage.thy ===== *)
theory TaskRunsPage imports PageCommon Format begin

text \<open>
  \<open>views/TaskRunsView.vue\<close>: the list of task runs with its filters.  The host's dates are an
  argument, because the page turns its local times into ISO texts.
\<close>

section \<open>State\<close>

record runs_page =
  tp_route :: props
  tp_projectKey :: jsval
  tp_status :: jsval
  tp_uncertain :: jsval
  tp_keyword :: jsval
  tp_startedFrom :: jsval
  tp_startedTo :: jsval
  tp_sortValue :: jsval
  tp_rows :: "jsval list"
  tp_loading :: bool
  tp_error :: "jserror option"
  tp_page :: jnum
  tp_pageSize :: jnum
  tp_total :: jnum
  tp_sequence :: nat
  tp_pushed :: "jsval list"

definition sort_text :: "props \<Rightarrow> jstr" where
  "sort_text q = query_text q ''sort'' ''created_at'' @ [58] @ query_text q ''order'' ''desc''"

definition runs_initial :: "props \<Rightarrow> runs_page" where
  "runs_initial q =
     \<lparr>tp_route = q, tp_projectKey = JStr (query_text q ''project_key'' ''''),
      tp_status = JStr (query_text q ''status'' ''''), tp_uncertain = JStr (query_text q ''uncertain'' ''''),
      tp_keyword = JStr (query_text q ''keyword'' ''''), tp_startedFrom = JStr (query_text q ''started_from'' ''''),
      tp_startedTo = JStr (query_text q ''started_to'' ''''), tp_sortValue = JStr (sort_text q),
      tp_rows = [], tp_loading = False, tp_error = None, tp_page = query_count q ''page'' 1,
      tp_pageSize = query_count q ''page_size'' 20, tp_total = Fin 0, tp_sequence = 0, tp_pushed = []\<rparr>"

section \<open>Parameters\<close>

text \<open>\<open>const [sort, order] = v.split(':')\<close>.\<close>

definition split_pair :: "jsval \<Rightarrow> (jsval \<times> jsval) js" where
  "split_pair v = (case v of
      JStr s \<Rightarrow> (let parts = split_on 58 s
        in Inr (JStr (hd parts), if length parts \<ge> 2 then JStr (parts ! 1) else JUndef))
    | _ \<Rightarrow> Inl TypeError)"

definition run_params ::
    "jsval \<Rightarrow> jsval \<Rightarrow> jsval \<Rightarrow> jsval \<Rightarrow> jsval \<Rightarrow> jsval \<Rightarrow> jsval \<times> jsval \<Rightarrow> jnum \<Rightarrow> jnum \<Rightarrow> props js" where
  "run_params project status uncertain keyword started ended order page' pageSize = buildTaskRunListParams (JObj
     [(js ''projectKey'', project), (js ''status'', status), (js ''uncertain'', uncertain), (js ''keyword'', keyword),
      (js ''startedFrom'', started), (js ''startedTo'', ended), (js ''sort'', fst order), (js ''order'', snd order),
      (js ''page'', JNum page'), (js ''pageSize'', JNum pageSize)])"

definition runs_currentParams :: "runs_page \<Rightarrow> props js" where
  "runs_currentParams s =
     andThen (split_pair (tp_sortValue s)) (\<lambda>order.
     andThen (trim_val (tp_projectKey s)) (\<lambda>project.
     andThen (trim_val (tp_keyword s)) (\<lambda>keyword.
       run_params (JStr project) (tp_status s) (tp_uncertain s) (JStr keyword) (tp_startedFrom s) (tp_startedTo s)
         order (tp_page s) (tp_pageSize s))))"

definition runs_routeParams :: "props \<Rightarrow> props js" where
  "runs_routeParams q =
     andThen (split_pair (JStr (sort_text q))) (\<lambda>order.
       run_params (JStr (query_text q ''project_key'' '''')) (JStr (query_text q ''status'' ''''))
         (JStr (query_text q ''uncertain'' '''')) (JStr (query_text q ''keyword'' ''''))
         (JStr (query_text q ''started_from'' '''')) (JStr (query_text q ''started_to'' ''''))
         order (query_count q ''page'' 1) (query_count q ''page_size'' 20))"

definition runs_applyRouteParams :: "props \<Rightarrow> runs_page \<Rightarrow> runs_page" where
  "runs_applyRouteParams params s = s\<lparr>
     tp_projectKey := JStr (query_text params ''project_key'' ''''),
     tp_status := JStr (query_text params ''status'' ''''),
     tp_uncertain := JStr (query_text params ''uncertain'' ''''),
     tp_keyword := JStr (query_text params ''keyword'' ''''),
     tp_startedFrom := JStr (query_text params ''started_from'' ''''),
     tp_startedTo := JStr (query_text params ''started_to'' ''''),
     tp_sortValue := JStr (sort_text params),
     tp_page := to_number (js_or (lookup_prop params (js ''page'')) (N 1)),
     tp_pageSize := to_number (js_or (lookup_prop params (js ''page_size'')) (N 20))\<rparr>"

section \<open>Handlers\<close>

definition runs_syncQuery :: "props \<Rightarrow> (runs_page, unit) task" where
  "runs_syncQuery params = await_call
     (Replace (JObj [(js ''name'', S ''task-runs''), (js ''query'', stringify_params params)])) (\<lambda>r. return)"

definition runs_listed :: "nat \<Rightarrow> jsval \<Rightarrow> (runs_page, unit) task" where
  "runs_listed n result = Look (\<lambda>s.
     if n \<noteq> tp_sequence s then return
     else Update (\<lambda>s. s\<lparr>tp_rows := extractTaskRuns result,
       tp_total := pg_total (extractPagination result (JNum (tp_page s)) (JNum (tp_pageSize s)))\<rparr>) return)"

definition runs_failed :: "nat \<Rightarrow> jserror \<Rightarrow> (runs_page, unit) task" where
  "runs_failed n cause = Look (\<lambda>s.
     if n \<noteq> tp_sequence s then return
     else Update (\<lambda>s. s\<lparr>tp_rows := [], tp_total := Fin 0, tp_error := Some cause\<rparr>) return)"

definition runs_request :: "intl \<Rightarrow> props \<Rightarrow> call" where
  "runs_request host params = Get (js ''/task-runs'') (JObj (put_all params
     [(js ''started_from'', JStr (localDateTimeToIso host (lookup_prop params (js ''started_from'')))),
      (js ''started_to'', JStr (localDateTimeToIso host (lookup_prop params (js ''started_to''))))]))"

definition runs_fetch :: "intl \<Rightarrow> nat \<Rightarrow> props \<Rightarrow> (runs_page, unit) task" where
  "runs_fetch host n params = try_finally
     (try_catch (await_call (runs_request host params) (runs_listed n)) (runs_failed n))
     (\<lambda>s. if n = tp_sequence s then s\<lparr>tp_loading := False\<rparr> else s)"

definition runs_load :: "intl \<Rightarrow> bool \<Rightarrow> (runs_page, unit) task" where
  "runs_load host sync =
     Update (\<lambda>s. s\<lparr>tp_sequence := Suc (tp_sequence s), tp_loading := True, tp_error := None\<rparr>)
     (Look (\<lambda>s. let n = tp_sequence s in
       eval_js (runs_currentParams s) (\<lambda>params.
         if sync then await_task (runs_syncQuery params) (\<lambda>r. runs_fetch host n params)
         else runs_fetch host n params)))"

definition runs_openDetail :: "jsval \<Rightarrow> runs_page \<Rightarrow> runs_page" where
  "runs_openDetail row s =
     (let i = get_opt row (js ''id'')
      in if \<not> truthy i then s
         else s\<lparr>tp_pushed := tp_pushed s @ [JObj [(js ''name'', S ''task-run-detail''), (js ''params'', JObj [(js ''id'', i)])]]\<rparr>)"

definition runs_search :: "intl \<Rightarrow> (runs_page, unit) task" where
  "runs_search host = Update (\<lambda>s. s\<lparr>tp_page := Fin 1\<rparr>) (runs_load host True)"

definition runs_reset :: "intl \<Rightarrow> (runs_page, unit) task" where
  "runs_reset host = Update (\<lambda>s. s\<lparr>tp_projectKey := S '''', tp_status := S '''', tp_uncertain := S '''',
     tp_keyword := S '''', tp_startedFrom := S '''', tp_startedTo := S '''', tp_sortValue := S ''created_at:desc'',
     tp_page := Fin 1\<rparr>) (runs_load host True)"

text \<open>\<open>attributionLabel\<close> and \<open>attributionType\<close>; a nullish row throws.\<close>

definition attributionLabel :: "jsval \<Rightarrow> jstr js" where
  "attributionLabel row = andThen (get_or_throw row (js ''uncertain'')) (\<lambda>u.
     Inr (if strict_eq u (JBool True) then [0x9700, 0x8981, 0x590d, 0x6838] else if strict_eq u (JBool False) then [0x5f52, 0x56e0, 0x660e, 0x786e] else [0x6682, 0x65e0, 0x62a5, 0x544a]))"

definition attributionType :: "jsval \<Rightarrow> jstr js" where
  "attributionType row = andThen (get_or_throw row (js ''uncertain'')) (\<lambda>u.
     Inr (if strict_eq u (JBool True) then js ''warning'' else if strict_eq u (JBool False) then js ''success''
       else js ''info''))"

definition runs_routeChanged :: "intl \<Rightarrow> props \<Rightarrow> (runs_page, unit) task" where
  "runs_routeChanged host q = Update (\<lambda>s. s\<lparr>tp_route := q\<rparr>)
     (eval_js (runs_routeParams q) (\<lambda>incoming. Look (\<lambda>s.
        eval_js (runs_currentParams s) (\<lambda>current.
          if json_stringify (JObj incoming) = json_stringify (JObj current) then return
          else Update (runs_applyRouteParams incoming) (runs_load host False)))))"

section \<open>The page\<close>

definition runs_init :: "runs_page \<Rightarrow> (runs_page, unit) task list \<Rightarrow> bool" where
  "runs_init s ts \<longleftrightarrow> ts = [] \<and> (\<exists>q. s = runs_initial q)"

inductive runs_handler :: "intl \<Rightarrow> (runs_page, unit) task \<Rightarrow> bool" for host where
  "runs_handler host (runs_load host True)"
| "runs_handler host (runs_search host)"
| "runs_handler host (runs_reset host)"
| "runs_handler host (runs_routeChanged host q)"
| "runs_handler host (Update (runs_openDetail row) return)"
| "runs_handler host (Update (\<lambda>s. s\<lparr>tp_projectKey := JStr v, tp_keyword := JStr w\<rparr>) return)"
| "runs_handler host (Update (\<lambda>s. s\<lparr>tp_status := u, tp_uncertain := v, tp_startedFrom := f, tp_startedTo := g\<rparr>) return)"
| "runs_handler host (Update (\<lambda>s. s\<lparr>tp_sortValue := JStr v\<rparr>) return)"
| "runs_handler host (Update (\<lambda>s. s\<lparr>tp_page := m, tp_pageSize := n\<rparr>) return)"

section \<open>Loads\<close>

definition runs_good :: "runs_page \<Rightarrow> bool" where
  "runs_good s \<longleftrightarrow> is_string (tp_projectKey s) \<and> is_string (tp_keyword s) \<and> is_string (tp_sortValue s)"

lemma run_params_total: "\<exists>ps. run_params p st u k a b ord pg sz = Inr ps"
  using task_params.compact_object
  by (auto simp: run_params_def buildTaskRunListParams_def filter_fields_def with_default_def compactParams_def)

lemma runs_params_total: "runs_good s \<Longrightarrow> \<exists>ps. runs_currentParams s = Inr ps"
  using trim_val_string [of "tp_projectKey s"] trim_val_string [of "tp_keyword s"] run_params_total
  by (cases "tp_sortValue s") (auto simp: runs_good_def runs_currentParams_def split_pair_def Let_def)

lemmas runs_load_defs = runs_load_def runs_fetch_def runs_listed_def runs_failed_def runs_syncQuery_def runs_request_def

lemma runs_load_counted:
  "runs_good s \<Longrightarrow> tp_sequence s0 \<le> tp_sequence s \<Longrightarrow>
   counted runs_good tp_sequence tp_loading (runs_load host b) s0 s"
  using runs_params_total [of "s\<lparr>tp_sequence := Suc (tp_sequence s), tp_loading := True, tp_error := None\<rparr>"]
  by (auto simp: runs_load_defs seq_def try_catch_def try_finally_def await_task_def await_call_def eval_js_def
      Let_def accounted_def runs_good_def split: sum.splits)

interpretation runs_loads: numbered_page runs_init "runs_handler host" runs_good tp_sequence tp_loading for host
proof
  show "runs_good s \<and> (tp_loading s \<longrightarrow> (\<exists>t \<in> set ts. is_pending t \<and> clears runs_good tp_sequence tp_loading (tp_sequence s) t s))
      \<and> (\<forall>c k a s'. Await c k \<in> set ts \<longrightarrow> suits c a \<longrightarrow> runs_good s' \<longrightarrow>
           counted runs_good tp_sequence tp_loading (k a) s' s')
      \<and> (\<forall>t \<in> set ts. (\<exists>c k. t = Await c k) \<or> (\<exists>r. t = Done r))" if "runs_init s ts" for s ts
    using that by (auto simp: runs_init_def runs_initial_def runs_good_def)
  show "counted runs_good tp_sequence tp_loading t s s" if "runs_handler host t" "runs_good s" for t s
    using that(1)
    by cases (use that(2) in \<open>auto simp: runs_search_def runs_reset_def runs_routeChanged_def eval_js_def
      accounted_def runs_good_def runs_openDetail_def runs_applyRouteParams_def Let_def
      intro!: runs_load_counted split: sum.splits\<close>)
qed

text \<open>When nothing is pending, the list of task runs is not loading: every load, however it ends
  and whatever came in between, leaves the flag to the newest one, which clears it.\<close>

theorem runs_at_rest:
  assumes "page_run runs_init (runs_handler host) s ts" "\<forall>t \<in> set ts. \<not> is_pending t"
  shows "\<not> tp_loading s"
  using runs_loads.at_rest [OF assms] .

theorem runs_at_rest_witness: "\<not> tp_loading (runs_initial [])"
  by (rule runs_at_rest [OF page_run.mount]) (auto simp: runs_init_def)

text \<open>Of overlapping loads the newest wins: the answer to an older one changes nothing; the answer
  to the newest ends the loading with its rows, or with its error over an empty list.\<close>

theorem runs_latest_wins:
  assumes "n \<noteq> tp_sequence s"
  shows "answered (runs_fetch host n params) (Returned old) s = s
    \<and> answered (runs_fetch host (tp_sequence s) params') (Returned new') s = (case new' of
        Inr v \<Rightarrow> s\<lparr>tp_rows := extractTaskRuns v,
          tp_total := pg_total (extractPagination v (JNum (tp_page s)) (JNum (tp_pageSize s))), tp_loading := False\<rparr>
      | Inl e \<Rightarrow> s\<lparr>tp_rows := [], tp_total := Fin 0, tp_error := Some e, tp_loading := False\<rparr>)"
  using assms
  by (cases old; cases new')
    (simp_all add: runs_fetch_def runs_listed_def runs_failed_def runs_request_def await_call_def)

theorem runs_latest_wins_witness:
  "\<forall>host. answered (runs_fetch host 0 []) (Returned (Inl TypeError)) ((runs_initial [])\<lparr>tp_sequence := 1\<rparr>) =
     (runs_initial [])\<lparr>tp_sequence := 1\<rparr>"
  using runs_latest_wins [of 0 "(runs_initial [])\<lparr>tp_sequence := 1\<rparr>" _ "[]" "Inl TypeError"] by simp

end
