(* ===== verification/ImportCodec.thy ===== *)
theory ImportCodec imports PageCommon begin

text \<open>
  The encodings of \<open>views/ImportView.vue\<close>: a loop that cuts a sequence into slices, Base64 as
  \<open>btoa\<close> computes it, and UTF-8 as a fatal \<open>TextDecoder\<close> reads it, with the receiver's view of each.
\<close>

section \<open>Slices\<close>

text \<open>\<open>for (let index = 0; index < xs.length; index += n) \<dots> xs.slice(index, index + n)\<close>.\<close>

function slices_from :: "nat \<Rightarrow> nat \<Rightarrow> 'a list \<Rightarrow> 'a list list" where
  "slices_from n i xs = (if n = 0 \<or> length xs \<le> i then [] else take n (drop i xs) # slices_from n (i + n) xs)"
  by pat_completeness auto
termination
  by (relation "measure (\<lambda>(n, i, xs). length xs - i)") auto

declare slices_from.simps [simp del]

definition slices :: "nat \<Rightarrow> 'a list \<Rightarrow> 'a list list" where
  "slices n xs = slices_from n 0 xs"

lemma slices_from_drop: "slices_from n i xs = slices_from n 0 (drop i xs)"
proof (induction n i xs rule: slices_from.induct)
  case (1 n i xs)
  show ?case
  proof (cases "n = 0 \<or> length xs \<le> i")
    case True
    then show ?thesis by (auto simp: slices_from.simps)
  next
    case False
    have tail: "slices_from n (k + n) ys = slices_from n k (drop n ys)" if "0 < n" for k and ys :: "'a list"
      using that
    proof (induction n k ys rule: slices_from.induct)
      case (1 n k ys)
      show ?case
        using 1 slices_from.simps [of n "k + n" ys] slices_from.simps [of n k "drop n ys"]
        by (auto simp: add.commute not_le less_diff_conv)
    qed
    have "slices_from n i xs = take n (drop i xs) # slices_from n 0 (drop (i + n) xs)"
      using 1 False slices_from.simps [of n i xs] by simp
    moreover have "slices_from n 0 (drop i xs) = take n (drop i xs) # slices_from n (0 + n) (drop i xs)"
      using False slices_from.simps [of n 0 "drop i xs"] by simp
    moreover have "slices_from n (0 + n) (drop i xs) = slices_from n 0 (drop n (drop i xs))"
      using tail False by blast
    ultimately show ?thesis by (simp add: add.commute)
  qed
qed

lemma slices_Nil [simp]: "slices n [] = []" "slices 0 xs = []"
  by (simp_all add: slices_def slices_from.simps)

lemma slices_step: "0 < n \<Longrightarrow> xs \<noteq> [] \<Longrightarrow> slices n xs = take n xs # slices n (drop n xs)"
  unfolding slices_def using slices_from.simps [of n 0 xs] slices_from_drop [of n n xs] by simp

lemma slices_induct [consumes 1, case_names Empty Slice]:
  assumes "0 < n" "P []" "\<And>xs. 0 < n \<Longrightarrow> xs \<noteq> [] \<Longrightarrow> P (drop n xs) \<Longrightarrow> P xs"
  shows "P xs"
proof (induction xs rule: length_induct)
  case (1 xs)
  show ?case using assms 1 by (cases "xs = []") auto
qed

lemma concat_slices [simp]: "0 < n \<Longrightarrow> concat (slices n xs) = xs"
  by (induction xs rule: slices_induct) (simp_all add: slices_step)

lemma slice_bounds: "0 < n \<Longrightarrow> p \<in> set (slices n xs) \<Longrightarrow> p \<noteq> [] \<and> length p \<le> n"
  by (induction xs rule: slices_induct) (auto simp: slices_step)

lemma slices_eq_Nil [simp]: "0 < n \<Longrightarrow> slices n xs = [] \<longleftrightarrow> xs = []"
  by (cases "xs = []") (simp_all add: slices_step)

lemma length_slices:
  assumes n: "0 < n"
  shows "length (slices n xs) = (length xs + (n - 1)) div n"
  using n
proof (induction xs rule: slices_induct)
  case (Slice xs)
  show ?case
  proof (cases "length xs \<le> n")
    case True
    have "0 < length xs" using Slice.hyps(2) by simp
    then have "n * 1 \<le> length xs + (n - 1)" "length xs + (n - 1) < n * Suc 1"
      using Slice.hyps(1) True by (simp_all only: mult_Suc_right mult_1_right mult_0_right)
    then have "(length xs + (n - 1)) div n = 1" by (intro div_nat_eqI) (simp_all add: mult.commute)
    then show ?thesis using Slice True by (simp add: slices_step)
  next
    case False
    then have "length xs + (n - 1) = (length xs - n + (n - 1)) + n" by simp
    then have "(length xs + (n - 1)) div n = (length xs - n + (n - 1)) div n + 1"
      using Slice.hyps(1) by (metis div_add_self2 less_not_refl2)
    then show ?thesis using Slice by (simp add: slices_step)
  qed
next
  case Empty
  have "n - Suc 0 < n" using n by simp
  then show ?case by simp
qed

lemma slices_map: "slices n (map f xs) = map (map f) (slices n xs)"
proof (cases "n = 0")
  case False
  then have "0 < n" by simp
  then show ?thesis by (induction xs rule: slices_induct) (simp_all add: slices_step take_map drop_map)
qed simp

section \<open>Base64\<close>

definition b64_unit :: "nat \<Rightarrow> nat" where
  "b64_unit d = (if d < 26 then d + 65 else if d < 52 then d + 71 else if d < 62 then d - 4
     else if d = 62 then 43 else 47)"

text \<open>\<open>btoa\<close> on a string whose units are bytes.\<close>

fun btoa :: "nat list \<Rightarrow> jstr" where
  "btoa [] = []"
| "btoa [a] = [b64_unit (a div 4), b64_unit (a mod 4 * 16), 61, 61]"
| "btoa [a, b] = [b64_unit (a div 4), b64_unit (a mod 4 * 16 + b div 16), b64_unit (b mod 16 * 4), 61]"
| "btoa (a # b # c # r) = [b64_unit (a div 4), b64_unit (a mod 4 * 16 + b div 16),
     b64_unit (b mod 16 * 4 + c div 64), b64_unit (c mod 64)] @ btoa r"

definition bytesToBase64 :: "nat list \<Rightarrow> jstr" where
  "bytesToBase64 bytes = btoa (concat (slices 0x8000 bytes))"

text \<open>The receiver: groups of four digits, padded at the end.\<close>

definition b64_value :: "nat \<Rightarrow> nat option" where
  "b64_value u = (if 65 \<le> u \<and> u \<le> 90 then Some (u - 65) else if 97 \<le> u \<and> u \<le> 122 then Some (u - 71)
     else if 48 \<le> u \<and> u \<le> 57 then Some (u + 4) else if u = 43 then Some 62 else if u = 47 then Some 63 else None)"

fun b64_decode :: "jstr \<Rightarrow> nat list option" where
  "b64_decode [] = Some []"
| "b64_decode (p # q # r # t # s) = (case (b64_value p, b64_value q) of
     (Some w, Some x) \<Rightarrow>
       if r = 61 then (if t = 61 \<and> s = [] then Some [w * 4 + x div 16] else None)
       else (case b64_value r of None \<Rightarrow> None | Some y \<Rightarrow>
         if t = 61 then (if s = [] then Some [w * 4 + x div 16, x mod 16 * 16 + y div 4] else None)
         else (case (b64_value t, b64_decode s) of
           (Some z, Some bs) \<Rightarrow> Some ([w * 4 + x div 16, x mod 16 * 16 + y div 4, y mod 4 * 64 + z] @ bs)
         | _ \<Rightarrow> None))
   | _ \<Rightarrow> None)"
| "b64_decode _ = None"

lemma b64_value_unit [simp]: "d < 64 \<Longrightarrow> b64_value (b64_unit d) = Some d"
  by (auto simp: b64_unit_def b64_value_def)

lemma b64_unit_no_pad [simp]: "d < 64 \<Longrightarrow> b64_unit d \<noteq> 61"
  by (auto simp: b64_unit_def)

definition bytes_ok :: "nat list \<Rightarrow> bool" where
  "bytes_ok bs \<longleftrightarrow> (\<forall>b \<in> set bs. b < 256)"

lemma bytes_ok_simps [simp]: "bytes_ok []" "bytes_ok (b # bs) \<longleftrightarrow> b < 256 \<and> bytes_ok bs"
  by (auto simp: bytes_ok_def)

lemma radix: "y < m \<Longrightarrow> (x * m + y) div m = x" "y < m \<Longrightarrow> (x * m + y) mod m = y" for m :: nat
  by simp_all

lemma b64_six:
  fixes a b c :: nat
  shows "a < 256 \<Longrightarrow> a div 4 < 64" "b < 256 \<Longrightarrow> a mod 4 * 16 + b div 16 < 64"
    "c < 256 \<Longrightarrow> b mod 16 * 4 + c div 64 < 64" "a mod 4 * 16 < 64" "b mod 16 * 4 < 64"
proof -
  have "a mod 4 < 4" "b mod 16 < 16" by simp_all
  moreover have "b < 256 \<Longrightarrow> b div 16 < 16" "c < 256 \<Longrightarrow> c div 64 < 4" by (auto intro: less_mult_imp_div_less)
  ultimately show "a < 256 \<Longrightarrow> a div 4 < 64" "b < 256 \<Longrightarrow> a mod 4 * 16 + b div 16 < 64"
    "c < 256 \<Longrightarrow> b mod 16 * 4 + c div 64 < 64" "a mod 4 * 16 < 64" "b mod 16 * 4 < 64"
    by (auto intro: less_mult_imp_div_less)
qed

lemma b64_decode_btoa: "bytes_ok bs \<Longrightarrow> b64_decode (btoa bs) = Some bs"
proof (induction bs rule: btoa.induct)
  case (2 a)
  then show ?case by (simp add: b64_six)
next
  case (3 a b)
  then have "b div 16 < 16" by (auto intro: less_mult_imp_div_less)
  then show ?case using 3 by (simp add: b64_six radix)
next
  case (4 a b c r)
  then have "b div 16 < 16" "c div 64 < 4" by (auto intro: less_mult_imp_div_less)
  then show ?case using 4 by (simp add: b64_six radix)
qed simp

lemma btoa_append: "length xs mod 3 = 0 \<Longrightarrow> btoa (xs @ ys) = btoa xs @ btoa ys"
proof (induction xs rule: btoa.induct)
  case (4 a b c r)
  have "length r mod 3 = 0" using "4.prems" by (simp only: append_Cons list.size) presburger
  then show ?case using "4.IH" by simp
qed simp_all

lemma length_btoa: "length (btoa xs) = 4 * ((length xs + 2) div 3)"
proof (induction xs rule: btoa.induct)
  case (4 a b c r)
  have "(length r + 3 + 2) div 3 = (length r + 2) div 3 + 1" by presburger
  then show ?case using 4 by simp
qed simp_all

text \<open>A part of \<open>4 n\<close> digits stands for \<open>3 n\<close> bytes of its own.\<close>

lemma btoa_take: "take (4 * n) (btoa bs) = btoa (take (3 * n) bs)"
  and btoa_drop: "drop (4 * n) (btoa bs) = btoa (drop (3 * n) bs)"
proof -
  have "take (4 * n) (btoa bs) = btoa (take (3 * n) bs) \<and> drop (4 * n) (btoa bs) = btoa (drop (3 * n) bs)"
  proof (cases "3 * n \<le> length bs")
    case True
    have split: "btoa bs = btoa (take (3 * n) bs) @ btoa (drop (3 * n) bs)"
      using True btoa_append [of "take (3 * n) bs" "drop (3 * n) bs"] by simp
    have "length (btoa (take (3 * n) bs)) = 4 * n" using True by (simp add: length_btoa)
    then show ?thesis unfolding split by simp
  next
    case False
    have "length (btoa bs) \<le> 4 * n" using False by (simp add: length_btoa)
    then show ?thesis using False by simp
  qed
  then show "take (4 * n) (btoa bs) = btoa (take (3 * n) bs)" "drop (4 * n) (btoa bs) = btoa (drop (3 * n) bs)"
    by auto
qed

lemma slices_btoa:
  assumes "0 < n"
  shows "slices (4 * n) (btoa bs) = map btoa (slices (3 * n) bs)"
proof -
  have "0 < 3 * n" using assms by simp
  then show ?thesis
  proof (induction bs rule: slices_induct)
  case (Slice bs)
  then have "btoa bs \<noteq> []" using length_btoa [of bs] by (cases bs) auto
  then show ?case using Slice by (simp add: slices_step btoa_take btoa_drop)
  qed simp
qed

section \<open>UTF-8\<close>

text \<open>
  \<open>new TextDecoder('utf-8', { fatal: true }).decode(buffer)\<close>: overlong forms, surrogates and points
  beyond \<open>0x10ffff\<close> are refused, and a leading byte-order mark is dropped.
\<close>

definition cont :: "nat \<Rightarrow> bool" where
  "cont b \<longleftrightarrow> 0x80 \<le> b \<and> b \<le> 0xbf"

fun utf8_strict :: "nat list \<Rightarrow> jstr option" where
  "utf8_strict [] = Some []"
| "utf8_strict (b # s) =
     (if b < 0x80 then map_option (Cons b) (utf8_strict s)
      else if b < 0xc2 then None
      else if b < 0xe0 then
        (case s of b1 # r \<Rightarrow>
           if cont b1 then map_option ((@) (units_of_point ((b - 0xc0) * 64 + (b1 - 0x80)))) (utf8_strict r)
           else None
         | _ \<Rightarrow> None)
      else if b < 0xf0 then
        (case s of b1 # b2 # r \<Rightarrow>
           if (if b = 0xe0 then 0xa0 else 0x80) \<le> b1 \<and> b1 \<le> (if b = 0xed then 0x9f else 0xbf) \<and> cont b2
           then map_option ((@) (units_of_point ((b - 0xe0) * 4096 + (b1 - 0x80) * 64 + (b2 - 0x80)))) (utf8_strict r)
           else None
         | _ \<Rightarrow> None)
      else if b < 0xf5 then
        (case s of b1 # b2 # b3 # r \<Rightarrow>
           if (if b = 0xf0 then 0x90 else 0x80) \<le> b1 \<and> b1 \<le> (if b = 0xf4 then 0x8f else 0xbf) \<and> cont b2 \<and> cont b3
           then map_option ((@) (units_of_point
             ((b - 0xf0) * 262144 + (b1 - 0x80) * 4096 + (b2 - 0x80) * 64 + (b3 - 0x80)))) (utf8_strict r)
           else None
         | _ \<Rightarrow> None)
      else None)"

definition text_decode :: "nat list \<Rightarrow> jstr option" where
  "text_decode bytes = utf8_strict (if take 3 bytes = [0xef, 0xbb, 0xbf] then drop 3 bytes else bytes)"

text \<open>The bytes of a well-formed text.\<close>

fun text_bytes :: "jstr \<Rightarrow> nat list" where
  "text_bytes [] = []"
| "text_bytes (c # s) = (if is_high_surrogate c
     then (case s of d # r \<Rightarrow> utf8 (0x10000 + (c - 0xd800) * 1024 + (d - 0xdc00)) @ text_bytes r | [] \<Rightarrow> [])
     else utf8 c @ text_bytes s)"

lemma units_valid:
  assumes "p < 0x110000" "\<not> (0xd800 \<le> p \<and> p \<le> 0xdfff)"
  shows "text_bytes (units_of_point p @ s) = utf8 p @ text_bytes s"
    and "well_formed (units_of_point p @ s) \<longleftrightarrow> well_formed s"
proof -
  let ?h = "0xd800 + (p - 0x10000) div 1024" and ?l = "0xdc00 + (p - 0x10000) mod 1024"
  have "text_bytes (units_of_point p @ s) = utf8 p @ text_bytes s \<and> (well_formed (units_of_point p @ s) \<longleftrightarrow> well_formed s)"
  proof (cases "p < 0x10000")
    case True
    then show ?thesis using assms(2)
      by (auto simp: units_of_point_def is_high_surrogate_def is_low_surrogate_def)
  next
    case False
    have "(p - 0x10000) div 1024 < 1024" using assms(1) by auto
    then have "is_high_surrogate ?h" "\<not> is_low_surrogate ?h" "?h < 0x10000" "is_low_surrogate ?l"
      by (auto simp: is_high_surrogate_def is_low_surrogate_def)
    moreover have "0x10000 + (p - 0x10000) div 1024 * 1024 + (p - 0x10000) mod 1024 = p"
      using False div_mult_mod_eq [of "p - 0x10000" 1024] by linarith
    ultimately show ?thesis using False by (simp add: units_of_point_def)
  qed
  then show "text_bytes (units_of_point p @ s) = utf8 p @ text_bytes s"
    "well_formed (units_of_point p @ s) \<longleftrightarrow> well_formed s" by auto
qed

lemma mixed_radix:
  fixes x y z w :: nat
  assumes "y < 64" "z < 64" "w < 64"
  shows "(x * 64 + y) div 64 = x" "(x * 64 + y) mod 64 = y"
    "(x * 4096 + y * 64 + z) div 4096 = x" "(x * 4096 + y * 64 + z) div 64 mod 64 = y"
    "(x * 4096 + y * 64 + z) mod 64 = z"
    "(x * 262144 + y * 4096 + z * 64 + w) div 262144 = x" "(x * 262144 + y * 4096 + z * 64 + w) div 4096 mod 64 = y"
    "(x * 262144 + y * 4096 + z * 64 + w) div 64 mod 64 = z" "(x * 262144 + y * 4096 + z * 64 + w) mod 64 = w"
proof -
  have nest: "x * 4096 + y * 64 + z = (x * 64 + y) * 64 + z"
    "x * 262144 + y * 4096 + z * 64 + w = ((x * 64 + y) * 64 + z) * 64 + w" by simp_all
  have div': "n div 4096 = n div 64 div 64" "n div 262144 = n div 64 div 64 div 64" for n :: nat
    by (simp_all flip: div_mult2_eq)
  show "(x * 64 + y) div 64 = x" "(x * 64 + y) mod 64 = y" using assms by (simp_all only: radix)
  show "(x * 4096 + y * 64 + z) div 4096 = x" "(x * 4096 + y * 64 + z) div 64 mod 64 = y"
    "(x * 4096 + y * 64 + z) mod 64 = z"
    unfolding nest div' radix [OF assms(2)] by (simp_all only: radix [OF assms(1)])
  show "(x * 262144 + y * 4096 + z * 64 + w) div 262144 = x" "(x * 262144 + y * 4096 + z * 64 + w) div 4096 mod 64 = y"
    "(x * 262144 + y * 4096 + z * 64 + w) div 64 mod 64 = z" "(x * 262144 + y * 4096 + z * 64 + w) mod 64 = w"
    unfolding nest div' radix [OF assms(3)] by (simp_all only: radix [OF assms(2)] radix [OF assms(1)])
qed

lemma utf8_two:
  assumes "0xc2 \<le> b" "b < 0xe0" "cont b1" "p = (b - 0xc0) * 64 + (b1 - 0x80)"
  shows "p < 0x110000 \<and> \<not> (0xd800 \<le> p \<and> p \<le> 0xdfff) \<and> utf8 p = [b, b1]"
proof -
  obtain x y where xy: "b = 0xc0 + x" "b1 = 0x80 + y" "2 \<le> x" "x < 32" "y < 64"
    using assms that [of "b - 0xc0" "b1 - 0x80"] by (auto simp: cont_def)
  then have p: "p = x * 64 + y" using assms(4) by simp
  then have "p < 0x800" "0x80 \<le> p" using xy by auto
  moreover have "p div 64 = x" "p mod 64 = y" unfolding p by (rule mixed_radix [OF xy(5,5,5)])+
  ultimately show ?thesis using xy by (simp add: utf8_def)
qed

lemma utf8_three:
  assumes "0xe0 \<le> b" "b < 0xf0" "(if b = 0xe0 then 0xa0 else 0x80) \<le> b1" "b1 \<le> (if b = 0xed then 0x9f else 0xbf)"
    "cont b2" "p = (b - 0xe0) * 4096 + (b1 - 0x80) * 64 + (b2 - 0x80)"
  shows "p < 0x110000 \<and> \<not> (0xd800 \<le> p \<and> p \<le> 0xdfff) \<and> utf8 p = [b, b1, b2]"
proof -
  have b1: "0x80 \<le> b1" "b1 \<le> 0xbf" using assms(3,4) by (simp_all split: if_splits)
  define x y z where xyz: "x = b - 0xe0" "y = b1 - 0x80" "z = b2 - 0x80"
  then have eqs: "b = 0xe0 + x" "b1 = 0x80 + y" "b2 = 0x80 + z" "x < 16" "y < 64" "z < 64"
    using assms(1,2,5) b1 by (auto simp: cont_def)
  have low: "x = 0 \<Longrightarrow> 32 \<le> y" and surr: "x = 13 \<Longrightarrow> y < 32" using assms(3,4) eqs by auto
  have p: "p = x * 4096 + y * 64 + z" using assms(6) xyz by simp
  have "p < 0x10000" using p eqs by linarith
  moreover have "0x800 \<le> p" using low p by (cases "x = 0") linarith+
  moreover have "\<not> (0xd800 \<le> p \<and> p \<le> 0xdfff)"
    using surr p eqs(5,6) by (cases "x = 13"; cases "x < 13") linarith+
  moreover have "p div 4096 = x" "p div 64 mod 64 = y" "p mod 64 = z"
    unfolding p by (rule mixed_radix [OF eqs(5,6,6)])+
  ultimately show ?thesis using eqs by (simp add: utf8_def)
qed

lemma utf8_four:
  assumes "0xf0 \<le> b" "b < 0xf5" "(if b = 0xf0 then 0x90 else 0x80) \<le> b1" "b1 \<le> (if b = 0xf4 then 0x8f else 0xbf)"
    "cont b2" "cont b3" "p = (b - 0xf0) * 262144 + (b1 - 0x80) * 4096 + (b2 - 0x80) * 64 + (b3 - 0x80)"
  shows "p < 0x110000 \<and> \<not> (0xd800 \<le> p \<and> p \<le> 0xdfff) \<and> utf8 p = [b, b1, b2, b3]"
proof -
  have b1: "0x80 \<le> b1" "b1 \<le> 0xbf" using assms(3,4) by (simp_all split: if_splits)
  define x y z w where xyz: "x = b - 0xf0" "y = b1 - 0x80" "z = b2 - 0x80" "w = b3 - 0x80"
  then have eqs: "b = 0xf0 + x" "b1 = 0x80 + y" "b2 = 0x80 + z" "b3 = 0x80 + w" "x \<le> 4" "y < 64" "z < 64" "w < 64"
    using assms(1,2,5,6) b1 by (auto simp: cont_def)
  have low: "x = 0 \<Longrightarrow> 16 \<le> y" and high: "x = 4 \<Longrightarrow> y < 16" using assms(3,4) eqs by auto
  have p: "p = x * 262144 + y * 4096 + z * 64 + w" using assms(7) xyz by simp
  have "p < 0x110000" using high p eqs by (cases "x = 4") linarith+
  moreover have "0x10000 \<le> p" using low p by (cases "x = 0") linarith+
  moreover have "p div 262144 = x" "p div 4096 mod 64 = y" "p div 64 mod 64 = z" "p mod 64 = w"
    unfolding p by (rule mixed_radix [OF eqs(6,7,8)])+
  ultimately show ?thesis using eqs by (simp add: utf8_def)
qed

text \<open>A text that was read is well-formed, and its bytes are those of the file.\<close>

lemma utf8_strict_sound: "utf8_strict bs = Some s \<Longrightarrow> well_formed s \<and> text_bytes s = bs"
proof (induction bs arbitrary: s rule: utf8_strict.induct)
  case 1
  then show ?case by simp
next
  case (2 b bs)
  note point = units_valid utf8_two utf8_three utf8_four
  consider "b < 0x80" | "0xc2 \<le> b" "b < 0xe0" | "0xe0 \<le> b" "b < 0xf0" | "0xf0 \<le> b" "b < 0xf5"
    using 2(5) by (fastforce split: if_splits)
  then show ?case
  proof cases
    case 1
    then obtain t where "utf8_strict bs = Some t" "s = b # t" using 2(5) by auto
    then show ?thesis using 2(1) [OF 1] 1 by (auto simp: is_high_surrogate_def is_low_surrogate_def utf8_def)
  next
    case 2
    then obtain b1 r t where eq: "bs = b1 # r" "cont b1" "utf8_strict r = Some t"
      "s = units_of_point ((b - 0xc0) * 64 + (b1 - 0x80)) @ t"
      using "2.prems" by (auto split: list.splits if_splits)
    then show ?thesis using "2.IH"(2) [of b1 r t] 2 utf8_two [OF 2 eq(2) refl] by (auto simp: units_valid)
  next
    case 3
    then obtain b1 b2 r t where eq: "bs = b1 # b2 # r" "utf8_strict r = Some t"
      "(if b = 0xe0 then 0xa0 else 0x80) \<le> b1" "b1 \<le> (if b = 0xed then 0x9f else 0xbf)" "cont b2"
      "s = units_of_point ((b - 0xe0) * 4096 + (b1 - 0x80) * 64 + (b2 - 0x80)) @ t"
      using "2.prems" by (auto split: list.splits if_splits)
    then show ?thesis using "2.IH"(3) [of b1 "b2 # r" b2 r t] 3 utf8_three [OF 3 eq(3,4,5) refl] by (auto simp: units_valid)
  next
    case 4
    then obtain b1 b2 b3 r t where eq: "bs = b1 # b2 # b3 # r" "utf8_strict r = Some t"
      "(if b = 0xf0 then 0x90 else 0x80) \<le> b1" "b1 \<le> (if b = 0xf4 then 0x8f else 0xbf)" "cont b2" "cont b3"
      "s = units_of_point ((b - 0xf0) * 262144 + (b1 - 0x80) * 4096 + (b2 - 0x80) * 64 + (b3 - 0x80)) @ t"
      using "2.prems" by (auto split: list.splits if_splits)
    then show ?thesis
      using "2.IH"(4) [of b1 "b2 # b3 # r" b2 "b3 # r" b3 r t] 4 utf8_four [OF 4 eq(3,4,5,6) refl] by (auto simp: units_valid)
  qed
qed

lemma text_decode_sound:
  assumes "text_decode bytes = Some s"
  shows "well_formed s \<and> (bytes = text_bytes s \<or> bytes = [0xef, 0xbb, 0xbf] @ text_bytes s)"
proof (cases "take 3 bytes = [0xef, 0xbb, 0xbf]")
  case True
  then have "utf8_strict (drop 3 bytes) = Some s" using assms by (simp add: text_decode_def)
  moreover have "bytes = [0xef, 0xbb, 0xbf] @ drop 3 bytes" using append_take_drop_id [of 3 bytes] True by simp
  ultimately show ?thesis using utf8_strict_sound by metis
next
  case False
  then show ?thesis using assms utf8_strict_sound [of bytes s] by (simp add: text_decode_def)
qed

section \<open>Names\<close>

definition fileExtension :: "jsval \<Rightarrow> jstr" where
  "fileExtension name = last (split_on 46 (to_lower (to_string (js_or name (S '''')))))"

end
