(* ===== verification/NumberOps.thy ===== *)
theory NumberOps imports NumberLaws begin

text \<open>The arithmetic of the pages on doubles, array slices with computed bounds, and \<open>toFixed(1)\<close>.\<close>

section \<open>Arithmetic\<close>

fun num_add :: "jnum \<Rightarrow> jnum \<Rightarrow> jnum" where
  "num_add (Fin a) (Fin b) = to_double (a + b)"
| "num_add NaN y = NaN" | "num_add x NaN = NaN"
| "num_add PInf NInf = NaN" | "num_add NInf PInf = NaN"
| "num_add PInf y = PInf" | "num_add x PInf = PInf"
| "num_add NInf y = NInf" | "num_add x NInf = NInf"

definition num_sub :: "jnum \<Rightarrow> jnum \<Rightarrow> jnum" where
  "num_sub x y = num_add x (num_neg y)"

text \<open>Division; a zero divisor is taken as positive, since the model has one zero.\<close>

definition num_div :: "jnum \<Rightarrow> jnum \<Rightarrow> jnum" where
  "num_div x y = (case (x, y) of
      (Fin a, Fin b) \<Rightarrow> if b \<noteq> 0 then to_double (a / b) else if a = 0 then NaN else if 0 < a then PInf else NInf
    | (Fin a, PInf) \<Rightarrow> Fin 0 | (Fin a, NInf) \<Rightarrow> Fin 0
    | (PInf, Fin b) \<Rightarrow> if b < 0 then NInf else PInf
    | (NInf, Fin b) \<Rightarrow> if b < 0 then PInf else NInf
    | _ \<Rightarrow> NaN)"

definition math_ceil :: "jnum \<Rightarrow> jnum" where
  "math_ceil x = (case x of Fin q \<Rightarrow> Fin (of_int \<lceil>q\<rceil>) | _ \<Rightarrow> x)"

section \<open>Slices\<close>

text \<open>A bound of \<open>slice\<close>: truncated, counted from the end when negative, and limited to the length.\<close>

definition slice_bound :: "nat \<Rightarrow> jnum \<Rightarrow> nat" where
  "slice_bound len n = (case n of
      NaN \<Rightarrow> 0 | PInf \<Rightarrow> len | NInf \<Rightarrow> 0
    | Fin q \<Rightarrow> (let i = (if q < 0 then \<lceil>q\<rceil> else \<lfloor>q\<rfloor>) in
        if i < 0 then nat (max 0 (int len + i)) else min (nat i) len))"

definition slice_between :: "jnum \<Rightarrow> jnum \<Rightarrow> 'a list \<Rightarrow> 'a list" where
  "slice_between a b xs = (let i = slice_bound (length xs) a; j = slice_bound (length xs) b in take (j - i) (drop i xs))"

section \<open>One decimal\<close>

definition to_fixed1 :: "jnum \<Rightarrow> jstr" where
  "to_fixed1 x = (case x of
      Fin q \<Rightarrow> if 10 ^ 21 \<le> \<bar>q\<bar> then num_to_string x
        else (let n = \<lfloor>10 * \<bar>q\<bar> + 1 / 2\<rfloor>
          in (if q < 0 then [45] else []) @ dec_digits (n div 10) @ 46 # dec_digits (n mod 10))
    | _ \<Rightarrow> num_to_string x)"

text \<open>The size of a file, as three pages write it; two of them show a dash for no size.\<close>

definition bytes_text :: "jnum \<Rightarrow> jstr" where
  "bytes_text bytes = (let kib = Fin 1024 in
     if bytes < kib then num_to_string bytes @ js '' B''
     else if bytes < Fin (1024 * 1024) then to_fixed1 (num_div bytes kib) @ js '' KiB''
     else to_fixed1 (num_div (num_div bytes kib) kib) @ js '' MiB'')"

definition size_text :: "jsval \<Rightarrow> jstr" where
  "size_text v = (let bytes = to_number (js_or v (N 0)) in if truthy (JNum bytes) then bytes_text bytes else js ''-'')"

lemma slice_bound_nat [simp]: "slice_bound len (Fin (of_nat i)) = min i len"
proof -
  have "\<not> (of_nat i :: rat) < 0" "\<lfloor>of_nat i :: rat\<rfloor> = int i" by simp_all
  then show ?thesis by (simp add: slice_bound_def Let_def)
qed

lemma slice_between_nat: "slice_between (Fin (of_nat i)) (Fin (of_nat j)) xs = take (j - i) (drop i xs)"
  by (simp add: slice_between_def Let_def min_def)

section \<open>Rounding up a quotient\<close>

lemma pow2_shift: "pow2 (r - int m) * 2 ^ m = pow2 r"
proof (cases "0 \<le> r")
  case True
  then show ?thesis using pow2_diff [of "nat r" m] by (simp add: pow2_def)
next
  case False
  have "pow2 (r - int m) = 1 / 2 ^ (nat (- r) + m)" using False by (simp add: pow2_def nat_diff_distrib' nat_add_distrib flip: of_nat_add)
  then show ?thesis using False by (simp add: pow2_def power_add)
qed

lemma round_above: "of_int k \<le> x \<Longrightarrow> k \<le> round_half_even x"
  using floor_mono [of "of_int k" x] by (auto simp: round_half_even_def Let_def)

lemma to_double_shape: "0 < q \<Longrightarrow> to_double q = Fin v \<Longrightarrow>
   v = of_int (round_half_even (q / pow2 (max (rat_log2 q - 52) (- 1074)))) * pow2 (max (rat_log2 q - 52) (- 1074))"
  by (simp add: to_double_def Let_def split: if_splits)

text \<open>A quotient of counts stays above every whole number it is above, though it is rounded.\<close>

lemma quotient_above:
  fixes a n :: int
  assumes "0 < a" "a < 2 ^ 52" "1 \<le> n" "n < 2 ^ 52" "0 \<le> k" "k * n < a"
  shows "\<exists>v. to_double (of_int a / of_int n) = Fin v \<and> of_int k < v"
proof -
  let ?q = "of_int a / of_int n :: rat"
  have q: "0 < ?q" using assms by simp
  define e where "e = max (rat_log2 ?q - 52) (- 1074)"
  let ?m = "round_half_even (?q / pow2 e)"
  have pos: "0 < pow2 e" by (simp add: pow2_def)
  have "?q \<le> of_int a" using assms(1,3) by (simp add: divide_le_eq)
  then obtain v where v: "to_double ?q = Fin v" using to_double_bounds [of ?q a] q assms(1,2) by fastforce
  have shape: "v = of_int ?m * pow2 e"
    using to_double_shape [OF q v] by (simp only: e_def)
  have "pow2 (rat_log2 ?q - 52) * 2 ^ 52 \<le> ?q" using rat_log2_lower [OF q] pow2_shift [of "rat_log2 ?q" 52] by simp
  moreover have "?q \<le> 2 ^ 52 / of_int n" using assms(2,3) by (intro divide_right_mono) (metis of_int_le_iff of_int_numeral of_int_power less_imp_le, simp)
  ultimately have "pow2 (rat_log2 ?q - 52) \<le> 1 / of_int n" by simp
  moreover have "pow2 (- 1074) \<le> 1 / of_int n"
  proof -
    have "(of_int n :: rat) \<le> 2 ^ 1074"
    proof -
      have "(of_int n :: rat) \<le> of_int (2 ^ 52)" using assms(4) by (simp only: of_int_le_iff)
      also have "\<dots> \<le> 2 ^ 1074" using power_increasing [of 52 1074 "2 :: rat"] by simp
      finally show ?thesis .
    qed
    moreover have "(0 :: rat) < of_int n" using assms(3) by simp
    moreover have "pow2 (- 1074) = 1 / 2 ^ 1074" unfolding pow2_def by simp
    ultimately show ?thesis by (simp only:) (rule divide_left_mono, simp_all)
  qed
  ultimately have small: "pow2 e \<le> 1 / of_int n" by (simp add: e_def max_def)
  moreover have "1 / of_int n \<le> (1 :: rat)" using assms(3) by simp
  ultimately have "pow2 e \<le> 1" by linarith
  moreover have "1 < pow2 e" if "0 < e" using that one_less_power [of "2 :: rat" "nat e"] by (simp add: pow2_def)
  ultimately have "e \<le> 0" by (meson not_le)
  then have p: "pow2 e = 1 / 2 ^ nat (- e)" by (auto simp: pow2_def)
  have "of_int (k * n + 1) \<le> (of_int a :: rat)" using assms(6) by (simp only: of_int_le_iff)
  then have "of_int (k * n + 1) / of_int n \<le> ?q" using assms(3) by (intro divide_right_mono) simp_all
  moreover have "of_int (k * n + 1) / of_int n = of_int k + 1 / (of_int n :: rat)" using assms(3) by (simp add: add_divide_distrib)
  ultimately have "of_int k + 1 / of_int n \<le> ?q" by simp
  then have "of_int k + pow2 e \<le> ?q" using small by linarith
  then have "(of_int k + pow2 e) / pow2 e \<le> ?q / pow2 e" using pos by (intro divide_right_mono) simp_all
  moreover have unit: "of_int (k * 2 ^ nat (- e) + 1) * pow2 e = of_int k + pow2 e" by (simp add: p add_divide_distrib)
  then have "(of_int k + pow2 e) / pow2 e = of_int (k * 2 ^ nat (- e) + 1)" using pos by (metis nonzero_mult_div_cancel_right less_irrefl)
  ultimately have "of_int (k * 2 ^ nat (- e) + 1) \<le> ?q / pow2 e" by simp
  from round_above [OF this] have "of_int (k * 2 ^ nat (- e) + 1) * pow2 e \<le> of_int ?m * pow2 e"
    using pos by (intro mult_right_mono) (subst of_int_le_iff, simp_all)
  then have "of_int k + pow2 e \<le> v" using unit shape by simp
  then show ?thesis using v pos by (intro exI [of _ v]) simp
qed

lemma ceil_quotient:
  fixes a n :: int
  assumes "0 \<le> a" "a < 2 ^ 52" "1 \<le> n" "n < 2 ^ 52"
  shows "math_ceil (num_div (Fin (of_int a)) (Fin (of_int n))) = Fin (of_int \<lceil>of_int a / of_int n :: rat\<rceil>)"
proof (cases "a = 0")
  case True
  then show ?thesis using assms(3) by (simp add: num_div_def math_ceil_def to_double_def)
next
  case False
  let ?q = "of_int a / of_int n :: rat" and ?c = "\<lceil>of_int a / of_int n :: rat\<rceil>"
  have a: "0 < a" using False assms(1) by simp
  have c1: "1 \<le> ?c" using a assms(3) by (simp add: less_ceiling_iff [of 0, simplified] int_one_le_iff_zero_less)
  have "?q \<le> of_int a" using a assms(3) by (simp add: divide_le_eq)
  then have "?c \<le> a" by (simp add: ceiling_le_iff)
  then have "?c < 2 ^ 53" using assms(2) by (rule order.strict_trans1 [OF _ order.strict_trans]) simp_all
  then obtain v where v: "to_double ?q = Fin v" "v \<le> of_int ?c"
    using to_double_bounds [of ?q ?c] a assms(3) c1 by auto
  have "of_int (?c - 1) < ?q" by linarith
  then have "of_int ((?c - 1) * n) < (of_int a :: rat)" using assms(3) by (simp add: field_simps)
  then have "(?c - 1) * n < a" by (simp only: of_int_less_iff)
  then have "of_int (?c - 1) < v" using quotient_above [of a n "?c - 1"] a assms c1 v(1) by auto
  then have "\<lceil>v\<rceil> = ?c" using v(2) by (intro ceiling_unique) simp_all
  then show ?thesis using v(1) assms(3) by (simp add: num_div_def math_ceil_def)
qed

end
