(* ===== verification/ImportPage.thy ===== *)
theory ImportPage imports ImportCodec NumberOps SessionStore ContextStore begin

text \<open>
  \<open>views/ImportView.vue\<close>: the import of files in parts, the batches with their details, and the
  review actions.  Project keys and scopes are texts: they come from the address, a text field, or
  the keys of the projects.
\<close>

section \<open>Constants and state\<close>

definition CHUNK_CHARS :: nat where "CHUNK_CHARS = 1024 * 1024"
definition MAX_FILE_BYTES :: int where "MAX_FILE_BYTES = 128 * 1024 * 1024"
definition MAX_FILES :: nat where "MAX_FILES = 100"

definition BINARY_EXTENSIONS :: "jstr list" where
  "BINARY_EXTENSIONS = map js [''pdf'', ''docx'', ''zip'']"

definition ACCEPTED_EXTENSIONS :: "jstr list" where
  "ACCEPTED_EXTENSIONS = map js [''md'', ''markdown'', ''txt'', ''json'', ''jsonl'', ''sql'', ''pdf'', ''docx'', ''zip'',
     ''py'', ''js'', ''ts'', ''tsx'', ''jsx'', ''java'', ''go'', ''rs'', ''yaml'', ''yml'', ''toml'', ''sh'', ''ps1'']"

definition ACTIVE_BATCH_STATUSES :: "string list" where
  "ACTIVE_BATCH_STATUSES = [''pending'', ''queued'', ''uploading'', ''running'', ''processing'', ''awaiting_review'']"

text \<open>A selected file; \<open>en_id\<close> is the identity of the object, which the upload loop holds on to.\<close>

record import_entry =
  en_id :: nat
  en_key :: jstr
  en_file :: jsfile
  en_name :: jsval
  en_size :: int
  en_status :: string
  en_progress :: jnum
  en_error :: jsval

datatype action_kind = Approve | Reject | CandidateRollback | CancelBatch | RetryBatch | RollbackBatch

record row_action =
  ac_kind :: action_kind
  ac_target :: jsval
  ac_title :: jstr
  ac_confirmText :: jstr
  ac_requiresReason :: bool
  ac_reasonLabel :: jstr
  ac_impact :: jstr

record import_page =
  ip_route :: props
  ip_session :: session
  ip_projectKey :: jstr
  ip_scopeKey :: jstr
  ip_statusFilter :: jstr
  ip_projects :: "jsval list"
  ip_currentStep :: jnum
  ip_dragActive :: bool
  ip_files :: "import_entry list"
  ip_nextId :: nat
  ip_batches :: "jsval list"
  ip_candidates :: "jsval list"
  ip_loading :: bool
  ip_submitting :: bool
  ip_message :: jstr
  ip_error :: "jserror option"
  ip_activeBatchId :: jsval
  ip_detailVisible :: bool
  ip_detailLoading :: bool
  ip_detailTab :: jstr
  ip_batchDetail :: jsval
  ip_batchFiles :: "jsval list"
  ip_batchIssues :: "jsval list"
  ip_actionVisible :: bool
  ip_actionReason :: jstr
  ip_actionSubmitting :: bool
  ip_action :: "row_action option"
  ip_rowLoading :: "jstr list"
  ip_sequence :: nat

text \<open>What the set-up and the watcher read from the address.\<close>

definition import_project :: "props \<Rightarrow> session \<Rightarrow> jstr" where
  "import_project q ss = (let own = get_opt (me ss) (js ''project_key'')
     in to_string (js_or (lookup_prop q (js ''project_key''))
          (if strict_eq own (S ''*'') then S '''' else js_or own (S ''''))))"

definition import_scope :: "props \<Rightarrow> jstr" where
  "import_scope q = to_string (js_or (js_or (lookup_prop q (js ''scope_id'')) (lookup_prop q (js ''scope_key''))) (S ''project''))"

definition import_step :: "props \<Rightarrow> jnum" where
  "import_step q = (let n = to_number (js_or (lookup_prop q (js ''step'')) (N 0))
     in if is_finite n then math_min (Fin 3) (math_max (Fin 0) n) else Fin 0)"

definition import_tab :: "props \<Rightarrow> jstr" where
  "import_tab q = (let tab = to_string (lookup_prop q (js ''detail_tab''))
     in if tab \<in> set (map js [''overview'', ''files'', ''issues'']) then tab else js ''overview'')"

definition import_initial :: "props \<Rightarrow> session \<Rightarrow> import_page" where
  "import_initial q ss =
     \<lparr>ip_route = q, ip_session = ss, ip_projectKey = import_project q ss, ip_scopeKey = import_scope q,
      ip_statusFilter = query_text q ''status'' '''', ip_projects = [], ip_currentStep = import_step q,
      ip_dragActive = False, ip_files = [], ip_nextId = 0, ip_batches = [], ip_candidates = [], ip_loading = False,
      ip_submitting = False, ip_message = [], ip_error = None, ip_activeBatchId = JNull, ip_detailVisible = False,
      ip_detailLoading = False, ip_detailTab = import_tab q, ip_batchDetail = JNull, ip_batchFiles = [],
      ip_batchIssues = [], ip_actionVisible = False, ip_actionReason = [], ip_actionSubmitting = False,
      ip_action = None, ip_rowLoading = [], ip_sequence = 0\<rparr>"

section \<open>Computed values and labels\<close>

definition validFiles :: "import_page \<Rightarrow> import_entry list" where
  "validFiles s = filter (\<lambda>e. en_status e \<noteq> ''invalid'') (ip_files s)"

definition hasInvalidFiles :: "import_page \<Rightarrow> bool" where
  "hasInvalidFiles s \<longleftrightarrow> (\<exists>e \<in> set (ip_files s). en_status e = ''invalid'')"

definition overallProgress :: "import_page \<Rightarrow> jnum" where
  "overallProgress s = (if ip_files s = [] then Fin 0
     else math_round (num_div (foldl (\<lambda>sum e. num_add sum (num_or (en_progress e) (Fin 0))) (Fin 0) (ip_files s))
       (Fin (of_nat (length (ip_files s))))))"

definition active_status :: "jsval \<Rightarrow> bool" where
  "active_status v \<longleftrightarrow> v \<in> set (map S ACTIVE_BATCH_STATUSES)"

definition hasActiveBatches :: "import_page \<Rightarrow> bool js" where
  "hasActiveBatches s = andThen (find_js (\<lambda>item. andThen (get_or_throw item (js ''status'')) (\<lambda>st. Inr (active_status st)))
     (ip_batches s)) (\<lambda>r. Inr (r \<noteq> None))"

definition formatBytes :: "jsval \<Rightarrow> jstr" where
  "formatBytes v = bytes_text (to_number (js_or v (N 0)))"

definition import_status_labels :: "(string \<times> jstr) list" where
  "import_status_labels =
     [(''active'', [0x6d3b, 0x8dc3, 0x6279, 0x6b21]), (''pending'', [0x5f85, 0x5904, 0x7406]), (''queued'', [0x5df2, 0x6392, 0x961f]), (''uploading'', [0x4e0a, 0x4f20, 0x4e2d]),
      (''uploaded'', [0x5df2, 0x4e0a, 0x4f20]), (''running'', [0x8fd0, 0x884c, 0x4e2d]), (''processing'', [0x5904, 0x7406, 0x4e2d]),
      (''awaiting_review'', [0x5f85, 0x5ba1, 0x6838]), (''completed'', [0x5df2, 0x5b8c, 0x6210]), (''failed'', [0x5931, 0x8d25]), (''cancelled'', [0x5df2, 0x53d6, 0x6d88]),
      (''published'', [0x5df2, 0x53d1, 0x5e03]), (''pending_review'', [0x5f85, 0x5ba1, 0x6838]), (''rejected'', [0x5df2, 0x62d2, 0x7edd]), (''rolled_back'', [0x5df2, 0x56de, 0x6eda])]"

definition importStatusLabel :: "jsval \<Rightarrow> jsval" where
  "importStatusLabel status = js_or (js_or
     (lookup_prop (map (\<lambda>(k, t). (js k, JStr t)) import_status_labels) (to_string status)) status) (JStr [0x672a, 0x77e5])"

definition severityLabel :: "jsval \<Rightarrow> jsval" where
  "severityLabel severity = (if strict_eq severity (S ''error'') then JStr [0x9519, 0x8bef]
     else if strict_eq severity (S ''warning'') then JStr [0x544a, 0x8b66] else js_or severity (JStr [0x544a, 0x8b66]))"

section \<open>Selecting files\<close>

definition validateFile :: "jsfile \<Rightarrow> jstr" where
  "validateFile f = (if \<not> truthy (file_name f) then [0x65e0, 0x6cd5, 0x8bfb, 0x53d6, 0x6587, 0x4ef6, 0x540d]
     else if fileExtension (file_name f) \<notin> set ACCEPTED_EXTENSIONS then [0x4e0d, 0x652f, 0x6301, 0x6b64, 0x6587, 0x4ef6, 0x683c, 0x5f0f]
     else if file_size f \<le> 0 then [0x6587, 0x4ef6, 0x5185, 0x5bb9, 0x4e3a, 0x7a7a]
     else if file_size f > MAX_FILE_BYTES then [0x5355, 0x4e2a, 0x6587, 0x4ef6, 0x4e0d, 0x80fd, 0x8d85, 0x8fc7] @ js '' 128 MiB''
     else [])"

definition file_key :: "jsfile \<Rightarrow> jstr" where
  "file_key f = to_string (file_name f) @ [58] @ num_to_string (num_of_int (file_size f)) @ [58]
     @ to_string (js_or (file_modified f) (N 0))"

definition new_entry :: "nat \<Rightarrow> jsfile \<Rightarrow> import_entry" where
  "new_entry n f = \<lparr>en_id = n, en_key = file_key f, en_file = f, en_name = file_name f, en_size = file_size f,
     en_status = (if validateFile f \<noteq> [] then ''invalid'' else ''ready''), en_progress = Fin 0,
     en_error = JStr (validateFile f)\<rparr>"

fun add_entries :: "jstr list \<Rightarrow> nat \<Rightarrow> jsfile list \<Rightarrow> import_entry list" where
  "add_entries keys n [] = []"
| "add_entries keys n (f # fs) = (if file_key f \<in> set keys then add_entries keys n fs
     else new_entry n f # add_entries (file_key f # keys) (Suc n) fs)"

definition msg_too_many :: jstr where
  "msg_too_many = [0x5355, 0x4e2a, 0x6279, 0x6b21, 0x6700, 0x591a, 0x9009, 0x62e9] @ js '' 100 '' @ [0x4e2a, 0x6587, 0x4ef6]"

definition add_to_page :: "jsfile list \<Rightarrow> import_page \<Rightarrow> import_page" where
  "add_to_page incoming s =
     (let remaining = MAX_FILES - length (ip_files s);
          next' = add_entries (map en_key (ip_files s)) (ip_nextId s) (take remaining incoming);
          files = ip_files s @ next'
      in s\<lparr>ip_files := files, ip_nextId := ip_nextId s + length next',
           ip_error := (if length incoming > remaining then Some (PlainError msg_too_many) else ip_error s),
           ip_currentStep := (if files \<noteq> [] then Fin 1 else ip_currentStep s)\<rparr>)"

definition wizard_query :: "jsval \<Rightarrow> import_page \<Rightarrow> props" where
  "wizard_query extra s =
     (let q = put_all (put_all (ip_route s) (entries extra)) [(js ''step'', JStr (num_to_string (ip_currentStep s)))];
          q = put_text (trim (ip_projectKey s)) ''project_key'' q;
          q = put_text (trim (ip_scopeKey s)) ''scope_id'' q;
          q = delete_key q (js ''scope_key'');
          q = put_text (ip_statusFilter s) ''status'' q
      in if ip_detailVisible s then put q (js ''detail_tab'') (JStr (ip_detailTab s)) else delete_key q (js ''detail_tab''))"

definition syncWizardQuery :: "jsval \<Rightarrow> (import_page, unit) task" where
  "syncWizardQuery extra = Look (\<lambda>s. await_call (Replace (JObj [(js ''query'', JObj (wizard_query extra s))])) (\<lambda>r. return))"

text \<open>\<open>Array.from(fileList || [])\<close>: a drop may carry no list.\<close>

definition addFiles :: "jsfile list option \<Rightarrow> (import_page, unit) task" where
  "addFiles fileList = Update (add_to_page (case fileList of Some fs \<Rightarrow> fs | None \<Rightarrow> []))
     (syncWizardQuery (JObj []))"

definition chooseFiles :: "jsfile list \<Rightarrow> (import_page, unit) task" where
  "chooseFiles fs = addFiles (Some fs)"

definition onDrop :: "jsfile list option \<Rightarrow> (import_page, unit) task" where
  "onDrop fs = Update (\<lambda>s. s\<lparr>ip_dragActive := False\<rparr>) (addFiles fs)"

definition removeFile :: "nat \<Rightarrow> import_page \<Rightarrow> import_page" where
  "removeFile i s = (if ip_submitting s then s
     else let files = take i (ip_files s) @ drop (Suc i) (ip_files s)
       in s\<lparr>ip_files := files, ip_currentStep := (if files = [] then Fin 0 else ip_currentStep s)\<rparr>)"

definition resetWizard :: "(import_page, unit) task" where
  "resetWizard = Update (\<lambda>s. s\<lparr>ip_files := [], ip_activeBatchId := JNull, ip_currentStep := Fin 0, ip_message := [],
     ip_error := None\<rparr>) (syncWizardQuery (JObj []))"

definition resetContextWork :: "import_page \<Rightarrow> import_page" where
  "resetContextWork s = (if ip_submitting s then s
     else s\<lparr>ip_files := [], ip_activeBatchId := JNull, ip_currentStep := Fin 0, ip_detailVisible := False,
       ip_batchDetail := JNull, ip_batchFiles := [], ip_batchIssues := []\<rparr>)"

section \<open>Loading the lists\<close>

text \<open>\<open>const [a, b] = v\<close> for what \<open>Promise.all\<close> yields.\<close>

definition destructure :: "jsval \<Rightarrow> nat \<Rightarrow> jsval" where
  "destructure v i = (if i < length (elems v) then elems v ! i else JUndef)"

definition import_loadProjects :: "(import_page, unit) task" where
  "import_loadProjects = try_catch
     (await_call (Get (js ''/projects'') (JObj [(js ''page'', N 1), (js ''page_size'', N 100)])) (\<lambda>result.
        eval_js (data_array result) (\<lambda>ps. Update (\<lambda>s. s\<lparr>ip_projects := ps\<rparr>) return)))
     (\<lambda>cause. Update (\<lambda>s. s\<lparr>ip_projects := [], ip_error := Some cause\<rparr>) return)"

definition import_requests :: "import_page \<Rightarrow> call" where
  "import_requests s =
     (let params = [(js ''project_key'', JStr (trim (ip_projectKey s))), (js ''page'', N 1), (js ''page_size'', N 100)]
      in All [Get (js ''/import-batches'') (JObj (put params (js ''status'') (JStr (ip_statusFilter s)))),
              Get (js ''/reference-candidates'') (JObj (put params (js ''scope_id'') (JStr (trim (ip_scopeKey s)))))])"

definition import_listed :: "nat \<Rightarrow> bool \<Rightarrow> bool \<Rightarrow> jsval \<Rightarrow> (import_page, unit) task" where
  "import_listed n silent sync result = Look (\<lambda>s.
     if n \<noteq> ip_sequence s then return
     else eval_js (data_array (destructure result 0)) (\<lambda>batches. Update (\<lambda>s. s\<lparr>ip_batches := batches\<rparr>)
       (eval_js (data_array (destructure result 1)) (\<lambda>candidates. Update (\<lambda>s. s\<lparr>ip_candidates := candidates\<rparr>)
         (if \<not> silent \<and> sync then await_task (syncWizardQuery (JObj [])) (\<lambda>r. return) else return)))))"

definition import_failed :: "nat \<Rightarrow> jserror \<Rightarrow> (import_page, unit) task" where
  "import_failed n cause = Look (\<lambda>s. if n \<noteq> ip_sequence s then return
     else Update (\<lambda>s. s\<lparr>ip_error := Some cause\<rparr>) return)"

definition import_fetch :: "nat \<Rightarrow> bool \<Rightarrow> bool \<Rightarrow> (import_page, unit) task" where
  "import_fetch n silent sync = try_finally
     (try_catch (Look (\<lambda>s. await_call (import_requests s) (import_listed n silent sync))) (import_failed n))
     (\<lambda>s. if n = ip_sequence s then s\<lparr>ip_loading := False\<rparr> else s)"

text \<open>\<open>load({ silent, syncQuery })\<close>; \<open>sync\<close> is \<open>syncQuery !== false\<close>.\<close>

definition import_load :: "bool \<Rightarrow> bool \<Rightarrow> (import_page, unit) task" where
  "import_load silent sync =
     Update (\<lambda>s. s\<lparr>ip_sequence := Suc (ip_sequence s), ip_loading := (if silent then ip_loading s else True),
       ip_error := None\<rparr>)
     (Look (\<lambda>s. import_fetch (ip_sequence s) silent sync))"

definition changeImportContext :: "(import_page, unit) task" where
  "changeImportContext = Update resetContextWork
     (await_task (syncWizardQuery (JObj [(js ''batch_id'', JUndef)])) (\<lambda>r.
        await_task (import_load False False) (\<lambda>r. return)))"

definition clearStatusFilter :: "(import_page, unit) task" where
  "clearStatusFilter = Update (\<lambda>s. s\<lparr>ip_statusFilter := []\<rparr>)
     (await_task (syncWizardQuery (JObj [])) (\<lambda>r. await_task (import_load False False) (\<lambda>r. return)))"

section \<open>Uploading a file\<close>

definition isBinaryImport :: "jsfile \<Rightarrow> bool" where
  "isBinaryImport f \<longleftrightarrow> fileExtension (file_name f) \<in> set BINARY_EXTENSIONS"

definition msg_not_utf8 :: jstr where "msg_not_utf8 = [0x6587, 0x672c, 0x6587, 0x4ef6, 0x5fc5, 0x987b, 0x4f7f, 0x7528] @ js '' UTF-8 '' @ [0x7f16, 0x7801]"

definition read_content :: "jsfile \<Rightarrow> nat list \<Rightarrow> (bool \<times> jstr) js" where
  "read_content f bytes = (if isBinaryImport f then Inr (True, bytesToBase64 bytes)
     else (case text_decode bytes of Some s \<Rightarrow> Inr (False, s) | None \<Rightarrow> Inl (PlainError msg_not_utf8)))"

definition readImportContent :: "jsfile \<Rightarrow> ('s, bool \<times> jstr) task" where
  "readImportContent f = Await (ReadFile f) (\<lambda>a. eval_js (buffer a) (\<lambda>bytes.
     eval_js (read_content f bytes) (\<lambda>content. Done (Inr content))))"

definition upload_part :: "bool \<Rightarrow> jstr \<Rightarrow> props" where
  "upload_part binary piece = [(js (if binary then ''content_base64'' else ''content''), JStr piece)]"

definition upload_pieces :: "jstr \<Rightarrow> jstr list" where
  "upload_pieces content = (let pieces = slices CHUNK_CHARS content in if pieces = [] then [[]] else pieces)"

definition batch_path :: "jsval \<Rightarrow> jstr" where
  "batch_path i = js ''/import-batches/'' @ to_string i"

definition part_path :: "jsval \<Rightarrow> jsval \<Rightarrow> nat \<Rightarrow> jstr" where
  "part_path batchId uploadId i =
     batch_path batchId @ js ''/uploads/'' @ to_string uploadId @ js ''/parts/'' @ index_key i"

definition first_part :: "import_entry \<Rightarrow> jsval \<Rightarrow> nat \<Rightarrow> props" where
  "first_part e sourceType tot = [(js ''total_parts'', N (int tot)), (js ''source_name'', en_name e),
     (js ''source_type'', sourceType)]"

definition part_progress :: "nat \<Rightarrow> nat \<Rightarrow> jnum" where
  "part_progress i tot = math_max (Fin 5)
     (math_round (num_mul (to_double (of_nat (i + 1) / of_nat tot)) (Fin 92)))"

definition on_entry :: "nat \<Rightarrow> (import_entry \<Rightarrow> import_entry) \<Rightarrow> import_page \<Rightarrow> import_page" where
  "on_entry n f s = s\<lparr>ip_files := map (\<lambda>e. if en_id e = n then f e else e) (ip_files s)\<rparr>"

text \<open>The loop over the parts, from part \<open>i\<close> on.\<close>

fun send_parts :: "jsval \<Rightarrow> jsval \<Rightarrow> jsval \<Rightarrow> import_entry \<Rightarrow> nat \<Rightarrow> nat \<Rightarrow> props list \<Rightarrow> (import_page, unit) task" where
  "send_parts batchId uploadId sourceType e tot i [] = return"
| "send_parts batchId uploadId sourceType e tot i (p # ps) =
     await_call (Put (part_path batchId uploadId i)
       (JObj (if i = 0 then put_all p (first_part e sourceType tot) else p))) (\<lambda>r.
     Update (on_entry (en_id e) (\<lambda>e. e\<lparr>en_progress := part_progress i tot\<rparr>))
     (send_parts batchId uploadId sourceType e tot (Suc i) ps))"

definition started_field :: "jsval \<Rightarrow> string \<Rightarrow> jsval js" where
  "started_field started k = andThen (get_or_throw started (js ''data'')) (\<lambda>d. get_or_throw d (js k))"

definition uploadFileByChunks :: "jsval \<Rightarrow> import_entry \<Rightarrow> (import_page, unit) task" where
  "uploadFileByChunks batchId e =
     Update (on_entry (en_id e) (\<lambda>e. e\<lparr>en_status := ''reading'', en_progress := Fin 2, en_error := S ''''\<rparr>))
     (await_task (readImportContent (en_file e)) (\<lambda>(binary, content).
        let parts = map (upload_part binary) (upload_pieces content); tot = length parts in
        await_call (Post (batch_path batchId @ js ''/uploads'')
          (JObj [(js ''source_name'', en_name e), (js ''total_parts'', N (int tot))])) (\<lambda>started.
        eval_js (started_field started ''upload_id'') (\<lambda>uploadId.
        eval_js (started_field started ''source_type'') (\<lambda>sourceType.
        Update (on_entry (en_id e) (\<lambda>e. e\<lparr>en_status := ''uploading''\<rparr>))
        (seq (send_parts batchId uploadId sourceType e tot 0 parts) (\<lambda>r.
        await_call (Post (batch_path batchId @ js ''/uploads/'' @ to_string uploadId @ js '':complete'') (JObj [])) (\<lambda>r.
        Update (on_entry (en_id e) (\<lambda>e. e\<lparr>en_status := ''completed'', en_progress := Fin 100\<rparr>)) return))))))))"

section \<open>Details of a batch\<close>

definition loadBatchDetail :: "jsval \<Rightarrow> bool \<Rightarrow> (import_page, unit) task" where
  "loadBatchDetail batch silent =
     (if \<not> truthy (get_opt batch (js ''id'')) then return
      else let path = batch_path (get_prop batch (js ''id'')) in
        Update (\<lambda>s. s\<lparr>ip_detailLoading := (if silent then ip_detailLoading s else True)\<rparr>)
        (try_finally
          (try_catch (await_call (All [Get path (JObj []), Get (path @ js ''/files'') (JObj []), Get (path @ js ''/issues'') (JObj [])])
             (\<lambda>v. eval_js (get_or_throw (destructure v 0) (js ''data'')) (\<lambda>d.
                Update (\<lambda>s. s\<lparr>ip_batchDetail := js_or d batch\<rparr>)
                (eval_js (data_array (destructure v 1)) (\<lambda>files. Update (\<lambda>s. s\<lparr>ip_batchFiles := files\<rparr>)
                (eval_js (data_array (destructure v 2)) (\<lambda>issues. Update (\<lambda>s. s\<lparr>ip_batchIssues := issues\<rparr>) return)))))))
             (\<lambda>cause. Update (\<lambda>s. s\<lparr>ip_error := Some cause\<rparr>) return))
          (\<lambda>s. if silent then s else s\<lparr>ip_detailLoading := False\<rparr>)))"

definition openBatch :: "jsval \<Rightarrow> (import_page, unit) task" where
  "openBatch batch = Update (\<lambda>s. s\<lparr>ip_detailVisible := True, ip_detailTab := import_tab (ip_route s), ip_batchDetail := batch\<rparr>)
     (eval_js (get_or_throw batch (js ''id'')) (\<lambda>i. Look (\<lambda>s.
        await_task (syncWizardQuery (JObj [(js ''batch_id'', JStr (to_string i)), (js ''detail_tab'', JStr (ip_detailTab s))])) (\<lambda>r.
        await_task (loadBatchDetail batch False) (\<lambda>r. return)))))"

definition closeBatch :: "(import_page, unit) task" where
  "closeBatch = Look (\<lambda>s. await_call (Replace (JObj [(js ''query'',
     JObj (delete_key (delete_key (ip_route s) (js ''batch_id'')) (js ''detail_tab'')))])) (\<lambda>r. return))"

text \<open>\<open>batches.value.find((item) => String(item.id) === id) || { id }\<close>.\<close>

definition find_batch :: "jstr \<Rightarrow> jsval \<Rightarrow> jsval list \<Rightarrow> jsval js" where
  "find_batch key i batches =
     andThen (find_js (\<lambda>item. andThen (get_or_throw item (js ''id'')) (\<lambda>v. Inr (to_string v = key))) batches)
       (\<lambda>r. Inr (case r of Some item \<Rightarrow> js_or item (JObj [(js ''id'', i)]) | None \<Rightarrow> JObj [(js ''id'', i)]))"

definition find_and_open :: "jsval \<Rightarrow> (import_page, unit) task" where
  "find_and_open i = Look (\<lambda>s. eval_js (find_batch (to_string i) i (ip_batches s)) (\<lambda>batch.
     await_task (openBatch batch) (\<lambda>r. return)))"

section \<open>Importing\<close>

definition msg_no_project :: jstr where "msg_no_project = [0x8bf7, 0x5148, 0x9009, 0x62e9, 0x9879, 0x76ee]"
definition msg_no_scope :: jstr where "msg_no_scope = [0x8bf7, 0x586b, 0x5199] @ js '' Scope''"
definition msg_invalid_files :: jstr where "msg_invalid_files = [0x8bf7, 0x79fb, 0x9664, 0x6821, 0x9a8c, 0x5931, 0x8d25, 0x7684, 0x6587, 0x4ef6,
     0x540e, 0x518d, 0x4e0a, 0x4f20]"
definition msg_no_files :: jstr where "msg_no_files = [0x8bf7, 0x81f3, 0x5c11, 0x9009, 0x62e9, 0x4e00, 0x4e2a, 0x6709, 0x6548, 0x6587,
     0x4ef6]"
definition msg_upload_failed :: jstr where "msg_upload_failed = [0x4e0a, 0x4f20, 0x5931, 0x8d25]"

definition msg_partly_failed :: "jsval \<Rightarrow> jstr" where
  "msg_partly_failed i = [0x6279, 0x6b21] @ [32] @ to_string i @ [32] @ [0x5df2, 0x521b, 0x5efa, 0xff0c, 0x4f46, 0x90e8, 0x5206, 0x6587, 0x4ef6, 0x4e0a,
     0x4f20, 0x5931, 0x8d25, 0xff1b, 0x8bf7, 0x6839, 0x636e, 0x6587, 0x4ef6, 0x5217,
     0x8868, 0x5b9a, 0x4f4d, 0x540e, 0x91cd, 0x8bd5]"

definition msg_started :: "jsval \<Rightarrow> jstr" where
  "msg_started i = [0x6279, 0x6b21] @ [32] @ to_string i @ [32] @ [0x5df2, 0x8fdb, 0x5165, 0x5904, 0x7406, 0x961f, 0x5217, 0xff0c, 0x53ef, 0x5728,
     0x6279, 0x6b21, 0x8be6, 0x60c5, 0x8ddf, 0x8e2a, 0x8fdb, 0x5ea6]"

text \<open>\<open>cause.message || '\<dots>'\<close>; the engine words its own errors.\<close>

definition upload_error :: "(jserror \<Rightarrow> jstr) \<Rightarrow> jserror \<Rightarrow> jsval js" where
  "upload_error engine cause = andThen
     (case cause of HostError v \<Rightarrow> get_or_throw v (js ''message'') | _ \<Rightarrow> Inr (error_message engine cause))
     (\<lambda>m. Inr (js_or m (JStr msg_upload_failed)))"

definition upload_one :: "(jserror \<Rightarrow> jstr) \<Rightarrow> jsval \<Rightarrow> import_entry \<Rightarrow> (import_page, bool) task" where
  "upload_one engine batchId e = try_catch
     (await_task (uploadFileByChunks batchId e) (\<lambda>r. Done (Inr False)))
     (\<lambda>cause. Update (on_entry (en_id e) (\<lambda>e. e\<lparr>en_status := ''failed''\<rparr>))
        (eval_js (upload_error engine cause) (\<lambda>m.
        Update (on_entry (en_id e) (\<lambda>e. e\<lparr>en_error := m\<rparr>)) (Done (Inr True)))))"

fun upload_all :: "(jserror \<Rightarrow> jstr) \<Rightarrow> jsval \<Rightarrow> import_entry list \<Rightarrow> bool \<Rightarrow> (import_page, bool) task" where
  "upload_all engine batchId [] failed = Done (Inr failed)"
| "upload_all engine batchId (e # es) failed =
     seq (upload_one engine batchId e) (\<lambda>f. upload_all engine batchId es (failed \<or> f))"

definition created_batch :: "jsval \<Rightarrow> jsval js" where
  "created_batch created = andThen (get_or_throw created (js ''data'')) (\<lambda>d.
     andThen (get_or_throw d (js ''batch_id'')) (\<lambda>b. Inr (js_coalesce b (get_prop d (js ''id'')))))"

definition start_batch :: "jsval \<Rightarrow> (import_page, unit) task" where
  "start_batch batchId = await_call (Post (batch_path batchId @ js ''/start'') (JObj [])) (\<lambda>r.
     Update (\<lambda>s. s\<lparr>ip_currentStep := Fin 3, ip_message := msg_started batchId\<rparr>)
     (await_task (import_load False True) (\<lambda>r. find_and_open batchId)))"

definition import_batch :: "(jserror \<Rightarrow> jstr) \<Rightarrow> (import_page, unit) task" where
  "import_batch engine = Look (\<lambda>s. await_call (Post (js ''/import-batches'')
       (JObj [(js ''project_key'', JStr (trim (ip_projectKey s))), (js ''scope_key'', JStr (trim (ip_scopeKey s)))]))
     (\<lambda>created. eval_js (created_batch created) (\<lambda>batchId.
        Update (\<lambda>s. s\<lparr>ip_activeBatchId := batchId\<rparr>) (Look (\<lambda>s.
        seq (upload_all engine batchId (validFiles s) False) (\<lambda>failed.
          if failed then throw (PlainError (msg_partly_failed batchId)) else start_batch batchId))))))"

definition importFiles :: "(jserror \<Rightarrow> jstr) \<Rightarrow> (import_page, unit) task" where
  "importFiles engine = Look (\<lambda>s. eval_js (isAdmin (ip_session s)) (\<lambda>admin.
     if \<not> admin \<or> ip_submitting s then return
     else if trim (ip_projectKey s) = []
     then Update (\<lambda>s. s\<lparr>ip_error := Some (PlainError msg_no_project), ip_currentStep := Fin 0\<rparr>) return
     else if trim (ip_scopeKey s) = []
     then Update (\<lambda>s. s\<lparr>ip_error := Some (PlainError msg_no_scope), ip_currentStep := Fin 0\<rparr>) return
     else if validFiles s = [] \<or> hasInvalidFiles s
     then Update (\<lambda>s. s\<lparr>ip_error := Some (PlainError (if hasInvalidFiles s then msg_invalid_files else msg_no_files)),
       ip_currentStep := Fin 1\<rparr>) return
     else Update (\<lambda>s. s\<lparr>ip_submitting := True, ip_error := None, ip_message := [], ip_currentStep := Fin 2\<rparr>)
       (await_task (syncWizardQuery (JObj [])) (\<lambda>r.
          try_finally (try_catch (import_batch engine) (\<lambda>cause. Update (\<lambda>s. s\<lparr>ip_error := Some cause\<rparr>) return))
            (\<lambda>s. s\<lparr>ip_submitting := False\<rparr>)))))"

section \<open>Actions on batches and candidates\<close>

definition kind_name :: "action_kind \<Rightarrow> string" where
  "kind_name k = (case k of Approve \<Rightarrow> ''approve'' | Reject \<Rightarrow> ''reject'' | CandidateRollback \<Rightarrow> ''candidateRollback''
     | CancelBatch \<Rightarrow> ''cancel'' | RetryBatch \<Rightarrow> ''retry'' | RollbackBatch \<Rightarrow> ''rollback'')"

definition actionKey :: "action_kind \<Rightarrow> jsval \<Rightarrow> jstr" where
  "actionKey k target = js (kind_name k) @ [58] @ to_string (get_opt target (js ''id''))"

definition isRowLoading :: "import_page \<Rightarrow> action_kind \<Rightarrow> jsval \<Rightarrow> bool" where
  "isRowLoading s k target \<longleftrightarrow> actionKey k target \<in> set (ip_rowLoading s)"

definition action_definition :: "action_kind \<Rightarrow> jsval \<Rightarrow> jsval \<Rightarrow> row_action" where
  "action_definition k target i = (let mk = (\<lambda>title confirm reason label impact.
       \<lparr>ac_kind = k, ac_target = target, ac_title = title, ac_confirmText = confirm, ac_requiresReason = reason,
        ac_reasonLabel = label, ac_impact = impact\<rparr>);
       number = [0x6279, 0x6b21] @ js '' #'' @ to_string i in
     case k of
       Approve \<Rightarrow> mk [0x6279, 0x51c6, 0x5e76, 0x53d1, 0x5e03, 0x5019, 0x9009] [0x786e, 0x8ba4, 0x6279, 0x51c6] True [0x5ba1, 0x6838, 0x539f, 0x56e0] ([0x5019, 0x9009, 0x5c06, 0x53d1, 0x5e03, 0x4e3a, 0x6b63, 0x5f0f] @ js '' Memory'' @ [0xff0c, 0x5e76, 0x8fdb, 0x5165, 0x540e, 0x7eed, 0x68c0, 0x7d22, 0x7ed3, 0x679c,
     0x3002])
     | Reject \<Rightarrow> mk [0x62d2, 0x7edd, 0x5019, 0x9009] [0x786e, 0x8ba4, 0x62d2, 0x7edd] True [0x62d2, 0x7edd, 0x539f, 0x56e0] ([0x5019, 0x9009, 0x5c06, 0x6807, 0x8bb0, 0x4e3a, 0x5df2, 0x62d2, 0x7edd, 0xff0c,
     0x4e0d, 0x4f1a, 0x8fdb, 0x5165, 0x6b63, 0x5f0f] @ js '' Memory'' @ [0x3002])
     | CandidateRollback \<Rightarrow> mk [0x56de, 0x6eda, 0x5df2, 0x53d1, 0x5e03, 0x5019, 0x9009] [0x786e, 0x8ba4, 0x56de, 0x6eda] True [0x56de, 0x6eda, 0x539f, 0x56e0]
         ([0x8be5, 0x5019, 0x9009, 0x5bf9, 0x5e94, 0x7684, 0x6b63, 0x5f0f] @ js '' Memory '' @ [0x5c06, 0x88ab, 0x64a4, 0x56de, 0xff0c, 0x53ef, 0x80fd, 0x5f71, 0x54cd, 0x540e,
     0x7eed, 0x68c0, 0x7d22, 0x3002])
     | CancelBatch \<Rightarrow> mk [0x53d6, 0x6d88, 0x5bfc, 0x5165, 0x6279, 0x6b21] [0x786e, 0x8ba4, 0x53d6, 0x6d88] False [] (number @ [32] @ [0x7684, 0x672a, 0x5b8c, 0x6210, 0x6587, 0x4ef6, 0x548c, 0x961f, 0x5217, 0x4efb,
     0x52a1, 0x5c06, 0x505c, 0x6b62, 0x5904, 0x7406, 0x3002])
     | RetryBatch \<Rightarrow> mk [0x91cd, 0x8bd5, 0x5bfc, 0x5165, 0x6279, 0x6b21] [0x786e, 0x8ba4, 0x91cd, 0x8bd5] False [] (number @ [32] @ [0x5c06, 0x91cd, 0x65b0, 0x8fdb, 0x5165, 0x5904, 0x7406, 0x961f, 0x5217, 0x3002])
     | RollbackBatch \<Rightarrow> mk [0x56de, 0x6eda, 0x5bfc, 0x5165, 0x6279, 0x6b21] [0x786e, 0x8ba4, 0x56de, 0x6eda] True [0x56de, 0x6eda, 0x539f, 0x56e0]
         (number @ [32] @ [0x53d1, 0x5e03, 0x7684, 0x5019, 0x9009, 0x4e0e] @ js '' Memory '' @ [0x5c06, 0x88ab, 0x64a4, 0x56de, 0xff0c, 0x6b64, 0x64cd, 0x4f5c, 0x4f1a, 0x6539,
     0x53d8, 0x68c0, 0x7d22, 0x7ed3, 0x679c, 0x3002]))"

definition openAction :: "action_kind \<Rightarrow> jsval \<Rightarrow> (import_page, unit) task" where
  "openAction k target = eval_js (get_or_throw target (js ''id'')) (\<lambda>i.
     Update (\<lambda>s. s\<lparr>ip_action := Some (action_definition k target i), ip_actionReason := [], ip_actionVisible := True\<rparr>) return)"

definition reviewer :: "session \<Rightarrow> jsval" where
  "reviewer ss = js_or (js_or (displayName ss) (get_opt (me ss) (js ''display_name''))) (JStr [0x7ba1, 0x7406, 0x540e, 0x53f0])"

definition action_request :: "action_kind \<Rightarrow> jsval \<Rightarrow> jstr \<Rightarrow> session \<Rightarrow> call" where
  "action_request k i reason ss =
     (let candidate = js ''/reference-candidates/'' @ to_string i;
          undo = JObj [(js ''decision'', S ''rollback''), (js ''reason'', JStr reason)] in
      case k of
        Approve \<Rightarrow> Post (candidate @ js ''/review'') (JObj [(js ''decision'', S ''approve''), (js ''reviewer'', reviewer ss), (js ''reason'', JStr reason)])
      | Reject \<Rightarrow> Post (candidate @ js ''/review'') (JObj [(js ''decision'', S ''reject''), (js ''reviewer'', reviewer ss), (js ''reason'', JStr reason)])
      | CandidateRollback \<Rightarrow> Post (candidate @ js ''/rollback'') undo
      | CancelBatch \<Rightarrow> Post (batch_path i @ js ''/cancel'') (JObj [])
      | RetryBatch \<Rightarrow> Post (batch_path i @ js ''/retry'') (JObj [])
      | RollbackBatch \<Rightarrow> Post (batch_path i @ js ''/rollback'') undo)"

definition action_message :: "action_kind \<Rightarrow> jsval \<Rightarrow> jstr" where
  "action_message k i = (let number = js '' #'' @ to_string i @ [32] in case k of
        Approve \<Rightarrow> [0x5019, 0x9009, 0x5df2, 0x53d1, 0x5e03, 0x4e3a, 0x6b63, 0x5f0f] @ js '' Memory'' | Reject \<Rightarrow> [0x5019, 0x9009, 0x5df2, 0x62d2, 0x7edd]
      | CandidateRollback \<Rightarrow> [0x5019, 0x9009] @ number @ [0x5df2, 0x56de, 0x6eda] | CancelBatch \<Rightarrow> [0x6279, 0x6b21] @ number @ [0x5df2, 0x53d6, 0x6d88]
      | RetryBatch \<Rightarrow> [0x6279, 0x6b21] @ number @ [0x5df2, 0x91cd, 0x65b0, 0x6392, 0x961f] | RollbackBatch \<Rightarrow> [0x6279, 0x6b21] @ number @ [0x5df2, 0x56de, 0x6eda])"

definition action_done :: "row_action \<Rightarrow> jsval \<Rightarrow> (import_page, unit) task" where
  "action_done a i =
     Update (\<lambda>s. s\<lparr>ip_message := action_message (ac_kind a) i, ip_actionVisible := False\<rparr>)
     (await_task (import_load False True) (\<lambda>r. Look (\<lambda>s.
        if ip_detailVisible s \<and> to_string (get_opt (ip_batchDetail s) (js ''id'')) = to_string i
        then await_task (loadBatchDetail (ac_target a) False) (\<lambda>r. return) else return)))"

definition confirmAction :: "(import_page, unit) task" where
  "confirmAction = Look (\<lambda>s. case ip_action s of
      None \<Rightarrow> return
    | Some a \<Rightarrow>
        if ip_actionSubmitting s then return
        else if ac_requiresReason a \<and> trim (ip_actionReason s) = [] then return
        else let key = actionKey (ac_kind a) (ac_target a) in
          Update (\<lambda>s. s\<lparr>ip_actionSubmitting := True, ip_error := None,
            ip_rowLoading := (if key \<in> set (ip_rowLoading s) then ip_rowLoading s else ip_rowLoading s @ [key])\<rparr>)
          (try_finally
            (try_catch
              (eval_js (get_or_throw (ac_target a) (js ''id'')) (\<lambda>i.
                 await_call (action_request (ac_kind a) i (trim (ip_actionReason s)) (ip_session s)) (\<lambda>r. action_done a i)))
              (\<lambda>cause. Update (\<lambda>s. s\<lparr>ip_error := Some cause\<rparr>) return))
            (\<lambda>s. s\<lparr>ip_rowLoading := filter (\<lambda>k. k \<noteq> key) (ip_rowLoading s), ip_actionSubmitting := False\<rparr>)))"

section \<open>Refresh, mounting and the address\<close>

definition refreshActiveWork :: "bool \<Rightarrow> (import_page, unit) task" where
  "refreshActiveWork visible = (if \<not> visible then return else Look (\<lambda>s. eval_js (hasActiveBatches s) (\<lambda>active.
     if \<not> active then return
     else await_task (import_load True True) (\<lambda>r. Look (\<lambda>s.
       if ip_detailVisible s \<and> truthy (ip_batchDetail s) \<and> active_status (get_prop (ip_batchDetail s) (js ''status''))
       then await_task (loadBatchDetail (ip_batchDetail s) True) (\<lambda>r. return) else return)))))"

definition import_onVisibilityChange :: "bool \<Rightarrow> (import_page, unit) task" where
  "import_onVisibilityChange visible = (if visible then refreshActiveWork visible else return)"

text \<open>
  Mounting loads the projects and the lists side by side; when both are done it opens the batch of
  the address.  Neither of the two rejects.
\<close>

definition import_mounted :: "(import_page, unit) task" where
  "import_mounted = Look (\<lambda>s. let i = lookup_prop (ip_route s) (js ''batch_id'') in
     if truthy i then find_and_open i else return)"

definition apply_route :: "props \<Rightarrow> import_page \<Rightarrow> import_page" where
  "apply_route q s =
     (let project = import_project q (ip_session s); scope = import_scope q;
          s1 = (if project \<noteq> ip_projectKey s \<or> scope \<noteq> ip_scopeKey s then resetContextWork s else s)
      in s1\<lparr>ip_projectKey := project, ip_scopeKey := scope, ip_statusFilter := query_text q ''status'' '''',
            ip_currentStep := import_step q, ip_detailTab := import_tab q\<rparr>)"

definition route_batch :: "jstr \<Rightarrow> bool \<Rightarrow> (import_page, unit) task" where
  "route_batch key drawerChanged =
     (if key \<noteq> [] then Update (\<lambda>s. s\<lparr>ip_detailVisible := True\<rparr>) (Look (\<lambda>s.
        eval_js (find_batch key (JStr key) (ip_batches s)) (\<lambda>target.
        Update (\<lambda>s. s\<lparr>ip_batchDetail := target\<rparr>) (await_task (loadBatchDetail target False) (\<lambda>r. return)))))
      else if drawerChanged then Update (\<lambda>s. s\<lparr>ip_detailVisible := False, ip_batchDetail := JNull,
        ip_batchFiles := [], ip_batchIssues := []\<rparr>) return
      else return)"

definition import_routeChanged :: "props \<Rightarrow> (import_page, unit) task" where
  "import_routeChanged q = Update (\<lambda>s. s\<lparr>ip_route := q\<rparr>) (Look (\<lambda>s.
     let key = query_text q ''batch_id'' '''';
         current = (if ip_detailVisible s then text_or_empty (get_opt (ip_batchDetail s) (js ''id'')) else []);
         listChanged = (import_project q (ip_session s) \<noteq> ip_projectKey s \<or> import_scope q \<noteq> ip_scopeKey s
           \<or> query_text q ''status'' '''' \<noteq> ip_statusFilter s);
         drawerChanged = (key \<noteq> current) in
     if \<not> listChanged \<and> import_step q = ip_currentStep s \<and> import_tab q = ip_detailTab s \<and> \<not> drawerChanged then return
     else Update (apply_route q)
       (if listChanged then await_task (import_load False False) (\<lambda>r. route_batch key drawerChanged)
        else route_batch key drawerChanged)))"

section \<open>The page\<close>

definition import_init :: "import_page \<Rightarrow> (import_page, unit) task list \<Rightarrow> bool" where
  "import_init s ts \<longleftrightarrow> (\<exists>q ss t1 t2 s1. segment import_loadProjects (import_initial q ss) = (s1, t1)
     \<and> segment (import_load False True) s1 = (s, t2) \<and> ts = [t1, t2])"

text \<open>
  What may be started: the handlers, the timer, the end of the mounting, and the edits of the user.
  The form of the files is hidden or locked while an import runs; nothing is assumed about that.
\<close>

inductive import_handler :: "(jserror \<Rightarrow> jstr) \<Rightarrow> (import_page, unit) task \<Rightarrow> bool" for engine where
  "import_handler engine (chooseFiles fs)"
| "import_handler engine (onDrop d)"
| "import_handler engine (Update (removeFile i) return)"
| "import_handler engine resetWizard"
| "import_handler engine changeImportContext"
| "import_handler engine clearStatusFilter"
| "import_handler engine (import_load False True)"
| "import_handler engine (importFiles engine)"
| "import_handler engine (openBatch batch)"
| "import_handler engine closeBatch"
| "import_handler engine (openAction k target)"
| "import_handler engine confirmAction"
| "import_handler engine (import_onVisibilityChange visible)"
| "import_handler engine (refreshActiveWork visible)"
| "import_handler engine import_mounted"
| "import_handler engine (import_routeChanged q)"
| "import_handler engine (syncWizardQuery (JStr tab))"
| "import_handler engine (Update (\<lambda>s. s\<lparr>ip_projectKey := v, ip_scopeKey := w\<rparr>) return)"
| "import_handler engine (Update (\<lambda>s. s\<lparr>ip_detailTab := v, ip_detailVisible := b\<rparr>) return)"
| "import_handler engine (Update (\<lambda>s. s\<lparr>ip_actionReason := v, ip_actionVisible := b\<rparr>) return)"
| "import_handler engine (Update (\<lambda>s. s\<lparr>ip_dragActive := b\<rparr>) return)"
| "import_handler engine (Update (\<lambda>s. s\<lparr>ip_session := ss\<rparr>) return)"
| "import_handler engine (Update (\<lambda>s. s\<lparr>ip_message := []\<rparr>) return)"

end
