(* ===== verification/ImportLaws.thy ===== *)
theory ImportLaws imports ImportPage begin

text \<open>
  The import page: its selection in every reachable state, the protocol of an upload, one import
  and one action at a time, and the places where answers and contents go astray.
\<close>

section \<open>The selection\<close>

definition progress_ok :: "jnum \<Rightarrow> bool" where
  "progress_ok n \<longleftrightarrow> (\<exists>q. n = Fin q \<and> 0 \<le> q \<and> q \<le> 100)"

definition entries_ok :: "import_page \<Rightarrow> bool" where
  "entries_ok s \<longleftrightarrow> length (ip_files s) \<le> MAX_FILES \<and> distinct (map en_key (ip_files s)) \<and> distinct (map en_id (ip_files s))
     \<and> (\<forall>e \<in> set (ip_files s). en_id e < ip_nextId s \<and> en_key e = file_key (en_file e) \<and> progress_ok (en_progress e))"

lemma progress_ok_simps [simp]: "progress_ok (Fin q) \<longleftrightarrow> 0 \<le> q \<and> q \<le> 100"
  by (simp add: progress_ok_def)

lemma part_progress_ok: "i < tot \<Longrightarrow> progress_ok (part_progress i tot)"
proof -
  assume i: "i < tot"
  then have "(0 :: rat) \<le> of_nat (i + 1) / of_nat tot" "of_nat (i + 1) / of_nat tot \<le> (of_int 1 :: rat)"
    by (simp_all add: divide_le_eq_1 Suc_le_eq flip: of_nat_Suc)
  then obtain v where v: "to_double (of_nat (i + 1) / of_nat tot) = Fin v" "0 \<le> v" "v \<le> 1"
    using to_double_bounds [of "of_nat (i + 1) / of_nat tot" 1] by auto
  obtain w where w: "to_double (v * 92) = Fin w" "0 \<le> w" "w \<le> 92"
    using to_double_bounds [of "v * 92" 92] v(2,3) by auto
  have "0 \<le> \<lfloor>w + 1/2\<rfloor>" "\<lfloor>w + 1/2\<rfloor> \<le> 92" using w(2,3) by (auto simp: floor_le_iff)
  then show ?thesis using v w by (simp add: part_progress_def num_mul_def math_round_def math_max_def)
qed

text \<open>A step on one entry that moves its status, progress or error only.\<close>

definition entry_step :: "(import_entry \<Rightarrow> import_entry) \<Rightarrow> bool" where
  "entry_step f \<longleftrightarrow> (\<forall>e. en_id (f e) = en_id e \<and> en_key (f e) = en_key e \<and> en_file (f e) = en_file e
     \<and> (progress_ok (en_progress e) \<longrightarrow> progress_ok (en_progress (f e))))"

lemma on_entry_ok: "entries_ok s \<Longrightarrow> entry_step f \<Longrightarrow> entries_ok (on_entry n f s)"
proof -
  assume ok: "entries_ok s" "entry_step f"
  have keys: "map en_key (ip_files (on_entry n f s)) = map en_key (ip_files s)"
    "map en_id (ip_files (on_entry n f s)) = map en_id (ip_files s)"
    "length (ip_files (on_entry n f s)) = length (ip_files s)" "ip_nextId (on_entry n f s) = ip_nextId s"
    using ok(2) by (auto simp: on_entry_def entry_step_def)
  have "en_id e < ip_nextId s \<and> en_key e = file_key (en_file e) \<and> progress_ok (en_progress e)"
    if "e \<in> set (ip_files (on_entry n f s))" for e
    using that ok by (auto simp: on_entry_def entry_step_def entries_ok_def split: if_splits)
  then show ?thesis using ok(1) unfolding entries_ok_def keys by simp
qed

lemma entries_ok_frame [simp]:
  "entries_ok (s\<lparr>ip_route := q\<rparr>) = entries_ok s" "entries_ok (s\<lparr>ip_session := ss\<rparr>) = entries_ok s"
  "entries_ok (s\<lparr>ip_projectKey := u\<rparr>) = entries_ok s" "entries_ok (s\<lparr>ip_scopeKey := u\<rparr>) = entries_ok s"
  "entries_ok (s\<lparr>ip_statusFilter := u\<rparr>) = entries_ok s" "entries_ok (s\<lparr>ip_projects := vs\<rparr>) = entries_ok s"
  "entries_ok (s\<lparr>ip_currentStep := n\<rparr>) = entries_ok s" "entries_ok (s\<lparr>ip_dragActive := b\<rparr>) = entries_ok s"
  "entries_ok (s\<lparr>ip_batches := vs\<rparr>) = entries_ok s" "entries_ok (s\<lparr>ip_candidates := vs\<rparr>) = entries_ok s"
  "entries_ok (s\<lparr>ip_loading := b\<rparr>) = entries_ok s" "entries_ok (s\<lparr>ip_submitting := b\<rparr>) = entries_ok s"
  "entries_ok (s\<lparr>ip_message := u\<rparr>) = entries_ok s" "entries_ok (s\<lparr>ip_error := e\<rparr>) = entries_ok s"
  "entries_ok (s\<lparr>ip_activeBatchId := v\<rparr>) = entries_ok s" "entries_ok (s\<lparr>ip_detailVisible := b\<rparr>) = entries_ok s"
  "entries_ok (s\<lparr>ip_detailLoading := b\<rparr>) = entries_ok s" "entries_ok (s\<lparr>ip_detailTab := u\<rparr>) = entries_ok s"
  "entries_ok (s\<lparr>ip_batchDetail := v\<rparr>) = entries_ok s" "entries_ok (s\<lparr>ip_batchFiles := vs\<rparr>) = entries_ok s"
  "entries_ok (s\<lparr>ip_batchIssues := vs\<rparr>) = entries_ok s" "entries_ok (s\<lparr>ip_actionVisible := b\<rparr>) = entries_ok s"
  "entries_ok (s\<lparr>ip_actionReason := u\<rparr>) = entries_ok s" "entries_ok (s\<lparr>ip_actionSubmitting := b\<rparr>) = entries_ok s"
  "entries_ok (s\<lparr>ip_action := act\<rparr>) = entries_ok s" "entries_ok (s\<lparr>ip_rowLoading := us\<rparr>) = entries_ok s"
  "entries_ok (s\<lparr>ip_sequence := i\<rparr>) = entries_ok s"
  by (simp_all add: entries_ok_def)

lemma entries_none: "ip_files s = [] \<Longrightarrow> entries_ok s"
  by (simp add: entries_ok_def)

lemma add_entries_fresh:
  "distinct (map en_key (add_entries keys n fs)) \<and> (\<forall>e \<in> set (add_entries keys n fs). en_key e \<notin> set keys
     \<and> en_key e = file_key (en_file e) \<and> n \<le> en_id e \<and> en_id e < n + length (add_entries keys n fs) \<and> en_progress e = Fin 0)
   \<and> distinct (map en_id (add_entries keys n fs)) \<and> length (add_entries keys n fs) \<le> length fs"
proof (induction keys n fs rule: add_entries.induct)
  case (2 keys n f fs)
  then show ?case by (cases "file_key f \<in> set keys") (fastforce simp: new_entry_def)+
qed simp

lemma add_to_page_ok: "entries_ok s \<Longrightarrow> entries_ok (add_to_page fs s)"
proof -
  assume ok: "entries_ok s"
  let ?next = "add_entries (map en_key (ip_files s)) (ip_nextId s) (take (MAX_FILES - length (ip_files s)) fs)"
  note new = add_entries_fresh [of "map en_key (ip_files s)" "ip_nextId s" "take (MAX_FILES - length (ip_files s)) fs"]
  have "length ?next \<le> MAX_FILES - length (ip_files s)" using new by simp
  moreover have "length (ip_files s) \<le> MAX_FILES" using ok by (simp add: entries_ok_def)
  ultimately have "length (ip_files s @ ?next) \<le> MAX_FILES" unfolding length_append by linarith
  moreover have "distinct (map en_id (ip_files s @ ?next))"
    using ok new by (fastforce simp: entries_ok_def)
  moreover have "k \<notin> set (map en_key (ip_files s))" if "k \<in> set (map en_key ?next)" for k
  proof -
    obtain e where "e \<in> set ?next" "k = en_key e" using \<open>k \<in> set (map en_key ?next)\<close> by auto
    then show ?thesis using new by blast
  qed
  then have "distinct (map en_key (ip_files s @ ?next))"
    using ok new by (simp only: entries_ok_def map_append distinct_append) blast
  moreover have "en_id e < ip_nextId s + length ?next \<and> en_key e = file_key (en_file e) \<and> progress_ok (en_progress e)"
    if "e \<in> set (ip_files s @ ?next)" for e
    using that ok new by (fastforce simp: entries_ok_def)
  ultimately show ?thesis by (simp add: add_to_page_def Let_def entries_ok_def)
qed

lemma distinct_map_remove:
  assumes "distinct (map f xs)"
  shows "distinct (map f (take i xs @ drop (Suc i) xs))"
proof -
  have "map f (take i xs @ drop (Suc i) xs) = take i (map f xs) @ drop (Suc i) (map f xs)"
    by (simp add: take_map drop_map)
  then show ?thesis
    unfolding distinct_append using assms set_take_disj_set_drop_if_distinct [of "map f xs" i "Suc i"]
    by (simp only: distinct_append distinct_take distinct_drop)
qed

lemma removeFile_ok: "entries_ok s \<Longrightarrow> entries_ok (removeFile i s)"
proof -
  assume ok: "entries_ok s"
  let ?files = "take i (ip_files s) @ drop (Suc i) (ip_files s)"
  have "distinct (map en_key ?files)" "distinct (map en_id ?files)"
    using ok by (auto simp only: entries_ok_def intro!: distinct_map_remove)
  moreover have "set ?files \<subseteq> set (ip_files s)" by (auto dest: in_set_takeD in_set_dropD)
  moreover have "length ?files \<le> length (ip_files s)" by auto
  ultimately show ?thesis using ok by (auto simp: removeFile_def entries_ok_def Let_def)
qed

section \<open>The selection in every reachable state\<close>

text \<open>
  Together with the selection: the action that is prepared asks for a reason exactly if it decides something, and a
  request that carries a decision carries a reason with text.
\<close>

definition import_ok :: "import_page \<Rightarrow> bool" where
  "import_ok s \<longleftrightarrow> entries_ok s \<and> (\<forall>a. ip_action s = Some a \<longrightarrow>
     ac_requiresReason a = (ac_kind a \<notin> {CancelBatch, RetryBatch}))"

definition reasoned :: "call \<Rightarrow> bool" where
  "reasoned c \<longleftrightarrow> (\<forall>p ps. c = Post p (JObj ps) \<longrightarrow> map_of ps (js ''decision'') \<noteq> None \<longrightarrow>
     (\<exists>t. map_of ps (js ''reason'') = Some (JStr t) \<and> trim t = t \<and> t \<noteq> []))"

lemma reasoned_simps [simp]:
  "reasoned (Get p q)" "reasoned (Put p q)" "reasoned (Replace q)" "reasoned Tick" "reasoned (All cs)" "reasoned (ReadFile f)" "reasoned (AllSettled cs)"
  "reasoned (StoreAction n v)" "map_of ps (js ''decision'') = None \<Longrightarrow> reasoned (Post p (JObj ps))"
  by (auto simp: reasoned_def)

lemma import_ok_frame [simp]:
  "import_ok (s\<lparr>ip_route := q\<rparr>) = import_ok s" "import_ok (s\<lparr>ip_session := ss\<rparr>) = import_ok s"
  "import_ok (s\<lparr>ip_projectKey := u\<rparr>) = import_ok s" "import_ok (s\<lparr>ip_scopeKey := u\<rparr>) = import_ok s"
  "import_ok (s\<lparr>ip_statusFilter := u\<rparr>) = import_ok s" "import_ok (s\<lparr>ip_projects := vs\<rparr>) = import_ok s"
  "import_ok (s\<lparr>ip_currentStep := n\<rparr>) = import_ok s" "import_ok (s\<lparr>ip_dragActive := b\<rparr>) = import_ok s"
  "import_ok (s\<lparr>ip_batches := vs\<rparr>) = import_ok s" "import_ok (s\<lparr>ip_candidates := vs\<rparr>) = import_ok s"
  "import_ok (s\<lparr>ip_loading := b\<rparr>) = import_ok s" "import_ok (s\<lparr>ip_submitting := b\<rparr>) = import_ok s"
  "import_ok (s\<lparr>ip_message := u\<rparr>) = import_ok s" "import_ok (s\<lparr>ip_error := e\<rparr>) = import_ok s"
  "import_ok (s\<lparr>ip_activeBatchId := v\<rparr>) = import_ok s" "import_ok (s\<lparr>ip_detailVisible := b\<rparr>) = import_ok s"
  "import_ok (s\<lparr>ip_detailLoading := b\<rparr>) = import_ok s" "import_ok (s\<lparr>ip_detailTab := u\<rparr>) = import_ok s"
  "import_ok (s\<lparr>ip_batchDetail := v\<rparr>) = import_ok s" "import_ok (s\<lparr>ip_batchFiles := vs\<rparr>) = import_ok s"
  "import_ok (s\<lparr>ip_batchIssues := vs\<rparr>) = import_ok s" "import_ok (s\<lparr>ip_actionVisible := b\<rparr>) = import_ok s"
  "import_ok (s\<lparr>ip_actionReason := u\<rparr>) = import_ok s" "import_ok (s\<lparr>ip_actionSubmitting := b\<rparr>) = import_ok s"
  "import_ok (s\<lparr>ip_rowLoading := us\<rparr>) = import_ok s"
  "import_ok (s\<lparr>ip_sequence := i\<rparr>) = import_ok s"
  by (simp_all add: import_ok_def)

lemma import_ok_steps:
  "import_ok s \<Longrightarrow> entry_step f \<Longrightarrow> import_ok (on_entry n f s)" "import_ok s \<Longrightarrow> import_ok (add_to_page fs s)"
  "import_ok s \<Longrightarrow> import_ok (removeFile i s)" "import_ok s \<Longrightarrow> import_ok (resetContextWork s)"
  "import_ok s \<Longrightarrow> import_ok (s\<lparr>ip_action := Some (action_definition k target v), ip_actionReason := [], ip_actionVisible := True\<rparr>)"
  using on_entry_ok [of s f n] add_to_page_ok [of s fs] removeFile_ok [of s i]
  by (auto simp: import_ok_def on_entry_def add_to_page_def removeFile_def resetContextWork_def action_definition_def Let_def entries_none
      split: action_kind.splits)

lemma import_ok_none: "import_ok s \<Longrightarrow> import_ok (s\<lparr>ip_files := []\<rparr>)"
  by (simp add: import_ok_def entries_none)

lemma action_reasoned:
  "import_ok s \<Longrightarrow> ip_action s = Some a \<Longrightarrow> ac_requiresReason a \<longrightarrow> trim t \<noteq> [] \<Longrightarrow> reasoned (action_request (ac_kind a) i (trim t) ss)"
  by (auto simp: import_ok_def reasoned_def action_request_def Let_def js_def split: action_kind.splits)

lemma sync_keeps [task_intro]: "Q Tick \<Longrightarrow> (\<And>q. Q (Replace q)) \<Longrightarrow> careful P Q (syncWizardQuery extra)"
  by (simp add: syncWizardQuery_def await_call_def split: sum.split)

lemma detail_keeps: "careful import_ok reasoned (loadBatchDetail batch silent)"
  by (auto simp: loadBatchDetail_def Let_def intro!: task_intro)

lemma load_keeps: "careful import_ok reasoned (import_load silent sync)"
  by (auto simp: import_load_def import_fetch_def import_listed_def import_failed_def import_requests_def
      intro!: task_intro)

lemma open_keeps: "careful import_ok reasoned (openBatch batch)"
  by (auto simp: openBatch_def intro!: task_intro detail_keeps)

lemma find_open_keeps: "careful import_ok reasoned (find_and_open i)"
  by (auto simp: find_and_open_def intro!: task_intro open_keeps)

lemma parts_keep: "i + length ps \<le> tot \<Longrightarrow> careful import_ok reasoned (send_parts b u st e tot i ps)"
  by (induction ps arbitrary: i)
    (auto intro!: task_intro import_ok_steps part_progress_ok simp: entry_step_def)

lemma upload_keeps: "careful import_ok reasoned (uploadFileByChunks b e)"
  by (auto simp: uploadFileByChunks_def readImportContent_def Let_def entry_step_def eval_js_def split: sum.split
      intro!: task_intro import_ok_steps parts_keep)

lemma import_keeps: "careful import_ok reasoned (upload_all engine b es f)"
  by (induction engine b es f rule: upload_all.induct)
    (auto simp: upload_one_def entry_step_def intro!: task_intro upload_keeps import_ok_steps)

lemma importFiles_keeps: "careful import_ok reasoned (importFiles engine)"
  by (auto simp: importFiles_def import_batch_def start_batch_def
      intro!: task_intro import_keeps load_keeps find_open_keeps split: if_splits)

lemma confirm_keeps: "careful import_ok reasoned confirmAction"
  by (auto simp: confirmAction_def action_done_def Let_def intro!: task_intro load_keeps detail_keeps action_reasoned split: option.splits)

lemma route_keeps: "careful import_ok reasoned (import_routeChanged q)"
  by (auto simp: import_routeChanged_def route_batch_def apply_route_def Let_def
      intro!: task_intro load_keeps detail_keeps import_ok_steps)

lemma refresh_keeps: "careful import_ok reasoned (refreshActiveWork visible)"
  by (auto simp: refreshActiveWork_def intro!: task_intro load_keeps detail_keeps)

lemma add_keeps: "careful import_ok reasoned (addFiles fs)"
  by (auto simp: addFiles_def intro!: task_intro import_ok_steps)

interpretation import_selection: careful_page import_init "import_handler engine" import_ok reasoned for engine
proof
  show "import_ok s \<and> (\<forall>t \<in> set ts. careful import_ok reasoned t)" if mounted: "import_init s ts" for s ts
  proof -
    obtain q ss t1 t2 s1 where run: "segment import_loadProjects (import_initial q ss) = (s1, t1)"
      "segment (import_load False True) s1 = (s, t2)" "ts = [t1, t2]" using mounted by (auto simp: import_init_def)
    have "careful import_ok reasoned import_loadProjects" by (auto simp: import_loadProjects_def intro!: task_intro)
    moreover have "import_ok (import_initial q ss)" by (simp add: import_ok_def entries_ok_def import_initial_def)
    ultimately have one: "import_ok s1 \<and> careful import_ok reasoned t1" using careful_segment [of import_ok reasoned, OF _ _ run(1)] by simp
    then have "import_ok s \<and> careful import_ok reasoned t2" using careful_segment [of import_ok reasoned, OF load_keeps _ run(2)] by simp
    then show ?thesis using one run(3) by simp
  qed
  show "careful import_ok reasoned t" if "import_handler engine t" for t
    using that
    by cases (auto simp: chooseFiles_def onDrop_def resetWizard_def changeImportContext_def clearStatusFilter_def
      closeBatch_def openAction_def import_onVisibilityChange_def import_mounted_def Let_def import_ok_none
      intro!: task_intro add_keeps import_ok_steps import_ok_steps load_keeps importFiles_keeps open_keeps find_open_keeps
        confirm_keeps refresh_keeps route_keeps)
qed

section \<open>One import and one action at a time\<close>

definition imports_call :: "call \<Rightarrow> bool" where
  "imports_call c = (case c of Put path b \<Rightarrow> True | Post path b \<Rightarrow> path = js ''/import-batches'' | _ \<Rightarrow> False)"

definition acts_call :: "call \<Rightarrow> bool" where
  "acts_call c = (case c of Post path b \<Rightarrow> starts_with path (js ''/reference-candidates/'')
     \<or> ends_with path (js ''/cancel'') \<or> ends_with path (js ''/retry'') \<or> ends_with path (js ''/rollback'') | _ \<Rightarrow> False)"

lemma call_kinds [simp]:
  "\<not> imports_call (Get p q)" "\<not> imports_call (Replace q)" "\<not> imports_call Tick" "\<not> imports_call (All cs)" "\<not> imports_call (ReadFile f)"
  "imports_call (Put p b)" "imports_call (Post p b) \<longleftrightarrow> p = js ''/import-batches''"
  "\<not> acts_call (Get p q)" "\<not> acts_call (Replace q)" "\<not> acts_call Tick" "\<not> acts_call (All cs)" "\<not> acts_call (ReadFile f)"
  "\<not> acts_call (Put p b)"
  by (simp_all add: imports_call_def acts_call_def)

lemma upload_posts [simp]:
  "\<not> acts_call (Post (js ''/import-batches'') b)" "\<not> acts_call (Post (batch_path i @ js ''/uploads'') b)"
  "\<not> acts_call (Post (batch_path i @ js ''/uploads/'' @ u @ js '':complete'') b)" "\<not> acts_call (Post (batch_path i @ js ''/start'') b)"
  by (simp_all add: acts_call_def batch_path_def js_def starts_with_def ends_with_def)

lemma action_posts [simp]:
  "\<not> imports_call (action_request k i reason ss)" "acts_call (action_request k i reason ss)"
  by (cases k; simp add: action_request_def Let_def imports_call_def acts_call_def batch_path_def js_def starts_with_def ends_with_def)+

lemma sync_neutral: "neutral ip_submitting imports_call (syncWizardQuery x)" "neutral ip_actionSubmitting acts_call (syncWizardQuery y)"
  by (auto simp: syncWizardQuery_def intro!: task_intro)

lemmas import_load_defs = import_load_def import_fetch_def import_listed_def import_failed_def import_requests_def Let_def

lemma load_neutral:
  "neutral ip_submitting imports_call (import_load a b)" "neutral ip_actionSubmitting acts_call (import_load c d)"
  by (auto simp: import_load_defs intro!: task_intro sync_neutral split: if_splits)

lemma detail_neutral:
  "neutral ip_submitting imports_call (loadBatchDetail a b)" "neutral ip_actionSubmitting acts_call (loadBatchDetail c d)"
  by (auto simp: loadBatchDetail_def Let_def intro!: task_intro split: if_splits)

lemma open_neutral:
  "neutral ip_submitting imports_call (openBatch a)" "neutral ip_actionSubmitting acts_call (openBatch b)"
  by (auto simp: openBatch_def intro!: task_intro sync_neutral detail_neutral)

lemma find_open_neutral:
  "neutral ip_submitting imports_call (find_and_open a)" "neutral ip_actionSubmitting acts_call (find_and_open b)"
  by (auto simp: find_and_open_def intro!: task_intro open_neutral)

lemma projects_neutral:
  "neutral ip_submitting imports_call import_loadProjects" "neutral ip_actionSubmitting acts_call import_loadProjects"
  by (auto simp: import_loadProjects_def intro!: task_intro)

lemma on_entry_frame [simp]:
  "ip_submitting (on_entry n f s) = ip_submitting s" "ip_actionSubmitting (on_entry n f s) = ip_actionSubmitting s"
  "ip_loading (on_entry n f s) = ip_loading s" "ip_sequence (on_entry n f s) = ip_sequence s"
  by (simp_all add: on_entry_def)

lemma page_frames [simp]:
  "ip_submitting (add_to_page fs s) = ip_submitting s" "ip_actionSubmitting (add_to_page fs s) = ip_actionSubmitting s"
  "ip_loading (add_to_page fs s) = ip_loading s" "ip_sequence (add_to_page fs s) = ip_sequence s"
  "ip_submitting (removeFile i s) = ip_submitting s" "ip_actionSubmitting (removeFile i s) = ip_actionSubmitting s"
  "ip_loading (removeFile i s) = ip_loading s" "ip_sequence (removeFile i s) = ip_sequence s"
  "ip_submitting (resetContextWork s) = ip_submitting s" "ip_actionSubmitting (resetContextWork s) = ip_actionSubmitting s"
  "ip_loading (resetContextWork s) = ip_loading s" "ip_sequence (resetContextWork s) = ip_sequence s"
  by (simp_all add: add_to_page_def removeFile_def resetContextWork_def Let_def)

lemma apply_route_frame [simp]:
  "ip_submitting (apply_route q s) = ip_submitting s" "ip_actionSubmitting (apply_route q s) = ip_actionSubmitting s"
  "ip_loading (apply_route q s) = ip_loading s" "ip_sequence (apply_route q s) = ip_sequence s"
  by (simp_all add: apply_route_def Let_def)

lemma route_neutral:
  "neutral ip_submitting imports_call (import_routeChanged q)" "neutral ip_actionSubmitting acts_call (import_routeChanged r)"
  by (auto simp: import_routeChanged_def route_batch_def Let_def intro!: task_intro load_neutral detail_neutral)

lemma refresh_neutral:
  "neutral ip_submitting imports_call (refreshActiveWork a)" "neutral ip_actionSubmitting acts_call (refreshActiveWork b)"
  by (auto simp: refreshActiveWork_def intro!: task_intro load_neutral detail_neutral)

lemma parts_indifferent: "indifferent ip_submitting (send_parts b u st e tot i ps)" "neutral ip_actionSubmitting acts_call (send_parts b u st e tot i ps)"
  by (induction ps arbitrary: i) (auto intro!: task_intro)

lemma upload_indifferent:
  "indifferent ip_submitting (uploadFileByChunks b e)" "neutral ip_actionSubmitting acts_call (uploadFileByChunks b' e')"
  by (auto simp: uploadFileByChunks_def readImportContent_def Let_def eval_js_def split: sum.split intro!: task_intro parts_indifferent)

lemma uploads_indifferent:
  "indifferent ip_submitting (upload_all engine b es f)" "neutral ip_actionSubmitting acts_call (upload_all engine b es f)"
  by (induction engine b es f rule: upload_all.induct) (auto simp: upload_one_def intro!: task_intro upload_indifferent)

lemmas batch_neutral = load_neutral detail_neutral open_neutral find_open_neutral sync_neutral

lemma import_batch_indifferent: "indifferent ip_submitting (import_batch engine)"
  by (auto simp: import_batch_def start_batch_def
      intro!: task_intro uploads_indifferent batch_neutral [THEN neutral_indifferent])

lemma importFiles_locked: "lock_ok ip_submitting imports_call (importFiles engine) False s"
  by (auto simp: importFiles_def syncWizardQuery_def await_call_def await_task_def eval_js_def split: sum.split
      intro!: lock_ok_release task_intro import_batch_indifferent)

lemma importFiles_neutral: "neutral ip_actionSubmitting acts_call (importFiles engine)"
  by (auto simp: importFiles_def import_batch_def start_batch_def
      intro!: task_intro uploads_indifferent batch_neutral split: if_splits)

lemma action_done_neutral:
  "neutral ip_submitting imports_call (action_done a i)" "neutral ip_actionSubmitting acts_call (action_done b j)"
  by (auto simp: action_done_def intro!: task_intro batch_neutral)

lemma confirm_neutral: "neutral ip_submitting imports_call confirmAction"
  by (auto simp: confirmAction_def Let_def intro!: task_intro action_done_neutral split: option.split)

lemma confirm_locked: "lock_ok ip_actionSubmitting acts_call confirmAction False s"
proof -
  have "indifferent ip_actionSubmitting (action_done a i)" for a i
    using action_done_neutral(2) by (rule neutral_indifferent)
  then show ?thesis
    by (auto simp: confirmAction_def Let_def intro!: lock_ok_release task_intro split: option.split)
qed


lemma mounted_neutral:
  assumes "import_init s ts"
  shows "\<not> ip_submitting s \<and> (\<forall>t \<in> set ts. neutral ip_submitting imports_call t)"
    and "\<not> ip_actionSubmitting s \<and> (\<forall>t \<in> set ts. neutral ip_actionSubmitting acts_call t)"
proof -
  obtain q ss t1 t2 s1 where run: "segment import_loadProjects (import_initial q ss) = (s1, t1)"
    "segment (import_load False True) s1 = (s, t2)" "ts = [t1, t2]" using assms by (auto simp: import_init_def)
  have "keeps (\<lambda>s. \<not> ip_submitting s \<and> \<not> ip_actionSubmitting s) import_loadProjects"
    "keeps (\<lambda>s. \<not> ip_submitting s \<and> \<not> ip_actionSubmitting s) (import_load False True)"
    by (auto simp: import_loadProjects_def import_load_defs intro!: task_intro split: if_splits)
  moreover have "\<not> ip_submitting (import_initial q ss) \<and> \<not> ip_actionSubmitting (import_initial q ss)"
    by (simp add: import_initial_def)
  ultimately have "\<not> ip_submitting s \<and> \<not> ip_actionSubmitting s"
    using careful_segment [of "\<lambda>s. \<not> ip_submitting s \<and> \<not> ip_actionSubmitting s", OF _ _ run(1)]
      careful_segment [of "\<lambda>s. \<not> ip_submitting s \<and> \<not> ip_actionSubmitting s", OF _ _ run(2)] by simp
  then show "\<not> ip_submitting s \<and> (\<forall>t \<in> set ts. neutral ip_submitting imports_call t)"
    "\<not> ip_actionSubmitting s \<and> (\<forall>t \<in> set ts. neutral ip_actionSubmitting acts_call t)"
    using neutral_segment [OF projects_neutral(1) run(1)] neutral_segment [OF load_neutral(1) run(2)]
      neutral_segment [OF projects_neutral(2) run(1)] neutral_segment [OF load_neutral(2) run(2)] run(3) by simp_all
qed

lemmas handler_defs = chooseFiles_def onDrop_def addFiles_def resetWizard_def changeImportContext_def clearStatusFilter_def
  closeBatch_def openAction_def import_onVisibilityChange_def import_mounted_def Let_def

interpretation import_lock: locked_page import_init "import_handler engine" ip_submitting imports_call for engine
proof
  show "\<not> ip_submitting s \<and> (\<forall>t \<in> set ts. neutral ip_submitting imports_call t)" if "import_init s ts" for s ts
    using that by (rule mounted_neutral)
  show "lock_ok ip_submitting imports_call t False s" if "import_handler engine t" for t s
    using that
  proof cases
    case 8
    then show ?thesis using importFiles_locked by simp
  qed (auto simp: handler_defs intro!: neutral_lock_ok task_intro batch_neutral refresh_neutral route_neutral confirm_neutral)
qed

interpretation action_lock: locked_page import_init "import_handler engine" ip_actionSubmitting acts_call for engine
proof
  show "\<not> ip_actionSubmitting s \<and> (\<forall>t \<in> set ts. neutral ip_actionSubmitting acts_call t)" if "import_init s ts" for s ts
    using that by (rule mounted_neutral)
  show "lock_ok ip_actionSubmitting acts_call t False s" if "import_handler engine t" for t s
    using that
  proof cases
    case 12
    then show ?thesis using confirm_locked by simp
  qed (auto simp: handler_defs intro!: neutral_lock_ok task_intro batch_neutral refresh_neutral route_neutral importFiles_neutral)
qed

section \<open>Loads\<close>

abbreviation calm_import :: "(import_page, 'r) task \<Rightarrow> bool" where
  "calm_import \<equiv> orderly (\<lambda>s. True) ip_sequence ip_loading"

lemma load_orderly: "calm_import (import_load silent sync)"
  by (auto simp: orderly_def import_load_defs syncWizardQuery_def seq_def try_catch_def try_finally_def await_task_def
      await_call_def eval_js_def accounted_def split: sum.splits)

lemma sync_orderly: "calm_import (syncWizardQuery x)"
  by (auto simp: syncWizardQuery_def intro!: task_intro)

lemma detail_orderly: "calm_import (loadBatchDetail batch silent)"
  by (auto simp: loadBatchDetail_def Let_def intro!: task_intro split: if_splits)

lemma open_orderly: "calm_import (openBatch batch)" "calm_import (find_and_open i)"
  by (auto simp: openBatch_def find_and_open_def intro!: task_intro sync_orderly detail_orderly)

lemma parts_orderly: "calm_import (send_parts b u st e tot i ps)"
  by (induction ps arbitrary: i) (auto intro!: task_intro)

lemma upload_orderly: "calm_import (uploadFileByChunks b e)"
  by (auto simp: uploadFileByChunks_def readImportContent_def Let_def intro!: task_intro orderly_Await parts_orderly)

lemma uploads_orderly: "calm_import (upload_all engine b es f)"
  by (induction engine b es f rule: upload_all.induct) (auto simp: upload_one_def intro!: task_intro upload_orderly)

lemmas page_orderly = load_orderly sync_orderly detail_orderly open_orderly uploads_orderly

lemma handlers_orderly: "import_handler engine t \<Longrightarrow> calm_import t"
  by (cases rule: import_handler.cases)
    (auto simp: handler_defs importFiles_def import_batch_def start_batch_def confirmAction_def action_done_def
      refreshActiveWork_def import_routeChanged_def route_batch_def
      intro!: task_intro page_orderly split: if_splits option.split)

interpretation import_loads: numbered_page import_init "import_handler engine" "\<lambda>s. True" ip_sequence ip_loading for engine
proof
  show "counted (\<lambda>s. True) ip_sequence ip_loading t s s" if "import_handler engine t" for t s
    using handlers_orderly [OF that] by (simp add: orderly_def)
  show "True \<and> (ip_loading s \<longrightarrow> (\<exists>t \<in> set ts. is_pending t \<and> clears (\<lambda>s. True) ip_sequence ip_loading (ip_sequence s) t s))
      \<and> (\<forall>c k a s'. Await c k \<in> set ts \<longrightarrow> suits c a \<longrightarrow> True \<longrightarrow> counted (\<lambda>s. True) ip_sequence ip_loading (k a) s' s')
      \<and> (\<forall>t \<in> set ts. (\<exists>c k. t = Await c k) \<or> (\<exists>r. t = Done r))" if mounted: "import_init s ts" for s ts
  proof -
    obtain q ss t1 t2 s1 where run: "segment import_loadProjects (import_initial q ss) = (s1, t1)"
      "segment (import_load False True) s1 = (s, t2)" "ts = [t1, t2]" using mounted by (auto simp: import_init_def)
    have "calm_import import_loadProjects" by (auto simp: import_loadProjects_def intro!: task_intro)
    then have one: "counted (\<lambda>s. True) ip_sequence ip_loading import_loadProjects (import_initial q ss) (import_initial q ss)"
      by (simp add: orderly_def)
    have two: "counted (\<lambda>s. True) ip_sequence ip_loading (import_load False True) s1 s1"
      using load_orderly by (simp add: orderly_def)
    have "\<exists>c k. t2 = Await c k" "clears (\<lambda>s. True) ip_sequence ip_loading (ip_sequence s) t2 s"
      using run(2) counted_segment [OF two run(2)]
      by (auto simp: import_load_defs await_call_def accounted_def)
    then show ?thesis
      using counted_segment [OF one run(1)] counted_segment [OF two run(2)] segment_shape [OF run(1)] run(3) by auto
  qed
qed

end
