(* ===== verification/ImportUpload.thy ===== *)
theory ImportUpload imports ImportLaws begin

text \<open>
  What an upload sends and what the receiver can make of it, what an import does as a whole, and the
  runs of the page.
\<close>

section \<open>The parts of a file\<close>

text \<open>C30. The loop that cuts a content into parts ends after as many rounds as the length requires: the
  parts are not longer than the limit, there is at least one, and together they are the content.\<close>

theorem pieces_complete:
  "concat (upload_pieces content) = content \<and> (\<forall>p \<in> set (upload_pieces content). length p \<le> CHUNK_CHARS)
   \<and> length (upload_pieces content) = max 1 ((length content + (CHUNK_CHARS - 1)) div CHUNK_CHARS)"
proof -
  have n: "0 < CHUNK_CHARS" by (simp add: CHUNK_CHARS_def)
  show ?thesis
  proof (cases "content = []")
    case True
    then show ?thesis using n by (simp add: upload_pieces_def)
  next
    case False
    then have "upload_pieces content = slices CHUNK_CHARS content" "slices CHUNK_CHARS content \<noteq> []"
      using n by (simp_all add: upload_pieces_def Let_def)
    moreover have "1 \<le> length (slices CHUNK_CHARS content)" using calculation(2) by (simp add: Suc_le_eq)
    ultimately show ?thesis using n slice_bounds [OF n, of _ content] length_slices [OF n, of content] by auto
  qed
qed

theorem pieces_complete_witness:
  "upload_pieces (js ''ab'') = [js ''ab''] \<and> concat (upload_pieces (js ''ab'')) = js ''ab''"
proof -
  have "upload_pieces (js ''ab'') = [js ''ab'']"
    using slices_step [of CHUNK_CHARS "js ''ab''"] by (simp add: upload_pieces_def CHUNK_CHARS_def)
  then show ?thesis using pieces_complete [of "js ''ab''"] by simp
qed

section \<open>The calls of an upload\<close>

text \<open>What the receiver reads from the calls: the texts of the parts, in their order.\<close>

fun put_text_of :: "call \<Rightarrow> jstr option" where
  "put_text_of (Put path body) = (case get_prop body (js ''content'') of
      JStr s \<Rightarrow> Some s
    | _ \<Rightarrow> (case get_prop body (js ''content_base64'') of JStr s \<Rightarrow> Some s | _ \<Rightarrow> None))"
| "put_text_of c = None"

fun put_path_of :: "call \<Rightarrow> jstr option" where
  "put_path_of (Put path body) = Some path"
| "put_path_of c = None"

definition part_call :: "jsval \<Rightarrow> jsval \<Rightarrow> jsval \<Rightarrow> import_entry \<Rightarrow> nat \<Rightarrow> nat \<Rightarrow> props \<Rightarrow> call" where
  "part_call b u st e tot i p = Put (part_path b u i) (JObj (if i = 0 then put_all p (first_part e st tot) else p))"

lemma exec_parts:
  "exec (send_parts b u st e tot i ps) srv tr s = (Inr (), tr', s') \<Longrightarrow>
   tr' = tr @ map2 (part_call b u st e tot) [i..<i + length ps] ps"
proof (induction ps arbitrary: i tr s)
  case (Cons p ps)
  obtain v where v: "returned (srv tr (part_call b u st e tot i p)) = Inr v"
    using Cons.prems by (cases "returned (srv tr (part_call b u st e tot i p))") (simp_all add: exec_simps part_call_def)
  have "tr' = (tr @ [part_call b u st e tot i p]) @ map2 (part_call b u st e tot) [Suc i..<Suc i + length ps] ps"
    using Cons.prems v by (intro Cons.IH) (simp add: exec_simps part_call_def)
  moreover have "[i..<i + length (p # ps)] = i # [Suc i..<Suc i + length ps]" using upt_rec [of i "i + length (p # ps)"] by simp
  ultimately show ?case by simp
qed simp

lemma part_text [simp]: "put_text_of (part_call b u st e tot i (upload_part binary piece)) = Some piece"
  by (cases binary) (simp_all add: part_call_def upload_part_def first_part_def)

lemma part_calls_text: "length is = length pieces \<Longrightarrow>
  List.map_filter put_text_of (map2 (part_call b u st e tot) is (map (upload_part binary) pieces)) = pieces"
  by (induction "is" pieces rule: list_induct2) (simp_all add: List.map_filter_def)

lemma part_calls_path: "length is = length ps \<Longrightarrow>
  List.map_filter put_path_of (map2 (part_call b u st e tot) is ps) = map (part_path b u) is"
  by (induction "is" ps rule: list_induct2) (simp_all add: List.map_filter_def part_call_def)

text \<open>The protocol: the file is read, the upload opened, every part sent once in order, the upload closed.\<close>

definition upload_calls :: "jsval \<Rightarrow> import_entry \<Rightarrow> bool \<Rightarrow> jstr \<Rightarrow> jsval \<Rightarrow> jsval \<Rightarrow> call list" where
  "upload_calls b e binary content u st =
     (let parts = map (upload_part binary) (upload_pieces content); tot = length parts in
      [ReadFile (en_file e), Post (batch_path b @ js ''/uploads'') (JObj [(js ''source_name'', en_name e), (js ''total_parts'', N (int tot))])]
      @ map2 (part_call b u st e tot) [0..<tot] parts
      @ [Post (batch_path b @ js ''/uploads/'' @ to_string u @ js '':complete'') (JObj [])])"

lemma exec_upload:
  assumes "exec (uploadFileByChunks b e) srv tr s = (Inr (), tr', s')"
  obtains bytes binary content u st where "buffer (srv tr (ReadFile (en_file e))) = Inr bytes"
    "read_content (en_file e) bytes = Inr (binary, content)" "tr' = tr @ upload_calls b e binary content u st"
proof -
  obtain bytes where bytes: "buffer (srv tr (ReadFile (en_file e))) = Inr bytes"
    using assms by (cases "buffer (srv tr (ReadFile (en_file e)))") (auto simp: uploadFileByChunks_def readImportContent_def exec_simps)
  obtain binary content where content: "read_content (en_file e) bytes = Inr (binary, content)"
    using assms bytes by (cases "read_content (en_file e) bytes") (auto simp: uploadFileByChunks_def readImportContent_def exec_simps)
  let ?parts = "map (upload_part binary) (upload_pieces content)"
  let ?open = "Post (batch_path b @ js ''/uploads'') (JObj [(js ''source_name'', en_name e), (js ''total_parts'', N (int (length ?parts)))])"
  let ?tr1 = "tr @ [ReadFile (en_file e)]"
  obtain started u st where started: "returned (srv ?tr1 ?open) = Inr started"
    "started_field started ''upload_id'' = Inr u" "started_field started ''source_type'' = Inr st"
    using assms bytes content
    by (auto simp: uploadFileByChunks_def readImportContent_def exec_simps Let_def split: sum.splits)
  obtain tr2 s2 where sent: "exec (send_parts b u st e (length ?parts) 0 ?parts) srv (?tr1 @ [?open])
      (on_entry (en_id e) (\<lambda>e. e\<lparr>en_status := ''uploading''\<rparr>)
        (on_entry (en_id e) (\<lambda>e. e\<lparr>en_status := ''reading'', en_progress := Fin 2, en_error := S ''''\<rparr>) s)) = (Inr (), tr2, s2)"
    "tr' = tr2 @ [Post (batch_path b @ js ''/uploads/'' @ to_string u @ js '':complete'') (JObj [])]"
    using assms bytes content started
    by (auto simp: uploadFileByChunks_def readImportContent_def exec_simps Let_def split: prod.splits sum.splits)
  have "tr' = tr @ upload_calls b e binary content u st"
    using exec_parts [OF sent(1)] sent(2) by (simp add: upload_calls_def Let_def)
  then show ?thesis using that bytes content by blast
qed

text \<open>The receiver: it joins the texts of the parts and takes the bytes of the whole.\<close>

definition received :: "bool \<Rightarrow> call list \<Rightarrow> nat list option" where
  "received binary calls = (let text = concat (List.map_filter put_text_of calls)
     in if binary then b64_decode text else Some (text_bytes text))"

definition without_mark :: "nat list \<Rightarrow> nat list" where
  "without_mark bytes = (if take 3 bytes = [0xef, 0xbb, 0xbf] then drop 3 bytes else bytes)"

lemma upload_calls_texts: "List.map_filter put_text_of (upload_calls b e binary content u st) = upload_pieces content"
  and upload_calls_paths: "List.map_filter put_path_of (upload_calls b e binary content u st)
    = map (part_path b u) [0..<length (upload_pieces content)]"
proof -
  have split: "List.map_filter f (xs @ ys) = List.map_filter f xs @ List.map_filter f ys" for f :: "call \<Rightarrow> jstr option" and xs ys
    by (simp add: List.map_filter_def)
  show "List.map_filter put_text_of (upload_calls b e binary content u st) = upload_pieces content"
    unfolding upload_calls_def Let_def split by (simp add: part_calls_text)
  show "List.map_filter put_path_of (upload_calls b e binary content u st) = map (part_path b u) [0..<length (upload_pieces content)]"
    unfolding upload_calls_def Let_def split by (simp add: part_calls_path)
qed

lemma text_decode_mark: "text_decode bytes = Some s \<Longrightarrow> text_bytes s = without_mark bytes"
  using utf8_strict_sound by (auto simp: text_decode_def without_mark_def split: if_splits)

text \<open>C3. A successful upload delivers the file: the calls are those of the protocol, with the parts
  numbered from zero in their order, and what the receiver makes of the texts is the file, byte by
  byte; of a text file a leading byte-order mark is left out.\<close>

theorem upload_delivers:
  assumes "exec (uploadFileByChunks b e) srv [] s = (Inr (), tr, s')"
    and "buffer (srv [] (ReadFile (en_file e))) = Inr bytes" "bytes_ok bytes"
  shows "\<exists>u n. List.map_filter put_path_of tr = map (part_path b u) [0..<n] \<and> 1 \<le> n
    \<and> last tr = Post (batch_path b @ js ''/uploads/'' @ to_string u @ js '':complete'') (JObj [])
    \<and> received (isBinaryImport (en_file e)) tr =
        Some (if isBinaryImport (en_file e) then bytes else without_mark bytes)"
proof -
  obtain binary content u st where run: "read_content (en_file e) bytes = Inr (binary, content)"
    "tr = upload_calls b e binary content u st"
    using exec_upload [OF assms(1)] assms(2) by (metis append_Nil sum.inject(2))
  have pieces: "1 \<le> length (upload_pieces content)" "concat (upload_pieces content) = content"
    by (auto simp: upload_pieces_def Let_def CHUNK_CHARS_def Suc_le_eq)
  have "received binary tr = Some (if binary then bytes else without_mark bytes)"
    "binary = isBinaryImport (en_file e)"
    using run b64_decode_btoa [OF assms(3)] pieces(2)
    by (auto simp: received_def upload_calls_texts read_content_def bytesToBase64_def text_decode_mark split: if_splits option.splits)
  moreover have "last tr = Post (batch_path b @ js ''/uploads/'' @ to_string u @ js '':complete'') (JObj [])"
    by (simp add: run(2) upload_calls_def Let_def)
  ultimately show ?thesis using pieces(1) upload_calls_paths run(2) by blast
qed

definition sample_file :: "string \<Rightarrow> jsfile" where
  "sample_file name = \<lparr>file_name = S name, file_size = 2, file_modified = N 0, file_tag = 0\<rparr>"

definition sample_server :: server where
  "sample_server tr c = (case c of ReadFile f \<Rightarrow> Buffer (Inr [104, 105])
     | Replace q \<Rightarrow> Returned (Inr JUndef) | Push q \<Rightarrow> Returned (Inr JUndef)
     | All cs \<Rightarrow> Returned (Inr (JArr (map (\<lambda>c. JObj []) cs))) | AllSettled cs \<Rightarrow> Results (map (\<lambda>c. Inr (JObj [])) cs)
     | _ \<Rightarrow> Returned (Inr (JObj [(js ''data'', JObj [(js ''batch_id'', N 1), (js ''upload_id'', S ''u'')])])))"

lemma sample_extension: "fileExtension (S ''a.md'') = js ''md''" "fileExtension (S ''a.pdf'') = js ''pdf''"
  by code_simp+

lemma sample_pieces: "upload_pieces [104, 105] = [[104, 105]]"
  using slices_step [of CHUNK_CHARS "[104, 105]"] by (simp add: upload_pieces_def CHUNK_CHARS_def)

lemma sample_upload:
  "en_file e = sample_file ''a.md'' \<Longrightarrow> \<exists>tr s'. exec (uploadFileByChunks (N 1) e) sample_server [] s = (Inr (), tr, s')"
proof -
  assume e: "en_file e = sample_file ''a.md''"
  have "\<not> isBinaryImport (sample_file ''a.md'')"
    using sample_extension by (simp add: isBinaryImport_def sample_file_def BINARY_EXTENSIONS_def)
  moreover have "text_decode [104, 105] = Some [104, 105]" by (simp add: text_decode_def)
  ultimately show ?thesis
    using e by (simp add: uploadFileByChunks_def readImportContent_def exec_simps sample_server_def read_content_def
      sample_pieces started_field_def Let_def)
qed

theorem upload_delivers_witness:
  "\<exists>tr s'. exec (uploadFileByChunks (N 1) (new_entry 0 (sample_file ''a.md''))) sample_server [] (import_initial [] (initial_session None))
     = (Inr (), tr, s') \<and> received False tr = Some [104, 105]"
proof -
  let ?e = "new_entry 0 (sample_file ''a.md'')"
  have e: "en_file ?e = sample_file ''a.md''" by (simp add: new_entry_def)
  have plain: "\<not> isBinaryImport (sample_file ''a.md'')"
    using sample_extension by (simp add: isBinaryImport_def sample_file_def BINARY_EXTENSIONS_def)
  obtain tr s' where run: "exec (uploadFileByChunks (N 1) ?e) sample_server [] (import_initial [] (initial_session None)) = (Inr (), tr, s')"
    using sample_upload [OF e] by blast
  have "received (isBinaryImport (en_file ?e)) tr = Some (if isBinaryImport (en_file ?e) then [104, 105] else without_mark [104, 105])"
    using upload_delivers [OF run, of "[104, 105]"] e by (auto simp: sample_server_def)
  then show ?thesis using run e plain by (simp add: without_mark_def)
qed

text \<open>Every part of a binary file stands for a stretch of the file of its own: decoded one by one, as
  the receiver does, and joined, the parts are the file.\<close>

theorem binary_parts_decode:
  assumes "bytes_ok bytes"
  shows "\<exists>pieces. map b64_decode (upload_pieces (bytesToBase64 bytes)) = map Some pieces \<and> concat pieces = bytes"
proof (cases "bytes = []")
  case True
  then show ?thesis by (intro exI [of _ "[[]]"]) (simp add: bytesToBase64_def upload_pieces_def CHUNK_CHARS_def)
next
  case False
  have "btoa bytes \<noteq> []" using False length_btoa [of bytes] by (cases bytes) auto
  then have "upload_pieces (bytesToBase64 bytes) = slices (4 * 262144) (btoa bytes)"
    by (simp add: bytesToBase64_def upload_pieces_def CHUNK_CHARS_def Let_def)
  then have parts: "upload_pieces (bytesToBase64 bytes) = map btoa (slices (3 * 262144) bytes)"
    using slices_btoa [of 262144 bytes] by (simp only: zero_less_numeral)
  have "bytes_ok p" if "p \<in> set (slices (3 * 262144) bytes)" for p
  proof -
    have "concat (slices (3 * 262144) bytes) = bytes" by simp
    then have "set p \<subseteq> set bytes" using that by (metis UN_upper set_concat)
    then show ?thesis using assms by (auto simp: bytes_ok_def)
  qed
  then have "map b64_decode (upload_pieces (bytesToBase64 bytes)) = map Some (slices (3 * 262144) bytes)"
    unfolding parts by (simp add: b64_decode_btoa)
  moreover have "concat (slices (3 * 262144) bytes) = bytes" by simp
  ultimately show ?thesis by blast
qed

theorem binary_parts_decode_witness:
  "\<exists>pieces. map b64_decode (upload_pieces (bytesToBase64 [80, 75, 3])) = map Some pieces \<and> concat pieces = [80, 75, 3]"
  using binary_parts_decode [of "[80, 75, 3]"] by simp

section \<open>Contents that do not survive the cut\<close>

lemma well_formed_append: "well_formed u \<Longrightarrow> well_formed (u @ s) = well_formed s"
proof (induction u rule: well_formed.induct)
  case (2 c u)
  then show ?case by (cases u) auto
qed simp

text \<open>Text is cut by code units: a text that is one unit short of the limit and goes on with a
  character outside the basic plane is cut between its two surrogates, so that neither part is
  well-formed, although the text is.\<close>

theorem cut_splits_pair:
  assumes "well_formed u" "length u = CHUNK_CHARS - 1" "is_high_surrogate h" "is_low_surrogate l"
  shows "well_formed (u @ [h, l]) \<and> upload_pieces (u @ [h, l]) = [u @ [h], [l]]
    \<and> \<not> well_formed (u @ [h]) \<and> \<not> well_formed [l]"
proof -
  have h: "h < 0x10000" "\<not> is_low_surrogate h" using assms(3) by (auto simp: is_high_surrogate_def is_low_surrogate_def)
  have len: "length (u @ [h]) = CHUNK_CHARS" "0 < CHUNK_CHARS" using assms(2) by (simp_all add: CHUNK_CHARS_def)
  have "slices CHUNK_CHARS ((u @ [h]) @ [l]) = [u @ [h], [l]]"
    using len slices_step [of CHUNK_CHARS "(u @ [h]) @ [l]"] slices_step [of CHUNK_CHARS "[l]"]
    by (simp del: append_assoc add: Suc_le_eq)
  then have "upload_pieces (u @ [h, l]) = [u @ [h], [l]]" by (simp add: upload_pieces_def)
  moreover have "well_formed (u @ [h, l])" "\<not> well_formed (u @ [h])"
    using well_formed_append [OF assms(1)] assms(3,4) h by simp_all
  ultimately show ?thesis using assms(4) by simp
qed

lemma well_formed_replicate: "c < 0x10000 \<Longrightarrow> \<not> is_high_surrogate c \<Longrightarrow> \<not> is_low_surrogate c \<Longrightarrow> well_formed (replicate n c)"
  by (induction n) simp_all

theorem cut_splits_pair_witness:
  "\<exists>s. well_formed s \<and> (\<exists>p \<in> set (upload_pieces s). \<not> well_formed p)"
proof -
  let ?u = "replicate (CHUNK_CHARS - 1) 97"
  have "is_high_surrogate 0xd83d" "is_low_surrogate 0xde00" by (simp_all add: is_high_surrogate_def is_low_surrogate_def)
  then show ?thesis
    using cut_splits_pair [where u = ?u and h = "0xd83d" and l = "0xde00"] well_formed_replicate [where c = 97 and n = "CHUNK_CHARS - 1"]
    by (intro exI [of _ "?u @ [0xd83d, 0xde00]"]) (auto simp: is_high_surrogate_def is_low_surrogate_def)
qed

section \<open>Runs of the page\<close>

text \<open>C29. In every reachable state the selection holds at most a hundred files, no file twice, and every
  progress is a number from 0 to 100.\<close>

theorem selection_bounded:
  assumes "page_run import_init (import_handler engine) s ts"
  shows "length (ip_files s) \<le> 100 \<and> distinct (map en_key (ip_files s))
    \<and> (\<forall>e \<in> set (ip_files s). en_key e = file_key (en_file e) \<and> (\<exists>q. en_progress e = Fin q \<and> 0 \<le> q \<and> q \<le> 100))"
  using import_selection.reachable [OF assms] by (auto simp: import_ok_def entries_ok_def MAX_FILES_def progress_ok_def)

text \<open>A page that has just been mounted, and one whose user picked a file.\<close>

definition sample_session :: session where
  "sample_session = (initial_session None)\<lparr>me := JObj [(js ''permissions'', JArr [S ''admin'']), (js ''project_key'', S ''p'')]\<rparr>"

lemma sample_admin: "isAdmin sample_session = Inr True"
  by (simp add: isAdmin_def permissions_of_def sample_session_def opt_includes_def)

lemma mounted_run:
  "\<exists>s ts. page_run import_init (import_handler engine) s ts \<and> length ts = 2 \<and> s = (import_initial q ss)\<lparr>ip_sequence := 1, ip_loading := True\<rparr>"
proof -
  obtain s1 t1 where one: "segment import_loadProjects (import_initial q ss) = (s1, t1)" by fastforce
  obtain s t2 where two: "segment (import_load False True) s1 = (s, t2)" by fastforce
  have "s1 = import_initial q ss" using one by (simp add: import_loadProjects_def await_call_def)
  then have "s = (import_initial q ss)\<lparr>ip_sequence := 1, ip_loading := True\<rparr>"
    using two by (auto simp: import_load_defs await_call_def import_initial_def)
  moreover have "page_run import_init (import_handler engine) s [t1, t2]"
    using one two by (intro page_run.mount) (auto simp: import_init_def)
  ultimately show ?thesis by (intro exI [of _ s] exI [of _ "[t1, t2]"]) simp
qed

lemma picked_run:
  "\<exists>s ts. page_run import_init (import_handler engine) s ts \<and> length ts = 3
     \<and> s = add_to_page [f] ((import_initial q ss)\<lparr>ip_sequence := 1, ip_loading := True\<rparr>)"
proof -
  obtain s ts where run: "page_run import_init (import_handler engine) s ts" "length ts = 2"
    "s = (import_initial q ss)\<lparr>ip_sequence := 1, ip_loading := True\<rparr>" using mounted_run by blast
  obtain s' t' where seg: "segment (chooseFiles [f]) s = (s', t')" by fastforce
  have "page_run import_init (import_handler engine) s' (ts @ [t'])"
    by (rule page_run.event [OF run(1) _ seg]) (rule import_handler.intros)
  moreover have "s' = add_to_page [f] s"
    using seg by (auto simp: chooseFiles_def addFiles_def syncWizardQuery_def await_call_def)
  ultimately show ?thesis using run(2,3) by (intro exI [of _ s'] exI [of _ "ts @ [t']"]) simp
qed

lemma picked_files: "ip_files (add_to_page [f] ((import_initial q ss)\<lparr>ip_sequence := 1, ip_loading := True\<rparr>)) = [new_entry 0 f]"
  by (simp add: add_to_page_def import_initial_def MAX_FILES_def)

theorem selection_bounded_witness:
  "\<forall>engine. \<exists>s ts. page_run import_init (import_handler engine) s ts \<and> length (ip_files s) = 1 \<and> length (ip_files s) \<le> 100"
proof
  fix engine
  obtain s ts where run: "page_run import_init (import_handler engine) s ts"
    "s = add_to_page [sample_file ''a.md''] ((import_initial [] sample_session)\<lparr>ip_sequence := 1, ip_loading := True\<rparr>)"
    using picked_run by blast
  have "length (ip_files s) = 1" unfolding run(2) picked_files by simp
  then show "\<exists>s ts. page_run import_init (import_handler engine) s ts \<and> length (ip_files s) = 1 \<and> length (ip_files s) \<le> 100"
    using selection_bounded [OF run(1)] run(1) by blast
qed

text \<open>C15. However events interleave, every request on its way that decides on a candidate or undoes a batch carries a
  reason that is not blank, exactly as it is trimmed from the field.\<close>

theorem decisions_have_reasons:
  assumes "page_run import_init (import_handler engine) s ts" "Await (Post path (JObj body)) k \<in> set ts"
    "map_of body (js ''decision'') \<noteq> None"
  shows "\<exists>t. map_of body (js ''reason'') = Some (JStr t) \<and> trim t = t \<and> t \<noteq> []"
  using import_selection.asked [OF assms(1,2)] assms(3) by (simp add: reasoned_def)

theorem decisions_have_reasons_witness:
  "\<forall>engine. \<exists>s ts path body k. page_run import_init (import_handler engine) s ts \<and> Await (Post path (JObj body)) k \<in> set ts
     \<and> map_of body (js ''decision'') = Some (S ''approve'') \<and> map_of body (js ''reason'') \<noteq> None"
proof
  fix engine
  let ?run = "page_run import_init (import_handler engine)" and ?target = "JObj [(js ''id'', N 1)]"
  obtain s ts where run: "?run s ts" "s = (import_initial [] sample_session)\<lparr>ip_sequence := 1, ip_loading := True\<rparr>"
    using mounted_run by blast
  let ?s1 = "s\<lparr>ip_action := Some (action_definition Approve ?target (N 1)), ip_actionReason := [], ip_actionVisible := True\<rparr>"
  have r1: "?run ?s1 (ts @ [return])"
    by (rule page_run.event [OF run(1) import_handler.intros(11) [where k = Approve and target = ?target]]) (simp add: openAction_def get_or_throw_def eval_js_def lookup_prop_def)
  let ?s2 = "?s1\<lparr>ip_actionReason := js ''ok'', ip_actionVisible := True\<rparr>"
  have r2: "?run ?s2 ((ts @ [return]) @ [return])" by (rule page_run.event [OF r1 import_handler.intros(20) [where v = "js ''ok''" and b = True]]) simp
  let ?body = "[(js ''decision'', S ''approve''), (js ''reviewer'', reviewer sample_session), (js ''reason'', S ''ok'')]"
  have "trim (js ''ok'') = js ''ok''" by (simp add: trim_def js_def is_space_def)
  then obtain s3 k where "segment confirmAction ?s2 = (s3, Await (Post (js ''/reference-candidates/'' @ to_string (N 1) @ js ''/review'') (JObj ?body)) k)"
    by (simp add: confirmAction_def run(2) import_initial_def action_definition_def action_request_def Let_def get_or_throw_def
        lookup_prop_def eval_js_def await_call_def js_def)
  from page_run.event [OF r2 import_handler.intros(12) this]
  have r3: "?run s3 ((ts @ [return]) @ [return] @ [Await (Post (js ''/reference-candidates/'' @ to_string (N 1) @ js ''/review'') (JObj ?body)) k])"
    by simp
  show "\<exists>s ts path body k. ?run s ts \<and> Await (Post path (JObj body)) k \<in> set ts
      \<and> map_of body (js ''decision'') = Some (S ''approve'') \<and> map_of body (js ''reason'') \<noteq> None"
    using decisions_have_reasons [OF r3, of _ ?body k] r3 by (intro exI conjI) (assumption, auto)
qed


lemma importing_run:
  "\<exists>s ts k. page_run import_init (import_handler engine) s (ts @ [Await (Post (js ''/import-batches'')
     (JObj [(js ''project_key'', S ''p''), (js ''scope_key'', S ''project'')])) k]) \<and> length ts = 3 \<and> ip_submitting s"
proof -
  let ?s0 = "(import_initial [] sample_session)\<lparr>ip_sequence := 1, ip_loading := True\<rparr>"
  obtain s ts where run: "page_run import_init (import_handler engine) s ts" "length ts = 3"
    "s = add_to_page [sample_file ''a.md''] ?s0" using picked_run by blast
  have "validateFile (sample_file ''a.md'') = []"
    using sample_extension by (simp add: validateFile_def sample_file_def ACCEPTED_EXTENSIONS_def MAX_FILE_BYTES_def)
  then have "validFiles s = [new_entry 0 (sample_file ''a.md'')]" "\<not> hasInvalidFiles s"
    using picked_files [of "sample_file ''a.md''" "[]" sample_session] run(3)
    by (simp_all add: validFiles_def hasInvalidFiles_def new_entry_def)
  moreover have "ip_session s = sample_session" "ip_projectKey s = js ''p''" "ip_scopeKey s = js ''project''" "\<not> ip_submitting s"
    by (simp_all add: run(3) add_to_page_def Let_def import_initial_def import_project_def import_scope_def sample_session_def js_or_def)
  moreover have "trim (js ''p'') = js ''p''" "trim (js ''project'') = js ''project''"
    by (simp_all add: trim_def js_def is_space_def)
  ultimately obtain q k0 s1 where seg: "segment (importFiles engine) s = (s1, Await (Replace q) k0)" "ip_submitting s1"
    "\<exists>k. segment (k0 (Returned (Inr JUndef))) s1 = (s1, Await Tick k) \<and> (\<exists>k'. segment (k (Returned (Inr JUndef))) s1 =
      (s1, Await (Post (js ''/import-batches'') (JObj [(js ''project_key'', S ''p''), (js ''scope_key'', S ''project'')])) k'))"
    using sample_admin
    by (simp add: importFiles_def eval_js_def syncWizardQuery_def await_call_def await_task_def import_batch_def)
  then obtain k k' where two: "segment (k0 (Returned (Inr JUndef))) s1 = (s1, Await Tick k)"
    "segment (k (Returned (Inr JUndef))) s1 = (s1, Await (Post (js ''/import-batches'')
       (JObj [(js ''project_key'', S ''p''), (js ''scope_key'', S ''project'')])) k')" by blast
  have run1: "page_run import_init (import_handler engine) s1 (ts @ [Await (Replace q) k0])"
    by (rule page_run.event [OF run(1) _ seg(1)]) (rule import_handler.intros)
  have run2: "page_run import_init (import_handler engine) s1 (ts @ [Await Tick k])"
    by (rule answer_last [OF run1 _ two(1)]) simp
  have "page_run import_init (import_handler engine) s1 (ts @ [Await (Post (js ''/import-batches'')
       (JObj [(js ''project_key'', S ''p''), (js ''scope_key'', S ''project'')])) k'])"
    by (rule answer_last [OF run2 _ two(2)]) simp
  then show ?thesis using run(2) seg(2) by blast
qed


text \<open>When nothing is pending, the page is neither loading nor importing nor acting: every path through
  its handlers, whatever fails, gives its flags back.\<close>

theorem import_at_rest:
  assumes "page_run import_init (import_handler engine) s ts" "\<forall>t \<in> set ts. \<not> is_pending t"
  shows "\<not> ip_loading s \<and> \<not> ip_submitting s \<and> \<not> ip_actionSubmitting s"
  using import_loads.at_rest [OF assms] import_lock.unlocked [OF assms] action_lock.unlocked [OF assms] by simp

lemma all_answered:
  "\<exists>s ts. page_run import_init (import_handler engine) s ts \<and> (\<forall>t \<in> set ts. \<not> is_pending t)"
proof -
  let ?s0 = "import_initial [] sample_session"
  obtain s ts where run: "page_run import_init (import_handler engine) s ts" "length ts = 2"
    "s = ?s0\<lparr>ip_sequence := 1, ip_loading := True\<rparr>" "import_init s ts"
  proof -
    obtain s1 t1 where one: "segment import_loadProjects ?s0 = (s1, t1)" by fastforce
    obtain s t2 where two: "segment (import_load False True) s1 = (s, t2)" by fastforce
    have "s1 = ?s0" using one by (simp add: import_loadProjects_def await_call_def)
    then have "s = ?s0\<lparr>ip_sequence := 1, ip_loading := True\<rparr>"
      using two by (auto simp: import_load_defs await_call_def import_initial_def)
    moreover have "import_init s [t1, t2]" using one two by (auto simp: import_init_def)
    ultimately show ?thesis using that [of s "[t1, t2]"] page_run.mount by fastforce
  qed
  then obtain k1 k2 where ts: "ts = [Await (Get (js ''/projects'') (JObj [(js ''page'', N 1), (js ''page_size'', N 100)])) k1,
      Await (import_requests ?s0) k2]"
    "\<forall>s. \<exists>s1 r. segment (k1 (Returned (Inl TypeError))) s = (s1, Done r) \<and> ip_sequence s1 = ip_sequence s"
    "\<forall>s. ip_sequence s = 1 \<longrightarrow> (\<exists>s1 r. segment (k2 (Returned (Inl TypeError))) s = (s1, Done r))"
    by (auto simp: import_init_def import_loadProjects_def import_load_def import_fetch_def import_failed_def
      import_initial_def await_call_def import_requests_def)
  obtain s1 r1 where one: "segment (k1 (Returned (Inl TypeError))) s = (s1, Done r1)" "ip_sequence s1 = 1"
    using ts(2) run(3) by fastforce
  have run1: "page_run import_init (import_handler engine) s1 (ts[0 := Done r1])"
    by (rule page_run.answer [OF run(1), where i = 0 and a = "Returned (Inl TypeError)" and k = k1
          and c = "Get (js ''/projects'') (JObj [(js ''page'', N 1), (js ''page_size'', N 100)])"]) (simp_all add: ts(1) one(1))
  obtain s2 r2 where two: "segment (k2 (Returned (Inl TypeError))) s1 = (s2, Done r2)" using ts(3) one(2) by blast
  have "page_run import_init (import_handler engine) s2 (ts[0 := Done r1, 1 := Done r2])"
    by (rule page_run.answer [OF run1, where i = 1 and a = "Returned (Inl TypeError)" and k = k2
          and c = "import_requests ?s0"])
      (simp_all add: ts(1) two import_requests_def Let_def)
  then show ?thesis by (intro exI [of _ s2] exI [of _ "ts[0 := Done r1, 1 := Done r2]"]) (simp add: ts(1))
qed

theorem import_at_rest_witness:
  "\<forall>engine. \<exists>s ts. page_run import_init (import_handler engine) s ts \<and> \<not> ip_loading s"
proof
  fix engine
  obtain s ts where run: "page_run import_init (import_handler engine) s ts" "\<forall>t \<in> set ts. \<not> is_pending t"
    using all_answered by blast
  show "\<exists>s ts. page_run import_init (import_handler engine) s ts \<and> \<not> ip_loading s"
    using import_at_rest [OF run] run(1) by blast
qed

section \<open>The address and the details\<close>

lemma index_key_inj: "index_key i = index_key j \<longleftrightarrow> i = j"
proof
  assume "index_key i = index_key j"
  then have "digits_value 10 (dec_digits (int i)) = digits_value 10 (dec_digits (int j))" by (simp add: index_key_def)
  then show "i = j" by (simp add: digits_value_dec)
qed simp

lemma index_key_not: "k \<noteq> [] \<Longrightarrow> \<not> is_digit (hd k) \<Longrightarrow> index_key i \<noteq> k"
proof
  assume k: "k \<noteq> []" "\<not> is_digit (hd k)" "index_key i = k"
  then have "hd k \<in> set (dec_digits (int i))" by (auto simp: index_key_def)
  then show False using dec_digits_digit [of "int i" "hd k"] k(2) by simp
qed

lemma index_key_names [simp]: "index_key i \<noteq> js ''step''" "index_key i \<noteq> js ''project_key''" "index_key i \<noteq> js ''scope_id''"
  "index_key i \<noteq> js ''scope_key''" "index_key i \<noteq> js ''status''" "index_key i \<noteq> js ''detail_tab''"
  by (rule index_key_not; simp add: js_def is_digit_def)+

lemma spread_string: "i < length t \<Longrightarrow> map_of (rev (entries (JStr t))) (index_key i) = Some (JStr [t ! i])"
proof -
  assume i: "i < length t"
  have "distinct (map fst (rev (entries (JStr t))))"
    by (simp add: entries_def distinct_map inj_on_def index_key_inj rev_map [symmetric])
  moreover have "(index_key i, JStr [t ! i]) \<in> set (rev (entries (JStr t)))"
    using i by (force simp: entries_def set_zip)
  ultimately show ?thesis by simp
qed

lemma put_text_other: "k' \<noteq> js k \<Longrightarrow> map_of (put_text v k q) k' = map_of q k'"
  by (simp add: put_text_def map_of_delete_key)

lemma polite_replace: "polite srv \<Longrightarrow> \<exists>v. srv tr (Replace q) = Returned (Inr v)"
  using suits_simps(7) unfolding polite_def by blast

lemma exec_sync:
  assumes "polite srv"
  shows "exec (syncWizardQuery extra) srv tr s =
    (Inr (), tr @ [Replace (JObj [(js ''query'', JObj (wizard_query extra s))])], s)"
  using polite_replace [OF assms, of tr "JObj [(js ''query'', JObj (wizard_query extra s))]"]
  by (auto simp: syncWizardQuery_def exec_simps)

text \<open>The tabs of the details hand their name to the function that writes the address, which spreads it:
  every letter of the name becomes a query parameter of its own, named by its position.\<close>

theorem tab_change_pollutes:
  assumes "polite srv" "i < length tab"
  shows "\<exists>q. exec (syncWizardQuery (JStr tab)) srv tr s = (Inr (), tr @ [Replace (JObj [(js ''query'', JObj q)])], s)
    \<and> map_of q (index_key i) = Some (JStr [tab ! i])"
proof -
  have "map_of (put_all (ip_route s) (entries (JStr tab))) (index_key i) = Some (JStr [tab ! i])"
    using spread_string [OF assms(2)] by (simp add: map_of_put_all)
  then have "map_of (wizard_query (JStr tab) s) (index_key i) = Some (JStr [tab ! i])"
    by (simp add: wizard_query_def Let_def put_text_other map_of_delete_key)
  then show ?thesis using exec_sync [OF assms(1)] by blast
qed

lemma sample_polite: "polite sample_server"
  unfolding polite_def
proof (intro allI)
  fix tr c
  show "suits c (sample_server tr c)" by (cases c) (auto simp: sample_server_def)
qed

theorem tab_change_pollutes_witness:
  "\<exists>q. exec (syncWizardQuery (JStr (js ''files''))) sample_server [] (import_initial [] sample_session)
      = (Inr (), [Replace (JObj [(js ''query'', JObj q)])], import_initial [] sample_session)
    \<and> map_of q (index_key 0) = Some (S ''f'')"
  using tab_change_pollutes [OF sample_polite, of 0 "js ''files''" "[]"] by (simp add: js_def)

text \<open>The details of a batch are not numbered: whatever batch is shown when the answer to an earlier
  request arrives, the details of that earlier batch replace what is shown.\<close>

theorem stale_detail:
  assumes "truthy (get_opt batch (js ''id''))" "truthy d"
  shows "\<exists>s1 t. segment (loadBatchDetail batch False) s0 = (s1, t) \<and> is_pending t
    \<and> answered t (Returned (Inr (JArr [JObj [(js ''data'', d)], JObj [(js ''data'', JArr files)], JObj [(js ''data'', JArr issues)]]))) s
      = s\<lparr>ip_batchDetail := d, ip_batchFiles := files, ip_batchIssues := issues, ip_detailLoading := False\<rparr>"
  using assms by (simp add: loadBatchDetail_def Let_def await_call_def eval_js_def destructure_def data_array_def)

theorem stale_detail_witness:
  "\<exists>t s. ip_batchDetail s = JObj [(js ''id'', N 2)] \<and> snd (segment (loadBatchDetail (JObj [(js ''id'', N 1)]) False) s) = t
    \<and> ip_batchDetail (answered t (Returned (Inr (JArr [JObj [(js ''data'', JObj [(js ''id'', N 1)])], JObj [(js ''data'', JArr [])],
        JObj [(js ''data'', JArr [])]]))) s) = JObj [(js ''id'', N 1)]"
proof -
  let ?s = "(import_initial [] sample_session)\<lparr>ip_batchDetail := JObj [(js ''id'', N 2)]\<rparr>"
  obtain s1 t where "segment (loadBatchDetail (JObj [(js ''id'', N 1)]) False) ?s = (s1, t)"
    "answered t (Returned (Inr (JArr [JObj [(js ''data'', JObj [(js ''id'', N 1)])], JObj [(js ''data'', JArr [])], JObj [(js ''data'', JArr [])]]))) ?s
      = ?s\<lparr>ip_batchDetail := JObj [(js ''id'', N 1)], ip_batchFiles := [], ip_batchIssues := [], ip_detailLoading := False\<rparr>"
    using stale_detail [of "JObj [(js ''id'', N 1)]" "JObj [(js ''id'', N 1)]" ?s "[]" "[]" ?s] by auto
  then show ?thesis by (intro exI [of _ t] exI [of _ ?s]) simp
qed

section \<open>A batch is started when every file is there\<close>

definition starts_call :: "call \<Rightarrow> bool" where
  "starts_call c = (case c of Post path b \<Rightarrow> ends_with path (js ''/start'') | _ \<Rightarrow> False)"

text \<open>The trace holds the whole protocol of the file.\<close>

definition uploaded :: "jsval \<Rightarrow> import_entry \<Rightarrow> call list \<Rightarrow> bool" where
  "uploaded b e tr \<longleftrightarrow> (\<exists>pre binary content u st post. tr = pre @ upload_calls b e binary content u st @ post)"

lemma uploaded_append: "uploaded b e tr \<Longrightarrow> uploaded b e (tr @ calls)"
  unfolding uploaded_def by (metis append_assoc)

lemma uploaded_exec: "uploaded b e tr \<Longrightarrow> exec t srv tr s = (r, tr', s') \<Longrightarrow> uploaded b e tr'"
  using exec_log [of t srv tr s] uploaded_append by auto

lemma starts_simps [simp]:
  "\<not> starts_call (Get p q)" "\<not> starts_call (Put p b)" "\<not> starts_call (Replace q)" "\<not> starts_call Tick"
  "\<not> starts_call (All cs)" "\<not> starts_call (ReadFile f)" "\<not> starts_call (Post (js ''/import-batches'') b)"
  "\<not> starts_call (Post (batch_path i @ js ''/uploads'') b)"
  "\<not> starts_call (Post (batch_path i @ js ''/uploads/'' @ u @ js '':complete'') b)"
  by (simp_all add: starts_call_def js_def ends_with_def starts_with_def)

lemma parts_start_nothing: "neutral (\<lambda>s. False) starts_call (send_parts b u st e tot i ps)"
  by (induction ps arbitrary: i) (auto intro!: task_intro)

lemma uploads_start_nothing: "neutral (\<lambda>s. False) starts_call (upload_all engine b es f)"
  by (induction engine b es f rule: upload_all.induct)
    (auto simp: upload_one_def uploadFileByChunks_def readImportContent_def Let_def eval_js_def split: sum.split
      intro!: task_intro parts_start_nothing)

lemma sync_starts_nothing: "neutral (\<lambda>s. False) starts_call (syncWizardQuery x)"
  by (auto simp: syncWizardQuery_def intro!: task_intro)

lemma upload_one_done:
  "exec (upload_one engine b e) srv tr s = (Inr False, tr', s') \<Longrightarrow> uploaded b e tr'"
proof -
  assume run: "exec (upload_one engine b e) srv tr s = (Inr False, tr', s')"
  obtain r tr1 s1 where up: "exec (uploadFileByChunks b e) srv tr s = (r, tr1, s1)" using prod_cases3 by blast
  have "r = Inr () \<and> tr' = tr1"
    using run up by (cases r) (auto simp: upload_one_def exec_simps split: sum.splits)
  then show ?thesis using up exec_upload [of b e srv tr s tr1 s1] unfolding uploaded_def by (metis append_Nil2)
qed

lemma uploads_done:
  "exec (upload_all engine b es f) srv tr s = (Inr False, tr', s') \<Longrightarrow> \<not> f \<and> (\<forall>e \<in> set es. uploaded b e tr')"
proof (induction engine b es f arbitrary: tr s rule: upload_all.induct)
  case (2 engine b e es f)
  obtain r tr1 s1 where one: "exec (upload_one engine b e) srv tr s = (r, tr1, s1)" using prod_cases3 by blast
  then obtain g where g: "r = Inr g" "exec (upload_all engine b es (f \<or> g)) srv tr1 s1 = (Inr False, tr', s')"
    using "2.prems" by (cases r) (auto simp: exec_seq)
  then have rest: "\<not> (f \<or> g)" "\<forall>e \<in> set es. uploaded b e tr'" using "2.IH" [OF g(2)] by auto
  then have "uploaded b e tr1" using upload_one_done one g(1) by simp
  then show ?case using rest uploaded_exec [OF _ g(2)] by auto
qed simp


lemma sample_import:
  "\<exists>r tr c s'. exec (importFiles (\<lambda>e. [])) sample_server [] ((import_initial [] sample_session)\<lparr>ip_files := [new_entry 0 (sample_file ''a.md'')]\<rparr>)
     = (r, tr, s') \<and> c \<in> set tr \<and> starts_call c"
proof -
  let ?e = "new_entry 0 (sample_file ''a.md'')"
  let ?s = "(import_initial [] sample_session)\<lparr>ip_files := [?e]\<rparr>"
  let ?s1 = "?s\<lparr>ip_submitting := True, ip_error := None, ip_message := [], ip_currentStep := Fin 2\<rparr>"
  have e: "en_file ?e = sample_file ''a.md''" "en_status ?e = ''ready''"
    using sample_extension by (simp_all add: new_entry_def validateFile_def sample_file_def ACCEPTED_EXTENSIONS_def MAX_FILE_BYTES_def)
  have page: "ip_session ?s = sample_session" "ip_projectKey ?s = js ''p''" "ip_scopeKey ?s = js ''project''" "\<not> ip_submitting ?s"
    by (simp_all add: import_initial_def import_project_def import_scope_def sample_session_def js_or_def)
  have trims: "trim (js ''p'') = js ''p''" "trim (js ''project'') = js ''project''"
    by (simp_all add: trim_def js_def is_space_def)
  have valid: "validFiles (?s1\<lparr>ip_activeBatchId := v\<rparr>) = [?e]" "validFiles ?s = [?e]" "\<not> hasInvalidFiles ?s" for v
    using e(2) by (simp_all add: validFiles_def hasInvalidFiles_def)
  obtain tr0 where sync: "exec (syncWizardQuery (JObj [])) sample_server [] ?s1 = (Inr (), tr0, ?s1)"
    using exec_sync [OF sample_polite] by blast
  let ?create = "Post (js ''/import-batches'') (JObj [(js ''project_key'', S ''p''), (js ''scope_key'', S ''project'')])"
  have upload: "\<exists>tr s'. exec (uploadFileByChunks (N 1) ?e) sample_server tr0 s = (Inr (), tr, s')" for tr0 s
  proof -
    have "\<not> isBinaryImport (sample_file ''a.md'')"
      using sample_extension by (simp add: isBinaryImport_def sample_file_def BINARY_EXTENSIONS_def)
    moreover have "text_decode [104, 105] = Some [104, 105]" by (simp add: text_decode_def)
    ultimately show ?thesis
      using e by (simp add: uploadFileByChunks_def readImportContent_def exec_simps sample_server_def read_content_def
        sample_pieces started_field_def Let_def)
  qed
  obtain tr1 s1 where up: "exec (upload_all (\<lambda>e. []) (N 1) [?e] False) sample_server (tr0 @ [?create]) (?s1\<lparr>ip_activeBatchId := N 1\<rparr>)
      = (Inr False, tr1, s1)"
    using upload [of "tr0 @ [?create]" "?s1\<lparr>ip_activeBatchId := N 1\<rparr>"] by (auto simp: upload_one_def exec_simps)
  let ?start = "Post (batch_path (N 1) @ js ''/start'') (JObj [])"
  obtain r tr s' where start: "exec (start_batch (N 1)) sample_server tr1 s1 = (r, tr, s')" "?start \<in> set tr"
  proof -
    obtain r tr s' where run: "exec (start_batch (N 1)) sample_server tr1 s1 = (r, tr, s')" using prod_cases3 by blast
    then obtain t s0 where "exec t sample_server (tr1 @ [?start]) s0 = (r, tr, s')"
      by (simp add: start_batch_def exec_await_call sample_server_def)
    then have "?start \<in> set tr" using exec_log [of t sample_server "tr1 @ [?start]" s0] by auto
    then show ?thesis by (rule that [OF run])
  qed
  have "created_batch (JObj [(js ''data'', JObj [(js ''batch_id'', N 1), (js ''upload_id'', S ''u'')])]) = Inr (N 1)"
    by (simp add: created_batch_def)
  then have batch: "exec (import_batch (\<lambda>e. [])) sample_server tr0 ?s1 = (r, tr, s')"
    using page trims up start valid by (simp add: import_batch_def exec_simps sample_server_def)
  have "\<exists>r s'. exec (importFiles (\<lambda>e. [])) sample_server [] ?s = (r, tr, s')"
    using page trims sample_admin valid sync batch by (cases r) (simp_all add: importFiles_def exec_simps)
  moreover have "starts_call ?start" by (simp add: starts_call_def js_def ends_with_def starts_with_def)
  ultimately show ?thesis using start(2) by blast
qed


end
