(* ===== verification/Composables.thy ===== *)
theory Composables imports PageCommon begin

text \<open>
  The two composables of the console: \<open>composables/useRouteQuery.js\<close>, which keeps the filters of a
  page in its address, and \<open>composables/useVisibilityRefresh.js\<close>, which repeats a load while the page
  is visible.
\<close>

section \<open>Filters in the address\<close>

text \<open>\<open>clean\<close>: what is empty leaves the address.\<close>

definition clean_query :: "props \<Rightarrow> props" where
  "clean_query q = from_entries (filter (\<lambda>e. snd e \<noteq> S '''' \<and> snd e \<noteq> JUndef \<and> snd e \<noteq> JNull) q)"

text \<open>\<open>parse\<close>: each filter from the address, or its default.\<close>

definition rq_value :: "jstr list \<Rightarrow> jstr \<Rightarrow> jsval \<Rightarrow> jsval \<Rightarrow> jsval" where
  "rq_value numericKeys key fallback v =
     (if v = JUndef then fallback
      else if key \<in> set numericKeys then js_or (JNum (to_number v)) fallback
      else JStr (to_string v))"

definition rq_parse :: "props \<Rightarrow> jstr list \<Rightarrow> props \<Rightarrow> props" where
  "rq_parse defaults numericKeys query =
     from_entries (map (\<lambda>(key, fallback). (key, rq_value numericKeys key fallback (lookup_prop query key))) defaults)"

text \<open>The query of \<open>commit\<close>: the address, overlaid with the whole state.\<close>

definition rq_address :: "props \<Rightarrow> props \<Rightarrow> props" where
  "rq_address query st = clean_query (put_all query st)"

text \<open>\<open>commit\<close> in a page with the parts \<open>address\<close>, \<open>path\<close> and \<open>state\<close>.\<close>

definition rq_commit ::
    "('s \<Rightarrow> props) \<Rightarrow> ('s \<Rightarrow> jstr) \<Rightarrow> ('s \<Rightarrow> props) \<Rightarrow> ((props \<Rightarrow> props) \<Rightarrow> 's \<Rightarrow> 's) \<Rightarrow> props \<Rightarrow> bool \<Rightarrow> ('s, unit) task" where
  "rq_commit address path state on_state patch replace' =
     Update (on_state (\<lambda>st. put_all st patch)) (Look (\<lambda>s.
       let target = JObj [(js ''path'', JStr (path s)), (js ''query'', JObj (rq_address (address s) (state s)))] in
       await_call (if replace' then Replace target else Push target) (\<lambda>r. return)))"

section \<open>Laws of the address\<close>

lemma rq_parse_lookup:
  assumes "distinct (map fst defaults)" "map_of defaults k = Some d"
  shows "lookup_prop (rq_parse defaults nums q) k = rq_value nums k d (lookup_prop q k)"
proof -
  let ?f = "\<lambda>(key, fallback). (key, rq_value nums key fallback (lookup_prop q key))"
  have keys: "map fst (map ?f ds) = map fst ds" for ds by (induction ds) auto
  have "map_of (map ?f ds) k = map_option (\<lambda>d. rq_value nums k d (lookup_prop q k)) (map_of ds k)" for ds
    by (induction ds) auto
  moreover have "rq_parse defaults nums q = map ?f defaults"
    unfolding rq_parse_def by (rule from_entries_distinct) (use assms(1) in \<open>simp only: keys\<close>)
  ultimately show ?thesis using assms(2) by (simp add: lookup_prop_some)
qed

lemma rq_parse_keys: "distinct (map fst defaults) \<Longrightarrow> map fst (rq_parse defaults nums q) = map fst defaults"
proof -
  let ?f = "\<lambda>(key, fallback). (key, rq_value nums key fallback (lookup_prop q key))"
  assume d: "distinct (map fst defaults)"
  have keys: "map fst (map ?f ds) = map fst ds" for ds by (induction ds) auto
  have "rq_parse defaults nums q = map ?f defaults"
    unfolding rq_parse_def by (rule from_entries_distinct) (use d in \<open>simp only: keys\<close>)
  then show ?thesis using keys by simp
qed

text \<open>What the address may hold of a state so that it can be read back.\<close>

definition readable_state :: "props \<Rightarrow> jstr list \<Rightarrow> props \<Rightarrow> bool" where
  "readable_state defaults nums st \<longleftrightarrow> map fst st = map fst defaults \<and> distinct (map fst defaults) \<and>
     list_all2 (\<lambda>(k, d) (k', v). plain_key k \<and>
       (if k \<in> set nums then \<exists>i. v = N i \<and> 1 \<le> i \<and> i < 2 ^ 53
        else \<exists>t. v = JStr t \<and> (t = [] \<longrightarrow> d = v))) defaults st"

text \<open>
  The router's documented treatment of a query: texts stay, other values but arrays and nullish ones
  are written as texts, and what is not there is not there.
\<close>

definition router_law :: "(props \<Rightarrow> props) \<Rightarrow> bool" where
  "router_law link \<longleftrightarrow> (\<forall>q k. (\<forall>v. map_of q k = Some v \<longrightarrow> (is_string v \<or> (\<exists>n. v = JNum n)) \<longrightarrow>
       lookup_prop (link q) k = JStr (to_string v))
     \<and> (map_of q k = None \<longrightarrow> plain_key k \<longrightarrow> lookup_prop (link q) k = JUndef))"

lemma map_of_rev_distinct: "distinct (map fst ps) \<Longrightarrow> map_of (rev ps) = map_of ps"
  by (rule ext, induction ps) (force simp: map_add_def split: option.split dest: map_of_SomeD)+

lemma map_of_address:
  assumes "distinct (map fst query)" "distinct (map fst st)"
  shows "map_of (rq_address query st) k = (case map_of st k of
      Some v \<Rightarrow> if v \<noteq> S '''' \<and> v \<noteq> JUndef \<and> v \<noteq> JNull then Some v else None
    | None \<Rightarrow> (case map_of query k of
        Some v \<Rightarrow> if v \<noteq> S '''' \<and> v \<noteq> JUndef \<and> v \<noteq> JNull then Some v else None | None \<Rightarrow> None))"
proof -
  let ?P = "\<lambda>v. v \<noteq> S '''' \<and> v \<noteq> JUndef \<and> v \<noteq> JNull"
  have d: "distinct (map fst (put_all query st))" using assms(1) by (rule distinct_put_all)
  then have "rq_address query st = filter (\<lambda>e. ?P (snd e)) (put_all query st)"
    unfolding rq_address_def clean_query_def by (intro from_entries_distinct distinct_map_filter)
  moreover have "map_of (put_all query st) k = (case map_of st k of Some v \<Rightarrow> Some v | None \<Rightarrow> map_of query k)"
    using assms(2) by (simp add: map_of_put_all map_of_rev_distinct)
  ultimately show ?thesis
    using map_of_filter_distinct [OF d, of "\<lambda>e. ?P (snd e)" k] by (auto split: option.splits)
qed

lemma rq_value_back:
  assumes "if k \<in> set nums then \<exists>i. v = N i \<and> 1 \<le> i \<and> i < 2 ^ 53 else \<exists>t. v = JStr t \<and> (t = [] \<longrightarrow> d = v)"
  shows "rq_value nums k d (if v \<noteq> S '''' \<and> v \<noteq> JUndef \<and> v \<noteq> JNull then JStr (to_string v) else JUndef) = v"
proof (cases "k \<in> set nums")
  case True
  then obtain i where "v = N i" "1 \<le> i" "i < 2 ^ 53" using assms by auto
  then show ?thesis
    using True number_string_roundtrip [of i] by (simp add: rq_value_def js_or_def)
qed (use assms in \<open>auto simp: rq_value_def\<close>)

text \<open>C24. What a page writes into the address it reads back: for filters that are readable texts and
  counts, parsing the address that \<open>commit\<close> navigates to yields the filters, whatever else the address held.\<close>

theorem query_roundtrip:
  assumes "readable_state defaults nums st" "distinct (map fst query)" "router_law link"
  shows "rq_parse defaults nums (link (rq_address query st)) = st"
proof -
  have keys: "map fst st = map fst defaults" and d: "distinct (map fst defaults)" using assms(1) by (auto simp: readable_state_def)
  let ?q = "link (rq_address query st)"
  let ?f = "\<lambda>(key, fallback). (key, rq_value nums key fallback (lookup_prop ?q key))"
  have fsts: "map fst (map ?f ds) = map fst ds" for ds by (induction ds) auto
  have len: "length st = length defaults" using map_eq_imp_length_eq [OF keys] .
  have each: "?f (defaults ! i) = st ! i" if "i < length defaults" for i
  proof -
    obtain k fallback where e: "defaults ! i = (k, fallback)" by (cases "defaults ! i")
    have i: "i < length st" using that len by simp
    have "fst (st ! i) = k" using arg_cong [OF keys, of "\<lambda>ks. ks ! i"] i that e by simp
    then obtain v where p: "st ! i = (k, v)" by (cases "st ! i") simp
    have fits: "plain_key k" "if k \<in> set nums then \<exists>i. v = N i \<and> 1 \<le> i \<and> i < 2 ^ 53
        else \<exists>t. v = JStr t \<and> (t = [] \<longrightarrow> fallback = v)"
      using assms(1) that e p by (auto simp: readable_state_def list_all2_conv_all_nth split: if_splits dest!: spec [of _ i])
    have "(k, v) \<in> set st" using i p nth_mem by metis
    then have st: "map_of st k = Some v" using keys d by simp
    have "lookup_prop ?q k = (if v \<noteq> S '''' \<and> v \<noteq> JUndef \<and> v \<noteq> JNull then JStr (to_string v) else JUndef)"
      using assms(3) fits map_of_address [OF assms(2), of st k] keys d st
      unfolding router_law_def by (auto split: if_splits)
    then show ?thesis using rq_value_back [OF fits(2)] e p by simp
  qed
  then have "map ?f defaults = st"
    using len each by (intro nth_equalityI) auto
  moreover have "rq_parse defaults nums ?q = map ?f defaults"
    unfolding rq_parse_def by (rule from_entries_distinct) (use d in \<open>simp only: fsts\<close>)
  ultimately show ?thesis by simp
qed

definition text_link :: "props \<Rightarrow> props" where
  "text_link q = map (\<lambda>(k, v). (k, JStr (to_string v))) q"

lemma text_link_law: "router_law text_link"
proof -
  have "map_of (text_link q) k = map_option (\<lambda>v. JStr (to_string v)) (map_of q k)" for q k
    unfolding text_link_def by (induction q) auto
  then show ?thesis by (auto simp: router_law_def lookup_prop_some lookup_prop_none)
qed

theorem query_roundtrip_witness:
  "rq_parse [(js ''keyword'', S ''''), (js ''page'', N 1)] [js ''page'']
     (text_link (rq_address [(js ''tab'', S ''x'')] [(js ''keyword'', S ''ab''), (js ''page'', N 3)])) =
   [(js ''keyword'', S ''ab''), (js ''page'', N 3)]"
  by (rule query_roundtrip [OF _ _ text_link_law]) (auto simp: readable_state_def js_def plain_key_def inherited_def proto_methods_def)

section \<open>Repeated loads\<close>

text \<open>
  \<open>timer\<close> is the composable's variable; \<open>intervals\<close> are the timers that run in the browser, by the
  number \<open>setInterval\<close> gave them.
\<close>

record visibility =
  vr_timer :: "nat option"
  vr_intervals :: "nat list"
  vr_issued :: nat
  vr_hidden :: bool
  vr_listening :: bool

definition vr_initial :: "bool \<Rightarrow> visibility" where
  "vr_initial hidden = \<lparr>vr_timer = None, vr_intervals = [], vr_issued = 0, vr_hidden = hidden, vr_listening = False\<rparr>"

text \<open>\<open>run\<close>: the callback, and then the time of the update.\<close>

definition vr_run :: "('s, unit) task \<Rightarrow> ('s \<Rightarrow> 's) \<Rightarrow> ('s, unit) task" where
  "vr_run callback stamp = await_task callback (\<lambda>r. Update stamp return)"

definition vr_stop :: "visibility \<Rightarrow> visibility" where
  "vr_stop v = (case vr_timer v of
      Some i \<Rightarrow> v\<lparr>vr_intervals := removeAll i (vr_intervals v), vr_timer := None\<rparr>
    | None \<Rightarrow> v\<lparr>vr_timer := None\<rparr>)"

definition vr_start :: "visibility \<Rightarrow> visibility" where
  "vr_start v = (let v = vr_stop v in
     if vr_hidden v then v
     else v\<lparr>vr_issued := Suc (vr_issued v), vr_intervals := vr_intervals v @ [Suc (vr_issued v)],
       vr_timer := Some (Suc (vr_issued v))\<rparr>)"

text \<open>\<open>handleVisibility\<close>; the second part tells whether it called \<open>run\<close>.\<close>

definition handleVisibility :: "visibility \<Rightarrow> visibility \<times> bool" where
  "handleVisibility v = (if vr_hidden v then (vr_stop v, False) else (vr_start v, True))"

definition vr_mounted :: "visibility \<Rightarrow> visibility" where
  "vr_mounted v = (vr_start v)\<lparr>vr_listening := True\<rparr>"

definition vr_unmounted :: "visibility \<Rightarrow> visibility" where
  "vr_unmounted v = (vr_stop v)\<lparr>vr_listening := False\<rparr>"

text \<open>The document shows or hides the page at any time; the component listens while it is mounted.\<close>

inductive vr_reachable :: "visibility \<Rightarrow> bool" where
  created: "vr_reachable (vr_initial hidden)"
| mounted: "vr_reachable v \<Longrightarrow> \<not> vr_listening v \<Longrightarrow> vr_reachable (vr_mounted v)"
| unmounted: "vr_reachable v \<Longrightarrow> vr_listening v \<Longrightarrow> vr_reachable (vr_unmounted v)"
| changed: "vr_reachable v \<Longrightarrow> v' = v\<lparr>vr_hidden := \<not> vr_hidden v\<rparr> \<Longrightarrow>
    vr_reachable (if vr_listening v' then fst (handleVisibility v') else v')"

definition vr_tidy :: "visibility \<Rightarrow> bool" where
  "vr_tidy v \<longleftrightarrow> vr_intervals v = (if vr_listening v \<and> \<not> vr_hidden v then [vr_issued v] else [])
     \<and> vr_timer v = (if vr_listening v \<and> \<not> vr_hidden v then Some (vr_issued v) else None)"

lemmas vr_defs = vr_stop_def vr_start_def handleVisibility_def vr_mounted_def vr_unmounted_def Let_def

lemma reachable_tidy: "vr_reachable v \<Longrightarrow> vr_tidy v"
proof (induction rule: vr_reachable.induct)
  case (changed v v')
  then show ?case by (cases "vr_listening v"; cases "vr_hidden v") (simp_all add: vr_tidy_def vr_defs)
qed (auto simp: vr_tidy_def vr_initial_def vr_defs split: if_splits)

text \<open>C31. However often the page is shown, hidden, mounted and unmounted, the browser runs exactly one
  interval while the page is mounted and visible, and none otherwise: no timer is ever left behind,
  and none is doubled.\<close>

theorem one_interval:
  assumes "vr_reachable v"
  shows "length (vr_intervals v) = (if vr_listening v \<and> \<not> vr_hidden v then 1 else 0)
    \<and> set (vr_intervals v) = set_option (vr_timer v)"
  using reachable_tidy [OF assms] by (auto simp: vr_tidy_def)

theorem one_interval_witness:
  "\<exists>v. vr_reachable v \<and> length (vr_intervals v) = 1 \<and> vr_issued v = 2"
proof -
  let ?v1 = "vr_mounted (vr_initial False)"
  let ?v2 = "fst (handleVisibility (?v1\<lparr>vr_hidden := True\<rparr>))"
  let ?v3 = "fst (handleVisibility (?v2\<lparr>vr_hidden := False\<rparr>))"
  have r1: "vr_reachable ?v1" by (rule vr_reachable.mounted [OF vr_reachable.created]) (simp add: vr_initial_def)
  have r2: "vr_reachable ?v2"
    using vr_reachable.changed [OF r1 refl] by (simp add: vr_defs vr_initial_def)
  have r3: "vr_reachable ?v3"
    using vr_reachable.changed [OF r2 refl] by (simp add: vr_defs vr_initial_def)
  from one_interval [OF r3] have "length (vr_intervals ?v3) = 1" by (simp add: vr_defs vr_initial_def)
  then show ?thesis using r3 by (intro exI [of _ ?v3]) (simp add: vr_defs vr_initial_def)
qed

end
