(* ===== verification/SystemPage.thy ===== *)
theory SystemPage imports Composables Format DecisionPolicy begin

text \<open>
  \<open>views/SystemStatusView.vue\<close> with its parts \<open>CodexAuthCard.vue\<close> and \<open>ProjectGovernanceForm.vue\<close>:
  the health checks, the login of the worker, and the policy and switches of the chosen project.
\<close>

section \<open>Values of the API in a heap\<close>

text \<open>An answer is a fresh tree of objects.\<close>

fun alloc :: "heap \<Rightarrow> jsval \<Rightarrow> heap \<times> fval"
  and alloc_elems :: "heap \<Rightarrow> jsval list \<Rightarrow> heap \<times> fval list"
  and alloc_props :: "heap \<Rightarrow> props \<Rightarrow> heap \<times> (jstr \<times> fval) list" where
  "alloc h (JArr xs) = (case alloc_elems h xs of (h', vs) \<Rightarrow> (h' @ [FArr vs], Ref (length h')))"
| "alloc h (JObj ps) = (case alloc_props h ps of (h', vs) \<Rightarrow> (h' @ [FObj vs], Ref (length h')))"
| "alloc h v = (h, Prim v)"
| "alloc_elems h [] = (h, [])"
| "alloc_elems h (x # xs) = (case alloc h x of (h1, v) \<Rightarrow> case alloc_elems h1 xs of (h2, vs) \<Rightarrow> (h2, v # vs))"
| "alloc_props h [] = (h, [])"
| "alloc_props h ((k, x) # ps) = (case alloc h x of (h1, v) \<Rightarrow> case alloc_props h1 ps of (h2, vs) \<Rightarrow> (h2, (k, v) # vs))"

definition readable_json :: "intl \<Rightarrow> jsval \<Rightarrow> jstr js" where
  "readable_json host v = (case alloc [] v of (h, w) \<Rightarrow> readableText host h w 0)"

section \<open>Fields of an exception\<close>

text \<open>\<open>e?.k\<close> for a caught exception; the engine's own errors have none of the fields of the API client.\<close>

definition error_field :: "jserror \<Rightarrow> string \<Rightarrow> jsval" where
  "error_field e k = (case e of
      AdminApiError a \<Rightarrow> lookup_prop [(js ''message'', JStr (ae_message a)), (js ''status'', ae_status a), (js ''code'', ae_code a),
        (js ''meta'', ae_meta a), (js ''requestId'', ae_requestId a), (js ''payload'', ae_payload a), (js ''cause'', ae_cause a)] (js k)
    | HostError v \<Rightarrow> get_opt v (js k)
    | _ \<Rightarrow> JUndef)"

section \<open>The card of the worker's login\<close>

definition card_statusText :: "jsval \<Rightarrow> jsval" where
  "card_statusText status = js_or (lookup_prop [(js ''ready'', JStr [0x5df2, 0x767b, 0x5f55]), (js ''not_logged_in'', JStr [0x672a, 0x767b, 0x5f55]),
     (js ''login_in_progress'', JStr [0x767b, 0x5f55, 0x8fdb, 0x884c, 0x4e2d]), (js ''error'', JStr [0x9519, 0x8bef])] (to_string status)) (JStr [0x9519, 0x8bef])"

definition card_tagStatus :: "jsval \<Rightarrow> jsval" where
  "card_tagStatus status = js_or (lookup_prop [(js ''ready'', S ''ok''), (js ''login_in_progress'', S ''pending''),
     (js ''not_logged_in'', S ''unknown''), (js ''error'', S ''error'')] (to_string status)) (S ''error'')"

definition card_startLabel :: "jsval \<Rightarrow> jstr" where
  "card_startLabel status = (if strict_eq status (S ''ready'') then [0x66f4, 0x6362, 0x8d26, 0x53f7] else [0x5f00, 0x59cb, 0x767b, 0x5f55])"

definition card_busy :: "jstr \<Rightarrow> bool" where
  "card_busy busyAction \<longleftrightarrow> busyAction \<noteq> []"

definition card_statusMessage :: "jsval \<Rightarrow> jsval \<Rightarrow> jsval \<Rightarrow> jsval" where
  "card_statusMessage status reason message = getCodexAuthStatusMessage status reason message"

section \<open>The governance form\<close>

text \<open>The form edits the policy and the switches it is given; its own state is the last refusal.\<close>

record governance_form =
  gf_policy :: jsval
  gf_flags :: jsval
  gf_savingSection :: string
  gf_error :: "jserror option"
  gf_localValidationError :: jsval

datatype form_event = SavePolicy props | SaveFlags props

definition form_isSaving :: "governance_form \<Rightarrow> bool" where
  "form_isSaving f \<longleftrightarrow> gf_savingSection f \<noteq> []"

definition form_policyValidationError :: "governance_form \<Rightarrow> jstr" where
  "form_policyValidationError f = validateDecisionPolicy (gf_policy f)"

definition form_errorMessage :: "(jserror \<Rightarrow> jstr) \<Rightarrow> governance_form \<Rightarrow> jsval" where
  "form_errorMessage engine f = js_or (gf_localValidationError f)
     (case gf_error f of Some e \<Rightarrow> getErrorMessage engine e | None \<Rightarrow> S '''')"

definition form_debugText :: "(jserror \<Rightarrow> jstr) \<Rightarrow> governance_form \<Rightarrow> jsval" where
  "form_debugText engine f =
     (let field = (\<lambda>k. case gf_error f of Some e \<Rightarrow> error_field e k | None \<Rightarrow> JUndef);
          message = (case gf_error f of Some e \<Rightarrow> error_message engine e | None \<Rightarrow> JUndef)
      in json_stringify_pretty (js_or (field ''payload'') (JObj
          [(js ''status'', js_or (field ''status'') (N 0)), (js ''code'', js_or (field ''code'') (S ''request_failed'')),
           (js ''request_id'', js_or (field ''requestId'') (S '''')), (js ''message'', js_or message (S '''')),
           (js ''meta'', js_or (field ''meta'') (JObj []))])))"

definition form_syncPolicy :: "governance_form \<Rightarrow> governance_form js" where
  "form_syncPolicy f = andThen (synchronizeDecisionPolicy (gf_policy f)) (\<lambda>p.
     Inr (f\<lparr>gf_localValidationError := S '''', gf_policy := p\<rparr>))"

definition form_savePolicy :: "(jserror \<Rightarrow> jstr) \<Rightarrow> governance_form \<Rightarrow> governance_form \<times> form_event option" where
  "form_savePolicy engine f = (case buildDecisionPolicyPayload (gf_policy f) of
      Inr payload \<Rightarrow> (f\<lparr>gf_localValidationError := S ''''\<rparr>, Some (SavePolicy payload))
    | Inl e \<Rightarrow> (f\<lparr>gf_localValidationError := getErrorMessage engine e\<rparr>, None))"

definition form_saveFlags :: "(jserror \<Rightarrow> jstr) \<Rightarrow> governance_form \<Rightarrow> governance_form \<times> form_event option" where
  "form_saveFlags engine f = (case buildFeatureFlagsPayload (gf_flags f) of
      Inr payload \<Rightarrow> (f\<lparr>gf_localValidationError := S ''''\<rparr>, Some (SaveFlags payload))
    | Inl e \<Rightarrow> (f\<lparr>gf_localValidationError := getErrorMessage engine e\<rparr>, None))"

section \<open>State of the page\<close>

text \<open>
  The key of the chosen project is computed from the address, the context store and the identity;
  they are part of the state because they change while the page is open.
\<close>

record system_page =
  sy_query_key :: jsval
  sy_context_key :: jsval
  sy_principal_key :: jsval
  sy_loading :: bool
  sy_refreshing :: bool
  sy_error :: "jserror option"
  sy_data :: jsval
  sy_requestId :: jsval
  sy_policy :: jsval
  sy_flags :: jsval
  sy_savingSection :: string
  sy_configError :: "jserror option"
  sy_authStatus :: jsval
  sy_authReason :: jsval
  sy_authMessage :: jsval
  sy_authBusy :: jstr
  sy_authFeedback :: jsval
  sy_localError :: jsval
  sy_lastUpdatedAt :: jsval
  sy_pushed :: "jsval list"

definition system_initial :: "jsval \<Rightarrow> jsval \<Rightarrow> jsval \<Rightarrow> system_page" where
  "system_initial q c p =
     \<lparr>sy_query_key = q, sy_context_key = c, sy_principal_key = p, sy_loading = True, sy_refreshing = False,
      sy_error = None, sy_data = JObj [], sy_requestId = S '''', sy_policy = JNull, sy_flags = JNull,
      sy_savingSection = [], sy_configError = None, sy_authStatus = S ''error'', sy_authReason = S '''',
      sy_authMessage = S '''', sy_authBusy = [], sy_authFeedback = JNull, sy_localError = S '''',
      sy_lastUpdatedAt = JNull, sy_pushed = []\<rparr>"

definition system_projectKey :: "system_page \<Rightarrow> jstr" where
  "system_projectKey s = resolveProjectKey (sy_query_key s) (sy_context_key s) (sy_principal_key s)"

section \<open>The checks\<close>

definition sy_field :: "system_page \<Rightarrow> string \<Rightarrow> jsval" where
  "sy_field s k = get_prop (sy_data s) (js k)"

definition migrationText :: "system_page \<Rightarrow> jstr" where
  "migrationText s = (if strict_eq (sy_field s ''migration_schema'') (S ''ok'') then [0x7ed3, 0x6784, 0x5c31, 0x7eea] else [0x9700, 0x8981, 0x68c0, 0x67e5])"

definition system_decision :: "system_page \<Rightarrow> jsval" where
  "system_decision s = js_or (sy_field s ''decision'') (JObj [])"

definition count_of :: "jsval \<Rightarrow> jnum" where
  "count_of v = to_number (js_or v (N 0))"

definition overallStatus :: "system_page \<Rightarrow> string" where
  "overallStatus s =
     (if sy_error s \<noteq> None \<or> strict_eq (sy_field s ''database'') (S ''error'') \<or> Fin 0 < count_of (sy_field s ''dead_letters'')
      then ''error''
      else if \<not> strict_eq (sy_field s ''migration_schema'') (S ''ok'') \<or> Fin 0 < count_of (sy_field s ''pending_jobs'')
        \<or> Fin 0 < count_of (sy_field s ''server_outbox'')
      then ''pending'' else ''ok'')"

record health_check =
  hc_label :: jstr
  hc_status :: jsval
  hc_value :: jstr
  hc_note :: jsval
  hc_to :: string
  hc_query :: "(string \<times> string) list"

definition counted_status :: "jsval \<Rightarrow> string \<Rightarrow> jsval" where
  "counted_status v bad = (if truthy (JNum (count_of v)) then S bad else S ''ok'')"

definition system_checks :: "intl \<Rightarrow> system_page \<Rightarrow> health_check list js" where
  "system_checks host s = andThen (readable_json host (js_or (sy_field s ''dialect'') (JStr [0x672a, 0x77e5]))) (\<lambda>dialect.
     let shown = (\<lambda>v unit. to_string (js_coalesce v (N 0)) @ unit);
         queue = [32] @ [0x4e2a, 0x5f85, 0x5904, 0x7406]; d = system_decision s in
     Inr [
       \<lparr>hc_label = [0x7ba1, 0x7406] @ js '' API'', hc_status = (if sy_error s \<noteq> None then S ''error'' else S ''ok''),
        hc_value = (if sy_error s \<noteq> None then [0x8bf7, 0x6c42, 0x5931, 0x8d25] else [0x54cd, 0x5e94, 0x6b63, 0x5e38]),
        hc_note = JStr ([0x5f53, 0x524d, 0x6d4f, 0x89c8, 0x5668, 0x5df2, 0x6210, 0x529f, 0x8bbf, 0x95ee,
     0x6b63, 0x5f0f] @ js '' Admin API''), hc_to = [], hc_query = []\<rparr>,
       \<lparr>hc_label = [0x6570, 0x636e, 0x5e93], hc_status = js_or (sy_field s ''database'') (S ''unknown''),
        hc_value = (if strict_eq (sy_field s ''database'') (S ''ok'') then [0x8fde, 0x63a5, 0x6b63, 0x5e38] else [0x8fde, 0x63a5, 0x5f02, 0x5e38]),
        hc_note = JStr ([0x6570, 0x636e, 0x5e93, 0x65b9, 0x8a00, 0xff1a] @ dialect), hc_to = [], hc_query = []\<rparr>,
       \<lparr>hc_label = [0x8fc1, 0x79fb], hc_status = (if strict_eq (sy_field s ''migration_schema'') (S ''ok'') then S ''ok'' else S ''pending''),
        hc_value = migrationText s, hc_note = js_or (sy_field s ''latest_migration'') (JStr [0x672a, 0x83b7, 0x53d6, 0x5230, 0x8fc1, 0x79fb, 0x7248, 0x672c]), hc_to = [], hc_query = []\<rparr>,
       \<lparr>hc_label = [0x4efb, 0x52a1, 0x961f, 0x5217], hc_status = counted_status (sy_field s ''pending_jobs'') ''pending'',
        hc_value = shown (sy_field s ''pending_jobs'') queue, hc_note = JStr ([0x5904, 0x7406, 0x4efb, 0x52a1, 0x7b49, 0x5f85] @ js '' Worker '' @ [0x6d88, 0x8d39]),
        hc_to = ''/records'', hc_query = [(''kind'', ''jobs''), (''status'', ''pending'')]\<rparr>,
       \<lparr>hc_label = js ''Outbox'', hc_status = counted_status (sy_field s ''server_outbox'') ''pending'',
        hc_value = shown (sy_field s ''server_outbox'') ([32] @ [0x4e2a, 0x5f85, 0x6295, 0x9012]), hc_note = JStr [0x670d, 0x52a1, 0x7aef, 0x4e8b, 0x4ef6, 0x7b49, 0x5f85, 0x53ef, 0x9760, 0x6295,
     0x9012],
        hc_to = ''/records'', hc_query = [(''kind'', ''outbox-events''), (''status'', ''pending'')]\<rparr>,
       \<lparr>hc_label = [0x6b7b, 0x4fe1], hc_status = counted_status (sy_field s ''dead_letters'') ''error'',
        hc_value = shown (sy_field s ''dead_letters'') ([32] @ [0x4e2a]), hc_note = JStr [0x65e0, 0x6cd5, 0x7ee7, 0x7eed, 0x6295, 0x9012, 0x7684, 0x4e8b, 0x4ef6],
        hc_to = ''/records'', hc_query = [(''kind'', ''outbox-events''), (''status'', ''dead'')]\<rparr>,
       \<lparr>hc_label = [0x51b3, 0x7b56, 0x961f, 0x5217], hc_status = counted_status (get_prop d (js ''queued'')) ''pending'',
        hc_value = shown (get_prop d (js ''queued'')) ([32] @ [0x4e2a]), hc_note = JStr ([0x5019, 0x9009, 0x7b49, 0x5f85, 0x51b3, 0x7b56] @ js '' Worker '' @ [0x5904, 0x7406]),
        hc_to = ''/records'', hc_query = [(''kind'', ''jobs''), (''status'', ''pending''), (''job_type'', ''decide_candidate'')]\<rparr>,
       \<lparr>hc_label = [0x4eba, 0x5de5, 0x961f, 0x5217], hc_status = counted_status (get_prop d (js ''human_review_queue'')) ''pending'',
        hc_value = shown (get_prop d (js ''human_review_queue'')) ([32] @ [0x4e2a]), hc_note = JStr [0x4f4e, 0x7f6e, 0x4fe1, 0x5ea6, 0x6216, 0x98ce, 0x9669, 0x5019, 0x9009, 0x5f85,
     0x4eba, 0x5de5, 0x5904, 0x7406],
        hc_to = ''/records'', hc_query = [(''kind'', ''candidates''), (''status'', ''needs_review'')]\<rparr>])"

definition system_open :: "health_check \<Rightarrow> system_page \<Rightarrow> system_page" where
  "system_open c s = (if hc_to c = [] then s
     else s\<lparr>sy_pushed := sy_pushed s @ [JObj [(js ''path'', S (hc_to c)),
       (js ''query'', JObj (map (\<lambda>(k, v). (js k, S v)) (hc_query c)))]]\<rparr>)"

section \<open>Loading\<close>

definition truthy_data :: "jsval \<Rightarrow> jsval \<Rightarrow> jsval js" where
  "truthy_data result d = andThen (get_or_throw result (js ''data'')) (\<lambda>v. Inr (js_or v d))"

definition auth_shown :: "jsval \<Rightarrow> system_page \<Rightarrow> system_page" where
  "auth_shown d s = s\<lparr>sy_authStatus := js_or (get_opt d (js ''status'')) (S ''error''),
     sy_authReason := js_or (get_opt d (js ''reason'')) (S ''''), sy_authMessage := js_or (get_opt d (js ''message'')) (S '''')\<rparr>"

definition auth_feedback :: "string \<Rightarrow> jsval \<Rightarrow> jsval \<Rightarrow> jsval" where
  "auth_feedback kind message requestId = JObj [(js ''type'', S kind), (js ''message'', message), (js ''requestId'', requestId)]"

definition auth_failed :: "(jserror \<Rightarrow> jstr) \<Rightarrow> jsval \<Rightarrow> jserror \<Rightarrow> system_page \<Rightarrow> system_page" where
  "auth_failed engine reason e s = s\<lparr>sy_authStatus := S ''error'', sy_authReason := js_or reason (S ''admin_api_unavailable''),
     sy_authMessage := getErrorMessage engine e,
     sy_authFeedback := auth_feedback ''error'' (getErrorMessage engine e) (js_or (error_field e ''requestId'') (S ''''))\<rparr>"

definition refreshCodexAuth :: "(jserror \<Rightarrow> jstr) \<Rightarrow> (system_page, unit) task" where
  "refreshCodexAuth engine = try_catch
     (await_call (Get (js ''/codex-auth/status'') (JObj [])) (\<lambda>result.
        eval_js (get_or_throw result (js ''data'')) (\<lambda>d. Update (auth_shown d) return)))
     (\<lambda>e. Update (auth_failed engine (error_field e ''code'') e) return)"

text \<open>The two requests for the settings of the chosen project, and what is made of their answers.\<close>

definition project_path :: "jstr \<Rightarrow> string \<Rightarrow> jstr js" where
  "project_path key rest = andThen (encodeURIComponent key) (\<lambda>k. Inr (js ''/projects/'' @ k @ js rest))"

definition take_setting :: "jsval js \<Rightarrow> (jsval \<Rightarrow> system_page \<Rightarrow> system_page) \<Rightarrow> (system_page, unit) task \<Rightarrow> (system_page, unit) task" where
  "take_setting r store rest = (case r of
      Inr v \<Rightarrow> eval_js (get_or_throw v (js ''data'')) (\<lambda>d. Update (store d) rest)
    | Inl e \<Rightarrow> rest)"

definition failures :: "jsval js list \<Rightarrow> jserror list" where
  "failures rs = concat (map (\<lambda>r. case r of Inl e \<Rightarrow> [e] | Inr v \<Rightarrow> []) rs)"

definition take_settings :: "jsval js list \<Rightarrow> (system_page, unit) task" where
  "take_settings rs = (case rs of
      [policyResult, flagsResult] \<Rightarrow>
        take_setting policyResult (\<lambda>d s. s\<lparr>sy_policy := normalizeDecisionPolicy d\<rparr>)
        (take_setting flagsResult (\<lambda>d s. s\<lparr>sy_flags := normalizeFeatureFlags d\<rparr>)
        (case failures rs of [] \<Rightarrow> return | e # es \<Rightarrow> Update (\<lambda>s. s\<lparr>sy_configError := Some e\<rparr>) return))
    | _ \<Rightarrow> return)"

definition load_settings :: "(system_page, unit) task" where
  "load_settings = Look (\<lambda>s.
     if system_projectKey s = [] then Update (\<lambda>s. s\<lparr>sy_policy := JNull, sy_flags := JNull\<rparr>) return
     else Update (\<lambda>s. s\<lparr>sy_policy := JNull, sy_flags := JNull\<rparr>)
       (eval_js (project_path (system_projectKey s) ''/decision-policy'') (\<lambda>p.
        eval_js (project_path (system_projectKey s) ''/feature-flags'') (\<lambda>f.
        Await (AllSettled [Get p (JObj []), Get f (JObj [])]) (\<lambda>a. take_settings (results a))))))"

definition refresh_begun :: "bool \<Rightarrow> system_page \<Rightarrow> system_page" where
  "refresh_begun manual s =
     (if manual then s\<lparr>sy_refreshing := True\<rparr>
      else if entries (sy_data s) = [] then s\<lparr>sy_loading := True\<rparr> else s)\<lparr>sy_error := None, sy_configError := None, sy_authFeedback := JNull\<rparr>"

definition system_status :: "(jserror \<Rightarrow> jstr) \<Rightarrow> (system_page, unit) task" where
  "system_status engine = Look (\<lambda>s. let key = system_projectKey s in
     await_call (Get (js ''/system/status'') (if key \<noteq> [] then JObj [(js ''project_key'', JStr key)] else JObj [])) (\<lambda>result.
     eval_js (truthy_data result (JObj [])) (\<lambda>d.
     Update (\<lambda>s. s\<lparr>sy_data := d, sy_requestId := js_or (get_prop result (js ''request_id'')) (S '''')\<rparr>)
     (await_task (refreshCodexAuth engine) (\<lambda>r. load_settings)))))"

definition system_refresh :: "(jserror \<Rightarrow> jstr) \<Rightarrow> bool \<Rightarrow> (system_page, unit) task" where
  "system_refresh engine manual = Update (refresh_begun manual) (try_finally
     (try_catch (system_status engine) (\<lambda>e. Update (\<lambda>s. s\<lparr>sy_error := Some e\<rparr>) return))
     (\<lambda>s. s\<lparr>sy_loading := False, sy_refreshing := False\<rparr>))"

section \<open>Actions on the login\<close>

definition action_label :: "jstr \<Rightarrow> jsval" where
  "action_label action = js_or (lookup_prop [(js ''start'', JStr [0x5f00, 0x59cb, 0x767b, 0x5f55]), (js ''cancel'', JStr [0x53d6, 0x6d88, 0x767b, 0x5f55]),
     (js ''recheck'', JStr [0x91cd, 0x65b0, 0x68c0, 0x67e5])] action) (JStr [0x64cd, 0x4f5c])"

definition auth_done :: "jstr \<Rightarrow> jsval \<Rightarrow> jsval \<Rightarrow> system_page \<Rightarrow> system_page" where
  "auth_done action result d s =
     (let s1 = auth_shown d s;
          message = getCodexAuthStatusMessage (sy_authStatus s1) (sy_authReason s1) (sy_authMessage s1)
      in s1\<lparr>sy_authFeedback := auth_feedback (if strict_eq (sy_authStatus s1) (S ''error'') then ''error'' else ''success'')
           (JStr (to_string (action_label action) @ [0xff1a] @ to_string message))
           (js_or (get_prop result (js ''request_id'')) (S ''''))\<rparr>)"

definition codexAuthAction :: "(jserror \<Rightarrow> jstr) \<Rightarrow> jstr \<Rightarrow> (system_page, unit) task" where
  "codexAuthAction engine action = Look (\<lambda>s.
     if sy_authBusy s \<noteq> [] then return
     else Update (\<lambda>s. s\<lparr>sy_authBusy := action, sy_authFeedback := JNull\<rparr>) (try_finally (try_catch
       (await_call (Post (js ''/codex-auth/'' @ action) (JObj [])) (\<lambda>result.
          eval_js (get_or_throw result (js ''data'')) (\<lambda>d. Update (auth_done action result d) return)))
       (\<lambda>e. Update (auth_failed engine (js_or (get_opt (error_field e ''meta'') (js ''reason'')) (error_field e ''code'')) e) return))
       (\<lambda>s. s\<lparr>sy_authBusy := []\<rparr>)))"

definition startCodexLogin :: "(jserror \<Rightarrow> jstr) \<Rightarrow> (system_page, unit) task" where
  "startCodexLogin engine = codexAuthAction engine (js ''start'')"

definition cancelCodexLogin :: "(jserror \<Rightarrow> jstr) \<Rightarrow> (system_page, unit) task" where
  "cancelCodexLogin engine = codexAuthAction engine (js ''cancel'')"

definition recheckCodexLogin :: "(jserror \<Rightarrow> jstr) \<Rightarrow> (system_page, unit) task" where
  "recheckCodexLogin engine = codexAuthAction engine (js ''recheck'')"

section \<open>Saving the settings\<close>

definition save_setting ::
    "string \<Rightarrow> string \<Rightarrow> jsval \<Rightarrow> (jsval \<Rightarrow> system_page \<Rightarrow> system_page) \<Rightarrow> (system_page, unit) task" where
  "save_setting part rest payload store =
     Update (\<lambda>s. s\<lparr>sy_savingSection := part, sy_configError := None\<rparr>) (try_finally (try_catch
       (Look (\<lambda>s. eval_js (project_path (system_projectKey s) rest) (\<lambda>p.
          await_call (Put p payload) (\<lambda>result. eval_js (get_or_throw result (js ''data'')) (\<lambda>d. Update (store d) return)))))
       (\<lambda>e. Update (\<lambda>s. s\<lparr>sy_configError := Some e\<rparr>) return))
       (\<lambda>s. s\<lparr>sy_savingSection := []\<rparr>))"

definition system_savePolicy :: "jsval \<Rightarrow> (system_page, unit) task" where
  "system_savePolicy payload = Look (\<lambda>s.
     if \<not> truthy payload \<or> system_projectKey s = [] then return
     else save_setting ''policy'' ''/decision-policy'' (JObj (put_all [] (entries payload)))
       (\<lambda>d s. s\<lparr>sy_policy := normalizeDecisionPolicy (js_or d (sy_policy s))\<rparr>))"

definition system_saveFlags :: "jsval \<Rightarrow> (system_page, unit) task" where
  "system_saveFlags payload = Look (\<lambda>s.
     if \<not> truthy payload \<or> system_projectKey s = [] then return
     else save_setting ''flags'' ''/feature-flags'' payload
       (\<lambda>d s. s\<lparr>sy_flags := normalizeFeatureFlags (js_or d (sy_flags s))\<rparr>))"

text \<open>The form of the page, and what it emits.\<close>

definition form_of :: "system_page \<Rightarrow> governance_form" where
  "form_of s = \<lparr>gf_policy = sy_policy s, gf_flags = sy_flags s, gf_savingSection = sy_savingSection s,
     gf_error = sy_configError s, gf_localValidationError = sy_localError s\<rparr>"

definition with_form :: "governance_form \<Rightarrow> system_page \<Rightarrow> system_page" where
  "with_form f s = s\<lparr>sy_policy := gf_policy f, sy_localError := gf_localValidationError f\<rparr>"

definition on_form_event :: "form_event option \<Rightarrow> (system_page, unit) task" where
  "on_form_event e = (case e of None \<Rightarrow> return | Some (SavePolicy p) \<Rightarrow> system_savePolicy (JObj p)
     | Some (SaveFlags p) \<Rightarrow> system_saveFlags (JObj p))"

definition submit_form ::
    "(governance_form \<Rightarrow> governance_form \<times> form_event option) \<Rightarrow> (system_page, unit) task" where
  "submit_form action = Look (\<lambda>s. Update (with_form (fst (action (form_of s)))) (on_form_event (snd (action (form_of s)))))"

section \<open>The page\<close>

definition system_contextChanged :: "(jserror \<Rightarrow> jstr) \<Rightarrow> jsval \<Rightarrow> jsval \<Rightarrow> jsval \<Rightarrow> (system_page, unit) task" where
  "system_contextChanged engine q c p = Look (\<lambda>s0.
     Update (\<lambda>s. s\<lparr>sy_query_key := q, sy_context_key := c, sy_principal_key := p\<rparr>) (Look (\<lambda>s.
       if system_projectKey s = system_projectKey s0 then return else system_refresh engine False)))"

definition edit_policy :: "string \<Rightarrow> jsval \<Rightarrow> (system_page, unit) task" where
  "edit_policy k v = Update (\<lambda>s. case sy_policy s of JObj ps \<Rightarrow> s\<lparr>sy_policy := JObj (put ps (js k) v)\<rparr> | _ \<Rightarrow> s) return"

definition edit_flag :: "jstr \<Rightarrow> jsval \<Rightarrow> (system_page, unit) task" where
  "edit_flag k v = Update (\<lambda>s. case sy_flags s of
      JObj ps \<Rightarrow> (case lookup_prop ps (js ''flags'') of
        JObj fs \<Rightarrow> s\<lparr>sy_flags := JObj (put ps (js ''flags'') (JObj (put fs k v)))\<rparr> | _ \<Rightarrow> s) | _ \<Rightarrow> s) return"

definition sync_form :: "(system_page, unit) task" where
  "sync_form = Look (\<lambda>s. eval_js (form_syncPolicy (form_of s)) (\<lambda>f. Update (with_form f) return))"

definition system_init :: "(jserror \<Rightarrow> jstr) \<Rightarrow> system_page \<Rightarrow> (system_page, unit) task list \<Rightarrow> bool" where
  "system_init engine s ts \<longleftrightarrow> (\<exists>q c p t. segment (system_refresh engine False) (system_initial q c p) = (s, t) \<and> ts = [t])"

inductive system_handler :: "(jserror \<Rightarrow> jstr) \<Rightarrow> (system_page, unit) task \<Rightarrow> bool" for engine where
  "system_handler engine (system_refresh engine True)"
| "system_handler engine (vr_run (system_refresh engine False) (\<lambda>s. s\<lparr>sy_lastUpdatedAt := now\<rparr>))"
| "system_handler engine (startCodexLogin engine)"
| "system_handler engine (cancelCodexLogin engine)"
| "system_handler engine (recheckCodexLogin engine)"
| "system_handler engine (submit_form (form_savePolicy engine))"
| "system_handler engine (submit_form (form_saveFlags engine))"
| "system_handler engine (edit_policy k v)"
| "system_handler engine (edit_flag k' v)"
| "system_handler engine sync_form"
| "system_handler engine (system_contextChanged engine q c p)"
| "system_handler engine (Update (system_open check) return)"

end
