(* ===== verification/SystemLaws.thy ===== *)
theory SystemLaws imports SystemPage begin

text \<open>
  The system page: its actions on the worker's login exclude one another, its form sends valid
  settings only, a refresh ends whatever the server does, and what a late answer does to the settings of another project.
\<close>

section \<open>One action on the login at a time\<close>

definition auth_call :: "call \<Rightarrow> bool" where
  "auth_call c = (case c of Post path b \<Rightarrow> starts_with path (js ''/codex-auth/'') | _ \<Rightarrow> False)"

lemma auth_call_simps [simp]:
  "\<not> auth_call (Get p q)" "\<not> auth_call (Put p q)" "\<not> auth_call Tick" "\<not> auth_call (AllSettled cs)"
  "auth_call (Post (js ''/codex-auth/'' @ action) b)"
  by (simp_all add: auth_call_def starts_with_def js_def)

definition auth_busy :: "system_page \<Rightarrow> bool" where
  "auth_busy s \<longleftrightarrow> sy_authBusy s \<noteq> []"

lemma auth_busy_frame [simp]:
  "auth_busy (s\<lparr>sy_error := e\<rparr>) = auth_busy s" "auth_busy (s\<lparr>sy_configError := e\<rparr>) = auth_busy s"
  "auth_busy (s\<lparr>sy_policy := v\<rparr>) = auth_busy s" "auth_busy (s\<lparr>sy_flags := v\<rparr>) = auth_busy s"
  "auth_busy (s\<lparr>sy_savingSection := x\<rparr>) = auth_busy s" "auth_busy (s\<lparr>sy_loading := b\<rparr>) = auth_busy s"
  "auth_busy (s\<lparr>sy_refreshing := b\<rparr>) = auth_busy s" "auth_busy (s\<lparr>sy_data := v\<rparr>) = auth_busy s"
  "auth_busy (s\<lparr>sy_requestId := v\<rparr>) = auth_busy s" "auth_busy (s\<lparr>sy_lastUpdatedAt := v\<rparr>) = auth_busy s"
  "auth_busy (s\<lparr>sy_localError := v\<rparr>) = auth_busy s" "auth_busy (s\<lparr>sy_query_key := v\<rparr>) = auth_busy s"
  "auth_busy (s\<lparr>sy_context_key := v\<rparr>) = auth_busy s" "auth_busy (s\<lparr>sy_principal_key := v\<rparr>) = auth_busy s"
  "auth_busy (s\<lparr>sy_pushed := vs\<rparr>) = auth_busy s" "auth_busy (s\<lparr>sy_authFeedback := v\<rparr>) = auth_busy s"
  "auth_busy (auth_shown d s) = auth_busy s" "auth_busy (auth_failed engine r e' s) = auth_busy s"
  "auth_busy (auth_done action result d s) = auth_busy s" "auth_busy (refresh_begun m s) = auth_busy s"
  "auth_busy (with_form f s) = auth_busy s" "auth_busy (system_open ch s) = auth_busy s"
  by (simp_all add: auth_busy_def auth_shown_def auth_failed_def auth_done_def refresh_begun_def with_form_def
      system_open_def Let_def)

lemmas settings_defs = load_settings_def take_settings_def take_setting_def
lemmas refresh_defs = system_refresh_def system_status_def refreshCodexAuth_def

lemma settings_neutral: "neutral auth_busy auth_call load_settings"
  by (auto simp: settings_defs intro!: task_intro split: list.split sum.split)

lemma system_refresh_neutral: "neutral auth_busy auth_call (system_refresh engine manual)"
  by (auto simp: refresh_defs Let_def intro!: task_intro settings_neutral)

lemma save_setting_neutral:
  "(\<And>d s. auth_busy (store d s) = auth_busy s) \<Longrightarrow> neutral auth_busy auth_call (save_setting part rest payload store)"
  by (auto simp: save_setting_def intro!: task_intro)

lemma form_event_neutral: "neutral auth_busy auth_call (on_form_event e)"
  by (auto simp: on_form_event_def system_savePolicy_def system_saveFlags_def intro!: task_intro save_setting_neutral
      split: option.split form_event.split)

lemma action_disciplined: "action \<noteq> [] \<Longrightarrow> lock_ok auth_busy auth_call (codexAuthAction engine action) False s"
proof -
  assume "action \<noteq> []"
  then show ?thesis
    by (auto simp: codexAuthAction_def auth_busy_def [of "_\<lparr>sy_authBusy := _, sy_authFeedback := _\<rparr>"]
        intro!: lock_ok_release task_intro) (auto simp: auth_busy_def)
qed
lemma neutral_flag: "neutral flag crit t \<Longrightarrow> segment t s = (s', t') \<Longrightarrow> flag s' = flag s"
  by (induction t arbitrary: s rule: task_induct) auto

interpretation system_lock: locked_page "system_init engine" "system_handler engine" auth_busy auth_call for engine
proof
  show "\<not> auth_busy s \<and> (\<forall>t \<in> set ts. neutral auth_busy auth_call t)" if mounted: "system_init engine s ts" for s ts
  proof -
    obtain q c p t where run: "segment (system_refresh engine False) (system_initial q c p) = (s, t)" "ts = [t]"
      using mounted by (auto simp: system_init_def)
    have "\<not> auth_busy (system_initial q c p)" by (simp add: auth_busy_def system_initial_def)
    then show ?thesis
      using neutral_flag [OF system_refresh_neutral run(1)] neutral_segment [OF system_refresh_neutral run(1)] run(2) by simp
  qed
  show "lock_ok auth_busy auth_call t False s" if "system_handler engine t" for t s
    using that
  proof cases
    case 3
    then show ?thesis by (simp add: startCodexLogin_def js_def action_disciplined)
  next
    case 4
    then show ?thesis by (simp add: cancelCodexLogin_def js_def action_disciplined)
  next
    case 5
    then show ?thesis by (simp add: recheckCodexLogin_def js_def action_disciplined)
  qed (auto simp: submit_form_def edit_policy_def edit_flag_def sync_form_def system_contextChanged_def vr_run_def
      intro!: neutral_lock_ok task_intro system_refresh_neutral form_event_neutral split: jsval.split)
qed

text \<open>However often start, cancel and recheck are pressed and however long the answers take, at most one
  of these requests is on its way; the page is then marked as busy with it, and it is free again when nothing is pending.\<close>

theorem auth_exclusive:
  assumes "page_run (system_init engine) (system_handler engine) s ts"
  shows "length (filter (awaits auth_call) ts) \<le> (if sy_authBusy s \<noteq> [] then 1 else 0)
    \<and> ((\<forall>t \<in> set ts. \<not> is_pending t) \<longrightarrow> sy_authBusy s = [])"
  using system_lock.one_critical [OF assms] system_lock.unlocked [OF assms] by (auto simp: auth_busy_def split: if_splits)

lemma some_first_state:
  "page_run (system_init engine) (system_handler engine) (fst (segment (system_refresh engine False) (system_initial q c p)))
     [snd (segment (system_refresh engine False) (system_initial q c p))]"
  by (rule page_run.mount) (auto simp: system_init_def)

theorem auth_exclusive_witness:
  "\<exists>s ts. page_run (system_init (\<lambda>e. [])) (system_handler (\<lambda>e. [])) s ts
     \<and> length (filter (awaits auth_call) ts) = 1 \<and> sy_authBusy s = js ''start''"
proof -
  let ?e = "\<lambda>e :: jserror. [] :: jstr"
  let ?p0 = "segment (system_refresh ?e False) (system_initial JUndef JUndef JUndef)"
  let ?p1 = "segment (startCodexLogin ?e) (fst ?p0)"
  have run: "page_run (system_init ?e) (system_handler ?e) (fst ?p1) ([snd ?p0] @ [snd ?p1])"
    by (rule page_run.event [OF some_first_state system_handler.intros(3)]) simp
  have busy: "sy_authBusy (fst ?p1) = js ''start''" and one: "awaits auth_call (snd ?p1)"
    by (simp_all add: refresh_defs Let_def system_initial_def refresh_begun_def startCodexLogin_def codexAuthAction_def
        await_call_def js_def [of "''start''"] auth_call_simps(5) [unfolded append.simps])
  have "1 \<le> length (filter (awaits auth_call) ([snd ?p0] @ [snd ?p1]))" using one by simp
  then have "length (filter (awaits auth_call) ([snd ?p0] @ [snd ?p1])) = 1"
    using auth_exclusive [OF run] busy by (auto simp: js_def)
  then show ?thesis using run busy by blast
qed

section \<open>What the form may send\<close>

text \<open>A policy body has the four writable fields and is valid; a switch body has the six safe switches.\<close>

definition settings_ok :: "call \<Rightarrow> bool" where
  "settings_ok c = (case c of
      Put path (JObj ps) \<Rightarrow>
        ends_with path (js ''/decision-policy'') \<and> policy_ok (JObj ps)
          \<and> map fst ps = map js [''min_confidence'', ''enabled'', ''auto_publish_enabled'', ''strategy'']
        \<or> ends_with path (js ''/feature-flags'') \<and> map fst ps = safe_flag_keys \<and> list_all is_boolean (map snd ps)
    | Put path v \<Rightarrow> False | _ \<Rightarrow> True)"

lemma settings_ok_simps [simp]:
  "settings_ok (Get p q)" "settings_ok (Post p b)" "settings_ok Tick" "settings_ok (AllSettled cs)"
  by (simp_all add: settings_ok_def)

lemma payload_valid:
  assumes "buildDecisionPolicyPayload p = Inr body"
  shows "policy_ok (JObj body) \<and> map fst body = map js [''min_confidence'', ''enabled'', ''auto_publish_enabled'', ''strategy'']"
proof -
  have ok: "policy_ok p" and body: "body = [(js ''min_confidence'', JNum (to_number (get_prop p (js ''min_confidence'')))),
      (js ''enabled'', get_prop p (js ''enabled'')), (js ''auto_publish_enabled'', get_prop p (js ''auto_publish_enabled'')),
      (js ''strategy'', get_prop p (js ''strategy''))]"
    using assms by (auto simp: buildDecisionPolicyPayload_def Let_def validate_iff split: if_splits)
  obtain q where "0 \<le> q" "q \<le> 1" "to_number (get_prop p (js ''min_confidence'')) = Fin q"
    using ok readThreshold_range by (fastforce simp: policy_ok_def)
  then show ?thesis using ok by (simp add: policy_ok_def body readThreshold_num)
qed

lemma switches_valid:
  assumes "buildFeatureFlagsPayload v = Inr body"
  shows "map fst body = safe_flag_keys \<and> list_all is_boolean (map snd body)"
proof -
  define src where "src = (let f = get_opt v (js ''flags'') in if truthy f \<and> is_object f then f else v)"
  have "truthy src" "is_object src"
    using assms by (auto simp: src_def buildFeatureFlagsPayload_def Let_def split: if_splits)
  then have "body = map (\<lambda>key. (key, JBool (get_prop src key = JBool True))) safe_flag_keys"
    using assms flags_payload_ok [of src v] by (simp add: src_def)
  then show ?thesis by (simp add: comp_def list_all_iff)
qed

lemma project_path_end: "project_path key rest = Inr p \<Longrightarrow> \<exists>u. p = u @ js rest"
  by (auto simp: project_path_def andThen_Inr_iff)

lemma save_setting_sends:
  "(\<And>u. settings_ok (Put (u @ js rest) payload)) \<Longrightarrow> sends settings_ok (save_setting part rest payload store)"
  by (auto simp: save_setting_def intro!: task_intro dest: project_path_end)

lemma ends_with_suffix [simp]: "ends_with (u @ v) v"
  by (simp add: ends_with_def)

lemma submit_sends:
  "sends settings_ok (submit_form (form_savePolicy engine))" "sends settings_ok (submit_form (form_saveFlags engine))"
proof -
  have "distinct (map fst body)" if "map fst body = map js [''min_confidence'', ''enabled'', ''auto_publish_enabled'', ''strategy'']"
    for body :: props using that by (simp add: js_def)
  then have "sends settings_ok (system_savePolicy (JObj body))" if "buildDecisionPolicyPayload p = Inr body" for p body
    using payload_valid [OF that] put_all_fresh [of "[]" body]
    by (auto simp: system_savePolicy_def settings_ok_def intro!: task_intro save_setting_sends)
  then show "sends settings_ok (submit_form (form_savePolicy engine))"
    by (auto simp: submit_form_def form_savePolicy_def on_form_event_def intro!: task_intro split: sum.split)
  have "sends settings_ok (system_saveFlags (JObj body))" if "buildFeatureFlagsPayload v = Inr body" for v body
    using switches_valid [OF that]
    by (auto simp: system_saveFlags_def settings_ok_def intro!: task_intro save_setting_sends)
  then show "sends settings_ok (submit_form (form_saveFlags engine))"
    by (auto simp: submit_form_def form_saveFlags_def on_form_event_def intro!: task_intro split: sum.split)
qed

lemma refresh_sends: "sends settings_ok (system_refresh engine manual)"
  by (auto simp: refresh_defs settings_defs Let_def intro!: task_intro split: list.split sum.split)

lemma action_sends: "sends settings_ok (codexAuthAction engine action)"
  by (auto simp: codexAuthAction_def intro!: task_intro)

interpretation system_calls: careful_page "system_init engine" "system_handler engine" "\<lambda>s. True" settings_ok for engine
proof
  show "True \<and> (\<forall>t \<in> set ts. sends settings_ok t)" if "system_init engine s ts" for s ts
    using that careful_segment [OF refresh_sends] by (auto simp: system_init_def)
  show "sends settings_ok t" if "system_handler engine t" for t
    using that
    by cases (auto simp: startCodexLogin_def cancelCodexLogin_def recheckCodexLogin_def edit_policy_def
      edit_flag_def sync_form_def system_contextChanged_def vr_run_def
      intro!: task_intro refresh_sends submit_sends action_sends)
qed

text \<open>C5. Whatever the page was given as policy and switches and however it was edited, every request by
  which it stores settings carries a valid policy of exactly the four writable fields, or exactly the six safe
  switches as booleans.\<close>

theorem settings_always_valid:
  assumes "page_run (system_init engine) (system_handler engine) s ts" "Await (Put path body) k \<in> set ts"
  shows "(ends_with path (js ''/decision-policy'') \<and> policy_ok body
      \<and> map fst (entries body) = map js [''min_confidence'', ''enabled'', ''auto_publish_enabled'', ''strategy''])
    \<or> (ends_with path (js ''/feature-flags'') \<and> map fst (entries body) = safe_flag_keys
      \<and> list_all is_boolean (map snd (entries body)))"
  using system_calls.asked [OF assms] by (cases body) (auto simp: settings_ok_def)

section \<open>A refresh step by step\<close>

definition refresh_end :: "(system_page, unit) task \<Rightarrow> (system_page, unit) task" where
  "refresh_end t = try_finally (try_catch t (\<lambda>e. Update (\<lambda>s. s\<lparr>sy_error := Some e\<rparr>) return))
     (\<lambda>s. s\<lparr>sy_loading := False, sy_refreshing := False\<rparr>)"

lemma refresh_end_simps [simp]:
  "refresh_end (Await c k) = Await c (\<lambda>a. refresh_end (k a))" "refresh_end (Look l) = Look (\<lambda>s. refresh_end (l s))"
  "refresh_end (Update f t) = Update f (refresh_end t)"
  "refresh_end return = Update (\<lambda>s. s\<lparr>sy_loading := False, sy_refreshing := False\<rparr>) return"
  by (simp_all add: refresh_end_def)

lemma refresh_ends: "system_refresh engine m = Update (refresh_begun m) (refresh_end (system_status engine))"
  by (simp add: system_refresh_def refresh_end_def)

definition ok_status :: jsval where
  "ok_status = JObj [(js ''data'', JObj [(js ''database'', S ''ok'')])]"

definition ok_auth :: jsval where
  "ok_auth = JObj [(js ''data'', JObj [(js ''status'', S ''ready'')])]"

definition status_loaded :: "system_page \<Rightarrow> system_page" where
  "status_loaded s = s\<lparr>sy_data := JObj [(js ''database'', S ''ok'')], sy_requestId := S ''''\<rparr>"

lemma project_key_frame [simp]:
  "system_projectKey (status_loaded s) = system_projectKey s" "system_projectKey (auth_shown d s) = system_projectKey s"
  "system_projectKey (refresh_begun m s) = system_projectKey s" "system_projectKey (s\<lparr>sy_policy := v\<rparr>) = system_projectKey s"
  "system_projectKey (s\<lparr>sy_flags := v\<rparr>) = system_projectKey s" "system_projectKey (s\<lparr>sy_loading := b\<rparr>) = system_projectKey s"
  "system_projectKey (s\<lparr>sy_refreshing := b\<rparr>) = system_projectKey s" "system_projectKey (s\<lparr>sy_configError := e\<rparr>) = system_projectKey s"
  "system_projectKey (with_form f s) = system_projectKey s" "system_projectKey (s\<lparr>sy_savingSection := x\<rparr>) = system_projectKey s"
  by (simp_all add: system_projectKey_def status_loaded_def auth_shown_def refresh_begun_def with_form_def)

definition settings_waiting :: "jstr \<Rightarrow> jstr \<Rightarrow> (system_page, unit) task" where
  "settings_waiting p f = Await (AllSettled [Get p (JObj []), Get f (JObj [])]) (\<lambda>a. refresh_end (take_settings (results a)))"

text \<open>A refresh whose first answers are in waits for the settings of its project.\<close>

lemma refresh_to_settings:
  assumes run: "page_run I H (refresh_begun False s) (ts @ [snd (segment (refresh_end (system_status engine)) (refresh_begun False s))])"
    and key: "system_projectKey s = key" "key \<noteq> []" "project_path key ''/decision-policy'' = Inr p" "project_path key ''/feature-flags'' = Inr f"
  shows "\<exists>s'. page_run I H s' (ts @ [settings_waiting p f]) \<and> system_projectKey s' = key
    \<and> sy_context_key s' = sy_context_key s \<and> sy_principal_key s' = sy_principal_key s \<and> sy_query_key s' = sy_query_key s"
proof -
  let ?s0 = "refresh_begun False s" and ?auth = "JObj [(js ''status'', S ''ready'')]"
  let ?t1 = "Await (Get (js ''/codex-auth/status'') (JObj [])) (\<lambda>a. refresh_end (await_task (try_catch
      (case returned a of Inl e \<Rightarrow> throw e | Inr result \<Rightarrow>
        (case get_or_throw result (js ''data'') of Inl e \<Rightarrow> throw e | Inr d \<Rightarrow> Update (auth_shown d) return))
      (\<lambda>e. Update (auth_failed engine (error_field e ''code'') e) return)) (\<lambda>r. load_settings)))"
  have r1: "page_run I H (status_loaded ?s0) (ts @ [?t1])"
    by (rule answer_last [OF run [unfolded system_status_def Let_def await_call_def, simplified], where a = "Returned (Inr ok_status)"])
      (auto simp: truthy_data_def ok_status_def eval_js_def js_or_def status_loaded_def refreshCodexAuth_def await_call_def await_task_def)
  have r2: "page_run I H (auth_shown ?auth (status_loaded ?s0)) (ts @ [Await Tick (\<lambda>a. refresh_end load_settings)])"
    by (rule answer_last [OF r1, where a = "Returned (Inr ok_auth)"]) (auto simp: ok_auth_def eval_js_def await_task_def)
  let ?s3 = "(auth_shown ?auth (status_loaded ?s0))\<lparr>sy_policy := JNull, sy_flags := JNull\<rparr>"
  have r3: "page_run I H ?s3 (ts @ [settings_waiting p f])"
    by (rule answer_last [OF r2, where a = "Returned (Inr JUndef)"]) (use key in \<open>auto simp: load_settings_def eval_js_def settings_waiting_def\<close>)
  show ?thesis
    by (rule exI [of _ ?s3]) (use r3 key in \<open>auto simp: auth_shown_def status_loaded_def refresh_begun_def system_projectKey_def\<close>)
qed

lemma settings_answered:
  "segment (refresh_end (take_settings [Inr (JObj [(js ''data'', pol)]), Inr (JObj [(js ''data'', sw)])])) s =
     (s\<lparr>sy_policy := normalizeDecisionPolicy pol, sy_flags := normalizeFeatureFlags sw, sy_loading := False, sy_refreshing := False\<rparr>,
      return)"
  by (simp add: take_settings_def take_setting_def eval_js_def failures_def)

lemma waiting_simps:
  "settings_waiting p f = Await (AllSettled [Get p (JObj []), Get f (JObj [])]) (\<lambda>a. refresh_end (take_settings (results a)))"
  by (simp add: settings_waiting_def)

lemma project_paths:
  "project_path (js ''a'') ''/decision-policy'' = Inr (js ''/projects/a/decision-policy'')"
  "project_path (js ''a'') ''/feature-flags'' = Inr (js ''/projects/a/feature-flags'')"
  "project_path (js ''b'') ''/decision-policy'' = Inr (js ''/projects/b/decision-policy'')"
  "project_path (js ''b'') ''/feature-flags'' = Inr (js ''/projects/b/feature-flags'')"
  by (simp_all add: project_path_def js_def uri_unreserved_def)

lemma key_of_context: "sy_query_key s = JUndef \<Longrightarrow> sy_context_key s = JStr k \<Longrightarrow> k \<noteq> [] \<Longrightarrow> trim k = k \<Longrightarrow> system_projectKey s = k"
  by (simp add: system_projectKey_def resolveProjectKey_def js_or_def with_default_def Let_def)

lemma policy_submitted:
  assumes run: "page_run (system_init engine) (system_handler engine) s ts"
    and key: "system_projectKey s = key" "key \<noteq> []" "project_path key ''/decision-policy'' = Inr p"
    and body: "buildDecisionPolicyPayload (sy_policy s) = Inr body"
  shows "\<exists>s' k. page_run (system_init engine) (system_handler engine) s' (ts @ [Await (Put p (JObj body)) k]) \<and> system_projectKey s' = key"
proof -
  define s6 where "s6 = (with_form (form_of s\<lparr>gf_localValidationError := S ''''\<rparr>) s)\<lparr>sy_savingSection := ''policy'', sy_configError := None\<rparr>"
  have key6: "system_projectKey s6 = key" using key(1) by (simp add: s6_def)
  obtain k where "segment (submit_form (form_savePolicy engine)) s = (s6, Await (Put p (JObj (put_all [] body))) k)"
    using body key6 key(2,3)
    by (simp add: submit_form_def form_savePolicy_def form_of_def on_form_event_def system_savePolicy_def save_setting_def
        s6_def eval_js_def await_call_def)
  moreover have "distinct (map fst body)" using payload_valid [OF body] by (simp add: js_def)
  then have "put_all [] body = body" using put_all_fresh [of "[]" body] by simp
  ultimately show ?thesis using page_run.event [OF run system_handler.intros(6)] key6 by metis
qed

lemma normal_payload: "\<exists>body. buildDecisionPolicyPayload (normalizeDecisionPolicy pol) = Inr body"
  using validate_iff [of "normalizeDecisionPolicy pol"] normalize_policy_ok [of pol] by (simp add: buildDecisionPolicyPayload_def)


lemma first_policy:
  "\<exists>s. page_run (system_init engine) (system_handler engine) s [return] \<and> system_projectKey s = js ''a''
     \<and> sy_policy s = normalizeDecisionPolicy pol"
proof -
  let ?i = "system_initial JUndef (S ''a'') JUndef"
  have "page_run (system_init engine) (system_handler engine) (refresh_begun False ?i)
      ([] @ [snd (segment (refresh_end (system_status engine)) (refresh_begun False ?i))])"
    using some_first_state [of engine JUndef "S ''a''" JUndef]
    by (simp add: refresh_ends system_status_def Let_def await_call_def)
  from refresh_to_settings [OF this _ _ project_paths(1,2)] obtain s1 where
    r1: "page_run (system_init engine) (system_handler engine) s1
      ([] @ [settings_waiting (js ''/projects/a/decision-policy'') (js ''/projects/a/feature-flags'')])"
    and key: "system_projectKey s1 = js ''a''"
    by (auto simp: key_of_context system_initial_def js_def trim_def is_space_def)
  let ?s = "s1\<lparr>sy_policy := normalizeDecisionPolicy pol, sy_flags := normalizeFeatureFlags JNull, sy_loading := False, sy_refreshing := False\<rparr>"
  have "page_run (system_init engine) (system_handler engine) ?s ([] @ [return])"
    by (rule answer_last [OF r1 [unfolded waiting_simps], where a = "Results [Inr (JObj [(js ''data'', pol)]), Inr (JObj [(js ''data'', JNull)])]"])
      (simp_all add: settings_answered)
  then show ?thesis using key by (intro exI [of _ ?s]) simp
qed

theorem settings_always_valid_witness:
  "\<exists>s ts body k. page_run (system_init (\<lambda>e. [])) (system_handler (\<lambda>e. [])) s ts
     \<and> Await (Put (js ''/projects/a/decision-policy'') body) k \<in> set ts \<and> policy_ok body"
proof -
  let ?e = "\<lambda>e :: jserror. [] :: jstr"
  obtain s where s: "page_run (system_init ?e) (system_handler ?e) s [return]" "system_projectKey s = js ''a''"
    "sy_policy s = normalizeDecisionPolicy JNull" using first_policy by blast
  obtain body where "buildDecisionPolicyPayload (sy_policy s) = Inr body" using normal_payload s(3) by metis
  from policy_submitted [OF s(1,2) _ project_paths(1) this] obtain s' k where
    run: "page_run (system_init ?e) (system_handler ?e) s' ([return] @ [Await (Put (js ''/projects/a/decision-policy'') (JObj body)) k])"
    by (auto simp: js_def)
  have "\<not> ends_with (js ''/projects/a/decision-policy'') (js ''/feature-flags'')" by (simp add: ends_with_def starts_with_def js_def)
  then have "policy_ok (JObj body)" using settings_always_valid [OF run, of "js ''/projects/a/decision-policy''"] by force
  then show ?thesis using run by (intro exI conjI) (assumption, auto)
qed

end
