(* ===== verification/RecordsPage.thy ===== *)
theory RecordsPage imports Composables Format begin

text \<open>
  \<open>views/RecordsView.vue\<close>, the ledger of the memory data: seven kinds of records with their columns,
  the filters in the address, and the load of a page of records.
\<close>

section \<open>The kinds of records\<close>

definition record_definitions :: props where
  "record_definitions = [
    (js ''raw-records'', JObj [(js ''label'', JStr [0x539f, 0x59cb, 0x8bb0, 0x5f55]), (js ''hint'', S ''L0''), (js ''typeLabel'', S ''''),
      (js ''columns'', JArr [
       JObj [(js ''key'', S ''id''), (js ''label'', S ''ID''), (js ''width'', N 84), (js ''type'', S ''mono'')],
       JObj [(js ''key'', S ''event_key''), (js ''label'', JStr [0x4e8b, 0x4ef6, 0x952e]), (js ''minWidth'', N 220), (js ''type'', S ''mono''), (js ''truncate'', N 28)],
       JObj [(js ''key'', S ''role''), (js ''label'', JStr [0x89d2, 0x8272]), (js ''width'', N 100)],
       JObj [(js ''key'', S ''content''), (js ''label'', JStr [0x5185, 0x5bb9]), (js ''minWidth'', N 360)],
       JObj [(js ''key'', S ''source''), (js ''label'', JStr [0x6765, 0x6e90]), (js ''width'', N 120)],
       JObj [(js ''key'', S ''created_at''), (js ''label'', JStr [0x521b, 0x5efa, 0x65f6, 0x95f4]), (js ''width'', N 176), (js ''type'', S ''date'')]])]),
    (js ''candidates'', JObj [(js ''label'', JStr [0x5019, 0x9009, 0x8bb0, 0x5fc6]), (js ''hint'', JStr [0x5019, 0x9009]), (js ''typeLabel'', JStr [0x8bb0, 0x5fc6, 0x7c7b, 0x578b]),
      (js ''columns'', JArr [
       JObj [(js ''key'', S ''id''), (js ''label'', S ''ID''), (js ''width'', N 84), (js ''type'', S ''mono'')],
       JObj [(js ''key'', S ''title''), (js ''label'', JStr [0x6807, 0x9898]), (js ''minWidth'', N 220)],
       JObj [(js ''key'', S ''level''), (js ''label'', JStr [0x5c42, 0x7ea7]), (js ''width'', N 86)],
       JObj [(js ''key'', S ''memory_type''), (js ''label'', JStr [0x8bb0, 0x5fc6, 0x7c7b, 0x578b]), (js ''width'', N 150)],
       JObj [(js ''key'', S ''model_confidence''), (js ''label'', JStr [0x6a21, 0x578b, 0x7f6e, 0x4fe1, 0x5ea6]), (js ''width'', N 112)],
       JObj [(js ''key'', S ''status''), (js ''label'', JStr [0x72b6, 0x6001]), (js ''width'', N 112), (js ''type'', S ''status'')],
       JObj [(js ''key'', S ''created_at''), (js ''label'', JStr [0x521b, 0x5efa, 0x65f6, 0x95f4]), (js ''width'', N 176), (js ''type'', S ''date'')]])]),
    (js ''memories'', JObj [(js ''label'', JStr [0x6b63, 0x5f0f, 0x8bb0, 0x5fc6]), (js ''hint'', JStr [0x6b63, 0x5f0f]), (js ''typeLabel'', JStr [0x8bb0, 0x5fc6, 0x7c7b, 0x578b]),
      (js ''columns'', JArr [
       JObj [(js ''key'', S ''id''), (js ''label'', S ''ID''), (js ''width'', N 84), (js ''type'', S ''mono'')],
       JObj [(js ''key'', S ''title''), (js ''label'', JStr [0x6807, 0x9898]), (js ''minWidth'', N 240)],
       JObj [(js ''key'', S ''level''), (js ''label'', JStr [0x5c42, 0x7ea7]), (js ''width'', N 86)],
       JObj [(js ''key'', S ''memory_type''), (js ''label'', JStr [0x8bb0, 0x5fc6, 0x7c7b, 0x578b]), (js ''width'', N 150)],
       JObj [(js ''key'', S ''confidence''), (js ''label'', JStr [0x7f6e, 0x4fe1, 0x5ea6]), (js ''width'', N 100)],
       JObj [(js ''key'', S ''status''), (js ''label'', JStr [0x72b6, 0x6001]), (js ''width'', N 112), (js ''type'', S ''status'')],
       JObj [(js ''key'', S ''created_at''), (js ''label'', JStr [0x521b, 0x5efa, 0x65f6, 0x95f4]), (js ''width'', N 176), (js ''type'', S ''date'')]])]),
    (js ''jobs'', JObj [(js ''label'', JStr [0x5904, 0x7406, 0x4efb, 0x52a1]), (js ''hint'', S ''Worker''), (js ''typeLabel'', JStr [0x4efb, 0x52a1, 0x7c7b, 0x578b]),
      (js ''columns'', JArr [
       JObj [(js ''key'', S ''id''), (js ''label'', S ''ID''), (js ''width'', N 84), (js ''type'', S ''mono'')],
       JObj [(js ''key'', S ''job_type''), (js ''label'', JStr [0x4efb, 0x52a1, 0x7c7b, 0x578b]), (js ''minWidth'', N 165)],
       JObj [(js ''key'', S ''job_key''), (js ''label'', JStr [0x4efb, 0x52a1, 0x952e]), (js ''minWidth'', N 240), (js ''type'', S ''mono''), (js ''truncate'', N 32)],
       JObj [(js ''key'', S ''status''), (js ''label'', JStr [0x72b6, 0x6001]), (js ''width'', N 112), (js ''type'', S ''status'')],
       JObj [(js ''key'', S ''attempt_count''), (js ''label'', JStr [0x5c1d, 0x8bd5, 0x6b21, 0x6570]), (js ''width'', N 100), (js ''align'', S ''center'')],
       JObj [(js ''key'', S ''last_error_code''), (js ''label'', JStr [0x6700, 0x8fd1, 0x9519, 0x8bef]), (js ''width'', N 150)],
       JObj [(js ''key'', S ''created_at''), (js ''label'', JStr [0x521b, 0x5efa, 0x65f6, 0x95f4]), (js ''width'', N 176), (js ''type'', S ''date'')]])]),
    (js ''outbox-events'', JObj [(js ''label'', JStr [79, 117, 116, 98, 111, 120, 32, 0x4e8b, 0x4ef6]), (js ''hint'', S ''Outbox''), (js ''typeLabel'', JStr [0x4e8b, 0x4ef6, 0x7c7b, 0x578b]),
      (js ''columns'', JArr [
       JObj [(js ''key'', S ''id''), (js ''label'', S ''ID''), (js ''width'', N 84), (js ''type'', S ''mono'')],
       JObj [(js ''key'', S ''event_type''), (js ''label'', JStr [0x4e8b, 0x4ef6, 0x7c7b, 0x578b]), (js ''minWidth'', N 220)],
       JObj [(js ''key'', S ''status''), (js ''label'', JStr [0x72b6, 0x6001]), (js ''width'', N 112), (js ''type'', S ''status'')],
       JObj [(js ''key'', S ''attempt_count''), (js ''label'', JStr [0x5c1d, 0x8bd5, 0x6b21, 0x6570]), (js ''width'', N 100), (js ''align'', S ''center'')],
       JObj [(js ''key'', S ''created_at''), (js ''label'', JStr [0x521b, 0x5efa, 0x65f6, 0x95f4]), (js ''width'', N 176), (js ''type'', S ''date'')]])]),
    (js ''retrieval-audits'', JObj [(js ''label'', JStr [0x68c0, 0x7d22, 0x5ba1, 0x8ba1]), (js ''hint'', S ''Retrieval''), (js ''typeLabel'', S ''''),
      (js ''columns'', JArr [
       JObj [(js ''key'', S ''id''), (js ''label'', S ''ID''), (js ''width'', N 84), (js ''type'', S ''mono'')],
       JObj [(js ''key'', S ''retrieval_mode''), (js ''label'', JStr [0x68c0, 0x7d22, 0x6a21, 0x5f0f]), (js ''width'', N 150)],
       JObj [(js ''key'', S ''degraded''), (js ''label'', JStr [0x5df2, 0x964d, 0x7ea7]), (js ''width'', N 100)],
       JObj [(js ''key'', S ''degraded_reason''), (js ''label'', JStr [0x964d, 0x7ea7, 0x539f, 0x56e0]), (js ''minWidth'', N 240)],
       JObj [(js ''key'', S ''latency_ms''), (js ''label'', JStr [0x5ef6, 0x8fdf, 0xff08, 0x6beb, 0x79d2, 0xff09]), (js ''width'', N 120), (js ''align'', S ''right'')],
       JObj [(js ''key'', S ''created_at''), (js ''label'', JStr [0x521b, 0x5efa, 0x65f6, 0x95f4]), (js ''width'', N 176), (js ''type'', S ''date'')]])]),
    (js ''audit-events'', JObj [(js ''label'', JStr [0x5ba1, 0x8ba1, 0x4e8b, 0x4ef6]), (js ''hint'', S ''Audit''), (js ''typeLabel'', JStr [0x4e8b, 0x4ef6, 0x7c7b, 0x578b]), (js ''secondaryTypeLabel'', JStr [0x4e3b, 0x4f53, 0x7c7b, 0x578b]),
      (js ''columns'', JArr [
       JObj [(js ''key'', S ''id''), (js ''label'', S ''ID''), (js ''width'', N 84), (js ''type'', S ''mono'')],
       JObj [(js ''key'', S ''event_type''), (js ''label'', JStr [0x4e8b, 0x4ef6, 0x7c7b, 0x578b]), (js ''minWidth'', N 190)],
       JObj [(js ''key'', S ''subject_type''), (js ''label'', JStr [0x4e3b, 0x4f53, 0x7c7b, 0x578b]), (js ''width'', N 150)],
       JObj [(js ''key'', S ''subject_id''), (js ''label'', JStr [0x4e3b, 0x4f53, 32, 73, 68]), (js ''minWidth'', N 190), (js ''type'', S ''mono''), (js ''truncate'', N 24)],
       JObj [(js ''key'', S ''created_at''), (js ''label'', JStr [0x521b, 0x5efa, 0x65f6, 0x95f4]), (js ''width'', N 176), (js ''type'', S ''date'')]])])]"

section \<open>State\<close>

text \<open>\<open>rc_scopes\<close> records the calls of the context store's \<open>selectScope\<close>, which is synchronous.\<close>

definition records_defaults :: props where
  "records_defaults = [(js ''kind'', S ''candidates''), (js ''project_key'', S ''''), (js ''scope_id'', S ''''), (js ''status'', S ''''),
     (js ''level'', S ''''), (js ''type'', S ''''), (js ''secondary_type'', S ''''), (js ''role'', S ''''), (js ''degraded'', S ''''),
     (js ''retrieval_mode'', S ''''), (js ''keyword'', S ''''), (js ''created_from'', S ''''), (js ''created_to'', S ''''),
     (js ''sort'', S ''created_at''), (js ''order'', S ''desc''), (js ''page'', N 1), (js ''page_size'', N 20), (js ''detail'', S ''''),
     (js ''detail_tab'', S ''overview'')]"

definition records_numeric :: "jstr list" where
  "records_numeric = [js ''page'', js ''page_size'']"

record records_page =
  rc_path :: jstr
  rc_query :: props
  rc_filters :: props
  rc_rows :: "jsval list"
  rc_meta :: props
  rc_loading :: bool
  rc_error :: "jserror option"
  rc_scopes :: "jsval list"

definition no_meta :: "jsval \<Rightarrow> jsval \<Rightarrow> props" where
  "no_meta page' size' = [(js ''page'', page'), (js ''page_size'', size'), (js ''total'', N 0), (js ''has_next'', JBool False)]"

definition records_initial :: "props \<Rightarrow> records_page" where
  "records_initial q = \<lparr>rc_path = js ''/records'', rc_query = q, rc_filters = rq_parse records_defaults records_numeric q, rc_rows = [],
     rc_meta = no_meta (N 1) (N 20), rc_loading = True, rc_error = None, rc_scopes = []\<rparr>"

abbreviation rc_filter :: "records_page \<Rightarrow> string \<Rightarrow> jsval" where
  "rc_filter s k \<equiv> lookup_prop (rc_filters s) (js k)"

definition record_definition :: "records_page \<Rightarrow> jsval" where
  "record_definition s = js_or (lookup_prop record_definitions (to_string (rc_filter s ''kind''))) (lookup_prop record_definitions (js ''candidates''))"

text \<open>\<open>rows.value.find(...)\<close>; a nullish row before the match throws.\<close>

fun find_record :: "jstr \<Rightarrow> jsval list \<Rightarrow> jsval js" where
  "find_record d [] = Inr JNull"
| "find_record d (r # rs) = andThen (get_or_throw r (js ''id'')) (\<lambda>i.
     if to_string i = d then Inr (js_or r JNull) else find_record d rs)"

definition currentRow :: "records_page \<Rightarrow> jsval js" where
  "currentRow s = find_record (to_string (rc_filter s ''detail'')) (rc_rows s)"

definition records_drawerOpen :: "records_page \<Rightarrow> bool" where
  "records_drawerOpen s \<longleftrightarrow> truthy (rc_filter s ''detail'')"

definition dateRange :: "records_page \<Rightarrow> jsval list" where
  "dateRange s = (if truthy (rc_filter s ''created_from'') \<and> truthy (rc_filter s ''created_to'')
     then [rc_filter s ''created_from'', rc_filter s ''created_to''] else [])"

definition index_opt :: "jsval \<Rightarrow> nat \<Rightarrow> jsval" where
  "index_opt v i = (case v of
      JArr xs \<Rightarrow> if i < length xs then xs ! i else JUndef
    | JStr s \<Rightarrow> if i < length s then JStr [s ! i] else JUndef
    | _ \<Rightarrow> JUndef)"

definition set_dateRange :: "jsval \<Rightarrow> records_page \<Rightarrow> records_page" where
  "set_dateRange v s = s\<lparr>rc_filters := put (put (rc_filters s) (js ''created_from'') (js_or (index_opt v 0) (S '''')))
     (js ''created_to'') (js_or (index_opt v 1) (S ''''))\<rparr>"

definition kind_in :: "string list \<Rightarrow> props \<Rightarrow> bool" where
  "kind_in ks f \<longleftrightarrow> lookup_prop f (js ''kind'') \<in> set (map S ks)"

definition showsContentNotice :: "records_page \<Rightarrow> bool" where
  "showsContentNotice s \<longleftrightarrow> kind_in [''raw-records'', ''candidates'', ''memories''] (rc_filters s)"

section \<open>The request\<close>

text \<open>\<open>params.a = filters.b\<close> for each pair, when the kind is one of those that have the parameters.\<close>

definition add_params :: "string list \<Rightarrow> (string \<times> string) list \<Rightarrow> props \<Rightarrow> props \<Rightarrow> props" where
  "add_params kinds ps f params =
     (if kind_in kinds f then put_all params (map (\<lambda>(a, b). (js a, lookup_prop f (js b))) ps) else params)"

definition buildParams :: "intl \<Rightarrow> props \<Rightarrow> props" where
  "buildParams host f = (let v = (\<lambda>k. lookup_prop f (js k));
       params = [(js ''project_key'', v ''project_key''), (js ''scope_id'', v ''scope_id''),
         (js ''created_from'', JStr (localDateTimeToIso host (v ''created_from''))),
         (js ''created_to'', JStr (localDateTimeToIso host (v ''created_to''))),
         (js ''sort'', v ''sort''), (js ''order'', v ''order''), (js ''page'', v ''page''), (js ''page_size'', v ''page_size'')]
     in add_params [''audit-events''] [(''event_type'', ''type''), (''subject_type'', ''secondary_type'')] f
       (add_params [''retrieval-audits''] [(''degraded'', ''degraded''), (''retrieval_mode'', ''retrieval_mode'')] f
       (add_params [''outbox-events''] [(''event_type'', ''type'')] f
       (add_params [''jobs''] [(''job_type'', ''type''), (''keyword'', ''keyword'')] f
       (add_params [''raw-records''] [(''role'', ''role''), (''keyword'', ''keyword'')] f
       (add_params [''candidates'', ''memories''] [(''level'', ''level''), (''memory_type'', ''type''), (''keyword'', ''keyword'')] f
       (add_params [''candidates'', ''memories'', ''jobs'', ''outbox-events''] [(''status'', ''status'')] f params)))))))"

section \<open>Handlers\<close>

definition records_meta :: "jsval \<Rightarrow> records_page \<Rightarrow> props" where
  "records_meta m s = [(js ''page'', JNum (to_number (js_or (get_opt m (js ''page'')) (rc_filter s ''page'')))),
     (js ''page_size'', JNum (to_number (js_or (get_opt m (js ''page_size'')) (rc_filter s ''page_size'')))),
     (js ''total'', JNum (to_number (js_or (get_opt m (js ''total'')) (N 0)))), (js ''has_next'', JBool (truthy (get_opt m (js ''has_next''))))]"

definition records_listed :: "jsval \<Rightarrow> (records_page, unit) task" where
  "records_listed result = eval_js (data_array result) (\<lambda>rows.
     Update (\<lambda>s. s\<lparr>rc_rows := rows, rc_meta := records_meta (get_prop result (js ''meta'')) s\<rparr>) return)"

definition records_load :: "intl \<Rightarrow> (records_page, unit) task" where
  "records_load host = Update (\<lambda>s. s\<lparr>rc_loading := True, rc_error := None\<rparr>) (try_finally (try_catch
     (Look (\<lambda>s. await_call (Get (47 # to_string (rc_filter s ''kind'')) (JObj (buildParams host (rc_filters s)))) records_listed))
     (\<lambda>cause. Update (\<lambda>s. s\<lparr>rc_rows := [], rc_meta := no_meta (rc_filter s ''page'') (rc_filter s ''page_size''), rc_error := Some cause\<rparr>) return))
     (\<lambda>s. s\<lparr>rc_loading := False\<rparr>))"

definition records_commit :: "props \<Rightarrow> (records_page, unit) task" where
  "records_commit patch = rq_commit rc_query rc_path rc_filters (\<lambda>g s. s\<lparr>rc_filters := g (rc_filters s)\<rparr>) patch True"

definition empty_filters :: "string list \<Rightarrow> props" where
  "empty_filters ks = map (\<lambda>k. (js k, S '''')) ks"

definition records_changeKind :: "jsval \<Rightarrow> (records_page, unit) task" where
  "records_changeKind value = records_commit ((js ''kind'', value) #
     empty_filters [''status'', ''level'', ''type'', ''secondary_type'', ''role'', ''degraded'', ''retrieval_mode'', ''keyword'']
     @ [(js ''page'', N 1), (js ''detail'', S ''''), (js ''detail_tab'', S ''overview'')])"

definition records_changeProject :: "jsval \<Rightarrow> (records_page, unit) task" where
  "records_changeProject value = await_call (StoreAction ''selectProject'' value) (\<lambda>r.
     Update (\<lambda>s. s\<lparr>rc_filters := put (rc_filters s) (js ''scope_id'') (S '''')\<rparr>) return)"

definition records_applyFilters :: "(records_page, unit) task" where
  "records_applyFilters = Look (\<lambda>s. eval_js (trim_val (rc_filter s ''keyword'')) (\<lambda>k.
     records_commit (put (put (rc_filters s) (js ''keyword'') (JStr k)) (js ''page'') (N 1))))"

definition records_resetFilters :: "(records_page, unit) task" where
  "records_resetFilters = records_commit
     (empty_filters [''status'', ''level'', ''type'', ''secondary_type'', ''role'', ''degraded'', ''retrieval_mode'', ''keyword'',
        ''created_from'', ''created_to''] @ [(js ''sort'', S ''created_at''), (js ''order'', S ''desc''), (js ''page'', N 1)])"

definition records_openDetail :: "jsval \<Rightarrow> (records_page, unit) task" where
  "records_openDetail row = eval_js (get_or_throw row (js ''id'')) (\<lambda>i.
     records_commit [(js ''detail'', i), (js ''detail_tab'', S ''overview'')])"

definition records_closeDrawer :: "(records_page, unit) task" where
  "records_closeDrawer = records_commit [(js ''detail'', S ''''), (js ''detail_tab'', S ''overview'')]"

definition records_changePagination :: "props \<Rightarrow> (records_page, unit) task" where
  "records_changePagination value = Look (\<lambda>s. records_commit
     [(js ''page'', js_coalesce (lookup_prop value (js ''page'')) (rc_filter s ''page'')),
      (js ''page_size'', js_coalesce (lookup_prop value (js ''pageSize'')) (rc_filter s ''page_size''))])"

text \<open>A new address: the filters follow it, and the page loads again.\<close>

definition records_routeChanged :: "intl \<Rightarrow> props \<Rightarrow> (records_page, unit) task" where
  "records_routeChanged host q = Update (\<lambda>s. s\<lparr>rc_query := q, rc_filters := put_all (rc_filters s) (rq_parse records_defaults records_numeric q)\<rparr>)
     (records_load host)"

definition records_mounted :: "intl \<Rightarrow> (records_page, unit) task" where
  "records_mounted host = await_call (StoreAction ''loadProjects'' JUndef) (\<lambda>r. Look (\<lambda>s.
     seq (if truthy (rc_filter s ''project_key'') then await_call (StoreAction ''selectProject'' (rc_filter s ''project_key'')) (\<lambda>r. return) else return)
     (\<lambda>r. Update (\<lambda>s. if truthy (rc_filter s ''scope_id'') then s\<lparr>rc_scopes := rc_scopes s @ [rc_filter s ''scope_id'']\<rparr> else s)
     (records_load host))))"

section \<open>The page\<close>

definition records_init :: "intl \<Rightarrow> records_page \<Rightarrow> (records_page, unit) task list \<Rightarrow> bool" where
  "records_init host s ts \<longleftrightarrow> (\<exists>q t. distinct (map fst q) \<and> segment (records_mounted host) (records_initial q) = (s, t) \<and> ts = [t])"

inductive records_handler :: "intl \<Rightarrow> (records_page, unit) task \<Rightarrow> bool" for host where
  "records_handler host (records_load host)"
| "records_handler host (records_changeKind v)"
| "records_handler host (records_changeProject v)"
| "records_handler host records_applyFilters"
| "records_handler host records_resetFilters"
| "records_handler host (records_openDetail row)"
| "records_handler host records_closeDrawer"
| "records_handler host (records_commit [(js ''detail_tab'', v)])"
| "records_handler host (records_changePagination value)"
| "records_handler host (records_routeChanged host q)"
| "records_handler host (Update (set_dateRange v) return)"
| "k \<in> set [''project_key'', ''scope_id'', ''status'', ''level'', ''role'', ''degraded'', ''retrieval_mode'', ''type'', ''secondary_type'',
     ''keyword'', ''sort'', ''order'', ''page'', ''page_size''] \<Longrightarrow>
   records_handler host (Update (\<lambda>s. s\<lparr>rc_filters := put (rc_filters s) (js k) v\<rparr>) return)"

end
