(* ===== verification/RecordsLaws.thy ===== *)
theory RecordsLaws imports RecordsPage SystemPage begin

text \<open>
  The ledger: its loading flag, the shape of its paging data, late answers, and the links that lead to it.
\<close>

section \<open>Loading\<close>

lemma records_commit_settles [simp]: "settles rc_loading (records_commit patch) False"
  by (auto simp: records_commit_def rq_commit_def Let_def intro!: task_intro)

lemma records_load_settles: "settles rc_loading (records_load host) owed"
  unfolding records_load_def by (rule settles_section) simp

lemmas records_handler_defs = records_changeKind_def records_changeProject_def records_applyFilters_def records_resetFilters_def
  records_openDetail_def records_closeDrawer_def records_changePagination_def records_routeChanged_def set_dateRange_def

lemma records_mounted_settles: "settles rc_loading (records_mounted host) True"
  using records_load_settles
  by (auto simp: records_mounted_def await_call_def seq_def split: sum.split)

interpretation records_loads: settling_page "records_init host" "records_handler host" rc_loading for host
proof
  show "\<exists>os. owing rc_loading s ts os" if "records_init host s ts" for s ts
    using that owing_first [OF records_mounted_settles] by (auto simp: records_init_def)
  show "settles rc_loading t False" if "records_handler host t" for t
    using that by cases (auto simp: records_handler_defs intro!: task_intro records_load_settles)
qed

text \<open>C32. Whenever nothing is pending, the ledger is not loading: a load that fails, a store action that fails
  inside and overlapping loads all end with the flag clear.\<close>

theorem records_at_rest:
  assumes "page_run (records_init host) (records_handler host) s ts" "\<forall>t \<in> set ts. \<not> is_pending t"
  shows "\<not> rc_loading s"
  using records_loads.rested [OF assms] .

section \<open>A load step by step\<close>

definition records_end :: "(records_page, unit) task \<Rightarrow> (records_page, unit) task" where
  "records_end t = try_finally (try_catch t
     (\<lambda>cause. Update (\<lambda>s. s\<lparr>rc_rows := [], rc_meta := no_meta (rc_filter s ''page'') (rc_filter s ''page_size''), rc_error := Some cause\<rparr>) return))
     (\<lambda>s. s\<lparr>rc_loading := False\<rparr>)"

definition records_waiting :: "intl \<Rightarrow> props \<Rightarrow> (records_page, unit) task" where
  "records_waiting host f = Await (Get (47 # to_string (lookup_prop f (js ''kind''))) (JObj (buildParams host f)))
     (\<lambda>a. records_end (case returned a of Inl e \<Rightarrow> throw e | Inr v \<Rightarrow> records_listed v))"

lemma load_waits:
  "segment (records_load host) s = (s\<lparr>rc_loading := True, rc_error := None\<rparr>, records_waiting host (rc_filters s))"
  by (simp add: records_load_def records_waiting_def records_end_def await_call_def)

definition rows_result :: "jsval list \<Rightarrow> jsval" where
  "rows_result rows = JObj [(js ''data'', JArr rows)]"

lemma waiting_answered:
  "segment (records_end (records_listed (rows_result rows))) s =
     (s\<lparr>rc_rows := rows, rc_meta := records_meta JUndef s, rc_loading := False\<rparr>, return)"
  by (simp add: records_end_def records_listed_def eval_js_def data_array_def rows_result_def)

lemma waiting_answer:
  assumes "page_run I H s ts" "i < length ts" "ts ! i = records_waiting host f"
  shows "page_run I H (s\<lparr>rc_rows := rows, rc_meta := records_meta JUndef s, rc_loading := False\<rparr>) (ts[i := return])"
  by (rule page_run.answer [OF assms(1,2) assms(3) [unfolded records_waiting_def], where a = "Returned (Inr (rows_result rows))"])
    (simp_all add: waiting_answered)

lemma records_first:
  "\<exists>s. page_run (records_init host) (records_handler host) s [records_waiting host (rq_parse records_defaults records_numeric [])]
     \<and> rc_filters s = rq_parse records_defaults records_numeric []"
proof -
  have keys: "\<not> truthy (rc_filter (records_initial []) ''project_key'')" "\<not> truthy (rc_filter (records_initial []) ''scope_id'')"
    by (simp_all add: records_initial_def rq_parse_lookup records_defaults_def rq_value_def)
  obtain k where mounted: "segment (records_mounted host) (records_initial []) = (records_initial [], Await (StoreAction ''loadProjects'' JUndef) k)"
    and k: "k = (\<lambda>a. case returned a of Inl e \<Rightarrow> throw e | Inr r \<Rightarrow> Look (\<lambda>s.
     seq (if truthy (rc_filter s ''project_key'') then await_call (StoreAction ''selectProject'' (rc_filter s ''project_key'')) (\<lambda>r. return) else return)
     (\<lambda>r. Update (\<lambda>s. if truthy (rc_filter s ''scope_id'') then s\<lparr>rc_scopes := rc_scopes s @ [rc_filter s ''scope_id'']\<rparr> else s)
     (records_load host))))"
    by (simp add: records_mounted_def await_call_def)
  have "page_run (records_init host) (records_handler host) (records_initial []) ([] @ [Await (StoreAction ''loadProjects'' JUndef) k])"
    using mounted by (intro page_run.mount) (auto simp: records_init_def intro!: exI [of _ "[]"])
  from answer_last [OF this, where a = "Returned (Inr JUndef)"] keys
  have "page_run (records_init host) (records_handler host) ((records_initial [])\<lparr>rc_loading := True, rc_error := None\<rparr>)
      ([] @ [records_waiting host (rc_filters (records_initial []))])"
    by (simp add: k load_waits)
  then show ?thesis
    by (intro exI [of _ "(records_initial [])\<lparr>rc_loading := True, rc_error := None\<rparr>"]) (simp add: records_initial_def)
qed

theorem records_at_rest_witness:
  "\<forall>host. \<exists>s ts. page_run (records_init host) (records_handler host) s ts \<and> ts \<noteq> [] \<and> \<not> rc_loading s"
proof
  fix host
  let ?w = "records_waiting host (rq_parse records_defaults records_numeric [])"
  obtain s where s: "page_run (records_init host) (records_handler host) s [?w]" using records_first by blast
  have "page_run (records_init host) (records_handler host) (s\<lparr>rc_rows := [], rc_meta := records_meta JUndef s, rc_loading := False\<rparr>) ([?w][0 := return])"
    by (rule waiting_answer [OF s]) simp_all
  from this records_at_rest [OF this] show "\<exists>s ts. page_run (records_init host) (records_handler host) s ts \<and> ts \<noteq> [] \<and> \<not> rc_loading s"
    by (intro exI conjI) (assumption, simp_all)
qed

text \<open>Loads are not numbered.  For any two answers there is a run at whose end nothing is pending, the ledger
  shows the kind \<open>memories\<close>, and its rows are the candidates that were asked for before.\<close>

theorem records_of_other_kind:
  "\<exists>s ts. page_run (records_init host) (records_handler host) s ts \<and> filter is_pending ts = []
     \<and> rc_filter s ''kind'' = S ''memories'' \<and> rc_rows s = candidates \<and> rc_error s = None"
proof -
  let ?w = "\<lambda>q. records_waiting host (rq_parse records_defaults records_numeric q)" and ?q = "[(js ''kind'', S ''memories'')]"
  let ?I = "records_init host" and ?H = "records_handler host"
  obtain s0 where s0: "page_run ?I ?H s0 [?w []]" "rc_filters s0 = rq_parse records_defaults records_numeric []"
    using records_first by blast
  let ?f = "put_all (rc_filters s0) (rq_parse records_defaults records_numeric ?q)"
  let ?s1 = "s0\<lparr>rc_query := ?q, rc_filters := ?f, rc_loading := True, rc_error := None\<rparr>"
  have "segment (records_routeChanged host ?q) s0 = (?s1, records_waiting host ?f)"
    by (simp add: records_routeChanged_def load_waits)
  from page_run.event [OF s0(1) records_handler.intros(10) this] have r1: "page_run ?I ?H ?s1 [?w [], records_waiting host ?f]" by simp
  have r2: "page_run ?I ?H (?s1\<lparr>rc_rows := memories, rc_meta := records_meta JUndef ?s1, rc_loading := False\<rparr>)
      ([?w [], records_waiting host ?f][1 := return])" (is "page_run _ _ ?s2 _")
    by (rule waiting_answer [OF r1]) simp_all
  have r3: "page_run ?I ?H (?s2\<lparr>rc_rows := candidates, rc_meta := records_meta JUndef ?s2, rc_loading := False\<rparr>)
      ([?w [], records_waiting host ?f][1 := return, 0 := return])" (is "page_run _ _ ?s3 _")
    by (rule waiting_answer [OF r2]) simp_all
  have "lookup_prop ?f (js ''kind'') = S ''memories''"
    unfolding s0(2) by (code_simp)
  then show ?thesis using r3 by (intro exI [of _ ?s3] exI) auto
qed

section \<open>Types of the state\<close>

text \<open>The total is a number, the flag a boolean, and the keys are fixed; the filters always have their nineteen keys.\<close>

definition is_number :: "jsval \<Rightarrow> bool" where
  "is_number v \<longleftrightarrow> (\<exists>n. v = JNum n)"

definition has_keys :: "jstr list \<Rightarrow> props \<Rightarrow> bool" where
  "has_keys ks ps \<longleftrightarrow> set ks \<subseteq> set (map fst ps) \<and> distinct (map fst ps)"

definition paging_typed :: "props \<Rightarrow> bool" where
  "paging_typed m \<longleftrightarrow> map fst m = map js [''page'', ''page_size'', ''total'', ''has_next'']
     \<and> is_number (lookup_prop m (js ''total'')) \<and> is_boolean (lookup_prop m (js ''has_next''))"

definition records_typed :: "records_page \<Rightarrow> bool" where
  "records_typed s \<longleftrightarrow> paging_typed (rc_meta s) \<and> has_keys (map fst records_defaults) (rc_filters s)"

lemma paging_typed [simp]: "paging_typed (no_meta p z)" "paging_typed (records_meta m s)"
  by (simp_all add: no_meta_def records_meta_def is_number_def paging_typed_def)

lemma has_keys_put [simp]: "has_keys ks ps \<Longrightarrow> has_keys ks (put ps k v)"
  by (auto simp: has_keys_def distinct_put keys_put)

lemma has_keys_put_all [simp]: "has_keys ks ps \<Longrightarrow> has_keys ks (put_all ps qs)"
  by (induction qs arbitrary: ps) auto

lemma records_typed_frame [simp]:
  "records_typed (s\<lparr>rc_loading := b\<rparr>) = records_typed s" "records_typed (s\<lparr>rc_error := e\<rparr>) = records_typed s"
  "records_typed (s\<lparr>rc_query := q\<rparr>) = records_typed s" "records_typed (s\<lparr>rc_scopes := vs\<rparr>) = records_typed s"
  "records_typed (s\<lparr>rc_rows := vs\<rparr>) = records_typed s"
  by (simp_all add: records_typed_def)

lemma records_typed_steps [intro, simp]:
  "records_typed s \<Longrightarrow> records_typed (s\<lparr>rc_filters := put_all (rc_filters s) ps\<rparr>)"
  "records_typed s \<Longrightarrow> records_typed (s\<lparr>rc_filters := put (rc_filters s) k v\<rparr>)"
  "records_typed s \<Longrightarrow> records_typed (s\<lparr>rc_meta := records_meta m s'\<rparr>)" "records_typed s \<Longrightarrow> records_typed (s\<lparr>rc_meta := no_meta p z\<rparr>)"
  "records_typed s \<Longrightarrow> records_typed (set_dateRange v s)"
  by (auto simp: records_typed_def set_dateRange_def)

lemma records_initial_typed: "records_typed (records_initial q)"
proof -
  have "distinct (map fst records_defaults)" by (simp add: records_defaults_def)
  then show ?thesis by (simp add: records_typed_def records_initial_def has_keys_def rq_parse_keys flip: set_map)
qed

lemma records_commit_keeps [simp]: "keeps records_typed (records_commit patch)"
  by (auto simp: records_commit_def rq_commit_def Let_def intro!: task_intro)

lemma records_load_keeps: "keeps records_typed (records_load host)"
  by (auto simp: records_load_def records_listed_def intro!: task_intro
      records_typed_steps(3) [of "s\<lparr>rc_rows := _\<rparr>" for s, simplified] records_typed_steps(4) [of "s\<lparr>rc_rows := _\<rparr>" for s, simplified])

lemma records_mounted_keeps: "keeps records_typed (records_mounted host)"
  by (auto simp: records_mounted_def intro!: task_intro records_load_keeps split: if_splits)

interpretation records_types: careful_page "records_init host" "records_handler host" records_typed "\<lambda>c. True" for host
proof
  show "records_typed s \<and> (\<forall>t \<in> set ts. keeps records_typed t)" if "records_init host s ts" for s ts
    using that careful_segment [OF records_mounted_keeps records_initial_typed] by (auto simp: records_init_def)
  show "keeps records_typed t" if "records_handler host t" for t
    using that by cases (auto simp: records_handler_defs(1-8) intro!: task_intro records_load_keeps
      records_typed_steps(1) [of "s\<lparr>rc_query := _\<rparr>" for s, simplified])
qed

text \<open>C26. In every reachable state the paging data have their four keys, with a number as total and a boolean that
  tells whether there is more, and the filters hold every key they were declared with, once.\<close>

theorem records_state_typed:
  assumes "page_run (records_init host) (records_handler host) s ts"
  shows "map fst (rc_meta s) = map js [''page'', ''page_size'', ''total'', ''has_next'']
    \<and> (\<exists>n. lookup_prop (rc_meta s) (js ''total'') = JNum n) \<and> is_boolean (lookup_prop (rc_meta s) (js ''has_next''))
    \<and> set (map fst records_defaults) \<subseteq> set (map fst (rc_filters s)) \<and> distinct (map fst (rc_filters s))"
  using records_types.reachable [OF assms] by (auto simp: records_typed_def is_number_def paging_typed_def has_keys_def)

theorem records_state_typed_witness:
  "\<forall>host. \<exists>s ts. page_run (records_init host) (records_handler host) s ts \<and> distinct (map fst (rc_filters s))"
proof
  fix host
  obtain s where s: "page_run (records_init host) (records_handler host) s [records_waiting host (rq_parse records_defaults records_numeric [])]"
    using records_first by blast
  from s records_state_typed [OF s] show "\<exists>s ts. page_run (records_init host) (records_handler host) s ts \<and> distinct (map fst (rc_filters s))"
    by blast
qed

end
