(* ===== verification/ProjectsPage.thy ===== *)
theory ProjectsPage imports Composables NumberOps ImportCodec begin

text \<open>
  \<open>views/ProjectsView.vue\<close>: the register of projects, filtered and paged in the browser, and the details of
  one project in a drawer.
\<close>

section \<open>State\<close>

definition projects_columns :: "jsval list" where
  "projects_columns = [
     JObj [(js ''key'', S ''name''), (js ''label'', JStr [0x9879, 0x76ee]), (js ''minWidth'', N 190)],
     JObj [(js ''key'', S ''project_key''), (js ''label'', JStr [0x9879, 0x76ee, 0x952e]), (js ''minWidth'', N 210), (js ''type'', S ''mono'')],
     JObj [(js ''key'', S ''repository''), (js ''label'', JStr [0x4ed3, 0x5e93]), (js ''minWidth'', N 250), (js ''type'', S ''mono''), (js ''truncate'', N 38)],
     JObj [(js ''key'', S ''scope_count''), (js ''label'', S ''Scope''), (js ''width'', N 100), (js ''align'', S ''center'')],
     JObj [(js ''key'', S ''status''), (js ''label'', JStr [0x72b6, 0x6001]), (js ''width'', N 110), (js ''type'', S ''status'')]]"

definition projects_defaults :: props where
  "projects_defaults = [(js ''keyword'', S ''''), (js ''status'', S ''''), (js ''page'', N 1), (js ''page_size'', N 20), (js ''detail'', S '''')]"

definition projects_numeric :: "jstr list" where
  "projects_numeric = [js ''page'', js ''page_size'']"

record projects_page =
  pj_path :: jstr
  pj_query :: props
  pj_filters :: props
  pj_allRows :: "jsval list"
  pj_loading :: bool
  pj_error :: "jserror option"
  pj_detailLoading :: bool
  pj_detailError :: "jserror option"
  pj_detail :: jsval
  pj_scopes :: "jsval list"
  pj_pushed :: "jsval list"

definition projects_initial :: "props \<Rightarrow> projects_page" where
  "projects_initial q = \<lparr>pj_path = js ''/projects'', pj_query = q, pj_filters = rq_parse projects_defaults projects_numeric q,
     pj_allRows = [], pj_loading = True, pj_error = None, pj_detailLoading = False, pj_detailError = None, pj_detail = JNull,
     pj_scopes = [], pj_pushed = []\<rparr>"

abbreviation pj_filter :: "projects_page \<Rightarrow> string \<Rightarrow> jsval" where
  "pj_filter s k \<equiv> lookup_prop (pj_filters s) (js k)"

section \<open>Filtering and paging\<close>

definition matches_keyword :: "jstr \<Rightarrow> jsval \<Rightarrow> bool" where
  "matches_keyword keyword row \<longleftrightarrow> (\<exists>k \<in> set [''name'', ''project_key'', ''repository'', ''description''].
     includes_str (to_lower (to_string (js_or (get_prop row (js k)) (S '''')))) keyword)"

text \<open>One row of the \<open>filter\<close>; a nullish row throws as soon as a field of it is read.\<close>

definition project_matches :: "jstr \<Rightarrow> jsval \<Rightarrow> jsval \<Rightarrow> bool js" where
  "project_matches keyword status row =
     (if keyword \<noteq> [] \<and> is_nullish row then Inl TypeError
      else if keyword \<noteq> [] \<and> \<not> matches_keyword keyword row then Inr False
      else if \<not> truthy status then Inr True
      else andThen (get_or_throw row (js ''status'')) (\<lambda>v. Inr (strict_eq v status)))"

definition filteredRows :: "projects_page \<Rightarrow> jsval list js" where
  "filteredRows s = andThen (trim_val (pj_filter s ''keyword'')) (\<lambda>k.
     filter_js (project_matches (to_lower k) (pj_filter s ''status'')) (pj_allRows s))"

definition page_rows :: "jnum \<Rightarrow> jnum \<Rightarrow> jsval list \<Rightarrow> jsval list" where
  "page_rows page' size' xs = slice_between (num_mul (num_sub page' (Fin 1)) size') (num_mul page' size') xs"

definition projects_rows :: "projects_page \<Rightarrow> jsval list js" where
  "projects_rows s = andThen (filteredRows s) (\<lambda>xs.
     Inr (page_rows (to_number (pj_filter s ''page'')) (to_number (pj_filter s ''page_size'')) xs))"

definition projects_maxPage :: "jnum \<Rightarrow> nat \<Rightarrow> jnum" where
  "projects_maxPage size' n = math_max (Fin 1) (math_ceil (num_div (Fin (of_nat n)) size'))"

definition projects_drawerOpen :: "projects_page \<Rightarrow> bool" where
  "projects_drawerOpen s \<longleftrightarrow> truthy (pj_filter s ''detail'')"

section \<open>Handlers\<close>

definition projects_commit :: "props \<Rightarrow> (projects_page, unit) task" where
  "projects_commit patch = rq_commit pj_query pj_path pj_filters (\<lambda>g s. s\<lparr>pj_filters := g (pj_filters s)\<rparr>) patch True"

definition projects_listed :: "jsval \<Rightarrow> (projects_page, unit) task" where
  "projects_listed result = eval_js (data_array result) (\<lambda>rows.
     Update (\<lambda>s. s\<lparr>pj_allRows := rows\<rparr>) (Look (\<lambda>s. eval_js (filteredRows s) (\<lambda>xs.
       let m = projects_maxPage (to_number (pj_filter s ''page_size'')) (length xs) in
       if m < to_number (pj_filter s ''page'') then await_task (projects_commit [(js ''page'', JNum m)]) (\<lambda>r. return) else return))))"

definition projects_load :: "(projects_page, unit) task" where
  "projects_load = Update (\<lambda>s. s\<lparr>pj_loading := True, pj_error := None\<rparr>) (try_finally (try_catch
     (await_call (Get (js ''/projects'') (JObj [(js ''page'', N 1), (js ''page_size'', N 200), (js ''sort'', S ''project_key''), (js ''order'', S ''asc'')]))
       projects_listed)
     (\<lambda>cause. Update (\<lambda>s. s\<lparr>pj_allRows := [], pj_error := Some cause\<rparr>) return))
     (\<lambda>s. s\<lparr>pj_loading := False\<rparr>))"

text \<open>\<open>loadDetail\<close> has no \<open>try\<close>: what throws in it ends it where it is.\<close>

definition detail_settled :: "jsval js list \<Rightarrow> (projects_page, unit) task" where
  "detail_settled rs = (case rs of
      [projectResult, scopeResult] \<Rightarrow>
        seq (case projectResult of
            Inr v \<Rightarrow> eval_js (get_or_throw v (js ''data'')) (\<lambda>d. Update (\<lambda>s. s\<lparr>pj_detail := js_or d JNull\<rparr>) return)
          | Inl e \<Rightarrow> Update (\<lambda>s. s\<lparr>pj_detailError := Some e\<rparr>) return) (\<lambda>r.
        seq (case scopeResult of
            Inr v \<Rightarrow> eval_js (data_array v) (\<lambda>ss. Update (\<lambda>s. s\<lparr>pj_scopes := ss\<rparr>) return)
          | Inl e \<Rightarrow> return) (\<lambda>r.
        Update (\<lambda>s. s\<lparr>pj_detailLoading := False\<rparr>) return))
    | _ \<Rightarrow> return)"

definition projects_loadDetail :: "jsval \<Rightarrow> (projects_page, unit) task" where
  "projects_loadDetail key =
     (if \<not> truthy key then Update (\<lambda>s. s\<lparr>pj_detail := JNull, pj_scopes := []\<rparr>) return
      else Update (\<lambda>s. s\<lparr>pj_detailLoading := True, pj_detailError := None\<rparr>)
        (eval_js (encodeURIComponent (to_string key)) (\<lambda>k.
         Await (AllSettled [Get (js ''/projects/'' @ k) (JObj []),
             Get (js ''/projects/'' @ k @ js ''/scopes'') (JObj [(js ''page'', N 1), (js ''page_size'', N 200)])])
           (\<lambda>a. detail_settled (results a)))))"

definition projects_applyFilters :: "(projects_page, unit) task" where
  "projects_applyFilters = Look (\<lambda>s. eval_js (trim_val (pj_filter s ''keyword'')) (\<lambda>k.
     projects_commit [(js ''keyword'', JStr k), (js ''status'', pj_filter s ''status''), (js ''page'', N 1)]))"

definition projects_resetFilters :: "(projects_page, unit) task" where
  "projects_resetFilters = projects_commit [(js ''keyword'', S ''''), (js ''status'', S ''''), (js ''page'', N 1)]"

definition projects_openDetail :: "jsval \<Rightarrow> (projects_page, unit) task" where
  "projects_openDetail row = eval_js (get_or_throw row (js ''project_key'')) (\<lambda>k. projects_commit [(js ''detail'', k)])"

definition projects_changePagination :: "props \<Rightarrow> (projects_page, unit) task" where
  "projects_changePagination value = Look (\<lambda>s. projects_commit
     [(js ''page'', js_coalesce (lookup_prop value (js ''page'')) (pj_filter s ''page'')),
      (js ''page_size'', js_coalesce (lookup_prop value (js ''pageSize'')) (pj_filter s ''page_size''))])"

definition projects_openProject :: "jstr \<Rightarrow> props \<Rightarrow> projects_page \<Rightarrow> projects_page" where
  "projects_openProject path extra s = s\<lparr>pj_pushed := pj_pushed s @ [JObj [(js ''path'', JStr path),
     (js ''query'', JObj (put_all [(js ''project_key'', pj_filter s ''detail'')] extra))]]\<rparr>"

section \<open>The page\<close>

text \<open>The two watchers run with the values of the state.\<close>

definition projects_detailChanged :: "(projects_page, unit) task" where
  "projects_detailChanged = Look (\<lambda>s. projects_loadDetail (pj_filter s ''detail''))"

definition projects_routeChanged :: "props \<Rightarrow> projects_page \<Rightarrow> projects_page" where
  "projects_routeChanged q s = s\<lparr>pj_query := q, pj_filters := put_all (pj_filters s) (rq_parse projects_defaults projects_numeric q)\<rparr>"

definition projects_init :: "projects_page \<Rightarrow> (projects_page, unit) task list \<Rightarrow> bool" where
  "projects_init s ts \<longleftrightarrow> (\<exists>q s1 t1 t2. distinct (map fst q) \<and> segment projects_detailChanged (projects_initial q) = (s1, t1)
     \<and> segment projects_load s1 = (s, t2) \<and> ts = [t1, t2])"

inductive projects_handler :: "(projects_page, unit) task \<Rightarrow> bool" where
  "projects_handler projects_load"
| "projects_handler projects_detailChanged"
| "projects_handler (projects_commit [(js ''page'', N 1)])"
| "projects_handler (projects_commit [(js ''detail'', S '''')])"
| "projects_handler projects_applyFilters"
| "projects_handler projects_resetFilters"
| "projects_handler (projects_openDetail row)"
| "projects_handler (projects_changePagination value)"
| "projects_handler (Update (projects_openProject path extra) return)"
| "projects_handler (Update (projects_routeChanged q) return)"
| "k \<in> set [''keyword'', ''status'', ''page'', ''page_size''] \<Longrightarrow>
   projects_handler (Update (\<lambda>s. s\<lparr>pj_filters := put (pj_filters s) (js k) v\<rparr>) return)"

end
