(* ===== verification/ProjectsLaws.thy ===== *)
theory ProjectsLaws imports ProjectsPage begin

text \<open>
  The register of projects: its pages cover the filtered rows, its list comes to rest, and its drawer may not.
\<close>

section \<open>Pages\<close>

lemma page_rows_nat:
  assumes "1 \<le> p" "p * n < 2 ^ 53"
  shows "page_rows (Fin (of_nat p)) (Fin (of_nat n)) xs = take n (drop ((p - 1) * n) xs)"
proof -
  have small: "(p - 1) * n < 2 ^ 53" "p \<le> p * n \<or> n = 0" using assms by (auto simp: algebra_simps intro: le_less_trans)
  have double: "to_double (of_nat k) = Fin (of_nat k)" if "k < 2 ^ 53" for k
    using to_double_int [of "int k"] that by simp
  show ?thesis
  proof (cases "n = 0")
    case True
    then show ?thesis
      by (cases "num_sub (Fin (of_nat p)) (Fin 1)") (auto simp: page_rows_def num_mul_def slice_between_def slice_bound_def to_double_def Let_def)
  next
    case False
    then have "p < 2 ^ 53" using small(2) assms(2) by linarith
    then have "num_sub (Fin (of_nat p)) (Fin 1) = Fin (of_nat (p - 1))"
      using double [of "p - 1"] assms(1) by (simp add: num_sub_def num_neg_def of_nat_diff)
    then have "page_rows (Fin (of_nat p)) (Fin (of_nat n)) xs = slice_between (Fin (of_nat ((p - 1) * n))) (Fin (of_nat (p * n))) xs"
      using double [of "(p - 1) * n"] double [of "p * n"] small(1) assms(2) by (simp add: page_rows_def num_mul_def)
    moreover have "p * n - (p - 1) * n = n" using assms(1) by (cases p) simp_all
    ultimately show ?thesis by (simp only: slice_between_nat)
  qed
qed

lemma slices_join: "concat (map (\<lambda>p. take n (drop ((p - 1) * n) xs)) [1..<Suc m]) = take (m * n) xs"
proof (induction m)
  case (Suc m)
  then show ?case by (simp add: take_add add.commute [of n])
qed simp

lemma maxPage_nat:
  assumes "1 \<le> n" "n < 2 ^ 52" "len < 2 ^ 52"
  shows "projects_maxPage (Fin (of_nat n)) len = Fin (of_nat (max 1 (nat \<lceil>of_nat len / of_nat n :: rat\<rceil>)))"
proof -
  let ?c = "\<lceil>of_nat len / of_nat n :: rat\<rceil>"
  have c: "math_ceil (num_div (Fin (of_nat len)) (Fin (of_nat n))) = Fin (of_int ?c)"
    using ceil_quotient [of "int len" "int n"] assms by simp
  have "(0 :: rat) \<le> of_nat len / of_nat n" by simp
  then have "0 \<le> ?c" by linarith
  then have "projects_maxPage (Fin (of_nat n)) len = Fin (of_int (max 1 ?c))"
    by (auto simp: projects_maxPage_def c math_max_def less_eq_jnum_def max_def)
  also have "max 1 ?c = int (max 1 (nat ?c))" using \<open>0 \<le> ?c\<close> by linarith
  finally show ?thesis by simp
qed

text \<open>C25. The pages that the page bar offers show every filtered row exactly once and in order: joined from the first
  to the highest page number that \<open>load\<close> lets stand they are the filtered rows, and unless there are no rows at
  all none of them is empty.\<close>

theorem pages_cover:
  assumes "1 \<le> n" "n < 2 ^ 52" "length xs < 2 ^ 52"
  shows "\<exists>m. projects_maxPage (Fin (of_nat n)) (length xs) = Fin (of_nat m)
    \<and> concat (map (\<lambda>p. page_rows (Fin (of_nat p)) (Fin (of_nat n)) xs) [1..<Suc m]) = xs
    \<and> (xs \<noteq> [] \<longrightarrow> (\<forall>p \<in> {1..m}. page_rows (Fin (of_nat p)) (Fin (of_nat n)) xs \<noteq> []))"
proof -
  let ?q = "of_nat (length xs) / of_nat n :: rat"
  define m where "m = max 1 (nat \<lceil>?q\<rceil>)"
  have n: "(0 :: rat) < of_nat n" using assms(1) by simp
  have "\<lceil>?q\<rceil> \<le> int m" by (simp add: m_def)
  then have "?q \<le> of_nat m" by (simp add: ceiling_le_iff)
  then have "of_nat (length xs) \<le> (of_nat (m * n) :: rat)" using n by (simp add: divide_le_eq)
  then have covers: "length xs \<le> m * n" by (simp only: of_nat_le_iff)
  have below: "(p - 1) * n < length xs" if "1 \<le> p" "p \<le> m" "xs \<noteq> []" for p
  proof (cases "p = 1")
    case False
    then have "int (p - 1) < \<lceil>?q\<rceil>" using that by (auto simp: m_def max_def split: if_splits)
    then have "of_nat (p - 1) < ?q" by (simp add: less_ceiling_iff)
    then have "of_nat ((p - 1) * n) < (of_nat (length xs) :: rat)" using n by (simp add: less_divide_eq)
    then show ?thesis by (simp only: of_nat_less_iff)
  qed (use that in simp)
  have small: "p * n < 2 ^ 53" if "1 \<le> p" "p \<le> m" for p
  proof (cases "xs = []")
    case True
    then have "m = 1" by (simp add: m_def)
    then show ?thesis using that assms(2) by simp
  next
    case False
    have "p * n = (p - 1) * n + n" using that(1) by (cases p) simp_all
    then show ?thesis using below [OF that False] assms(2,3) by simp
  qed
  have rows: "page_rows (Fin (of_nat p)) (Fin (of_nat n)) xs = take n (drop ((p - 1) * n) xs)" if "1 \<le> p" "p \<le> m" for p
    using page_rows_nat [OF that(1) small [OF that]] .
  have same: "map (\<lambda>p. page_rows (Fin (of_nat p)) (Fin (of_nat n)) xs) [1..<Suc m] = map (\<lambda>p. take n (drop ((p - 1) * n) xs)) [1..<Suc m]"
    using rows by (intro map_cong) auto
  have "concat (map (\<lambda>p. page_rows (Fin (of_nat p)) (Fin (of_nat n)) xs) [1..<Suc m]) = xs"
    unfolding same slices_join using covers by simp
  moreover have "\<forall>p \<in> {1..m}. xs \<noteq> [] \<longrightarrow> page_rows (Fin (of_nat p)) (Fin (of_nat n)) xs \<noteq> []"
    using rows below assms(1) by (auto simp: linorder_not_le [symmetric])
  ultimately show ?thesis using maxPage_nat [OF assms(1,2,3)] by (intro exI [of _ m]) (auto simp: m_def)
qed

theorem pages_cover_witness:
  "\<exists>m. projects_maxPage (Fin 2) 3 = Fin (of_nat m)
     \<and> concat (map (\<lambda>p. page_rows (Fin (of_nat p)) (Fin 2) [S ''a'', S ''b'', S ''c'']) [1..<Suc m]) = [S ''a'', S ''b'', S ''c'']"
proof -
  have "length [S ''a'', S ''b'', S ''c''] = 3" by simp
  then show ?thesis using pages_cover [of 2 "[S ''a'', S ''b'', S ''c'']"] by (simp del: upt_Suc list.size) blast
qed

section \<open>Loading\<close>

lemma projects_commit_settles [simp]: "settles pj_loading (projects_commit patch) False"
  by (auto simp: projects_commit_def rq_commit_def Let_def intro!: task_intro)

lemma projects_load_settles: "settles pj_loading projects_load owed"
  unfolding projects_load_def by (rule settles_section) simp

lemma detail_settles: "settles pj_loading projects_detailChanged False"
  by (auto simp: projects_detailChanged_def projects_loadDetail_def detail_settled_def intro!: task_intro
      split: list.split sum.split)

lemmas projects_handler_defs = projects_applyFilters_def projects_resetFilters_def projects_openDetail_def
  projects_changePagination_def projects_openProject_def projects_routeChanged_def

interpretation projects_loads: settling_page projects_init projects_handler pj_loading
proof
  show "\<exists>os. owing pj_loading s ts os" if mounted: "projects_init s ts" for s ts
  proof -
    obtain q s1 t1 t2 where run: "segment projects_detailChanged (projects_initial q) = (s1, t1)" "segment projects_load s1 = (s, t2)" "ts = [t1, t2]"
      using mounted by (auto simp: projects_init_def)
    obtain owed1 where t1: "settles pj_loading t1 owed1"
      using settles_segment [OF detail_settles _ run(1), of True] by auto
    obtain owed2 where t2: "settles pj_loading t2 owed2" "pj_loading s \<longrightarrow> owed2"
      using settles_segment [OF projects_load_settles _ run(2), of True False] by auto
    have "owing pj_loading s ts [owed1, owed2]"
      using t1 t2 run(3) by (auto simp: owing_def less_Suc_eq)
    then show ?thesis by blast
  qed
  show "settles pj_loading t False" if "projects_handler t" for t
    using that
    by cases (auto simp: projects_handler_defs intro!: task_intro projects_load_settles detail_settles)
qed

text \<open>When nothing is pending the list of projects is not loading, also after a load that moved to the last page.\<close>

theorem projects_at_rest:
  assumes "page_run projects_init projects_handler s ts" "\<forall>t \<in> set ts. \<not> is_pending t"
  shows "\<not> pj_loading s"
  using projects_loads.rested [OF assms] .

section \<open>The drawer\<close>

definition detail_waiting :: "jstr \<Rightarrow> (projects_page, unit) task" where
  "detail_waiting k = Await (AllSettled [Get (js ''/projects/'' @ k) (JObj []),
       Get (js ''/projects/'' @ k @ js ''/scopes'') (JObj [(js ''page'', N 1), (js ''page_size'', N 200)])]) (\<lambda>a. detail_settled (results a))"

lemma projects_first:
  "\<exists>s. page_run projects_init projects_handler s [return, return] \<and> pj_filters s = rq_parse projects_defaults projects_numeric []
     \<and> \<not> pj_detailLoading s"
proof -
  let ?i = "projects_initial []"
  let ?s1 = "?i\<lparr>pj_detail := JNull, pj_scopes := []\<rparr>"
  have nodetail: "\<not> truthy (pj_filter ?i ''detail'')" by (simp add: projects_initial_def rq_parse_lookup projects_defaults_def rq_value_def)
  have "segment projects_detailChanged ?i = (?s1, return)"
    using nodetail by (simp add: projects_detailChanged_def projects_loadDetail_def)
  moreover obtain k where load: "segment projects_load ?s1 = (?s1\<lparr>pj_loading := True, pj_error := None\<rparr>,
      Await (Get (js ''/projects'') (JObj [(js ''page'', N 1), (js ''page_size'', N 200), (js ''sort'', S ''project_key''), (js ''order'', S ''asc'')])) k)"
    and k: "k = (\<lambda>a. try_finally (try_catch (case returned a of Inl e \<Rightarrow> throw e | Inr v \<Rightarrow> projects_listed v)
       (\<lambda>cause. Update (\<lambda>s. s\<lparr>pj_allRows := [], pj_error := Some cause\<rparr>) return)) (\<lambda>s. s\<lparr>pj_loading := False\<rparr>))"
    by (simp add: projects_load_def await_call_def)
  ultimately have run: "page_run projects_init projects_handler (?s1\<lparr>pj_loading := True, pj_error := None\<rparr>) ([return] @ [Await (Get (js ''/projects'') (JObj
      [(js ''page'', N 1), (js ''page_size'', N 200), (js ''sort'', S ''project_key''), (js ''order'', S ''asc'')])) k])"
    by (intro page_run.mount) (auto simp: projects_init_def intro!: exI [of _ "[]"])
  let ?s = "?s1\<lparr>pj_loading := False, pj_error := Some TypeError, pj_allRows := []\<rparr>"
  have "page_run projects_init projects_handler ?s ([return] @ [return])"
    by (rule answer_last [OF run, where a = "Returned (Inl TypeError)"]) (simp_all add: k)
  then show ?thesis by (intro exI [of _ ?s]) (simp add: projects_initial_def)
qed

text \<open>The details are loaded outside any \<open>try\<close>.  A body that is the JSON value \<open>null\<close> makes the handler throw
  between its two flags: there is a run at whose end nothing is pending and the drawer is still loading.\<close>

theorem detail_left_loading:
  "\<exists>s ts. page_run projects_init projects_handler s ts \<and> filter is_pending ts = [] \<and> pj_detailLoading s"
proof -
  obtain s0 where s0: "page_run projects_init projects_handler s0 [return, return]" using projects_first by blast
  let ?s1 = "s0\<lparr>pj_filters := put_all (pj_filters s0) [(js ''detail'', S ''a'')]\<rparr>"
  obtain c k where open1: "segment (projects_openDetail (JObj [(js ''project_key'', S ''a'')])) s0 = (?s1, Await (Replace c) k)"
    and k: "k (Returned (Inr JUndef)) = return"
    by (simp add: projects_openDetail_def eval_js_def projects_commit_def rq_commit_def Let_def await_call_def)
  have r1: "page_run projects_init projects_handler ?s1 ([return, return] @ [Await (Replace c) k])"
    by (rule page_run.event [OF s0 projects_handler.intros(7) open1])
  have r2: "page_run projects_init projects_handler ?s1 ([return, return] @ [return])"
    by (rule answer_last [OF r1, where a = "Returned (Inr JUndef)"]) (simp_all add: k)
  let ?s2 = "?s1\<lparr>pj_detailLoading := True, pj_detailError := None\<rparr>"
  have "segment projects_detailChanged ?s1 = (?s2, detail_waiting (js ''a''))"
    by (simp add: projects_detailChanged_def projects_loadDetail_def detail_waiting_def eval_js_def js_def uri_unreserved_def)
  from page_run.event [OF r2 projects_handler.intros(2) this]
  have r3: "page_run projects_init projects_handler ?s2 ([return, return, return] @ [detail_waiting (js ''a'')])" by simp
  have r4: "page_run projects_init projects_handler ?s2 ([return, return, return] @ [throw TypeError])"
    by (rule answer_last [OF r3 [unfolded detail_waiting_def], where a = "Results [Inr JNull, Inr JNull]"])
      (simp_all add: detail_settled_def eval_js_def)
  then show ?thesis by (intro exI conjI) (assumption, simp_all)
qed

theorem projects_at_rest_witness:
  "\<exists>s ts. page_run projects_init projects_handler s ts \<and> ts \<noteq> [] \<and> \<not> pj_loading s"
proof -
  obtain s0 where s0: "page_run projects_init projects_handler s0 [return, return]" using projects_first by blast
  from s0 projects_at_rest [OF s0] show ?thesis by (intro exI conjI) (assumption, simp_all)
qed

end
