(* ===== verification/DashboardPage.thy ===== *)
theory DashboardPage imports Composables SessionStore begin

text \<open>
  \<open>views/DashboardView.vue\<close>: the overview with its health line, the pipeline of the memories, the cards that ask for
  attention, and the numbered load of its three sources.
\<close>

section \<open>State\<close>

record dashboard_page =
  db_route_key :: jsval
  db_session :: session
  db_loading :: bool
  db_refreshing :: bool
  db_error :: "jserror option"
  db_systemError :: "jserror option"
  db_dashboard :: jsval
  db_system :: jsval
  db_audits :: "jsval list"
  db_loadSequence :: nat
  db_lastUpdatedAt :: jsval
  db_pushed :: "jsval list"

definition dashboard_initial :: "jsval \<Rightarrow> session \<Rightarrow> dashboard_page" where
  "dashboard_initial q ss = \<lparr>db_route_key = q, db_session = ss, db_loading = True, db_refreshing = False, db_error = None,
     db_systemError = None, db_dashboard = JObj [], db_system = JObj [], db_audits = [], db_loadSequence = 0,
     db_lastUpdatedAt = JNull, db_pushed = []\<rparr>"

definition canReadSystem :: "dashboard_page \<Rightarrow> bool js" where
  "canReadSystem s = andThen (isAdmin (db_session s)) (\<lambda>a.
     if a then Inr True else hasPermission (db_session s) (js ''operations_read''))"

definition queryContext :: "dashboard_page \<Rightarrow> props" where
  "queryContext s = (if truthy (db_route_key s) then [(js ''project_key'', db_route_key s)] else [])"

definition db_part :: "dashboard_page \<Rightarrow> string \<Rightarrow> jsval" where
  "db_part s k = js_or (get_prop (db_dashboard s) (js k)) (JObj [])"

definition attention :: "dashboard_page \<Rightarrow> jsval" where "attention s = db_part s ''attention''"
definition dashboard_decision :: "dashboard_page \<Rightarrow> jsval" where "dashboard_decision s = db_part s ''decision''"
definition pipeline :: "dashboard_page \<Rightarrow> jsval" where "pipeline s = db_part s ''pipeline''"

definition levelCounts :: "dashboard_page \<Rightarrow> jsval" where
  "levelCounts s = js_or (js_or (get_prop (pipeline s) (js ''memories_by_level'')) (get_prop (pipeline s) (js ''levels''))) (JObj [])"

section \<open>What is shown\<close>

record dashboard_card =
  dc_key :: string
  dc_label :: jstr
  dc_status :: jsval
  dc_value :: jsval
  dc_hint :: jstr
  dc_to :: string
  dc_query :: "(string \<times> string) list"

definition nonzero :: "jsval \<Rightarrow> bool" where
  "nonzero v \<longleftrightarrow> truthy (JNum (to_number (js_or v (N 0))))"

definition pulse :: "dashboard_page \<Rightarrow> dashboard_card list js" where
  "pulse s = andThen (canReadSystem s) (\<lambda>can.
     let sys = (\<lambda>k. get_prop (db_system s) (js k)); to = (if can then ''/system-status'' else []);
         dead = js_or (sys ''dead_letters'') (get_prop (attention s) (js ''dead_letters''));
         count = (\<lambda>v unit. JStr (to_string (js_coalesce v (N 0)) @ unit));
         node = (\<lambda>k l st v t q. \<lparr>dc_key = k, dc_label = l, dc_status = st, dc_value = v, dc_hint = [], dc_to = t, dc_query = q\<rparr>)
     in Inr [
       node ''api'' (js ''API'') (if db_error s \<noteq> None then S ''error'' else S ''ok'')
         (JStr (if db_error s \<noteq> None then [0x8fde, 0x63a5, 0x5931, 0x8d25] else [0x54cd, 0x5e94, 0x6b63, 0x5e38])) to [],
       node ''database'' [0x6570, 0x636e, 0x5e93] (if can then js_or (sys ''database'') (S ''unknown'') else S ''restricted'')
         (JStr (if can then (if strict_eq (sys ''database'') (S ''ok'') then [0x8fde, 0x63a5, 0x6b63, 0x5e38] else [0x9700, 0x8981, 0x68c0, 0x67e5]) else [0x6743, 0x9650, 0x53d7, 0x9650])) to [],
       node ''migration'' [0x8fc1, 0x79fb]
         (if can then (if strict_eq (sys ''migration_schema'') (S ''ok'') then S ''ok'' else S ''pending'') else S ''restricted'')
         (if can then js_or (sys ''latest_migration'') (JStr [0x7b49, 0x5f85, 0x68c0, 0x67e5]) else JStr [0x6743, 0x9650, 0x53d7, 0x9650]) to [],
       node ''jobs'' [0x4efb, 0x52a1, 0x961f, 0x5217] (if nonzero (sys ''pending_jobs'') then S ''pending'' else S ''ok'')
         (count (sys ''pending_jobs'') [32, 0x4e2a, 0x5f85, 0x5904, 0x7406]) ''/records'' [(''kind'', ''jobs''), (''status'', ''pending'')],
       node ''outbox'' (js ''Outbox'') (if nonzero (sys ''server_outbox'') then S ''pending'' else S ''ok'')
         (count (sys ''server_outbox'') [32, 0x4e2a, 0x5f85, 0x6295, 0x9012]) ''/records'' [(''kind'', ''outbox-events''), (''status'', ''pending'')],
       node ''dead'' [0x6b7b, 0x4fe1] (if nonzero dead then S ''error'' else S ''ok'')
         (count (js_coalesce (sys ''dead_letters'') (get_prop (attention s) (js ''dead_letters''))) [32, 0x4e2a])
         ''/records'' [(''kind'', ''outbox-events''), (''status'', ''dead'')]])"

record pipeline_step =
  ps_key :: string
  ps_label :: jstr
  ps_value :: jsval
  ps_hint :: jstr

definition first_given :: "jsval list \<Rightarrow> jsval" where
  "first_given vs = foldr (\<lambda>v rest. js_coalesce v rest) vs (N 0)"

definition pipelineSteps :: "dashboard_page \<Rightarrow> pipeline_step list" where
  "pipelineSteps s = (let p = (\<lambda>k. get_prop (pipeline s) (js k)); d = (\<lambda>k. get_prop (db_dashboard s) (js k));
       c = (\<lambda>k. get_prop (levelCounts s) (js k));
       step = (\<lambda>k l v h. \<lparr>ps_key = k, ps_label = l, ps_value = first_given v, ps_hint = h\<rparr>)
     in [step ''l0'' [76, 48, 32, 0x539f, 0x59cb, 0x8bb0, 0x5f55] [p ''raw_records'', d ''raw_records''] [0x53ef, 0x8ffd, 0x6eaf, 0x4e8b, 0x5b9e],
       step ''candidate'' [0x5019, 0x9009, 0x8bb0, 0x5fc6] [p ''candidates'', d ''candidates''] [0x7b49, 0x5f85, 0x6cbb, 0x7406],
       step ''l1'' [76, 49, 32, 0x9879, 0x76ee, 0x77e5, 0x8bc6] [p ''l1'', c ''L1'', c ''l1''] [0x5de5, 0x4f5c, 0x8bb0, 0x5fc6],
       step ''l2'' [76, 50, 32, 0x7a33, 0x5b9a, 0x77e5, 0x8bc6] [p ''l2'', c ''L2'', c ''l2''] [0x590d, 0x7528, 0x89c4, 0x5219],
       step ''l3'' [76, 51, 32, 0x9519, 0x8bef, 0x8bb0, 0x5fc6] [p ''l3'', c ''L3'', c ''l3''] [0x9632, 0x6b62, 0x91cd, 0x72af]])"

definition attentionCards :: "dashboard_page \<Rightarrow> dashboard_card list" where
  "attentionCards s = (let a = (\<lambda>k. get_prop (attention s) (js k)); d = (\<lambda>k. get_prop (dashboard_decision s) (js k));
       card = (\<lambda>k l v tone to q h. \<lparr>dc_key = k, dc_label = l, dc_status = S tone, dc_value = first_given v, dc_hint = h, dc_to = to, dc_query = q\<rparr>)
     in [
       card ''pending_candidates'' [0x5f85, 0x5ba1, 0x6838, 0x5019, 0x9009] [a ''pending_candidates''] ''warning'' ''/records''
         [(''kind'', ''candidates''), (''status'', ''pending'')] [0x786e, 0x8ba4, 0x662f, 0x5426, 0x8fdb, 0x5165, 0x6b63, 0x5f0f, 0x8bb0, 0x5fc6],
       card ''failed_jobs'' [0x5931, 0x8d25, 0x4efb, 0x52a1] [a ''failed_jobs''] ''danger'' ''/records''
         [(''kind'', ''jobs''), (''status'', ''failed'')] [0x67e5, 0x770b, 0x9519, 0x8bef, 0x5e76, 0x51b3, 0x5b9a, 0x540e, 0x7eed, 0x5904,
     0x7406],
       card ''dead_letters'' [0x6b7b, 0x4fe1, 0x4e8b, 0x4ef6] [a ''dead_letters'', get_prop (db_system s) (js ''dead_letters'')] ''danger'' ''/records''
         [(''kind'', ''outbox-events''), (''status'', ''dead'')] [0x5b9a, 0x4f4d, 0x65e0, 0x6cd5, 0x7ee7, 0x7eed, 0x6295, 0x9012, 0x7684, 0x4e8b,
     0x4ef6],
       card ''active_imports'' [0x6d3b, 0x8dc3, 0x5bfc, 0x5165] [a ''active_imports''] ''primary'' ''/imports''
         [(''status'', ''active'')] [0x8ddf, 0x8e2a, 0x4e0a, 0x4f20, 0x4e0e, 0x5904, 0x7406, 0x8fdb, 0x5ea6],
       card ''uncertain_task_runs'' [0x4e0d, 0x786e, 0x5b9a, 32, 84, 97, 115, 107, 82, 117, 110] [a ''uncertain_task_runs''] ''warning'' ''/task-runs''
         [(''uncertain'', ''true'')] [0x6838, 0x5bf9, 0x5f52, 0x56e0, 0x4e0e, 0x9a8c, 0x8bc1, 0x8bc1, 0x636e],
       card ''proposed_revisions'' [0x5f85, 0x53d1, 0x5e03, 32, 82, 101, 118, 105, 115, 105, 111, 110] [a ''proposed_revisions''] ''primary'' ''/contract-services''
         [(''status'', ''proposed'')] [0x6821, 0x9a8c, 0x901a, 0x8fc7, 0x540e, 0x518d, 0x53d1, 0x5e03],
       card ''decision_queue'' [0x5019, 0x9009, 0x51b3, 0x7b56, 0x961f, 0x5217] [d ''queued''] ''primary'' ''/records''
         [(''kind'', ''jobs''), (''status'', ''pending''), (''job_type'', ''decide_candidate'')] [0x7b49, 0x5f85, 0x6a21, 0x578b, 0x5efa, 0x8bae, 0x4e0e, 0x670d, 0x52a1, 0x5668,
     0x7b56, 0x7565, 0x95e8],
       card ''model_failures'' [0x6a21, 0x578b, 0x5931, 0x8d25] [d ''model_failures''] ''danger'' ''/records''
         [(''kind'', ''audit-events''), (''type'', ''candidate_model_failed'')] [0x5931, 0x8d25, 0x4f1a, 0x9000, 0x907f, 0xff0c, 0x8017, 0x5c3d, 0x540e, 0x8fdb,
     0x5165, 0x4eba, 0x5de5, 0x961f, 0x5217],
       card ''human_review_queue'' [0x4eba, 0x5de5, 0x51b3, 0x7b56, 0x961f, 0x5217] [d ''human_review_queue''] ''warning'' ''/records''
         [(''kind'', ''candidates''), (''status'', ''needs_review'')] [0x4eba, 0x5de5, 0x53ea, 0x80fd, 0x7ea0, 0x9519, 0x6216, 0x521b, 0x5efa, 0x66ff,
     0x4ee3, 0x7248, 0x672c],
       card ''stuck_jobs'' [0x5361, 0x6b7b, 0x4efb, 0x52a1] [d ''stuck_jobs''] ''danger'' ''/records''
         [(''kind'', ''jobs''), (''status'', ''running'')] [0x79df, 0x7ea6, 0x6216, 0x5fc3, 0x8df3, 0x8d85, 0x8fc7, 0x9608, 0x503c, 0x7684,
     0x4efb, 0x52a1]])"

section \<open>The load\<close>

text \<open>The answers are taken outside any \<open>try\<close>; a nullish value throws where it is read.\<close>

definition take_answer :: "jsval js \<Rightarrow> (jsval \<Rightarrow> dashboard_page \<Rightarrow> dashboard_page) \<Rightarrow> (jserror \<Rightarrow> dashboard_page \<Rightarrow> dashboard_page)
    \<Rightarrow> (dashboard_page, unit) task \<Rightarrow> (dashboard_page, unit) task" where
  "take_answer r store failed rest = (case r of
      Inr v \<Rightarrow> eval_js (get_or_throw v (js ''data'')) (\<lambda>d. Update (store d) rest)
    | Inl e \<Rightarrow> Update (failed e) rest)"

definition dashboard_answered :: "nat \<Rightarrow> jsval js list \<Rightarrow> (dashboard_page, unit) task" where
  "dashboard_answered n rs = Look (\<lambda>s. if n \<noteq> db_loadSequence s then return else (case rs of
      [dashboardResult, auditResult, systemResult] \<Rightarrow>
        take_answer dashboardResult (\<lambda>d s. s\<lparr>db_dashboard := js_or d (JObj [])\<rparr>) (\<lambda>e s. s\<lparr>db_error := Some e\<rparr>)
        (take_answer auditResult (\<lambda>d s. s\<lparr>db_audits := elems d\<rparr>) (\<lambda>e s. s)
        (take_answer systemResult (\<lambda>d s. s\<lparr>db_system := js_or d (JObj [])\<rparr>) (\<lambda>e s. s\<lparr>db_systemError := Some e\<rparr>)
        (Update (\<lambda>s. s\<lparr>db_loading := False, db_refreshing := False\<rparr>) return)))
    | _ \<Rightarrow> return))"

definition dashboard_requests :: "dashboard_page \<Rightarrow> bool \<Rightarrow> call list" where
  "dashboard_requests s can =
     [Get (js ''/dashboard'') (JObj (queryContext s)),
      Get (js ''/audit-events'') (JObj (put_all (queryContext s)
        [(js ''page'', N 1), (js ''page_size'', N 6), (js ''sort'', S ''created_at''), (js ''order'', S ''desc'')]))]
     @ (if can then [Get (js ''/system/status'') (JObj (queryContext s))] else [])"

definition dashboard_begun :: "bool \<Rightarrow> dashboard_page \<Rightarrow> dashboard_page" where
  "dashboard_begun manual s =
     (if manual then s\<lparr>db_refreshing := True\<rparr> else if entries (db_dashboard s) = [] then s\<lparr>db_loading := True\<rparr> else s)
       \<lparr>db_loadSequence := Suc (db_loadSequence s), db_error := None, db_systemError := None\<rparr>"

definition dashboard_load :: "bool \<Rightarrow> (dashboard_page, unit) task" where
  "dashboard_load manual = Update (dashboard_begun manual) (Look (\<lambda>s. let n = db_loadSequence s in
     eval_js (canReadSystem s) (\<lambda>can. Await (AllSettled (dashboard_requests s can)) (\<lambda>a.
       dashboard_answered n (results a @ (if can then [] else [Inr (JObj [(js ''data'', JObj [])])]))))))"

definition dashboard_open :: "string \<Rightarrow> props \<Rightarrow> dashboard_page \<Rightarrow> dashboard_page" where
  "dashboard_open target extra s = (if target = [] then s
     else s\<lparr>db_pushed := db_pushed s @ [JObj [(js ''path'', S target), (js ''query'', JObj (put_all (queryContext s) extra))]]\<rparr>)"

section \<open>The page\<close>

definition dashboard_routeChanged :: "jsval \<Rightarrow> (dashboard_page, unit) task" where
  "dashboard_routeChanged q = Look (\<lambda>s. Update (\<lambda>s. s\<lparr>db_route_key := q\<rparr>)
     (if strict_eq q (db_route_key s) then return else dashboard_load False))"

definition dashboard_init :: "dashboard_page \<Rightarrow> (dashboard_page, unit) task list \<Rightarrow> bool" where
  "dashboard_init s ts \<longleftrightarrow> (\<exists>q ss t. segment (dashboard_load False) (dashboard_initial q ss) = (s, t) \<and> ts = [t])"

inductive dashboard_handler :: "(dashboard_page, unit) task \<Rightarrow> bool" where
  "dashboard_handler (dashboard_load True)"
| "dashboard_handler (vr_run (dashboard_load False) (\<lambda>s. s\<lparr>db_lastUpdatedAt := now\<rparr>))"
| "dashboard_handler (dashboard_routeChanged q)"
| "dashboard_handler (Update (dashboard_open target extra) return)"
| "dashboard_handler (Update (\<lambda>s. s\<lparr>db_session := ss\<rparr>) return)"

end
