(* ===== verification/DashboardLaws.thy ===== *)
theory DashboardLaws imports DashboardPage RouterGuard RecordsPage SystemPage begin

text \<open>
  The overview: overlapping loads, the answer that leaves it loading, and where its cards lead.
\<close>

section \<open>Overlapping loads\<close>

definition good_answers :: "jsval \<Rightarrow> jsval \<Rightarrow> jsval \<Rightarrow> jsval js list" where
  "good_answers d a y = map (\<lambda>v. Inr (JObj [(js ''data'', v)])) [d, a, y]"

text \<open>Of overlapping loads the newest wins: the answers to an older one change nothing, whatever they are, and
  the answers to the newest show the overview, the audit events and the system of that load and end it.\<close>

theorem dashboard_latest_wins:
  assumes "n \<noteq> db_loadSequence s"
  shows "segment (dashboard_answered n rs) s = (s, return)
    \<and> segment (dashboard_answered (db_loadSequence s) (good_answers d a y)) s =
      (s\<lparr>db_dashboard := js_or d (JObj []), db_audits := elems a, db_system := js_or y (JObj []), db_loading := False, db_refreshing := False\<rparr>, return)"
  using assms by (simp add: dashboard_answered_def good_answers_def take_answer_def eval_js_def)

definition plain_session :: session where
  "plain_session = \<lparr>token = js ''t'', me = JObj [(js ''permissions'', JArr [S ''read''])], restored = True, restoring = False, restoreError = None\<rparr>"

theorem dashboard_latest_wins_witness:
  "segment (dashboard_answered 1 []) (dashboard_initial JUndef plain_session) = (dashboard_initial JUndef plain_session, return)"
  using dashboard_latest_wins [of 1 "dashboard_initial JUndef plain_session" "[]"] by (simp add: dashboard_initial_def)

text \<open>The answers are taken outside any \<open>try\<close>: when the overview answers the JSON value \<open>null\<close>, the handler throws
  before it clears its flag.  There is a run at whose end nothing is pending and the overview is still loading.\<close>

theorem dashboard_left_loading:
  "\<exists>s ts. page_run dashboard_init dashboard_handler s ts \<and> filter is_pending ts = [] \<and> db_loading s"
proof -
  let ?i = "dashboard_begun False (dashboard_initial JUndef plain_session)"
  have can: "canReadSystem ?i = Inr False"
    by (simp add: canReadSystem_def dashboard_begun_def dashboard_initial_def plain_session_def isAdmin_def hasPermission_def permissions_of_def
        opt_includes_def)
  let ?k = "\<lambda>a. dashboard_answered 1 (results a @ [Inr (JObj [(js ''data'', JObj [])])])"
  have "segment (dashboard_load False) (dashboard_initial JUndef plain_session) = (?i, Await (AllSettled (dashboard_requests ?i False)) ?k)"
    using can by (simp add: dashboard_load_def eval_js_def Let_def) (simp add: dashboard_begun_def dashboard_initial_def)
  then have r0: "page_run dashboard_init dashboard_handler ?i ([] @ [Await (AllSettled (dashboard_requests ?i False)) ?k])"
    by (intro page_run.mount) (auto simp: dashboard_init_def)
  have seq: "db_loadSequence ?i = 1" by (simp add: dashboard_begun_def dashboard_initial_def)
  have "page_run dashboard_init dashboard_handler ?i ([] @ [throw TypeError])"
    by (rule answer_last [OF r0, where a = "Results [Inr JNull, Inr JNull]"])
      (simp_all add: dashboard_requests_def dashboard_answered_def take_answer_def eval_js_def seq)
  moreover have "db_loading ?i" by (simp add: dashboard_begun_def dashboard_initial_def)
  ultimately show ?thesis by (intro exI conjI) (assumption, simp_all)
qed

section \<open>Where the cards lead\<close>

lemma can_read_array:
  assumes "permissions_of (db_session s) = JArr ps"
  shows "canReadSystem s = Inr (S ''admin'' \<in> set ps \<or> S ''operations_read'' \<in> set ps)"
  using assms by (auto simp: canReadSystem_def isAdmin_def hasPermission_def opt_includes_def)
lemma links_table:
  "map (\<lambda>c. dc_to c) (attentionCards s) = [''/records'', ''/records'', ''/records'', ''/imports'', ''/task-runs'', ''/contract-services'',
     ''/records'', ''/records'', ''/records'', ''/records'']"
  by (simp add: attentionCards_def Let_def)

lemma pulse_table:
  assumes "pulse s = Inr nodes" "canReadSystem s = Inr can"
  shows "map (\<lambda>c. dc_to c) nodes = (let t = if can then ''/system-status'' else [] in [t, t, t, ''/records'', ''/records'', ''/records''])"
  using assms(1) unfolding pulse_def assms(2) by (simp add: Let_def) (drule sym, simp)

lemma pulse_links:
  assumes "pulse s = Inr nodes" "canReadSystem s = Inr can" "c \<in> set nodes"
  shows "dc_to c = ''/records'' \<or> dc_to c = [] \<or> (can \<and> dc_to c = ''/system-status'')"
proof -
  have "dc_to c \<in> set (map (\<lambda>c. dc_to c) nodes)" using assms(3) by simp
  then show ?thesis unfolding pulse_table [OF assms(1,2)] by (auto simp: Let_def split: if_splits)
qed

text \<open>The route of a page a card may lead to.\<close>

definition reader_page :: "string \<Rightarrow> bool" where
  "reader_page t \<longleftrightarrow> (case destination (js t) of Some r \<Rightarrow> r_requiresAuth r \<and> r_permission r = Some (js ''read'') \<and> r_anyPermissions r = None
     | None \<Rightarrow> False)"

lemma reader_pages: "list_all reader_page [''/records'', ''/imports'', ''/task-runs'', ''/contract-services'']"
  by (simp add: reader_page_def destination_def routes_def)

lemma system_destination: "\<exists>r. destination (js ''/system-status'') = Some r \<and> r_requiresAuth r \<and> r_permission r = None
    \<and> r_anyPermissions r = Some [js ''admin'', js ''operations_read'']"
  by (simp add: destination_def routes_def)

lemma reader_admitted:
  assumes "permissions_of ss = JArr ps" "S ''read'' \<in> set ps \<or> S ''admin'' \<in> set ps" "reader_page t"
  shows "\<exists>r. destination (js t) = Some r \<and> r_requiresAuth r \<and> (\<forall>to. to_route to = r \<longrightarrow> check_permissions to ss = Inr Proceed)"
  using assms by (auto simp: reader_page_def check_permissions_array [OF assms(1)] split: option.splits)

text \<open>For a user who may read, every link of the overview leads to a page of the route table that the guard lets
  him enter; a node of the health line without such a page has no link.\<close>

theorem dashboard_links_admitted:
  assumes "permissions_of (db_session s) = JArr ps" "S ''read'' \<in> set ps \<or> S ''admin'' \<in> set ps"
    and "pulse s = Inr nodes" "c \<in> set nodes \<union> set (attentionCards s)" "dc_to c \<noteq> []"
  shows "\<exists>r. destination (js (dc_to c)) = Some r \<and> r_requiresAuth r
    \<and> (\<forall>to. to_route to = r \<longrightarrow> check_permissions to (db_session s) = Inr Proceed)"
proof (cases "reader_page (dc_to c)")
  case True
  then show ?thesis using reader_admitted [OF assms(1,2)] by blast
next
  case False
  have "dc_to c \<in> set (map (\<lambda>c. dc_to c) (attentionCards s))" if "c \<in> set (attentionCards s)" using that by simp
  then have "c \<notin> set (attentionCards s)" using False reader_pages unfolding links_table by auto
  then have "c \<in> set nodes" using assms(4) by simp
  then have sys: "dc_to c = ''/system-status''" "S ''admin'' \<in> set ps \<or> S ''operations_read'' \<in> set ps"
    using pulse_links [OF assms(3) can_read_array [OF assms(1)] \<open>c \<in> set nodes\<close>] assms(5) False reader_pages by auto
  then show ?thesis
    using system_destination by (auto simp: check_permissions_array [OF assms(1)])
qed

theorem dashboard_links_admitted_witness:
  "\<exists>r. destination (js ''/task-runs'') = Some r \<and> r_requiresAuth r"
proof -
  let ?s = "dashboard_initial JUndef plain_session"
  have p: "permissions_of (db_session ?s) = JArr [S ''read'']" by (simp add: dashboard_initial_def plain_session_def permissions_of_def)
  obtain nodes where nodes: "pulse ?s = Inr nodes" by (simp add: pulse_def can_read_array [OF p])
  have "''/task-runs'' \<in> set (map (\<lambda>c. dc_to c) (attentionCards ?s))" unfolding links_table by simp
  then obtain c where "c \<in> set (attentionCards ?s)" "dc_to c = ''/task-runs''" by auto
  then show ?thesis using dashboard_links_admitted [OF p _ nodes, of c] by auto
qed

section \<open>What becomes of the filters of a link\<close>

definition link_filters :: "(string \<times> string) list \<Rightarrow> props" where
  "link_filters q = rq_parse records_defaults records_numeric (map (\<lambda>(k, v). (js k, S v)) q)"

definition decision_query :: "(string \<times> string) list" where
  "decision_query = [(''kind'', ''jobs''), (''status'', ''pending''), (''job_type'', ''decide_candidate'')]"

lemma card_queries:
  "map (\<lambda>c. dc_query c) (attentionCards s) = [[(''kind'', ''candidates''), (''status'', ''pending'')], [(''kind'', ''jobs''), (''status'', ''failed'')],
     [(''kind'', ''outbox-events''), (''status'', ''dead'')], [(''status'', ''active'')], [(''uncertain'', ''true'')], [(''status'', ''proposed'')],
     decision_query, [(''kind'', ''audit-events''), (''type'', ''candidate_model_failed'')], [(''kind'', ''candidates''), (''status'', ''needs_review'')],
     [(''kind'', ''jobs''), (''status'', ''running'')]]"
  by (simp add: attentionCards_def Let_def decision_query_def)

lemma check_queries:
  assumes "system_checks host y = Inr checks"
  shows "map (\<lambda>h. hc_query h) checks = [[], [], [], [(''kind'', ''jobs''), (''status'', ''pending'')], [(''kind'', ''outbox-events''), (''status'', ''pending'')],
     [(''kind'', ''outbox-events''), (''status'', ''dead'')], decision_query, [(''kind'', ''candidates''), (''status'', ''needs_review'')]]"
proof -
  obtain d where "readable_json host (js_or (sy_field y ''dialect'') (JStr [0x672a, 0x77e5])) = Inr d"
    using assms by (cases "readable_json host (js_or (sy_field y ''dialect'') (JStr [0x672a, 0x77e5]))") (simp_all add: system_checks_def)
  then show ?thesis using assms by (simp add: system_checks_def Let_def decision_query_def) (drule sym, simp)
qed

lemma job_type_links:
  "c \<in> set (attentionCards s) \<Longrightarrow> (''job_type'', v) \<in> set (dc_query c) \<Longrightarrow> dc_query c = decision_query"
  "system_checks host y = Inr checks \<Longrightarrow> h \<in> set checks \<Longrightarrow> (''job_type'', w) \<in> set (hc_query h) \<Longrightarrow> hc_query h = decision_query"
proof -
  have "dc_query c \<in> set (map (\<lambda>c. dc_query c) (attentionCards s))" if "c \<in> set (attentionCards s)" using that by simp
  then show "c \<in> set (attentionCards s) \<Longrightarrow> (''job_type'', v) \<in> set (dc_query c) \<Longrightarrow> dc_query c = decision_query"
    unfolding card_queries by auto
  have "hc_query h \<in> set (map (\<lambda>h. hc_query h) checks)" if "h \<in> set checks" using that by simp
  then show "system_checks host y = Inr checks \<Longrightarrow> h \<in> set checks \<Longrightarrow> (''job_type'', w) \<in> set (hc_query h) \<Longrightarrow> hc_query h = decision_query"
    using check_queries by auto
qed

lemma decision_filter:
  assumes "map_of records_defaults (js k) = Some d" "map_of (map (\<lambda>(k, v). (js k, S v)) decision_query) (js k) = v" "plain_key (js k)" "js k \<notin> set records_numeric"
  shows "lookup_prop (link_filters decision_query) (js k) = (case v of Some w \<Rightarrow> JStr (to_string w) | None \<Rightarrow> d) \<or> v = Some JUndef"
proof -
  have "distinct (map fst records_defaults)" by (simp add: records_defaults_def)
  note look = rq_parse_lookup [OF this assms(1), of records_numeric "map (\<lambda>(k, v). (js k, S v)) decision_query"]
  show ?thesis
    using assms(2-4) unfolding link_filters_def look by (cases v) (auto simp: rq_value_def lookup_prop_some lookup_prop_none)
qed

lemma decision_params:
  "lookup_prop (buildParams host (link_filters decision_query)) (js ''job_type'') = S ''''
   \<and> lookup_prop (buildParams host (link_filters decision_query)) (js ''status'') = S ''pending''"
proof -
  have kind: "lookup_prop (link_filters decision_query) (js ''kind'') = S ''jobs''"
    using decision_filter [OF _ refl, of "''kind''" "S ''candidates''"] by (simp add: records_defaults_def records_numeric_def decision_query_def)
  have type: "lookup_prop (link_filters decision_query) (js ''type'') = S ''''"
    using decision_filter [OF _ refl, of "''type''" "S ''''"] by (simp add: records_defaults_def records_numeric_def decision_query_def)
  have status: "lookup_prop (link_filters decision_query) (js ''status'') = S ''pending''"
    using decision_filter [OF _ refl, of "''status''" "S ''''"] by (simp add: records_defaults_def records_numeric_def decision_query_def)
  show ?thesis using kind type status by (simp add: buildParams_def add_params_def kind_in_def Let_def)
qed

text \<open>The cards of the decision queue, on the overview and on the system page, count the jobs of one type and link to
  the ledger with \<open>job_type\<close> in the query, but the ledger has no filter of that name: the request it sends from such a link
  asks for all pending jobs, with an empty \<open>job_type\<close>.\<close>

theorem decision_link_ignored:
  assumes "c \<in> set (attentionCards s)" "(''job_type'', v) \<in> set (dc_query c)"
    and "system_checks host y = Inr checks" "h \<in> set checks" "(''job_type'', w) \<in> set (hc_query h)"
  shows "lookup_prop (buildParams host (link_filters (dc_query c))) (js ''job_type'') = S ''''
    \<and> lookup_prop (buildParams host (link_filters (hc_query h))) (js ''job_type'') = S ''''
    \<and> lookup_prop (buildParams host (link_filters (dc_query c))) (js ''status'') = S ''pending''"
  using job_type_links(1) [OF assms(1,2)] job_type_links(2) [OF assms(3,4,5)] decision_params by simp

definition sample_host :: intl where
  "sample_host = \<lparr>parse_date = \<lambda>v. None, print_date = \<lambda>b i. [], date_string = \<lambda>d. [], print_number = \<lambda>b n. []\<rparr>"

theorem decision_link_ignored_witness:
  "lookup_prop (buildParams sample_host (link_filters decision_query)) (js ''job_type'') = S ''''"
proof -
  let ?s = "dashboard_initial JUndef plain_session" and ?y = "system_initial JUndef JUndef JUndef"
  have "decision_query \<in> set (map (\<lambda>c. dc_query c) (attentionCards ?s))" unfolding card_queries by simp
  then obtain c where c: "c \<in> set (attentionCards ?s)" "dc_query c = decision_query" by auto
  have "isl (readable_json sample_host (js_or (sy_field ?y ''dialect'') (JStr [0x672a, 0x77e5]))) = False" by code_simp
  then obtain checks where checks: "system_checks sample_host ?y = Inr checks"
    by (cases "readable_json sample_host (js_or (sy_field ?y ''dialect'') (JStr [0x672a, 0x77e5]))") (simp_all add: system_checks_def Let_def)
  have "decision_query \<in> set (map (\<lambda>h. hc_query h) checks)" unfolding check_queries [OF checks] by simp
  then obtain h where "h \<in> set checks" "hc_query h = decision_query" by auto
  then show ?thesis
    using decision_link_ignored [OF c(1) _ checks, of "''decide_candidate''" h "''decide_candidate''"] c(2) by (simp add: decision_query_def)
qed

end
