(* ===== verification/LoginPage.thy ===== *)
theory LoginPage imports PageCommon RouterGuard begin

text \<open>
  \<open>views/LoginView.vue\<close>: the login form.  It works on the session store: the token is set, the identity is
  restored, and the user goes back to where he came from; whatever fails, the session is closed again.
\<close>

section \<open>The form\<close>

record login_page =
  lf_username :: jstr
  lf_password :: jstr
  lf_loading :: bool
  lf_error :: "jserror option"
  lf_query :: props
  lf_world :: session_world

definition login_initial :: "props \<Rightarrow> session_world \<Rightarrow> login_page" where
  "login_initial q w = \<lparr>lf_username = [], lf_password = [], lf_loading = False, lf_error = None, lf_query = q, lf_world = w\<rparr>"

definition msg_login_incomplete :: jstr where
  "msg_login_incomplete = [0x8bf7, 0x8f93, 0x5165, 0x7528, 0x6237, 0x540d, 0x548c, 0x5bc6, 0x7801, 0x3002]"

definition login_token :: "jsval \<Rightarrow> login_page \<Rightarrow> login_page" where
  "login_token v s = s\<lparr>lf_world := setToken v (lf_world s)\<rparr>"

definition login_failed :: "jserror \<Rightarrow> login_page \<Rightarrow> login_page" where
  "login_failed e s = s\<lparr>lf_world := logout (lf_world s), lf_error := Some e\<rparr>"

definition login_submit :: "(login_page, unit) task" where
  "login_submit = Look (\<lambda>s.
     if lf_loading s then return
     else if trim (lf_username s) = [] \<or> lf_password s = [] then Update (\<lambda>s. s\<lparr>lf_error := Some (PlainError msg_login_incomplete)\<rparr>) return
     else Update (\<lambda>s. s\<lparr>lf_loading := True, lf_error := None\<rparr>) (try_finally (try_catch
       (await_call (Login (trim (lf_username s)) (lf_password s)) (\<lambda>result.
        eval_js (get_or_throw result (js ''access_token'')) (\<lambda>t.
        Update (login_token t)
        (await_call (StoreAction ''ensureSession'' (JBool True)) (\<lambda>r. Look (\<lambda>s.
        await_call (Replace (JStr (safeRedirect (lf_query s)))) (\<lambda>r. return)))))))
       (\<lambda>cause. Update (login_failed cause) return))
       (\<lambda>s. s\<lparr>lf_loading := False\<rparr>)))"

definition login_init :: "login_page \<Rightarrow> (login_page, unit) task list \<Rightarrow> bool" where
  "login_init s ts \<longleftrightarrow> ts = [] \<and> (\<exists>q w. s = login_initial q w)"

text \<open>The session store goes on by itself; any step of it may happen in between.\<close>

inductive login_handler :: "(login_page, unit) task \<Rightarrow> bool" where
  "login_handler login_submit"
| "login_handler (Update (\<lambda>s. s\<lparr>lf_username := u, lf_password := p\<rparr>) return)"
| "login_handler (Update (\<lambda>s. s\<lparr>lf_query := q\<rparr>) return)"
| "login_handler (Update (\<lambda>s. case run_action a (lf_world s) of Some w \<Rightarrow> s\<lparr>lf_world := w\<rparr> | None \<Rightarrow> s) return)"

section \<open>One login at a time\<close>

definition logs_in :: "call \<Rightarrow> bool" where
  "logs_in c = (case c of Login u p \<Rightarrow> True | _ \<Rightarrow> False)"

lemma logs_in_simps [simp]: "logs_in (Login u p)" "\<not> logs_in (StoreAction n v)" "\<not> logs_in (Replace q)" "\<not> logs_in Tick"
  by (simp_all add: logs_in_def)

lemma submit_disciplined: "lock_ok lf_loading logs_in login_submit False s"
  by (auto simp: login_submit_def await_call_def eval_js_def login_token_def login_failed_def
      intro!: lock_ok_release task_intro split: sum.split)

interpretation login_lock: locked_page login_init login_handler lf_loading logs_in
proof
  show "\<not> lf_loading s \<and> (\<forall>t \<in> set ts. neutral lf_loading logs_in t)" if "login_init s ts" for s ts
    using that by (auto simp: login_init_def login_initial_def)
  show "lock_ok lf_loading logs_in t False s" if "login_handler t" for t s
    using that by cases (auto intro!: neutral_lock_ok task_intro submit_disciplined split: option.split)
qed

text \<open>However often the form is sent, at most one login is on its way, and the form is free again when nothing is pending.\<close>

theorem one_login:
  assumes "page_run login_init login_handler s ts"
  shows "length (filter (awaits logs_in) ts) \<le> (if lf_loading s then 1 else 0)
    \<and> ((\<forall>t \<in> set ts. \<not> is_pending t) \<longrightarrow> \<not> lf_loading s)"
  using login_lock.one_critical [OF assms] login_lock.unlocked [OF assms] by blast

section \<open>The outcome\<close>

text \<open>C18. Sending a complete form ends in one of two ways, whatever the service answers.  Either the three steps
  succeed in their order (the login, the restoration, the navigation to the safe return address) and the token that was
  answered is the one of the session; or the form shows the failure and the session is closed, without a token in the
  store or in the storage.  In both the form is free again.\<close>

theorem login_outcome:
  assumes "\<not> lf_loading s" "trim (lf_username s) \<noteq> []" "lf_password s \<noteq> []" "exec login_submit srv [] s = (r, calls, s')"
  shows "r = Inr () \<and> \<not> lf_loading s'
    \<and> (case lf_error s' of
        None \<Rightarrow> calls = [Login (trim (lf_username s)) (lf_password s), StoreAction ''ensureSession'' (JBool True),
            Replace (JStr (safeRedirect (lf_query s)))]
          \<and> (\<exists>v. returned (srv [] (hd calls)) = Inr v \<and> token (session (lf_world s')) = trim (text_or_empty (get_prop v (js ''access_token''))))
      | Some e \<Rightarrow> lf_world s' = logout (lf_world s') \<and> token (session (lf_world s')) = [] \<and> me (session (lf_world s')) = JNull)"
proof -
  let ?login = "Login (trim (lf_username s)) (lf_password s)"
  have idem: "logout (logout w) = logout w" for w
    by (cases "disk w") (simp_all add: logout_def writeStorage_def fun_upd_twist [of ME_KEY TOKEN_KEY])
  have cleared: "token (session (logout w)) = []" "me (session (logout w)) = JNull" for w by (simp_all add: logout_def)
  show ?thesis
    using assms unfolding login_submit_def
    by (auto simp: exec_simps login_token_def login_failed_def setToken_def Let_def idem cleared get_or_throw_def split: sum.splits prod.splits if_splits)
qed

theorem login_outcome_witness:
  "\<exists>calls s'. exec login_submit (constant_server (Inl TypeError)) []
       ((login_initial [] (initial_world None))\<lparr>lf_username := js ''u'', lf_password := js ''p''\<rparr>) = (Inr (), calls, s')
     \<and> token (session (lf_world s')) = [] \<and> \<not> lf_loading s'"
proof -
  let ?s = "(login_initial [] (initial_world None))\<lparr>lf_username := js ''u'', lf_password := js ''p''\<rparr>"
  obtain r calls s' where run: "exec login_submit (constant_server (Inl TypeError)) [] ?s = (r, calls, s')" by (metis prod_cases3)
  have s: "\<not> lf_loading ?s" "trim (lf_username ?s) \<noteq> []" "lf_password ?s \<noteq> []"
    by (simp_all add: login_initial_def js_def trim_def is_space_def)
  have "lf_error s' \<noteq> None" using run s by (auto simp: login_submit_def exec_simps login_failed_def)
  then show ?thesis using login_outcome [OF s run] run by auto
qed

theorem one_login_witness:
  "\<exists>s ts. page_run login_init login_handler s ts \<and> length (filter (awaits logs_in) ts) = 1 \<and> lf_loading s"
proof -
  let ?i = "login_initial [] (initial_world None)"
  let ?s = "?i\<lparr>lf_username := js ''u'', lf_password := js ''p''\<rparr>"
  have r0: "page_run login_init login_handler ?i []" by (rule page_run.mount) (auto simp: login_init_def)
  have r1: "page_run login_init login_handler ?s ([] @ [return])"
    by (rule page_run.event [OF r0 login_handler.intros(2) [where u = "js ''u''" and p = "js ''p''"]]) simp
  obtain k where "segment login_submit ?s = (?s\<lparr>lf_loading := True, lf_error := None\<rparr>, Await (Login (js ''u'') (js ''p'')) k)"
    by (simp add: login_submit_def login_initial_def await_call_def js_def trim_def is_space_def)
  from page_run.event [OF r1 login_handler.intros(1) this] have r2: "page_run login_init login_handler
      (?s\<lparr>lf_loading := True, lf_error := None\<rparr>) [return, Await (Login (js ''u'') (js ''p'')) k]" by simp
  from one_login [OF r2] r2 show ?thesis by (intro exI conjI) (assumption, simp_all)
qed

end
