(* ===== verification/AppShell.thy ===== *)
theory AppShell imports PageCommon RouterGuard ContextStore begin

text \<open>
  \<open>App.vue\<close>: the frame around every page.  It keeps the context store in step with the address, lets the user
  choose project and scope, ends the session, and folds the side bar.  Focus and other effects on the document are left out.
\<close>

section \<open>State\<close>

text \<open>\<open>ap_navigations\<close> collects the navigations that are not awaited; \<open>ap_sidebar\<close> is a cell of the local storage.\<close>

record app_shell =
  ap_path :: jstr
  ap_fullPath :: jstr
  ap_name :: jstr
  ap_meta :: props
  ap_query :: props
  ap_world :: session_world
  ap_ctx :: context_state
  ap_sessionError :: jsval
  ap_collapsed :: bool
  ap_mobileOpen :: bool
  ap_isMobile :: bool
  ap_sidebar :: "jstr option"
  ap_navigations :: "jsval list"

definition app_initial :: "app_shell \<Rightarrow> app_shell" where
  "app_initial s = s\<lparr>ap_sessionError := JNull, ap_collapsed := (ap_sidebar s = Some (js ''1'')), ap_mobileOpen := False,
     ap_isMobile := False, ap_navigations := []\<rparr>"

section \<open>Computed values\<close>

definition app_title :: "app_shell \<Rightarrow> jsval" where
  "app_title s = js_or (lookup_prop (ap_meta s) (js ''label'')) (JStr [67, 111, 100, 101, 120, 32, 77, 101, 109, 111, 114, 121, 32, 0x7ba1, 0x7406, 0x540e,
     0x53f0])"

definition app_section :: "app_shell \<Rightarrow> jsval" where
  "app_section s = js_or (lookup_prop (ap_meta s) (js ''section'')) (JStr [0x7ba1, 0x7406, 0x63a7, 0x5236, 0x53f0])"

definition activeMenu :: "app_shell \<Rightarrow> jsval" where
  "activeMenu s = js_or (lookup_prop (ap_meta s) (js ''activeMenu'')) (JStr (ap_path s))"

definition barePage :: "app_shell \<Rightarrow> bool" where
  "barePage s \<longleftrightarrow> ap_name s = js ''login'' \<or> (ap_name s = js ''not-found'' \<and> token (session (ap_world s)) = [])"

definition contextQuery :: "app_shell \<Rightarrow> props" where
  "contextQuery s = (if projectKey (ap_ctx s) \<noteq> [] then [(js ''project_key'', JStr (projectKey (ap_ctx s)))] else [])
     @ (if scopeId (ap_ctx s) \<noteq> [] then [(js ''scope_id'', JStr (scopeId (ap_ctx s)))] else [])"

section \<open>The side bar\<close>

definition updateViewport :: "int \<Rightarrow> app_shell \<Rightarrow> app_shell" where
  "updateViewport width s = s\<lparr>ap_isMobile := (width < 768), ap_mobileOpen := (ap_mobileOpen s \<and> width < 768)\<rparr>"

definition toggleSidebar :: "app_shell \<Rightarrow> app_shell" where
  "toggleSidebar s = (if ap_isMobile s then s\<lparr>ap_mobileOpen := \<not> ap_mobileOpen s\<rparr>
     else s\<lparr>ap_collapsed := \<not> ap_collapsed s, ap_sidebar := Some (if \<not> ap_collapsed s then js ''1'' else js ''0'')\<rparr>)"

definition closeMobileNavigation :: "app_shell \<Rightarrow> app_shell" where
  "closeMobileNavigation s = (if \<not> ap_mobileOpen s then s else s\<lparr>ap_mobileOpen := False\<rparr>)"

definition handleKeydown :: "jstr \<Rightarrow> app_shell \<Rightarrow> app_shell" where
  "handleKeydown key s = (if key = js ''Escape'' \<and> ap_mobileOpen s then closeMobileNavigation s else s)"

section \<open>The actions of the context store\<close>

text \<open>An action is the store's own synchronous part, and, if it opens a request, the store's handling of the answer.\<close>

definition store_action :: "(context_world \<Rightarrow> context_world) \<Rightarrow> jsval \<Rightarrow> (app_shell, unit) task" where
  "store_action act params = Look (\<lambda>s. let w = act \<lparr>ctx = ap_ctx s, loads = []\<rparr> in
     Update (\<lambda>s. s\<lparr>ap_ctx := ctx w\<rparr>) (case loads w of
        [] \<Rightarrow> return
      | (l, open1) # rest \<Rightarrow> (case load_path l of
          Inl e \<Rightarrow> return
        | Inr p \<Rightarrow> Await (Get p params) (\<lambda>a. Update (\<lambda>s. s\<lparr>ap_ctx := settle_load l (returned a) (ap_ctx s)\<rparr>) return))))"

definition app_loadProjects :: "(app_shell, unit) task" where
  "app_loadProjects = store_action (loadProjects False) projects_params"

definition app_selectProject :: "jsval \<Rightarrow> (app_shell, unit) task" where
  "app_selectProject v = store_action (selectProject v False) scopes_params"

definition app_selectScope :: "jsval \<Rightarrow> app_shell \<Rightarrow> app_shell" where
  "app_selectScope v s = s\<lparr>ap_ctx := ctx (selectScope v \<lparr>ctx = ap_ctx s, loads = []\<rparr>)\<rparr>"

section \<open>Context and address\<close>

definition app_me :: "app_shell \<Rightarrow> jsval" where "app_me s = me (session (ap_world s))"

definition principal_project :: "jsval \<Rightarrow> jsval js" where
  "principal_project m = andThen (get_or_throw m (js ''project_key'')) (\<lambda>k.
     Inr (if truthy k \<and> \<not> strict_eq k (S ''*'') then k else S ''''))"

definition wanted_project :: "props \<Rightarrow> jsval \<Rightarrow> jstr" where
  "wanted_project q p = to_string (js_or (js_or (lookup_prop q (js ''project_key'')) p) (S ''''))"

definition hydrateContext :: "(app_shell, unit) task" where
  "hydrateContext = Look (\<lambda>s. if \<not> truthy (app_me s) then return
     else await_task app_loadProjects (\<lambda>r. Look (\<lambda>s. eval_js (principal_project (app_me s)) (\<lambda>p.
       let key = wanted_project (ap_query s) p;
           scope = Look (\<lambda>s. let v = lookup_prop (ap_query s) (js ''scope_id'') in
             Update (\<lambda>s. if truthy v then app_selectScope v s else s) return)
       in if key \<noteq> [] then await_task (app_selectProject (JStr key)) (\<lambda>r. scope) else scope))))"

definition wanted_scope :: "props \<Rightarrow> jstr" where
  "wanted_scope q = to_string (js_or (lookup_prop q (js ''scope_id'')) (S ''''))"

definition syncContextFromRoute :: "(app_shell, unit) task" where
  "syncContextFromRoute = Look (\<lambda>s. if \<not> truthy (app_me s) then return
     else eval_js (principal_project (app_me s)) (\<lambda>p.
       let next' = wanted_project (ap_query s) p;
           scope = Look (\<lambda>s. let v = wanted_scope (ap_query s) in
             Update (\<lambda>s. if v \<noteq> scopeId (ap_ctx s) then app_selectScope (JStr v) s else s) return)
       in if next' \<noteq> projectKey (ap_ctx s) then await_task (app_selectProject (JStr next')) (\<lambda>r. scope) else scope))"

definition or_undefined :: "jsval \<Rightarrow> jsval" where
  "or_undefined v = js_or v JUndef"

definition app_changeProject :: "jsval \<Rightarrow> (app_shell, unit) task" where
  "app_changeProject v = await_task (app_selectProject v) (\<lambda>r. Look (\<lambda>s.
     await_call (Replace (JObj [(js ''path'', JStr (ap_path s)), (js ''query'', JObj (put_all (ap_query s)
       [(js ''project_key'', or_undefined v), (js ''scope_id'', JUndef), (js ''page'', JUndef), (js ''detail'', JUndef)]))])) (\<lambda>r. return)))"

definition app_changeScope :: "jsval \<Rightarrow> (app_shell, unit) task" where
  "app_changeScope v = Update (app_selectScope v) (Look (\<lambda>s.
     await_call (Replace (JObj [(js ''path'', JStr (ap_path s)), (js ''query'', JObj (put_all (ap_query s)
       [(js ''scope_id'', or_undefined v), (js ''page'', JUndef), (js ''detail'', JUndef)]))])) (\<lambda>r. return)))"

definition app_navigate :: "nav_item \<Rightarrow> app_shell \<Rightarrow> app_shell" where
  "app_navigate item s = s\<lparr>ap_navigations := ap_navigations s @
     [JObj [(js ''path'', JStr (nav_to item)), (js ''query'', JObj (contextQuery s))]]\<rparr>"

section \<open>The end of a session\<close>

definition context_reset :: "context_state \<Rightarrow> context_state" where
  "context_reset c = ctx (reset \<lparr>ctx = c, loads = []\<rparr>)"

definition to_login :: "props \<Rightarrow> app_shell \<Rightarrow> jsval" where
  "to_login extra s = JObj [(js ''name'', S ''login''), (js ''query'', JObj ((js ''redirect'', JStr (ap_fullPath s)) # extra))]"

definition app_logout :: "app_shell \<Rightarrow> app_shell" where
  "app_logout s = s\<lparr>ap_world := logout (ap_world s), ap_ctx := context_reset (ap_ctx s),
     ap_navigations := ap_navigations s @ [to_login [] s]\<rparr>"

definition handleUnauthorized :: "jsval \<Rightarrow> app_shell \<Rightarrow> app_shell" where
  "handleUnauthorized detail s = (if ap_name s = js ''login'' then s
     else s\<lparr>ap_sessionError := detail, ap_world := logout (ap_world s), ap_ctx := context_reset (ap_ctx s),
       ap_navigations := ap_navigations s @ [to_login [(js ''reason'', S ''session_expired'')] s]\<rparr>)"

definition handleUserCommand :: "jstr \<Rightarrow> app_shell \<Rightarrow> app_shell" where
  "handleUserCommand command s = (if command = js ''logout'' then app_logout s else s)"

section \<open>Watchers\<close>

definition context_key :: "props \<Rightarrow> jstr" where
  "context_key q = to_string (js_or (lookup_prop q (js ''project_key'')) (S '''')) @ 58 # to_string (js_or (lookup_prop q (js ''scope_id'')) (S ''''))"

definition app_routeChanged :: "jstr \<Rightarrow> jstr \<Rightarrow> jstr \<Rightarrow> props \<Rightarrow> props \<Rightarrow> (app_shell, unit) task" where
  "app_routeChanged path full name meta q = Look (\<lambda>s0. Update (\<lambda>s. s\<lparr>ap_path := path, ap_fullPath := full, ap_name := name, ap_meta := meta,
       ap_query := q, ap_mobileOpen := (ap_mobileOpen s \<and> full = ap_fullPath s)\<rparr>)
     (if context_key q = context_key (ap_query s0) then return else syncContextFromRoute))"

text \<open>
  The session store takes a step; the watcher of the identity follows when the identity changed.  It also runs when an
  equal identity was read anew (another object), and the pages use the actions of the shared context store themselves:
  both are events of their own.
\<close>

definition app_sessionStep :: "action \<Rightarrow> (app_shell, unit) task" where
  "app_sessionStep a = Look (\<lambda>s. case run_action a (ap_world s) of None \<Rightarrow> return
     | Some w \<Rightarrow> Update (\<lambda>s. s\<lparr>ap_world := w\<rparr>)
         (if me (session w) \<noteq> app_me s \<and> truthy (me (session w)) then hydrateContext else return))"

definition app_init :: "app_shell \<Rightarrow> (app_shell, unit) task list \<Rightarrow> bool" where
  "app_init s ts \<longleftrightarrow> (\<exists>s0 t. segment hydrateContext (app_initial s0) = (s, t) \<and> ts = [t])"

inductive app_handler :: "(app_shell, unit) task \<Rightarrow> bool" where
  "app_handler (Update (updateViewport width) return)"
| "app_handler (Update toggleSidebar return)"
| "app_handler (Update closeMobileNavigation return)"
| "app_handler (Update (handleKeydown key) return)"
| "app_handler (app_changeProject v)"
| "app_handler (app_changeScope v)"
| "app_handler (Update (app_navigate item) return)"
| "app_handler (Update (handleUserCommand command) return)"
| "app_handler (Update (handleUnauthorized detail) return)"
| "app_handler (app_routeChanged path full name meta q)"
| "app_handler (app_sessionStep a)"
| "app_handler hydrateContext"
| "app_handler app_loadProjects"
| "app_handler (app_selectProject v)"
| "app_handler (Update (app_selectScope v) return)"

end
