(* ===== verification/AppLaws.thy ===== *)
theory AppLaws imports AppShell begin

text \<open>
  Laws of the frame: the context store follows the address, a session ends completely, and a choice of the user that is
  overtaken by another one still reaches the address.
\<close>

section \<open>The context follows the address\<close>

text \<open>What an address and an identity choose, and what the store has chosen.\<close>

definition address_choice :: "props \<Rightarrow> jsval \<Rightarrow> (jstr \<times> jstr) js" where
  "address_choice q m = andThen (principal_project m) (\<lambda>p. Inr (wanted_project q p, wanted_scope q))"

definition choice :: "context_state \<Rightarrow> jstr \<times> jstr" where
  "choice c = (projectKey c, scopeId c)"

lemma exec_selectProject:
  "exec (app_selectProject v) srv tr s = (r, tr', s') \<Longrightarrow>
   r = Inr () \<and> ap_query s' = ap_query s \<and> projectKey (ap_ctx s') = text_or_empty v"
  by (auto simp: app_selectProject_def store_action_def selectProject_def Let_def open_load_def settle_load_def
      split: if_splits list.splits sum.splits prod.splits load.splits)

lemma selectScope_choice [simp]:
  "choice (ap_ctx (app_selectScope (JStr v) s)) = (projectKey (ap_ctx s), v)"
  by (simp add: app_selectScope_def selectScope_def choice_def)

lemma principal_known: "truthy m \<Longrightarrow> \<exists>p. principal_project m = Inr p"
  by (cases m) (auto simp: principal_project_def get_or_throw_def truthy_def)

text \<open>C9. When the watcher of the address is done, the store has chosen exactly the project and the scope that the
  address and the identity name, whatever the service answered; if it had chosen them before, nothing is requested and
  nothing changes.\<close>

theorem sync_agrees:
  assumes "truthy (app_me s)" "exec syncContextFromRoute srv [] s = (r, calls, s')"
  shows "r = Inr () \<and> address_choice (ap_query s) (app_me s) = Inr (choice (ap_ctx s'))
    \<and> (address_choice (ap_query s) (app_me s) = Inr (choice (ap_ctx s)) \<longrightarrow> calls = [] \<and> s' = s)"
proof -
  obtain p where p: "principal_project (app_me s) = Inr p" using principal_known [OF assms(1)] by blast
  show ?thesis
    using assms p unfolding syncContextFromRoute_def address_choice_def
    by (auto simp: exec_simps Let_def choice_def app_selectScope_def selectScope_def dest!: exec_selectProject split: if_splits sum.splits prod.splits)
qed

section \<open>The end of a session\<close>

lemma logout_clears:
  "token (session (logout w)) = []" "me (session (logout w)) = JNull"
  "k \<in> {TOKEN_KEY, ME_KEY} \<Longrightarrow> readStorage (disk (logout w)) k [] = []"
  by (auto simp: logout_def readStorage_def writeStorage_def split: option.splits)

lemma redirect_back:
  assumes "starts_with p (js ''/'')" "\<not> starts_with p (js ''//'')"
  shows "safeRedirect ((js ''redirect'', JStr p) # extra) = p"
proof -
  have "p \<noteq> []" using assms(1) by (auto simp: starts_with_def js_def)
  then show ?thesis using assms by (auto simp: safeRedirect_def Let_def js_or_def)
qed

text \<open>C19. However a session ends, by the command of the user or by an expired token, the identity and the token are gone
  from the store and from the storage, the context holds no data of the user, and the last navigation opens the login
  form with an address from which it returns to the page that was left.\<close>

theorem session_ended:
  assumes "s' = app_logout s \<or> s' = handleUnauthorized detail s" "ap_name s \<noteq> js ''login''"
    "starts_with (ap_fullPath s) (js ''/'')" "\<not> starts_with (ap_fullPath s) (js ''//'')"
  shows "token (session (ap_world s')) = [] \<and> app_me s' = JNull
    \<and> readStorage (disk (ap_world s')) TOKEN_KEY [] = [] \<and> readStorage (disk (ap_world s')) ME_KEY [] = []
    \<and> choice (ap_ctx s') = ([], []) \<and> projects (ap_ctx s') = [] \<and> scopes (ap_ctx s') = [] \<and> contextQuery s' = []
    \<and> (\<exists>q. ap_navigations s' = ap_navigations s @ [JObj [(js ''name'', S ''login''), (js ''query'', JObj q)]]
        \<and> safeRedirect q = ap_fullPath s)"
  using assms
  by (auto simp: app_logout_def handleUnauthorized_def app_me_def context_reset_def reset_def contextQuery_def choice_def
      to_login_def logout_clears redirect_back)


theorem sync_agrees_witness:
  "\<exists>calls s'. exec syncContextFromRoute (constant_server (Inr (JObj []))) []
       (undefined\<lparr>ap_world := (initial_world None)\<lparr>session := (initial_session None)\<lparr>me := JObj []\<rparr>\<rparr>, ap_ctx := initial_context,
          ap_query := [(js ''project_key'', S ''a''), (js ''scope_id'', S ''7'')]\<rparr>) = (Inr (), calls, s')
     \<and> choice (ap_ctx s') = (js ''a'', js ''7'')"
proof -
  let ?s = "undefined\<lparr>ap_world := (initial_world None)\<lparr>session := (initial_session None)\<lparr>me := JObj []\<rparr>\<rparr>, ap_ctx := initial_context,
      ap_query := [(js ''project_key'', S ''a''), (js ''scope_id'', S ''7'')]\<rparr> :: app_shell"
  obtain r calls s' where run: "exec syncContextFromRoute (constant_server (Inr (JObj []))) [] ?s = (r, calls, s')" by (metis prod_cases3)
  have "truthy (app_me ?s)" by (simp add: app_me_def)
  from sync_agrees [OF this run] run show ?thesis
    by (auto simp: address_choice_def principal_project_def app_me_def get_or_throw_def wanted_project_def wanted_scope_def js_def js_or_def lookup_prop_def)
qed

theorem session_ended_witness:
  "\<exists>q. ap_navigations (app_logout (undefined\<lparr>ap_name := js ''records'', ap_fullPath := js ''/records'', ap_navigations := []\<rparr>))
     = [JObj [(js ''name'', S ''login''), (js ''query'', JObj q)]] \<and> safeRedirect q = js ''/records''"
  using session_ended [OF disjI1 [OF refl], of "undefined\<lparr>ap_name := js ''records'', ap_fullPath := js ''/records'', ap_navigations := []\<rparr>"]
  by (simp add: starts_with_def js_def)

section \<open>A choice that is overtaken\<close>

text \<open>The three stages of a choice: the request, the pause after the answer, and the navigation.\<close>

definition chosen_address :: "jstr \<Rightarrow> app_shell \<Rightarrow> jsval" where
  "chosen_address key s = JObj [(js ''path'', JStr (ap_path s)), (js ''query'', JObj (put_all (ap_query s)
     [(js ''project_key'', or_undefined (JStr key)), (js ''scope_id'', JUndef), (js ''page'', JUndef), (js ''detail'', JUndef)]))]"

lemma choosing:
  assumes "encodeURIComponent k = Inr e" "k \<noteq> []" "k \<noteq> projectKey (ap_ctx s)"
  obtains s1 c k1 k2 k3 where "segment (app_changeProject (JStr k)) s = (s1, Await (Get c scopes_params) k1)"
    "projectKey (ap_ctx s1) = k" "scopeId (ap_ctx s1) = []" "ap_query s1 = ap_query s" "ap_world s1 = ap_world s"
    "\<And>a u. segment (k1 a) u = (u\<lparr>ap_ctx := settle_load (LoadScopes k) (returned a) (ap_ctx u)\<rparr>, Await Tick k2)"
    "\<And>a u. segment (k2 a) u = (u, Await (Replace (chosen_address k u)) k3)"
    "\<And>v u. segment (k3 (Returned (Inr v))) u = (u, return)"
proof -
  let ?s1 = "s\<lparr>ap_ctx := (ap_ctx s)\<lparr>projectKey := k, scopeId := [], scopes := [], loadingScopes := True\<rparr>\<rparr>"
  have "segment (app_changeProject (JStr k)) s = (?s1, Await (Get (js ''/projects/'' @ e @ js ''/scopes'') scopes_params) (\<lambda>a.
      Update (\<lambda>s. s\<lparr>ap_ctx := settle_load (LoadScopes k) (returned a) (ap_ctx s)\<rparr>) (Await Tick (\<lambda>a. Look (\<lambda>s.
        await_call (Replace (chosen_address k s)) (\<lambda>r. return))))))"
    using assms by (auto simp: app_changeProject_def app_selectProject_def store_action_def selectProject_def Let_def open_load_def
        load_path_def chosen_address_def await_task_def)
  from that [OF this] show thesis by (simp add: await_call_def)
qed

lemma settled_choice [simp]: "choice (settle_load l r c) = choice c"
  by (auto simp: settle_load_def choice_def split: load.split sum.split)

text \<open>Two choices in a row whose answers overtake each other: the second project is chosen and shown in the address,
  and then the handler of the first choice navigates to the first project.\<close>

theorem late_choice_wins:
  "\<exists>s ts k. page_run app_init app_handler s ts \<and> projectKey (ap_ctx s) = js ''b''
     \<and> lookup_prop (ap_query s) (js ''project_key'') = S ''b'' \<and> Await (Replace (chosen_address (js ''a'') s)) k \<in> set ts"
proof -
  let ?run = "page_run app_init app_handler" and ?A = "js ''a''" and ?B = "js ''b''"
  let ?w = "(initial_world None)\<lparr>session := (initial_session None)\<lparr>me := JObj []\<rparr>\<rparr>"
  let ?s = "app_initial (undefined\<lparr>ap_world := ?w, ap_ctx := initial_context\<lparr>projects := [JNull]\<rparr>, ap_query := []\<rparr>)"
  have keys: "encodeURIComponent ?A = Inr ?A" "encodeURIComponent ?B = Inr ?B" "?A \<noteq> []" "?B \<noteq> []" "?A \<noteq> ?B"
    by (simp_all add: js_def uri_unreserved_def)
  obtain k0 where hydrate: "segment hydrateContext ?s = (?s, Await Tick k0)" "segment (k0 a) ?s = (?s, return)" for a
    by (simp add: hydrateContext_def app_me_def app_initial_def app_loadProjects_def store_action_def loadProjects_def Let_def
        await_task_def eval_js_def principal_project_def get_or_throw_def wanted_project_def js_or_def)
  have "?run ?s [Await Tick k0]" by (rule page_run.mount) (use hydrate(1) in \<open>auto simp: app_init_def\<close>)
  then have r0: "?run ?s [return]" using answer_last [of app_init app_handler ?s "[]" Tick k0 "Returned (Inr JUndef)"] hydrate(2) by simp
  obtain s1 c1 a1 a2 a3 where a: "segment (app_changeProject (JStr ?A)) ?s = (s1, Await (Get c1 scopes_params) a1)"
    "projectKey (ap_ctx s1) = ?A" "ap_query s1 = []" "app_me s1 = JObj []"
    "\<And>a u. segment (a1 a) u = (u\<lparr>ap_ctx := settle_load (LoadScopes ?A) (returned a) (ap_ctx u)\<rparr>, Await Tick a2)"
    "\<And>a u. segment (a2 a) u = (u, Await (Replace (chosen_address ?A u)) a3)"
    by (rule choosing [OF keys(1,3), of ?s]) (auto simp: app_initial_def initial_context_def js_def app_me_def)
  have r1: "?run s1 ([return] @ [Await (Get c1 scopes_params) a1])" by (rule page_run.event [OF r0 app_handler.intros(5) a(1)])
  obtain s2 c2 b1 b2 b3 where b: "segment (app_changeProject (JStr ?B)) s1 = (s2, Await (Get c2 scopes_params) b1)"
    "projectKey (ap_ctx s2) = ?B" "scopeId (ap_ctx s2) = []" "app_me s2 = JObj []"
    "\<And>a u. segment (b1 a) u = (u\<lparr>ap_ctx := settle_load (LoadScopes ?B) (returned a) (ap_ctx u)\<rparr>, Await Tick b2)"
    "\<And>a u. segment (b2 a) u = (u, Await (Replace (chosen_address ?B u)) b3)"
    "\<And>v u. segment (b3 (Returned (Inr v))) u = (u, return)"
    by (rule choosing [OF keys(2,4), of s1]) (use a(2,4) keys(5) in \<open>auto simp: app_me_def\<close>)
  let ?pre = "[return, Await (Get c1 scopes_params) a1]" and ?ok = "Returned (Inr (JObj []))"
  let ?s3 = "s2\<lparr>ap_ctx := settle_load (LoadScopes ?B) (returned ?ok) (ap_ctx s2)\<rparr>"
  have "?run s2 (?pre @ [Await (Get c2 scopes_params) b1])" using page_run.event [OF r1 app_handler.intros(5) b(1)] by simp
  from answer_last [OF this, of ?ok] b(5) have "?run ?s3 (?pre @ [Await Tick b2])" by simp
  from answer_last [OF this, of ?ok] b(6) have "?run ?s3 (?pre @ [Await (Replace (chosen_address ?B ?s3)) b3])" by simp
  from answer_last [OF this, of ?ok] b(7) have r3: "?run ?s3 (?pre @ [return])" by simp
  let ?q = "[(js ''project_key'', S ''b'')]"
  let ?s4 = "?s3\<lparr>ap_path := js ''/records'', ap_fullPath := js ''/records?project_key=b'', ap_name := js ''records'', ap_meta := [],
      ap_query := ?q, ap_mobileOpen := (ap_mobileOpen ?s3 \<and> js ''/records?project_key=b'' = ap_fullPath ?s3)\<rparr>"
  have key3: "projectKey (ap_ctx ?s4) = ?B" "scopeId (ap_ctx ?s4) = []"
    using settled_choice [of "LoadScopes ?B" "returned ?ok" "ap_ctx s2"] b(2,3) by (auto simp: choice_def)
  have "segment (app_routeChanged (js ''/records'') (js ''/records?project_key=b'') (js ''records'') [] ?q) ?s3 = (?s4, return)"
    using key3 b(4)
    by (simp add: app_routeChanged_def syncContextFromRoute_def app_me_def eval_js_def principal_project_def get_or_throw_def
        wanted_project_def wanted_scope_def js_or_def Let_def lookup_prop_some lookup_prop_none)
  from page_run.event [OF r3 app_handler.intros(10) this]
  have r4: "?run ?s4 [return, Await (Get c1 scopes_params) a1, return, return]" by simp
  let ?s5 = "?s4\<lparr>ap_ctx := settle_load (LoadScopes ?A) (returned ?ok) (ap_ctx ?s4)\<rparr>"
  have r5: "?run ?s5 [return, Await Tick a2, return, return]"
    using page_run.answer [OF r4, where i = 1 and c = "Get c1 scopes_params" and k = a1 and a = ?ok] a(5) [of ?ok ?s4] by simp
  have r6: "?run ?s5 [return, Await (Replace (chosen_address ?A ?s5)) a3, return, return]"
    using page_run.answer [OF r5, where i = 1 and c = Tick and k = a2 and a = ?ok] a(6) [of ?ok ?s5] by simp
  have "projectKey (ap_ctx ?s5) = ?B"
    using settled_choice [of "LoadScopes ?A" "returned ?ok" "ap_ctx ?s4"] key3 by (simp add: choice_def)
  then show ?thesis using r6 by (intro exI conjI) (assumption, simp_all add: lookup_prop_def)
qed

end
