(* ===== verification/TaskDetailPage.thy ===== *)
theory TaskDetailPage imports PageCommon begin

text \<open>
  \<open>views/TaskRunDetailView.vue\<close>: one task run with its reports, files, Git baseline and events; the address carries the
  tab and the revision of the report.
\<close>

section \<open>State\<close>

record task_detail =
  td_id :: jsval
  td_query :: props
  td_taskRun :: jsval
  td_report :: jsval
  td_revision :: jstr
  td_tab :: jstr
  td_loading :: bool
  td_reportLoading :: bool
  td_error :: "jserror option"
  td_pushed :: "jsval list"

definition detail_tabs :: "string list" where
  "detail_tabs = [''overview'', ''report'', ''files'', ''git'', ''events'']"

definition td_query_revision :: "props \<Rightarrow> jstr" where
  "td_query_revision q = to_string (js_or (lookup_prop q (js ''revision'')) (S ''''))"

definition task_detail_initial :: "jsval \<Rightarrow> props \<Rightarrow> task_detail" where
  "task_detail_initial i q = \<lparr>td_id = i, td_query = q, td_taskRun = JNull, td_report = JNull, td_revision = td_query_revision q,
     td_tab = (let t = to_string (lookup_prop q (js ''tab'')) in if t \<in> set (map js detail_tabs) then t else js ''overview''),
     td_loading = False, td_reportLoading = False, td_error = None, td_pushed = []\<rparr>"

section \<open>What is shown\<close>

definition td_reports :: "task_detail \<Rightarrow> jsval" where
  "td_reports s = js_or (get_opt (td_taskRun s) (js ''reports'')) (JArr [])"

definition gitBaseline :: "task_detail \<Rightarrow> jsval" where
  "gitBaseline s = js_or (get_opt (td_taskRun s) (js ''git_baseline'')) (JObj [])"

definition td_events :: "task_detail \<Rightarrow> jsval" where
  "td_events s = js_or (get_opt (td_taskRun s) (js ''events'')) (JArr [])"

definition fileChanges :: "task_detail \<Rightarrow> jsval" where
  "fileChanges s = js_or (get_opt (td_report s) (js ''file_changes'')) (JArr [])"

definition blank_or :: "jsval \<Rightarrow> jstr \<Rightarrow> jsval \<Rightarrow> jsval" where
  "blank_or value blank shown' = (if is_nullish value \<or> value = S '''' then JStr blank else shown')"

definition text_or_json :: "jsval \<Rightarrow> jsval" where
  "text_or_json value = (case value of JStr s \<Rightarrow> value | _ \<Rightarrow> json_stringify_pretty value)"

definition reportBody :: "task_detail \<Rightarrow> jsval" where
  "reportBody s = (let value = get_opt (td_report s) (js ''body'') in blank_or value [0x6682, 0x65e0, 0x62a5, 0x544a, 0x6b63, 0x6587] (text_or_json value))"

definition reportJson :: "task_detail \<Rightarrow> jsval" where
  "reportJson s = json_stringify_pretty (js_or (get_opt (td_report s) (js ''report_json'')) (JObj []))"

definition reportKindLabel :: "jsval \<Rightarrow> jsval" where
  "reportKindLabel kind =
     (if strict_eq kind (S ''checkpoint'') then JStr [0x68c0, 0x67e5, 0x70b9, 0x62a5, 0x544a]
      else if strict_eq kind (S ''final'') then JStr [0x6700, 0x7ec8, 0x62a5, 0x544a] else js_or kind (JStr [0x672a, 0x77e5, 0x7c7b, 0x578b]))"

definition td_displayValue :: "jsval \<Rightarrow> jsval" where
  "td_displayValue value = blank_or value (js ''-'')
     (case value of JBool b \<Rightarrow> JStr (if b then [0x662f] else [0x5426]) | _ \<Rightarrow> JStr (to_string value))"

definition displayJson :: "jsval \<Rightarrow> jsval" where
  "displayJson value = blank_or value (js ''-'') (text_or_json value)"

definition changeTypeLabel :: "jsval \<Rightarrow> jsval" where
  "changeTypeLabel type = js_or (js_or (lookup_prop
     [(js ''added'', JStr [0x65b0, 0x589e]), (js ''modified'', JStr [0x4fee, 0x6539]), (js ''deleted'', JStr [0x5220, 0x9664]),
      (js ''renamed'', JStr [0x91cd, 0x547d, 0x540d]), (js ''untracked'', JStr [0x672a, 0x8ddf, 0x8e2a])] (to_string type)) type) (JStr [0x672a, 0x77e5])"

definition changeTypeTag :: "jsval \<Rightarrow> string" where
  "changeTypeTag type =
     (if type \<in> {S ''added'', S ''untracked''} then ''success''
      else if type = S ''deleted'' then ''danger''
      else if type \<in> {S ''modified'', S ''renamed''} then ''warning'' else ''info'')"

text \<open>\<open>replace(/([a-z])([A-Z])/g, '$1_$2')\<close>: two matches never overlap, since the second unit of a match cannot be the first of one.\<close>

fun snake :: "jstr \<Rightarrow> jstr" where
  "snake (c # d # s) = (if 97 \<le> c \<and> c \<le> 122 \<and> 65 \<le> d \<and> d \<le> 90 then c # 95 # snake (d # s) else c # snake (d # s))"
| "snake s = s"

definition event_key :: "jsval \<Rightarrow> jstr" where
  "event_key type = to_lower (map (\<lambda>c. if c = 46 then 95 else c) (snake (text_or_empty type)))"

definition eventTypeLabel :: "jsval \<Rightarrow> jsval" where
  "eventTypeLabel type = js_or (js_or (lookup_prop
     [(js ''user_prompt_submit'', JStr [0x7528, 0x6237, 0x63d0, 0x4ea4, 0x4efb, 0x52a1]), (js ''pre_tool_use'', JStr [0x5de5, 0x5177, 0x6267, 0x884c, 0x524d]),
      (js ''post_tool_use'', JStr [0x5de5, 0x5177, 0x6267, 0x884c, 0x540e]), (js ''stop'', JStr [0x4efb, 0x52a1, 0x505c, 0x6b62]),
      (js ''session_end'', JStr [0x4f1a, 0x8bdd, 0x7ed3, 0x675f])] (event_key type)) type) (JStr [0x672a, 0x77e5, 0x4e8b, 0x4ef6])"

section \<open>Loading\<close>

definition td_synced :: "task_detail \<Rightarrow> props" where
  "td_synced s = (let q = put (td_query s) (js ''tab'') (JStr (td_tab s))
     in if td_revision s \<noteq> [] then put q (js ''revision'') (JStr (td_revision s)) else delete_key q (js ''revision''))"

definition syncDetailQuery :: "(task_detail, unit) task" where
  "syncDetailQuery = Look (\<lambda>s. await_call (Replace (JObj [(js ''query'', JObj (td_synced s))])) (\<lambda>r. return))"

definition loadReport :: "jsval \<Rightarrow> bool \<Rightarrow> (task_detail, unit) task" where
  "loadReport nextRevision updateUrl = (let selected = trim (text_or_empty nextRevision) in
     if selected = [] then Update (\<lambda>s. s\<lparr>td_report := JNull\<rparr>) return
     else Update (\<lambda>s. s\<lparr>td_revision := selected, td_reportLoading := True, td_error := None\<rparr>)
       (try_finally (try_catch
         (Look (\<lambda>s. eval_js (taskRunReportPath (td_id s) (JStr selected)) (\<lambda>path. await_call (Get path (JObj [])) (\<lambda>r.
           Update (\<lambda>s. s\<lparr>td_report := unwrapData r\<rparr>) (if updateUrl then await_task syncDetailQuery (\<lambda>r. return) else return)))))
         (\<lambda>cause. Update (\<lambda>s. s\<lparr>td_report := JNull, td_error := Some cause\<rparr>) return))
         (\<lambda>s. s\<lparr>td_reportLoading := False\<rparr>)))"

definition last_report :: "jsval \<Rightarrow> jsval" where
  "last_report reports = (case elems reports of [] \<Rightarrow> JUndef | x # xs \<Rightarrow> last (x # xs))"

definition preferredRevision :: "task_detail \<Rightarrow> jstr" where
  "preferredRevision s = (if td_revision s \<noteq> [] then td_revision s
     else to_string (js_or (js_or (get_prop (td_taskRun s) (js ''current_report_revision'')) (get_opt (last_report (td_reports s)) (js ''revision''))) (S '''')))"

definition td_load :: "(task_detail, unit) task" where
  "td_load = Update (\<lambda>s. s\<lparr>td_loading := True, td_error := None\<rparr>) (try_finally (try_catch
     (Look (\<lambda>s. eval_js (taskRunPath (td_id s)) (\<lambda>path. await_call (Get path (JObj [])) (\<lambda>r.
        Update (\<lambda>s. s\<lparr>td_taskRun := extractTaskRun r\<rparr>) (Look (\<lambda>s.
        await_task (loadReport (JStr (preferredRevision s)) False) (\<lambda>r.
        await_task syncDetailQuery (\<lambda>r. return))))))))
     (\<lambda>cause. Update (\<lambda>s. s\<lparr>td_taskRun := JNull, td_report := JNull, td_error := Some cause\<rparr>) return))
     (\<lambda>s. s\<lparr>td_loading := False\<rparr>))"

definition backToList :: "task_detail \<Rightarrow> task_detail" where
  "backToList s = (let k = get_opt (td_taskRun s) (js ''project_key'') in s\<lparr>td_pushed := td_pushed s @
     [JObj [(js ''name'', S ''task-runs''), (js ''query'', JObj (if truthy k then [(js ''project_key'', k)] else []))]]\<rparr>)"

section \<open>The page\<close>

definition td_tabChanged :: "task_detail \<Rightarrow> task_detail" where
  "td_tabChanged s = (let next' = to_string (js_or (lookup_prop (td_query s) (js ''tab'')) (S ''overview''))
     in if next' \<in> set (map js detail_tabs) \<and> next' \<noteq> td_tab s then s\<lparr>td_tab := next'\<rparr> else s)"

definition td_revisionChanged :: "(task_detail, unit) task" where
  "td_revisionChanged = Look (\<lambda>s. let next' = td_query_revision (td_query s)
     in if next' \<noteq> [] \<and> next' \<noteq> td_revision s then loadReport (JStr next') False else return)"

definition td_idChanged :: "(task_detail, unit) task" where
  "td_idChanged = Update (\<lambda>s. s\<lparr>td_revision := td_query_revision (td_query s)\<rparr>) td_load"

definition task_detail_init :: "task_detail \<Rightarrow> (task_detail, unit) task list \<Rightarrow> bool" where
  "task_detail_init s ts \<longleftrightarrow> (\<exists>i q t. segment td_load (task_detail_initial i q) = (s, t) \<and> ts = [t])"

text \<open>A navigation changes the address; the watchers run after it, each as an event of its own.\<close>

inductive task_detail_handler :: "(task_detail, unit) task \<Rightarrow> bool" where
  "task_detail_handler td_load"
| "task_detail_handler (loadReport v True)"
| "task_detail_handler syncDetailQuery"
| "task_detail_handler (Update backToList return)"
| "task_detail_handler (Update (\<lambda>s. s\<lparr>td_id := i, td_query := q\<rparr>) return)"
| "task_detail_handler (Update td_tabChanged return)"
| "task_detail_handler td_revisionChanged"
| "task_detail_handler td_idChanged"
| "task_detail_handler (Update (\<lambda>s. s\<lparr>td_revision := v\<rparr>) return)"
| "t \<in> set (map js detail_tabs) \<Longrightarrow> task_detail_handler (Update (\<lambda>s. s\<lparr>td_tab := t\<rparr>) return)"

end
