(* ===== verification/TaskDetailLaws.thy ===== *)
theory TaskDetailLaws imports TaskDetailPage begin

text \<open>The page of one task run: its flags, the outcome of a load, and reports that arrive late.\<close>

section \<open>Flags\<close>

lemma sync_settles [simp]: "settles busy syncDetailQuery False"
  by (auto simp: syncDetailQuery_def intro!: task_intro)

lemma loadReport_settles:
  "settles td_reportLoading (loadReport v b) False" "settles td_loading (loadReport v b) False"
proof -
  show "settles td_reportLoading (loadReport v b) False"
    by (auto simp: loadReport_def Let_def settles_finally)
  show "settles td_loading (loadReport v b) False"
    by (auto simp: loadReport_def Let_def intro!: task_intro)
qed

lemma td_load_settles: "settles td_loading td_load False" "settles td_reportLoading td_load False"
proof -
  show "settles td_loading td_load False"
    unfolding td_load_def by (rule settles_section) simp
  show "settles td_reportLoading td_load False"
    by (auto simp: td_load_def intro!: task_intro loadReport_settles)
qed

lemma watcher_settles:
  "settles td_loading td_revisionChanged False" "settles td_reportLoading td_revisionChanged False"
  "settles td_loading td_idChanged False" "settles td_reportLoading td_idChanged False"
  by (auto simp: td_revisionChanged_def td_idChanged_def Let_def intro!: task_intro loadReport_settles td_load_settles)

lemma quiet_updates:
  "td_loading (backToList s) = td_loading s" "td_reportLoading (backToList s) = td_reportLoading s"
  "td_loading (td_tabChanged s) = td_loading s" "td_reportLoading (td_tabChanged s) = td_reportLoading s"
  by (simp_all add: backToList_def td_tabChanged_def Let_def)

lemma initially_quiet: "\<not> td_loading (task_detail_initial i q)" "\<not> td_reportLoading (task_detail_initial i q)"
  by (simp_all add: task_detail_initial_def)

lemmas run_settles = sync_settles loadReport_settles td_load_settles watcher_settles quiet_updates

interpretation detail_loads: settling_page task_detail_init task_detail_handler td_loading
proof
  show "\<exists>os. owing td_loading s ts os" if "task_detail_init s ts" for s ts
    using that by (auto simp: task_detail_init_def initially_quiet dest!: owing_first [OF td_load_settles(1), rotated])
  show "settles td_loading t False" if "task_detail_handler t" for t
    using that by cases (simp_all add: run_settles)
qed

interpretation report_loads: settling_page task_detail_init task_detail_handler td_reportLoading
proof
  show "\<exists>os. owing td_reportLoading s ts os" if "task_detail_init s ts" for s ts
    using that by (auto simp: task_detail_init_def initially_quiet dest!: owing_first [OF td_load_settles(2), rotated])
  show "settles td_reportLoading t False" if "task_detail_handler t" for t
    using that by cases (simp_all add: run_settles)
qed

text \<open>When nothing is pending, neither the task run nor a report is loading, whatever failed or overlapped.\<close>

theorem task_detail_at_rest:
  assumes "page_run task_detail_init task_detail_handler s ts" "filter is_pending ts = []"
  shows "\<not> td_loading s \<and> \<not> td_reportLoading s"
  using detail_loads.rested [OF assms(1)] report_loads.rested [OF assms(1)] assms(2) by (auto simp: filter_empty_conv)

section \<open>The outcome of a load\<close>

definition report_outcome :: "server \<Rightarrow> call list \<Rightarrow> jsval \<Rightarrow> jstr \<Rightarrow> task_detail \<Rightarrow> bool" where
  "report_outcome srv tr i selected s' \<longleftrightarrow>
    (if selected = [] then td_report s' = JNull \<and> td_error s' = None
     else td_revision s' = selected \<and> (\<forall>q. taskRunReportPath i (JStr selected) = Inr q \<longrightarrow>
       (case returned (srv tr (Get q (JObj []))) of
          Inl e \<Rightarrow> td_report s' = JNull \<and> td_error s' = Some e
        | Inr w \<Rightarrow> td_report s' = unwrapData w \<and> td_error s' = None)))"

lemma exec_report:
  assumes "exec (loadReport v False) srv tr s = (r, tr', s')" "td_error s = None"
  shows "r = Inr () \<and> td_taskRun s' = td_taskRun s \<and> report_outcome srv tr (td_id s) (trim (text_or_empty v)) s'"
  using assms
  by (auto simp: loadReport_def exec_simps report_outcome_def Let_def split: sum.splits prod.splits if_splits)

lemma exec_syncDetail:
  assumes "polite srv"
  shows "exec syncDetailQuery srv tr s = (Inr (), tr @ [Replace (JObj [(js ''query'', JObj (td_synced s))])], s)"
proof -
  have "suits (Replace (JObj [(js ''query'', JObj (td_synced s))])) (srv tr (Replace (JObj [(js ''query'', JObj (td_synced s))])))"
    using assms by (simp add: polite_def)
  then show ?thesis by (auto simp: syncDetailQuery_def exec_simps)
qed

lemma unloaded [simp]:
  "report_outcome srv tr i selected (s\<lparr>td_loading := b\<rparr>) = report_outcome srv tr i selected s"
  "td_synced (s\<lparr>td_loading := b\<rparr>) = td_synced s" "td_synced (s\<lparr>td_report := v\<rparr>) = td_synced s"
  by (simp_all add: report_outcome_def td_synced_def Let_def cong: sum.case_cong)

text \<open>C20. What a load leaves behind, on every path: a run that cannot be had clears the page and shows why; otherwise
  the run is shown with the report of the revision that the address or the run prefers, or without it and with its error,
  and the last step writes the tab and the revision that are shown to the address.\<close>

theorem task_detail_outcome:
  assumes "polite srv" "taskRunPath (td_id s) = Inr p" "exec td_load srv [] s = (r, calls, s')"
  shows "r = Inr () \<and> \<not> td_loading s' \<and>
    (case returned (srv [] (Get p (JObj []))) of
      Inl e \<Rightarrow> calls = [Get p (JObj [])] \<and> td_taskRun s' = JNull \<and> td_report s' = JNull \<and> td_error s' = Some e
    | Inr v \<Rightarrow> td_taskRun s' = extractTaskRun v \<and> last calls = Replace (JObj [(js ''query'', JObj (td_synced s'))])
        \<and> report_outcome srv [Get p (JObj [])] (td_id s) (trim (preferredRevision (s\<lparr>td_taskRun := extractTaskRun v\<rparr>))) s')"
proof (cases "returned (srv [] (Get p (JObj [])))")
  case (Inl e)
  then show ?thesis using assms(2,3) by (auto simp: td_load_def exec_simps)
next
  case (Inr v)
  let ?s1 = "s\<lparr>td_loading := True, td_error := None, td_taskRun := extractTaskRun v\<rparr>"
  obtain r1 tr1 s1 where report: "exec (loadReport (JStr (preferredRevision ?s1)) False) srv [Get p (JObj [])] ?s1 = (r1, tr1, s1)"
    by (metis prod_cases3)
  have outcome: "r1 = Inr ()" "td_taskRun s1 = extractTaskRun v"
    "report_outcome srv [Get p (JObj [])] (td_id s) (trim (preferredRevision ?s1)) s1"
    using exec_report [OF report] by auto
  have "preferredRevision ?s1 = preferredRevision (s\<lparr>td_taskRun := extractTaskRun v\<rparr>)"
    by (simp add: preferredRevision_def td_reports_def)
  moreover have "calls = tr1 @ [Replace (JObj [(js ''query'', JObj (td_synced s1))])]" "s' = s1\<lparr>td_loading := False\<rparr>" "r = Inr ()"
    using assms(2,3) Inr report outcome(1) by (auto simp: td_load_def exec_simps exec_syncDetail [OF assms(1)])
  ultimately show ?thesis
    using outcome Inr by simp
qed


section \<open>Runs of the page\<close>

text \<open>The page after its first load, of a run without reports.\<close>

lemma detail_mounted: "\<exists>s. page_run task_detail_init task_detail_handler s [return] \<and> td_id s = S ''7''"
proof -
  let ?run = "page_run task_detail_init task_detail_handler"
  let ?i = "task_detail_initial (S ''7'') []" and ?ok = "Returned (Inr (JObj []))"
  let ?s1 = "?i\<lparr>td_loading := True, td_error := None\<rparr>"
  let ?s2 = "?s1\<lparr>td_taskRun := extractTaskRun (JObj []), td_report := JNull\<rparr>"
  have none: "preferredRevision (?s1\<lparr>td_taskRun := extractTaskRun (JObj [])\<rparr>) = []" by code_simp
  obtain p k q k1 k2 k3 where steps: "segment td_load ?i = (?s1, Await (Get p (JObj [])) k)" "segment (k ?ok) ?s1 = (?s2, Await Tick k1)"
    "segment (k1 ?ok) ?s2 = (?s2, Await (Replace q) k2)" "segment (k2 ?ok) ?s2 = (?s2, Await Tick k3)"
    "segment (k3 ?ok) ?s2 = (?s2\<lparr>td_loading := False\<rparr>, return)"
    using none by (simp add: td_load_def taskRunPath_def task_detail_initial_def await_call_def await_task_def eval_js_def js_def uri_unreserved_def
        loadReport_def syncDetailQuery_def)
  have "?run ?s1 ([] @ [Await (Get p (JObj [])) k])" by (rule page_run.mount) (use steps(1) in \<open>auto simp: task_detail_init_def\<close>)
  from answer_last [OF this, of ?ok] steps(2) have "?run ?s2 ([] @ [Await Tick k1])" by simp
  from answer_last [OF this, of ?ok] steps(3) have "?run ?s2 ([] @ [Await (Replace q) k2])" by simp
  from answer_last [OF this, of ?ok] steps(4) have "?run ?s2 ([] @ [Await Tick k3])" by simp
  from answer_last [OF this, of ?ok] steps(5) have "?run (?s2\<lparr>td_loading := False\<rparr>) [return]" by simp
  then show ?thesis by (intro exI conjI) (assumption, simp add: task_detail_initial_def)
qed

text \<open>The stages of a report that the user asked for.\<close>

lemma report_stages:
  assumes "trim r = r" "r \<noteq> []" "taskRunReportPath (td_id s) (JStr r) = Inr p"
  obtains k q k1 k2 where "segment (loadReport (JStr r) True) s =
      (s\<lparr>td_revision := r, td_reportLoading := True, td_error := None\<rparr>, Await (Get p (JObj [])) k)"
    "\<And>v u. segment (k (Returned (Inr v))) u = (u\<lparr>td_report := unwrapData v\<rparr>, Await (Replace (q u)) k1)"
    "\<And>v u. segment (k1 (Returned (Inr v))) u = (u, Await Tick k2)"
    "\<And>a u. segment (k2 a) u = (u\<lparr>td_reportLoading := False\<rparr>, return)"
proof -
  have "segment (loadReport (JStr r) True) s = (s\<lparr>td_revision := r, td_reportLoading := True, td_error := None\<rparr>,
      Await (Get p (JObj [])) (\<lambda>a. try_finally (try_catch (case returned a of Inl e \<Rightarrow> throw e | Inr v \<Rightarrow>
        Update (\<lambda>s. s\<lparr>td_report := unwrapData v\<rparr>) (await_task syncDetailQuery (\<lambda>r. return)))
        (\<lambda>cause. Update (\<lambda>s. s\<lparr>td_report := JNull, td_error := Some cause\<rparr>) return)) (\<lambda>s. s\<lparr>td_reportLoading := False\<rparr>)))"
    using assms by (simp add: loadReport_def Let_def await_call_def eval_js_def)
  from that [OF this] show thesis by (simp add: syncDetailQuery_def await_call_def await_task_def)
qed

theorem task_detail_at_rest_witness:
  "\<exists>s ts. page_run task_detail_init task_detail_handler s ts \<and> ts \<noteq> [] \<and> \<not> td_loading s"
proof -
  obtain s where run: "page_run task_detail_init task_detail_handler s [return]" using detail_mounted by blast
  from task_detail_at_rest [OF run] run show ?thesis by fastforce
qed

text \<open>Reports are not numbered: for any two reports there is a run at whose end nothing is pending, the second revision
  is selected, and the report of the first is shown.\<close>

theorem report_of_other_revision:
  "\<exists>s ts. page_run task_detail_init task_detail_handler s ts \<and> filter is_pending ts = [] \<and> td_revision s = js ''2''
     \<and> td_report s = unwrapData first \<and> td_error s = None"
proof -
  let ?run = "page_run task_detail_init task_detail_handler" and ?ok = "Returned (Inr JUndef)"
  have revisions: "trim (js ''1'') = js ''1''" "js ''1'' \<noteq> []" "trim (js ''2'') = js ''2''" "js ''2'' \<noteq> []"
    by (simp_all add: trim_def js_def is_space_def)
  have paths: "taskRunReportPath (S ''7'') (S ''1'') = Inr (js ''/task-runs/7/reports/1'')"
    "taskRunReportPath (S ''7'') (S ''2'') = Inr (js ''/task-runs/7/reports/2'')"
    by (simp_all add: taskRunReportPath_def taskRunPath_def js_def uri_unreserved_def)
  obtain s0 where s0: "?run s0 [return]" "td_id s0 = S ''7''" using detail_mounted by blast
  let ?s1 = "s0\<lparr>td_revision := js ''1'', td_reportLoading := True, td_error := None\<rparr>"
  let ?p1 = "js ''/task-runs/7/reports/1''" and ?p2 = "js ''/task-runs/7/reports/2''"
  have path1: "taskRunReportPath (td_id s0) (S ''1'') = Inr ?p1" and path2: "taskRunReportPath (td_id ?s1) (S ''2'') = Inr ?p2"
    by (simp_all add: s0(2) paths)
  obtain a qa a1 a2 where one: "segment (loadReport (S ''1'') True) s0 = (?s1, Await (Get ?p1 (JObj [])) a)"
    "\<And>v u. segment (a (Returned (Inr v))) u = (u\<lparr>td_report := unwrapData v\<rparr>, Await (Replace (qa u)) a1)"
    "\<And>v u. segment (a1 (Returned (Inr v))) u = (u, Await Tick a2)"
    "\<And>x u. segment (a2 x) u = (u\<lparr>td_reportLoading := False\<rparr>, return)"
    by (rule report_stages [OF revisions(1,2) path1]) (rule that; assumption)
  have r1: "?run ?s1 ([return] @ [Await (Get ?p1 (JObj [])) a])" by (rule page_run.event [OF s0(1) task_detail_handler.intros(2) one(1)])
  let ?s2 = "?s1\<lparr>td_revision := js ''2'', td_reportLoading := True, td_error := None\<rparr>"
  obtain b qb b1 b2 where two: "segment (loadReport (S ''2'') True) ?s1 = (?s2, Await (Get ?p2 (JObj [])) b)"
    "\<And>v u. segment (b (Returned (Inr v))) u = (u\<lparr>td_report := unwrapData v\<rparr>, Await (Replace (qb u)) b1)"
    "\<And>v u. segment (b1 (Returned (Inr v))) u = (u, Await Tick b2)"
    "\<And>x u. segment (b2 x) u = (u\<lparr>td_reportLoading := False\<rparr>, return)"
    by (rule report_stages [OF revisions(3,4) path2]) (rule that; assumption)
  let ?pre = "[return, Await (Get ?p1 (JObj [])) a]"
  have "?run ?s2 (?pre @ [Await (Get ?p2 (JObj [])) b])" using page_run.event [OF r1 task_detail_handler.intros(2) two(1)] by simp
  from answer_last [OF this, of "Returned (Inr second)"] two(2)
  have "?run (?s2\<lparr>td_report := unwrapData second\<rparr>) (?pre @ [Await (Replace (qb ?s2)) b1])" by simp
  from answer_last [OF this, of ?ok] two(3) have "?run (?s2\<lparr>td_report := unwrapData second\<rparr>) (?pre @ [Await Tick b2])" by simp
  from answer_last [OF this, of ?ok] two(4)
  have r2: "?run (?s2\<lparr>td_report := unwrapData second, td_reportLoading := False\<rparr>) [return, Await (Get ?p1 (JObj [])) a, return]" by simp
  let ?s3 = "?s2\<lparr>td_reportLoading := False, td_report := unwrapData first\<rparr>"
  obtain u where "?run ?s3 [return, Await (Replace u) a1, return]"
    using page_run.answer [OF r2, where i = 1 and c = "Get ?p1 (JObj [])" and k = a and a = "Returned (Inr first)"] one(2) by simp
  then have r3: "?run ?s3 [return, Await Tick a2, return]"
    using page_run.answer [of task_detail_init task_detail_handler ?s3 "[return, Await (Replace u) a1, return]" 1 "Replace u" a1 ?ok] one(3) by simp
  have "?run (?s3\<lparr>td_reportLoading := False\<rparr>) [return, return, return]"
    using page_run.answer [OF r3, where i = 1 and c = Tick and k = a2 and a = ?ok] one(4) by simp
  then show ?thesis by (intro exI conjI) (assumption, simp_all)
qed

theorem task_detail_outcome_witness:
  "\<exists>calls s'. exec td_load (constant_server (Inr (JObj []))) [] (task_detail_initial (S ''7'') []) = (Inr (), calls, s')
     \<and> \<not> td_loading s' \<and> td_report s' = JNull"
proof -
  let ?i = "task_detail_initial (S ''7'') []"
  obtain r calls s' where run: "exec td_load (constant_server (Inr (JObj []))) [] ?i = (r, calls, s')" by (metis prod_cases3)
  have path: "taskRunPath (td_id ?i) = Inr (js ''/task-runs/7'')"
    by (simp add: taskRunPath_def task_detail_initial_def js_def uri_unreserved_def)
  have "preferredRevision (?i\<lparr>td_taskRun := extractTaskRun (JObj [])\<rparr>) = []" by code_simp
  then show ?thesis using task_detail_outcome [OF constant_polite path run] run by (auto simp: report_outcome_def)
qed

end
