(* ===== verification/Controls.thy ===== *)
theory Controls imports PageContracts PageCommon RouterGuard begin

text \<open>
  The controls of a page as its template shows them: a control that is hidden or disabled does nothing.  A page run over its
  controls is what a user can bring about, while the handlers of a page alone are what its script would do for anyone.
\<close>

section \<open>Controls\<close>

definition guarded :: "('s \<Rightarrow> bool) \<Rightarrow> ('s, unit) task \<Rightarrow> ('s, unit) task" where
  "guarded on t = Look (\<lambda>s. if on s then t else return)"

text \<open>\<open>PermissionGate permission="admin"\<close>; when its computed value throws nothing is drawn.\<close>

definition admin_gate :: "session \<Rightarrow> bool" where
  "admin_gate ss \<longleftrightarrow> gate_allowed ss (js ''admin'') [] [] = Inr True"

abbreviation no_admin :: "session \<Rightarrow> bool" where
  "no_admin ss \<equiv> \<not> admin_gate ss"

lemma guarded_careful [task_intro]:
  "(\<And>s. P s \<Longrightarrow> on s \<Longrightarrow> careful P Q t) \<Longrightarrow> careful P Q (guarded on t)"
  by (simp add: guarded_def)

lemma segment_guarded [simp]: "segment (guarded on t) s = (if on s then segment t s else (s, return))"
  by (simp add: guarded_def)

section \<open>Reading\<close>

definition fetches :: "call \<Rightarrow> bool" where
  "fetches c \<longleftrightarrow> (\<exists>p q. c = Get p q)"

text \<open>Calls that change nothing outside the browser.\<close>

definition reading :: "call \<Rightarrow> bool" where
  "reading c = (case c of Post p b \<Rightarrow> False | Put p b \<Rightarrow> False | Upload p f \<Rightarrow> False | Login u p \<Rightarrow> False
     | All cs \<Rightarrow> list_all fetches cs | AllSettled cs \<Rightarrow> list_all fetches cs | _ \<Rightarrow> True)"

lemma reading_simps [simp]:
  "reading (Get p q)" "reading (Replace q)" "reading (Push q)" "reading Tick" "reading (ReadFile f)" "reading (StoreAction n v)"
  "reading (All cs) = list_all fetches cs" "reading (AllSettled cs) = list_all fetches cs" "fetches (Get p q)"
  "\<not> reading (Post p b)" "\<not> reading (Put p b)" "\<not> reading (Upload p f)"
  by (simp_all add: reading_def fetches_def)

text \<open>A condition on calls that every reading call meets.\<close>

locale tolerant =
  fixes Q :: "call \<Rightarrow> bool"
  assumes tolerates: "reading c \<Longrightarrow> Q c"
begin

lemma quiet [simp]: "Q (Get p q)" "Q (Replace q)" "Q (Push q)" "Q Tick" "Q (ReadFile f)" "list_all fetches cs \<Longrightarrow> Q (All cs)"
    "list_all fetches cs \<Longrightarrow> Q (AllSettled cs)"
  by (simp_all add: tolerates)

lemma reader_careful: "careful P reading t \<Longrightarrow> careful P Q t"
  by (induction t rule: task_induct) (simp_all add: tolerates)

end

interpretation readers: tolerant reading
  by unfold_locales

end
