(* ===== verification/Emulation.thy ===== *)
theory Emulation imports Controls begin

text \<open>
  One page relation emulates another: whatever a task of the second does before it first waits, a sequence of events of the
  first does too.  Then every run of the second is a run of the first, up to tasks that have ended.
\<close>

section \<open>Events in a row\<close>

text \<open>\<open>events handler s ts s'\<close>: handlers started one after the other lead from \<open>s\<close> to \<open>s'\<close> and leave \<open>ts\<close>.\<close>

inductive events :: "(('s, unit) task \<Rightarrow> bool) \<Rightarrow> 's \<Rightarrow> ('s, unit) task list \<Rightarrow> 's \<Rightarrow> bool" for handler where
  none: "events handler s [] s"
| more: "handler t \<Longrightarrow> segment t s = (s1, t1) \<Longrightarrow> events handler s1 ts s2 \<Longrightarrow> events handler s (t1 # ts) s2"

lemma run_events:
  "events handler s ts s' \<Longrightarrow> page_run init handler s ts0 \<Longrightarrow> page_run init handler s' (ts0 @ ts)"
proof (induction arbitrary: ts0 rule: events.induct)
  case (none s)
  then show ?case by simp
next
  case (more t s s1 t1 ts s2)
  have "page_run init handler s1 (ts0 @ [t1])" by (rule page_run.event [OF more.prems more.hyps(1,2)])
  from more.IH [OF this] show ?case by simp
qed

definition emulates :: "(('s, unit) task \<Rightarrow> bool) \<Rightarrow> ('s, unit) task \<Rightarrow> 's \<Rightarrow> bool" where
  "emulates handler t s \<longleftrightarrow> (\<exists>ts. events handler s ts (fst (segment t s)) \<and> filter is_pending ts = filter is_pending [snd (segment t s)])"

lemma emulates_handler:
  assumes "handler t"
  shows "emulates handler t s"
proof -
  obtain s1 t1 where seg: "segment t s = (s1, t1)" by fastforce
  have "events handler s [t1] s1" by (rule events.more [of handler t s s1 t1 "[]" s1, OF assms seg events.none])
  then show ?thesis using seg unfolding emulates_def by (intro exI [of _ "[t1]"]) simp
qed

lemma emulates_done: "emulates handler (Done r) s"
  unfolding emulates_def by (intro exI [of _ "[]"]) (auto intro: events.none)

lemma emulates_Look: "emulates handler (k s) s \<Longrightarrow> emulates handler (Look k) s"
  by (simp add: emulates_def)

lemma emulates_Update:
  assumes "handler (Update g return)" "g s = f s" "emulates handler t (f s)"
  shows "emulates handler (Update f t) s"
proof -
  obtain ts where ts: "events handler (f s) ts (fst (segment t (f s)))" "filter is_pending ts = filter is_pending [snd (segment t (f s))]"
    using assms(3) by (auto simp: emulates_def)
  then have "events handler s (return # ts) (fst (segment t (f s)))"
    using assms(1,2) by (intro events.more) auto
  then show ?thesis using ts(2) unfolding emulates_def by (intro exI [of _ "return # ts"]) simp
qed

lemma emulates_guarded: "(on s \<Longrightarrow> emulates handler t s) \<Longrightarrow> emulates handler (guarded on t) s"
  unfolding guarded_def by (intro emulates_Look) (simp add: emulates_done)

section \<open>Runs\<close>

lemma filter_split: "filter P us = xs @ ys \<Longrightarrow> \<exists>pre post. us = pre @ post \<and> filter P pre = xs \<and> filter P post = ys"
proof (induction us arbitrary: xs)
  case (Cons u us)
  show ?case
  proof (cases "P u \<and> xs \<noteq> []")
    case True
    then obtain xs' where "xs = u # xs'" "filter P us = xs' @ ys" using Cons.prems by (cases xs) auto
    then show ?thesis using Cons.IH [of xs'] True by (metis append_Cons filter.simps(2))
  next
    case False
    show ?thesis
    proof (cases "P u")
      case True
      then show ?thesis using False Cons.prems by (intro exI [of _ "[]"] exI [of _ "u # us"]) simp
    next
      case False
      then show ?thesis using Cons.IH [of xs] Cons.prems by (metis append_Cons filter.simps(2))
    qed
  qed
qed simp

lemma pending_at:
  assumes "filter is_pending us = filter is_pending ts" "i < length ts" "is_pending (ts ! i)"
  obtains j where "j < length us" "us ! j = ts ! i"
    "\<And>t. filter is_pending (us[j := t]) = filter is_pending (ts[i := t])"
proof -
  have ts: "ts = take i ts @ ts ! i # drop (Suc i) ts" using assms(2) by (rule id_take_nth_drop)
  then have "filter is_pending us = filter is_pending (take i ts) @ ts ! i # filter is_pending (drop (Suc i) ts)"
    using assms(1,3) by (metis filter.simps(2) filter_append)
  then obtain pre' post' where "us = pre' @ post'" "filter is_pending pre' = filter is_pending (take i ts)"
      "filter is_pending post' = ts ! i # filter is_pending (drop (Suc i) ts)" using filter_split by blast
  moreover from this(3) obtain mid post where "post' = mid @ ts ! i # post" "filter is_pending mid = []"
      "filter is_pending post = filter is_pending (drop (Suc i) ts)"
    by (auto simp: filter_eq_Cons_iff filter_empty_conv)
  ultimately have "us = (pre' @ mid) @ ts ! i # post" "filter is_pending (pre' @ mid) = filter is_pending (take i ts)"
      "filter is_pending post = filter is_pending (drop (Suc i) ts)" by simp_all
  then obtain pre post where us: "us = pre @ ts ! i # post" "filter is_pending pre = filter is_pending (take i ts)"
      "filter is_pending post = filter is_pending (drop (Suc i) ts)"
    by blast
  show thesis
  proof (rule that [of "length pre"])
    show "length pre < length us" "us ! length pre = ts ! i" using us(1) by simp_all
    show "filter is_pending (us[length pre := t]) = filter is_pending (ts[i := t])" for t
      using us assms(2) by (simp add: upd_conv_take_nth_drop)
  qed
qed

locale emulation =
  fixes init init' :: "'s \<Rightarrow> ('s, unit) task list \<Rightarrow> bool" and handler handler' :: "('s, unit) task \<Rightarrow> bool"
  assumes mounts: "init' s ts \<Longrightarrow> init s ts" and emulated: "handler' t \<Longrightarrow> emulates handler t s"
begin

theorem simulated:
  "page_run init' handler' s ts \<Longrightarrow> \<exists>us. page_run init handler s us \<and> filter is_pending us = filter is_pending ts"
proof (induction rule: page_run.induct)
  case (mount s ts)
  then show ?case by (intro exI [of _ ts]) (simp add: page_run.mount mounts)
next
  case (event s ts t s' t')
  then obtain us where us: "page_run init handler s us" "filter is_pending us = filter is_pending ts" by blast
  obtain es where es: "events handler s es s'" "filter is_pending es = filter is_pending [t']"
    using emulated [OF event.hyps(2), of s] event.hyps(3) by (auto simp: emulates_def)
  have "page_run init handler s' (us @ es)" using run_events [OF es(1) us(1)] .
  then show ?case using us(2) es(2) by (intro exI [of _ "us @ es"]) simp
next
  case (answer s ts i c k a s' t')
  then obtain us where us: "page_run init handler s us" "filter is_pending us = filter is_pending ts" by blast
  have "is_pending (ts ! i)" using answer.hyps by simp
  then obtain j where j: "j < length us" "us ! j = ts ! i" "\<And>t. filter is_pending (us[j := t]) = filter is_pending (ts[i := t])"
    using pending_at [OF us(2)] answer.hyps(2) by metis
  have "page_run init handler s' (us[j := t'])"
    using page_run.answer [OF us(1) j(1)] answer.hyps j(2) by simp
  then show ?case using j(3) by blast
qed

text \<open>What holds in every run of the first relation holds of the states and the pending calls of the second.\<close>

lemma carried_over:
  assumes "page_run init' handler' s ts" "\<And>us. page_run init handler s us \<Longrightarrow> filter is_pending us = filter is_pending ts \<Longrightarrow> thesis"
  shows thesis
  using simulated [OF assms(1)] assms(2) by blast

end

end
