(* ===== verification/ServiceDetailPage.thy ===== *)
theory ServiceDetailPage imports PageCommon ImportCodec NumberOps SessionStore begin

text \<open>
  \<open>views/ContractServiceDetailView.vue\<close>: one contract service with its revisions, and the upload of a new revision from
  a file that is checked in the browser first.
\<close>

section \<open>State\<close>

record service_detail =
  sd_id :: jsval
  sd_query :: props
  sd_session :: session
  sd_service :: jsval
  sd_tab :: jstr
  sd_loading :: bool
  sd_uploading :: bool
  sd_uploadPercent :: nat
  sd_error :: "jserror option"
  sd_fileError :: jstr
  sd_selectedFile :: "jsfile option"
  sd_uploadResult :: jsval
  sd_uploadReused :: bool
  sd_pushed :: "jsval list"

definition service_tabs :: "string list" where
  "service_tabs = [''overview'', ''revisions'', ''upload'']"

definition service_detail_initial :: "jsval \<Rightarrow> props \<Rightarrow> session \<Rightarrow> service_detail" where
  "service_detail_initial i q ss = \<lparr>sd_id = i, sd_query = q, sd_session = ss, sd_service = JNull,
     sd_tab = (let t = to_string (lookup_prop q (js ''tab'')) in if t \<in> set (map js service_tabs) then t else js ''overview''),
     sd_loading = False, sd_uploading = False, sd_uploadPercent = 0, sd_error = None, sd_fileError = [], sd_selectedFile = None,
     sd_uploadResult = JNull, sd_uploadReused = False, sd_pushed = []\<rparr>"

section \<open>What is shown\<close>

definition sd_revisions :: "service_detail \<Rightarrow> jsval" where
  "sd_revisions s = js_or (js_or (get_opt (sd_service s) (js ''revisions'')) (get_opt (sd_service s) (js ''revision_summaries''))) (JArr [])"

text \<open>\<open>session.isAdmin ?? ...\<close>: the getter is never nullish, so the right operand is never reached.\<close>

definition sd_isAdmin :: "service_detail \<Rightarrow> bool js" where
  "sd_isAdmin s = isAdmin (sd_session s)"

definition revisionNumber :: "jsval \<Rightarrow> jsval" where
  "revisionNumber row = js_coalesce (get_opt row (js ''revision_number'')) (get_opt row (js ''revision''))"

definition sd_formatBytes :: "jsval \<Rightarrow> jstr" where
  "sd_formatBytes v = size_text v"

definition openRevision :: "jsval \<Rightarrow> service_detail \<Rightarrow> service_detail" where
  "openRevision row s = (let number = revisionNumber row in if is_nullish number then s
     else s\<lparr>sd_pushed := sd_pushed s @ [JObj [(js ''name'', S ''contract-revision-detail''),
       (js ''params'', JObj [(js ''serviceId'', sd_id s), (js ''revisionNumber'', number)])]]\<rparr>)"

definition sd_syncTab :: "(service_detail, unit) task" where
  "sd_syncTab = Look (\<lambda>s. await_call (Replace (JObj [(js ''query'', JObj (put (sd_query s) (js ''tab'') (JStr (sd_tab s))))])) (\<lambda>r. return))"

section \<open>Loading\<close>

definition sd_load :: "(service_detail, unit) task" where
  "sd_load = Update (\<lambda>s. s\<lparr>sd_loading := True, sd_error := None\<rparr>) (try_finally (try_catch
     (Look (\<lambda>s. eval_js (servicePath (sd_id s)) (\<lambda>path. await_call (Get path (JObj [])) (\<lambda>r.
        eval_js (extractContractService r) (\<lambda>v. Update (\<lambda>s. s\<lparr>sd_service := v\<rparr>) return)))))
     (\<lambda>cause. Update (\<lambda>s. s\<lparr>sd_service := JNull, sd_error := Some cause\<rparr>) return))
     (\<lambda>s. s\<lparr>sd_loading := False\<rparr>))"

definition sd_mounted :: "(service_detail, unit) task" where
  "sd_mounted = await_task sd_load (\<lambda>r. await_task sd_syncTab (\<lambda>r. return))"

section \<open>The file\<close>

definition msg_file_kind :: jstr where "msg_file_kind = [0x4ec5, 0x652f, 0x6301, 32, 74, 83, 79, 78, 32, 0x6216, 32, 89, 65, 77, 76, 32,
     0x6587, 0x4ef6]"
definition msg_file_empty :: jstr where "msg_file_empty = [0x6587, 0x4ef6, 0x5185, 0x5bb9, 0x4e3a, 0x7a7a]"
definition msg_file_size :: jstr where "msg_file_size = [0x6587, 0x4ef6, 0x5927, 0x5c0f, 0x4e0d, 0x80fd, 0x8d85, 0x8fc7, 32, 50, 32, 77, 105,
     66]"
definition msg_file_json :: jstr where "msg_file_json = [74, 83, 79, 78, 32, 0x8bed, 0x6cd5, 0x65e0, 0x6548, 0xff0c, 0x8bf7, 0x4fee, 0x6b63,
     0x540e, 0x91cd, 0x8bd5]"
definition msg_file_utf8 :: jstr where "msg_file_utf8 = [0x6587, 0x4ef6, 0x5fc5, 0x987b, 0x4f7f, 0x7528, 32, 85, 84, 70, 45, 56, 32, 0x7f16,
     0x7801]"
definition msg_file_none :: jstr where "msg_file_none = [0x8bf7, 0x5148, 0x9009, 0x62e9, 0x6709, 0x6548, 0x7684, 32, 74, 83, 79, 78, 32,
     0x6216, 32, 89, 65, 77, 76, 32, 0x6587, 0x4ef6]"

text \<open>What is known of a file before it is read; an empty text stands for no fault.\<close>

definition file_fault :: "jsfile \<Rightarrow> jstr" where
  "file_fault f =
     (if fileExtension (file_name f) \<notin> {js ''json'', js ''yaml'', js ''yml''} then msg_file_kind
      else if file_size f = 0 then msg_file_empty
      else if 2 * 1024 * 1024 < file_size f then msg_file_size else [])"

text \<open>What the \<open>try\<close> block makes of the bytes, or of a file that cannot be read.\<close>

definition content_fault :: "jstr \<Rightarrow> nat list js \<Rightarrow> jstr" where
  "content_fault extension bytes = (case bytes of Inl e \<Rightarrow> msg_file_utf8 | Inr bs \<Rightarrow> (case text_decode bs of
       None \<Rightarrow> msg_file_utf8
     | Some text' \<Rightarrow> if extension = js ''json'' \<and> json_parse text' = None then msg_file_json else []))"

definition validateSelectedFile :: "jsfile \<Rightarrow> ('s, jstr) task" where
  "validateSelectedFile f = (if file_fault f \<noteq> [] then Done (Inr (file_fault f))
     else Await (ReadFile f) (\<lambda>a. Done (Inr (content_fault (fileExtension (file_name f)) (buffer a)))))"

definition file_cleared :: "service_detail \<Rightarrow> service_detail" where
  "file_cleared s = s\<lparr>sd_selectedFile := None, sd_uploadResult := JNull, sd_uploadReused := False, sd_fileError := [],
     sd_uploadPercent := 0\<rparr>"

definition file_checked :: "jsfile \<Rightarrow> jstr \<Rightarrow> service_detail \<Rightarrow> service_detail" where
  "file_checked f fault s = (if fault = [] then s\<lparr>sd_fileError := fault, sd_selectedFile := Some f\<rparr> else s\<lparr>sd_fileError := fault\<rparr>)"

definition selectFile :: "jsfile option \<Rightarrow> (service_detail, unit) task" where
  "selectFile picked = Update file_cleared (case picked of None \<Rightarrow> return
     | Some f \<Rightarrow> await_task (validateSelectedFile f) (\<lambda>fault. Update (file_checked f fault) return))"

definition clearFile :: "service_detail \<Rightarrow> service_detail" where
  "clearFile s = (if sd_uploading s then s else file_cleared s)"

section \<open>The upload\<close>

definition sd_upload_path :: "jsval \<Rightarrow> jstr js" where
  "sd_upload_path i = andThen (servicePath i) (\<lambda>p. Inr (p @ js ''/revisions''))"

definition sd_uploaded :: "jsval \<Rightarrow> service_detail \<Rightarrow> service_detail" where
  "sd_uploaded result s = s\<lparr>sd_uploadPercent := 100, sd_uploadResult := extractContractRevision result,
     sd_uploadReused := truthy (get_opt (get_opt result (js ''meta'')) (js ''reused'')), sd_selectedFile := None\<rparr>"

definition sd_upload :: "(service_detail, unit) task" where
  "sd_upload = Look (\<lambda>s. case sd_selectedFile s of
      None \<Rightarrow> Update (\<lambda>s. s\<lparr>sd_fileError := msg_file_none\<rparr>) return
    | Some f \<Rightarrow> if sd_uploading s then return
      else Update (\<lambda>s. s\<lparr>sd_uploading := True, sd_uploadPercent := 18, sd_error := None, sd_fileError := []\<rparr>)
        (try_finally (try_catch
          (Update (\<lambda>s. s\<lparr>sd_uploadPercent := 42\<rparr>) (eval_js (sd_upload_path (sd_id s)) (\<lambda>path. await_call (Upload path f) (\<lambda>result.
             Update (sd_uploaded result) (await_task sd_load (\<lambda>r. return))))))
          (\<lambda>cause. Update (\<lambda>s. s\<lparr>sd_uploadPercent := 0, sd_error := Some cause\<rparr>) return))
          (\<lambda>s. s\<lparr>sd_uploading := False\<rparr>)))"

section \<open>The page\<close>

definition sd_tabChanged :: "service_detail \<Rightarrow> service_detail" where
  "sd_tabChanged s = (let next' = to_string (js_or (lookup_prop (sd_query s) (js ''tab'')) (S ''overview''))
     in if next' \<in> set (map js service_tabs) \<and> next' \<noteq> sd_tab s then s\<lparr>sd_tab := next'\<rparr> else s)"

definition service_detail_init :: "service_detail \<Rightarrow> (service_detail, unit) task list \<Rightarrow> bool" where
  "service_detail_init s ts \<longleftrightarrow> (\<exists>i q ss t. segment sd_mounted (service_detail_initial i q ss) = (s, t) \<and> ts = [t])"

text \<open>A navigation changes the address; the watchers run after it, as events of their own.\<close>

inductive service_detail_handler :: "(service_detail, unit) task \<Rightarrow> bool" where
  "service_detail_handler sd_load"
| "service_detail_handler sd_syncTab"
| "service_detail_handler (Update (openRevision row) return)"
| "service_detail_handler (selectFile picked)"
| "service_detail_handler (Update clearFile return)"
| "service_detail_handler sd_upload"
| "service_detail_handler (Update (\<lambda>s. s\<lparr>sd_id := i, sd_query := q\<rparr>) return)"
| "service_detail_handler (Update sd_tabChanged return)"
| "service_detail_handler (Update (\<lambda>s. s\<lparr>sd_session := ss\<rparr>) return)"
| "t \<in> set (map js service_tabs) \<Longrightarrow> service_detail_handler (Update (\<lambda>s. s\<lparr>sd_tab := t\<rparr>) return)"
| "service_detail_handler (Update (\<lambda>s. s\<lparr>sd_pushed := sd_pushed s @ [JObj [(js ''name'', S ''contract-services'')]]\<rparr>) return)"

end
