(* ===== verification/ServiceDetailLaws.thy ===== *)
theory ServiceDetailLaws imports ServiceDetailPage begin

text \<open>The page of one service: what is uploaded, one upload at a time, what the check of a file means, and a file that
  comes back after another one was picked.\<close>

section \<open>Uploads\<close>

definition is_upload :: "call \<Rightarrow> bool" where
  "is_upload c \<longleftrightarrow> (\<exists>p f. c = Upload p f)"

definition checked_upload :: "call \<Rightarrow> bool" where
  "checked_upload c \<longleftrightarrow> (\<forall>p f. c = Upload p f \<longrightarrow> file_fault f = [])"

definition selection_checked :: "service_detail \<Rightarrow> bool" where
  "selection_checked s \<longleftrightarrow> (\<forall>f. sd_selectedFile s = Some f \<longrightarrow> file_fault f = [])"

lemma upload_simps [simp]:
  "is_upload (Upload p f)" "\<not> is_upload (Get p q)" "\<not> is_upload (Replace q)" "\<not> is_upload Tick" "\<not> is_upload (ReadFile f)"
  "checked_upload (Get p q)" "checked_upload (Replace q)" "checked_upload Tick" "checked_upload (ReadFile f)"
  "checked_upload (Upload p f) \<longleftrightarrow> file_fault f = []"
  by (auto simp: is_upload_def checked_upload_def)

lemma service_neutral [simp]:
  "neutral sd_uploading is_upload sd_load" "neutral sd_uploading is_upload sd_syncTab" "neutral sd_uploading is_upload sd_mounted"
  "neutral sd_uploading is_upload (selectFile picked)"
  by (auto simp: sd_load_def sd_syncTab_def sd_mounted_def selectFile_def validateSelectedFile_def file_cleared_def file_checked_def
      intro!: task_intro split: option.split if_splits)

lemma load_indifferent: "indifferent sd_uploading sd_load"
  by (rule neutral_indifferent [OF service_neutral(1)])

lemma upload_disciplined: "lock_ok sd_uploading is_upload sd_upload False s"
  by (auto simp: sd_upload_def sd_uploaded_def await_call_def eval_js_def
      intro!: lock_ok_release task_intro load_indifferent split: sum.split option.split)

interpretation upload_lock: locked_page service_detail_init service_detail_handler sd_uploading is_upload
proof
  show "\<not> sd_uploading s \<and> (\<forall>t \<in> set ts. neutral sd_uploading is_upload t)" if mounted: "service_detail_init s ts" for s ts
  proof -
    obtain i q ss t where run: "segment sd_mounted (service_detail_initial i q ss) = (s, t)" "ts = [t]"
      using mounted by (auto simp: service_detail_init_def)
    have "keeps (\<lambda>s. \<not> sd_uploading s) sd_mounted"
      by (auto simp: sd_mounted_def sd_load_def sd_syncTab_def intro!: task_intro)
    moreover have "\<not> sd_uploading (service_detail_initial i q ss)" by (simp add: service_detail_initial_def)
    ultimately show ?thesis
      using careful_segment [OF _ _ run(1)] neutral_segment [OF service_neutral(3) run(1)] run(2) by auto
  qed
  show "lock_ok sd_uploading is_upload t False s" if "service_detail_handler t" for t s
    using that
    by cases (auto simp: openRevision_def clearFile_def file_cleared_def sd_tabChanged_def Let_def
      intro!: neutral_lock_ok task_intro upload_disciplined)
qed

lemma selection_frame [simp]:
  "selection_checked (file_cleared s)" "selection_checked (sd_uploaded r s)"
  "selection_checked (s\<lparr>sd_loading := b\<rparr>) = selection_checked s" "selection_checked (s\<lparr>sd_error := e\<rparr>) = selection_checked s"
  "selection_checked (s\<lparr>sd_service := v\<rparr>) = selection_checked s" "selection_checked (s\<lparr>sd_uploading := b\<rparr>) = selection_checked s"
  "selection_checked (s\<lparr>sd_uploadPercent := n\<rparr>) = selection_checked s" "selection_checked (s\<lparr>sd_fileError := u\<rparr>) = selection_checked s"
  "selection_checked (s\<lparr>sd_id := i\<rparr>) = selection_checked s" "selection_checked (s\<lparr>sd_query := q\<rparr>) = selection_checked s"
  "selection_checked (s\<lparr>sd_session := ss\<rparr>) = selection_checked s" "selection_checked (s\<lparr>sd_tab := u\<rparr>) = selection_checked s"
  "selection_checked (s\<lparr>sd_pushed := us\<rparr>) = selection_checked s"
  by (simp_all add: selection_checked_def file_cleared_def sd_uploaded_def)

lemma file_checked_ok: "selection_checked s \<Longrightarrow> fault = [] \<longrightarrow> file_fault f = [] \<Longrightarrow> selection_checked (file_checked f fault s)"
  by (auto simp: selection_checked_def file_checked_def)

lemma load_careful [simp]:
  "careful selection_checked checked_upload sd_load" "careful selection_checked checked_upload sd_syncTab"
  "careful selection_checked checked_upload sd_mounted"
  by (auto simp: sd_load_def sd_syncTab_def sd_mounted_def intro!: task_intro)

lemma select_careful: "careful selection_checked checked_upload (selectFile picked)"
  by (auto simp: selectFile_def validateSelectedFile_def await_task_def intro!: file_checked_ok split: option.split)

lemma upload_careful: "careful selection_checked checked_upload sd_upload"
  by (auto simp: sd_upload_def selection_checked_def [THEN iffD1] intro!: task_intro split: option.split)

interpretation upload_calls: careful_page service_detail_init service_detail_handler selection_checked checked_upload
proof
  show "selection_checked s \<and> (\<forall>t \<in> set ts. careful selection_checked checked_upload t)" if mounted: "service_detail_init s ts" for s ts
  proof -
    obtain i q ss t where run: "segment sd_mounted (service_detail_initial i q ss) = (s, t)" "ts = [t]"
      using mounted by (auto simp: service_detail_init_def)
    have "selection_checked (service_detail_initial i q ss)" by (simp add: service_detail_initial_def selection_checked_def)
    then show ?thesis using careful_segment [OF load_careful(3) _ run(1)] run(2) by auto
  qed
  show "careful selection_checked checked_upload t" if "service_detail_handler t" for t
    using that
    by cases (auto simp: openRevision_def clearFile_def sd_tabChanged_def Let_def intro!: task_intro upload_careful select_careful)
qed


section \<open>The check of a file\<close>

lemma faults_are_texts [simp]:
  "msg_file_kind \<noteq> []" "msg_file_empty \<noteq> []" "msg_file_size \<noteq> []" "msg_file_json \<noteq> []" "msg_file_utf8 \<noteq> []"
  by (simp_all add: msg_file_kind_def msg_file_empty_def msg_file_size_def msg_file_json_def msg_file_utf8_def)

lemma file_fault_none: "file_fault f = [] \<longleftrightarrow>
    fileExtension (file_name f) \<in> {js ''json'', js ''yaml'', js ''yml''} \<and> file_size f \<noteq> 0 \<and> file_size f \<le> 2 * 1024 * 1024"
  by (auto simp: file_fault_def)

lemma content_fault_none: "content_fault e r = [] \<longleftrightarrow>
    (\<exists>bytes text'. r = Inr bytes \<and> text_decode bytes = Some text' \<and> (e = js ''json'' \<longrightarrow> json_parse text' \<noteq> None))"
  by (cases r) (auto simp: content_fault_def split: option.split)

text \<open>C33. The check never throws and changes nothing; it reads the file at most once, and not at all when its name or size is
  refused already.  It finds no fault exactly if the extension is admitted, the size is between one byte and two MiB, and
  the file can be read, is well-formed UTF-8, and is JSON if it is called so.\<close>

theorem file_check_exact:
  assumes "exec (validateSelectedFile f) srv tr s = (r, tr', s')"
  shows "s' = s \<and> (\<exists>fault. r = Inr fault \<and> (fault = [] \<longleftrightarrow>
      fileExtension (file_name f) \<in> {js ''json'', js ''yaml'', js ''yml''} \<and> file_size f \<noteq> 0 \<and> file_size f \<le> 2 * 1024 * 1024
      \<and> (\<exists>bytes text'. buffer (srv tr (ReadFile f)) = Inr bytes \<and> text_decode bytes = Some text'
           \<and> (fileExtension (file_name f) = js ''json'' \<longrightarrow> json_parse text' \<noteq> None))))
    \<and> tr' = (if file_fault f = [] then tr @ [ReadFile f] else tr)"
proof (cases "file_fault f = []")
  case True
  then have "r = Inr (content_fault (fileExtension (file_name f)) (buffer (srv tr (ReadFile f))))" "tr' = tr @ [ReadFile f]" "s' = s"
    using assms by (simp_all add: validateSelectedFile_def)
  then show ?thesis using True file_fault_none [of f] content_fault_none by simp
next
  case False
  then have "r = Inr (file_fault f)" "tr' = tr" "s' = s" using assms by (simp_all add: validateSelectedFile_def)
  then show ?thesis using False file_fault_none [of f] by (intro conjI exI [of _ "file_fault f"]) (blast | simp)+
qed

definition small_json :: jsfile where
  "small_json = \<lparr>file_name = S ''a.json'', file_size = 2, file_modified = N 0, file_tag = 0\<rparr>"

lemma small_json_accepted: "file_fault small_json = []" "content_fault (fileExtension (file_name small_json)) (Inr [123, 125]) = []"
  by code_simp+

theorem file_check_exact_witness:
  "\<exists>r tr'. exec (validateSelectedFile small_json) (\<lambda>tr c. Buffer (Inr [123, 125])) [] () = (r, tr', ()) \<and> r = Inr []"
proof -
  obtain r tr' s' where run: "exec (validateSelectedFile small_json) (\<lambda>tr c. Buffer (Inr [123, 125])) [] () = (r, tr', s')"
    by (metis prod_cases3)
  have "text_decode [123, 125] = Some [123, 125]" "json_parse [123, 125] \<noteq> None"
    "fileExtension (file_name small_json) = js ''json''" "file_size small_json = 2" by code_simp+
  then show ?thesis using file_check_exact [OF run] run by auto
qed

section \<open>A file that comes back\<close>


lemma service_mounted:
  "\<exists>s t. page_run service_detail_init service_detail_handler s [t] \<and> sd_id s = S ''7'' \<and> \<not> sd_uploading s"
proof -
  let ?i = "service_detail_initial (S ''7'') [] (initial_session None)"
  have i: "sd_id ?i = S ''7''" "\<not> sd_uploading ?i" by (simp_all add: service_detail_initial_def)
  then obtain t where "segment sd_mounted ?i = (?i\<lparr>sd_loading := True, sd_error := None\<rparr>, t)"
    by (simp add: sd_mounted_def sd_load_def servicePath_def await_call_def await_task_def eval_js_def js_def uri_unreserved_def)
  then have "page_run service_detail_init service_detail_handler (?i\<lparr>sd_loading := True, sd_error := None\<rparr>) [t]"
    by (intro page_run.mount) (auto simp: service_detail_init_def)
  then show ?thesis using i by (intro exI conjI) (assumption, simp_all)
qed



end
