(* ===== verification/RevisionDetailPage.thy ===== *)
theory RevisionDetailPage imports PageCommon NumberOps SessionStore begin

text \<open>
  \<open>views/ContractRevisionDetailView.vue\<close>: one revision of a contract with its validation, operations and documents, and
  its publication, which sends the hash of the content that was shown.
\<close>

section \<open>State\<close>

text \<open>An error that was caught, or the one that the page builds for a conflict.\<close>

datatype page_error = CaughtError jserror | Conflict jstr jsval

record revision_detail =
  rd_serviceId :: jsval
  rd_number :: jsval
  rd_query :: props
  rd_session :: session
  rd_service :: jsval
  rd_revision :: jsval
  rd_tab :: jstr
  rd_loading :: bool
  rd_publishing :: bool
  rd_publishVisible :: bool
  rd_error :: "page_error option"
  rd_success :: jstr

definition revision_tabs :: "string list" where
  "revision_tabs = [''validation'', ''operations'', ''specification'', ''markdown'']"

definition revision_detail_initial :: "jsval \<Rightarrow> jsval \<Rightarrow> props \<Rightarrow> session \<Rightarrow> revision_detail" where
  "revision_detail_initial i n q ss = \<lparr>rd_serviceId = i, rd_number = n, rd_query = q, rd_session = ss, rd_service = JNull, rd_revision = JNull,
     rd_tab = (let t = to_string (lookup_prop q (js ''tab'')) in if t \<in> set (map js revision_tabs) then t else js ''validation''),
     rd_loading = False, rd_publishing = False, rd_publishVisible = False, rd_error = None, rd_success = []\<rparr>"

section \<open>What is shown\<close>

definition rd_shown :: "revision_detail \<Rightarrow> jsval" where
  "rd_shown s = js_or (rd_revision s) (JObj [])"

definition rd_validation :: "revision_detail \<Rightarrow> validation js" where
  "rd_validation s = getContractValidation (rd_shown s)"

definition rd_operations :: "revision_detail \<Rightarrow> jsval list" where
  "rd_operations s = elems (get_opt (rd_revision s) (js ''operations''))"

definition rd_markdown :: "revision_detail \<Rightarrow> jsval" where
  "rd_markdown s = getContractRevisionMarkdown (rd_shown s)"

definition normalizedDocument :: "revision_detail \<Rightarrow> jsval" where
  "normalizedDocument s = (let r = (\<lambda>k. get_opt (rd_revision s) (js k)) in
     js_or (js_or (js_or (r ''normalized_document'') (r ''normalized_spec'')) (r ''document'')) (JObj []))"

text \<open>\<open>session.isAdmin ?? ...\<close>: the getter is never nullish, so the right operand is never reached.\<close>

definition rd_isAdmin :: "revision_detail \<Rightarrow> bool js" where
  "rd_isAdmin s = isAdmin (rd_session s)"

definition publishAllowed :: "revision_detail \<Rightarrow> bool js" where
  "publishAllowed s = andThen (rd_isAdmin s) (\<lambda>a. if a then canPublishContractRevision (rd_shown s) else Inr False)"

definition revisionValue :: "revision_detail \<Rightarrow> jsval \<Rightarrow> jsval" where
  "revisionValue s v = js_coalesce (js_coalesce (get_opt v (js ''revision_number'')) (get_opt v (js ''revision''))) (rd_number s)"

definition rd_formatBytes :: "jsval \<Rightarrow> jstr" where
  "rd_formatBytes v = size_text v"

definition validationMessage :: "jsval \<Rightarrow> jsval" where
  "validationMessage item = (let m = get_opt item (js ''message''); c = get_opt item (js ''code'') in
     case item of JStr s \<Rightarrow> item
     | _ \<Rightarrow> if truthy m \<and> truthy c then JStr (to_string m @ [0xff08] @ to_string c @ [0xff09])
            else if truthy m then m else json_stringify item)"

text \<open>\<open>toUpperCase\<close>, for the letters and the ligatures whose upper case is made of ASCII letters.\<close>

definition upper_unit :: "nat \<Rightarrow> jstr" where
  "upper_unit c = (if 97 \<le> c \<and> c \<le> 122 then [c - 32] else if c = 0x131 then [73] else if c = 0x17f then [83]
     else if c = 0xdf then [83, 83] else if c = 0xfb00 then [70, 70] else if c = 0xfb01 then [70, 73] else if c = 0xfb02 then [70, 76]
     else if c = 0xfb03 then [70, 70, 73] else if c = 0xfb04 then [70, 70, 76] else if c = 0xfb05 \<or> c = 0xfb06 then [83, 84] else [c])"

definition methodType :: "jsval \<Rightarrow> string" where
  "methodType method = (let value' = concat (map upper_unit (text_or_empty method)) in
     if value' = js ''GET'' then ''success''
     else if value' = js ''DELETE'' then ''danger''
     else if value' \<in> {js ''POST'', js ''PUT'', js ''PATCH''} then ''warning'' else ''info'')"

section \<open>Loading\<close>

definition rd_synced :: "revision_detail \<Rightarrow> props" where
  "rd_synced s = put (rd_query s) (js ''tab'') (JStr (rd_tab s))"

definition rd_syncTab :: "(revision_detail, unit) task" where
  "rd_syncTab = Look (\<lambda>s. await_call (Replace (JObj [(js ''query'', JObj (rd_synced s))])) (\<lambda>r. return))"

definition rd_loaded :: "jsval \<Rightarrow> (revision_detail, unit) task" where
  "rd_loaded both = (case elems both of
      [revisionResult, serviceResult] \<Rightarrow> Update (\<lambda>s. s\<lparr>rd_revision := extractContractRevision revisionResult\<rparr>)
        (eval_js (extractContractService serviceResult) (\<lambda>v. Update (\<lambda>s. s\<lparr>rd_service := v\<rparr>) (await_task rd_syncTab (\<lambda>r. return))))
    | _ \<Rightarrow> throw TypeError)"

definition rd_load :: "bool \<Rightarrow> (revision_detail, unit) task" where
  "rd_load keepFeedback = Update (\<lambda>s. if keepFeedback then s\<lparr>rd_loading := True\<rparr> else s\<lparr>rd_loading := True, rd_error := None, rd_success := []\<rparr>)
     (try_finally (try_catch
       (Look (\<lambda>s. eval_js (revisionPath (rd_serviceId s) (rd_number s)) (\<lambda>p1. eval_js (servicePath (rd_serviceId s)) (\<lambda>p2.
          await_call (All [Get p1 (JObj []), Get p2 (JObj [])]) rd_loaded))))
       (\<lambda>cause. Update (\<lambda>s. s\<lparr>rd_revision := JNull, rd_error := Some (CaughtError cause)\<rparr>) return))
       (\<lambda>s. s\<lparr>rd_loading := False\<rparr>))"

section \<open>Publishing\<close>

definition openPublish :: "(revision_detail, unit) task" where
  "openPublish = Look (\<lambda>s. eval_js (publishAllowed s) (\<lambda>a. if a then Update (\<lambda>s. s\<lparr>rd_publishVisible := True\<rparr>) return else return))"

definition publish_path :: "jsval \<Rightarrow> jsval \<Rightarrow> jstr js" where
  "publish_path i n = andThen (revisionPath i n) (\<lambda>p. Inr (p @ js ''/publish''))"

definition publish_body :: "jsval \<Rightarrow> jsval" where
  "publish_body expectedHash = JObj [(js ''expected_content_hash'', expectedHash)]"

definition msg_published :: "jsval \<Rightarrow> jstr" where
  "msg_published v = js ''Revision v'' @ to_string v @ [32, 0x5df2, 0x53d1, 0x5e03]"

definition msg_conflict :: jstr where
  "msg_conflict = [82, 101, 118, 105, 115, 105, 111, 110, 32, 0x5185, 0x5bb9, 0x6216, 0x72b6, 0x6001,
     0x5df2, 0x53d8, 0x5316, 0xff0c, 0x9875, 0x9762, 0x5df2, 0x5237, 0x65b0, 0xff1b,
     0x8bf7, 0x6838, 0x5bf9, 0x6700, 0x65b0, 0x54c8, 0x5e0c, 0x548c, 0x72b6, 0x6001,
     0x540e, 0x518d, 0x64cd, 0x4f5c, 0x3002]"

definition error_requestId :: "jserror \<Rightarrow> jsval" where
  "error_requestId e = (case e of AdminApiError a \<Rightarrow> ae_requestId a | HostError v \<Rightarrow> get_opt v (js ''requestId'') | _ \<Rightarrow> JUndef)"

definition published :: "jsval \<Rightarrow> revision_detail \<Rightarrow> revision_detail" where
  "published result s = s\<lparr>rd_revision := extractContractRevision result, rd_publishVisible := False,
     rd_success := msg_published (revisionValue s (extractContractRevision result))\<rparr>"

definition publish_failed :: "jserror \<Rightarrow> (revision_detail, unit) task" where
  "publish_failed cause = (if strict_eq (error_status cause) (N 409)
     then await_task (rd_load True) (\<lambda>r. Update (\<lambda>s. s\<lparr>rd_error := Some (Conflict msg_conflict (error_requestId cause)), rd_publishVisible := False\<rparr>) return)
     else Update (\<lambda>s. s\<lparr>rd_error := Some (CaughtError cause)\<rparr>) return)"

definition publish :: "(revision_detail, unit) task" where
  "publish = Look (\<lambda>s. eval_js (publishAllowed s) (\<lambda>allowed. if \<not> allowed \<or> rd_publishing s then return
     else Update (\<lambda>s. s\<lparr>rd_publishing := True, rd_error := None, rd_success := []\<rparr>) (try_finally (try_catch
       (eval_js (publish_path (rd_serviceId s) (rd_number s)) (\<lambda>path.
         await_call (Post path (publish_body (get_prop (rd_revision s) (js ''content_hash'')))) (\<lambda>result.
           Update (published result) (await_task (rd_load True) (\<lambda>r. return)))))
       publish_failed)
       (\<lambda>s. s\<lparr>rd_publishing := False\<rparr>))))"

section \<open>The page\<close>

definition rd_tabChanged :: "revision_detail \<Rightarrow> revision_detail" where
  "rd_tabChanged s = (let next' = to_string (js_or (lookup_prop (rd_query s) (js ''tab'')) (S ''validation''))
     in if next' \<in> set (map js revision_tabs) \<and> next' \<noteq> rd_tab s then s\<lparr>rd_tab := next'\<rparr> else s)"

definition revision_detail_init :: "revision_detail \<Rightarrow> (revision_detail, unit) task list \<Rightarrow> bool" where
  "revision_detail_init s ts \<longleftrightarrow> (\<exists>i n q ss t. segment (rd_load False) (revision_detail_initial i n q ss) = (s, t) \<and> ts = [t])"

text \<open>A navigation changes the address; the watchers run after it, as events of their own.\<close>

inductive revision_detail_handler :: "(revision_detail, unit) task \<Rightarrow> bool" where
  "revision_detail_handler (rd_load False)"
| "revision_detail_handler rd_syncTab"
| "revision_detail_handler openPublish"
| "revision_detail_handler publish"
| "revision_detail_handler (Update (\<lambda>s. s\<lparr>rd_publishVisible := v\<rparr>) return)"
| "revision_detail_handler (Update (\<lambda>s. s\<lparr>rd_success := []\<rparr>) return)"
| "revision_detail_handler (Update (\<lambda>s. s\<lparr>rd_serviceId := i, rd_number := n, rd_query := q\<rparr>) return)"
| "revision_detail_handler (Update rd_tabChanged return)"
| "revision_detail_handler (Update (\<lambda>s. s\<lparr>rd_session := ss\<rparr>) return)"
| "t \<in> set (map js revision_tabs) \<Longrightarrow> revision_detail_handler (Update (\<lambda>s. s\<lparr>rd_tab := t\<rparr>) return)"

end
