(* ===== verification/RevisionDetailLaws.thy ===== *)
theory RevisionDetailLaws imports RevisionDetailPage begin

text \<open>The page of one revision: one publication at a time, only of what was shown and may be published, and its outcome.\<close>

section \<open>Publications\<close>

definition is_post :: "call \<Rightarrow> bool" where
  "is_post c \<longleftrightarrow> (\<exists>p b. c = Post p b)"

definition publishes_shown :: "call \<Rightarrow> bool" where
  "publishes_shown c \<longleftrightarrow> (\<forall>p b. c = Post p b \<longrightarrow>
     (\<exists>r. canPublishContractRevision r = Inr True \<and> b = publish_body (get_prop r (js ''content_hash''))))"

lemma post_simps [simp]:
  "is_post (Post p b)" "\<not> is_post (Get p q)" "\<not> is_post (All cs)" "\<not> is_post (Replace q)" "\<not> is_post Tick"
  "publishes_shown (Get p q)" "publishes_shown (All cs)" "publishes_shown (Replace q)" "publishes_shown Tick"
  by (auto simp: is_post_def publishes_shown_def)

lemma allowed_shown:
  assumes "publishAllowed s = Inr True"
  shows "isAdmin (rd_session s) = Inr True" "canPublishContractRevision (rd_revision s) = Inr True"
proof -
  have shown': "isAdmin (rd_session s) = Inr True" "canPublishContractRevision (rd_shown s) = Inr True"
    using assms by (auto simp: publishAllowed_def rd_isAdmin_def andThen_Inr_iff split: if_splits)
  then show "isAdmin (rd_session s) = Inr True" by simp
  have "canPublishContractRevision (JObj []) = Inr False" by code_simp
  then have "truthy (rd_revision s)" using shown'(2) by (auto simp: rd_shown_def js_or_def split: if_splits)
  then show "canPublishContractRevision (rd_revision s) = Inr True" using shown'(2) by (simp add: rd_shown_def js_or_def)
qed

lemma rd_load_neutral [simp]:
  "neutral rd_publishing is_post (rd_load keep)" "neutral rd_publishing is_post rd_syncTab" "neutral rd_publishing is_post openPublish"
  by (auto simp: rd_load_def rd_loaded_def rd_syncTab_def openPublish_def intro!: task_intro split: list.split)

lemma failed_indifferent: "indifferent rd_publishing (publish_failed cause)"
  by (auto simp: publish_failed_def intro!: task_intro neutral_indifferent [OF rd_load_neutral(1)])

lemma publish_disciplined: "lock_ok rd_publishing is_post publish False s"
  by (auto simp: publish_def published_def await_call_def eval_js_def
      intro!: lock_ok_release task_intro failed_indifferent neutral_indifferent [OF rd_load_neutral(1)] split: sum.split)

lemma rd_load_keeps: "keeps (\<lambda>s. \<not> rd_publishing s) (rd_load keep)"
  by (auto simp: rd_load_def rd_loaded_def rd_syncTab_def intro!: task_intro split: list.split)

interpretation publish_lock: locked_page revision_detail_init revision_detail_handler rd_publishing is_post
proof
  show "\<not> rd_publishing s \<and> (\<forall>t \<in> set ts. neutral rd_publishing is_post t)" if mounted: "revision_detail_init s ts" for s ts
  proof -
    obtain i n q ss t where run: "segment (rd_load False) (revision_detail_initial i n q ss) = (s, t)" "ts = [t]"
      using mounted by (auto simp: revision_detail_init_def)
    moreover have "\<not> rd_publishing (revision_detail_initial i n q ss)" by (simp add: revision_detail_initial_def)
    ultimately show ?thesis
      using careful_segment [OF rd_load_keeps _ run(1)] neutral_segment [OF rd_load_neutral(1) run(1)] by auto
  qed
  show "lock_ok rd_publishing is_post t False s" if "revision_detail_handler t" for t s
    using that
    by cases (auto simp: rd_tabChanged_def Let_def intro!: neutral_lock_ok task_intro publish_disciplined)
qed

lemma rd_load_sends [simp]: "sends publishes_shown (rd_load keep)" "sends publishes_shown rd_syncTab" "sends publishes_shown openPublish"
  by (auto simp: rd_load_def rd_loaded_def rd_syncTab_def openPublish_def intro!: task_intro split: list.split)

lemma shown_published:
  "publishAllowed s = Inr True \<Longrightarrow> publishes_shown (Post p (publish_body (get_prop (rd_revision s) (js ''content_hash''))))"
  using allowed_shown(2) [of s] by (auto simp: publishes_shown_def)

lemma publish_sends: "sends publishes_shown publish"
  by (auto simp: publish_def publish_failed_def intro!: task_intro shown_published)

interpretation publish_calls: careful_page revision_detail_init revision_detail_handler "\<lambda>s. True" publishes_shown
proof
  show "True \<and> (\<forall>t \<in> set ts. sends publishes_shown t)" if "revision_detail_init s ts" for s ts
    using that careful_segment [OF rd_load_sends(1)] by (auto simp: revision_detail_init_def)
  show "sends publishes_shown t" if "revision_detail_handler t" for t
    using that by cases (auto intro!: task_intro publish_sends)
qed


section \<open>The outcome\<close>

lemma exec_syncTab:
  assumes "polite srv"
  shows "exec rd_syncTab srv tr u = (Inr (), tr @ [Replace (JObj [(js ''query'', JObj (rd_synced u))])], u)"
proof -
  have "suits (Replace (JObj [(js ''query'', JObj (rd_synced u))])) (srv tr (Replace (JObj [(js ''query'', JObj (rd_synced u))])))"
    using assms by (simp add: polite_def)
  then show ?thesis by (auto simp: rd_syncTab_def exec_simps)
qed

lemma exec_loaded:
  assumes "polite srv" "exec (rd_loaded both) srv tr s = (r, tr', s')"
  shows "rd_publishing s' = rd_publishing s" "rd_publishVisible s' = rd_publishVisible s" "rd_success s' = rd_success s"
    "\<exists>more. tr' = tr @ more"
  using assms(2) by (auto simp: rd_loaded_def exec_simps exec_syncTab [OF assms(1)] split: list.splits sum.splits)

lemma exec_reload:
  assumes "polite srv" "revisionPath (rd_serviceId s) (rd_number s) = Inr q" "servicePath (rd_serviceId s) = Inr q'"
    "exec (rd_load True) srv tr s = (r, tr', s')"
  shows "r = Inr ()" "rd_publishing s' = rd_publishing s" "rd_publishVisible s' = rd_publishVisible s" "rd_success s' = rd_success s"
    "\<exists>more. tr' = tr @ All [Get q (JObj []), Get q' (JObj [])] # more"
proof -
  let ?c = "All [Get q (JObj []), Get q' (JObj [])]" and ?s1 = "s\<lparr>rd_loading := True\<rparr>"
  obtain r1 tr1 s1 where loaded: "exec (rd_loaded (case returned (srv tr ?c) of Inr v \<Rightarrow> v | Inl e \<Rightarrow> JNull)) srv (tr @ [?c]) ?s1 = (r1, tr1, s1)"
    by (metis prod_cases3)
  note facts = exec_loaded [OF assms(1) loaded]
  show "r = Inr ()" "rd_publishing s' = rd_publishing s" "rd_publishVisible s' = rd_publishVisible s" "rd_success s' = rd_success s"
    "\<exists>more. tr' = tr @ ?c # more"
    using assms(2-4) loaded facts by (auto simp: rd_load_def exec_simps split: sum.splits)
qed

lemma publish_paths:
  assumes "publish_path i n = Inr p"
  obtains q q' where "revisionPath i n = Inr q" "servicePath i = Inr q'"
  using assms by (auto simp: publish_path_def revisionPath_def andThen_Inr_iff)

text \<open>C7. The outcome of a publication that is allowed, whatever the service answers.  The first request carries the hash that is
  shown.  If it is accepted, the dialog closes, the success is reported and the page is loaded again.  If it is refused as a
  conflict, the page is loaded again, the dialog closes, and the conflict is shown with the number of the request.  Any other
  failure is shown as it is, and the revision and the dialog stay.  The button is free in every case.\<close>

theorem publish_outcome:
  assumes "polite srv" "publishAllowed s = Inr True" "\<not> rd_publishing s" "publish_path (rd_serviceId s) (rd_number s) = Inr p"
    "exec publish srv [] s = (r, calls, s')"
  shows "r = Inr () \<and> \<not> rd_publishing s' \<and> (\<exists>more.
      calls = Post p (publish_body (get_prop (rd_revision s) (js ''content_hash''))) # more \<and>
      (case returned (srv [] (hd calls)) of
        Inr v \<Rightarrow> \<not> rd_publishVisible s' \<and> rd_success s' = msg_published (revisionValue s (extractContractRevision v))
          \<and> (\<exists>gets. more \<noteq> [] \<and> hd more = All gets)
      | Inl e \<Rightarrow> if strict_eq (error_status e) (N 409)
          then \<not> rd_publishVisible s' \<and> rd_error s' = Some (Conflict msg_conflict (error_requestId e)) \<and> rd_success s' = []
            \<and> (\<exists>gets. more \<noteq> [] \<and> hd more = All gets)
          else more = [] \<and> rd_error s' = Some (CaughtError e) \<and> rd_revision s' = rd_revision s
            \<and> rd_publishVisible s' = rd_publishVisible s \<and> rd_success s' = []))"
proof -
  let ?c = "Post p (publish_body (get_prop (rd_revision s) (js ''content_hash'')))"
  let ?s1 = "s\<lparr>rd_publishing := True, rd_error := None, rd_success := []\<rparr>"
  obtain q q' where paths: "revisionPath (rd_serviceId s) (rd_number s) = Inr q" "servicePath (rd_serviceId s) = Inr q'"
    using publish_paths [OF assms(4)] .
  have value': "revisionValue ?s1 v = revisionValue s v" for v by (simp add: revisionValue_def)
  show ?thesis
  proof (cases "returned (srv [] ?c)")
    case (Inl e)
    obtain r2 tr2 s2 where run: "exec (rd_load True) srv [?c] ?s1 = (r2, tr2, s2)" by (metis prod_cases3)
    then obtain more where "r2 = Inr ()" "tr2 = ?c # All [Get q (JObj []), Get q' (JObj [])] # more" "rd_success s2 = []"
      using exec_reload [OF assms(1) _ _ run, of q q'] paths by auto
    then show ?thesis
      using assms(2-5) Inl run by (auto simp: publish_def publish_failed_def exec_simps split: if_splits)
  next
    case (Inr v)
    obtain r2 tr2 s2 where run: "exec (rd_load True) srv [?c] (published v ?s1) = (r2, tr2, s2)" by (metis prod_cases3)
    then obtain more where "r2 = Inr ()" "tr2 = ?c # All [Get q (JObj []), Get q' (JObj [])] # more" "\<not> rd_publishVisible s2"
        "rd_success s2 = msg_published (revisionValue s (extractContractRevision v))"
      using exec_reload [OF assms(1) _ _ run, of q q'] paths by (auto simp: published_def value')
    then show ?thesis
      using assms(2-5) Inr run by (auto simp: publish_def exec_simps split: if_splits)
  qed
qed
section \<open>A publication\<close>

definition example_revision :: jsval where
  "example_revision = JObj [(js ''status'', S ''proposed''), (js ''content_hash'', S ''h'')]"

definition example_admin :: session where
  "example_admin = \<lparr>token = js ''t'', me = JObj [(js ''permissions'', JArr [S ''admin''])], restored = True, restoring = False, restoreError = None\<rparr>"

lemma example_allowed: "rd_session s = example_admin \<Longrightarrow> rd_revision s = example_revision \<Longrightarrow> publishAllowed s = Inr True"
proof -
  have "isAdmin example_admin = Inr True" "canPublishContractRevision example_revision = Inr True" "truthy example_revision" by code_simp+
  then show "publishAllowed s = Inr True" if "rd_session s = example_admin" "rd_revision s = example_revision"
    using that by (simp add: publishAllowed_def rd_isAdmin_def rd_shown_def js_or_def)
qed

lemma example_paths: "servicePath (S ''7'') = Inr (js ''/contract-services/7'')"
    "revisionPath (S ''7'') (S ''2'') = Inr (js ''/contract-services/7/revisions/2'')"
    "publish_path (S ''7'') (S ''2'') = Inr (js ''/contract-services/7/revisions/2/publish'')"
  by code_simp+

theorem publish_outcome_witness:
  "\<exists>calls s'. exec publish (constant_server (Inl TypeError)) []
       ((revision_detail_initial (S ''7'') (S ''2'') [] example_admin)\<lparr>rd_revision := example_revision\<rparr>) = (Inr (), calls, s')
     \<and> length calls = 1 \<and> rd_error s' = Some (CaughtError TypeError) \<and> \<not> rd_publishing s'"
proof -
  let ?s = "(revision_detail_initial (S ''7'') (S ''2'') [] example_admin)\<lparr>rd_revision := example_revision\<rparr>"
  obtain r calls s' where run: "exec publish (constant_server (Inl TypeError)) [] ?s = (r, calls, s')" by (metis prod_cases3)
  have "publishAllowed ?s = Inr True" by (rule example_allowed) (simp_all add: revision_detail_initial_def)
  moreover have "\<not> rd_publishing ?s" "publish_path (rd_serviceId ?s) (rd_number ?s) = Inr (js ''/contract-services/7/revisions/2/publish'')"
    by (simp_all add: revision_detail_initial_def example_paths)
  ultimately show ?thesis
    using publish_outcome [OF constant_polite _ _ _ run] run by (auto simp: error_status_def split: if_splits)
qed

text \<open>The page of a proposed revision, after its first answer.\<close>

lemma revision_mounted:
  "\<exists>s t. page_run revision_detail_init revision_detail_handler s [t] \<and> rd_serviceId s = S ''7'' \<and> rd_number s = S ''2''
     \<and> rd_session s = example_admin \<and> rd_revision s = example_revision \<and> \<not> rd_publishing s"
proof -
  let ?i = "revision_detail_initial (S ''7'') (S ''2'') [] example_admin"
  let ?s = "?i\<lparr>rd_loading := True, rd_error := None, rd_success := []\<rparr>"
  let ?a = "Returned (Inr (JArr [JObj [(js ''data'', example_revision)], JObj []]))"
  have "extractContractRevision (JObj [(js ''data'', example_revision)]) = example_revision" by code_simp
  moreover obtain v where "extractContractService (JObj []) = Inr v"
  proof -
    have "extractContractService (JObj []) = Inr (projr (extractContractService (JObj [])))" by code_simp
    then show thesis by (rule that)
  qed
  ultimately obtain c1 c2 k where k: "segment (rd_load False) ?i = (?s, Await (All [c1, c2]) k)"
    "\<And>u. \<exists>v t. segment (k ?a) u = (u\<lparr>rd_revision := example_revision, rd_service := v\<rparr>, t)"
    by (auto simp: rd_load_def rd_loaded_def revision_detail_initial_def example_paths await_call_def await_task_def eval_js_def rd_syncTab_def)
  from k(1) have run: "page_run revision_detail_init revision_detail_handler ?s ([] @ [Await (All [c1, c2]) k])"
    by (intro page_run.mount) (auto simp: revision_detail_init_def)
  obtain v t where "segment (k ?a) ?s = (?s\<lparr>rd_revision := example_revision, rd_service := v\<rparr>, t)" using k(2) by blast
  from answer_last [OF run _ this]
  have "page_run revision_detail_init revision_detail_handler (?s\<lparr>rd_revision := example_revision, rd_service := v\<rparr>) [t]" by simp
  then show ?thesis by (intro exI conjI) (assumption, simp_all add: revision_detail_initial_def)
qed


end
