(* ===== verification/ContractControls.thy ===== *)
theory ContractControls imports Emulation ServicesLaws ServiceDetailLaws RevisionDetailLaws begin

text \<open>
  The controls of the three contract pages with the conditions under which their templates show them.  Without the permission
  of an administrator they only read.
\<close>

section \<open>The list of services\<close>

text \<open>The page does not keep the identity; \<open>admin\<close> is what \<open>PermissionGate\<close> makes of it.\<close>

definition page_picked :: "jnum \<Rightarrow> jnum \<Rightarrow> (services_page, unit) task" where
  "page_picked m n = Update (\<lambda>s. s\<lparr>sp_page := m, sp_pageSize := n\<rparr>) (services_load True)"

inductive services_head_ui :: "bool \<Rightarrow> (services_page, unit) task \<Rightarrow> bool" for admin where
  "services_head_ui admin (guarded (\<lambda>s. \<not> sp_loading s) (services_load True))"
| "services_head_ui admin (guarded (\<lambda>s. admin) services_openCreate)"

inductive services_filter_ui :: "(services_page, unit) task \<Rightarrow> bool" where
  "services_filter_ui services_search"
| "services_filter_ui (Update (\<lambda>s. s\<lparr>sp_projectKey := v\<rparr>) return)"
| "services_filter_ui (Update (\<lambda>s. s\<lparr>sp_status := v\<rparr>) return)"
| "services_filter_ui (Update (\<lambda>s. s\<lparr>sp_keyword := JStr w\<rparr>) return)"
| "services_filter_ui services_reset"
| "services_filter_ui (guarded (\<lambda>s. \<not> sp_loading s) services_search)"
| "services_filter_ui (guarded (\<lambda>s. sp_error s \<noteq> None) (services_load True))"

inductive services_table_ui :: "(services_page, unit) task \<Rightarrow> bool" where
  "services_table_ui (guarded (\<lambda>s. row \<in> set (sp_rows s)) (Update (services_openDetail row) return))"
| "services_table_ui (guarded (\<lambda>s. Fin 0 < sp_total s) (page_picked m n))"

inductive create_dialog_ui :: "(services_page, unit) task \<Rightarrow> bool" where
  "create_dialog_ui (guarded sp_dialogVisible saveService)"
| "create_dialog_ui (guarded sp_dialogVisible (Update (\<lambda>s. s\<lparr>sp_form := f\<rparr>) return))"
| "create_dialog_ui (guarded (\<lambda>s. sp_dialogVisible s \<and> \<not> sp_saving s) saveService)"
| "create_dialog_ui (guarded sp_dialogVisible (Update (\<lambda>s. s\<lparr>sp_dialogVisible := False\<rparr>) return))"

text \<open>All controls, the mounting and the watcher of the address.\<close>

definition services_ui :: "bool \<Rightarrow> (services_page, unit) task \<Rightarrow> bool" where
  "services_ui admin t \<longleftrightarrow> services_head_ui admin t \<or> services_filter_ui t \<or> services_table_ui t \<or> create_dialog_ui t
     \<or> t = services_mounted \<or> (\<exists>q. t = services_routeChanged q)"

lemmas services_ui_elims = services_head_ui.cases services_filter_ui.cases services_table_ui.cases create_dialog_ui.cases

definition dialog_closed :: "services_page \<Rightarrow> bool" where
  "dialog_closed s \<longleftrightarrow> \<not> sp_dialogVisible s"

lemma services_reads: "careful dialog_closed reading (services_load b)" "careful dialog_closed reading services_loadProjects"
  by (auto simp: services_load_defs services_loadProjects_def dialog_closed_def Let_def intro!: task_intro split: if_splits)

interpretation services_read_only: careful_page services_init "services_ui False" dialog_closed reading
proof
  show "dialog_closed s \<and> (\<forall>t \<in> set ts. careful dialog_closed reading t)" if "services_init s ts" for s ts
    using that by (auto simp: services_init_def services_initial_def dialog_closed_def)
  show "careful dialog_closed reading t" if "services_ui False t" for t
    using that unfolding services_ui_def
    by (elim disjE exE services_ui_elims) (auto simp: page_picked_def services_search_def services_reset_def services_mounted_def services_routeChanged_def
      services_applyRouteParams_def services_openDetail_def dialog_closed_def intro!: task_intro services_reads)
qed

section \<open>One service\<close>

definition service_gate :: "service_detail \<Rightarrow> bool" where
  "service_gate s \<longleftrightarrow> admin_gate (sd_session s)"

inductive service_head_ui :: "(service_detail, unit) task \<Rightarrow> bool" where
  "service_head_ui (Update (\<lambda>s. s\<lparr>sd_pushed := sd_pushed s @ [JObj [(js ''name'', S ''contract-services'')]]\<rparr>) return)"
| "service_head_ui (guarded (\<lambda>s. \<not> sd_loading s) sd_load)"
| "service_head_ui (guarded (\<lambda>s. sd_error s \<noteq> None) sd_load)"

inductive service_tabs_ui :: "(service_detail, unit) task \<Rightarrow> bool" where
  "t \<in> set (map js service_tabs) \<Longrightarrow> service_tabs_ui (guarded (\<lambda>s. truthy (sd_service s)) (Update (\<lambda>s. s\<lparr>sd_tab := t\<rparr>) sd_syncTab))"

inductive service_revisions_ui :: "(service_detail, unit) task \<Rightarrow> bool" where
  "service_revisions_ui (guarded (\<lambda>s. truthy (sd_service s) \<and> row \<in> set (elems (sd_revisions s))) (Update (openRevision row) return))"

text \<open>The panel of the upload, which only an administrator sees.\<close>

definition upload_panel :: "service_detail \<Rightarrow> bool" where
  "upload_panel s \<longleftrightarrow> truthy (sd_service s) \<and> service_gate s"

inductive upload_ui :: "(service_detail, unit) task \<Rightarrow> bool" where
  "upload_ui (guarded (\<lambda>s. upload_panel s \<and> \<not> sd_uploading s) (selectFile (Some f)))"
| "upload_ui (guarded (\<lambda>s. upload_panel s \<and> sd_selectedFile s \<noteq> None \<and> \<not> sd_uploading s) (Update clearFile return))"
| "upload_ui (guarded (\<lambda>s. upload_panel s \<and> truthy (sd_uploadResult s)) (Look (\<lambda>s. Update (openRevision (sd_uploadResult s)) return)))"
| "upload_ui (guarded (\<lambda>s. upload_panel s \<and> \<not> sd_uploading s \<and> sd_selectedFile s \<noteq> None) sd_upload)"

inductive service_background :: "(session \<Rightarrow> bool) \<Rightarrow> (service_detail, unit) task \<Rightarrow> bool" for sessions where
  "service_background sessions (Update (\<lambda>s. s\<lparr>sd_id := i, sd_query := q\<rparr>) return)"
| "service_background sessions (Update sd_tabChanged return)"
| "service_background sessions sd_load"
| "sessions ss \<Longrightarrow> service_background sessions (Update (\<lambda>s. s\<lparr>sd_session := ss\<rparr>) return)"

definition service_ui :: "(session \<Rightarrow> bool) \<Rightarrow> (service_detail, unit) task \<Rightarrow> bool" where
  "service_ui sessions t \<longleftrightarrow> service_head_ui t \<or> service_tabs_ui t \<or> service_revisions_ui t \<or> upload_ui t \<or> service_background sessions t"

lemmas service_ui_elims = service_head_ui.cases service_tabs_ui.cases service_revisions_ui.cases upload_ui.cases service_background.cases

definition service_opened :: "(session \<Rightarrow> bool) \<Rightarrow> service_detail \<Rightarrow> (service_detail, unit) task list \<Rightarrow> bool" where
  "service_opened sessions s ts \<longleftrightarrow> (\<exists>i q ss t. sessions ss \<and> segment sd_mounted (service_detail_initial i q ss) = (s, t) \<and> ts = [t])"

definition no_uploader :: "service_detail \<Rightarrow> bool" where
  "no_uploader s \<longleftrightarrow> \<not> service_gate s"

lemma service_reads: "careful no_uploader reading sd_load" "careful no_uploader reading sd_syncTab"
  by (auto simp: sd_load_def sd_syncTab_def no_uploader_def service_gate_def intro!: task_intro)

interpretation service_read_only: careful_page "service_opened no_admin" "service_ui no_admin" no_uploader reading
proof
  show "no_uploader s \<and> (\<forall>t \<in> set ts. careful no_uploader reading t)" if opened: "service_opened no_admin s ts" for s ts
  proof -
    obtain i q ss t where run: "no_admin ss" "segment sd_mounted (service_detail_initial i q ss) = (s, t)" "ts = [t]"
      using opened by (auto simp: service_opened_def)
    moreover have "careful no_uploader reading sd_mounted" by (auto simp: sd_mounted_def intro!: task_intro service_reads)
    moreover have "no_uploader (service_detail_initial i q ss)" using run(1) by (simp add: no_uploader_def service_gate_def service_detail_initial_def)
    ultimately show ?thesis using careful_segment [OF _ _ run(2)] by auto
  qed
  show "careful no_uploader reading t" if "service_ui no_admin t" for t
    using that unfolding service_ui_def
    by (elim disjE service_ui_elims) (auto simp: no_uploader_def upload_panel_def service_gate_def openRevision_def sd_tabChanged_def Let_def
      intro!: task_intro service_reads)
qed

section \<open>One revision\<close>

definition revision_gate :: "revision_detail \<Rightarrow> bool" where
  "revision_gate s \<longleftrightarrow> admin_gate (rd_session s)"

text \<open>The head; the way back to the service is a navigation that is not awaited.\<close>

inductive revision_head_ui :: "(revision_detail, unit) task \<Rightarrow> bool" where
  "revision_head_ui return"
| "revision_head_ui (guarded (\<lambda>s. \<not> rd_loading s) (rd_load False))"
| "revision_head_ui (guarded (\<lambda>s. revision_gate s \<and> publishAllowed s = Inr True \<and> \<not> rd_publishing s) openPublish)"
| "revision_head_ui (guarded (\<lambda>s. rd_success s \<noteq> []) (Update (\<lambda>s. s\<lparr>rd_success := []\<rparr>) return))"
| "revision_head_ui (guarded (\<lambda>s. rd_error s \<noteq> None) (rd_load False))"

inductive revision_tabs_ui :: "(revision_detail, unit) task \<Rightarrow> bool" where
  "t \<in> set (map js revision_tabs) \<Longrightarrow> revision_tabs_ui (guarded (\<lambda>s. truthy (rd_revision s)) (Update (\<lambda>s. s\<lparr>rd_tab := t\<rparr>) rd_syncTab))"

inductive publish_dialog_ui :: "(revision_detail, unit) task \<Rightarrow> bool" where
  "publish_dialog_ui (guarded (\<lambda>s. rd_publishVisible s \<and> \<not> rd_publishing s) (Update (\<lambda>s. s\<lparr>rd_publishVisible := False\<rparr>) return))"
| "publish_dialog_ui (guarded (\<lambda>s. rd_publishVisible s \<and> \<not> rd_publishing s) publish)"

inductive revision_background :: "(session \<Rightarrow> bool) \<Rightarrow> (revision_detail, unit) task \<Rightarrow> bool" for sessions where
  "revision_background sessions (Update (\<lambda>s. s\<lparr>rd_serviceId := i, rd_number := n, rd_query := q\<rparr>) return)"
| "revision_background sessions (Update rd_tabChanged return)"
| "revision_background sessions (rd_load False)"
| "sessions ss \<Longrightarrow> revision_background sessions (Update (\<lambda>s. s\<lparr>rd_session := ss\<rparr>) return)"

definition revision_ui :: "(session \<Rightarrow> bool) \<Rightarrow> (revision_detail, unit) task \<Rightarrow> bool" where
  "revision_ui sessions t \<longleftrightarrow> revision_head_ui t \<or> revision_tabs_ui t \<or> publish_dialog_ui t \<or> revision_background sessions t"

lemmas revision_ui_elims = revision_head_ui.cases revision_tabs_ui.cases publish_dialog_ui.cases revision_background.cases

definition revision_opened :: "(session \<Rightarrow> bool) \<Rightarrow> revision_detail \<Rightarrow> (revision_detail, unit) task list \<Rightarrow> bool" where
  "revision_opened sessions s ts \<longleftrightarrow> (\<exists>i n q ss t. sessions ss \<and> segment (rd_load False) (revision_detail_initial i n q ss) = (s, t) \<and> ts = [t])"

definition no_publisher :: "revision_detail \<Rightarrow> bool" where
  "no_publisher s \<longleftrightarrow> no_admin (rd_session s) \<and> \<not> rd_publishVisible s"

lemma revision_reads: "careful no_publisher reading (rd_load b)" "careful no_publisher reading rd_syncTab"
  by (auto simp: rd_load_def rd_loaded_def rd_syncTab_def no_publisher_def intro!: task_intro split: list.split)

interpretation revision_read_only: careful_page "revision_opened no_admin" "revision_ui no_admin" no_publisher reading
proof
  show "no_publisher s \<and> (\<forall>t \<in> set ts. careful no_publisher reading t)" if opened: "revision_opened no_admin s ts" for s ts
  proof -
    obtain i n q ss t where run: "no_admin ss" "segment (rd_load False) (revision_detail_initial i n q ss) = (s, t)" "ts = [t]"
      using opened by (auto simp: revision_opened_def)
    moreover have "no_publisher (revision_detail_initial i n q ss)" using run(1) by (simp add: no_publisher_def revision_detail_initial_def)
    ultimately show ?thesis using careful_segment [OF revision_reads(1) _ run(2)] by auto
  qed
  show "careful no_publisher reading t" if "revision_ui no_admin t" for t
    using that unfolding revision_ui_def
    by (elim disjE revision_ui_elims) (auto simp: no_publisher_def revision_gate_def rd_tabChanged_def Let_def
      intro!: task_intro revision_reads)
qed

section \<open>Controls refine handlers\<close>

text \<open>What a user does on the two detail pages, their handlers do too.  On the list of services this fails on purpose: the field of
  the project can be cleared, and its handlers are stated for texts only.\<close>

lemmas service_emulates = emulates_guarded emulates_Look emulates_done emulates_handler [of service_detail_handler]

lemma service_parts_emulated:
  "service_head_ui t \<Longrightarrow> emulates service_detail_handler t s" "service_tabs_ui t \<Longrightarrow> emulates service_detail_handler t s"
  "service_revisions_ui t \<Longrightarrow> emulates service_detail_handler t s" "upload_ui t \<Longrightarrow> emulates service_detail_handler t s"
  "service_background sessions t \<Longrightarrow> emulates service_detail_handler t s"
proof -
  show "service_head_ui t \<Longrightarrow> emulates service_detail_handler t s"
    by (induction rule: service_head_ui.induct; intro service_emulates service_detail_handler.intros)
  show "service_tabs_ui t \<Longrightarrow> emulates service_detail_handler t s"
  proof (induction rule: service_tabs_ui.induct)
    case (1 t)
    then show ?case
      by (intro emulates_guarded emulates_Update [where handler = service_detail_handler, OF service_detail_handler.intros(10) [of t]] refl)
        (auto intro: emulates_handler service_detail_handler.intros)
  qed
  show "service_revisions_ui t \<Longrightarrow> emulates service_detail_handler t s"
    by (induction rule: service_revisions_ui.induct; intro service_emulates service_detail_handler.intros)
  show "upload_ui t \<Longrightarrow> emulates service_detail_handler t s"
    by (induction rule: upload_ui.induct; intro service_emulates service_detail_handler.intros)
  show "service_background sessions t \<Longrightarrow> emulates service_detail_handler t s"
    by (induction rule: service_background.induct; intro service_emulates service_detail_handler.intros)
qed

interpretation service_emulation: emulation service_detail_init "service_opened sessions" service_detail_handler "service_ui sessions" for sessions
proof
  show "service_detail_init s ts" if "service_opened sessions s ts" for s ts
    using that unfolding service_opened_def service_detail_init_def by blast
  show "emulates service_detail_handler t s" if "service_ui sessions t" for t s
    using that unfolding service_ui_def by (elim disjE) (erule service_parts_emulated)+
qed

lemmas revision_emulates = emulates_guarded emulates_Look emulates_done emulates_handler [of revision_detail_handler]

lemma revision_parts_emulated:
  "revision_head_ui t \<Longrightarrow> emulates revision_detail_handler t s" "revision_tabs_ui t \<Longrightarrow> emulates revision_detail_handler t s"
  "publish_dialog_ui t \<Longrightarrow> emulates revision_detail_handler t s" "revision_background sessions t \<Longrightarrow> emulates revision_detail_handler t s"
proof -
  show "revision_head_ui t \<Longrightarrow> emulates revision_detail_handler t s"
    by (induction rule: revision_head_ui.induct; intro revision_emulates revision_detail_handler.intros)
  show "revision_tabs_ui t \<Longrightarrow> emulates revision_detail_handler t s"
  proof (induction rule: revision_tabs_ui.induct)
    case (1 t)
    then show ?case
      by (intro emulates_guarded emulates_Update [where handler = revision_detail_handler, OF revision_detail_handler.intros(10) [of t]] refl)
        (auto intro: emulates_handler revision_detail_handler.intros)
  qed
  show "publish_dialog_ui t \<Longrightarrow> emulates revision_detail_handler t s"
    by (induction rule: publish_dialog_ui.induct; intro revision_emulates revision_detail_handler.intros)
  show "revision_background sessions t \<Longrightarrow> emulates revision_detail_handler t s"
    by (induction rule: revision_background.induct; intro revision_emulates revision_detail_handler.intros)
qed

interpretation revision_emulation: emulation revision_detail_init "revision_opened sessions" revision_detail_handler "revision_ui sessions" for sessions
proof
  show "revision_detail_init s ts" if "revision_opened sessions s ts" for s ts
    using that unfolding revision_opened_def revision_detail_init_def by blast
  show "emulates revision_detail_handler t s" if "revision_ui sessions t" for t s
    using that unfolding revision_ui_def by (elim disjE) (erule revision_parts_emulated)+
qed

section \<open>Reading only\<close>

text \<open>C21. While no identity with the permission of an administrator is signed in, no interleaving of the controls of the contract
  pages has a writing request on its way: no service is created, no file uploaded, no revision published.\<close>

theorem read_only_contracts:
  assumes "page_run services_init (services_ui False) s1 ts1" "page_run (service_opened (\<lambda>ss. \<not> admin_gate ss)) (service_ui (\<lambda>ss. \<not> admin_gate ss)) s2 ts2"
    "page_run (revision_opened (\<lambda>ss. \<not> admin_gate ss)) (revision_ui (\<lambda>ss. \<not> admin_gate ss)) s3 ts3"
  shows "(\<forall>c k. Await c k \<in> set ts1 \<longrightarrow> reading c) \<and> (\<forall>c k. Await c k \<in> set ts2 \<longrightarrow> reading c) \<and> (\<forall>c k. Await c k \<in> set ts3 \<longrightarrow> reading c)"
  using services_read_only.asked [OF assms(1)] service_read_only.asked [OF assms(2)] revision_read_only.asked [OF assms(3)] by blast

theorem read_only_contracts_witness:
  "\<exists>s2 ts2 s3 ts3. page_run (service_opened (\<lambda>ss. \<not> admin_gate ss)) (service_ui (\<lambda>ss. \<not> admin_gate ss)) s2 ts2 \<and> ts2 \<noteq> []
     \<and> page_run (revision_opened (\<lambda>ss. \<not> admin_gate ss)) (revision_ui (\<lambda>ss. \<not> admin_gate ss)) s3 ts3 \<and> ts3 \<noteq> []
     \<and> (\<forall>c k. Await c k \<in> set ts2 \<longrightarrow> reading c) \<and> (\<forall>c k. Await c k \<in> set ts3 \<longrightarrow> reading c)"
proof -
  have guest: "no_admin (initial_session None)" by code_simp
  have r1: "page_run services_init (services_ui False) (services_initial [] JUndef) []"
    by (rule page_run.mount) (auto simp: services_init_def)
  obtain s2 t2 where "segment sd_mounted (service_detail_initial (S ''7'') [] (initial_session None)) = (s2, t2)" by fastforce
  then have r2: "page_run (service_opened no_admin) (service_ui no_admin) s2 [t2]"
    using guest by (intro page_run.mount) (auto simp: service_opened_def)
  obtain s3 t3 where "segment (rd_load False) (revision_detail_initial (S ''7'') (S ''2'') [] (initial_session None)) = (s3, t3)" by fastforce
  then have r3: "page_run (revision_opened no_admin) (revision_ui no_admin) s3 [t3]"
    using guest by (intro page_run.mount) (auto simp: revision_opened_def)
  from read_only_contracts [OF r1 r2 r3] r2 r3 show ?thesis
    by (intro exI conjI) (assumption, simp, assumption, simp_all)
qed

end
