(* ===== verification/ImportControls.thy ===== *)
theory ImportControls imports Emulation ImportLaws begin

text \<open>
  The controls of \<open>views/ImportView.vue\<close> with the conditions under which its template shows them, and what a user can bring
  about with them: without the permission of an administrator nothing is written, and a review or batch action only ever
  concerns a row whose status admits it.
\<close>

section \<open>The controls\<close>

definition import_gate :: "import_page \<Rightarrow> bool" where
  "import_gate s \<longleftrightarrow> admin_gate (ip_session s)"

text \<open>The rows of the table whose buttons start an action, and the status in which a button is shown.\<close>

definition action_rows :: "action_kind \<Rightarrow> import_page \<Rightarrow> jsval list" where
  "action_rows k s = (if k \<in> {Approve, Reject, CandidateRollback} then ip_candidates s else ip_batches s)"

definition candidate_control :: "action_kind \<Rightarrow> jsval \<Rightarrow> bool" where
  "candidate_control k row = (let status = get_prop row (js ''status'') in
     if k \<in> {Approve, Reject} then strict_eq status (S ''pending_review'')
     else strict_eq status (S ''published'') \<or> truthy (get_prop row (js ''published_memory_id'')))"

definition batch_control :: "action_kind \<Rightarrow> jsval \<Rightarrow> bool" where
  "batch_control k row = (let status = get_prop row (js ''status'') in case k of
      CancelBatch \<Rightarrow> active_status status
    | RetryBatch \<Rightarrow> status \<in> {S ''failed'', S ''cancelled''}
    | _ \<Rightarrow> status \<in> {S ''completed'', S ''awaiting_review''})"

definition row_control :: "action_kind \<Rightarrow> jsval \<Rightarrow> bool" where
  "row_control k row = (if k \<in> {Approve, Reject, CandidateRollback} then candidate_control k row else batch_control k row)"

text \<open>The dialog is drawn once an action was opened; its button waits for a reason that is required.\<close>

definition confirm_shown :: "import_page \<Rightarrow> bool" where
  "confirm_shown s \<longleftrightarrow> ip_actionVisible s \<and> \<not> ip_actionSubmitting s
     \<and> (case ip_action s of None \<Rightarrow> False | Some a \<Rightarrow> ac_requiresReason a \<longrightarrow> trim (ip_actionReason s) \<noteq> [])"

definition pick_project :: "jstr \<Rightarrow> (import_page, unit) task" where
  "pick_project v = Update (\<lambda>s. s\<lparr>ip_projectKey := v\<rparr>) changeImportContext"

definition drawer_closed :: "(import_page, unit) task" where
  "drawer_closed = Update (\<lambda>s. s\<lparr>ip_detailVisible := False\<rparr>) closeBatch"

definition tab_picked :: "string \<Rightarrow> (import_page, unit) task" where
  "tab_picked t = Update (\<lambda>s. s\<lparr>ip_detailTab := js t\<rparr>) (syncWizardQuery (S t))"

text \<open>The head of the page.\<close>

inductive import_head_ui :: "(import_page, unit) task \<Rightarrow> bool" where
  "import_head_ui (guarded (\<lambda>s. \<not> ip_loading s) (import_load False True))"
| "import_head_ui (guarded (\<lambda>s. ip_message s \<noteq> []) (Update (\<lambda>s. s\<lparr>ip_message := []\<rparr>) return))"
| "import_head_ui (guarded (\<lambda>s. ip_error s \<noteq> None) (import_load False True))"

text \<open>The wizard: where to import to, which files, and the import itself.\<close>

inductive wizard_ui :: "(jserror \<Rightarrow> jstr) \<Rightarrow> (import_page, unit) task \<Rightarrow> bool" for engine where
  "wizard_ui engine (guarded (\<lambda>s. \<not> ip_submitting s) (pick_project v))"
| "wizard_ui engine (guarded (\<lambda>s. \<not> ip_submitting s) (Update (\<lambda>s. s\<lparr>ip_scopeKey := v\<rparr>) return))"
| "wizard_ui engine (guarded (\<lambda>s. \<not> ip_submitting s) changeImportContext)"
| "wizard_ui engine (guarded import_gate (Update (\<lambda>s. s\<lparr>ip_dragActive := b\<rparr>) return))"
| "wizard_ui engine (guarded import_gate (onDrop d))"
| "wizard_ui engine (guarded import_gate (chooseFiles fs))"
| "wizard_ui engine (guarded (\<lambda>s. i < length (ip_files s) \<and> \<not> ip_submitting s) (Update (removeFile i) return))"
| "wizard_ui engine (guarded (\<lambda>s. ip_files s \<noteq> [] \<and> \<not> ip_submitting s) resetWizard)"
| "wizard_ui engine (guarded (\<lambda>s. import_gate s \<and> \<not> ip_submitting s \<and> validFiles s \<noteq> [] \<and> \<not> hasInvalidFiles s) (importFiles engine))"

text \<open>A button of a row; while the action of the row is on its way the button is loading.\<close>

definition row_button :: "action_kind \<Rightarrow> jsval \<Rightarrow> (import_page, unit) task" where
  "row_button k row = guarded (\<lambda>s. import_gate s \<and> row \<in> set (action_rows k s) \<and> row_control k row \<and> \<not> isRowLoading s k row) (openAction k row)"

inductive batches_ui :: "(import_page, unit) task \<Rightarrow> bool" where
  "batches_ui (guarded (\<lambda>s. ip_statusFilter s \<noteq> []) clearStatusFilter)"
| "batches_ui (guarded (\<lambda>s. row \<in> set (ip_batches s)) (openBatch row))"
| "k \<in> {CancelBatch, RetryBatch, RollbackBatch} \<Longrightarrow> batches_ui (row_button k row)"

inductive candidates_ui :: "(import_page, unit) task \<Rightarrow> bool" where
  "k \<in> {Approve, Reject, CandidateRollback} \<Longrightarrow> candidates_ui (row_button k row)"

text \<open>The drawer with the details of a batch, and the dialog.\<close>

inductive drawer_ui :: "(import_page, unit) task \<Rightarrow> bool" where
  "drawer_ui (guarded ip_detailVisible drawer_closed)"
| "drawer_ui (guarded ip_detailVisible (tab_picked t))"

inductive action_dialog_ui :: "(import_page, unit) task \<Rightarrow> bool" where
  "action_dialog_ui (guarded (\<lambda>s. ip_action s \<noteq> None) (Update (\<lambda>s. s\<lparr>ip_actionReason := v\<rparr>) return))"
| "action_dialog_ui (guarded (\<lambda>s. \<not> ip_actionSubmitting s) (Update (\<lambda>s. s\<lparr>ip_actionVisible := False\<rparr>) return))"
| "action_dialog_ui (guarded confirm_shown confirmAction)"

text \<open>What happens without the user; \<open>sessions\<close>: the identities the session store may take on.\<close>

inductive import_background :: "(session \<Rightarrow> bool) \<Rightarrow> (import_page, unit) task \<Rightarrow> bool" for sessions where
  "import_background sessions (import_onVisibilityChange visible)"
| "import_background sessions (refreshActiveWork visible)"
| "import_background sessions import_mounted"
| "import_background sessions (import_routeChanged q)"
| "sessions ss \<Longrightarrow> import_background sessions (Update (\<lambda>s. s\<lparr>ip_session := ss\<rparr>) return)"

definition import_ui :: "(jserror \<Rightarrow> jstr) \<Rightarrow> (session \<Rightarrow> bool) \<Rightarrow> (import_page, unit) task \<Rightarrow> bool" where
  "import_ui engine sessions t \<longleftrightarrow> import_head_ui t \<or> wizard_ui engine t \<or> batches_ui t \<or> candidates_ui t \<or> drawer_ui t
     \<or> action_dialog_ui t \<or> import_background sessions t"

lemmas import_ui_elims = import_head_ui.cases wizard_ui.cases batches_ui.cases candidates_ui.cases drawer_ui.cases
  action_dialog_ui.cases import_background.cases

lemmas import_ui_intros = import_head_ui.intros wizard_ui.intros batches_ui.intros candidates_ui.intros drawer_ui.intros
  action_dialog_ui.intros import_background.intros

definition import_opened :: "(session \<Rightarrow> bool) \<Rightarrow> import_page \<Rightarrow> (import_page, unit) task list \<Rightarrow> bool" where
  "import_opened sessions s ts \<longleftrightarrow> (\<exists>q ss t1 t2 s1. sessions ss \<and> segment import_loadProjects (import_initial q ss) = (s1, t1)
     \<and> segment (import_load False True) s1 = (s, t2) \<and> ts = [t1, t2])"

section \<open>What only reads\<close>

text \<open>A property of the action that was opened and of the identity.\<close>

definition of_review :: "(row_action option \<Rightarrow> session \<Rightarrow> bool) \<Rightarrow> import_page \<Rightarrow> bool" where
  "of_review p s \<longleftrightarrow> p (ip_action s) (ip_session s)"

lemma review_frame [simp]:
  "ip_action (add_to_page fs s) = ip_action s" "ip_session (add_to_page fs s) = ip_session s"
  "ip_action (removeFile i s) = ip_action s" "ip_session (removeFile i s) = ip_session s"
  "ip_action (resetContextWork s) = ip_action s" "ip_session (resetContextWork s) = ip_session s"
  "ip_action (apply_route q s) = ip_action s" "ip_session (apply_route q s) = ip_session s"
  "ip_action (on_entry n f s) = ip_action s" "ip_session (on_entry n f s) = ip_session s"
  by (simp_all add: add_to_page_def removeFile_def resetContextWork_def apply_route_def on_entry_def Let_def)

lemma review_load: "careful (of_review p) reading (import_load a b)" "careful (of_review p) reading (loadBatchDetail c d)"
  "careful (of_review p) reading import_loadProjects"
  by (auto simp: import_load_defs loadBatchDetail_def import_loadProjects_def of_review_def intro!: task_intro)

lemma review_open: "careful (of_review p) reading (openBatch a)" "careful (of_review p) reading (find_and_open i)"
  by (auto simp: openBatch_def find_and_open_def of_review_def intro!: task_intro review_load(2))

lemma review_reads:
  "careful (of_review p) reading (pick_project v)" "careful (of_review p) reading changeImportContext"
  "careful (of_review p) reading (onDrop d)" "careful (of_review p) reading (chooseFiles fs)" "careful (of_review p) reading resetWizard"
  "careful (of_review p) reading clearStatusFilter" "careful (of_review p) reading drawer_closed" "careful (of_review p) reading (tab_picked t)"
  "careful (of_review p) reading (refreshActiveWork w)" "careful (of_review p) reading (import_onVisibilityChange w)"
  "careful (of_review p) reading import_mounted" "careful (of_review p) reading (import_routeChanged q)"
  by (auto simp: pick_project_def handler_defs drawer_closed_def tab_picked_def refreshActiveWork_def import_routeChanged_def
      route_batch_def of_review_def intro!: task_intro review_load review_open)

lemma review_mounted:
  assumes "import_opened sessions s ts" "\<And>ss. sessions ss \<Longrightarrow> p None ss"
  shows "of_review p s \<and> (\<forall>t \<in> set ts. careful (of_review p) reading t)"
proof -
  obtain q ss t1 t2 s1 where run: "segment import_loadProjects (import_initial q ss) = (s1, t1)"
    "segment (import_load False True) s1 = (s, t2)" "ts = [t1, t2]" "sessions ss" using assms(1) by (auto simp: import_opened_def)
  have "of_review p (import_initial q ss)" using assms(2) run(4) by (simp add: of_review_def import_initial_def)
  then have "of_review p s1 \<and> careful (of_review p) reading t1" using careful_segment [OF review_load(3) _ run(1)] by blast
  then show ?thesis using careful_segment [OF review_load(1) _ run(2)] run(3) by auto
qed

section \<open>Without the permission of an administrator\<close>

definition locked_out :: "row_action option \<Rightarrow> session \<Rightarrow> bool" where
  "locked_out a ss \<longleftrightarrow> a = None \<and> \<not> admin_gate ss"

lemma locked_out_page: "of_review locked_out s \<longleftrightarrow> ip_action s = None \<and> \<not> import_gate s"
  by (simp add: of_review_def locked_out_def import_gate_def)

interpretation read_only: careful_page "import_opened no_admin" "import_ui engine no_admin" "of_review locked_out" reading for engine
proof
  show "of_review locked_out s \<and> (\<forall>t \<in> set ts. careful (of_review locked_out) reading t)" if "import_opened no_admin s ts" for s ts
    using review_mounted [OF that] by (simp add: locked_out_def)
  show "careful (of_review locked_out) reading t" if "import_ui engine no_admin t" for t
    using that unfolding import_ui_def
    by (elim disjE import_ui_elims) (auto intro!: task_intro review_load review_open review_reads
      simp: locked_out_page confirm_shown_def import_gate_def row_button_def)
qed

text \<open>C6. While no identity with the permission of an administrator is signed in, no interleaving of the controls of the import
  page, its timers and its watchers has a request on its way that writes anything: no part is uploaded, no batch started,
  cancelled, retried or rolled back, and no candidate reviewed.\<close>

theorem read_only_import:
  assumes "page_run (import_opened (\<lambda>ss. \<not> admin_gate ss)) (import_ui engine (\<lambda>ss. \<not> admin_gate ss)) s ts" "Await c k \<in> set ts"
  shows "reading c"
  using assms by (rule read_only.asked)

section \<open>Actions fit their rows\<close>

definition fits :: "row_action option \<Rightarrow> session \<Rightarrow> bool" where
  "fits a ss \<longleftrightarrow> (\<forall>x. a = Some x \<longrightarrow> row_control (ac_kind x) (ac_target x))"

definition fitting :: "call \<Rightarrow> bool" where
  "fitting c \<longleftrightarrow> (acts_call c \<longrightarrow> (\<exists>k row i reason ss. c = action_request k i reason ss \<and> row_control k row
     \<and> get_or_throw row (js ''id'') = Inr i))"

interpretation fitting_calls: tolerant fitting
  by unfold_locales (auto simp: fitting_def acts_call_def reading_def split: call.splits)

lemma fitting_request: "row_control k row \<Longrightarrow> get_or_throw row (js ''id'') = Inr i \<Longrightarrow> fitting (action_request k i reason ss)"
  unfolding fitting_def by blast

lemma review_entry [simp]: "of_review p (on_entry n f s) = of_review p s"
  by (simp add: of_review_def)

lemma fitting_posts [simp]: "fitting (Put p b)" "\<not> acts_call c \<Longrightarrow> fitting c"
  by (simp_all add: fitting_def)

lemmas fitting_reads = fitting_calls.reader_careful [OF review_load(1)] fitting_calls.reader_careful [OF review_load(2)]
  fitting_calls.reader_careful [OF review_open(1)] fitting_calls.reader_careful [OF review_open(2)]

lemmas fitting_handlers = review_reads [THEN fitting_calls.reader_careful]

lemma fitting_upload: "careful (of_review fits) fitting (uploadFileByChunks b e)"
proof -
  have "careful (of_review fits) fitting (send_parts b' u st e' tot i ps)" for b' u st e' tot i ps
    by (induction ps arbitrary: i) (auto intro!: task_intro simp: of_review_def)
  then show ?thesis
    by (auto simp: uploadFileByChunks_def readImportContent_def Let_def eval_js_def of_review_def split: sum.split intro!: task_intro)
qed

lemma fitting_uploads: "careful (of_review fits) fitting (upload_all engine b es f)"
  by (induction engine b es f rule: upload_all.induct) (auto simp: upload_one_def intro!: task_intro fitting_upload)

lemma fitting_import: "careful (of_review fits) fitting (importFiles engine)"
  by (auto simp: importFiles_def import_batch_def start_batch_def of_review_def
      intro!: task_intro fitting_uploads fitting_reads split: if_splits)

lemma fitting_confirm: "careful (of_review fits) fitting confirmAction"
proof -
  have "careful (of_review fits) fitting (action_done a i)" for a i
    by (auto simp: action_done_def of_review_def intro!: task_intro fitting_reads)
  then show ?thesis
    by (auto simp: confirmAction_def Let_def of_review_def fits_def intro!: task_intro fitting_request split: option.splits)
qed

interpretation fitting_page: careful_page "import_opened sessions" "import_ui engine sessions" "of_review fits" fitting for engine sessions
proof
  show "of_review fits s \<and> (\<forall>t \<in> set ts. careful (of_review fits) fitting t)" if "import_opened sessions s ts" for s ts
    using review_mounted [OF that, of fits] fitting_calls.reader_careful by (fastforce simp: fits_def)
  show "careful (of_review fits) fitting t" if "import_ui engine sessions t" for t
    using that unfolding import_ui_def
    by (elim disjE import_ui_elims) (auto intro!: task_intro fitting_reads fitting_handlers fitting_import fitting_confirm
      simp: row_button_def openAction_def of_review_def fits_def action_definition_def Let_def split: action_kind.splits)
qed


section \<open>Controls refine handlers\<close>

lemma import_edits:
  "emulates (import_handler engine) t (s\<lparr>ip_projectKey := v\<rparr>) \<Longrightarrow> emulates (import_handler engine) (Update (\<lambda>s. s\<lparr>ip_projectKey := v\<rparr>) t) s"
  "emulates (import_handler engine) t (s\<lparr>ip_scopeKey := w\<rparr>) \<Longrightarrow> emulates (import_handler engine) (Update (\<lambda>s. s\<lparr>ip_scopeKey := w\<rparr>) t) s"
  "emulates (import_handler engine) t (s\<lparr>ip_detailVisible := b\<rparr>) \<Longrightarrow> emulates (import_handler engine) (Update (\<lambda>s. s\<lparr>ip_detailVisible := b\<rparr>) t) s"
  "emulates (import_handler engine) t (s\<lparr>ip_detailTab := x\<rparr>) \<Longrightarrow> emulates (import_handler engine) (Update (\<lambda>s. s\<lparr>ip_detailTab := x\<rparr>) t) s"
  "emulates (import_handler engine) t (s\<lparr>ip_actionReason := y\<rparr>) \<Longrightarrow> emulates (import_handler engine) (Update (\<lambda>s. s\<lparr>ip_actionReason := y\<rparr>) t) s"
  "emulates (import_handler engine) t (s\<lparr>ip_actionVisible := c\<rparr>) \<Longrightarrow> emulates (import_handler engine) (Update (\<lambda>s. s\<lparr>ip_actionVisible := c\<rparr>) t) s"
proof -
  note fits' = emulates_Update [where handler = "import_handler engine" and s = s]
  show "emulates (import_handler engine) t (s\<lparr>ip_projectKey := v\<rparr>) \<Longrightarrow> emulates (import_handler engine) (Update (\<lambda>s. s\<lparr>ip_projectKey := v\<rparr>) t) s"
    by (rule fits' [OF import_handler.intros(18) [where v = v and w = "ip_scopeKey s"]]) simp_all
  show "emulates (import_handler engine) t (s\<lparr>ip_scopeKey := w\<rparr>) \<Longrightarrow> emulates (import_handler engine) (Update (\<lambda>s. s\<lparr>ip_scopeKey := w\<rparr>) t) s"
    by (rule fits' [OF import_handler.intros(18) [where v = "ip_projectKey s" and w = w]]) simp_all
  show "emulates (import_handler engine) t (s\<lparr>ip_detailVisible := b\<rparr>) \<Longrightarrow> emulates (import_handler engine) (Update (\<lambda>s. s\<lparr>ip_detailVisible := b\<rparr>) t) s"
    by (rule fits' [OF import_handler.intros(19) [where v = "ip_detailTab s" and b = b]]) simp_all
  show "emulates (import_handler engine) t (s\<lparr>ip_detailTab := x\<rparr>) \<Longrightarrow> emulates (import_handler engine) (Update (\<lambda>s. s\<lparr>ip_detailTab := x\<rparr>) t) s"
    by (rule fits' [OF import_handler.intros(19) [where v = x and b = "ip_detailVisible s"]]) simp_all
  show "emulates (import_handler engine) t (s\<lparr>ip_actionReason := y\<rparr>) \<Longrightarrow> emulates (import_handler engine) (Update (\<lambda>s. s\<lparr>ip_actionReason := y\<rparr>) t) s"
    by (rule fits' [OF import_handler.intros(20) [where v = y and b = "ip_actionVisible s"]]) simp_all
  show "emulates (import_handler engine) t (s\<lparr>ip_actionVisible := c\<rparr>) \<Longrightarrow> emulates (import_handler engine) (Update (\<lambda>s. s\<lparr>ip_actionVisible := c\<rparr>) t) s"
    by (rule fits' [OF import_handler.intros(20) [where v = "ip_actionReason s" and b = c]]) simp_all
qed

lemma import_emulates: "import_handler engine t \<Longrightarrow> emulates (import_handler engine) t s"
  by (rule emulates_handler)

lemmas import_emulated = emulates_guarded import_edits import_emulates emulates_done import_handler.intros

lemma parts_emulated:
  "import_head_ui t \<Longrightarrow> emulates (import_handler engine) t s" "wizard_ui engine t \<Longrightarrow> emulates (import_handler engine) t s"
  "batches_ui t \<Longrightarrow> emulates (import_handler engine) t s" "candidates_ui t \<Longrightarrow> emulates (import_handler engine) t s"
  "drawer_ui t \<Longrightarrow> emulates (import_handler engine) t s" "action_dialog_ui t \<Longrightarrow> emulates (import_handler engine) t s"
  "import_background sessions t \<Longrightarrow> emulates (import_handler engine) t s"
proof -
  show "import_head_ui t \<Longrightarrow> emulates (import_handler engine) t s"
    by (induction rule: import_head_ui.induct; intro import_emulated)
  show "wizard_ui engine t \<Longrightarrow> emulates (import_handler engine) t s"
    by (induction rule: wizard_ui.induct; (unfold pick_project_def)?; intro import_emulated)
  show "batches_ui t \<Longrightarrow> emulates (import_handler engine) t s"
    by (induction rule: batches_ui.induct; (unfold row_button_def)?; intro import_emulated)
  show "candidates_ui t \<Longrightarrow> emulates (import_handler engine) t s"
    by (induction rule: candidates_ui.induct; unfold row_button_def; intro import_emulated)
  show "drawer_ui t \<Longrightarrow> emulates (import_handler engine) t s"
    by (induction rule: drawer_ui.induct; unfold drawer_closed_def tab_picked_def; intro import_emulated)
  show "action_dialog_ui t \<Longrightarrow> emulates (import_handler engine) t s"
    by (induction rule: action_dialog_ui.induct; intro import_emulated)
  show "import_background sessions t \<Longrightarrow> emulates (import_handler engine) t s"
    by (induction rule: import_background.induct; intro import_emulated)
qed

interpretation import_emulation: emulation import_init "import_opened sessions" "import_handler engine" "import_ui engine sessions" for engine sessions
proof
  show "import_init s ts" if "import_opened sessions s ts" for s ts
    using that unfolding import_opened_def import_init_def by blast
  show "emulates (import_handler engine) t s" if "import_ui engine sessions t" for t s
    using that unfolding import_ui_def by (elim disjE) (erule parts_emulated)+
qed


section \<open>Runs of the controls\<close>

definition reviewer_session :: session where
  "reviewer_session = \<lparr>token = js ''t'', me = JObj [(js ''permissions'', JArr [S ''admin''])], restored = True, restoring = False, restoreError = None\<rparr>"

lemma sessions_apart: "admin_gate reviewer_session" "\<not> admin_gate (initial_session None)"
  by code_simp+

definition waiting_candidate :: jsval where
  "waiting_candidate = JObj [(js ''id'', N 1), (js ''status'', S ''pending_review'')]"

definition lists_answer :: answer where
  "lists_answer = Returned (Inr (JArr [JObj [(js ''data'', JArr [])], JObj [(js ''data'', JArr [waiting_candidate])]]))"

text \<open>The page right after it was opened: both loads are on their way.\<close>

lemma import_opened_run:
  assumes "sessions ss"
  shows "\<exists>c1 c2 k t. page_run (import_opened sessions) (import_ui engine sessions) ((import_initial [] ss)\<lparr>ip_sequence := 1, ip_loading := True\<rparr>)
      ([t] @ [Await (All [c1, c2]) k])
    \<and> (\<forall>u. ip_sequence u = 1 \<longrightarrow> (\<exists>t'. segment (k lists_answer) u = (u\<lparr>ip_batches := [], ip_candidates := [waiting_candidate]\<rparr>, t')))"
proof -
  let ?s = "(import_initial [] ss)\<lparr>ip_sequence := 1, ip_loading := True\<rparr>"
  obtain s1 t1 where one: "segment import_loadProjects (import_initial [] ss) = (s1, t1)" by fastforce
  then have s1: "s1 = import_initial [] ss" by (auto simp: import_loadProjects_def await_call_def)
  have lists: "data_array (JObj [(js ''data'', JArr xs)]) = Inr xs" for xs
    by (simp add: data_array_def get_or_throw_def lookup_prop_def array_or_empty_def)
  obtain c1 c2 k where two: "segment (import_load False True) s1 = (?s, Await (All [c1, c2]) k)"
    "\<And>u. ip_sequence u = 1 \<Longrightarrow> \<exists>t'. segment (k lists_answer) u = (u\<lparr>ip_batches := [], ip_candidates := [waiting_candidate]\<rparr>, t')"
    by (auto simp: s1 import_load_defs await_call_def import_initial_def lists_answer_def destructure_def lists eval_js_def
        await_task_def syncWizardQuery_def)
  have "page_run (import_opened sessions) (import_ui engine sessions) ?s ([t1] @ [Await (All [c1, c2]) k])"
    using one two(1) assms by (intro page_run.mount) (auto simp: import_opened_def)
  then show ?thesis using two(2) by blast
qed

theorem read_only_import_witness:
  "\<forall>engine. \<exists>s ts c k. page_run (import_opened (\<lambda>ss. \<not> admin_gate ss)) (import_ui engine (\<lambda>ss. \<not> admin_gate ss)) s ts
     \<and> Await c k \<in> set ts \<and> c \<noteq> Tick \<and> reading c"
proof
  fix engine
  obtain c1 c2 k s t where run: "page_run (import_opened no_admin) (import_ui engine no_admin) s ([t] @ [Await (All [c1, c2]) k])"
    using import_opened_run [of no_admin "initial_session None" engine] sessions_apart(2) by blast
  have "reading (All [c1, c2])" using read_only_import [OF run, of "All [c1, c2]" k] by simp
  then show "\<exists>s ts c k. page_run (import_opened no_admin) (import_ui engine no_admin) s ts \<and> Await c k \<in> set ts \<and> c \<noteq> Tick \<and> reading c"
    using run by (intro exI conjI) (assumption, auto)
qed



end
