(* ===== verification/Bootstrap.thy ===== *)
theory Bootstrap imports SystemPage begin

text \<open>
  \<open>main.js\<close>: which components of the widget library are registered before the console is mounted, and what that leaves of
  the controls of the governance form (the template of \<open>components/ProjectGovernanceForm.vue\<close>).  How Vue finds the component
  of a tag, and the name that the widget library gives each component, are parameters.
\<close>

section \<open>Start of the console\<close>

definition console_components :: "string list" where
  "console_components =
    [''ElAlert'', ''ElBreadcrumb'', ''ElBreadcrumbItem'', ''ElButton'', ''ElCard'', ''ElCollapse'', ''ElCollapseItem'',
     ''ElConfigProvider'', ''ElDatePicker'', ''ElDescriptions'', ''ElDescriptionsItem'', ''ElDialog'', ''ElDrawer'',
     ''ElDropdown'', ''ElDropdownItem'', ''ElDropdownMenu'', ''ElEmpty'', ''ElForm'', ''ElFormItem'', ''ElIcon'', ''ElInput'',
     ''ElMenu'', ''ElMenuItem'', ''ElOption'', ''ElPagination'', ''ElProgress'', ''ElScrollbar'', ''ElSelect'',
     ''ElStep'', ''ElSteps'', ''ElTabPane'', ''ElTable'',
     ''ElTableColumn'', ''ElTabs'', ''ElTag'', ''ElTimeline'', ''ElTimelineItem'', ''ElTooltip'', ''ElUpload'']"

record console_app =
  ca_components :: "string \<rightharpoonup> string"
  ca_directives :: "string \<rightharpoonup> string"
  ca_plugins :: "string list"
  ca_mounted :: "string option"

text \<open>\<open>app.component(component.name, component)\<close>; \<open>name_of\<close> reads the property \<open>name\<close> of a component.\<close>

definition register :: "(string \<Rightarrow> string) \<Rightarrow> console_app \<Rightarrow> string \<Rightarrow> console_app" where
  "register name_of app c = app\<lparr>ca_components := (ca_components app)(name_of c \<mapsto> c)\<rparr>"

definition create_app :: console_app where
  "create_app = \<lparr>ca_components = Map.empty, ca_directives = Map.empty, ca_plugins = [], ca_mounted = None\<rparr>"

definition main_js :: "(string \<Rightarrow> string) \<Rightarrow> console_app" where
  "main_js name_of = (let app = foldl (register name_of) create_app console_components in
     app\<lparr>ca_directives := (ca_directives app)(''loading'' \<mapsto> ''ElLoading.directive''),
       ca_plugins := ca_plugins app @ [''pinia'', ''router''], ca_mounted := Some ''#app''\<rparr>)"

section \<open>The controls of the governance form\<close>

text \<open>A control: its tag, the path of the property it edits, and whether it is disabled.\<close>

record form_control =
  fc_tag :: string
  fc_model :: "jstr list"
  fc_disabled :: bool

definition policy_controls :: "bool \<Rightarrow> governance_form \<Rightarrow> form_control list" where
  "policy_controls canEdit f = (let enabled = truthy (get_prop (gf_policy f) (js ''enabled'')); saving = form_isSaving f in
     if \<not> truthy (gf_policy f) then [] else
     [\<lparr>fc_tag = ''el-switch'', fc_model = [js ''policy'', js ''enabled''], fc_disabled = (\<not> canEdit \<or> saving)\<rparr>,
      \<lparr>fc_tag = ''el-switch'', fc_model = [js ''policy'', js ''auto_publish_enabled''], fc_disabled = (\<not> canEdit \<or> \<not> enabled \<or> saving)\<rparr>,
      \<lparr>fc_tag = ''el-select'', fc_model = [js ''policy'', js ''strategy''], fc_disabled = (\<not> canEdit \<or> \<not> enabled \<or> saving)\<rparr>,
      \<lparr>fc_tag = ''el-input-number'', fc_model = [js ''policy'', js ''min_confidence''], fc_disabled = (\<not> canEdit \<or> saving)\<rparr>])"

definition flag_controls :: "bool \<Rightarrow> governance_form \<Rightarrow> form_control list" where
  "flag_controls canEdit f = (if \<not> truthy (gf_flags f) then [] else
     map (\<lambda>(key, label). \<lparr>fc_tag = ''el-switch'', fc_model = [js ''flags'', js ''flags'', key], fc_disabled = (\<not> canEdit \<or> form_isSaving f)\<rparr>)
       SAFE_FEATURE_FLAG_DEFINITIONS)"

definition form_controls :: "jstr \<Rightarrow> bool \<Rightarrow> governance_form \<Rightarrow> form_control list" where
  "form_controls projectKey canEdit f = (if projectKey = [] then [] else policy_controls canEdit f @ flag_controls canEdit f)"

text \<open>The options of the execution mode, with whether they are disabled.\<close>

definition strategy_options :: "governance_form \<Rightarrow> (string \<times> bool) list" where
  "strategy_options f = [(''manual_review'', False), (''auto_publish'', \<not> truthy (get_prop (gf_policy f) (js ''auto_publish_enabled'')))]"

section \<open>Which controls work\<close>

text \<open>The names under which a tag of a template finds its component: as it is written, in camel case, in Pascal case.\<close>

fun camelize :: "string \<Rightarrow> string" where
  "camelize (CHR ''-'' # c # cs) = (let n = (of_char c :: nat) in if 97 \<le> n \<and> n \<le> 122 then char_of (n - 32) else c) # camelize cs"
| "camelize (c # cs) = c # camelize cs"
| "camelize [] = []"

definition tag_names :: "string \<Rightarrow> string list" where
  "tag_names t = [t, camelize t, camelize (CHR ''-'' # t)]"

definition finds_registered :: "((string \<rightharpoonup> string) \<Rightarrow> string \<Rightarrow> string option) \<Rightarrow> bool" where
  "finds_registered resolve \<longleftrightarrow> (\<forall>m t. (resolve m t = None) = (\<forall>n \<in> set (tag_names t). m n = None))"

lemma tag_names_controls:
  "tag_names ''el-switch'' = [''el-switch'', ''elSwitch'', ''ElSwitch'']"
  "tag_names ''el-select'' = [''el-select'', ''elSelect'', ''ElSelect'']"
  "tag_names ''el-input-number'' = [''el-input-number'', ''elInputNumber'', ''ElInputNumber'']"
  by code_simp+

lemma registered_components:
  "ca_components (foldl (register name_of) app cs) = foldl (\<lambda>m c. m(name_of c \<mapsto> c)) (ca_components app) cs"
  by (induction cs arbitrary: app) (simp_all add: register_def)

lemma registered_exactly:
  assumes "\<forall>c \<in> set cs. name_of c = c"
  shows "foldl (\<lambda>m c. m(name_of c \<mapsto> c)) m cs n = (if n \<in> set cs then Some n else m n)"
  using assms by (induction cs arbitrary: m) auto

lemma main_registers:
  assumes "\<forall>c \<in> set console_components. name_of c = c"
  shows "ca_components (main_js name_of) n = (if n \<in> set console_components then Some n else None)"
  using registered_exactly [OF assms, of Map.empty n]
  by (simp add: main_js_def Let_def registered_components create_app_def)

lemma live_controls:
  assumes "\<forall>c \<in> set console_components. name_of c = c" "finds_registered resolve"
  shows "(resolve (ca_components (main_js name_of)) ''el-switch'' = None)" "resolve (ca_components (main_js name_of)) ''el-input-number'' = None"
    "resolve (ca_components (main_js name_of)) ''el-select'' \<noteq> None"
proof -
  have "(resolve (ca_components (main_js name_of)) t = None) = (\<forall>n \<in> set (tag_names t). n \<notin> set console_components)" for t
    using assms(2) main_registers [OF assms(1)] by (simp add: finds_registered_def)
  then show "resolve (ca_components (main_js name_of)) ''el-switch'' = None" "resolve (ca_components (main_js name_of)) ''el-input-number'' = None"
    "resolve (ca_components (main_js name_of)) ''el-select'' \<noteq> None"
    by (simp_all add: tag_names_controls console_components_def)
qed

text \<open>C17. Of the controls of the governance form only the selection of the execution mode works in the console that
  \<open>main.js\<close> starts: \<open>el-switch\<close> and \<open>el-input-number\<close> are never registered, so the switch of the policy, the switch of the
  automatic publication, the threshold and all feature switches are no controls.  And since the selection is disabled as long
  as the policy is, a policy that is not enabled cannot be changed at all.\<close>

theorem governance_form_inert:
  assumes "\<forall>c \<in> set console_components. name_of c = c" "finds_registered resolve"
  shows "map fc_model (filter (\<lambda>c. resolve (ca_components (main_js name_of)) (fc_tag c) \<noteq> None \<and> \<not> fc_disabled c) (form_controls key canEdit f))
    = (if key \<noteq> [] \<and> canEdit \<and> \<not> form_isSaving f \<and> truthy (gf_policy f) \<and> truthy (get_prop (gf_policy f) (js ''enabled''))
       then [[js ''policy'', js ''strategy'']] else [])"
  using live_controls [OF assms]
  by (auto simp: form_controls_def policy_controls_def flag_controls_def Let_def filter_map o_def case_prod_unfold)

theorem governance_form_inert_witness:
  "map fc_model (filter (\<lambda>c. (\<lambda>m t. List.find (\<lambda>n. m n \<noteq> None) (tag_names t)) (ca_components (main_js id)) (fc_tag c) \<noteq> None
      \<and> \<not> fc_disabled c) (form_controls (js ''a'') True \<lparr>gf_policy = JObj [(js ''enabled'', JBool False)], gf_flags = JObj [],
        gf_savingSection = [], gf_error = None, gf_localValidationError = S ''''\<rparr>)) = []"
proof -
  have "finds_registered (\<lambda>m t. List.find (\<lambda>n. m n \<noteq> None) (tag_names t))"
    by (auto simp: finds_registered_def find_None_iff)
  from governance_form_inert [OF _ this, of id "js ''a''" True] show ?thesis by simp
qed

end
