(* ===== verification/SystemControls.thy ===== *)
theory SystemControls imports Emulation SystemLaws Bootstrap begin

text \<open>
  The controls of \<open>views/SystemStatusView.vue\<close>, of its login card and of its governance form, with the conditions under which the
  templates show them.  Whether the identity is an administrator is a parameter; the gates of the card and \<open>can-edit\<close> of the form
  read it from the session store.
\<close>

section \<open>The controls\<close>

text \<open>The page shows its parts unless its first load failed.\<close>

definition parts_shown :: "system_page \<Rightarrow> bool" where
  "parts_shown s \<longleftrightarrow> sy_error s = None \<or> (case sy_data s of JObj ps \<Rightarrow> ps \<noteq> [] | JArr xs \<Rightarrow> xs \<noteq> [] | JStr t \<Rightarrow> t \<noteq> [] | _ \<Rightarrow> False)"

definition card_start_enabled :: "system_page \<Rightarrow> bool" where
  "card_start_enabled s \<longleftrightarrow> \<not> card_busy (sy_authBusy s) \<and> \<not> strict_eq (sy_authStatus s) (S ''login_in_progress'')"

definition card_cancel_enabled :: "system_page \<Rightarrow> bool" where
  "card_cancel_enabled s \<longleftrightarrow> \<not> card_busy (sy_authBusy s) \<and> strict_eq (sy_authStatus s) (S ''login_in_progress'')"

definition form_editable :: "bool \<Rightarrow> jstr list \<Rightarrow> system_page \<Rightarrow> bool" where
  "form_editable admin path s \<longleftrightarrow> (\<exists>c \<in> set (form_controls (system_projectKey s) admin (form_of s)). fc_model c = path \<and> \<not> fc_disabled c)"

definition policy_saveable :: "bool \<Rightarrow> system_page \<Rightarrow> bool" where
  "policy_saveable admin s \<longleftrightarrow> system_projectKey s \<noteq> [] \<and> truthy (sy_policy s) \<and> admin \<and> form_policyValidationError (form_of s) = []
     \<and> sy_savingSection s \<noteq> ''policy''"

definition flags_saveable :: "bool \<Rightarrow> system_page \<Rightarrow> bool" where
  "flags_saveable admin s \<longleftrightarrow> system_projectKey s \<noteq> [] \<and> truthy (sy_flags s) \<and> admin \<and> sy_savingSection s \<noteq> ''flags''"

inductive system_head_ui :: "(jserror \<Rightarrow> jstr) \<Rightarrow> (system_page, unit) task \<Rightarrow> bool" for engine where
  "system_head_ui engine (guarded (\<lambda>s. \<not> sy_refreshing s) (system_refresh engine True))"
| "system_head_ui engine (guarded (\<lambda>s. \<not> parts_shown s) (system_refresh engine True))"

inductive login_card_ui :: "(jserror \<Rightarrow> jstr) \<Rightarrow> bool \<Rightarrow> (system_page, unit) task \<Rightarrow> bool" for engine admin where
  "login_card_ui engine admin (guarded (\<lambda>s. parts_shown s \<and> admin \<and> card_start_enabled s) (startCodexLogin engine))"
| "login_card_ui engine admin (guarded (\<lambda>s. parts_shown s \<and> admin \<and> card_cancel_enabled s) (cancelCodexLogin engine))"
| "login_card_ui engine admin (guarded (\<lambda>s. parts_shown s \<and> admin \<and> \<not> card_busy (sy_authBusy s)) (recheckCodexLogin engine))"

inductive health_ui :: "(system_page, unit) task \<Rightarrow> bool" where
  "health_ui (guarded (\<lambda>s. parts_shown s \<and> hc_to check \<noteq> []) (Update (system_open check) return))"

inductive governance_ui :: "(jserror \<Rightarrow> jstr) \<Rightarrow> bool \<Rightarrow> (system_page, unit) task \<Rightarrow> bool" for engine admin where
  "governance_ui engine admin (guarded (\<lambda>s. parts_shown s \<and> form_editable admin [js ''policy'', js k] s) (edit_policy k v))"
| "governance_ui engine admin (guarded (\<lambda>s. parts_shown s \<and> form_editable admin [js ''flags'', js ''flags'', f] s) (edit_flag f v))"
| "governance_ui engine admin (guarded (\<lambda>s. parts_shown s \<and> admin) sync_form)"
| "governance_ui engine admin (guarded (\<lambda>s. parts_shown s \<and> policy_saveable admin s) (submit_form (form_savePolicy engine)))"
| "governance_ui engine admin (guarded (\<lambda>s. parts_shown s \<and> flags_saveable admin s) (submit_form (form_saveFlags engine)))"

text \<open>All controls, the interval and the watcher of the context.\<close>

definition system_ui :: "(jserror \<Rightarrow> jstr) \<Rightarrow> bool \<Rightarrow> (system_page, unit) task \<Rightarrow> bool" where
  "system_ui engine admin t \<longleftrightarrow> system_head_ui engine t \<or> login_card_ui engine admin t \<or> health_ui t \<or> governance_ui engine admin t
     \<or> (\<exists>now. t = vr_run (system_refresh engine False) (\<lambda>s. s\<lparr>sy_lastUpdatedAt := now\<rparr>))
     \<or> (\<exists>q c p. t = system_contextChanged engine q c p)"

lemmas system_ui_elims = system_head_ui.cases login_card_ui.cases health_ui.cases governance_ui.cases

section \<open>Reading only\<close>

lemma form_locked: "\<not> form_editable False path s"
  by (auto simp: form_editable_def form_controls_def policy_controls_def flag_controls_def Let_def split: if_splits)

lemma refresh_reads: "sends reading (system_refresh engine manual)"
  by (auto simp: refresh_defs settings_defs Let_def intro!: task_intro split: list.split sum.split)

interpretation system_read_only: careful_page "system_init engine" "system_ui engine False" "\<lambda>s. True" reading for engine
proof
  show "True \<and> (\<forall>t \<in> set ts. sends reading t)" if "system_init engine s ts" for s ts
    using that careful_segment [OF refresh_reads] by (auto simp: system_init_def)
  show "sends reading t" if "system_ui engine False t" for t
    using that unfolding system_ui_def
    by (elim disjE exE system_ui_elims) (auto simp: form_locked policy_saveable_def flags_saveable_def vr_run_def system_contextChanged_def
      intro!: task_intro refresh_reads)
qed

interpretation system_emulation: emulation "system_init engine" "system_init engine" "system_handler engine" "system_ui engine admin" for engine admin
proof
  show "emulates (system_handler engine) t s" if "system_ui engine admin t" for t s
    using that unfolding system_ui_def
    by (elim disjE exE system_ui_elims; simp only:) (intro emulates_guarded emulates_handler [of "system_handler engine"] system_handler.intros)+
qed

text \<open>For an identity without the permission of an administrator no interleaving of the controls of the system page, its
  interval and the watcher of the context has a writing request on its way: no login action of the worker, no setting.\<close>

theorem read_only_system:
  assumes "page_run (system_init engine) (system_ui engine False) s ts" "Await c k \<in> set ts"
  shows "reading c"
  using system_read_only.asked [OF assms] .

theorem read_only_system_witness:
  "\<exists>s ts c k. page_run (system_init (\<lambda>e. [])) (system_ui (\<lambda>e. []) False) s ts \<and> Await c k \<in> set ts \<and> reading c"
proof -
  let ?e = "\<lambda>e :: jserror. [] :: jstr"
  obtain s c k where first: "segment (system_refresh ?e False) (system_initial JUndef JUndef JUndef) = (s, Await c k)"
    by (simp add: refresh_defs Let_def system_initial_def refresh_begun_def await_call_def await_task_def)
  then have run: "page_run (system_init ?e) (system_ui ?e False) s [Await c k]"
    by (intro page_run.mount) (auto simp: system_init_def)
  have "reading c" by (rule read_only_system [OF run]) simp
  then show ?thesis using run by (intro exI conjI) (assumption, simp_all)
qed

end
