(* ===== verification/ReadingPages.thy ===== *)
theory ReadingPages imports Controls RecordsLaws ProjectsLaws DashboardLaws TaskRunsPage TaskDetailLaws begin

text \<open>
  The pages that only show something: the ledger, the register of projects, the overview, and the pages of the task runs.
  Whatever their handlers are called with, and whoever is signed in, they send reading calls only.
\<close>

section \<open>The ledger and the register\<close>

lemma records_reads: "sends reading (records_load host)" "sends reading (records_commit patch)" "sends reading (records_mounted host)"
  by (auto simp: records_load_def records_listed_def records_commit_def records_mounted_def rq_commit_def Let_def intro!: task_intro)

interpretation records_reading: careful_page "records_init host" "records_handler host" "\<lambda>s. True" reading for host
proof
  show "True \<and> (\<forall>t \<in> set ts. sends reading t)" if "records_init host s ts" for s ts
    using that careful_segment [OF records_reads(3)] by (auto simp: records_init_def)
  show "sends reading t" if "records_handler host t" for t
    using that by cases (auto simp: records_handler_defs intro!: task_intro records_reads)
qed

lemma projects_reads: "sends reading projects_load" "sends reading (projects_commit patch)" "sends reading projects_detailChanged"
  "sends reading (projects_loadDetail key)"
  by (auto simp: projects_load_def projects_listed_def projects_commit_def rq_commit_def projects_detailChanged_def projects_loadDetail_def
      detail_settled_def Let_def intro!: task_intro split: list.split sum.split)

interpretation projects_reading: careful_page projects_init projects_handler "\<lambda>s. True" reading
proof
  show "True \<and> (\<forall>t \<in> set ts. sends reading t)" if "projects_init s ts" for s ts
    using that careful_segment [OF projects_reads(3)] careful_segment [OF projects_reads(1)] by (fastforce simp: projects_init_def)
  show "sends reading t" if "projects_handler t" for t
    using that by cases (auto simp: projects_handler_defs intro!: task_intro projects_reads)
qed

section \<open>The overview\<close>

lemma dashboard_reads: "sends reading (dashboard_load manual)"
  by (auto simp: dashboard_load_def dashboard_answered_def dashboard_requests_def take_answer_def Let_def
      intro!: task_intro split: list.split sum.split)

interpretation dashboard_reading: careful_page dashboard_init dashboard_handler "\<lambda>s. True" reading
proof
  show "True \<and> (\<forall>t \<in> set ts. sends reading t)" if "dashboard_init s ts" for s ts
    using that careful_segment [OF dashboard_reads] by (auto simp: dashboard_init_def)
  show "sends reading t" if "dashboard_handler t" for t
    using that by cases (auto simp: vr_run_def dashboard_routeChanged_def intro!: task_intro dashboard_reads)
qed

section \<open>The task runs\<close>

lemma runs_reads: "sends reading (runs_load host b)"
  by (auto simp: runs_load_defs Let_def intro!: task_intro split: if_splits)

lemma runs_route_reads: "sends reading (runs_routeChanged host q)"
  unfolding runs_routeChanged_def by (intro task_intro) (simp_all only: if_split careful.simps runs_reads simp_thms)

lemma runs_handlers_read: "runs_handler host t \<Longrightarrow> sends reading t"
  by (erule runs_handler.cases) (simp_all add: runs_search_def runs_reset_def runs_reads runs_route_reads)

interpretation runs_reading: careful_page runs_init "runs_handler host" "\<lambda>s. True" reading for host
proof
  show "True \<and> (\<forall>t \<in> set ts. sends reading t)" if "runs_init s ts" for s ts
    using that by (simp add: runs_init_def)
  show "sends reading t" if "runs_handler host t" for t
    using that by (rule runs_handlers_read)
qed

lemma detail_reads: "sends reading td_load" "sends reading (loadReport v b)" "sends reading syncDetailQuery"
    "sends reading td_revisionChanged" "sends reading td_idChanged"
  by (auto simp: td_load_def loadReport_def syncDetailQuery_def td_revisionChanged_def td_idChanged_def Let_def intro!: task_intro)

interpretation detail_reading: careful_page task_detail_init task_detail_handler "\<lambda>s. True" reading
proof
  show "True \<and> (\<forall>t \<in> set ts. sends reading t)" if "task_detail_init s ts" for s ts
    using that careful_segment [OF detail_reads(1)] by (auto simp: task_detail_init_def)
  show "sends reading t" if "task_detail_handler t" for t
    using that by cases (auto intro!: task_intro detail_reads)
qed

section \<open>Reading only\<close>

text \<open>Reading pages never have a writing request on their way.\<close>

theorem reading_pages:
  "page_run (records_init host) (records_handler host) s1 ts1 \<Longrightarrow> Await c1 k1 \<in> set ts1 \<Longrightarrow> reading c1"
  "page_run projects_init projects_handler s2 ts2 \<Longrightarrow> Await c2 k2 \<in> set ts2 \<Longrightarrow> reading c2"
  "page_run dashboard_init dashboard_handler s3 ts3 \<Longrightarrow> Await c3 k3 \<in> set ts3 \<Longrightarrow> reading c3"
  "page_run runs_init (runs_handler host) s4 ts4 \<Longrightarrow> Await c4 k4 \<in> set ts4 \<Longrightarrow> reading c4"
  "page_run task_detail_init task_detail_handler s5 ts5 \<Longrightarrow> Await c5 k5 \<in> set ts5 \<Longrightarrow> reading c5"
  by (rule records_reading.asked, assumption+) (rule projects_reading.asked, assumption+, rule dashboard_reading.asked, assumption+,
    rule runs_reading.asked, assumption+, rule detail_reading.asked, assumption+)

end
