(* ===== verification/Widgets.thy ===== *)
theory Widgets imports MarkdownSafety FormatLaws NumberOps Async begin

text \<open>
  The small components of the console (\<open>components/*.vue\<close>): texts, tags and dates, the cells of a table, the copy buttons, the
  pagination bar, the drop zone, and the dialog that confirms an action.  A component is given by its properties; what it emits
  is a value that its parent receives.
\<close>

section \<open>Readable values\<close>

text \<open>The text of a value is always a string here, because no field name is given to the renderer.\<close>

definition readable :: "intl \<Rightarrow> heap \<Rightarrow> nat \<Rightarrow> fval \<Rightarrow> jstr js" where
  "readable host h maxDepth v = andThen (formatReadableValue host h maxDepth v) (\<lambda>r. Inr (to_string r))"

definition readable_html :: "intl \<Rightarrow> heap \<Rightarrow> nat \<Rightarrow> fval \<Rightarrow> jstr js" where
  "readable_html host h maxDepth v = andThen (readable host h maxDepth v) (\<lambda>t. Inr (renderSafeMarkdown (JStr t)))"

definition preview_html :: "jsval \<Rightarrow> jstr option" where
  "preview_html source = (if truthy source then Some (renderSafeMarkdown source) else None)"

definition clip :: "int \<Rightarrow> jstr \<Rightarrow> jstr" where
  "clip limit t = take (nat (if limit < 0 then int (length t) + limit else limit)) t @ [0x2026]"

record expandable =
  et_value :: fval
  et_limit :: int
  et_expanded :: bool

definition et_truncated :: "intl \<Rightarrow> heap \<Rightarrow> expandable \<Rightarrow> bool js" where
  "et_truncated host h e = andThen (readable host h default_depth (et_value e)) (\<lambda>t. Inr (et_limit e < int (length t)))"

definition et_shown :: "intl \<Rightarrow> heap \<Rightarrow> expandable \<Rightarrow> jstr js" where
  "et_shown host h e = andThen (readable host h default_depth (et_value e)) (\<lambda>t. andThen (et_truncated host h e) (\<lambda>cut.
     Inr (if et_expanded e \<or> \<not> cut then t else clip (et_limit e) t)))"

definition et_html :: "intl \<Rightarrow> heap \<Rightarrow> expandable \<Rightarrow> jstr js" where
  "et_html host h e = andThen (et_shown host h e) (\<lambda>t. Inr (renderSafeMarkdown (JStr t)))"

definition et_hasValue :: "expandable \<Rightarrow> bool" where
  "et_hasValue e \<longleftrightarrow> et_value e \<notin> {Prim JNull, Prim JUndef, Prim (JStr [])}"

definition et_toggle :: "expandable \<Rightarrow> expandable" where
  "et_toggle e = e\<lparr>et_expanded := \<not> et_expanded e\<rparr>"

section \<open>Tags, dates and cells\<close>

definition tag_meta :: "jsval \<Rightarrow> jsval \<Rightarrow> status_meta js" where
  "tag_meta status label = statusMeta (if status = JBool True then S ''ok'' else if status = JBool False then S ''error'' else status) label"

definition tag_label :: "jsval \<Rightarrow> jsval \<Rightarrow> jsval js" where
  "tag_label status label = andThen (tag_meta status label) (\<lambda>m. Inr (js_or label (sm_label m)))"

definition date_label :: "intl \<Rightarrow> jsval \<Rightarrow> bool \<Rightarrow> jstr" where
  "date_label host v seconds = formatDateTime host v seconds"

definition date_attribute :: "intl \<Rightarrow> jsval \<Rightarrow> jstr option" where
  "date_attribute host v = (if truthy v then map_option iso_string (parse_date host v) else None)"

text \<open>What a cell of a table is drawn with; the columns of the console have no formatter of their own.\<close>

datatype cell = DateCell fval | StatusCell fval | MonoCell fval jsval | ReadableCell fval | TextCell "jsval js"

definition table_cell :: "intl \<Rightarrow> heap \<Rightarrow> jsval \<Rightarrow> fval \<Rightarrow> cell" where
  "table_cell host h column v = (let type = get_prop column (js ''type'') in
     if strict_eq type (S ''date'') then DateCell v
     else if strict_eq type (S ''status'') then StatusCell v
     else if strict_eq type (S ''mono'') then MonoCell v (js_or (get_prop column (js ''truncate'')) (N 0))
     else if isStructured v then ReadableCell v
     else TextCell (displayValue host h v))"

definition table_cells :: "intl \<Rightarrow> heap \<Rightarrow> jsval list \<Rightarrow> fval \<Rightarrow> cell list" where
  "table_cells host h columns row = map (\<lambda>c. table_cell host h c (heap_get h row (to_string (get_prop c (js ''key''))))) columns"

section \<open>Copy buttons\<close>

definition ct_text :: "intl \<Rightarrow> heap \<Rightarrow> fval \<Rightarrow> jstr js" where
  "ct_text host h v = (case v of Ref a \<Rightarrow> readable host h default_depth v
    | Prim p \<Rightarrow> Inr (if is_nullish p then [] else to_string p))"

definition ct_shown :: "int \<Rightarrow> jstr \<Rightarrow> jstr" where
  "ct_shown n t = (if 0 < n \<and> n < int (length t) then clip n t else t)"

definition viewer_text :: "intl \<Rightarrow> heap \<Rightarrow> fval \<Rightarrow> jstr js" where
  "viewer_text host h v = andThen (serializeRawJson host h v) (\<lambda>r. Inr (to_string r))"

text \<open>A copy button: whether it shows success, the pending time-outs that take this back, the pending writes of the clipboard, and
  the texts that were copied.\<close>

record copier =
  cp_copied :: bool
  cp_timers :: nat
  cp_writing :: "jstr list"
  cp_clipboard :: "jstr list"

definition copier_initial :: copier where
  "copier_initial = \<lparr>cp_copied = False, cp_timers = 0, cp_writing = [], cp_clipboard = []\<rparr>"

definition copy_done :: "copier \<Rightarrow> copier" where
  "copy_done c = c\<lparr>cp_copied := True, cp_timers := Suc (cp_timers c)\<rparr>"

text \<open>\<open>api\<close>: the browser has a clipboard to write to; otherwise the text goes through a hidden text area at once.\<close>

definition copy_start :: "bool \<Rightarrow> jstr \<Rightarrow> copier \<Rightarrow> copier" where
  "copy_start api t c = (if t = [] then c
     else if api then c\<lparr>cp_writing := cp_writing c @ [t]\<rparr>
     else copy_done (c\<lparr>cp_clipboard := cp_clipboard c @ [t]\<rparr>))"

definition copy_written :: "nat \<Rightarrow> copier \<Rightarrow> copier" where
  "copy_written i c = copy_done (c\<lparr>cp_writing := take i (cp_writing c) @ drop (Suc i) (cp_writing c),
     cp_clipboard := cp_clipboard c @ [cp_writing c ! i]\<rparr>)"

text \<open>A write that the browser refuses: \<open>CopyableText\<close> leaves the rejection to the browser, \<open>StructuredDataViewer\<close> catches it.\<close>

definition text_refused :: "nat \<Rightarrow> copier \<Rightarrow> copier" where
  "text_refused i c = c\<lparr>cp_writing := take i (cp_writing c) @ drop (Suc i) (cp_writing c)\<rparr>"

definition viewer_refused :: "nat \<Rightarrow> copier \<Rightarrow> copier" where
  "viewer_refused i c = (text_refused i c)\<lparr>cp_copied := False\<rparr>"

definition copy_timeout :: "copier \<Rightarrow> copier" where
  "copy_timeout c = c\<lparr>cp_copied := False, cp_timers := cp_timers c - 1\<rparr>"

inductive copier_run :: "(nat \<Rightarrow> copier \<Rightarrow> copier) \<Rightarrow> bool \<Rightarrow> copier \<Rightarrow> bool" for refused api where
  mounted: "copier_run refused api copier_initial"
| click: "copier_run refused api c \<Longrightarrow> copier_run refused api (copy_start api t c)"
| written: "copier_run refused api c \<Longrightarrow> i < length (cp_writing c) \<Longrightarrow> copier_run refused api (copy_written i c)"
| refused: "copier_run refused api c \<Longrightarrow> i < length (cp_writing c) \<Longrightarrow> copier_run refused api (refused i c)"
| timeout: "copier_run refused api c \<Longrightarrow> 0 < cp_timers c \<Longrightarrow> copier_run refused api (copy_timeout c)"

section \<open>Pagination and files\<close>

datatype pagination_event = UpdatePage jsval | UpdatePageSize jsval | PageChange jsval

definition sizeChange :: "jsval \<Rightarrow> pagination_event list" where
  "sizeChange v = [UpdatePageSize v, UpdatePage (N 1), PageChange (JObj [(js ''page'', N 1), (js ''pageSize'', v)])]"

definition pageChange :: "jsval \<Rightarrow> pagination_event list" where
  "pageChange v = [UpdatePage v, PageChange (JObj [(js ''page'', v)])]"

record dropzone =
  dz_maxSize :: int
  dz_disabled :: bool
  dz_active :: bool

datatype dropzone_event = FileChosen jsfile | FileError jstr

definition msg_too_large :: "int \<Rightarrow> jstr" where
  "msg_too_large size' = [0x6587, 0x4ef6, 0x4e0d, 0x80fd, 0x8d85, 0x8fc7, 32] @ num_to_string (math_round (num_div (num_div (Fin (of_int size')) (Fin 1024)) (Fin 1024))) @ js '' MB''"

definition dz_choose :: "jsfile option \<Rightarrow> dropzone \<Rightarrow> dropzone_event option" where
  "dz_choose file d = (case file of None \<Rightarrow> None
    | Some f \<Rightarrow> if dz_disabled d then None
        else if dz_maxSize d < file_size f then Some (FileError (msg_too_large (dz_maxSize d)))
        else Some (FileChosen f))"

definition dz_drop :: "jsfile list \<Rightarrow> dropzone \<Rightarrow> dropzone \<times> dropzone_event option" where
  "dz_drop files d = (let d' = d\<lparr>dz_active := False\<rparr> in (d', dz_choose (case files of [] \<Rightarrow> None | f # fs \<Rightarrow> Some f) d'))"

definition upload_percent :: "jnum \<Rightarrow> jnum" where
  "upload_percent progress = math_round progress"

section \<open>Confirmation\<close>

text \<open>
  The dialog keeps a copy of the reason its parent holds.  Its watchers run before it is drawn again, so they are part of the
  operation that triggers them; \<open>cd_bound\<close>: the parent stores what \<open>update:reason\<close> emits (\<open>v-model:reason\<close>).
\<close>

record confirm_dialog =
  cd_open :: bool
  cd_reason :: jstr
  cd_requiresReason :: bool
  cd_loading :: bool
  cd_bound :: bool
  cd_localReason :: jstr

definition cd_mounted :: "bool \<Rightarrow> jstr \<Rightarrow> bool \<Rightarrow> bool \<Rightarrow> confirm_dialog" where
  "cd_mounted v reason requires bound = \<lparr>cd_open = v, cd_reason = reason, cd_requiresReason = requires, cd_loading = False,
     cd_bound = bound, cd_localReason = reason\<rparr>"

definition cd_allowed :: "confirm_dialog \<Rightarrow> bool" where
  "cd_allowed d \<longleftrightarrow> \<not> cd_requiresReason d \<or> trim (cd_localReason d) \<noteq> []"

text \<open>The watcher of the own copy emits it; the one of the parent's reason copies it.\<close>

definition cd_localChanged :: "confirm_dialog \<Rightarrow> confirm_dialog" where
  "cd_localChanged d = (if cd_bound d then d\<lparr>cd_reason := cd_localReason d\<rparr> else d)"

definition cd_reasonChanged :: "jstr \<Rightarrow> confirm_dialog \<Rightarrow> confirm_dialog" where
  "cd_reasonChanged r d = cd_localChanged (d\<lparr>cd_reason := r, cd_localReason := (if r \<noteq> cd_reason d then r else cd_localReason d)\<rparr>)"

definition cd_typed :: "jstr \<Rightarrow> confirm_dialog \<Rightarrow> confirm_dialog" where
  "cd_typed t d = cd_localChanged (d\<lparr>cd_localReason := t\<rparr>)"

definition cd_opened :: "confirm_dialog \<Rightarrow> confirm_dialog" where
  "cd_opened d = (if cd_open d then d
     else if cd_reason d = [] then cd_localChanged (d\<lparr>cd_open := True, cd_localReason := []\<rparr>) else d\<lparr>cd_open := True\<rparr>)"

definition cd_cancel :: "confirm_dialog \<Rightarrow> confirm_dialog" where
  "cd_cancel d = (if cd_loading d then d else d\<lparr>cd_open := False\<rparr>)"

definition cd_confirm :: "confirm_dialog \<Rightarrow> jstr option" where
  "cd_confirm d = (if cd_open d \<and> \<not> cd_loading d \<and> cd_allowed d then Some (trim (cd_localReason d)) else None)"

inductive dialog_run :: "confirm_dialog \<Rightarrow> bool" where
  mounted: "dialog_run (cd_mounted v reason requires bound)"
| typed: "dialog_run d \<Longrightarrow> cd_open d \<Longrightarrow> dialog_run (cd_typed t d)"
| reason: "dialog_run d \<Longrightarrow> dialog_run (cd_reasonChanged r d)"
| opened: "dialog_run d \<Longrightarrow> dialog_run (cd_opened d)"
| cancel: "dialog_run d \<Longrightarrow> dialog_run (cd_cancel d)"
| closed: "dialog_run d \<Longrightarrow> dialog_run (d\<lparr>cd_open := False\<rparr>)"
| loading: "dialog_run d \<Longrightarrow> dialog_run (d\<lparr>cd_loading := b\<rparr>)"
| requires: "dialog_run d \<Longrightarrow> dialog_run (d\<lparr>cd_requiresReason := b\<rparr>)"

section \<open>Laws\<close>

text \<open>Every place of the console where HTML is inserted gets what the renderer made.\<close>

lemma rendered_safe: "safe_html (renderSafeMarkdown v)"
  unfolding renderSafeMarkdown_def by (rule document_safe [OF render_document])

lemma html_sinks_safe:
  "readable_html host h d v = Inr t \<Longrightarrow> safe_html t" "preview_html source = Some t \<Longrightarrow> safe_html t" "et_html host h e = Inr t \<Longrightarrow> safe_html t"
  by (auto simp: readable_html_def preview_html_def et_html_def andThen_Inr_iff rendered_safe split: if_splits)

lemma format_text:
  assumes "formatReadableValue host h d v = Inr r"
  shows "\<exists>t. r = JStr t"
proof -
  have scalar: "scalarReadableValue host [] p = Inr q \<Longrightarrow> \<exists>t. q = JStr t" for p q
    by (auto simp: scalarReadableValue_def to_lower_def js_def ends_with_def starts_with_def status_keys_def confidence_keys_def split: if_splits)
  show ?thesis
    using assms by (auto simp: formatReadableValue_def renderReadableValue.simps [of d] andThen_Inr_iff Let_def
        split: fval.splits nat.splits fobj.splits if_splits dest!: scalar)
qed

text \<open>A text that is cut shows as much as its limit and the sign of the cut; one that is not shows everything.\<close>

lemma expandable_bounded:
  assumes "0 \<le> et_limit e" "readable host h default_depth (et_value e) = Inr t"
  shows "et_shown host h e = Inr (if et_expanded e then t else if int (length t) \<le> et_limit e then t else take (nat (et_limit e)) t @ [0x2026])"
    "\<not> et_expanded e \<Longrightarrow> et_shown host h e = Inr u \<Longrightarrow> int (length u) \<le> et_limit e + 1"
    "et_expanded e \<Longrightarrow> et_shown host h e = Inr t"
  using assms by (auto simp: et_shown_def et_truncated_def clip_def)

text \<open>A copy button that shows success will take it back: a time-out is pending.  And it only claims what is on the clipboard.\<close>

lemma copier_honest:
  assumes "copier_run refused api c" "refused = text_refused \<or> refused = viewer_refused"
  shows "cp_copied c \<longrightarrow> 0 < cp_timers c \<and> cp_clipboard c \<noteq> []"
proof -
  have "(0 < cp_timers c \<longrightarrow> cp_clipboard c \<noteq> []) \<and> (cp_copied c \<longrightarrow> 0 < cp_timers c)"
    using assms(1)
    by induction (use assms(2) in \<open>auto simp: copier_initial_def copy_start_def copy_done_def copy_written_def text_refused_def
        viewer_refused_def copy_timeout_def\<close>)
  then show ?thesis by auto
qed

lemma dialog_synced: "dialog_run d \<Longrightarrow> cd_bound d \<Longrightarrow> cd_localReason d = cd_reason d"
  by (induction rule: dialog_run.induct)
    (auto simp: cd_mounted_def cd_typed_def cd_reasonChanged_def cd_localChanged_def cd_opened_def cd_cancel_def split: if_splits)

text \<open>In every reachable state of the dialog a confirmation carries a trimmed reason, which is not blank if a reason is required,
  and which is the reason the parent holds, if the parent stores what the dialog emits.\<close>

theorem confirmed_reason:
  assumes "dialog_run d" "cd_confirm d = Some r"
  shows "trim r = r \<and> (cd_requiresReason d \<longrightarrow> r \<noteq> []) \<and> (cd_bound d \<longrightarrow> r = trim (cd_reason d))"
  using assms dialog_synced [OF assms(1)] by (auto simp: cd_confirm_def cd_allowed_def split: if_splits)

theorem confirmed_reason_witness:
  "\<exists>d. dialog_run d \<and> cd_requiresReason d \<and> cd_confirm d = Some (js ''ok'') \<and> cd_reason d = js '' ok''"
proof -
  let ?d = "cd_typed (js '' ok'') (cd_opened (cd_mounted False [] True True))"
  have run: "dialog_run ?d"
    by (intro dialog_run.intros) (simp add: cd_opened_def cd_mounted_def cd_localChanged_def)
  have "cd_confirm ?d = Some (js ''ok'')" "cd_reason ?d = js '' ok''" "cd_requiresReason ?d" by code_simp+
  then show ?thesis using confirmed_reason [OF run] run by blast
qed

end
