(* ===== verification/Drawing.thy ===== *)
theory Drawing imports PageCommon begin

text \<open>
  What a template draws: texts, interpolated values, and elements or components with their properties and contents.  Reading a
  property of nothing throws, as in the scripts; \<open>v-for\<close> takes what Vue documents.
\<close>

section \<open>Drawn contents\<close>

text \<open>\<open>Value\<close> is an interpolation, whose text Vue makes; \<open>Node\<close> has a tag, the properties that matter and the contents.\<close>

datatype drawn = Words jstr | Value jsval | Node string "(string \<times> jsval) list" "drawn list"

type_synonym drawing = "drawn list js"

definition words :: "jstr \<Rightarrow> drawing" where "words t = Inr [Words t]"

definition interp :: "jsval \<Rightarrow> drawing" where "interp v = Inr [Value v]"

definition element :: "string \<Rightarrow> (string \<times> jsval) list \<Rightarrow> drawing \<Rightarrow> drawing" where
  "element tag ps d = andThen d (\<lambda>ds. Inr [Node tag ps ds])"

text \<open>A component without contents.\<close>

definition leaf :: "string \<Rightarrow> (string \<times> jsval) list \<Rightarrow> drawing" where
  "leaf tag ps = Inr [Node tag ps []]"

definition beside :: "drawing list \<Rightarrow> drawing" where
  "beside ds = andThen (mapM id ds) (\<lambda>xs. Inr (concat xs))"

definition v_if :: "bool \<Rightarrow> drawing \<Rightarrow> drawing" where
  "v_if b d = (if b then d else Inr [])"

text \<open>\<open>row.k\<close> for a row of a list.\<close>

definition with_prop :: "jsval \<Rightarrow> string \<Rightarrow> (jsval \<Rightarrow> drawing) \<Rightarrow> drawing" where
  "with_prop v k f = andThen (get_or_throw v (js k)) f"

text \<open>What \<open>v-for\<close> runs over: elements, the units of a text, \<open>1\<close> to \<open>n\<close>, or the values of an object.\<close>

definition iterated :: "jsval \<Rightarrow> jsval list js" where
  "iterated v = (case v of JArr xs \<Rightarrow> Inr xs | JStr s \<Rightarrow> Inr (map (\<lambda>c. JStr [c]) s) | JObj ps \<Rightarrow> Inr (map snd (entries v))
     | JNum (Fin q) \<Rightarrow> (if of_int \<lfloor>q\<rfloor> = q \<and> 0 \<le> q \<and> q < 2 ^ 32 then Inr (map (\<lambda>i. N (int i)) [1..<Suc (nat \<lfloor>q\<rfloor>)])
         else Inl (HostError (JObj [(js ''name'', S ''RangeError'')])))
     | JNum n \<Rightarrow> Inl (HostError (JObj [(js ''name'', S ''RangeError'')])) | _ \<Rightarrow> Inr [])"

definition for_each :: "(jsval \<Rightarrow> drawing) \<Rightarrow> jsval list \<Rightarrow> drawing" where
  "for_each f xs = beside (map f xs)"

definition v_for :: "(jsval \<Rightarrow> drawing) \<Rightarrow> jsval \<Rightarrow> drawing" where
  "v_for f v = andThen (iterated v) (for_each f)"

text \<open>A table of the widget library draws its columns for every row of the array it is given.\<close>

definition table_rows :: "(jsval \<Rightarrow> drawing list) \<Rightarrow> jsval \<Rightarrow> drawing" where
  "table_rows columns v = for_each (\<lambda>row. element ''row'' [] (beside (columns row))) (elems v)"

lemmas drawing_defs = words_def interp_def element_def leaf_def v_if_def with_prop_def

section \<open>When drawing succeeds\<close>

definition draws :: "drawing \<Rightarrow> bool" where
  "draws d \<longleftrightarrow> (\<exists>ds. d = Inr ds)"

lemma draws_simps [simp]:
  "draws (Inr xs)" "draws (words t)" "draws (interp v)" "draws (leaf tag ps)" "draws (element tag ps d) = draws d" "draws (v_if b d) \<longleftrightarrow> (b \<longrightarrow> draws d)"
  "draws (beside [])" "draws (beside (d # ds)) \<longleftrightarrow> draws d \<and> draws (beside ds)"
  by (auto simp: draws_def drawing_defs beside_def andThen_Inr_iff)

lemma draws_beside: "draws (beside ds) \<longleftrightarrow> (\<forall>d \<in> set ds. draws d)"
  by (induction ds) simp_all

lemma beside_words: "draws (beside ds) \<Longrightarrow> \<exists>xs. beside (words t # ds) = Inr (Words t # xs)"
  by (auto simp: draws_def beside_def words_def andThen_Inr_iff)

lemma draws_with_prop [simp]: "draws (with_prop v k f) \<longleftrightarrow> \<not> is_nullish v \<and> draws (f (get_prop v (js k)))"
  by (cases v) (auto simp: draws_def with_prop_def get_or_throw_def is_nullish_def)

lemma draws_for_each [simp]: "draws (for_each f xs) \<longleftrightarrow> (\<forall>x \<in> set xs. draws (f x))"
  unfolding for_each_def by (induction xs) simp_all

lemma draws_table [simp]: "draws (table_rows columns v) \<longleftrightarrow> (\<forall>x \<in> set (elems v). draws (beside (columns x)))"
  by (simp add: table_rows_def)

lemma draws_v_for_array [simp]: "draws (v_for f (JArr xs)) \<longleftrightarrow> (\<forall>x \<in> set xs. draws (f x))"
  by (simp add: v_for_def iterated_def)

lemma length_truthy [simp]: "truthy (get_prop (JArr xs) (js ''length'')) \<longleftrightarrow> xs \<noteq> []"
  by (simp add: get_prop_def)

lemma draws_andThen: "draws (andThen m f) \<longleftrightarrow> (\<exists>x. m = Inr x \<and> draws (f x))"
  by (auto simp: draws_def andThen_Inr_iff)

text \<open>No element is missing.\<close>

definition present :: "jsval list \<Rightarrow> bool" where
  "present xs \<longleftrightarrow> (\<forall>x \<in> set xs. \<not> is_nullish x)"

text \<open>Elements are drawn one after the other, in the order of the list.\<close>

lemma for_each_drawn:
  assumes "\<And>x. x \<in> set xs \<Longrightarrow> \<exists>d. f x = Inr [d] \<and> R x d"
  shows "\<exists>ds. for_each f xs = Inr ds \<and> list_all2 R xs ds"
  using assms
proof (induction xs)
  case (Cons x xs)
  obtain ds where "for_each f xs = Inr ds" "list_all2 R xs ds" using Cons by auto
  moreover obtain d where "f x = Inr [d]" "R x d" using Cons.prems by auto
  ultimately show ?case by (intro exI [of _ "d # ds"]) (auto simp: for_each_def beside_def andThen_Inr_iff)
qed (simp add: for_each_def beside_def)

end
