(* ===== verification/TaskDetailView.thy ===== *)
theory TaskDetailView imports Drawing TaskDetailPage begin

text \<open>
  The template of \<open>views/TaskRunDetailView.vue\<close>: the head of a run and its five tabs, which are all drawn at once.  An exception
  in one part leaves that part empty; here it is the result of the whole drawing.
\<close>

section \<open>The head\<close>

text \<open>\<open>taskRunStatusLabels[status]\<close>.\<close>

definition run_status_label :: "jsval \<Rightarrow> jsval" where
  "run_status_label status = lookup_prop (map (\<lambda>(k, t). (k, JStr t)) taskRunStatusLabels) (to_string status)"

definition run_status_tag :: "jsval \<Rightarrow> drawing" where
  "run_status_tag status = leaf ''StatusTag'' [(''status'', status), (''label'', run_status_label status)]"

definition task_identity :: "task_detail \<Rightarrow> drawing" where
  "task_identity s = (let run = td_taskRun s in v_if (truthy run) (beside
     [run_status_tag (get_prop run (js ''status'')),
      andThen (taskRunProjectLabel run) interp,
      words ([0x62a5, 0x544a, 32, 118]), interp (js_or (get_prop run (js ''current_report_revision'')) (N 0)),
      andThen (taskRunPrompt run) (\<lambda>p. element ''h2'' []
        (words (if p \<noteq> [] then p else [0x4efb, 0x52a1, 0x8fd0, 0x884c, 32, 35] @ to_string (get_prop run (js ''id''))))),
      v_if (truthy (get_prop run (js ''prompt_truncated''))) (words ([0x8be5, 0x6458, 0x8981, 0x5df2, 0x5728, 0x670d, 0x52a1, 0x7aef, 0x8131, 0x654f,
     0x5e76, 0x622a, 0x65ad, 0xff1b, 0x8be6, 0x60c5, 0x9875, 0x4e0d, 0x4f1a, 0x6062,
     0x590d, 0x539f, 0x59cb, 0x654f, 0x611f, 0x5185, 0x5bb9, 0x3002])),
      leaf ''CopyableText'' [(''value'', get_prop run (js ''session_key''))]]))"

section \<open>The overview and the report\<close>

definition report_row :: "task_detail \<Rightarrow> jsval \<Rightarrow> drawing list" where
  "report_row s row =
     [with_prop row ''revision'' (\<lambda>v. beside [words (js ''v''), interp v]),
      with_prop row ''report_kind'' (\<lambda>v. interp (reportKindLabel v)),
      with_prop row ''status'' run_status_tag,
      with_prop row ''uncertain'' (\<lambda>v. element ''el-tag'' [(''type'', if truthy v then S ''warning'' else S ''success'')]
        (words (if truthy v then [0x9700, 0x8981, 0x590d, 0x6838] else [0x660e, 0x786e]))),
      with_prop row ''created_at'' (\<lambda>v. leaf ''DateTime'' [(''value'', v)]),
      with_prop row ''revision'' (\<lambda>v. element ''el-button'' [(''loading'', JBool (td_reportLoading s \<and> td_revision s = to_string v))]
        (words ([0x67e5, 0x770b, 0x62a5, 0x544a])))]"

definition overview_tab :: "task_detail \<Rightarrow> drawing" where
  "overview_tab s = (let run = td_taskRun s in beside
     [words ([0x5f00, 0x59cb, 0x65f6, 0x95f4]), leaf ''DateTime'' [(''value'', get_prop run (js ''started_at''))],
      words ([0x7ed3, 0x675f, 0x65f6, 0x95f4]), leaf ''DateTime'' [(''value'', get_prop run (js ''ended_at''))],
      words ([0x6587, 0x4ef6, 0x53d8, 0x66f4]), interp (get_prop (fileChanges s) (js ''length'')),
      words ([0x5de5, 0x5177, 0x4e8b, 0x4ef6]), interp (get_prop (td_events s) (js ''length'')),
      element ''el-table'' [] (table_rows (report_row s) (td_reports s))])"

definition report_option :: "jsval \<Rightarrow> drawing" where
  "report_option item = with_prop item ''revision'' (\<lambda>v. leaf ''el-option''
     [(''label'', JStr (js ''v'' @ to_string v @ [32, 0xb7, 32] @ to_string (reportKindLabel (get_prop item (js ''report_kind''))))),
      (''value'', JStr (to_string v))])"

definition report_tab :: "task_detail \<Rightarrow> drawing" where
  "report_tab s = (let r = td_report s; k = get_prop r (js ''report_kind''); u = truthy (get_prop r (js ''uncertain'')) in beside
     [element ''el-select'' [(''modelValue'', JStr (td_revision s)), (''loading'', JBool (td_reportLoading s))] (v_for report_option (td_reports s)),
      v_if (truthy r) (beside
        [element ''el-tag'' [(''type'', S ''primary'')] (beside [words ([0x7248, 0x672c, 32]), interp (get_prop r (js ''revision''))]),
         element ''el-tag'' [(''type'', if strict_eq k (S ''final'') then S ''success'' else S ''warning'')] (interp (reportKindLabel k)),
         element ''el-tag'' [(''type'', if u then S ''warning'' else S ''success'')] (words (if u then [0x5f52, 0x56e0, 0x9700, 0x8981, 0x590d, 0x6838] else [0x5f52, 0x56e0, 0x660e, 0x786e])),
         v_if (truthy (get_prop r (js ''truncated''))) (words ([0x5185, 0x5bb9, 0x5df2, 0x622a, 0x65ad])),
         leaf ''CopyableText'' [(''value'', get_prop r (js ''content_hash''))],
         element ''pre'' [] (interp (reportBody s)), element ''pre'' [] (interp (reportJson s))]),
      v_if (\<not> truthy r) (words ([0x5f53, 0x524d, 0x4efb, 0x52a1, 0x5c1a, 0x672a, 0x751f, 0x6210, 0x62a5, 0x544a]))])"

section \<open>Files, Git and events\<close>

definition file_row :: "jsval \<Rightarrow> drawing list" where
  "file_row row =
     [with_prop row ''change_type'' (\<lambda>v. element ''el-tag'' [(''type'', S (changeTypeTag v))] (interp (changeTypeLabel v))),
      with_prop row ''path'' (\<lambda>v. leaf ''CopyableText'' [(''value'', v)]),
      with_prop row ''old_path'' (\<lambda>v. interp (js_or v (S ''-''))),
      with_prop row ''attribution'' (\<lambda>v. interp (td_displayValue v)),
      with_prop row ''after_hash'' (\<lambda>v. leaf ''CopyableText'' [(''value'', v)])]"

definition files_tab :: "task_detail \<Rightarrow> drawing" where
  "files_tab s = element ''el-table'' [] (table_rows file_row (fileChanges s))"

definition msg_clean :: jstr where "msg_clean = [0x5de5, 0x4f5c, 0x533a, 0x5e72, 0x51c0]"
definition msg_no_baseline :: jstr where "msg_no_baseline = [0x57fa, 0x7ebf, 0x4e0d, 0x53ef, 0x7528]"

definition git_tab :: "task_detail \<Rightarrow> drawing" where
  "git_tab s = (let g = gitBaseline s; available = truthy (get_prop g (js ''available'')) in beside
     [element ''el-tag'' [(''type'', if available then S ''success'' else S ''warning'')]
        (words (if available then [0x57fa, 0x7ebf, 0x53ef, 0x7528] else msg_no_baseline)),
      leaf ''CopyableText'' [(''value'', get_prop g (js ''branch''))],
      leaf ''CopyableText'' [(''value'', get_prop g (js ''head''))],
      leaf ''CopyableText'' [(''value'', get_prop g (js ''diff_hash''))],
      element ''pre'' [] (interp (displayJson (get_prop g (js ''untracked'')))),
      element ''pre'' [] (interp (js_or (get_prop g (js ''status_porcelain'')) (JStr msg_clean)))])"

definition event_type :: "jsval \<Rightarrow> jsval" where
  "event_type code = (if truthy code \<and> \<not> strict_eq code (N 0) then S ''danger'' else S ''primary'')"

definition event_card :: "jsval \<Rightarrow> drawing" where
  "event_card event = with_prop event ''exit_code'' (\<lambda>code. let p = (\<lambda>k. get_prop event (js k)) in
     element ''el-timeline-item'' [(''key'', js_or (p ''id'') (p ''event_key'')), (''timestamp'', p ''occurred_at''), (''type'', event_type code)] (beside
       [interp (p ''sequence_no''), words ([32, 0xb7, 32]), interp (eventTypeLabel (p ''event_type'')),
        v_if (\<not> is_nullish code) (element ''el-tag'' [(''type'', if strict_eq code (N 0) then S ''success'' else S ''danger'')]
          (beside [words ([0x9000, 0x51fa, 0x7801, 32]), interp code])),
        v_if (truthy (p ''command_summary'')) (beside [words ([0x547d, 0x4ee4]), interp (p ''command_summary'')]),
        v_if (truthy (p ''result_summary'')) (beside [words ([0x7ed3, 0x679c]), interp (p ''result_summary'')]),
        v_if (truthy (p ''redaction_applied'')) (words ([0x5df2, 0x8131, 0x654f])),
        v_if (truthy (p ''truncated'')) (words ([0x5df2, 0x622a, 0x65ad])),
        leaf ''CopyableText'' [(''value'', p ''event_key'')]]))"

definition events_tab :: "task_detail \<Rightarrow> drawing" where
  "events_tab s = (if truthy (get_prop (td_events s) (js ''length''))
     then element ''el-timeline'' [] (v_for event_card (td_events s)) else words ([0x6682, 0x65e0, 0x4efb, 0x52a1, 0x4e8b, 0x4ef6]))"

text \<open>The labels of the tabs, and everything below the head of the page; the alert of an error is drawn whenever there is one.\<close>

definition task_tab_labels :: "task_detail \<Rightarrow> jstr list" where
  "task_tab_labels s =
     [[0x6982, 0x89c8], [0x62a5, 0x544a], [0x6587, 0x4ef6, 0x53d8, 0x66f4, 32] @ to_string (get_prop (fileChanges s) (js ''length'')), js ''Git'',
      [0x4e8b, 0x4ef6, 32] @ to_string (get_prop (td_events s) (js ''length''))]"

definition task_detail_view :: "task_detail \<Rightarrow> drawing" where
  "task_detail_view s = beside
     [v_if (td_error s \<noteq> None) (leaf ''ErrorState'' []),
      task_identity s,
      v_if (truthy (td_taskRun s)) (element ''el-tabs'' (zip detail_tabs (map JStr (task_tab_labels s)))
        (beside [overview_tab s, report_tab s, files_tab s, git_tab s, events_tab s]))]"

section \<open>Laws\<close>

lemma cards_draw [simp]: "draws (event_card e) \<longleftrightarrow> \<not> is_nullish e"
  by (simp add: event_card_def Let_def)

lemma rows_draw [simp]: "draws (beside (report_row s row)) \<longleftrightarrow> \<not> is_nullish row" "draws (beside (file_row row)) \<longleftrightarrow> \<not> is_nullish row"
  "draws (report_option row) \<longleftrightarrow> \<not> is_nullish row"
  by (auto simp: report_row_def file_row_def report_option_def run_status_tag_def)

lemma git_draws [simp]: "draws (git_tab s)"
  by (simp add: git_tab_def Let_def)

lemma head_draws [simp]: "draws (task_identity s)"
proof (cases "truthy (td_taskRun s)")
  case True
  moreover have "with_default (td_taskRun s) d = td_taskRun s" for d using True by (cases "td_taskRun s") (simp_all add: with_default_def)
  ultimately show ?thesis
    by (simp add: task_identity_def Let_def run_status_tag_def taskRunProjectLabel_def taskRunPrompt_def get_or_throw_def
        truthy_not_nullish draws_andThen)
qed (simp add: task_identity_def Let_def)

text \<open>The parts of a run that are lists are drawn exactly if no entry of them is missing.\<close>

theorem task_detail_drawn:
  assumes "truthy (td_taskRun s)" "td_reports s = JArr reports" "td_events s = JArr events"
  shows "draws (task_detail_view s) \<longleftrightarrow> present reports \<and> present events \<and> present (elems (fileChanges s))"
  using assms by (auto simp: task_detail_view_def overview_tab_def report_tab_def files_tab_def events_tab_def present_def Let_def)

text \<open>The timeline has one entry per event, in the order of the run; it is marked as dangerous exactly if the event has an exit code that
  is not zero.\<close>

lemma card_drawn:
  assumes "\<not> is_nullish e"
  shows "\<exists>ps ds. event_card e = Inr [Node ''el-timeline-item'' ps ds] \<and> map_of ps ''type'' = Some (event_type (get_prop e (js ''exit_code'')))"
proof -
  obtain xs where "event_card e = Inr xs" using assms cards_draw [of e] by (auto simp: draws_def)
  then show ?thesis using assms by (auto simp: event_card_def with_prop_def element_def Let_def andThen_Inr_iff)
qed

theorem events_in_order:
  assumes "td_events s = JArr events" "events \<noteq> []" "present events"
  shows "\<exists>cards. events_tab s = Inr [Node ''el-timeline'' [] cards] \<and> list_all2 (\<lambda>e card. \<exists>ps ds. card = Node ''el-timeline-item'' ps ds
    \<and> map_of ps ''type'' = Some (event_type (get_prop e (js ''exit_code'')))) events cards"
proof -
  have "\<exists>cards. for_each event_card events = Inr cards \<and> list_all2 (\<lambda>e card. \<exists>ps ds. card = Node ''el-timeline-item'' ps ds
      \<and> map_of ps ''type'' = Some (event_type (get_prop e (js ''exit_code'')))) events cards"
    by (rule for_each_drawn) (use card_drawn assms(3) in \<open>fastforce simp: present_def\<close>)
  then show ?thesis using assms(1,2) by (auto simp: events_tab_def v_for_def iterated_def element_def)
qed

text \<open>The page claims a clean working tree for a run that has no baseline at all, right beside the remark that there is none.\<close>

theorem clean_without_baseline:
  assumes "\<not> truthy (get_opt (td_taskRun s) (js ''git_baseline''))"
  shows "\<exists>ds. git_tab s = Inr ds \<and> Node ''el-tag'' [(''type'', S ''warning'')] [Words msg_no_baseline] \<in> set ds
    \<and> Node ''pre'' [] [Value (JStr msg_clean)] \<in> set ds"
  using assms by (simp add: git_tab_def gitBaseline_def js_or_def Let_def beside_def drawing_defs)

end
