(* ===== verification/RevisionDetailView.thy ===== *)
theory RevisionDetailView imports Drawing Controls RevisionDetailPage begin

text \<open>
  The template of \<open>views/ContractRevisionDetailView.vue\<close>: what the page says about a revision, its validation and whether it can
  be published.  An exception in one part leaves that part empty; here it is the result of the whole drawing.
\<close>

section \<open>The head\<close>

definition service_title :: "revision_detail \<Rightarrow> jsval \<Rightarrow> jsval" where
  "service_title s missing = js_or (get_opt (rd_service s) (js ''name'')) missing"

definition service_number :: "revision_detail \<Rightarrow> jsval" where
  "service_number s = JStr ([0x670d, 0x52a1, 32, 35] @ to_string (rd_serviceId s))"

definition revision_header :: "revision_detail \<Rightarrow> drawing" where
  "revision_header s = element ''PageHeader''
     [(''title'', JStr (js ''Revision v'' @ to_string (revisionValue s (rd_revision s)))),
      (''description'', JStr (to_string (service_title s (JStr ([0x63a5, 0x53e3, 0x5951, 0x7ea6, 0x670d, 0x52a1]))) @ [32, 0xb7, 32, 0x6821, 0x9a8c, 0x7ed3, 0x679c, 0x3001, 0x64cd, 0x4f5c, 0x6e05,
     0x5355, 0x4e0e, 0x53ef, 0x8bfb, 0x89c4, 0x8303, 0x9884, 0x89c8]))]
     (beside [words ([0x8fd4, 0x56de, 0x670d, 0x52a1]), element ''el-button'' [(''loading'', JBool (rd_loading s))] (words ([0x5237, 0x65b0])),
       andThen (gate_allowed (rd_session s) (js ''admin'') [] []) (\<lambda>ok. v_if ok (andThen (publishAllowed s) (\<lambda>allowed.
         v_if allowed (element ''el-button'' [(''loading'', JBool (rd_publishing s))] (words ([0x53d1, 0x5e03, 32, 82, 101, 118, 105, 115, 105, 111, 110]))))))])"

definition revision_alerts :: "revision_detail \<Rightarrow> drawing" where
  "revision_alerts s = beside
     [andThen (rd_isAdmin s) (\<lambda>admin. v_if (\<not> admin) (leaf ''el-alert''
        [(''title'', JStr ([0x5f53, 0x524d, 0x4e3a, 0x53ea, 0x8bfb, 0x8bbf, 0x95ee, 0xff0c, 0x53ef, 0x67e5,
     0x770b, 0x89c4, 0x8303, 0x548c, 0x6821, 0x9a8c, 0x7ed3, 0x679c, 0xff0c, 0x4f46,
     0x4e0d, 0x80fd, 0x53d1, 0x5e03, 32, 82, 101, 118, 105, 115, 105, 111, 110, 0x3002]))])),
      v_if (rd_success s \<noteq> []) (leaf ''el-alert'' [(''title'', JStr (rd_success s))]),
      v_if (rd_error s \<noteq> None) (leaf ''ErrorState'' [])]"

definition count_words :: "'a list \<Rightarrow> jstr \<Rightarrow> drawing" where
  "count_words xs t = words (dec_digits (int (length xs)) @ t)"

definition revision_identity :: "revision_detail \<Rightarrow> drawing" where
  "revision_identity s = (let r = rd_revision s in v_if (truthy r) (andThen (rd_validation s) (\<lambda>v. beside
     [leaf ''StatusTag'' [(''status'', get_prop r (js ''status''))],
      element ''el-tag'' [(''type'', if v_errors v \<noteq> [] then S ''danger'' else S ''success'')]
        (if v_errors v \<noteq> [] then count_words (v_errors v) ([32, 0x4e2a, 0x6821, 0x9a8c, 0x9519, 0x8bef]) else words ([0x6821, 0x9a8c, 0x901a, 0x8fc7])),
      v_if (v_warnings v \<noteq> []) (element ''el-tag'' [(''type'', S ''warning'')] (count_words (v_warnings v) ([32, 0x4e2a, 0x544a, 0x8b66]))),
      interp (service_title s (service_number s)), words (js '' / v''), interp (revisionValue s r),
      interp (js_or (get_prop r (js ''source_filename'')) (JStr ([0x672a, 0x8bb0, 0x5f55, 0x6e90, 0x6587, 0x4ef6, 0x540d]))),
      words (rd_formatBytes (get_prop r (js ''size_bytes''))),
      interp (js_coalesce (get_prop r (js ''operation_count'')) (N (int (length (rd_operations s))))), words ([32, 0x4e2a, 0x64cd, 0x4f5c]),
      leaf ''CopyableText'' [(''value'', get_prop r (js ''content_hash'')), (''truncate'', N 18)]])))"

definition msg_fix_errors :: jstr where "msg_fix_errors = [0x8bf7, 0x5148, 0x4fee, 0x590d, 0x6821, 0x9a8c, 0x9519, 0x8bef, 0x5e76, 0x4e0a,
     0x4f20, 0x65b0, 0x7684, 32, 82, 101, 118, 105, 115, 105, 111, 110, 0x3002]"
definition msg_no_permission :: jstr where "msg_no_permission = [0x5f53, 0x524d, 0x8d26, 0x53f7, 0x6ca1, 0x6709, 0x53d1, 0x5e03, 0x6743, 0x9650,
     0x3002]"

definition publish_blocker :: "revision_detail \<Rightarrow> drawing" where
  "publish_blocker s = (let r = rd_revision s in v_if (truthy r) (andThen (publishAllowed s) (\<lambda>allowed.
     v_if (\<not> allowed \<and> strict_eq (get_prop r (js ''status'')) (S ''proposed'')) (andThen (rd_validation s) (\<lambda>v. beside
       [words ([0x5f53, 0x524d, 32, 82, 101, 118, 105, 115, 105, 111, 110, 32, 0x6682, 0x4e0d,
     0x53ef, 0x53d1, 0x5e03]), words (if v_errors v \<noteq> [] then msg_fix_errors else msg_no_permission)])))))"

section \<open>The tabs\<close>

definition validation_item :: "string \<Rightarrow> nat \<times> jsval \<Rightarrow> drawing" where
  "validation_item kind item = element ''li'' [(''key'', JStr (js kind @ js ''-'' @ dec_digits (int (fst item))))]
     (beside [interp (N (int (fst item) + 1)), interp (validationMessage (snd item))])"

definition validation_card :: "string \<Rightarrow> jstr \<Rightarrow> jsval list \<Rightarrow> drawing" where
  "validation_card kind title items = v_if (items \<noteq> []) (element ''el-card'' [] (beside
     (words title # map (validation_item kind) (enumerate 0 items))))"

definition msg_passed :: jstr where "msg_passed = [0x6821, 0x9a8c, 0x901a, 0x8fc7, 0xff0c, 0x53ef, 0x4ee5, 0x8fdb, 0x5165, 0x53d1,
     0x5e03, 0x786e, 0x8ba4]"
definition msg_not_passed :: jstr where "msg_not_passed = [0x6821, 0x9a8c, 0x672a, 0x901a, 0x8fc7]"

definition validation_tab :: "revision_detail \<Rightarrow> drawing" where
  "validation_tab s = (let r = rd_revision s; p = (\<lambda>k. get_prop r (js k)) in andThen (rd_validation s) (\<lambda>v. beside
     [words (if v_errors v \<noteq> [] then msg_not_passed else msg_passed),
      if v_errors v \<noteq> [] then words ([0x9519, 0x8bef, 0x4f1a, 0x963b, 0x6b62, 0x53d1, 0x5e03, 0xff1b, 0x544a, 0x8b66,
     0x4e0d, 0x4f1a, 0x963b, 0x6b62, 0xff0c, 0x4f46, 0x5efa, 0x8bae, 0x5728, 0x53d1,
     0x5e03, 0x524d, 0x590d, 0x6838, 0x3002])
        else words ([0x5171, 0x8bc6, 0x522b, 32] @ dec_digits (int (length (rd_operations s))) @ [32, 0x4e2a, 32, 65, 80, 73, 32, 0x64cd, 0x4f5c, 0x3002]),
      validation_card ''error'' ([0x9519, 0x8bef]) (v_errors v),
      validation_card ''warning'' ([0x544a, 0x8b66]) (v_warnings v),
      interp (js_or (p ''source_version'') (S ''-'')), interp (js_or (p ''normalized_version'') (S ''-'')), interp (js_or (p ''profile_version'') (S ''v1'')),
      leaf ''DateTime'' [(''value'', p ''created_at'')], interp (js_or (p ''created_by'') (S ''-'')), leaf ''DateTime'' [(''value'', p ''published_at'')],
      leaf ''StructuredDataViewer'' [(''value'', js_or (js_or (p ''validation'') (p ''validation_result'')) (p ''validation_summary''))]]))"

definition operation_row :: "jsval \<Rightarrow> drawing list" where
  "operation_row row =
     [with_prop row ''method'' (\<lambda>m. element ''el-tag'' [(''type'', S (methodType m))] (words (concat (map upper_unit (text_or_empty m))))),
      with_prop row ''path'' (\<lambda>v. leaf ''CopyableText'' [(''value'', v)]),
      with_prop row ''operation_id'' (\<lambda>v. leaf ''CopyableText'' [(''value'', js_or v (get_prop row (js ''operationId'')))]),
      with_prop row ''summary'' interp,
      with_prop row ''deprecated'' (\<lambda>v. words (if truthy v then [0x5df2, 0x5f03, 0x7528] else [0x53ef, 0x7528]))]"

definition operations_tab :: "revision_detail \<Rightarrow> drawing" where
  "operations_tab s = element ''el-table'' [] (table_rows operation_row (JArr (rd_operations s)))"

definition specification_tab :: "revision_detail \<Rightarrow> drawing" where
  "specification_tab s = (let r = rd_revision s in beside
     [words ([0x89c4, 0x8303, 0x5316, 32, 79, 112, 101, 110, 65, 80, 73]), leaf ''CopyableText'' [(''value'', get_prop r (js ''content_hash'')), (''truncate'', N 18)],
      element ''pre'' [] (interp (json_stringify_pretty (normalizedDocument s))),
      leaf ''StructuredDataViewer'' [(''value'', get_prop r (js ''source_document''))]])"

definition markdown_tab :: "revision_detail \<Rightarrow> drawing" where
  "markdown_tab s = leaf ''MarkdownPreview'' [(''source'', rd_markdown s)]"

section \<open>The dialog and the page\<close>

definition publish_summary :: "revision_detail \<Rightarrow> drawing" where
  "publish_summary s = beside
     [words ([0x670d, 0x52a1]), interp (service_title s (service_number s)),
      words (js ''Revision''), words (js ''v''), interp (revisionValue s (rd_revision s)),
      words ([0x5185, 0x5bb9, 0x54c8, 0x5e0c]), leaf ''CopyableText'' [(''value'', get_opt (rd_revision s) (js ''content_hash'')), (''truncate'', N 24)]]"

definition revision_view :: "revision_detail \<Rightarrow> drawing" where
  "revision_view s = beside
     [revision_header s, revision_alerts s, revision_identity s, publish_blocker s,
      v_if (truthy (rd_revision s)) (beside [validation_tab s, operations_tab s, specification_tab s, markdown_tab s]),
      element ''ConfirmActionDialog'' [(''modelValue'', JBool (rd_publishVisible s)), (''loading'', JBool (rd_publishing s))] (publish_summary s)]"

section \<open>Laws\<close>

lemma shown_revision: "truthy (rd_revision s) \<Longrightarrow> rd_shown s = rd_revision s \<and> (\<forall>d. with_default (rd_revision s) d = rd_revision s)"
  by (cases "rd_revision s") (auto simp: rd_shown_def js_or_def with_default_def)

lemma validation_total:
  assumes "truthy (rd_revision s)"
  obtains v where "rd_validation s = Inr v"
  using assms shown_revision [OF assms]
  by (auto simp: rd_validation_def getContractValidation_def get_or_throw_def truthy_not_nullish Let_def)

lemma cards_shown [simp]: "draws (validation_card kind title items)"
  by (auto simp: validation_card_def validation_item_def draws_beside)

text \<open>C36. The remark beside a revision with a content hash that cannot be published names the true reason: if it asks for corrections, the
  validation has found an error; if it speaks of a missing permission, the account is not an administrator.\<close>

theorem blocker_truthful:
  assumes "truthy (rd_revision s)" "truthy (get_prop (rd_revision s) (js ''content_hash''))" "publish_blocker s = Inr [d, Words reason]"
  shows "(reason = msg_fix_errors \<longrightarrow> (\<exists>v. rd_validation s = Inr v \<and> v_errors v \<noteq> [])) \<and> (reason = msg_no_permission \<longrightarrow> rd_isAdmin s = Inr False)"
proof -
  obtain v where v: "rd_validation s = Inr v" using validation_total [OF assms(1)] .
  have "reason = (if v_errors v \<noteq> [] then msg_fix_errors else msg_no_permission)" "publishAllowed s = Inr False"
      "strict_eq (get_prop (rd_revision s) (js ''status'')) (S ''proposed'')"
    using assms(1,3) v by (auto simp: publish_blocker_def Let_def v_if_def andThen_Inr_iff beside_def words_def split: if_splits)
  moreover have "msg_fix_errors \<noteq> msg_no_permission" by (simp add: msg_fix_errors_def msg_no_permission_def)
  moreover have "rd_isAdmin s = Inr False" if "v_errors v = []"
  proof -
    have "canPublishContractRevision (rd_shown s) = Inr True"
      using that v calculation(3) assms(1,2) shown_revision [OF assms(1)]
      by (simp add: canPublishContractRevision_def rd_validation_def get_or_throw_def truthy_not_nullish Let_def)
    then show ?thesis using calculation(2) by (auto simp: publishAllowed_def andThen_Inr_iff split: if_splits)
  qed
  ultimately show ?thesis using v by auto
qed

definition read_only_revision :: revision_detail where
  "read_only_revision = (revision_detail_initial (S ''7'') (S ''2'') []
       \<lparr>token = js ''t'', me = JObj [(js ''permissions'', JArr [S ''read''])], restored = True, restoring = False, restoreError = None\<rparr>)
     \<lparr>rd_revision := JObj [(js ''status'', S ''proposed''), (js ''content_hash'', S ''h'')]\<rparr>"

theorem blocker_truthful_witness: "rd_isAdmin read_only_revision = Inr False \<and> (\<exists>d. publish_blocker read_only_revision = Inr [d, Words msg_no_permission])"
proof -
  have page: "truthy (rd_revision read_only_revision)" "truthy (get_prop (rd_revision read_only_revision) (js ''content_hash''))" by code_simp+
  obtain d where "publish_blocker read_only_revision = Inr [d, Words msg_no_permission]"
    by (simp add: read_only_revision_def revision_detail_initial_def publish_blocker_def publishAllowed_def rd_validation_def rd_shown_def
        canPublishContractRevision_def getContractValidation_def with_default_def first_array_def js_or_def Let_def v_if_def beside_def words_def
        rd_isAdmin_def isAdmin_def permissions_of_def opt_includes_def)
  with blocker_truthful [OF page this] show ?thesis by blast
qed

text \<open>Without a content hash an administrator is told that the account may not publish.\<close>

theorem blocker_blames_account:
  assumes "rd_isAdmin s = Inr True" "rd_revision s = JObj [(js ''status'', S ''proposed'')]"
  shows "publish_blocker s = Inr [Words ([0x5f53, 0x524d, 32, 82, 101, 118, 105, 115, 105, 111, 110, 32, 0x6682, 0x4e0d,
     0x53ef, 0x53d1, 0x5e03]), Words msg_no_permission]"
  using assms by (simp add: publish_blocker_def publishAllowed_def rd_validation_def rd_shown_def canPublishContractRevision_def
    getContractValidation_def with_default_def first_array_def js_or_def Let_def v_if_def beside_def words_def)

text \<open>The tab announces what the validation found, and nothing of it prevents the rest of the tab from being drawn.\<close>

lemma validation_announced:
  assumes "rd_validation s = Inr v"
  shows "\<exists>ds. validation_tab s = Inr (Words (if v_errors v \<noteq> [] then msg_not_passed else msg_passed) # ds)"
  unfolding validation_tab_def Let_def assms andThen_simps by (rule beside_words) simp

text \<open>A revision that nobody has validated is announced as having passed, and an administrator may publish it.\<close>

theorem unvalidated_passes:
  assumes "rd_revision s = JObj [(js ''status'', S ''proposed''), (js ''content_hash'', JStr (c # h))]" "rd_isAdmin s = Inr True"
  shows "publishAllowed s = Inr True \<and> (\<exists>ds. validation_tab s = Inr (Words msg_passed # ds))"
proof -
  have "rd_validation s = Inr \<lparr>v_errors = [], v_warnings = []\<rparr>"
    using assms(1) by (simp add: rd_validation_def rd_shown_def getContractValidation_def with_default_def first_array_def js_or_def Let_def)
  from validation_announced [OF this] show ?thesis using assms
    by (simp add: publishAllowed_def rd_shown_def canPublishContractRevision_def getContractValidation_def with_default_def
        first_array_def js_or_def Let_def)
qed

end
