(* ===== verification/ServiceDetailView.thy ===== *)
theory ServiceDetailView imports Drawing Controls ServiceDetailPage begin

text \<open>
  The template of \<open>views/ContractServiceDetailView.vue\<close>: the head of a service, its description, its revisions and the panel of the
  upload.
\<close>

section \<open>The template\<close>

definition service_header :: "service_detail \<Rightarrow> drawing" where
  "service_header s = (let p = (\<lambda>k. get_opt (sd_service s) (js k)) in beside
     [element ''PageHeader'' [(''title'', js_or (p ''name'') (JStr ([0x63a5, 0x53e3, 0x5951, 0x7ea6, 0x670d, 0x52a1]))),
        (''description'', js_or (p ''description'') (JStr ([0x67e5, 0x770b, 0x670d, 0x52a1, 0x8fb9, 0x754c, 0x3001, 82, 101, 118, 105, 115, 105,
     111, 110, 32, 0x65f6, 0x95f4, 0x7ebf, 0x4e0e, 0x4e0a, 0x4f20, 0x6821, 0x9a8c, 0x7ed3,
     0x679c, 0x3002])))]
        (beside [words ([0x8fd4, 0x56de, 0x5217, 0x8868]), element ''el-button'' [(''loading'', JBool (sd_loading s))] (words ([0x5237, 0x65b0]))]),
      andThen (sd_isAdmin s) (\<lambda>admin. v_if (\<not> admin) (leaf ''el-alert''
        [(''title'', JStr ([0x5f53, 0x524d, 0x4e3a, 0x53ea, 0x8bfb, 0x8bbf, 0x95ee, 0xff0c, 0x53ef, 0x67e5,
     0x770b, 0x6240, 0x6709, 32, 82, 101, 118, 105, 115, 105, 111, 110, 0xff0c, 0x4f46,
     0x4e0d, 0x80fd, 0x4e0a, 0x4f20, 0x65b0, 0x89c4, 0x8303, 0x3002]))])),
      v_if (sd_error s \<noteq> None) (leaf ''ErrorState'' [])])"

definition service_identity :: "service_detail \<Rightarrow> drawing" where
  "service_identity s = (let v = sd_service s; p = (\<lambda>k. get_prop v (js k)); n = p ''published_revision_number'' in beside
     [words ([0x7a33, 0x5b9a, 0x670d, 0x52a1, 0x6807, 0x8bc6]), leaf ''CopyableText'' [(''value'', p ''service_key'')],
      words ([0x5f53, 0x524d, 0x72b6, 0x6001]), leaf ''StatusTag'' [(''status'', p ''status'')],
      words ([0x5df2, 0x53d1, 0x5e03, 32, 82, 101, 118, 105, 115, 105, 111, 110]), words (if truthy n then js ''v'' @ to_string n else [0x5c1a, 0x672a, 0x53d1, 0x5e03]),
      words ([82, 101, 118, 105, 115, 105, 111, 110, 32, 0x603b, 0x6570]), interp (get_prop (sd_revisions s) (js ''length''))])"

definition service_overview :: "service_detail \<Rightarrow> drawing" where
  "service_overview s = (let v = sd_service s; p = (\<lambda>k. get_prop v (js k)) in beside
     [leaf ''CopyableText'' [(''value'', js_or (p ''id'') (p ''service_id''))], leaf ''CopyableText'' [(''value'', p ''project_key'')],
      interp (p ''name''), leaf ''CopyableText'' [(''value'', p ''service_key'')],
      leaf ''DateTime'' [(''value'', p ''created_at'')], leaf ''DateTime'' [(''value'', p ''updated_at'')],
      interp (js_or (p ''description'') (JStr ([0x6682, 0x65e0, 0x8bf4, 0x660e])))])"

definition revision_row :: "jsval \<Rightarrow> drawing list" where
  "revision_row row =
     [beside [words (js ''v''), interp (revisionNumber row)],
      with_prop row ''status'' (\<lambda>v. leaf ''StatusTag'' [(''status'', v)]),
      with_prop row ''operation_count'' (\<lambda>v. interp (js_or v (N 0))),
      with_prop row ''content_hash'' (\<lambda>v. leaf ''CopyableText'' [(''value'', v)]),
      with_prop row ''size_bytes'' (\<lambda>v. words (sd_formatBytes v)),
      with_prop row ''created_at'' (\<lambda>v. leaf ''DateTime'' [(''value'', v)]),
      element ''el-button'' [] (words ([0x67e5, 0x770b, 0x8be6, 0x60c5]))]"

definition revisions_tab :: "service_detail \<Rightarrow> drawing" where
  "revisions_tab s = element ''el-table'' [] (table_rows revision_row (sd_revisions s))"

text \<open>The picked file: its name and its size as a number of bytes.\<close>

definition selected_file :: "jsfile \<Rightarrow> bool \<Rightarrow> drawing" where
  "selected_file f uploading = beside
     [interp (file_name f), words (sd_formatBytes (N (file_size f)) @ [32, 0xb7, 32, 0x672c, 0x5730, 0x6821, 0x9a8c, 0x901a, 0x8fc7]),
      element ''el-button'' [(''disabled'', JBool uploading)] (words ([0x79fb, 0x9664]))]"

definition upload_outcome :: "service_detail \<Rightarrow> drawing" where
  "upload_outcome s = (let r = sd_uploadResult s in v_if (truthy r) (element ''el-alert''
     [(''title'', JStr (if sd_uploadReused s then [0x76f8, 0x540c, 0x5185, 0x5bb9, 0x5df2, 0x5b58, 0x5728, 0xff0c, 0x5df2, 0x590d,
     0x7528, 0x539f, 32, 82, 101, 118, 105, 115, 105, 111, 110] else [82, 101, 118, 105, 115, 105, 111, 110, 32, 0x5df2, 0x521b, 0x5efa, 0x5e76, 0x5b8c,
     0x6210, 0x6821, 0x9a8c]))]
     (element ''el-button'' [] (beside [words ([0x6253, 0x5f00, 32, 82, 101, 118, 105, 115, 105, 111, 110, 32, 118]), interp (revisionNumber r)]))))"

definition upload_tab :: "service_detail \<Rightarrow> drawing" where
  "upload_tab s = andThen (gate_allowed (sd_session s) (js ''admin'') [] []) (\<lambda>ok. if ok then beside
     [element ''el-upload'' [(''disabled'', JBool (sd_uploading s))] (words ([0x62d6, 0x653e, 32, 79, 112, 101, 110, 65, 80, 73, 32, 0x6587, 0x4ef6, 0xff0c,
     0x6216, 0x70b9, 0x51fb, 0x9009, 0x62e9])),
      case sd_selectedFile s of None \<Rightarrow> Inr [] | Some f \<Rightarrow> selected_file f (sd_uploading s),
      v_if (sd_uploading s \<or> sd_uploadPercent s \<noteq> 0) (leaf ''el-progress''
        [(''percentage'', N (int (sd_uploadPercent s))), (''status'', if sd_uploadPercent s = 100 then S ''success'' else JUndef)]),
      v_if (sd_fileError s \<noteq> []) (leaf ''el-alert'' [(''title'', JStr (sd_fileError s))]),
      upload_outcome s,
      element ''el-button'' [(''loading'', JBool (sd_uploading s)), (''disabled'', JBool (sd_selectedFile s = None))] (words ([0x4e0a, 0x4f20, 0x5e76, 0x6821, 0x9a8c]))]
     else words ([0x53ea, 0x8bfb, 0x8d26, 0x53f7, 0x4e0d, 0x80fd, 0x4e0a, 0x4f20, 32, 82, 101, 118,
     105, 115, 105, 111, 110]))"

definition service_view :: "service_detail \<Rightarrow> drawing" where
  "service_view s = beside
     [service_header s, v_if (truthy (sd_service s)) (beside
       [service_identity s, service_overview s,
        words (js ''Revision '' @ to_string (get_prop (sd_revisions s) (js ''length''))), revisions_tab s, upload_tab s])]"

section \<open>Laws\<close>

lemma revision_rows_draw [simp]: "draws (beside (revision_row row)) \<longleftrightarrow> \<not> is_nullish row"
  by (auto simp: revision_row_def)

text \<open>The page is drawn exactly if no entry of its revisions is missing; then somebody who is not an administrator sees no upload.\<close>

theorem service_drawn:
  assumes "truthy (sd_service s)" "sd_isAdmin s = Inr admin" "gate_allowed (sd_session s) (js ''admin'') [] [] = Inr ok"
  shows "draws (service_view s) \<longleftrightarrow> present (elems (sd_revisions s))"
  using assms by (auto simp: service_view_def service_header_def service_identity_def service_overview_def revisions_tab_def upload_tab_def
      upload_outcome_def selected_file_def present_def draws_andThen Let_def split: option.split)

end
