(* ===== verification/ListViews.thy ===== *)
theory ListViews imports Drawing Controls RevisionDetailPage TaskDetailView ServicesPage TaskRunsPage begin

text \<open>
  The templates of \<open>views/TaskRunsView.vue\<close> and \<open>views/ContractServicesView.vue\<close>: filters, tables, and the dialog that creates
  a service.
\<close>

section \<open>Filters\<close>

text \<open>A field of the filters is bound to its value; a selection has its options.\<close>

definition field :: "string \<Rightarrow> jsval \<Rightarrow> drawing" where
  "field tag v = leaf tag [(''modelValue'', v)]"

definition select_field :: "jsval \<Rightarrow> drawing list \<Rightarrow> drawing" where
  "select_field v os = element ''el-select'' [(''modelValue'', v)] (beside os)"

definition option_field :: "jsval \<Rightarrow> jsval \<Rightarrow> drawing" where
  "option_field label v = leaf ''el-option'' [(''label'', label), (''value'', v)]"

definition status_option :: "props \<Rightarrow> drawing" where
  "status_option ps = option_field (lookup_prop ps (js ''label'')) (lookup_prop ps (js ''value''))"

definition search_button :: "bool \<Rightarrow> drawing" where
  "search_button loading = element ''el-button'' [(''loading'', JBool loading)] (words ([0x67e5, 0x8be2]))"

definition runs_filters :: "runs_page \<Rightarrow> drawing" where
  "runs_filters s = beside
     [field ''el-input'' (tp_projectKey s),
      select_field (tp_status s) (map status_option taskRunStatusOptions),
      select_field (tp_uncertain s) [option_field (JStr ([0x9700, 0x8981, 0x590d, 0x6838])) (S ''true''), option_field (JStr ([0x5f52, 0x56e0, 0x660e, 0x786e])) (S ''false'')],
      field ''el-input'' (tp_keyword s), field ''el-date-picker'' (tp_startedFrom s), field ''el-date-picker'' (tp_startedTo s),
      select_field (tp_sortValue s)
        [option_field (JStr ([0x6700, 0x8fd1, 0x521b, 0x5efa])) (S ''created_at:desc''), option_field (JStr ([0x6700, 0x65e9, 0x521b, 0x5efa])) (S ''created_at:asc''),
         option_field (JStr ([0x6700, 0x8fd1, 0x5f00, 0x59cb])) (S ''started_at:desc''), option_field (JStr ([0x72b6, 0x6001])) (S ''status:asc'')],
      words ([0x91cd, 0x7f6e]), search_button (tp_loading s)]"

definition project_option :: "jsval \<Rightarrow> drawing" where
  "project_option project = with_prop project ''project_key'' (\<lambda>key.
     option_field (JStr (to_string (js_or (get_prop project (js ''name'')) key) @ [0xff08] @ to_string key @ [0xff09])) key)"

definition services_filters :: "services_page \<Rightarrow> drawing" where
  "services_filters s = beside
     [select_field (sp_projectKey s) (map project_option (sp_projects s)),
      select_field (sp_status s) (map status_option contractStatusOptions),
      field ''el-input'' (sp_keyword s), words ([0x91cd, 0x7f6e]), search_button (sp_loading s)]"

section \<open>Tables\<close>

definition run_row :: "jsval \<Rightarrow> drawing list" where
  "run_row row =
     [andThen (taskRunPrompt row) (\<lambda>p. words (if p \<noteq> [] then p else [0x672a, 0x8bb0, 0x5f55, 0x4efb, 0x52a1, 0x6458, 0x8981])),
      with_prop row ''prompt_truncated'' (\<lambda>t. v_if (truthy t) (words ([0x5df2, 0x8131, 0x654f, 0x622a, 0x65ad]))),
      andThen (taskRunProjectLabel row) interp,
      with_prop row ''status'' run_status_tag,
      andThen (attributionType row) (\<lambda>t. andThen (attributionLabel row) (\<lambda>l. element ''el-tag'' [(''type'', JStr t)] (words l))),
      with_prop row ''current_report_revision'' (\<lambda>v. words (if truthy v then js ''v'' @ to_string v else js ''-'')),
      with_prop row ''started_at'' (\<lambda>v. leaf ''DateTime'' [(''value'', v)]),
      element ''el-button'' [] (words ([0x67e5, 0x770b, 0x8be6, 0x60c5]))]"

definition pager :: "jnum \<Rightarrow> jnum \<Rightarrow> jnum \<Rightarrow> drawing" where
  "pager current per n = v_if (Fin 0 < n) (leaf ''PaginationBar'' [(''page'', JNum current), (''pageSize'', JNum per), (''total'', JNum n)])"

definition runs_view :: "runs_page \<Rightarrow> drawing" where
  "runs_view s = beside
     [element ''el-button'' [(''loading'', JBool (tp_loading s))] (words ([0x5237, 0x65b0])), runs_filters s,
      v_if (tp_error s \<noteq> None) (leaf ''ErrorState'' []),
      element ''el-table'' [] (table_rows run_row (JArr (tp_rows s))), pager (tp_page s) (tp_pageSize s) (tp_total s)]"

definition service_row :: "jsval \<Rightarrow> drawing list" where
  "service_row row =
     [with_prop row ''name'' (\<lambda>n. beside [interp (js_or n (get_prop row (js ''service_key''))),
        leaf ''CopyableText'' [(''value'', get_prop row (js ''service_key''))]]),
      with_prop row ''project_key'' interp,
      with_prop row ''status'' (\<lambda>v. leaf ''StatusTag'' [(''status'', v)]),
      interp (revisionCount row),
      with_prop row ''published_revision_number'' (\<lambda>n. words (if truthy n then js ''v'' @ to_string n else js ''-'')),
      with_prop row ''updated_at'' (\<lambda>v. leaf ''DateTime'' [(''value'', js_or v (get_prop row (js ''created_at'')))]),
      element ''el-button'' [] (words ([0x67e5, 0x770b, 0x8be6, 0x60c5]))]"

section \<open>The dialog and the page of the services\<close>

text \<open>\<open>error.message || String(error)\<close> and the number of the request; \<open>engine\<close> and \<open>spelt\<close> are the engine's texts of an exception.\<close>

definition form_alert :: "(jserror \<Rightarrow> jstr) \<Rightarrow> (jserror \<Rightarrow> jstr) \<Rightarrow> jserror \<Rightarrow> drawing" where
  "form_alert engine spelt e = (let i = error_requestId e in element ''el-alert'' [(''title'', js_or (error_message engine e) (JStr (spelt e)))]
     (v_if (truthy i) (beside [words ([0x8bf7, 0x6c42, 32, 73, 68, 0xff1a]), leaf ''CopyableText'' [(''value'', i)]])))"

definition create_dialog :: "(jserror \<Rightarrow> jstr) \<Rightarrow> (jserror \<Rightarrow> jstr) \<Rightarrow> services_page \<Rightarrow> drawing" where
  "create_dialog engine spelt s = v_if (sp_dialogVisible s) (let f = sp_form s in beside
     [case sp_formError s of None \<Rightarrow> Inr [] | Some e \<Rightarrow> form_alert engine spelt e,
      select_field (sf_project_key f) (map project_option (sp_projects s)),
      field ''el-input'' (sf_service_key f), field ''el-input'' (sf_name f), field ''el-input'' (sf_description f),
      element ''el-button'' [(''disabled'', JBool (sp_saving s))] (words ([0x53d6, 0x6d88])),
      element ''el-button'' [(''loading'', JBool (sp_saving s))] (words ([0x521b, 0x5efa, 0x670d, 0x52a1]))])"

definition services_view :: "(jserror \<Rightarrow> jstr) \<Rightarrow> (jserror \<Rightarrow> jstr) \<Rightarrow> session \<Rightarrow> services_page \<Rightarrow> drawing" where
  "services_view engine spelt ss s = beside
     [element ''el-button'' [(''loading'', JBool (sp_loading s))] (words ([0x5237, 0x65b0])),
      andThen (gate_allowed ss (js ''admin'') [] []) (\<lambda>ok. v_if ok (element ''el-button'' [] (words ([0x521b, 0x5efa, 0x670d, 0x52a1])))),
      andThen (isAdmin ss) (\<lambda>admin. v_if (\<not> admin) (leaf ''el-alert''
        [(''title'', JStr ([0x5f53, 0x524d, 0x4e3a, 0x53ea, 0x8bfb, 0x8bbf, 0x95ee, 0xff0c, 0x53ef, 0x67e5,
     0x770b, 0x670d, 0x52a1, 0x4e0e, 32, 82, 101, 118, 105, 115, 105, 111, 110, 0xff0c,
     0x4f46, 0x4e0d, 0x80fd, 0x521b, 0x5efa, 0x3001, 0x4e0a, 0x4f20, 0x6216, 0x53d1,
     0x5e03, 0x3002]))])),
      services_filters s, v_if (sp_error s \<noteq> None) (leaf ''ErrorState'' []),
      element ''el-table'' [] (table_rows service_row (JArr (sp_rows s))), pager (sp_page s) (sp_pageSize s) (sp_total s),
      create_dialog engine spelt s]"

section \<open>Laws\<close>

lemma fields_draw [simp]: "draws (field tag v)" "draws (option_field label v)" "draws (status_option ps)" "draws (search_button b)"
  "draws (select_field v os) \<longleftrightarrow> (\<forall>d \<in> set os. draws d)" "draws (project_option p) \<longleftrightarrow> \<not> is_nullish p" "draws (pager x y z)"
  by (simp_all add: field_def option_field_def status_option_def search_button_def select_field_def project_option_def pager_def draws_beside)

lemma prompt_total: "\<not> is_nullish row \<Longrightarrow> \<exists>p. taskRunPrompt row = Inr p" "\<not> is_nullish row \<Longrightarrow> \<exists>l. taskRunProjectLabel row = Inr l"
  by (auto simp: taskRunPrompt_def taskRunProjectLabel_def with_default_def get_or_throw_def Let_def)

lemma list_rows_draw [simp]: "draws (beside (run_row row)) \<longleftrightarrow> \<not> is_nullish row" "draws (beside (service_row row)) \<longleftrightarrow> \<not> is_nullish row"
proof -
  show "draws (beside (run_row row)) \<longleftrightarrow> \<not> is_nullish row"
    using prompt_total [of row] by (auto simp: run_row_def run_status_tag_def attributionType_def attributionLabel_def draws_andThen)
  show "draws (beside (service_row row)) \<longleftrightarrow> \<not> is_nullish row" by (auto simp: service_row_def)
qed

text \<open>The list of task runs is drawn exactly if no row is missing.\<close>

theorem runs_drawn: "draws (runs_view s) \<longleftrightarrow> present (tp_rows s)"
  by (auto simp: runs_view_def runs_filters_def present_def)

text \<open>The list of services is drawn exactly if no row and no project is missing.\<close>

theorem services_drawn:
  assumes "isAdmin ss = Inr admin" "gate_allowed ss (js ''admin'') [] [] = Inr ok"
  shows "draws (services_view engine spelt ss s) \<longleftrightarrow> present (sp_rows s) \<and> present (sp_projects s)"
  using assms by (auto simp: services_view_def services_filters_def create_dialog_def form_alert_def present_def Let_def split: option.split)

end
