(* ===== verification/ImportDisplay.thy ===== *)
theory ImportDisplay imports ListViews ImportControls begin

text \<open>
  The template of \<open>views/ImportView.vue\<close>: the wizard with the files that were picked, the two tables with their actions, the drawer
  of a batch and the dialog of an action.
\<close>

section \<open>The wizard\<close>

definition import_alerts :: "import_page \<Rightarrow> drawing" where
  "import_alerts s = beside
     [element ''el-button'' [(''loading'', JBool (ip_loading s))] (words ([0x5237, 0x65b0])),
      andThen (isAdmin (ip_session s)) (\<lambda>admin. v_if (\<not> admin) (leaf ''el-alert''
        [(''title'', JStr ([0x5f53, 0x524d, 0x4e3a, 0x53ea, 0x8bfb, 0x8bbf, 0x95ee, 0xff0c, 0x53ef, 0x67e5,
     0x770b, 0x6279, 0x6b21, 0x3001, 0x6587, 0x4ef6, 0x4e0e, 0x5019, 0x9009, 0xff0c,
     0x4f46, 0x4e0d, 0x80fd, 0x4e0a, 0x4f20, 0x6216, 0x5ba1, 0x6838, 0x3002]))])),
      v_if (ip_message s \<noteq> []) (leaf ''el-alert'' [(''title'', JStr (ip_message s))]),
      v_if (ip_error s \<noteq> None) (leaf ''ErrorState'' [])]"

definition import_context :: "import_page \<Rightarrow> drawing" where
  "import_context s = beside
     [element ''el-select'' [(''modelValue'', JStr (ip_projectKey s)), (''disabled'', JBool (ip_submitting s))]
        (for_each project_option (ip_projects s)),
      leaf ''el-input'' [(''modelValue'', JStr (ip_scopeKey s)), (''disabled'', JBool (ip_submitting s))]]"

text \<open>\<open>PermissionGate\<close>: its contents, or the fallback.\<close>

definition gated :: "session \<Rightarrow> drawing \<Rightarrow> drawing \<Rightarrow> drawing" where
  "gated ss d fallback = andThen (gate_allowed ss (js ''admin'') [] []) (\<lambda>ok. if ok then d else fallback)"

definition drop_area :: "import_page \<Rightarrow> drawing" where
  "drop_area s = gated (ip_session s)
     (beside [words (if ip_dragActive s then [0x677e, 0x5f00, 0x5373, 0x53ef, 0x52a0, 0x5165, 0x6587, 0x4ef6] else [0x62d6, 0x653e, 0x8d44, 0x6599, 0x5230, 0x8fd9, 0x91cc]),
        words ([0x6216, 0x70b9, 0x51fb, 0x9009, 0x62e9, 0x6587, 0x4ef6, 0xff1b, 0x652f, 0x6301,
     0x6587, 0x6863, 0x3001, 0x538b, 0x7f29, 0x5305, 0x4e0e, 0x5e38, 0x89c1, 0x6e90,
     0x7801, 0xff0c, 0x5355, 0x6587, 0x4ef6, 0x6700, 0x5927, 32, 49, 50, 56, 32, 77, 105,
     66]), words ([0x9009, 0x62e9, 0x6587, 0x4ef6])])
     (words ([0x53ea, 0x8bfb, 0x8d26, 0x53f7, 0x4e0d, 0x80fd, 0x521b, 0x5efa, 0x5bfc, 0x5165,
     0x6279, 0x6b21, 0x3002]))"

definition entry_labels :: "(string \<times> jstr) list" where
  "entry_labels = [(''ready'', [0x7b49, 0x5f85, 0x4e0a, 0x4f20]), (''reading'', [0x6b63, 0x5728, 0x8bfb, 0x53d6]), (''uploading'', [0x6b63, 0x5728, 0x4e0a, 0x4f20]), (''completed'', [0x4e0a, 0x4f20, 0x5b8c, 0x6210]),
     (''failed'', [0x4e0a, 0x4f20, 0x5931, 0x8d25])]"

definition entry_label :: "import_entry \<Rightarrow> jsval" where
  "entry_label e = js_or (en_error e) (lookup_prop (map (\<lambda>(k, t). (js k, JStr t)) entry_labels) (js (en_status e)))"

definition entry_progress_status :: "import_entry \<Rightarrow> jsval" where
  "entry_progress_status e = (if en_status e \<in> {''failed'', ''invalid''} then S ''exception'' else if en_status e = ''completed'' then S ''success'' else JUndef)"

definition file_entry :: "bool \<Rightarrow> import_entry \<Rightarrow> drawing" where
  "file_entry submitting e = beside
     [interp (en_name e), words (formatBytes (N (en_size e)) @ [32, 0xb7, 32]), interp (entry_label e),
      leaf ''el-progress'' [(''percentage'', JNum (en_progress e)), (''status'', entry_progress_status e)],
      v_if (\<not> submitting) (words ([0x79fb, 0x9664]))]"

definition selected_files :: "import_page \<Rightarrow> drawing" where
  "selected_files s = v_if (ip_files s \<noteq> []) (beside
     ([words ([0x5f85, 0x5bfc, 0x5165, 0x6587, 0x4ef6, 0xff08] @ dec_digits (int (length (ip_files s))) @ [0xff09]), words ([0x603b, 0x8fdb, 0x5ea6, 32] @ num_to_string (overallProgress s) @ js ''%'')]
      @ map (file_entry (ip_submitting s)) (ip_files s)))"

definition wizard_actions :: "import_page \<Rightarrow> drawing" where
  "wizard_actions s = beside
     [v_if (ip_files s \<noteq> [] \<and> \<not> ip_submitting s) (words ([0x6e05, 0x7a7a])),
      gated (ip_session s) (element ''el-button'' [(''loading'', JBool (ip_submitting s)),
        (''disabled'', JBool (validFiles s = [] \<or> hasInvalidFiles s))] (words ([0x4e0a, 0x4f20, 0x5e76, 0x5f00, 0x59cb, 0x89e3, 0x6790]))) (Inr [])]"

section \<open>The tables\<close>

definition status_cell :: "jsval \<Rightarrow> drawing" where
  "status_cell v = leaf ''StatusTag'' [(''status'', v), (''label'', importStatusLabel v)]"

definition row_count :: "jsval \<Rightarrow> string \<Rightarrow> jsval" where
  "row_count row k = js_or (get_prop row (js k)) (N 0)"

definition batch_progress :: "jsval \<Rightarrow> jnum" where
  "batch_progress row = (let n = get_prop row (js ''source_count'') in if truthy n
     then math_min (Fin 100) (math_round (num_mul (num_div (to_number (row_count row ''processed_count'')) (to_number n)) (Fin 100))) else Fin 0)"

definition row_action_button :: "import_page \<Rightarrow> action_kind \<Rightarrow> jstr \<Rightarrow> jsval \<Rightarrow> drawing" where
  "row_action_button s k label row = v_if (row_control k row) (element ''el-button'' [(''loading'', JBool (isRowLoading s k row))] (words label))"

definition batch_row :: "import_page \<Rightarrow> jsval \<Rightarrow> drawing list" where
  "batch_row s row =
     [with_prop row ''id'' (\<lambda>i. beside [words (js ''#''), interp i]),
      with_prop row ''status'' status_cell,
      with_prop row ''scope_key'' interp,
      with_prop row ''source_count'' (\<lambda>n. leaf ''el-progress'' [(''percentage'', JNum (batch_progress row))]),
      with_prop row ''document_count'' (\<lambda>n. beside [interp (js_or n (N 0)), words ([32, 0x6587, 0x6863, 32, 47, 32]), interp (row_count row ''chunk_count''), words ([32, 0x5206, 0x5757])]),
      with_prop row ''error_count'' (\<lambda>n. if truthy n then element ''el-tag'' [(''type'', S ''danger'')] (interp n) else words (js ''0'')),
      with_prop row ''created_at'' (\<lambda>v. leaf ''DateTime'' [(''value'', v)]),
      beside [words ([0x67e5, 0x770b, 0x8be6, 0x60c5]), gated (ip_session s) (beside [row_action_button s CancelBatch ([0x53d6, 0x6d88]) row,
        row_action_button s RetryBatch ([0x91cd, 0x8bd5]) row, row_action_button s RollbackBatch ([0x56de, 0x6eda]) row]) (Inr [])]]"

definition batches_card :: "import_page \<Rightarrow> drawing" where
  "batches_card s = andThen (hasActiveBatches s) (\<lambda>active. beside
     [v_if active (words ([0x6d3b, 0x8dc3, 0x6279, 0x6b21, 0x6bcf, 32, 49, 53, 32, 0x79d2, 0x81ea, 0x52a8,
     0x5237, 0x65b0])),
      v_if (ip_statusFilter s \<noteq> []) (beside [words ([0x7b5b, 0x9009, 0xff1a]), interp (importStatusLabel (JStr (ip_statusFilter s)))]),
      v_if active (words ([0x81ea, 0x52a8, 0x8ddf, 0x8e2a, 0x4e2d])),
      element ''el-table'' [] (table_rows (batch_row s) (JArr (ip_batches s)))])"

definition candidate_percent :: "jsval \<Rightarrow> jnum" where
  "candidate_percent row = math_round (num_mul (to_number (js_coalesce (js_coalesce (get_prop row (js ''model_confidence''))
     (get_prop row (js ''confidence''))) (N 0))) (Fin 100))"

definition candidate_row :: "import_page \<Rightarrow> jsval \<Rightarrow> drawing list" where
  "candidate_row s row =
     [with_prop row ''id'' (\<lambda>i. beside [words (js ''#''), interp i]),
      with_prop row ''title'' interp,
      with_prop row ''status'' status_cell,
      with_prop row ''model_confidence'' (\<lambda>c. words (num_to_string (candidate_percent row) @ js ''%'')),
      with_prop row ''content'' (\<lambda>c. interp (js_or (get_opt c (js ''text'')) (JStr ([0x6682, 0x65e0, 0x6587, 0x672c, 0x5185, 0x5bb9])))),
      gated (ip_session s) (beside [row_action_button s Approve ([0x6279, 0x51c6]) row, row_action_button s Reject ([0x62d2, 0x7edd]) row,
        row_action_button s CandidateRollback ([0x56de, 0x6eda]) row]) (Inr [])]"

definition candidates_card :: "import_page \<Rightarrow> drawing" where
  "candidates_card s = beside [interp (N (int (length (ip_candidates s)))), words ([32, 0x6761]),
     element ''el-table'' [] (table_rows (candidate_row s) (JArr (ip_candidates s)))]"

section \<open>The drawer and the dialog\<close>

definition drawer_head :: "import_page \<Rightarrow> drawing" where
  "drawer_head s = (let b = ip_batchDetail s in v_if (truthy b) (beside
     [status_cell (get_prop b (js ''status'')),
      interp (row_count b ''processed_count''), words (js '' / ''), interp (row_count b ''source_count''), words ([32, 0x4e2a, 0x6587, 0x4ef6, 0x5df2, 0x5904, 0x7406]),
      interp (N (int (length (ip_batchIssues s)))), words ([32, 0x4e2a, 0x95ee, 0x9898])]))"

definition drawer_overview :: "import_page \<Rightarrow> drawing" where
  "drawer_overview s = (let b = ip_batchDetail s; p = (\<lambda>k. get_prop b (js k)) in v_if (truthy b) (beside
     [leaf ''CopyableText'' [(''value'', p ''id'')], interp (js_or (p ''scope_key'') (S ''-'')),
      interp (row_count b ''source_count''), interp (row_count b ''retry_count''),
      leaf ''DateTime'' [(''value'', p ''created_at'')], leaf ''DateTime'' [(''value'', p ''completed_at'')],
      v_if (truthy (p ''error_message'')) (interp (p ''error_message''))]))"

definition batch_file_row :: "jsval \<Rightarrow> drawing list" where
  "batch_file_row row = [with_prop row ''source_name'' interp, with_prop row ''size_bytes'' (\<lambda>v. words (formatBytes v)),
     with_prop row ''status'' status_cell, with_prop row ''error_message'' interp]"

definition issue_row :: "jsval \<Rightarrow> drawing list" where
  "issue_row row = [with_prop row ''severity'' (\<lambda>v. element ''el-tag'' [(''type'', if strict_eq v (S ''error'') then S ''danger'' else S ''warning'')]
       (interp (severityLabel v))), with_prop row ''issue_type'' interp, with_prop row ''message'' interp]"

definition batch_drawer :: "import_page \<Rightarrow> drawing" where
  "batch_drawer s = v_if (ip_detailVisible s) (element ''DetailDrawer''
     [(''title'', JStr ([0x5bfc, 0x5165, 0x6279, 0x6b21, 32, 35] @ to_string (js_or (get_opt (ip_batchDetail s) (js ''id'')) (S ''''))))]
     (beside [drawer_head s, drawer_overview s,
       words ([0x6587, 0x4ef6, 32] @ dec_digits (int (length (ip_batchFiles s)))), element ''el-table'' [] (table_rows batch_file_row (JArr (ip_batchFiles s))),
       words ([0x95ee, 0x9898, 32] @ dec_digits (int (length (ip_batchIssues s)))), element ''el-table'' [] (table_rows issue_row (JArr (ip_batchIssues s)))]))"

definition dangerous :: "action_kind \<Rightarrow> bool" where
  "dangerous k \<longleftrightarrow> k \<in> {Reject, CandidateRollback, CancelBatch, RollbackBatch}"

definition action_dialog :: "import_page \<Rightarrow> drawing" where
  "action_dialog s = (case ip_action s of None \<Rightarrow> Inr [] | Some a \<Rightarrow> element ''ConfirmActionDialog''
     [(''modelValue'', JBool (ip_actionVisible s)), (''reason'', JStr (ip_actionReason s)), (''title'', JStr (ac_title a)),
      (''confirmText'', JStr (ac_confirmText a)), (''loading'', JBool (ip_actionSubmitting s)), (''danger'', JBool (dangerous (ac_kind a))),
      (''requiresReason'', JBool (ac_requiresReason a)), (''reasonLabel'', JStr (ac_reasonLabel a))] (words (ac_impact a)))"

definition import_view :: "import_page \<Rightarrow> drawing" where
  "import_view s = beside
     [import_alerts s, leaf ''el-steps'' [(''active'', JNum (ip_currentStep s))], import_context s, drop_area s, selected_files s,
      wizard_actions s, batches_card s, candidates_card s, batch_drawer s, action_dialog s]"

section \<open>Laws\<close>

lemma to_double_nonneg: "0 \<le> q \<Longrightarrow> Fin 0 \<le> to_double q"
proof -
  assume q: "0 \<le> q"
  have "0 \<le> round_half_even (q / pow2 e)" for e using q by (intro round_above) (simp add: pow2_def)
  then show ?thesis using q by (auto simp: to_double_def Let_def less_eq_jnum_def pow2_def)
qed

lemma nonneg_cases: "Fin 0 \<le> x \<Longrightarrow> x = PInf \<or> (\<exists>q. x = Fin q \<and> 0 \<le> q)"
  by (cases x) (auto simp: less_eq_jnum_def)

lemma percent_bounded:
  assumes "Fin 0 \<le> x"
  shows "\<exists>n :: int. 0 \<le> n \<and> n \<le> 100 \<and> math_min (Fin 100) (math_round (num_mul x (Fin 100))) = Fin (of_int n)"
proof -
  have "Fin 0 \<le> num_mul x (Fin 100)"
    using nonneg_cases [OF assms] to_double_nonneg by (auto simp: num_mul_def less_eq_jnum_def)
  then consider "num_mul x (Fin 100) = PInf" | q where "num_mul x (Fin 100) = Fin q" "0 \<le> q" using nonneg_cases by blast
  then show ?thesis
  proof cases
    case 1
    then show ?thesis by (intro exI [of _ 100]) (simp add: math_min_def math_round_def less_eq_jnum_def)
  next
    case 2
    then show ?thesis
      by (intro exI [of _ "min 100 \<lfloor>q + 1/2\<rfloor>"]) (auto simp: math_min_def math_round_def less_eq_jnum_def min_def le_floor_iff floor_less_iff)
  qed
qed


definition nearly_done :: jsval where
  "nearly_done = JObj [(js ''source_count'', N 200), (js ''processed_count'', N 199)]"


text \<open>The bar is full before the batch is: it rounds to the nearest percent.\<close>

theorem full_too_early: "batch_progress nearly_done = Fin 100"
  by code_simp

text \<open>The buttons of a row are drawn for the statuses that admit them, and whoever rejects or takes back has to give a reason.\<close>

lemma taking_back_needs_reason: "dangerous k \<Longrightarrow> k \<noteq> CancelBatch \<Longrightarrow> ac_requiresReason (action_definition k target i)"
  by (cases k) (simp_all add: dangerous_def action_definition_def Let_def)

lemma buttons_draw [simp]: "draws (row_action_button s k label row)" "draws (status_cell v)" "draws (file_entry b e)"
  by (simp_all add: row_action_button_def status_cell_def file_entry_def)

lemma import_rows_draw [simp]:
  assumes "gate_allowed (ip_session s) (js ''admin'') [] [] = Inr ok"
  shows "draws (beside (batch_row s row)) \<longleftrightarrow> \<not> is_nullish row" "draws (beside (candidate_row s row)) \<longleftrightarrow> \<not> is_nullish row"
    "draws (beside (batch_file_row row)) \<longleftrightarrow> \<not> is_nullish row" "draws (beside (issue_row row)) \<longleftrightarrow> \<not> is_nullish row"
  using assms by (auto simp: batch_row_def candidate_row_def batch_file_row_def issue_row_def gated_def)

text \<open>The page is drawn exactly if no row, project, file or issue it shows is missing.\<close>

theorem import_drawn:
  assumes "isAdmin (ip_session s) = Inr admin" "gate_allowed (ip_session s) (js ''admin'') [] [] = Inr ok"
  shows "draws (import_view s) \<longleftrightarrow> present (ip_projects s) \<and> present (ip_batches s) \<and> present (ip_candidates s)
    \<and> (ip_detailVisible s \<longrightarrow> present (ip_batchFiles s) \<and> present (ip_batchIssues s))"
proof -
  have active: "present (ip_batches s) \<Longrightarrow> \<exists>b. hasActiveBatches s = Inr b"
  proof -
    have "\<exists>b. find_js (\<lambda>item. andThen (get_or_throw item (js ''status'')) (\<lambda>st. Inr (active_status st))) xs = Inr b" if "present xs" for xs
      using that by (induction xs) (auto simp: present_def)
    then show "present (ip_batches s) \<Longrightarrow> \<exists>b. hasActiveBatches s = Inr b" unfolding hasActiveBatches_def by (fastforce simp: andThen_def)
  qed
  have parts: "draws (import_alerts s)" "draws (import_context s) \<longleftrightarrow> present (ip_projects s)" "draws (drop_area s)"
      "draws (wizard_actions s)" "draws (candidates_card s) \<longleftrightarrow> present (ip_candidates s)" "draws (action_dialog s)"
      "draws (batch_drawer s) \<longleftrightarrow> (ip_detailVisible s \<longrightarrow> present (ip_batchFiles s) \<and> present (ip_batchIssues s))"
    using assms by (auto simp: import_alerts_def import_context_def drop_area_def wizard_actions_def candidates_card_def
        action_dialog_def batch_drawer_def drawer_head_def drawer_overview_def gated_def present_def draws_andThen Let_def split: option.split)
  have "draws (selected_files s)" by (auto simp: selected_files_def draws_beside)
  moreover have "draws (batches_card s) \<longleftrightarrow> present (ip_batches s)"
    using active assms(2) by (auto simp: batches_card_def draws_andThen present_def)
  ultimately show ?thesis using parts by (simp add: import_view_def)
qed

end
