(* ===== verification/RegisterViews.thy ===== *)
theory RegisterViews imports ListViews RecordsPage ProjectsPage SystemPage ContextStore begin

text \<open>
  The templates of \<open>views/RecordsView.vue\<close> and \<open>views/ProjectsView.vue\<close>: which filters are shown, the cells with a look of their own,
  and the drawers.
\<close>

section \<open>Choices of the context\<close>

definition project_choice :: "jsval \<Rightarrow> drawing" where
  "project_choice project = with_prop project ''project_key'' (\<lambda>key. option_field (js_or (get_prop project (js ''name'')) key) key)"

definition scope_name :: "intl \<Rightarrow> jsval \<Rightarrow> jstr js" where
  "scope_name host scope = (case alloc [] scope of (h, w) \<Rightarrow> scopeDisplayName host h w)"

definition scope_choice :: "intl \<Rightarrow> jsval \<Rightarrow> drawing" where
  "scope_choice host scope = with_prop scope ''id'' (\<lambda>i. andThen (scope_name host scope) (\<lambda>name.
     option_field (JStr name) (JStr (to_string (js_or (get_prop scope (js ''scope_key'')) i)))))"

section \<open>Tables by columns\<close>

text \<open>\<open>DataTable\<close>: what a cell is drawn with if the page has no slot for its column; the columns have no formatter of their own.\<close>

definition default_cell :: "intl \<Rightarrow> jsval \<Rightarrow> jsval \<Rightarrow> drawing" where
  "default_cell host column v = (let type = get_prop column (js ''type'') in
     if strict_eq type (S ''date'') then leaf ''DateTime'' [(''value'', v)]
     else if strict_eq type (S ''status'') then leaf ''StatusTag'' [(''status'', v)]
     else if strict_eq type (S ''mono'') then leaf ''CopyableText'' [(''value'', v), (''truncate'', js_or (get_prop column (js ''truncate'')) (N 0))]
     else case alloc [] v of (h, w) \<Rightarrow>
       if isStructured w then leaf ''ReadableValue'' [(''value'', v)] else andThen (displayValue host h w) interp)"

definition column_cell :: "intl \<Rightarrow> (jstr \<Rightarrow> jsval \<Rightarrow> jsval \<Rightarrow> drawing option) \<Rightarrow> jsval \<Rightarrow> jsval \<Rightarrow> drawing" where
  "column_cell host slot row column = (let key = to_string (get_prop column (js ''key'')) in andThen (get_or_throw row key) (\<lambda>v.
     case slot key v row of Some d \<Rightarrow> d | None \<Rightarrow> default_cell host column v))"

definition data_table :: "intl \<Rightarrow> (jstr \<Rightarrow> jsval \<Rightarrow> jsval \<Rightarrow> drawing option) \<Rightarrow> jsval \<Rightarrow> jsval list \<Rightarrow> drawing" where
  "data_table host slot columns rows = element ''DataTable'' [(''columns'', columns)]
     (table_rows (\<lambda>row. map (column_cell host slot row) (elems columns) @ [element ''el-button'' [] (words ([0x67e5, 0x770b, 0x8be6, 0x60c5]))]) (JArr rows))"

section \<open>The ledger\<close>

definition kind_tabs :: "records_page \<Rightarrow> drawing" where
  "kind_tabs s = element ''el-tabs'' [(''modelValue'', rc_filter s ''kind'')] (beside (map (\<lambda>(key, item).
     element ''el-tab-pane'' [(''name'', JStr key)] (beside [interp (get_prop item (js ''hint'')), interp (get_prop item (js ''label''))])) record_definitions))"

text \<open>The fields of the filters: the kind of the field, and the filter it is bound to.  The range of dates is bound to two.\<close>

definition record_fields :: "records_page \<Rightarrow> (string \<times> string) list" where
  "record_fields s = (let f = rc_filters s; d = record_definition s; v_if' = (\<lambda>b x. if b then [x] else []) in
     [(''el-select'', ''project_key''), (''el-select'', ''scope_id'')]
     @ v_if' (kind_in [''candidates'', ''memories'', ''jobs'', ''outbox-events''] f) (''el-select'', ''status'')
     @ v_if' (kind_in [''candidates'', ''memories''] f) (''el-select'', ''level'')
     @ v_if' (kind_in [''raw-records''] f) (''el-select'', ''role'')
     @ v_if' (kind_in [''retrieval-audits''] f) (''el-select'', ''degraded'')
     @ v_if' (kind_in [''retrieval-audits''] f) (''el-input'', ''retrieval_mode'')
     @ v_if' (truthy (get_prop d (js ''typeLabel''))) (''el-input'', ''type'')
     @ v_if' (truthy (get_prop d (js ''secondaryTypeLabel''))) (''el-input'', ''secondary_type'')
     @ v_if' (kind_in [''raw-records'', ''candidates'', ''memories'', ''jobs''] f) (''el-input'', ''keyword'')
     @ [(''el-date-picker'', ''created_from''), (''el-date-picker'', ''created_to''), (''el-select'', ''sort''), (''el-select'', ''order'')])"

text \<open>The options of a selection.\<close>

definition record_options :: "string \<Rightarrow> (jstr \<times> string) list" where
  "record_options k =
     (if k = ''status'' then [([0x5f85, 0x5904, 0x7406], ''pending''), ([0x8fd0, 0x884c, 0x4e2d], ''running''), ([0x5df2, 0x5b8c, 0x6210], ''completed''), ([0x5931, 0x8d25], ''failed''),
        ([0x6b7b, 0x4fe1], ''dead''), ([0x5df2, 0x6279, 0x51c6], ''approved''), ([0x5df2, 0x62d2, 0x7edd], ''rejected'')]
      else if k = ''level'' then map (\<lambda>l. (js l, l)) [''L0'', ''L1'', ''L2'', ''L3'']
      else if k = ''role'' then [([0x7528, 0x6237], ''user''), ([0x52a9, 0x624b], ''assistant''), ([0x7cfb, 0x7edf], ''system'')]
      else if k = ''degraded'' then [([0x5df2, 0x964d, 0x7ea7], ''true''), ([0x672a, 0x964d, 0x7ea7], ''false'')]
      else if k = ''sort'' then [([0x521b, 0x5efa, 0x65f6, 0x95f4], ''created_at''), (js ''ID'', ''id''), ([0x72b6, 0x6001], ''status'')]
      else if k = ''order'' then [([0x7531, 0x65b0, 0x5230, 0x65e7], ''desc''), ([0x7531, 0x65e7, 0x5230, 0x65b0], ''asc'')] else [])"

definition record_field :: "intl \<Rightarrow> context_state \<Rightarrow> records_page \<Rightarrow> string \<times> string \<Rightarrow> drawing" where
  "record_field host c s item = (case item of (tag, k) \<Rightarrow> let v = rc_filter s k in
     if tag = ''el-date-picker'' then field tag (if truthy (rc_filter s ''created_from'') \<and> truthy (rc_filter s ''created_to'') then v else JUndef)
     else if tag \<noteq> ''el-select'' then field tag v
     else if k = ''project_key'' then select_field v (map project_choice (projects c))
     else if k = ''scope_id'' then element ''el-select'' [(''modelValue'', v), (''disabled'', JBool (\<not> truthy (rc_filter s ''project_key'')))]
       (for_each (scope_choice host) (scopes c))
     else select_field v (map (\<lambda>(label, x). option_field (JStr label) (S x)) (record_options k)))"

definition percent_text :: "jsval \<Rightarrow> jstr" where
  "percent_text v = (if is_nullish v then js ''-'' else num_to_string (math_round (num_mul (to_number v) (Fin 100))) @ js ''%'')"

text \<open>The cells that the page draws itself.\<close>

definition title_cell :: "intl \<Rightarrow> jsval \<Rightarrow> drawing" where
  "title_cell host row = (let content = get_prop row (js ''content'') in beside
     [case alloc [] row of (h, w) \<Rightarrow> interp (readableTitle h w JUndef),
      v_if (truthy content) (case alloc [] content of (h, w) \<Rightarrow> andThen (readableText host h w 80) words)])"

definition record_cell :: "intl \<Rightarrow> jstr \<Rightarrow> jsval \<Rightarrow> jsval \<Rightarrow> drawing option" where
  "record_cell host key v row =
     (if key = js ''content'' then Some (leaf ''ExpandableText'' [(''value'', v)])
      else if key = js ''title'' then Some (title_cell host row)
      else if key = js ''role'' then Some (leaf ''StatusTag'' [(''status'', v), (''label'', roleLabel v)])
      else if key = js ''memory_type'' then Some (interp (memoryTypeLabel v))
      else if key = js ''degraded'' then Some (leaf ''StatusTag'' [(''status'', if truthy v then S ''degraded'' else S ''ok''),
        (''label'', JStr (if truthy v then [0x5df2, 0x964d, 0x7ea7] else [0x6b63, 0x5e38]))])
      else if key = js ''model_confidence'' \<or> key = js ''confidence'' then Some (words (percent_text v))
      else None)"

text \<open>In the drawer each column of the kind is drawn by its type.\<close>

definition record_detail_item :: "jsval \<Rightarrow> jsval \<Rightarrow> drawing" where
  "record_detail_item row column = (let type = get_prop column (js ''type''); key = get_prop column (js ''key''); v = get_prop row (to_string key) in
     if strict_eq type (S ''date'') then leaf ''DateTime'' [(''value'', v)]
     else if strict_eq type (S ''status'') then leaf ''StatusTag'' [(''status'', v)]
     else if strict_eq key (S ''content'') then leaf ''ExpandableText'' [(''value'', v), (''limit'', N 360)]
     else if strict_eq type (S ''mono'') then leaf ''CopyableText'' [(''value'', v)]
     else leaf ''ReadableValue'' [(''value'', v)])"

definition record_drawer :: "records_page \<Rightarrow> drawing" where
  "record_drawer s = andThen (currentRow s) (\<lambda>row. let raw = leaf ''StructuredDataViewer'' [(''value'', row)] in
     element ''DetailDrawer'' [(''modelValue'', JBool (records_drawerOpen s)),
       (''title'', JStr (to_string (get_prop (record_definition s) (js ''label'')) @ [0x8be6, 0x60c5]))]
     (if truthy row then
        if strict_eq (rc_filter s ''detail_tab'') (S ''overview'')
        then beside [for_each (record_detail_item row) (elems (get_prop (record_definition s) (js ''columns''))), raw] else raw
      else words ([0x8be5, 0x8bb0, 0x5f55, 0x4e0d, 0x5728, 0x5f53, 0x524d, 0x9875, 0xff0c, 0x8bf7,
     0x5173, 0x95ed, 0x8be6, 0x60c5, 0x540e, 0x91cd, 0x65b0, 0x5b9a, 0x4f4d, 0x3002])))"

definition records_view :: "intl \<Rightarrow> context_state \<Rightarrow> records_page \<Rightarrow> drawing" where
  "records_view host c s = beside
     [element ''el-button'' [(''loading'', JBool (rc_loading s))] (words ([0x5237, 0x65b0, 0x6570, 0x636e])), kind_tabs s,
      beside (map (record_field host c s) (record_fields s)), words ([0x91cd, 0x7f6e]), words ([0x67e5, 0x8be2]),
      v_if (showsContentNotice s) (words ([0x5185, 0x5bb9, 0x7531, 0x670d, 0x52a1, 0x7aef, 0x6267, 0x884c, 0x51ed, 0x636e,
     0x8131, 0x654f, 0xff1b, 0x7a7a, 0x503c, 0x6216, 0x7701, 0x7565, 0x5b57, 0x6bb5,
     0x53ef, 0x80fd, 0x4ee3, 0x8868, 0x53d7, 0x4fdd, 0x62a4, 0x5185, 0x5bb9, 0x3002])),
      if rc_error s \<noteq> None then leaf ''ErrorState'' []
      else beside [data_table host (record_cell host) (get_prop (record_definition s) (js ''columns'')) (rc_rows s),
        leaf ''PaginationBar'' [(''page'', rc_filter s ''page''), (''pageSize'', rc_filter s ''page_size''),
          (''total'', lookup_prop (rc_meta s) (js ''total'')), (''disabled'', JBool (rc_loading s))]],
      record_drawer s]"

section \<open>The register of projects\<close>

definition project_cell :: "jstr \<Rightarrow> jsval \<Rightarrow> jsval \<Rightarrow> drawing option" where
  "project_cell key v row =
     (if key = js ''name'' then Some (beside [interp (js_or (get_prop row (js ''name'')) (get_prop row (js ''project_key''))),
        v_if (truthy (get_prop row (js ''description''))) (interp (get_prop row (js ''description'')))])
      else if key = js ''project_key'' then Some (leaf ''CopyableText'' [(''value'', v)])
      else if key = js ''repository'' then Some (leaf ''CopyableText'' [(''value'', v), (''truncate'', N 42)])
      else if key = js ''scope_count'' then Some (interp (js_coalesce v (S ''-'')))
      else if key = js ''status'' then Some (leaf ''StatusTag'' [(''status'', v)])
      else None)"

definition scope_item :: "intl \<Rightarrow> jsval \<Rightarrow> drawing" where
  "scope_item host scope = with_prop scope ''description'' (\<lambda>d. let default = truthy (get_prop scope (js ''is_default'')) in beside
     [andThen (scope_name host scope) words, interp (js_or d (get_prop scope (js ''scope_key''))),
      leaf ''StatusTag'' [(''status'', js_or (get_prop scope (js ''status'')) (if default then S ''active'' else S ''inactive'')),
        (''label'', if default then JStr ([0x9ed8, 0x8ba4]) else S '''')]])"

definition project_drawer :: "intl \<Rightarrow> projects_page \<Rightarrow> drawing" where
  "project_drawer host s = (let d = pj_detail s; p = (\<lambda>k. get_prop d (js k)) in element ''DetailDrawer''
     [(''modelValue'', JBool (projects_drawerOpen s)), (''loading'', JBool (pj_detailLoading s)),
      (''title'', js_or (js_or (get_opt d (js ''name'')) (pj_filter s ''detail'')) (JStr ([0x9879, 0x76ee, 0x8be6, 0x60c5])))]
     (if pj_detailError s \<noteq> None then leaf ''ErrorState'' []
      else v_if (truthy d) (beside
        [interp (js_or (p ''name'') (p ''project_key'')), interp (js_or (p ''description'') (JStr ([0x8be5, 0x9879, 0x76ee, 0x5c1a, 0x672a, 0x586b, 0x5199, 0x8bf4, 0x660e, 0x3002]))),
         leaf ''StatusTag'' [(''status'', p ''status'')], leaf ''CopyableText'' [(''value'', p ''project_key'')],
         leaf ''CopyableText'' [(''value'', p ''repository'')],
         interp (js_or (js_or (N (int (length (pj_scopes s)))) (p ''scope_count'')) (N 0)),
         if pj_scopes s \<noteq> [] then for_each (scope_item host) (pj_scopes s) else words ([0x6682, 0x65e0, 0x72ec, 0x7acb, 32, 83, 99, 111, 112, 101, 0x3002]),
         words ([0x67e5, 0x770b, 0x8bb0, 0x5fc6, 0x6570, 0x636e]), words ([0x67e5, 0x770b, 0x4efb, 0x52a1, 0x62a5, 0x544a]), words ([0x67e5, 0x770b, 0x63a5, 0x53e3, 0x5951, 0x7ea6])])))"

definition projects_view :: "intl \<Rightarrow> projects_page \<Rightarrow> drawing" where
  "projects_view host s = beside
     [element ''el-button'' [(''loading'', JBool (pj_loading s))] (words ([0x5237, 0x65b0, 0x9879, 0x76ee])),
      field ''el-input'' (pj_filter s ''keyword''),
      select_field (pj_filter s ''status'') [option_field (JStr ([0x6d3b, 0x8dc3])) (S ''active''), option_field (JStr ([0x672a, 0x542f, 0x7528])) (S ''inactive'')],
      words ([0x91cd, 0x7f6e]), words ([0x67e5, 0x8be2]),
      if pj_error s \<noteq> None then leaf ''ErrorState'' []
      else andThen (projects_rows s) (\<lambda>rows. andThen (filteredRows s) (\<lambda>all'. beside
        [data_table host project_cell (JArr projects_columns) rows,
         leaf ''PaginationBar'' [(''page'', pj_filter s ''page''), (''pageSize'', pj_filter s ''page_size''), (''total'', N (int (length all'))),
           (''disabled'', JBool (pj_loading s))]])),
      project_drawer host s]"

section \<open>Laws\<close>

lemma project_choice_draws [simp]: "draws (project_choice x) \<longleftrightarrow> \<not> is_nullish x"
  by (simp add: project_choice_def)

text \<open>A table of projects is drawn exactly if no row is missing and what has no slot can be shown.\<close>

lemma projects_table_draws:
  "draws (data_table host project_cell (JArr columns) rows) \<longleftrightarrow>
    (\<forall>row \<in> set rows. \<forall>column \<in> set columns. draws (column_cell host project_cell row column))"
  by (auto simp: data_table_def draws_beside)

definition visible_filters :: "records_page \<Rightarrow> string set" where
  "visible_filters s = snd ` set (record_fields s)"

definition record_kinds :: "string list" where
  "record_kinds = [''raw-records'', ''candidates'', ''memories'', ''jobs'', ''outbox-events'', ''retrieval-audits'', ''audit-events'']"

lemma labels_of_kinds:
  "map (\<lambda>k. truthy (get_prop (lookup_prop record_definitions (js k)) (js ''typeLabel''))) record_kinds = [False, True, True, True, True, False, True]"
  "map (\<lambda>k. truthy (get_prop (lookup_prop record_definitions (js k)) (js ''secondaryTypeLabel''))) record_kinds
     = [False, False, False, False, False, False, True]"
  "map (\<lambda>k. truthy (lookup_prop record_definitions (js k))) record_kinds = [True, True, True, True, True, True, True]"
  by code_simp+

lemma fields_of_kind:
  assumes "kind \<in> set record_kinds" "rc_filter s ''kind'' = S kind"
  shows "truthy (get_prop (record_definition s) (js ''typeLabel'')) \<longleftrightarrow> kind \<notin> {''raw-records'', ''retrieval-audits''}"
    "truthy (get_prop (record_definition s) (js ''secondaryTypeLabel'')) \<longleftrightarrow> kind = ''audit-events''"
    "kind_in ks (rc_filters s) \<longleftrightarrow> kind \<in> set ks"
proof -
  have "record_definition s = lookup_prop record_definitions (js kind)"
    using assms labels_of_kinds(3) by (auto simp: record_definition_def js_or_def record_kinds_def)
  then show "truthy (get_prop (record_definition s) (js ''typeLabel'')) \<longleftrightarrow> kind \<notin> {''raw-records'', ''retrieval-audits''}"
    "truthy (get_prop (record_definition s) (js ''secondaryTypeLabel'')) \<longleftrightarrow> kind = ''audit-events''"
    using assms(1) labels_of_kinds(1,2) by (auto simp: record_kinds_def)
  show "kind_in ks (rc_filters s) \<longleftrightarrow> kind \<in> set ks" using assms(2) by (auto simp: kind_in_def)
qed

lemma optional_field: "k \<in> snd ` set (if c then [(a, b)] else []) \<longleftrightarrow> c \<and> k = b"
  by auto

lemma visible_iff:
  assumes "kind \<in> set record_kinds" "rc_filter s ''kind'' = S kind"
  shows "k \<in> visible_filters s \<longleftrightarrow> k \<in> {''project_key'', ''scope_id''}
    \<or> kind \<in> set [''candidates'', ''memories'', ''jobs'', ''outbox-events''] \<and> k = ''status''
    \<or> kind \<in> set [''candidates'', ''memories''] \<and> k = ''level'' \<or> kind \<in> set [''raw-records''] \<and> k = ''role''
    \<or> kind \<in> set [''retrieval-audits''] \<and> k = ''degraded'' \<or> kind \<in> set [''retrieval-audits''] \<and> k = ''retrieval_mode''
    \<or> kind \<notin> {''raw-records'', ''retrieval-audits''} \<and> k = ''type'' \<or> kind = ''audit-events'' \<and> k = ''secondary_type''
    \<or> kind \<in> set [''raw-records'', ''candidates'', ''memories'', ''jobs''] \<and> k = ''keyword'' \<or> k \<in> {''created_from'', ''created_to'', ''sort'', ''order''}"
  unfolding visible_filters_def record_fields_def Let_def fields_of_kind [OF assms] set_append image_Un Un_iff optional_field
  by (simp only: list.set image_insert image_empty snd_conv)

lemma add_params_cong:
  assumes "kind_in kinds g = kind_in kinds f" "\<And>a b. kind_in kinds f \<Longrightarrow> (a, b) \<in> set ps \<Longrightarrow> lookup_prop g (js b) = lookup_prop f (js b)" "P = Q"
  shows "add_params kinds ps g P = add_params kinds ps f Q"
proof -
  have "map (\<lambda>(a, b). (js a, lookup_prop g (js b))) ps = map (\<lambda>(a, b). (js a, lookup_prop f (js b))) ps" if "kind_in kinds f"
    using assms(2) [OF that] by auto
  then show ?thesis using assms(1,3) by (cases "kind_in kinds f") (simp_all only: add_params_def if_True if_False)
qed

lemma add_params_lookup: "map_of (add_params kinds ps f P) p = (if kind_in kinds f then
    (case map_of (rev (map (\<lambda>(a, b). (js a, lookup_prop f (js b))) ps)) p of Some v \<Rightarrow> Some v | None \<Rightarrow> map_of P p) else map_of P p)"
  by (simp add: add_params_def map_of_put_all)

text \<open>The name a filter has in the request.\<close>

definition param_name :: "string \<Rightarrow> string \<Rightarrow> string" where
  "param_name kind k = (if k = ''type'' then (if kind = ''jobs'' then ''job_type'' else if kind \<in> {''outbox-events'', ''audit-events''} then ''event_type'' else ''memory_type'')
     else if k = ''secondary_type'' then ''subject_type'' else k)"

lemma sent_lookups:
  "map_of (buildParams host f) (js ''project_key'') = Some (lookup_prop f (js ''project_key''))"
  "map_of (buildParams host f) (js ''scope_id'') = Some (lookup_prop f (js ''scope_id''))"
  "map_of (buildParams host f) (js ''sort'') = Some (lookup_prop f (js ''sort''))"
  "map_of (buildParams host f) (js ''order'') = Some (lookup_prop f (js ''order''))"
  "map_of (buildParams host f) (js ''created_from'') = Some (JStr (localDateTimeToIso host (lookup_prop f (js ''created_from''))))"
  "map_of (buildParams host f) (js ''created_to'') = Some (JStr (localDateTimeToIso host (lookup_prop f (js ''created_to''))))"
  "kind_in [''candidates'', ''memories'', ''jobs'', ''outbox-events''] f \<Longrightarrow> map_of (buildParams host f) (js ''status'') = Some (lookup_prop f (js ''status''))"
  "kind_in [''candidates'', ''memories''] f \<Longrightarrow> map_of (buildParams host f) (js ''level'') = Some (lookup_prop f (js ''level''))"
  "kind_in [''raw-records''] f \<Longrightarrow> map_of (buildParams host f) (js ''role'') = Some (lookup_prop f (js ''role''))"
  "kind_in [''retrieval-audits''] f \<Longrightarrow> map_of (buildParams host f) (js ''degraded'') = Some (lookup_prop f (js ''degraded''))"
  "kind_in [''retrieval-audits''] f \<Longrightarrow> map_of (buildParams host f) (js ''retrieval_mode'') = Some (lookup_prop f (js ''retrieval_mode''))"
  "kind_in [''candidates'', ''memories''] f \<Longrightarrow> map_of (buildParams host f) (js ''memory_type'') = Some (lookup_prop f (js ''type''))"
  "kind_in [''jobs''] f \<Longrightarrow> map_of (buildParams host f) (js ''job_type'') = Some (lookup_prop f (js ''type''))"
  "kind_in [''outbox-events''] f \<or> kind_in [''audit-events''] f \<Longrightarrow> map_of (buildParams host f) (js ''event_type'') = Some (lookup_prop f (js ''type''))"
  "kind_in [''audit-events''] f \<Longrightarrow> map_of (buildParams host f) (js ''subject_type'') = Some (lookup_prop f (js ''secondary_type''))"
  "kind_in [''raw-records''] f \<or> kind_in [''candidates'', ''memories''] f \<or> kind_in [''jobs''] f
    \<Longrightarrow> map_of (buildParams host f) (js ''keyword'') = Some (lookup_prop f (js ''keyword''))"
  by (simp_all add: buildParams_def Let_def add_params_lookup) auto

lemma visible_sent:
  assumes "kind \<in> set record_kinds" "rc_filter s ''kind'' = S kind" "k \<in> visible_filters s"
  shows "map_of (buildParams host (rc_filters s)) (js (param_name kind k))
    \<in> {Some (rc_filter s k), Some (JStr (localDateTimeToIso host (rc_filter s k)))}"
proof -
  note sent = sent_lookups [where host = host and f = "rc_filters s", unfolded fields_of_kind(3) [OF assms(1,2)]]
  from assms(3) [unfolded visible_iff [OF assms(1,2)]] show ?thesis
  proof (elim disjE conjE)
    assume typed: "kind \<notin> {''raw-records'', ''retrieval-audits''}" "k = ''type''"
    from assms(1) [unfolded record_kinds_def list.set] show ?thesis
      by (elim insertE emptyE; use typed in \<open>simp add: sent param_name_def\<close>)
  next
    assume "k \<in> {''project_key'', ''scope_id''}"
    then show ?thesis by (elim insertE emptyE) (simp_all add: sent param_name_def)
  next
    assume "k \<in> {''created_from'', ''created_to'', ''sort'', ''order''}"
    then show ?thesis by (elim insertE emptyE) (simp_all add: sent param_name_def)
  qed (simp_all add: sent param_name_def)
qed

text \<open>C34. For every kind of record the filters on the screen are the filters of the request: each visible one is sent, as it is or as an
  ISO date, and the request does not depend on any other filter but the page and its size.\<close>

theorem visible_filters_exact:
  assumes "kind \<in> set record_kinds" "rc_filter s ''kind'' = S kind"
    and "\<And>k. k \<in> visible_filters s \<union> {''kind'', ''page'', ''page_size''} \<Longrightarrow> lookup_prop g (js k) = rc_filter s k"
  shows "buildParams host g = buildParams host (rc_filters s)
    \<and> (\<forall>k \<in> visible_filters s. map_of (buildParams host (rc_filters s)) (js (param_name kind k)) \<in> {Some (rc_filter s k), Some (JStr (localDateTimeToIso host (rc_filter s k)))})"
proof -
  have same_kind: "kind_in ks g = kind_in ks (rc_filters s)" for ks using assms(3) [of "''kind''"] by (simp add: kind_in_def)
  note visible = visible_iff [OF assms(1,2)]
  have same: "lookup_prop g (js x) = rc_filter s x" if "x \<in> visible_filters s \<or> x \<in> {''page'', ''page_size''}" for x
    using assms(3) [of x] that by blast
  have base: "lookup_prop g (js ''project_key'') = rc_filter s ''project_key''" "lookup_prop g (js ''scope_id'') = rc_filter s ''scope_id''"
    "lookup_prop g (js ''created_from'') = rc_filter s ''created_from''" "lookup_prop g (js ''created_to'') = rc_filter s ''created_to''"
    "lookup_prop g (js ''sort'') = rc_filter s ''sort''" "lookup_prop g (js ''order'') = rc_filter s ''order''"
    "lookup_prop g (js ''page'') = rc_filter s ''page''" "lookup_prop g (js ''page_size'') = rc_filter s ''page_size''"
    by (rule same, simp add: visible)+
  have "buildParams host g = buildParams host (rc_filters s)"
    unfolding buildParams_def Let_def base
    by (intro add_params_cong same_kind refl)
      (unfold fields_of_kind(3) [OF assms(1,2)] list.set; elim insertE emptyE Pair_inject; simp add: same visible)+
  moreover have "\<forall>k \<in> visible_filters s. map_of (buildParams host (rc_filters s)) (js (param_name kind k))
      \<in> {Some (rc_filter s k), Some (JStr (localDateTimeToIso host (rc_filter s k)))}"
    using visible_sent [OF assms(1,2)] by blast
  ultimately show ?thesis by blast
qed



definition jobs_page :: records_page where
  "jobs_page = (records_initial [])\<lparr>rc_filters := put records_defaults (js ''kind'') (S ''jobs'')\<rparr>"

text \<open>Among the jobs the role of a message is not a filter, and what was chosen for it elsewhere does no harm.\<close>

theorem visible_filters_exact_witness:
  "\<forall>host. \<exists>g. lookup_prop g (js ''role'') = S ''user'' \<and> rc_filter jobs_page ''role'' = S '''' \<and> buildParams host g = buildParams host (rc_filters jobs_page)"
proof
  fix host
  let ?g = "put (rc_filters jobs_page) (js ''role'') (S ''user'')"
  have kind: "''jobs'' \<in> set record_kinds" "rc_filter jobs_page ''kind'' = S ''jobs''" "rc_filter jobs_page ''role'' = S ''''"
    by code_simp+
  have others: "lookup_prop ?g (js k) = rc_filter jobs_page k" if "k \<noteq> ''role''" for k using that by (simp add: lookup_prop_def)
  have "''role'' \<notin> visible_filters jobs_page \<union> {''kind'', ''page'', ''page_size''}" by (simp add: visible_iff [OF kind(1,2)])
  then have "lookup_prop ?g (js k) = rc_filter jobs_page k" if "k \<in> visible_filters jobs_page \<union> {''kind'', ''page'', ''page_size''}" for k
    using that by (intro others) blast
  from visible_filters_exact [OF kind(1,2) this] have "buildParams host ?g = buildParams host (rc_filters jobs_page)" by blast
  moreover have "lookup_prop ?g (js ''role'') = S ''user''" by (simp add: lookup_prop_def)
  ultimately show "\<exists>g. lookup_prop g (js ''role'') = S ''user'' \<and> rc_filter jobs_page ''role'' = S ''''
      \<and> buildParams host g = buildParams host (rc_filters jobs_page)" using kind(3) by blast
qed

text \<open>An address may name any kind: the page then shows the columns of the candidates, but asks the service for what the address names.\<close>

theorem unknown_kind_requested:
  assumes "lookup_prop record_definitions (to_string (rc_filter s ''kind'')) = JUndef"
  shows "record_definition s = lookup_prop record_definitions (js ''candidates'')"
    "\<exists>k. segment (records_load host) s = (s\<lparr>rc_loading := True, rc_error := None\<rparr>,
       Await (Get (47 # to_string (rc_filter s ''kind'')) (JObj (buildParams host (rc_filters s)))) k)"
  using assms by (simp_all add: record_definition_def js_or_def records_load_def await_call_def)

end
