(* ===== verification/ConsoleViews.thy ===== *)
theory ConsoleViews imports RegisterViews SystemControls DashboardPage LoginPage AppShell begin

text \<open>
  The templates of \<open>views/DashboardView.vue\<close>, \<open>views/SystemStatusView.vue\<close> with its card and its form, \<open>views/LoginView.vue\<close> and
  \<open>App.vue\<close>: the state of the service as it is shown, and where the numbers of the overview lead.
\<close>

section \<open>Failures\<close>

text \<open>\<open>ErrorState\<close>; \<open>retry\<close>: the page listens to its button.\<close>

definition error_state :: "(jserror \<Rightarrow> jstr) \<Rightarrow> jstr \<Rightarrow> bool \<Rightarrow> jserror \<Rightarrow> drawing" where
  "error_state engine title retry e = (let i = error_requestId e in beside
     [words title, interp (error_message engine e),
      v_if (truthy i) (beside [words ([0x8bf7, 0x6c42, 32, 73, 68, 0xff1a]), leaf ''CopyableText'' [(''value'', i)]]),
      v_if retry (element ''el-button'' [] (words ([0x91cd, 0x65b0, 0x52a0, 0x8f7d])))])"

definition load_failed :: jstr where "load_failed = [0x5185, 0x5bb9, 0x52a0, 0x8f7d, 0x5931, 0x8d25]"

section \<open>The overview\<close>

definition pulse_label :: "jsval \<Rightarrow> jstr" where
  "pulse_label status = (if strict_eq status (S ''ok'') then [0x6b63, 0x5e38] else if strict_eq status (S ''restricted'') then [0x53d7, 0x9650]
     else if strict_eq status (S ''error'') then [0x5f02, 0x5e38] else [0x6709, 0x5f85, 0x529e])"

definition pulse_node :: "dashboard_card \<Rightarrow> drawing" where
  "pulse_node c = element ''button'' [(''disabled'', JBool (dc_to c = []))] (beside
     [words (dc_label c), leaf ''StatusTag'' [(''status'', dc_status c), (''label'', JStr (pulse_label (dc_status c)))], interp (dc_value c)])"

text \<open>The query of the link of a step; the keys of the steps are lower case.\<close>

definition step_target :: "string \<Rightarrow> (string \<times> string) list" where
  "step_target key = (''kind'', if key = ''l0'' then ''raw-records'' else if key = ''candidate'' then ''candidates'' else ''memories'')
     # (if take 1 key = ''l'' \<and> key \<noteq> ''l0'' then [(''level'', ''L'' @ drop 1 key)] else [])"

definition step_button :: "intl \<Rightarrow> pipeline_step \<Rightarrow> drawing" where
  "step_button host s = element ''button'' [] (beside [words (ps_label s), words (compactNumber host (ps_value s)), words (ps_hint s)])"

definition attention_button :: "intl \<Rightarrow> dashboard_card \<Rightarrow> drawing" where
  "attention_button host c = element ''button'' [(''tone'', dc_status c)] (beside
     [words (dc_label c), words (compactNumber host (dc_value c)), words (dc_hint c)])"

definition audit_line :: "intl \<Rightarrow> jsval \<Rightarrow> drawing" where
  "audit_line host item = with_prop item ''event_type'' (\<lambda>t.
     andThen (readable_json host (js_or t (JStr ([0x5ba1, 0x8ba1, 0x4e8b, 0x4ef6])))) (\<lambda>event.
     andThen (readable_json host (js_or (get_prop item (js ''subject_type'')) (JStr ([0x7cfb, 0x7edf])))) (\<lambda>subject.
     andThen (readable_json host (get_prop item (js ''subject_id''))) (\<lambda>i.
     element ''button'' [] (beside [words event, words (subject @ [32, 0xb7, 32] @ i), leaf ''DateTime'' [(''value'', get_prop item (js ''created_at''))]])))))"

definition dashboard_view :: "(jserror \<Rightarrow> jstr) \<Rightarrow> intl \<Rightarrow> dashboard_page \<Rightarrow> drawing" where
  "dashboard_view engine host s = beside
     [v_if (truthy (db_lastUpdatedAt s)) (leaf ''DateTime'' [(''value'', db_lastUpdatedAt s)]),
      element ''el-button'' [(''loading'', JBool (db_refreshing s))] (words ([0x7acb, 0x5373, 0x5237, 0x65b0])),
      (case db_error s of
         Some e \<Rightarrow> if entries (db_dashboard s) = [] then error_state engine load_failed True e else Inr []
       | None \<Rightarrow> Inr []),
      v_if (db_error s = None \<or> entries (db_dashboard s) \<noteq> []) (beside
        [andThen (pulse s) (\<lambda>cs. beside (map pulse_node cs)),
         (case db_systemError s of None \<Rightarrow> Inr [] | Some e \<Rightarrow> error_state engine ([0x90e8, 0x5206, 0x8fd0, 0x884c, 0x72b6, 0x6001, 0x6682, 0x4e0d, 0x53ef, 0x7528]) True e),
         beside (map (step_button host) (pipelineSteps s)), beside (map (attention_button host) (attentionCards s)),
         element ''el-button'' [] (words ([0x67e5, 0x770b, 0x5168, 0x90e8])),
         if db_audits s \<noteq> [] then for_each (audit_line host) (db_audits s) else words ([0x6682, 0x65e0, 0x5ba1, 0x8ba1, 0x4e8b, 0x4ef6])])]"

section \<open>The state of the system\<close>

definition health_title :: "string \<Rightarrow> jstr" where
  "health_title overall = (if overall = ''ok'' then [0x5173, 0x952e, 0x94fe, 0x8def, 0x8fd0, 0x884c, 0x6b63, 0x5e38] else if overall = ''error'' then [0x53d1, 0x73b0, 0x9700, 0x8981, 0x7acb, 0x5373, 0x5904, 0x7406, 0x7684, 0x5f02,
     0x5e38]
     else [0x7cfb, 0x7edf, 0x53ef, 0x7528, 0xff0c, 0x4f46, 0x5b58, 0x5728, 0x5f85, 0x5904,
     0x7406, 0x4e8b, 0x9879])"

definition health_label :: "string \<Rightarrow> jstr" where
  "health_label overall = (if overall = ''ok'' then [0x5065, 0x5eb7] else if overall = ''error'' then [0x5f02, 0x5e38] else [0x6709, 0x5f85, 0x529e])"

definition check_label :: "jsval \<Rightarrow> jstr" where
  "check_label status = (if strict_eq status (S ''ok'') then [0x6b63, 0x5e38] else if strict_eq status (S ''error'') then [0x5f02, 0x5e38]
     else if strict_eq status (S ''pending'') then [0x5f85, 0x5904, 0x7406] else [0x672a, 0x77e5])"

definition check_card :: "health_check \<Rightarrow> drawing" where
  "check_card c = element ''button'' [(''disabled'', JBool (hc_to c = []))] (beside
     [words (hc_label c), leaf ''StatusTag'' [(''status'', hc_status c), (''label'', JStr (check_label (hc_status c)))],
      words (hc_value c), interp (hc_note c)])"

text \<open>The items of the details that are counts: their labels, where they are read, and their fields.\<close>

definition detail_counts :: "system_page \<Rightarrow> (jstr \<times> jsval) list" where
  "detail_counts s = (let d = system_decision s in
     [([0x5f85, 0x5904, 0x7406, 0x4efb, 0x52a1], sy_field s ''pending_jobs''), ([0x5f85, 0x6295, 0x9012, 32, 79, 117, 116, 98, 111, 120], sy_field s ''server_outbox''),
      ([0x6b7b, 0x4fe1, 0x4e8b, 0x4ef6], sy_field s ''dead_letters''), ([0x6a21, 0x578b, 0x5931, 0x8d25], get_prop d (js ''model_failures'')),
      ([0x51b3, 0x7b56, 0x91cd, 0x8bd5], get_prop d (js ''retries'')), ([0x81ea, 0x52a8, 0x53d1, 0x5e03], get_prop d (js ''auto_published'')),
      ([0x4eba, 0x5de5, 0x63a8, 0x7ffb], get_prop d (js ''human_overturned'')), ([0x5361, 0x6b7b, 0x4efb, 0x52a1], get_prop d (js ''stuck_jobs''))])"

definition described :: "jstr \<Rightarrow> drawing \<Rightarrow> drawing" where
  "described label d = element ''el-descriptions-item'' [(''label'', JStr label)] d"

definition system_details :: "intl \<Rightarrow> system_page \<Rightarrow> drawing" where
  "system_details host s = (let flags = get_prop (system_decision s) (js ''feature_flags'') in beside
     ([v_if (truthy (sy_requestId s)) (leaf ''CopyableText'' [(''value'', sy_requestId s)]),
       described ([0x6570, 0x636e, 0x5e93, 0x65b9, 0x8a00]) (andThen (readable_json host (js_or (sy_field s ''dialect'') (JStr ([0x672a, 0x77e5])))) words),
       described ([0x8fc1, 0x79fb, 0x7248, 0x672c]) (leaf ''CopyableText'' [(''value'', js_or (sy_field s ''latest_migration'') (JStr ([0x672a, 0x77e5])))])]
      @ map (\<lambda>(label, v). described label (interp (js_coalesce v (N 0)))) (detail_counts s)
      @ [described ([76, 49, 32, 0x81ea, 0x52a8, 0x53d1, 0x5e03, 0x5f00, 0x5173]) (words (if truthy (get_opt flags (js ''auto_publish_l1_enabled'')) then [0x5df2, 0x542f, 0x7528] else [0x672a, 0x542f, 0x7528])),
         described ([76, 49, 32, 0x7f6e, 0x4fe1, 0x5ea6, 0x9608, 0x503c]) (interp (js_coalesce (get_opt flags (js ''auto_publish_l1_threshold'')) (S ''0.80'')))]))"

text \<open>The login card; its buttons are behind the gate, and the hint of the second gate is shown to everybody else.\<close>

definition login_card :: "session \<Rightarrow> system_page \<Rightarrow> drawing" where
  "login_card ss s = (let feedback = sy_authFeedback s; i = get_prop feedback (js ''requestId''); act = (\<lambda>name. sy_authBusy s = js name) in beside
     [leaf ''StatusTag'' [(''status'', card_tagStatus (sy_authStatus s)), (''label'', card_statusText (sy_authStatus s))],
      interp (card_statusMessage (sy_authStatus s) (sy_authReason s) (sy_authMessage s)),
      v_if (truthy feedback) (element ''el-alert'' [(''title'', get_prop feedback (js ''message'')),
          (''type'', js_or (get_prop feedback (js ''type'')) (S ''info''))]
        (v_if (truthy i) (beside [words ([0x8bf7, 0x6c42, 32, 73, 68, 0xff1a]), interp i]))),
      andThen (gate_allowed ss (js ''admin'') [] []) (\<lambda>ok. if ok then beside
        [element ''el-button'' [(''loading'', JBool (act ''start'')), (''disabled'', JBool (\<not> card_start_enabled s))] (words (card_startLabel (sy_authStatus s))),
         element ''el-button'' [(''loading'', JBool (act ''cancel'')), (''disabled'', JBool (\<not> card_cancel_enabled s))] (words ([0x53d6, 0x6d88])),
         element ''el-button'' [(''loading'', JBool (act ''recheck'')), (''disabled'', JBool (card_busy (sy_authBusy s)))] (words ([0x91cd, 0x65b0, 0x68c0, 0x67e5]))]
       else words ([0x5f53, 0x524d, 0x4e3a, 0x53ea, 0x8bfb, 0x8bbf, 0x95ee]))])"

text \<open>The governance form.  The fields of a policy are read where they are; \<open>SystemPage\<close> keeps the form's own state with the page.\<close>

definition strategy_field :: "bool \<Rightarrow> governance_form \<Rightarrow> drawing" where
  "strategy_field off f = element ''el-select'' [(''modelValue'', get_prop (gf_policy f) (js ''strategy'')), (''disabled'', JBool off)]
     (beside (map (\<lambda>(v, off). leaf ''el-option'' [(''label'', JStr (if v = ''manual_review'' then [0x4eba, 0x5de5, 0x5ba1, 0x6838] else [0x81ea, 0x52a8, 0x53d1, 0x5e03, 0xff08, 0x4ec5, 32, 76, 49, 0xff09])),
       (''value'', S v), (''disabled'', JBool off)]) (strategy_options f)))"

definition policy_field :: "governance_form \<Rightarrow> form_control \<Rightarrow> drawing" where
  "policy_field f c = (if fc_tag c = ''el-select'' then strategy_field (fc_disabled c) f
     else leaf (fc_tag c) [(''modelValue'', get_prop (gf_policy f) (last (fc_model c))), (''disabled'', JBool (fc_disabled c))])"

definition policy_section :: "bool \<Rightarrow> governance_form \<Rightarrow> drawing" where
  "policy_section canEdit f = (if \<not> truthy (gf_policy f) then words ([0x9879, 0x76ee, 0x51b3, 0x7b56, 0x7b56, 0x7565, 0x5c1a, 0x672a, 0x8bfb, 0x53d6,
     0x3002])
     else let fault = form_policyValidationError f in beside
       [beside (map (policy_field f) (policy_controls canEdit f)),
        v_if (fault \<noteq> []) (leaf ''el-alert'' [(''title'', JStr fault)]),
        element ''el-button'' [(''loading'', JBool (gf_savingSection f = ''policy'')), (''disabled'', JBool (\<not> canEdit \<or> fault \<noteq> []))]
          (words ([0x4fdd, 0x5b58, 0x51b3, 0x7b56, 0x7b56, 0x7565]))])"

definition flag_field :: "bool \<Rightarrow> governance_form \<Rightarrow> jstr \<times> jstr \<Rightarrow> drawing" where
  "flag_field canEdit f item = andThen (get_or_throw (get_prop (gf_flags f) (js ''flags'')) (fst item)) (\<lambda>v. beside
     [words (snd item), leaf ''el-switch'' [(''modelValue'', v), (''disabled'', JBool (\<not> canEdit \<or> form_isSaving f))]])"

definition flags_section :: "bool \<Rightarrow> governance_form \<Rightarrow> drawing" where
  "flags_section canEdit f = (if \<not> truthy (gf_flags f) then words ([0x9879, 0x76ee, 0x529f, 0x80fd, 0x5f00, 0x5173, 0x5c1a, 0x672a, 0x8bfb, 0x53d6,
     0x3002])
     else beside
       [v_if (\<not> truthy (get_prop (gf_flags f) (js ''initialized''))) (leaf ''el-alert''
          [(''title'', JStr ([0x9879, 0x76ee, 0x529f, 0x80fd, 0x5f00, 0x5173, 0x8bb0, 0x5f55, 0x5c1a, 0x672a,
     0x521d, 0x59cb, 0x5316, 0xff0c, 0x5f53, 0x524d, 0x6309, 0x5173, 0x95ed, 0x5904,
     0x7406, 0xff1b, 0x4fdd, 0x5b58, 0x524d, 0x8bf7, 0x786e, 0x8ba4, 0x9879, 0x76ee,
     0x521d, 0x59cb, 0x5316, 0x72b6, 0x6001, 0x3002]))]),
        beside (map (flag_field canEdit f) SAFE_FEATURE_FLAG_DEFINITIONS),
        element ''el-button'' [(''loading'', JBool (gf_savingSection f = ''flags'')), (''disabled'', JBool (\<not> canEdit))] (words ([0x4fdd, 0x5b58, 0x529f, 0x80fd, 0x5f00, 0x5173]))])"

definition governance_view :: "(jserror \<Rightarrow> jstr) \<Rightarrow> jstr \<Rightarrow> bool \<Rightarrow> governance_form \<Rightarrow> drawing" where
  "governance_view engine key canEdit f = beside
     [words ([0x9879, 0x76ee, 0xff1a] @ (if key \<noteq> [] then key else [0x672a, 0x9009, 0x62e9])),
      if key = [] then leaf ''el-alert'' [(''title'', JStr ([0x8bf7, 0x5148, 0x5728, 0x9876, 0x680f, 0x9009, 0x62e9, 0x9879, 0x76ee, 0xff0c,
     0x624d, 0x80fd, 0x67e5, 0x770b, 0x6216, 0x914d, 0x7f6e, 0x9879, 0x76ee, 0x6cbb,
     0x7406, 0x3002]))]
      else beside
        [v_if (truthy (form_errorMessage engine f)) (leaf ''el-alert'' [(''title'', form_errorMessage engine f)]),
         v_if (gf_error f \<noteq> None) (element ''details'' [] (interp (form_debugText engine f))),
         policy_section canEdit f, flags_section canEdit f]]"

definition system_view :: "(jserror \<Rightarrow> jstr) \<Rightarrow> intl \<Rightarrow> session \<Rightarrow> system_page \<Rightarrow> drawing" where
  "system_view engine host ss s = beside
     [v_if (truthy (sy_lastUpdatedAt s)) (leaf ''DateTime'' [(''value'', sy_lastUpdatedAt s)]),
      element ''el-button'' [(''loading'', JBool (sy_refreshing s))] (words ([0x7acb, 0x5373, 0x5237, 0x65b0])),
      if parts_shown s then beside
        [words (health_title (overallStatus s)),
         leaf ''StatusTag'' [(''status'', S (overallStatus s)), (''label'', JStr (health_label (overallStatus s)))],
         login_card ss s, andThen (system_checks host s) (\<lambda>cs. beside (map check_card cs)), system_details host s,
         andThen (isAdmin ss) (\<lambda>admin. governance_view engine (system_projectKey s) admin (form_of s))]
      else (case sy_error s of None \<Rightarrow> Inr [] | Some e \<Rightarrow> error_state engine load_failed True e)]"

section \<open>The login and the frame\<close>

definition login_view :: "(jserror \<Rightarrow> jstr) \<Rightarrow> login_page \<Rightarrow> drawing" where
  "login_view engine s = beside
     [v_if (strict_eq (lookup_prop (lf_query s) (js ''reason'')) (S ''session_expired'') \<and> lf_error s = None)
        (leaf ''el-alert'' [(''title'', JStr ([0x767b, 0x5f55, 0x72b6, 0x6001, 0x5df2, 0x5931, 0x6548, 0xff0c, 0x8bf7, 0x91cd,
     0x65b0, 0x767b, 0x5f55, 0x3002]))]),
      (case lf_error s of None \<Rightarrow> Inr [] | Some e \<Rightarrow> error_state engine ([0x767b, 0x5f55, 0x5931, 0x8d25]) False e),
      leaf ''el-input'' [(''modelValue'', JStr (lf_username s)), (''disabled'', JBool (lf_loading s))],
      leaf ''el-input'' [(''modelValue'', JStr (lf_password s)), (''disabled'', JBool (lf_loading s))],
      element ''el-button'' [(''loading'', JBool (lf_loading s))] (words ([0x767b, 0x5f55, 0x7ba1, 0x7406, 0x63a7, 0x5236, 0x53f0]))]"

definition nav_group :: "jstr \<times> nav_item list \<Rightarrow> drawing" where
  "nav_group g = beside (words (fst g) # map (\<lambda>item. element ''el-menu-item'' [(''index'', JStr (nav_to item))] (words (nav_label item))) (snd g))"

definition sidebar_view :: "app_shell \<Rightarrow> drawing" where
  "sidebar_view s = beside
     [v_if (ap_mobileOpen s) (leaf ''button'' []),
      element ''el-menu'' [(''default-active'', activeMenu s), (''collapse'', JBool (ap_collapsed s \<and> \<not> ap_isMobile s))]
        (andThen (visibleGroups (session (ap_world s))) (\<lambda>gs. beside (map nav_group gs)))]"

definition toggle_label :: "app_shell \<Rightarrow> jstr" where
  "toggle_label s = (if ap_isMobile s then (if ap_mobileOpen s then [0x5173, 0x95ed, 0x5bfc, 0x822a] else [0x6253, 0x5f00, 0x5bfc, 0x822a])
     else if ap_collapsed s then [0x5c55, 0x5f00, 0x5bfc, 0x822a] else [0x6536, 0x8d77, 0x5bfc, 0x822a])"

text \<open>The choice of the context; whoever may see every project may also choose all of them.\<close>

definition context_view :: "intl \<Rightarrow> app_shell \<Rightarrow> drawing" where
  "context_view host s = (let c = ap_ctx s in beside
     [element ''el-select'' [(''modelValue'', JStr (projectKey c)), (''loading'', JBool (loadingProjects c))] (beside
        [v_if (strict_eq (get_opt (app_me s) (js ''project_key'')) (S ''*'')) (option_field (JStr ([0x5168, 0x90e8, 0x6388, 0x6743, 0x9879, 0x76ee])) (S '''')),
         for_each project_choice (projects c)]),
      element ''el-select'' [(''modelValue'', JStr (scopeId c)), (''loading'', JBool (loadingScopes c)), (''disabled'', JBool (projectKey c = []))]
        (for_each (scope_choice host) (scopes c))])"

definition user_view :: "app_shell \<Rightarrow> drawing" where
  "user_view s = (let ss = session (ap_world s) in beside
     [andThen (isReadOnly ss) (\<lambda>only. v_if only (words ([0x53ea, 0x8bfb, 0x8bbf, 0x95ee]))), interp (displayName ss),
      words (if strict_eq (get_opt (me ss) (js ''auth_type'')) (S ''session'') then [0x7ba1, 0x7406, 0x4f1a, 0x8bdd] else [66, 101, 97, 114, 101, 114, 32, 0x8eab, 0x4efd]), words ([0x9000, 0x51fa, 0x767b, 0x5f55])])"

definition app_view :: "(jserror \<Rightarrow> jstr) \<Rightarrow> intl \<Rightarrow> app_shell \<Rightarrow> drawing" where
  "app_view engine host s = (if barePage s then leaf ''RouterView'' [] else beside
     [sidebar_view s, leaf ''el-button'' [(''aria-label'', JStr (toggle_label s))], interp (app_section s), interp (app_title s),
      context_view host s, user_view s,
      (case restoreError (session (ap_world s)) of None \<Rightarrow> Inr []
         | Some e \<Rightarrow> v_if (\<not> strict_eq (error_status e) (N 401)) (leaf ''el-alert'' [(''title'', error_message engine e)])),
      leaf ''RouterView'' []])"

section \<open>Where the numbers lead\<close>

text \<open>The ledger at a kind, and a link whose parameters are the kind and filters that the ledger shows for it.\<close>

definition ledger_at :: "string \<Rightarrow> records_page" where
  "ledger_at kind = (records_initial [])\<lparr>rc_filters := put records_defaults (js ''kind'') (S kind)\<rparr>"

definition link_fits :: "(string \<times> string) list \<Rightarrow> bool" where
  "link_fits q = (case q of [] \<Rightarrow> False | (k, kind) # rest \<Rightarrow> k = ''kind'' \<and> kind \<in> set record_kinds \<and> fst ` set rest \<subseteq> visible_filters (ledger_at kind))"

lemma ledger_kind: "rc_filter (ledger_at kind) ''kind'' = S kind"
  by (simp add: ledger_at_def lookup_prop_def)

lemma link_fits_iff:
  assumes "kind \<in> set record_kinds"
  shows "link_fits ((''kind'', kind) # rest) \<longleftrightarrow> (\<forall>(k, v) \<in> set rest. k \<in> visible_filters (ledger_at kind))"
  using assms by (auto simp: link_fits_def)

text \<open>C37. Every step of the pipeline on the overview links to a kind of the ledger and to filters that the ledger shows for this kind.
  Of the cards that link to the ledger the same holds for all but one: the card of the decision queue.\<close>

theorem ledger_links:
  "list_all (\<lambda>p. link_fits (step_target (ps_key p))) (pipelineSteps s)
    \<and> map dc_key (filter (\<lambda>c. dc_to c = ''/records'' \<and> \<not> link_fits (dc_query c)) (attentionCards s)) = [''decision_queue'']"
proof -
  have kinds: "''raw-records'' \<in> set record_kinds" "''candidates'' \<in> set record_kinds" "''memories'' \<in> set record_kinds" "''jobs'' \<in> set record_kinds"
    "''outbox-events'' \<in> set record_kinds" "''audit-events'' \<in> set record_kinds" by (simp_all add: record_kinds_def)
  note fits = kinds [THEN link_fits_iff] and shown = visible_iff [OF _ ledger_kind]
  have "list_all (\<lambda>p. link_fits (step_target (ps_key p))) (pipelineSteps s)"
    by (simp add: pipelineSteps_def Let_def step_target_def fits shown kinds)
  moreover have "map dc_key (filter (\<lambda>c. dc_to c = ''/records'' \<and> \<not> link_fits (dc_query c)) (attentionCards s)) = [''decision_queue'']"
    by (simp add: attentionCards_def Let_def fits shown kinds)
  ultimately show ?thesis ..
qed

section \<open>What is shown\<close>

text \<open>Who may not read the state of the system is told that for the database and the migration; for the queues the overview shows
  him zeros as if they were known.\<close>

theorem unread_queues_idle:
  assumes "canReadSystem s = Inr False" "db_system s = JObj []"
  shows "\<exists>api database migration jobs outbox dead. pulse s = Inr [api, database, migration, jobs, outbox, dead]
    \<and> pulse_label (dc_status database) = [0x53d7, 0x9650] \<and> pulse_label (dc_status migration) = [0x53d7, 0x9650]
    \<and> pulse_label (dc_status jobs) = [0x6b63, 0x5e38] \<and> dc_value jobs = JStr ([48, 32, 0x4e2a, 0x5f85, 0x5904, 0x7406])
    \<and> pulse_label (dc_status outbox) = [0x6b63, 0x5e38] \<and> dc_value outbox = JStr ([48, 32, 0x4e2a, 0x5f85, 0x6295, 0x9012])"
proof -
  have none: "get_prop (JObj []) (js ''pending_jobs'') = JUndef" "get_prop (JObj []) (js ''server_outbox'') = JUndef" by code_simp+
  have idle: "nonzero JUndef = False" "js_coalesce JUndef (N 0) = N 0" "to_string (N 0) = js ''0''" by code_simp+
  have zero: "num_to_string (Fin 0) = [48]" by code_simp
  have ok: "strict_eq (S ''restricted'') (S ''ok'') = False" by code_simp
  show ?thesis using assms by (simp add: pulse_def Let_def none idle ok pulse_label_def) (simp add: zero)
qed

lemma leaves_draw [simp]:
  "draws (pulse_node c)" "draws (step_button host p)" "draws (attention_button host a)" "draws (check_card h)" "draws (error_state engine title retry e)"
  "draws (nav_group g)" "draws (described label d) = draws d"
  by (simp_all add: pulse_node_def step_button_def attention_button_def check_card_def error_state_def nav_group_def described_def
      draws_beside Let_def)

text \<open>The overview is drawn if its permissions can be read and every audit event can be, and after a failed first load in any case.\<close>

theorem dashboard_drawn:
  assumes "canReadSystem s = Inr can"
  shows "draws (dashboard_view engine host s) \<longleftrightarrow> db_error s \<noteq> None \<and> entries (db_dashboard s) = [] \<or> (\<forall>a \<in> set (db_audits s). draws (audit_line host a))"
proof -
  have "draws (andThen (pulse s) (\<lambda>cs. beside (map pulse_node cs)))"
    using assms by (auto simp: pulse_def Let_def draws_beside)
  then show ?thesis by (auto simp: dashboard_view_def draws_beside split: option.split)
qed

text \<open>The form of the login is always drawn; a failure takes the place of the hint about the expired session.\<close>

theorem login_drawn:
  "draws (login_view engine s)"
  "lf_error s = Some e \<Longrightarrow> login_view engine s = login_view engine (s\<lparr>lf_query := []\<rparr>)"
  by (auto simp: login_view_def lookup_prop_def split: option.split)

text \<open>The frame is drawn if the permissions can be read and no project and no scope is missing.\<close>

theorem app_drawn:
  assumes "\<not> barePage s" "visibleGroups (session (ap_world s)) = Inr gs" "isReadOnly (session (ap_world s)) = Inr only"
  shows "draws (app_view engine host s) \<longleftrightarrow> present (projects (ap_ctx s)) \<and> (\<forall>x \<in> set (scopes (ap_ctx s)). draws (scope_choice host x))"
  using assms by (auto simp: app_view_def sidebar_view_def context_view_def user_view_def present_def draws_beside Let_def split: option.split)

text \<open>The form is drawn whatever the policy is, and for every set of switches that has its table of switches.\<close>

theorem governance_drawn:
  "draws (governance_view engine key canEdit f) \<longleftrightarrow> key = [] \<or> \<not> truthy (gf_flags f) \<or> \<not> is_nullish (get_prop (gf_flags f) (js ''flags''))"
proof -
  have control: "draws (policy_field f c)" for c by (auto simp: policy_field_def strategy_field_def draws_beside)
  have item: "draws (flag_field canEdit f x) \<longleftrightarrow> \<not> is_nullish (get_prop (gf_flags f) (js ''flags''))" for x
    by (auto simp: flag_field_def draws_andThen get_or_throw_def is_nullish_def)
  obtain k l where "(k, l) \<in> set SAFE_FEATURE_FLAG_DEFINITIONS" by (auto simp: SAFE_FEATURE_FLAG_DEFINITIONS_def)
  then show ?thesis
    by (auto simp: governance_view_def policy_section_def flags_section_def draws_beside control item Let_def)
qed

end
