(* ===== verification/Spec2Isabelle.thy ===== *)
theory Spec2Isabelle imports DecisionPolicy MarkdownSafety RouterGuard ContextStore ContractServices FormatLaws Tooling BuildConfig ServicesLaws TaskRunsPage ImportUpload SystemLaws RecordsLaws ProjectsLaws DashboardLaws LoginPage AppLaws TaskDetailLaws ContractControls ImportControls SystemControls ReadingPages Widgets TaskDetailView RevisionDetailView ServiceDetailView ListViews ImportDisplay RegisterViews ConsoleViews begin

text \<open>
  The administration console of CodexMemory (\<open>apps/admin-web/src\<close>), a Vue application in the browser, and the
  self-check of the repository (\<open>tools/static_check.js\<close>).

  \<^bold>\<open>The program and its parts.\<close>  Every request goes through \<open>api.js\<close>.  The session store (\<open>stores/session.js\<close>) holds the token and
  the identity and mirrors them in the local storage; the router (\<open>router.js\<close>) asks it before every navigation; the context
  store (\<open>stores/context.js\<close>) holds the projects, the chosen project and its scopes.  \<open>App.vue\<close> is the frame: it keeps the
  context store in step with the address and ends sessions.  The pages (\<open>views/*.vue\<close>) load lists and details, keep their
  filters in the address (\<open>composables/useRouteQuery.js\<close>), and send the few writing requests: import and review, creation,
  upload and publication of contracts, the settings of a project, and the login of the worker.  What is shown goes through
  \<open>utils/format.js\<close> and \<open>utils/markdown.js\<close>, whose result is the only text the console inserts as HTML.

  \<^bold>\<open>Values.\<close>  JavaScript values are the datatype \<open>jsval\<close> (\<open>JsValues\<close>), numbers are doubles with one zero (\<open>jnum\<close>, \<open>JsNumbers\<close>; rounding
  is to the nearest double, ties to even; laws in \<open>NumberLaws\<close> and \<open>NumberOps\<close>), texts are lists of UTF-16 units (\<open>jstr\<close>,
  \<open>JsStrings\<close>), JSON is in \<open>JsJson\<close> and \<open>JsonParse\<close>.  What may throw returns a sum (\<open>Prelude\<close>): \<open>Inl\<close> is the exception.  Objects
  whose identity matters live in an explicit heap (\<open>Format\<close>).

  \<^bold>\<open>Pages and their runs.\<close>  An \<open>async\<close> function is a \<open>task\<close> (\<open>Async\<close>): it reads and updates the state, awaits calls, and ends with a value
  or an exception; \<open>Tick\<close> is the wait for another \<open>async\<close> function.  \<open>exec\<close> runs one task against a server that answers from what
  was asked before; \<open>page_run\<close> is the step relation of a page: it is mounted, any handler may start at any time, and any
  waiting task may get any suitable answer, in any order.  A task runs undisturbed between two awaits.  Assumed of answers
  (\<open>suits\<close>): navigations and the actions of the context store fulfil, \<open>Promise.all\<close> and \<open>Promise.allSettled\<close> yield one result per call; the
  server is otherwise arbitrary.  Timers, listeners and watchers are events that may come at any time, so every theorem
  about \<open>page_run\<close> covers more runs than the browser has.

  \<^bold>\<open>Contracts.\<close>  \<open>PageContracts\<close> states what a handler has to obey, one handler at a time, and concludes for every interleaving: \<open>careful_page\<close>
  (an invariant, and a condition on every call that is sent), \<open>locked_page\<close> (a flag that admits one critical call at a time),
  \<open>settling_page\<close> (a flag that is clear when nothing is pending), \<open>numbered_page\<close> (loads with a sequence number: the newest wins).
  Further interfaces: \<open>cell_store\<close> (the local storage), \<open>admin_call\<close> (what every operation of the API client promises), \<open>param_filter\<close>
  (the parameters of a list), \<open>regex_matcher\<close> and \<open>markup_pass\<close> (the passes of the Markdown renderer), \<open>tolerant\<close> (a condition that reading
  calls meet), \<open>emulation\<close> (one page relation simulates another).  Each is interpreted on the definitions of the components.

  \<^bold>\<open>Which theory models what.\<close>
  \<^item> \<open>ApiClient\<close>: \<open>api.js\<close>.  A 401 is announced exactly once; the operations share one contract.
  \<^item> \<open>SessionStore\<close>: \<open>stores/session.js\<close>.  Token, identity and storage agree in every reachable state; one \<open>GET /me\<close> at a time, until
    a logout; late answers of a former session.
  \<^item> \<open>RouterGuard\<close>: \<open>router.js\<close>, \<open>components/PermissionGate.vue\<close>.  Who enters which page.
  \<^item> \<open>ContextStore\<close>, \<open>AppShell\<close>, \<open>AppLaws\<close>: \<open>stores/context.js\<close>, \<open>App.vue\<close>.  The store agrees with the address after every change; how a session ends.
  \<^item> \<open>DecisionPolicy\<close>: \<open>decisionPolicy.js\<close>.  Normalised policies are valid, payloads are exact.
  \<^item> \<open>Markdown\<close>, \<open>MarkdownSafety\<close>: \<open>utils/markdown.js\<close>.  The HTML is safe for every text.
  \<^item> \<open>Format\<close>, \<open>FormatLaws\<close>: \<open>utils/format.js\<close>.  The renderer with its set of visited objects agrees with the recursion over the tree.
  \<^item> \<open>TaskRuns\<close>, \<open>ContractServices\<close>: \<open>taskRuns.js\<close>, \<open>contractServices.js\<close>, \<open>codexAuthStatus.js\<close>.
  \<^item> \<open>Composables\<close>: the two composables.  Filters survive the address; one interval while the page is visible.
  \<^item> \<open>ServicesPage\<close>/\<open>ServicesLaws\<close>, \<open>ServiceDetailPage\<close>/\<open>ServiceDetailLaws\<close>, \<open>RevisionDetailPage\<close>/\<open>RevisionDetailLaws\<close>: the contract pages.  One creation, one checked upload,
    one guarded publication; the outcome of a publication on every answer.
  \<^item> \<open>TaskRunsPage\<close>, \<open>TaskDetailPage\<close>/\<open>TaskDetailLaws\<close>: the pages of the task runs.
  \<^item> \<open>ImportCodec\<close>, \<open>ImportPage\<close>, \<open>ImportLaws\<close>, \<open>ImportUpload\<close>: \<open>views/ImportView.vue\<close>.  The upload delivers the file byte by byte, batches start complete,
    decisions carry reasons, selections are bounded.
  \<^item> \<open>SystemPage\<close>/\<open>SystemLaws\<close>, \<open>RecordsPage\<close>/\<open>RecordsLaws\<close>, \<open>ProjectsPage\<close>/\<open>ProjectsLaws\<close>, \<open>DashboardPage\<close>/\<open>DashboardLaws\<close>, \<open>LoginPage\<close>: the other pages.
  \<^item> \<open>Controls\<close>, \<open>ImportControls\<close>, \<open>ContractControls\<close>, \<open>SystemControls\<close>: the controls of the pages that write, with the conditions under which their
    templates show and enable them.  Without the permission of an administrator they only read; an action fits its row.
    On the import page every run of the controls is a run of the handlers (\<open>Emulation\<close>), so all that is proved of the handlers holds for users.
    \<open>ReadingPages\<close>: the other pages only read, whoever is signed in.
  \<^item> \<open>Drawing\<close>: what a template draws (texts, values, elements with the properties that matter, loops, conditions).  \<open>ListViews\<close>, \<open>TaskDetailView\<close>,
    \<open>ServiceDetailView\<close>, \<open>RevisionDetailView\<close>, \<open>ImportDisplay\<close>, \<open>RegisterViews\<close>, \<open>ConsoleViews\<close>: the templates of the pages, of the frame and of the
    login as functions of the state.  A page is drawn exactly if no row it shows is missing; the filters on the screen are the filters of the
    request; the links of the overview fit the ledger; the remark at a revision names the true reason; percentages stay in their range.
  \<^item> \<open>Widgets\<close>: the small components, among them the confirmation dialog.  \<open>Bootstrap\<close>: \<open>main.js\<close>, and which controls of the governance
    form work in the console it starts.
  \<^item> \<open>Tooling\<close>: \<open>tools/static_check.js\<close>.  \<open>BuildConfig\<close>: \<open>vite.config.js\<close>; the requests of the API client reach the proxy it sets up.

  \<^bold>\<open>State and operations.\<close>  Each page has a record with one field per \<open>ref\<close> of its script (prefixed, for instance \<open>ip_\<close> for the import page), its
  address and identity where it reads them, a field for navigations that are not awaited, one definition per function under
  its name in the source (prefixed where names repeat), and the relation of its handlers.  Computed values are functions of
  the record.

  \<^bold>\<open>Bounds and fuel.\<close>  \<open>json_parse\<close> has fuel \<open>2n + 1\<close> for \<open>n\<close> units, one for each value and each list of members, and every call
  consumes a unit.  The renderer of readable values stops at the source's own depth of six levels; the walks over the heap terminate because the visited objects
  grow.  Cutting a content into parts terminates by its length; page numbers and sizes are exact below \<open>2 ^ 52\<close>.

  \<^bold>\<open>Parameters.\<close>  \<open>fetch\<close> and the URL parser, the clock and the texts of dates (\<open>intl\<close>), the texts of the engine's own exceptions, how the
  router writes a query into the address (\<open>router_law\<close>: texts stay, numbers become texts), how Vue finds the component of a tag and
  what the widget library calls its components (\<open>finds_registered\<close>).  Project keys and scopes of the import page are taken to be texts.

  \<^bold>\<open>Not modelled.\<close>  A drawing keeps texts, values, conditions, loops, the components and the properties that carry data or enable controls; labels of form
  fields and columns, placeholders, classes, icons, focus and the DOM are left out, and so are lazy imports and layout components without
  logic.  An exception in one part of a template is an exception of its whole drawing, where Vue leaves that part empty.  That a run of the controls
  is a run of the handlers is proved for the import page, the pages of one service and of one revision, and the system page.  The Python service
  (\<open>src/codex_memory\<close>) with its migrations and scripts is a separate program: it is the arbitrary server of the runs.
\<close>

end
